(* ===== verification/GoStrings.thy ===== *)
theory GoStrings
  imports Prelude
begin

text \<open>
  Go strings. A Go \<open>string\<close> is a sequence of bytes, which is what HOL's \<open>string\<close>
  (a list of 8-bit characters) is; \<open>len\<close> is \<^const>\<open>length\<close>, slicing is \<^const>\<open>take\<close> and
  \<^const>\<open>drop\<close>. The theory holds the functions of the packages \<open>strings\<close> and
  \<open>unicode/utf8\<close> that the sources call: prefix and suffix tests, \<open>Split\<close>, \<open>Trim\<close>,
  \<open>TrimSpace\<close>, ASCII case folding, and the conversion between strings and runes.
\<close>

section \<open>Prefixes, suffixes, substrings\<close>

definition has_prefix :: "string \<Rightarrow> string \<Rightarrow> bool" where
  "has_prefix s p \<longleftrightarrow> take (length p) s = p"

definition has_suffix :: "string \<Rightarrow> string \<Rightarrow> bool" where
  "has_suffix s p \<longleftrightarrow> has_prefix (rev s) (rev p)"

lemma has_prefix_iff: "has_prefix s p \<longleftrightarrow> (\<exists>t. s = p @ t)"
  by (metis append_eq_conv_conj append_take_drop_id has_prefix_def)

lemma has_suffix_iff: "has_suffix s p \<longleftrightarrow> (\<exists>t. s = t @ p)"
  by (simp add: has_suffix_def has_prefix_iff) (metis rev_append rev_rev_ident)

lemma has_prefix_append [simp]: "has_prefix (p @ s) p"
  by (simp add: has_prefix_def)

lemma has_suffix_append [simp]: "has_suffix (s @ p) p"
  by (auto simp: has_suffix_iff)

fun contains_sub :: "string \<Rightarrow> string \<Rightarrow> bool" where
  "contains_sub [] p \<longleftrightarrow> p = []"
| "contains_sub (c # s) p \<longleftrightarrow> has_prefix (c # s) p \<or> contains_sub s p"

text \<open>\<open>strings.Split\<close> with a one-byte separator.\<close>

fun split_on :: "char \<Rightarrow> string \<Rightarrow> string list" where
  "split_on d [] = [[]]"
| "split_on d (c # s) =
     (if c = d then [] # split_on d s
      else (case split_on d s of [] \<Rightarrow> [[c]] | w # ws \<Rightarrow> (c # w) # ws))"

lemma split_on_ne [simp]: "split_on d s \<noteq> []"
  by (induction s) (auto split: list.splits)

fun join_with :: "string \<Rightarrow> string list \<Rightarrow> string" where
  "join_with d [] = []"
| "join_with d [w] = w"
| "join_with d (w # v # ws) = w @ d @ join_with d (v # ws)"

lemma join_with_Cons: "ws \<noteq> [] \<Longrightarrow> join_with d (w # ws) = w @ d @ join_with d ws"
  by (cases ws) auto

lemma join_split_on: "join_with [d] (split_on d s) = s"
proof (induction s)
  case (Cons c s)
  show ?case
  proof (cases "c = d")
    case True
    then show ?thesis using Cons by (simp add: join_with_Cons)
  next
    case False
    obtain w ws where ws: "split_on d s = w # ws"
      by (cases "split_on d s") auto
    with False Cons show ?thesis by (cases ws) auto
  qed
qed simp

lemma split_on_append_sep: "split_on d (a @ d # b) = split_on d a @ split_on d b"
proof (induction a)
  case (Cons c a)
  then show ?case by (cases "split_on d a") auto
qed simp

lemma split_on_single: "d \<notin> set w \<Longrightarrow> split_on d w = [w]"
  by (induction w) auto

lemma split_on_tail:
  "\<forall>t \<in> set ts. d \<notin> set t \<Longrightarrow> split_on d (a @ concat (map (\<lambda>t. d # t) ts)) = split_on d a @ ts"
  by (induction ts arbitrary: a) (simp_all add: split_on_append_sep split_on_single)

lemma split_on_no_sep: "w \<in> set (split_on d s) \<Longrightarrow> d \<notin> set w"
  by (induction s arbitrary: w) (auto split: if_splits list.splits)

section \<open>Trimming\<close>

text \<open>\<open>strings.Trim(s, cutset)\<close> for an ASCII cutset.\<close>

definition trim_cutset :: "string \<Rightarrow> string \<Rightarrow> string" where
  "trim_cutset s cs =
     rev (dropWhile (\<lambda>c. c \<in> set cs) (rev (dropWhile (\<lambda>c. c \<in> set cs) s)))"

text \<open>
  \<open>strings.TrimSpace\<close> removes every leading and trailing rune with the Unicode
  property White_Space. On bytes: as long as the string starts (ends) with the UTF-8
  encoding of one of them, that encoding is dropped.
\<close>

definition space_encodings :: "string list" where
  "space_encodings =
     [[CHR 0x09], [CHR 0x0A], [CHR 0x0B], [CHR 0x0C], [CHR 0x0D], [CHR 0x20],
      [CHR 0xC2, CHR 0x85], [CHR 0xC2, CHR 0xA0],
      [CHR 0xE1, CHR 0x9A, CHR 0x80],
      [CHR 0xE2, CHR 0x80, CHR 0x80], [CHR 0xE2, CHR 0x80, CHR 0x81],
      [CHR 0xE2, CHR 0x80, CHR 0x82], [CHR 0xE2, CHR 0x80, CHR 0x83],
      [CHR 0xE2, CHR 0x80, CHR 0x84], [CHR 0xE2, CHR 0x80, CHR 0x85],
      [CHR 0xE2, CHR 0x80, CHR 0x86], [CHR 0xE2, CHR 0x80, CHR 0x87],
      [CHR 0xE2, CHR 0x80, CHR 0x88], [CHR 0xE2, CHR 0x80, CHR 0x89],
      [CHR 0xE2, CHR 0x80, CHR 0x8A], [CHR 0xE2, CHR 0x80, CHR 0xA8],
      [CHR 0xE2, CHR 0x80, CHR 0xA9], [CHR 0xE2, CHR 0x80, CHR 0xAF],
      [CHR 0xE2, CHR 0x81, CHR 0x9F], [CHR 0xE3, CHR 0x80, CHR 0x80]]"

function strip_prefixes :: "string list \<Rightarrow> string \<Rightarrow> string" where
  "strip_prefixes es s =
     (case find (\<lambda>e. e \<noteq> [] \<and> has_prefix s e) es of
        None \<Rightarrow> s
      | Some e \<Rightarrow> strip_prefixes es (drop (length e) s))"
  by pat_completeness auto

termination strip_prefixes
proof (relation "measure (\<lambda>(_, s). length s)")
  fix es :: "string list" and s e
  assume "find (\<lambda>e. e \<noteq> [] \<and> has_prefix s e) es = Some e"
  then have "e \<noteq> []" "has_prefix s e" using find_set by fastforce+
  then show "((es, drop (length e) s), (es, s)) \<in> measure (\<lambda>(_, s). length s)"
    by (auto simp: has_prefix_iff)
qed simp

declare strip_prefixes.simps [simp del]

definition trim_space :: "string \<Rightarrow> string" where
  "trim_space s =
     rev (strip_prefixes (map rev space_encodings) (rev (strip_prefixes space_encodings s)))"

lemma strip_prefixes_None:
  "find (\<lambda>e. e \<noteq> [] \<and> has_prefix s e) es = None \<Longrightarrow> strip_prefixes es s = s"
  by (subst strip_prefixes.simps) simp

lemma strip_prefixes_Some:
  "find (\<lambda>e. e \<noteq> [] \<and> has_prefix s e) es = Some e \<Longrightarrow> strip_prefixes es s = strip_prefixes es (drop (length e) s)"
  by (subst strip_prefixes.simps) simp

lemma strip_prefixes_length: "length (strip_prefixes es s) \<le> length s"
proof (induction es s rule: strip_prefixes.induct)
  case (1 es s)
  show ?case
  proof (cases "find (\<lambda>e. e \<noteq> [] \<and> has_prefix s e) es")
    case None
    then show ?thesis by (simp add: strip_prefixes_None)
  next
    case (Some e)
    have "length (strip_prefixes es (drop (length e) s)) \<le> length (drop (length e) s)" by (rule 1 [OF Some])
    also have "\<dots> \<le> length s" by simp
    finally show ?thesis by (simp only: strip_prefixes_Some [OF Some])
  qed
qed

text \<open>\<open>strings.Fields\<close>: the maximal runs without white space. No encoding of a space occurs inside
  another rune, so the scan may look at every byte.\<close>

fun field_split :: "string \<Rightarrow> string \<times> string" where
  "field_split [] = ([], [])"
| "field_split (c # s) =
     (if list_ex (has_prefix (c # s)) space_encodings then ([], c # s)
      else (case field_split s of (w, r) \<Rightarrow> (c # w, r)))"

lemma field_split_length: "length (fst (field_split s)) + length (snd (field_split s)) = length s"
  by (induction s) (auto split: prod.splits)

function go_fields :: "string \<Rightarrow> string list" where
  "go_fields s =
     (case field_split (strip_prefixes space_encodings s) of
        (w, r) \<Rightarrow> if w = [] then [] else w # go_fields r)"
  by pat_completeness auto

termination go_fields
proof (relation "measure length")
  fix s w r
  assume "(w, r) = field_split (strip_prefixes space_encodings s)" and "w \<noteq> []"
  then show "(r, s) \<in> measure length"
    using field_split_length [of "strip_prefixes space_encodings s"] strip_prefixes_length [of space_encodings s]
    by (cases "field_split (strip_prefixes space_encodings s)") (auto simp: length_greater_0_conv [symmetric] simp del: length_greater_0_conv)
qed simp

declare go_fields.simps [simp del]

lemma strip_prefixes_stable:
  "find (\<lambda>e. e \<noteq> [] \<and> has_prefix (strip_prefixes es s) e) es = None"
proof (induction es s rule: strip_prefixes.induct)
  case (1 es s)
  show ?case
  proof (cases "find (\<lambda>e. e \<noteq> [] \<and> has_prefix s e) es")
    case None
    with strip_prefixes_None [OF None] show ?thesis by simp
  next
    case (Some e)
    with 1 [OF Some] strip_prefixes_Some [OF Some] show ?thesis by simp
  qed
qed

lemma strip_prefixes_suffix: "\<exists>p. s = p @ strip_prefixes es s"
proof (induction es s rule: strip_prefixes.induct)
  case (1 es s)
  show ?case
  proof (cases "find (\<lambda>e. e \<noteq> [] \<and> has_prefix s e) es")
    case None
    then show ?thesis by (simp add: strip_prefixes_None)
  next
    case (Some e)
    then obtain t where t: "s = e @ t"
      using find_set [OF Some] by (auto simp: has_prefix_iff)
    obtain p where "drop (length e) s = p @ strip_prefixes es (drop (length e) s)"
      using 1 [OF Some] by blast
    then have "s = (e @ p) @ strip_prefixes es s"
      using t strip_prefixes_Some [OF Some] by simp
    then show ?thesis by blast
  qed
qed

lemma trim_space_sub: "\<exists>p q. s = p @ trim_space s @ q"
proof -
  obtain p where p: "s = p @ strip_prefixes space_encodings s"
    using strip_prefixes_suffix by blast
  let ?m = "strip_prefixes space_encodings s"
  obtain q where q: "rev ?m = q @ strip_prefixes (map rev space_encodings) (rev ?m)"
    using strip_prefixes_suffix by blast
  have "?m = trim_space s @ rev q"
    unfolding trim_space_def by (metis q rev_append rev_rev_ident)
  with p show ?thesis by metis
qed

lemma trim_space_Nil [simp]: "trim_space [] = []"
  using trim_space_sub [of "[]"] by simp

lemma find_None_prefix:
  assumes "find (\<lambda>e. e \<noteq> [] \<and> has_prefix (t @ q) e) es = None"
  shows "find (\<lambda>e. e \<noteq> [] \<and> has_prefix t e) es = None"
  using assms by (auto simp: find_None_iff has_prefix_iff)

lemma trim_space_idem [simp]: "trim_space (trim_space s) = trim_space s"
proof -
  define m where "m = strip_prefixes space_encodings s"
  define r where "r = strip_prefixes (map rev space_encodings) (rev m)"
  obtain q where "rev m = q @ r" unfolding r_def using strip_prefixes_suffix by blast
  then have m: "m = rev r @ rev q" by (metis rev_append rev_rev_ident)
  have "find (\<lambda>e. e \<noteq> [] \<and> has_prefix m e) space_encodings = None"
    unfolding m_def by (rule strip_prefixes_stable)
  then have "find (\<lambda>e. e \<noteq> [] \<and> has_prefix (rev r) e) space_encodings = None"
    unfolding m by (rule find_None_prefix)
  then have 1: "strip_prefixes space_encodings (rev r) = rev r" by (rule strip_prefixes_None)
  have 2: "strip_prefixes (map rev space_encodings) r = r"
    unfolding r_def by (rule strip_prefixes_None [OF strip_prefixes_stable])
  have "trim_space s = rev r" by (simp only: trim_space_def m_def r_def)
  moreover have "trim_space (rev r) = rev r" by (simp only: trim_space_def 1 rev_rev_ident 2)
  ultimately show ?thesis by (simp only:)
qed

section \<open>ASCII case folding\<close>

definition ascii_lower :: "char \<Rightarrow> char" where
  "ascii_lower c = (let n = of_char c :: nat in if 65 \<le> n \<and> n \<le> 90 then char_of (n + 32) else c)"

text \<open>\<open>strings.EqualFold\<close> against an ASCII string none of whose letters has a fold outside
  ASCII (true of every letter but k and s).\<close>

definition equal_fold_ascii :: "string \<Rightarrow> string \<Rightarrow> bool" where
  "equal_fold_ascii s t \<longleftrightarrow> map ascii_lower s = map ascii_lower t"

section \<open>Decimal digits\<close>

definition digit_val :: "char \<Rightarrow> nat option" where
  "digit_val c = (let n = of_char c :: nat in if 48 \<le> n \<and> n \<le> 57 then Some (n - 48) else None)"

definition is_digit :: "char \<Rightarrow> bool" where
  "is_digit c \<longleftrightarrow> digit_val c \<noteq> None"

section \<open>Runes\<close>

type_synonym rune = nat

definition RuneError :: rune where "RuneError = 65533"

definition cont :: "nat \<Rightarrow> nat \<Rightarrow> nat \<Rightarrow> bool" where
  "cont lo hi b \<longleftrightarrow> lo \<le> b \<and> b \<le> hi"

text \<open>\<open>utf8.DecodeRuneInString\<close> on a nonempty byte sequence: the rune and its width. The
  accepted ranges of the second byte exclude overlong forms, surrogates and values
  past U+10FFFF; every ill-formed sequence is \<open>RuneError\<close> of width 1.\<close>

definition decode_rune :: "nat list \<Rightarrow> rune \<times> nat" where
  "decode_rune bs =
     (case bs of
        [] \<Rightarrow> (RuneError, 0)
      | b0 # r \<Rightarrow>
          if b0 < 128 then (b0, 1)
          else if 194 \<le> b0 \<and> b0 \<le> 223 then
            (case r of
               b1 # _ \<Rightarrow> if cont 128 191 b1 then ((b0 - 192) * 64 + (b1 - 128), 2)
                         else (RuneError, 1)
             | [] \<Rightarrow> (RuneError, 1))
          else if 224 \<le> b0 \<and> b0 \<le> 239 then
            (case r of
               b1 # b2 # _ \<Rightarrow>
                 if cont (if b0 = 224 then 160 else 128) (if b0 = 237 then 159 else 191) b1
                    \<and> cont 128 191 b2
                 then ((b0 - 224) * 4096 + (b1 - 128) * 64 + (b2 - 128), 3)
                 else (RuneError, 1)
             | _ \<Rightarrow> (RuneError, 1))
          else if 240 \<le> b0 \<and> b0 \<le> 244 then
            (case r of
               b1 # b2 # b3 # _ \<Rightarrow>
                 if cont (if b0 = 240 then 144 else 128) (if b0 = 244 then 143 else 191) b1
                    \<and> cont 128 191 b2 \<and> cont 128 191 b3
                 then ((b0 - 240) * 262144 + (b1 - 128) * 4096 + (b2 - 128) * 64 + (b3 - 128), 4)
                 else (RuneError, 1)
             | _ \<Rightarrow> (RuneError, 1))
          else (RuneError, 1))"

lemma decode_rune_width: "bs \<noteq> [] \<Longrightarrow> 1 \<le> snd (decode_rune bs)"
  by (simp add: decode_rune_def split: list.splits)

function runes_of_bytes :: "nat list \<Rightarrow> rune list" where
  "runes_of_bytes bs =
     (if bs = [] then []
      else fst (decode_rune bs) # runes_of_bytes (drop (snd (decode_rune bs)) bs))"
  by pat_completeness auto

termination runes_of_bytes
proof (relation "measure length")
  fix bs :: "nat list"
  assume "bs \<noteq> []"
  then show "(drop (snd (decode_rune bs)) bs, bs) \<in> measure length"
    using decode_rune_width [of bs] by auto
qed simp

declare runes_of_bytes.simps [simp del]

lemma runes_of_bytes_Nil [simp]: "runes_of_bytes [] = []"
  by (simp add: runes_of_bytes.simps)

lemma runes_of_bytes_Cons [code]:
  "runes_of_bytes [] = []"
  "runes_of_bytes (b # bs) =
     fst (decode_rune (b # bs)) # runes_of_bytes (drop (snd (decode_rune (b # bs)) - 1) bs)"
  using decode_rune_width [of "b # bs"]
  by (simp_all add: runes_of_bytes.simps [of "b # bs"] drop_Cons')

definition bytes_of :: "string \<Rightarrow> nat list" where
  "bytes_of = map of_char"

text \<open>\<open>[]rune(s)\<close>\<close>

definition runes :: "string \<Rightarrow> rune list" where
  "runes s = runes_of_bytes (bytes_of s)"

lemma runes_of_bytes_length: "length (runes_of_bytes bs) \<le> length bs"
proof (induction bs rule: runes_of_bytes.induct)
  case (1 bs)
  show ?case
  proof (cases "bs = []")
    case False
    then have "length (runes_of_bytes bs) \<le> Suc (length bs - snd (decode_rune bs))"
      using 1 by (subst runes_of_bytes.simps) simp
    moreover have "0 < length bs" using False by simp
    ultimately show ?thesis using decode_rune_width [OF False] by linarith
  qed simp
qed

lemma runes_length: "length (runes s) \<le> length s"
  using runes_of_bytes_length [of "bytes_of s"] by (simp add: runes_def bytes_of_def)

lemma runes_of_ascii_bytes: "(\<forall>b \<in> set bs. b < 128) \<Longrightarrow> runes_of_bytes bs = bs"
  by (induction bs) (simp_all add: runes_of_bytes.simps decode_rune_def)

lemma runes_ascii: "list_all (\<lambda>c. (of_char c :: nat) < 128) s \<Longrightarrow> runes s = map of_char s"
  by (simp add: runes_def bytes_of_def runes_of_ascii_bytes list_all_iff)

text \<open>\<open>string(r)\<close> for one rune; surrogates and values out of range encode as \<open>RuneError\<close>.\<close>

definition encode_rune :: "rune \<Rightarrow> nat list" where
  "encode_rune r0 =
     (let r = (if (55296 \<le> r0 \<and> r0 \<le> 57343) \<or> 1114111 < r0 then RuneError else r0) in
      if r < 128 then [r]
      else if r < 2048 then [192 + r div 64, 128 + r mod 64]
      else if r < 65536 then [224 + r div 4096, 128 + r div 64 mod 64, 128 + r mod 64]
      else [240 + r div 262144, 128 + r div 4096 mod 64, 128 + r div 64 mod 64, 128 + r mod 64])"

definition string_of_runes :: "rune list \<Rightarrow> string" where
  "string_of_runes rs = map char_of (concat (map encode_rune rs))"

text \<open>A code point that UTF-8 can carry.\<close>

definition scalar :: "rune \<Rightarrow> bool" where
  "scalar r \<longleftrightarrow> r \<le> 1114111 \<and> \<not> (55296 \<le> r \<and> r \<le> 57343)"

lemma decode_rune_scalar: "scalar (fst (decode_rune bs))"
proof -
  have e: "scalar RuneError" by (simp add: scalar_def RuneError_def)
  consider "bs = []" | b r where "bs = b # r" "b < 128" | b r where "bs = b # r" "128 \<le> b" "b < 194"
    | b r where "bs = b # r" "194 \<le> b" "b \<le> 223" | b r where "bs = b # r" "224 \<le> b" "b \<le> 239"
    | b r where "bs = b # r" "240 \<le> b" "b \<le> 244" | b r where "bs = b # r" "244 < b"
    by (cases bs) force+
  then show ?thesis
  proof cases
    case 4
    then show ?thesis
      by (cases r) (simp_all add: decode_rune_def e, auto simp: scalar_def cont_def)
  next
    case (5 b r)
    then show ?thesis
      by (cases r; cases "tl r")
         (simp_all add: decode_rune_def e, auto simp: scalar_def cont_def)
  next
    case (6 b r)
    then show ?thesis
      by (cases r; cases "tl r"; cases "tl (tl r)")
         (simp_all add: decode_rune_def e, auto simp: scalar_def cont_def)
  qed (simp_all add: decode_rune_def e, simp add: scalar_def)
qed

lemma runes_of_bytes_scalar: "r \<in> set (runes_of_bytes bs) \<Longrightarrow> scalar r"
proof (induction bs rule: runes_of_bytes.induct)
  case (1 bs)
  then show ?case
    by (cases "bs = []") (auto simp: runes_of_bytes.simps [of bs] decode_rune_scalar)
qed

lemma encode_rune_bytes: "scalar r \<Longrightarrow> b \<in> set (encode_rune r) \<Longrightarrow> b < 256"
  by (auto simp: encode_rune_def scalar_def Let_def split: if_splits)

lemma divmod64: "\<exists>x y. (r :: nat) = 64 * x + y \<and> y < 64"
  by (metis mult_div_mod_eq mod_less_divisor zero_less_numeral)

lemma decode_encode_rune:
  assumes "scalar r"
  shows "decode_rune (encode_rune r @ t) = (r, length (encode_rune r))"
proof -
  obtain x y where r: "r = 64 * x + y" "y < 64" using divmod64 by blast
  obtain u v where x: "x = 64 * u + v" "v < 64" using divmod64 by blast
  obtain p q where u: "u = 64 * p + q" "q < 64" using divmod64 by blast
  have r': "r = 4096 * u + (64 * v + y)" "64 * v + y < 4096"
    using r x by simp_all
  have r'': "r = 262144 * p + (4096 * q + (64 * v + y))" "4096 * q + (64 * v + y) < 262144"
    using r' u by simp_all
  have ds: "r div 64 = x" "r mod 64 = y" using r by simp_all
  have dv: "x mod 64 = v" using x by simp
  have d4: "r div 4096 = u"
    by (rule div_nat_eqI) (use r' in simp_all)
  have d4m: "u mod 64 = q" using u by simp
  have d6: "r div 262144 = p"
    by (rule div_nat_eqI) (use r'' in simp_all)
  have fx: "(if (55296 \<le> r \<and> r \<le> 57343) \<or> 1114111 < r then RuneError else r) = r"
    using assms by (auto simp: scalar_def)
  consider "r < 128" | "128 \<le> r" "r < 2048" | "2048 \<le> r" "r < 65536" | "65536 \<le> r" by linarith
  then show ?thesis
  proof cases
    case 1
    then show ?thesis using fx by (simp add: encode_rune_def Let_def decode_rune_def)
  next
    case 2
    then have "2 \<le> x" "x < 32" using r by linarith+
    with 2 r show ?thesis
      unfolding encode_rune_def fx Let_def ds by (simp add: decode_rune_def cont_def)
  next
    case 3
    then have "u < 16" using r' by linarith
    moreover have "u = 0 \<Longrightarrow> 32 \<le> v" using 3 r' r(2) by linarith
    moreover have "u = 13 \<Longrightarrow> v < 32" using assms r' r(2) x(2) by (auto simp: scalar_def)
    ultimately show ?thesis
      using 3 r' r(2) x(2)
      unfolding encode_rune_def fx Let_def ds d4 dv by (auto simp: decode_rune_def cont_def)
  next
    case 4
    have "r \<le> 1114111" using assms by (simp add: scalar_def)
    then have "p \<le> 4" using r'' by linarith
    moreover have "p = 0 \<Longrightarrow> 16 \<le> q" using 4 r'' r(2) x(2) by linarith
    moreover have "p = 4 \<Longrightarrow> q < 16" using \<open>r \<le> 1114111\<close> r'' r(2) x(2) by linarith
    ultimately show ?thesis
      using 4 r'' r(2) x(2) u(2)
      unfolding encode_rune_def fx Let_def ds d4 d6 dv d4m by (auto simp: decode_rune_def cont_def)
  qed
qed

lemma encode_rune_ne: "encode_rune r \<noteq> []"
  by (simp add: encode_rune_def Let_def)

lemma runes_of_encoded:
  "(\<forall>r \<in> set rs. scalar r) \<Longrightarrow> runes_of_bytes (concat (map encode_rune rs)) = rs"
proof (induction rs)
  case (Cons r rs)
  then show ?case
    by (subst runes_of_bytes.simps) (simp add: encode_rune_ne decode_encode_rune)
qed simp

lemma runes_string_of_runes:
  assumes "\<forall>r \<in> set rs. scalar r"
  shows "runes (string_of_runes rs) = rs"
proof -
  have "bytes_of (string_of_runes rs) = concat (map encode_rune rs)"
    using assms
    by (auto simp: bytes_of_def string_of_runes_def take_bit_eq_mod intro!: map_idI mod_less encode_rune_bytes)
  then show ?thesis using assms by (simp add: runes_def runes_of_encoded)
qed

text \<open>\<open>strings.ToLower\<close>: byte by byte on ASCII, rune by rune otherwise; \<open>lower\<close> is
  \<open>unicode.ToLower\<close>.\<close>

definition to_lower :: "(rune \<Rightarrow> rune) \<Rightarrow> string \<Rightarrow> string" where
  "to_lower lower s =
     (if list_all (\<lambda>c. (of_char c :: nat) < 128) s then map ascii_lower s
      else string_of_runes (map lower (runes s)))"

end
