(* ===== verification/NetIP.thy ===== *)
theory NetIP
  imports GoStrings
begin

text \<open>
  The part of Go's packages \<open>net\<close> and \<open>net/netip\<close> that \<open>src/pkg/api/requestmeta.go\<close> uses to
  decide whether an address is a trusted proxy: \<open>ParseIP\<close>, \<open>ParseCIDR\<close>,
  \<open>IPNet.Contains\<close> and \<open>SplitHostPort\<close>. An address is its list of bytes (4 or 16); a
  parse failure is \<open>None\<close>.
\<close>

section \<open>Decimal and hexadecimal fields\<close>

definition hex_val :: "char \<Rightarrow> nat option" where
  "hex_val c =
     (let n = of_char c :: nat in
      if 48 \<le> n \<and> n \<le> 57 then Some (n - 48)
      else if 97 \<le> n \<and> n \<le> 102 then Some (n - 87)
      else if 65 \<le> n \<and> n \<le> 70 then Some (n - 55)
      else None)"

definition is_hex :: "char \<Rightarrow> bool" where
  "is_hex c \<longleftrightarrow> hex_val c \<noteq> None"

definition dec_num :: "string \<Rightarrow> nat" where
  "dec_num s = foldl (\<lambda>a c. a * 10 + the (digit_val c)) 0 s"

definition hex_num :: "string \<Rightarrow> nat" where
  "hex_num s = foldl (\<lambda>a c. a * 16 + the (hex_val c)) 0 s"

section \<open>\<open>netip.ParseAddr\<close>\<close>

text \<open>One octet of a dotted quad: decimal digits, no leading zero, at most 255.\<close>

definition ipv4_field :: "string \<Rightarrow> nat option" where
  "ipv4_field f =
     (if f \<noteq> [] \<and> list_all is_digit f \<and> (hd f = CHR ''0'' \<longrightarrow> length f = 1) \<and> dec_num f \<le> 255
      then Some (dec_num f) else None)"

definition parse_ipv4 :: "string \<Rightarrow> nat list option" where
  "parse_ipv4 s =
     (case map ipv4_field (split_on CHR ''.'' s) of
        [Some a, Some b, Some c, Some d] \<Rightarrow> Some [a, b, c, d]
      | _ \<Rightarrow> None)"

text \<open>The loop of \<open>parseIPv6\<close>: \<open>acc\<close> holds the bytes written so far, \<open>ell\<close> the position of
  the ellipsis. The result is the bytes, the ellipsis and the unread rest.\<close>

function ipv6_groups ::
  "string \<Rightarrow> nat list \<Rightarrow> nat option \<Rightarrow> (nat list \<times> nat option \<times> string) option" where
  "ipv6_groups s acc ell =
     (if 16 \<le> length acc then Some (acc, ell, s)
      else
        let h = takeWhile is_hex s; r = dropWhile is_hex s in
        if h = [] \<or> 4 < length h then None
        else if r \<noteq> [] \<and> hd r = CHR ''.'' then
          (if ell = None \<and> length acc \<noteq> 12 \<or> 12 < length acc then None
           else (case parse_ipv4 s of None \<Rightarrow> None | Some q \<Rightarrow> Some (acc @ q, ell, [])))
        else
          let acc' = acc @ [hex_num h div 256, hex_num h mod 256] in
          if r = [] then Some (acc', ell, [])
          else if hd r \<noteq> CHR '':'' \<or> tl r = [] then None
          else if hd (tl r) = CHR '':'' then
            (if ell \<noteq> None then None
             else if tl (tl r) = [] then Some (acc', Some (length acc'), [])
             else ipv6_groups (tl (tl r)) acc' (Some (length acc')))
          else ipv6_groups (tl r) acc' ell)"
  by pat_completeness auto

termination ipv6_groups
  by (relation "measure (\<lambda>(s, acc, ell). 16 - length acc)") auto

declare ipv6_groups.simps [simp del]

definition ipv6_expand :: "nat list \<times> nat option \<times> string \<Rightarrow> nat list option" where
  "ipv6_expand x =
     (case x of (acc, ell, rest) \<Rightarrow>
        if rest \<noteq> [] then None
        else if length acc < 16 then
          (case ell of None \<Rightarrow> None
           | Some e \<Rightarrow> Some (take e acc @ replicate (16 - length acc) 0 @ drop e acc))
        else if ell \<noteq> None then None
        else Some acc)"

text \<open>The zone is cut off before parsing; an empty zone is an error.\<close>

definition parse_ipv6 :: "string \<Rightarrow> (nat list \<times> string) option" where
  "parse_ipv6 s0 =
     (let s = takeWhile (\<lambda>c. c \<noteq> CHR ''%'') s0; z = dropWhile (\<lambda>c. c \<noteq> CHR ''%'') s0 in
      if z = ''%'' then None
      else
        let zone = tl z in
        if has_prefix s ''::'' then
          (if drop 2 s = [] then Some (replicate 16 0, zone)
           else map_option (\<lambda>b. (b, zone))
                  (Option.bind (ipv6_groups (drop 2 s) [] (Some 0)) ipv6_expand))
        else map_option (\<lambda>b. (b, zone)) (Option.bind (ipv6_groups s [] None) ipv6_expand))"

text \<open>\<open>ParseAddr\<close> picks the format from the first of the characters dot, colon, percent.
  The result is the address bytes and the zone.\<close>

definition ParseAddr :: "string \<Rightarrow> (nat list \<times> string) option" where
  "ParseAddr s =
     (case dropWhile (\<lambda>c. c \<notin> set ''.:%'') s of
        [] \<Rightarrow> None
      | c # _ \<Rightarrow>
          if c = CHR ''.'' then map_option (\<lambda>b. (b, [])) (parse_ipv4 s)
          else if c = CHR '':'' then parse_ipv6 s
          else None)"

definition v4_prefix :: "nat list" where
  "v4_prefix = replicate 10 0 @ [255, 255]"

definition as16 :: "nat list \<Rightarrow> nat list" where
  "as16 b = (if length b = 4 then v4_prefix @ b else b)"

text \<open>\<open>net.ParseIP\<close>: 16 bytes, an IPv4 address in its mapped form; a zone is refused.\<close>

definition ParseIP :: "string \<Rightarrow> nat list option" where
  "ParseIP s =
     (case ParseAddr s of
        Some (b, z) \<Rightarrow> if z = [] then Some (as16 b) else None
      | None \<Rightarrow> None)"

section \<open>\<open>net.ParseCIDR\<close> and \<open>IPNet.Contains\<close>\<close>

text \<open>\<open>IP.To4\<close> on a 4- or 16-byte address.\<close>

definition To4 :: "nat list \<Rightarrow> nat list option" where
  "To4 ip =
     (if length ip = 4 then Some ip
      else if length ip = 16 \<and> take 12 ip = v4_prefix then Some (drop 12 ip)
      else None)"

definition mask_byte :: "nat \<Rightarrow> nat \<Rightarrow> nat" where
  "mask_byte n i = (let k = min 8 (n - 8 * i) in 256 - 2 ^ (8 - k))"

text \<open>\<open>CIDRMask(n, bits)\<close> as \<open>bits div 8\<close> bytes.\<close>

definition CIDRMask :: "nat \<Rightarrow> nat \<Rightarrow> nat list" where
  "CIDRMask n bits = map (mask_byte n) [0..<bits div 8]"

definition and_bytes :: "nat list \<Rightarrow> nat list \<Rightarrow> nat list" where
  "and_bytes = map2 Bit_Operations.and"

record ipnet =
  net_ip :: "nat list"
  net_mask :: "nat list"

text \<open>\<open>dtoi\<close> accepts digits only and values below \<open>0xFFFFFF\<close>.\<close>

definition ParseCIDR :: "string \<Rightarrow> ipnet option" where
  "ParseCIDR s =
     (let a = takeWhile (\<lambda>c. c \<noteq> CHR ''/'') s; r = dropWhile (\<lambda>c. c \<noteq> CHR ''/'') s in
      if r = [] then None
      else (case ParseAddr a of
              None \<Rightarrow> None
            | Some (b, z) \<Rightarrow>
                let m = tl r in
                if z \<noteq> [] \<or> m = [] \<or> \<not> list_all is_digit m \<or> 8 * length b < dec_num m then None
                else let k = CIDRMask (dec_num m) (8 * length b) in
                     Some \<lparr>net_ip = and_bytes b k, net_mask = k\<rparr>))"

definition net_contains :: "ipnet \<Rightarrow> nat list \<Rightarrow> bool" where
  "net_contains n ip0 =
     (let nn = (case To4 (net_ip n) of Some x \<Rightarrow> x | None \<Rightarrow> net_ip n);
          m = (if length (net_mask n) = 16 \<and> length nn = 4 then drop 12 (net_mask n) else net_mask n);
          ip = (case To4 ip0 of Some x \<Rightarrow> x | None \<Rightarrow> ip0) in
      length m = length nn \<and> length ip = length nn \<and> and_bytes nn m = and_bytes ip m)"

section \<open>\<open>net.SplitHostPort\<close>\<close>

definition last_colon :: "string \<Rightarrow> nat option" where
  "last_colon s =
     (let t = dropWhile (\<lambda>c. c \<noteq> CHR '':'') (rev s) in
      if t = [] then None else Some (length t - 1))"

definition SplitHostPort :: "string \<Rightarrow> (string \<times> string) option" where
  "SplitHostPort hp =
     (case last_colon hp of
        None \<Rightarrow> None
      | Some i \<Rightarrow>
          if hd hp = CHR ''['' then
            (let h = takeWhile (\<lambda>c. c \<noteq> CHR '']'') hp in
             if length h = length hp \<or> length h + 1 \<noteq> i then None
             else if CHR ''['' \<in> set (drop 1 hp) \<or> CHR '']'' \<in> set (drop (length h + 1) hp) then None
             else Some (drop 1 h, drop (i + 1) hp))
          else
            (let h = take i hp in
             if CHR '':'' \<in> set h \<or> CHR ''['' \<in> set hp \<or> CHR '']'' \<in> set hp then None
             else Some (h, drop (i + 1) hp)))"

text \<open>A dotted quad without leading zeros parses back to its octets.\<close>

lemma parse_ipv4_length: "parse_ipv4 s = Some b \<Longrightarrow> length b = 4"
  by (auto simp: parse_ipv4_def split: list.splits option.splits)

lemma ipv4_field_byte: "ipv4_field f = Some n \<Longrightarrow> n \<le> 255"
  by (auto simp: ipv4_field_def split: if_splits)

lemma parse_ipv4_bytes: "parse_ipv4 s = Some b \<Longrightarrow> \<forall>x \<in> set b. x \<le> 255"
  by (auto simp: parse_ipv4_def map_eq_Cons_conv dest: ipv4_field_byte split: list.splits option.splits)


end
