(* ===== verification/Errors.thy ===== *)
theory Errors
  imports Prelude
begin

text \<open>
  The domain error catalogue (\<open>src/internal/domain/errors.go\<close>). An \<open>error\<close> carries the
  stable machine code, the HTTP status, a default message and optional details.
  Sentinels are compared with \<open>errors.Is\<close>, which is equality of codes (\<open>err_is\<close>); the
  catalogue's codes are pairwise distinct, so two sentinels never stand for each other.
\<close>

datatype detail = DStr string | DInt int | DBool bool | DStrs "string list"

record error =
  err_code :: string
  err_message :: string
  err_status :: nat
  err_details :: "(string \<times> detail) list"

definition newErr :: "nat \<Rightarrow> string \<Rightarrow> string \<Rightarrow> error" where
  "newErr status code msg =
     \<lparr>err_code = code, err_message = msg, err_status = status, err_details = []\<rparr>"

definition err_is :: "error \<Rightarrow> error \<Rightarrow> bool" where
  "err_is e target \<longleftrightarrow> err_code target = err_code e"

definition WithMessage :: "string \<Rightarrow> error \<Rightarrow> error" where
  "WithMessage msg e = e\<lparr>err_message := msg\<rparr>"

definition WithDetails :: "(string \<times> detail) list \<Rightarrow> error \<Rightarrow> error" where
  "WithDetails d e = e\<lparr>err_details := d\<rparr>"

definition ErrInvalidCredentials :: error where
  "ErrInvalidCredentials = newErr 401 ''invalid_credentials'' ''Invalid credentials.''"

definition ErrUnauthorized :: error where
  "ErrUnauthorized = newErr 401 ''unauthorized'' ''Authentication required.''"

definition ErrInvalidToken :: error where
  "ErrInvalidToken = newErr 401 ''invalid_token'' ''The token is invalid.''"

definition ErrTokenExpired :: error where
  "ErrTokenExpired = newErr 401 ''token_expired'' ''The token has expired.''"

definition ErrTokenRevoked :: error where
  "ErrTokenRevoked = newErr 401 ''token_revoked'' ''The token has been revoked.''"

definition ErrSessionExpired :: error where
  "ErrSessionExpired = newErr 401 ''session_expired'' ''The session has expired.''"

definition ErrSessionDeviceMismatch :: error where
  "ErrSessionDeviceMismatch = newErr 401 ''device_mismatch'' ''The session was used from a different device.''"

definition ErrMFAInvalid :: error where
  "ErrMFAInvalid = newErr 401 ''mfa_invalid'' ''Invalid MFA code.''"

definition ErrInvalidOTP :: error where
  "ErrInvalidOTP = newErr 401 ''invalid_otp'' ''Invalid one-time code.''"

definition ErrChallengeInvalid :: error where
  "ErrChallengeInvalid = newErr 401 ''challenge_invalid'' ''Invalid challenge.''"

definition ErrForbidden :: error where
  "ErrForbidden = newErr 403 ''forbidden'' ''Not permitted.''"

definition ErrAccountSuspended :: error where
  "ErrAccountSuspended = newErr 403 ''account_suspended'' ''Account suspended.''"

definition ErrAccountBanned :: error where
  "ErrAccountBanned = newErr 403 ''account_banned'' ''Account banned.''"

definition ErrAccountLocked :: error where
  "ErrAccountLocked = newErr 403 ''account_locked'' ''Account locked.''"

definition ErrEmailNotVerified :: error where
  "ErrEmailNotVerified = newErr 403 ''email_not_verified'' ''Email not verified.''"

definition ErrPhoneNotVerified :: error where
  "ErrPhoneNotVerified = newErr 403 ''phone_not_verified'' ''Phone not verified.''"

definition ErrMFARequired :: error where
  "ErrMFARequired = newErr 403 ''mfa_required'' ''MFA is required.''"

definition ErrMFAFactorNotAllowed :: error where
  "ErrMFAFactorNotAllowed = newErr 403 ''mfa_factor_not_allowed'' ''This MFA factor is not permitted by policy.''"

definition ErrStepUpRequired :: error where
  "ErrStepUpRequired = newErr 403 ''step_up_required'' ''Step-up authentication is required.''"

definition ErrRegistrationClosed :: error where
  "ErrRegistrationClosed = newErr 403 ''registration_closed'' ''Registration is closed.''"

definition ErrInvitationRequired :: error where
  "ErrInvitationRequired = newErr 403 ''invitation_required'' ''An invitation is required.''"

definition ErrCaptchaRequired :: error where
  "ErrCaptchaRequired = newErr 403 ''captcha_required'' ''Captcha is required.''"

definition ErrCaptchaInvalid :: error where
  "ErrCaptchaInvalid = newErr 403 ''captcha_invalid'' ''Invalid captcha.''"

definition ErrConsentRequired :: error where
  "ErrConsentRequired = newErr 403 ''consent_required'' ''Consent is required.''"

definition ErrInvalidCsrf :: error where
  "ErrInvalidCsrf = newErr 403 ''invalid_csrf'' ''Missing or invalid CSRF token.''"

definition ErrNotFound :: error where
  "ErrNotFound = newErr 404 ''not_found'' ''Not found.''"

definition ErrUserNotFound :: error where
  "ErrUserNotFound = newErr 404 ''user_not_found'' ''User not found.''"

definition ErrSessionNotFound :: error where
  "ErrSessionNotFound = newErr 404 ''session_not_found'' ''Session not found.''"

definition ErrProjectNotFound :: error where
  "ErrProjectNotFound = newErr 404 ''project_not_found'' ''Project not found.''"

definition ErrEnvironmentNotFound :: error where
  "ErrEnvironmentNotFound = newErr 404 ''environment_not_found'' ''Environment not found.''"

definition ErrClientNotFound :: error where
  "ErrClientNotFound = newErr 404 ''client_not_found'' ''App client not found.''"

definition ErrConnectionNotFound :: error where
  "ErrConnectionNotFound = newErr 404 ''connection_not_found'' ''Connection not found.''"

definition ErrDomainNotFound :: error where
  "ErrDomainNotFound = newErr 404 ''domain_not_found'' ''Domain not found.''"

definition ErrConflict :: error where
  "ErrConflict = newErr 409 ''conflict'' ''Conflicting state.''"

definition ErrEmailExists :: error where
  "ErrEmailExists = newErr 409 ''email_exists'' ''Email already in use.''"

definition ErrPhoneExists :: error where
  "ErrPhoneExists = newErr 409 ''phone_exists'' ''Phone already in use.''"

definition ErrIdentityExists :: error where
  "ErrIdentityExists = newErr 409 ''identity_exists'' ''Identity already linked.''"

definition ErrAlreadyLinked :: error where
  "ErrAlreadyLinked = newErr 409 ''already_linked'' ''Already linked.''"

definition ErrDomainTaken :: error where
  "ErrDomainTaken = newErr 409 ''domain_taken'' ''Domain already claimed.''"

definition ErrChallengeExpired :: error where
  "ErrChallengeExpired = newErr 410 ''challenge_expired'' ''The challenge has expired.''"

definition ErrTokenUsed :: error where
  "ErrTokenUsed = newErr 410 ''token_already_used'' ''The token has already been used.''"

definition ErrFlowNotFound :: error where
  "ErrFlowNotFound = newErr 410 ''flow_not_found'' ''Flow not found or expired.''"

definition ErrFlowExpired :: error where
  "ErrFlowExpired = newErr 410 ''flow_expired'' ''The flow has expired.''"

definition ErrValidation :: error where
  "ErrValidation = newErr 422 ''validation_failed'' ''Validation failed.''"

definition ErrWeakPassword :: error where
  "ErrWeakPassword = newErr 422 ''weak_password'' ''The password is too weak.''"

definition ErrPasswordReused :: error where
  "ErrPasswordReused = newErr 422 ''password_reused'' ''The password was used before.''"

definition ErrBadRequest :: error where
  "ErrBadRequest = newErr 400 ''bad_request'' ''Invalid request.''"

definition ErrUnsupportedGrant :: error where
  "ErrUnsupportedGrant = newErr 400 ''unsupported_grant'' ''Unsupported grant type.''"

definition ErrInvalidGrant :: error where
  "ErrInvalidGrant = newErr 400 ''invalid_grant'' ''The authorization grant is invalid.''"

definition ErrInvalidRequestURI :: error where
  "ErrInvalidRequestURI = newErr 400 ''invalid_request_uri'' ''The request_uri is unknown or expired.''"

definition ErrInvalidClient :: error where
  "ErrInvalidClient = newErr 400 ''invalid_client'' ''Unknown or disabled OAuth client.''"

definition ErrInvalidRedirectURI :: error where
  "ErrInvalidRedirectURI = newErr 400 ''invalid_redirect_uri'' ''The redirect_uri is not registered for this client.''"

definition ErrRateLimited :: error where
  "ErrRateLimited = newErr 429 ''rate_limited'' ''Too many requests.''"

definition ErrFlowResendTooSoon :: error where
  "ErrFlowResendTooSoon = newErr 429 ''flow_resend_too_soon'' ''Please wait before resending.''"

definition ErrNotImplemented :: error where
  "ErrNotImplemented = newErr 501 ''not_implemented'' ''Not implemented.''"

definition ErrProviderError :: error where
  "ErrProviderError = newErr 502 ''provider_error'' ''Upstream provider error.''"

definition ErrSSOError :: error where
  "ErrSSOError = newErr 502 ''sso_error'' ''SSO error.''"

definition ErrSCIMError :: error where
  "ErrSCIMError = newErr 502 ''scim_error'' ''SCIM error.''"

definition ErrServiceUnavailable :: error where
  "ErrServiceUnavailable = newErr 503 ''service_unavailable'' ''Service unavailable.''"

definition ErrInternal :: error where
  "ErrInternal = newErr 500 ''internal_error'' ''Internal error.''"

text \<open>Every sentinel of the catalogue, in the order of the source.\<close>

definition catalog :: "error list" where
  "catalog =
     [
      ErrInvalidCredentials, ErrUnauthorized, ErrInvalidToken, ErrTokenExpired,
      ErrTokenRevoked, ErrSessionExpired, ErrSessionDeviceMismatch, ErrMFAInvalid,
      ErrInvalidOTP, ErrChallengeInvalid, ErrForbidden, ErrAccountSuspended,
      ErrAccountBanned, ErrAccountLocked, ErrEmailNotVerified, ErrPhoneNotVerified,
      ErrMFARequired, ErrMFAFactorNotAllowed, ErrStepUpRequired, ErrRegistrationClosed,
      ErrInvitationRequired, ErrCaptchaRequired, ErrCaptchaInvalid, ErrConsentRequired,
      ErrInvalidCsrf, ErrNotFound, ErrUserNotFound, ErrSessionNotFound,
      ErrProjectNotFound, ErrEnvironmentNotFound, ErrClientNotFound,
      ErrConnectionNotFound, ErrDomainNotFound, ErrConflict, ErrEmailExists,
      ErrPhoneExists, ErrIdentityExists, ErrAlreadyLinked, ErrDomainTaken,
      ErrChallengeExpired, ErrTokenUsed, ErrFlowNotFound, ErrFlowExpired, ErrValidation,
      ErrWeakPassword, ErrPasswordReused, ErrBadRequest, ErrUnsupportedGrant,
      ErrInvalidGrant, ErrInvalidRequestURI, ErrInvalidClient, ErrInvalidRedirectURI,
      ErrRateLimited, ErrFlowResendTooSoon, ErrNotImplemented, ErrProviderError,
      ErrSSOError, ErrSCIMError, ErrServiceUnavailable, ErrInternal
     ]"

lemmas catalog_defs =
  ErrInvalidCredentials_def ErrUnauthorized_def ErrInvalidToken_def ErrTokenExpired_def
  ErrTokenRevoked_def ErrSessionExpired_def ErrSessionDeviceMismatch_def ErrMFAInvalid_def
  ErrInvalidOTP_def ErrChallengeInvalid_def ErrForbidden_def ErrAccountSuspended_def
  ErrAccountBanned_def ErrAccountLocked_def ErrEmailNotVerified_def ErrPhoneNotVerified_def
  ErrMFARequired_def ErrMFAFactorNotAllowed_def ErrStepUpRequired_def
  ErrRegistrationClosed_def ErrInvitationRequired_def ErrCaptchaRequired_def
  ErrCaptchaInvalid_def ErrConsentRequired_def ErrInvalidCsrf_def ErrNotFound_def
  ErrUserNotFound_def ErrSessionNotFound_def ErrProjectNotFound_def
  ErrEnvironmentNotFound_def ErrClientNotFound_def ErrConnectionNotFound_def
  ErrDomainNotFound_def ErrConflict_def ErrEmailExists_def ErrPhoneExists_def
  ErrIdentityExists_def ErrAlreadyLinked_def ErrDomainTaken_def ErrChallengeExpired_def
  ErrTokenUsed_def ErrFlowNotFound_def ErrFlowExpired_def ErrValidation_def
  ErrWeakPassword_def ErrPasswordReused_def ErrBadRequest_def ErrUnsupportedGrant_def
  ErrInvalidGrant_def ErrInvalidRequestURI_def ErrInvalidClient_def
  ErrInvalidRedirectURI_def ErrRateLimited_def ErrFlowResendTooSoon_def
  ErrNotImplemented_def ErrProviderError_def ErrSSOError_def ErrSCIMError_def
  ErrServiceUnavailable_def ErrInternal_def

lemmas error_defs = catalog_defs newErr_def WithMessage_def WithDetails_def

type_synonym 'a res = "error + 'a"

lemma err_is_refl [simp]: "err_is e e"
  by (simp add: err_is_def)

lemma err_is_WithMessage [simp]: "err_is (WithMessage m e) t \<longleftrightarrow> err_is e t"
  by (simp add: err_is_def WithMessage_def)

lemma err_is_WithDetails [simp]: "err_is (WithDetails d e) t \<longleftrightarrow> err_is e t"
  by (simp add: err_is_def WithDetails_def)

lemma catalog_codes_distinct: "distinct (map err_code catalog)"
  by code_simp

text \<open>The HTTP statuses a sentinel may carry.\<close>

lemma catalog_status: "\<forall>e \<in> set catalog. err_status e \<in> {400, 401, 403, 404, 409, 410, 422, 429, 500, 501, 502, 503}"
  by code_simp

text \<open>\<open>errors.Is\<close> between any two errors derived from the catalogue (a sentinel, possibly
  with its message or details overridden) holds exactly when they derive from the same
  sentinel: a handler that branches on one error can never take that branch for another.\<close>

theorem errors_is_identifies_sentinel:
  assumes "a \<in> set catalog" and "b \<in> set catalog"
  shows "err_is (WithMessage m (WithDetails d a)) (WithMessage m' (WithDetails d' b)) \<longleftrightarrow> a = b"
proof -
  have "inj_on err_code (set catalog)"
    using catalog_codes_distinct by (simp add: distinct_map)
  with assms show ?thesis
    by (auto simp: err_is_def WithMessage_def WithDetails_def dest: inj_onD)
qed

theorem errors_is_identifies_sentinel_witness:
  "\<not> err_is (WithMessage ''m'' (WithDetails [] ErrNotFound)) (WithMessage ''m'' (WithDetails [] ErrUserNotFound))"
proof -
  have "ErrNotFound \<in> set catalog" "ErrUserNotFound \<in> set catalog" by (simp_all add: catalog_def)
  from errors_is_identifies_sentinel [OF this] show ?thesis by (simp add: error_defs)
qed

end
