(* ===== verification/Http.thy ===== *)
theory Http
  imports NetIP Errors
begin

text \<open>
  The HTTP edge of the server: requests, responses and the per-request context, the
  client address (\<open>src/pkg/api/requestmeta.go\<close>), the middlewares of
  \<open>buildRootHandler\<close> that only read the request (request metadata, environment, test
  clock, CSRF, cookie authentication, soft authentication, security headers) and the
  tenancy guards of \<open>src/pkg/api/auth.go\<close>. A handler takes the response written so far,
  the request and the server state, and returns both updated; a middleware maps a
  handler to a handler, exactly as \<open>func(next http.Handler) http.Handler\<close> does. What a
  middleware asks of the store (CSRF tokens, principals, clock offsets) is an argument
  that may depend on the state.
\<close>

section \<open>Requests, responses, contexts\<close>

datatype principal_kind =
  PrincipalUser | PrincipalAdmin | PrincipalOperator | PrincipalService | PrincipalSCIM | PrincipalClient

fun principal_kind_name :: "principal_kind \<Rightarrow> string" where
  "principal_kind_name PrincipalUser = ''user''"
| "principal_kind_name PrincipalAdmin = ''admin''"
| "principal_kind_name PrincipalOperator = ''operator''"
| "principal_kind_name PrincipalService = ''service''"
| "principal_kind_name PrincipalSCIM = ''scim''"
| "principal_kind_name PrincipalClient = ''client''"

record principal =
  pr_credential_id :: string
  pr_kind :: principal_kind
  pr_account_id :: string
  pr_project_id :: string
  pr_environment :: string
  pr_session_id :: string
  pr_client_id :: string
  pr_connection_id :: string
  pr_scopes :: "string list"
  pr_aal :: int

record request_meta =
  rm_ip :: string
  rm_user_agent :: string
  rm_fingerprint :: string
  rm_device_name :: string
  rm_device_token :: string
  rm_security_proof :: string

definition no_meta :: request_meta where
  "no_meta = \<lparr>rm_ip = [], rm_user_agent = [], rm_fingerprint = [], rm_device_name = [],
              rm_device_token = [], rm_security_proof = []\<rparr>"

text \<open>The contacts an account had before a change, which the change leaves in its context for the
  security observer.\<close>

record securityIncidentPrivate =
  ip_email :: string
  ip_phone :: string
  ip_mfa_required :: bool

text \<open>The values a request context carries: the requested environment (empty when unset),
  the authenticated and the soft principal, the metadata, the clock offset, and the wall
  clock of the request. One instant stands for every \<open>time.Now()\<close> of a request.\<close>

record ctx =
  cx_env :: string
  cx_principal :: "principal option"
  cx_soft :: "principal option"
  cx_meta :: request_meta
  cx_offset :: duration
  cx_now :: instant
  cx_old_contact :: "securityIncidentPrivate option"

record http_request =
  rq_method :: string
  rq_path :: string
  rq_headers :: "(string \<times> string list) list"
  rq_cookies :: "(string \<times> string) list"
  rq_remote_addr :: string
  rq_ctx :: ctx

datatype 'b body = NoBody | ErrorEnvelope error | RateLimitBody string | AppBody 'b

record 'b response =
  rs_status :: nat
  rs_headers :: "(string \<times> string list) list"
  rs_body :: "'b body"

type_synonym ('b, 's) handler = "'b response \<Rightarrow> http_request \<Rightarrow> 's \<Rightarrow> 'b response \<times> 's"

text \<open>A request as it arrives, at the epoch, with nothing in its context.\<close>

definition plain_request ::
  "string \<Rightarrow> string \<Rightarrow> (string \<times> string list) list \<Rightarrow> (string \<times> string) list \<Rightarrow> string \<Rightarrow> http_request" where
  "plain_request m p h ck addr =
     \<lparr>rq_method = m, rq_path = p, rq_headers = h, rq_cookies = ck, rq_remote_addr = addr,
      rq_ctx = \<lparr>cx_env = [], cx_principal = None, cx_soft = None, cx_meta = no_meta,
                cx_offset = 0, cx_now = 0, cx_old_contact = None\<rparr>\<rparr>"

text \<open>\<open>Header.Get\<close>, \<open>Header.Set\<close> and \<open>Header.Add\<close>; keys are kept in canonical form.\<close>

definition header_get :: "(string \<times> string list) list \<Rightarrow> string \<Rightarrow> string" where
  "header_get h k = (case map_of h k of Some (v # _) \<Rightarrow> v | _ \<Rightarrow> [])"

definition header_set :: "string \<Rightarrow> string \<Rightarrow> (string \<times> string list) list \<Rightarrow> (string \<times> string list) list" where
  "header_set k v h = (k, [v]) # filter (\<lambda>(k', _). k' \<noteq> k) h"

definition header_add :: "string \<Rightarrow> string \<Rightarrow> (string \<times> string list) list \<Rightarrow> (string \<times> string list) list" where
  "header_add k v h =
     (k, (case map_of h k of Some vs \<Rightarrow> vs @ [v] | None \<Rightarrow> [v])) # filter (\<lambda>(k', _). k' \<noteq> k) h"

lemma map_of_filter_other [simp]:
  "k' \<noteq> k \<Longrightarrow> map_of (filter (\<lambda>(k', _). k' \<noteq> k) h) k' = map_of h k'"
  by (induction h) auto

lemma map_of_header_set: "map_of (header_set k v h) k' = (if k' = k then Some [v] else map_of h k')"
  by (auto simp: header_set_def)

lemma header_get_set [simp]:
  "header_get (header_set k v h) k' = (if k' = k then v else header_get h k')"
  by (simp add: header_get_def map_of_header_set)

lemma header_get_Nil [simp]: "header_get [] k = []"
  by (simp add: header_get_def)

lemma header_get_add_other [simp]: "k' \<noteq> k \<Longrightarrow> header_get (header_add k v h) k' = header_get h k'"
  by (simp add: header_get_def header_add_def)

definition req_header :: "http_request \<Rightarrow> string \<Rightarrow> string" where
  "req_header r k = header_get (rq_headers r) k"

text \<open>\<open>r.Cookie(name)\<close>: the first cookie of that name.\<close>

definition req_cookie :: "http_request \<Rightarrow> string \<Rightarrow> string option" where
  "req_cookie r n = map_of (rq_cookies r) n"

definition write_envelope :: "'b response \<Rightarrow> error \<Rightarrow> 'b response" where
  "write_envelope w e =
     w\<lparr>rs_status := err_status e,
       rs_headers := header_set ''Content-Type'' ''application/json; charset=utf-8'' (rs_headers w),
       rs_body := ErrorEnvelope e\<rparr>"

section \<open>Client address\<close>

text \<open>\<open>SetTrustedProxies\<close>: bare addresses get a full-length prefix, unparseable entries are
  dropped.\<close>

definition SetTrustedProxies :: "string list \<Rightarrow> ipnet list" where
  "SetTrustedProxies cidrs =
     List.map_filter
       (\<lambda>c0. let c = trim_space c0 in
          if c = [] then None
          else ParseCIDR
                 (if CHR ''/'' \<in> set c then c
                  else if CHR '':'' \<in> set c then c @ ''/128''
                  else c @ ''/32''))
       cidrs"

definition ipInTrustedProxies :: "ipnet list \<Rightarrow> string \<Rightarrow> bool" where
  "ipInTrustedProxies nets ip =
     (case ParseIP (trim_space ip) of
        None \<Rightarrow> False
      | Some p \<Rightarrow> list_ex (\<lambda>n. net_contains n p) nets)"

definition remoteHost :: "http_request \<Rightarrow> string" where
  "remoteHost r =
     (case SplitHostPort (rq_remote_addr r) of
        Some (h, _) \<Rightarrow> h
      | None \<Rightarrow> trim_cutset (rq_remote_addr r) ''[]'')"

definition clientIP :: "ipnet list \<Rightarrow> http_request \<Rightarrow> string" where
  "clientIP nets r =
     (let peer = remoteHost r in
      if nets = [] \<or> \<not> ipInTrustedProxies nets peer then peer
      else
        let xff = req_header r ''X-Forwarded-For'';
            hop = (if xff = [] then None
                   else find (\<lambda>ip. ip \<noteq> [] \<and> \<not> ipInTrustedProxies nets ip)
                          (map trim_space (rev (split_on CHR '','' xff)))) in
        case hop of
          Some ip \<Rightarrow> ip
        | None \<Rightarrow>
            let xr = trim_space (req_header r ''X-Real-Ip'') in
            if xr \<noteq> [] then xr else peer)"

section \<open>Request metadata\<close>

definition truncateRunes :: "string \<Rightarrow> nat \<Rightarrow> string" where
  "truncateRunes s limit =
     (let rs = runes s in if length rs \<le> limit then s else string_of_runes (take limit rs))"

definition request_meta_of :: "ipnet list \<Rightarrow> http_request \<Rightarrow> request_meta" where
  "request_meta_of nets r =
     \<lparr>rm_ip = clientIP nets r,
      rm_user_agent = req_header r ''User-Agent'',
      rm_fingerprint = truncateRunes (trim_space (req_header r ''X-Device-Fingerprint'')) 256,
      rm_device_name = truncateRunes (trim_space (req_header r ''X-Device-Name'')) 1024,
      rm_device_token = truncateRunes (trim_space (req_header r ''X-Device-Token'')) 256,
      rm_security_proof = truncateRunes (trim_space (req_header r ''X-Security-Proof'')) 256\<rparr>"

definition RequestMetaMiddleware :: "ipnet list \<Rightarrow> ('b, 's) handler \<Rightarrow> ('b, 's) handler" where
  "RequestMetaMiddleware nets next =
     (\<lambda>w r s. next w (r\<lparr>rq_ctx := (rq_ctx r)\<lparr>cx_meta := request_meta_of nets r\<rparr>\<rparr>) s)"

section \<open>Environment and test clock\<close>

definition EnvironmentMiddleware :: "('b, 's) handler \<Rightarrow> ('b, 's) handler" where
  "EnvironmentMiddleware next =
     (\<lambda>w r s. let env = req_header r ''X-Environment'' in
        if env \<noteq> [] then next w (r\<lparr>rq_ctx := (rq_ctx r)\<lparr>cx_env := env\<rparr>\<rparr>) s
        else next w r s)"

definition liveEnvironment :: string where
  "liveEnvironment = ''live''"

definition WithClockOffset :: "duration \<Rightarrow> ctx \<Rightarrow> ctx" where
  "WithClockOffset d c = (if d = 0 then c else c\<lparr>cx_offset := d\<rparr>)"

text \<open>\<open>clock\<close> is the resolver (\<open>None\<close>: not wired); it answers with an error or the offset
  of a project's environment.\<close>

definition TestClockMiddleware ::
  "('s \<Rightarrow> string \<Rightarrow> string \<Rightarrow> error + duration) option \<Rightarrow> ('b, 's) handler \<Rightarrow> ('b, 's) handler" where
  "TestClockMiddleware clock next =
     (case clock of
        None \<Rightarrow> next
      | Some co \<Rightarrow> (\<lambda>w r s.
          let env = req_header r ''X-Environment''; project = req_header r ''X-Client-Id'' in
          if env = [] \<or> env = liveEnvironment \<or> project = [] then next w r s
          else (case co s project env of
                  Inl _ \<Rightarrow> next w r s
                | Inr d \<Rightarrow>
                    if d = 0 then next w r s
                    else next w (r\<lparr>rq_ctx := WithClockOffset d (rq_ctx r)\<rparr>) s)))"

text \<open>The current time as the request sees it (\<open>domain.Now\<close>, \<open>nowIn\<close>).\<close>

definition nowIn :: "ctx \<Rightarrow> instant" where
  "nowIn c = cx_now c + cx_offset c"

section \<open>CSRF and cookie authentication\<close>

definition SessionCookieName :: string where "SessionCookieName = ''iam_session''"
definition RefreshCookieName :: string where "RefreshCookieName = ''iam_refresh''"

definition csrfSafeMethod :: "string \<Rightarrow> bool" where
  "csrfSafeMethod m \<longleftrightarrow> m = ''GET'' \<or> m = ''HEAD'' \<or> m = ''OPTIONS'' \<or> m = ''TRACE''"

definition hasSessionCookie :: "http_request \<Rightarrow> bool" where
  "hasSessionCookie r \<longleftrightarrow> req_cookie r SessionCookieName \<noteq> None"

text \<open>\<open>verify\<close> is \<open>VerifyCsrfToken\<close>: \<open>None\<close> is a nil error, \<open>Some (Some e)\<close> a domain error,
  \<open>Some None\<close> any other error.\<close>

definition CSRFMiddleware ::
  "('s \<Rightarrow> ctx \<Rightarrow> string \<Rightarrow> string \<Rightarrow> error option option) \<Rightarrow> ('b, 's) handler \<Rightarrow> ('b, 's) handler" where
  "CSRFMiddleware verify next =
     (\<lambda>w r s.
        if csrfSafeMethod (rq_method r) \<or> req_header r ''Authorization'' \<noteq> [] \<or> \<not> hasSessionCookie r
        then next w r s
        else
          let clientID = req_header r ''X-Client-Id''; token = req_header r ''X-Csrf-Token'' in
          if clientID = [] \<or> token = [] then (write_envelope w ErrInvalidCsrf, s)
          else (case verify s (rq_ctx r) clientID token of
                  None \<Rightarrow> next w r s
                | Some de \<Rightarrow>
                    (write_envelope w (case de of Some e \<Rightarrow> e | None \<Rightarrow> ErrInvalidCsrf), s)))"

definition CookieAuthMiddleware :: "('b, 's) handler \<Rightarrow> ('b, 's) handler" where
  "CookieAuthMiddleware next =
     (\<lambda>w r s.
        if req_header r ''Authorization'' = [] then
          (case req_cookie r SessionCookieName of
             Some v \<Rightarrow>
               if v \<noteq> []
               then next w (r\<lparr>rq_headers := header_set ''Authorization'' (''Bearer '' @ v) (rq_headers r)\<rparr>) s
               else next w r s
           | None \<Rightarrow> next w r s)
        else next w r s)"

section \<open>Soft authentication\<close>

definition bearerToken :: "string \<Rightarrow> string" where
  "bearerToken h =
     (if length h \<le> 7 \<or> \<not> equal_fold_ascii (take 7 h) ''Bearer '' then []
      else trim_space (drop 7 h))"

text \<open>\<open>user\<close> is \<open>Authenticator.User\<close>, which may record session activity in the state.\<close>

definition SoftAuthMiddleware ::
  "('s \<Rightarrow> ctx \<Rightarrow> string \<Rightarrow> (error + principal) \<times> 's) \<Rightarrow> ('b, 's) handler \<Rightarrow> ('b, 's) handler" where
  "SoftAuthMiddleware user next =
     (\<lambda>w r s.
        let token = bearerToken (req_header r ''Authorization'') in
        if token = [] then next w r s
        else (case user s (rq_ctx r) token of
                (Inl _, s') \<Rightarrow> next w r s'
              | (Inr p, s') \<Rightarrow> next w (r\<lparr>rq_ctx := (rq_ctx r)\<lparr>cx_soft := Some p\<rparr>\<rparr>) s'))"

definition SecurityHeaders :: "('b, 's) handler \<Rightarrow> ('b, 's) handler" where
  "SecurityHeaders next =
     (\<lambda>w r s.
        let h = rs_headers w;
            h = header_set ''X-Content-Type-Options'' ''nosniff'' h;
            h = header_set ''X-Frame-Options'' ''DENY'' h;
            h = header_set ''Referrer-Policy'' ''no-referrer'' h;
            h = header_set ''Permissions-Policy'' ''camera=(), microphone=(), geolocation=()'' h;
            h = header_set ''Strict-Transport-Security'' ''max-age=31536000'' h;
            h = header_set ''Content-Security-Policy''
                  (''default-src '' @ [CHR 0x27] @ ''self'' @ [CHR 0x27] @ ''; script-src '' @ [CHR 0x27] @ ''self'' @
                   [CHR 0x27] @ ''; style-src '' @ [CHR 0x27] @ ''self'' @ [CHR 0x27] @ '' '' @ [CHR 0x27] @
                   ''unsafe-inline'' @ [CHR 0x27] @ ''; img-src '' @ [CHR 0x27] @ ''self'' @ [CHR 0x27] @
                   '' data: blob:; font-src '' @ [CHR 0x27] @ ''self'' @ [CHR 0x27] @ '' data:; connect-src '' @
                   [CHR 0x27] @ ''self'' @ [CHR 0x27] @ ''; frame-ancestors '' @ [CHR 0x27] @ ''none'' @
                   [CHR 0x27] @ ''; base-uri '' @ [CHR 0x27] @ ''self'' @ [CHR 0x27] @ ''; form-action '' @
                   [CHR 0x27] @ ''self'' @ [CHR 0x27]) h in
        next (w\<lparr>rs_headers := h\<rparr>) r s)"

section \<open>Tenancy guards\<close>

definition requirePrincipal :: "ctx \<Rightarrow> principal res" where
  "requirePrincipal c = (case cx_principal c of Some p \<Rightarrow> Inr p | None \<Rightarrow> Inl ErrUnauthorized)"

definition requireProjectAdmin :: "ctx \<Rightarrow> string \<Rightarrow> principal res" where
  "requireProjectAdmin c projectID =
     res_bind (requirePrincipal c) (\<lambda>p.
       if pr_kind p = PrincipalOperator then Inr p
       else if (pr_kind p = PrincipalAdmin \<or> pr_kind p = PrincipalService)
               \<and> pr_project_id p \<noteq> [] \<and> pr_project_id p = projectID then Inr p
       else Inl ErrForbidden)"

definition requireOperator :: "ctx \<Rightarrow> unit res" where
  "requireOperator c =
     res_bind (requirePrincipal c) (\<lambda>p.
       if pr_kind p \<noteq> PrincipalOperator then Inl ErrForbidden else Inr ())"

section \<open>Properties\<close>

lemma clientIP_untrusted_peer:
  "\<not> ipInTrustedProxies nets (remoteHost r) \<Longrightarrow> clientIP nets r = remoteHost r"
  by (simp add: clientIP_def)

lemma remoteHost_headers [simp]: "remoteHost (r\<lparr>rq_headers := h\<rparr>) = remoteHost r"
  by (simp add: remoteHost_def cong: option.case_cong)

text \<open>C33: a client behind trusted proxies cannot choose its address. When the TCP peer is a trusted proxy and the
  \<open>X-Forwarded-For\<close> header ends in a nonempty hop that is no trusted proxy, followed by any number of trusted
  ones, \<open>clientIP\<close> (the key of every IP rate limit) is that hop. Whatever list of entries stands to its left,
  which is the part the client controls, has no influence.\<close>

theorem clientIP_rightmost_untrusted_hop:
  assumes "ipInTrustedProxies nets (remoteHost r)"
    and "req_header r ''X-Forwarded-For'' =
           forged @ hop @ concat (map (\<lambda>t. CHR '','' # t) proxies)" and "forged = [] \<or> last forged = CHR '','' "
    and "CHR '','' \<notin> set hop" and "trim_space hop \<noteq> []"
    and "\<not> ipInTrustedProxies nets (trim_space hop)"
    and "\<forall>t \<in> set proxies. CHR '','' \<notin> set t \<and> ipInTrustedProxies nets (trim_space t)"
  shows "clientIP nets r = trim_space hop"
proof -
  have nets: "nets \<noteq> []" using assms(1) by (auto simp: ipInTrustedProxies_def split: option.splits)
  have tail: "split_on CHR '','' (hop @ concat (map (\<lambda>t. CHR '','' # t) proxies)) = hop # proxies"
    using assms(4,7) by (simp add: split_on_tail split_on_single)
  obtain entries where "split_on CHR '','' (req_header r ''X-Forwarded-For'') = entries @ hop # proxies"
  proof (cases "forged = []")
    case True
    then show thesis using that [of "[]"] tail by (simp add: assms(2))
  next
    case False
    then have "forged = butlast forged @ [CHR '','']" using assms(3) append_butlast_last_id [of forged] by simp
    then have "req_header r ''X-Forwarded-For'' = butlast forged @ CHR '','' # hop @ concat (map (\<lambda>t. CHR '','' # t) proxies)"
      using assms(2) by (metis append.assoc append_Cons append_Nil)
    then show thesis using that [of "split_on CHR '','' (butlast forged)"] tail by (simp add: split_on_append_sep)
  qed
  then have "find (\<lambda>ip. ip \<noteq> [] \<and> \<not> ipInTrustedProxies nets ip)
               (map trim_space (rev (split_on CHR '','' (req_header r ''X-Forwarded-For'')))) =
             Some (trim_space hop)"
    using assms(5,6,7) by (simp add: find_skip)
  moreover have "hop \<noteq> []" using assms(5) by auto
  ultimately show ?thesis using nets assms(1,2) by (simp add: clientIP_def Let_def)
qed

theorem clientIP_rightmost_untrusted_hop_witness:
  "clientIP (SetTrustedProxies [''10.0.0.0/8''])
     (plain_request ''POST'' ''/v1/auth/guest'' [(''X-Forwarded-For'', [''9.9.9.9, 1.2.3.4, 10.0.0.7''])] [] ''10.0.0.5:443'')
   = ''1.2.3.4''"
proof -
  let ?n = "SetTrustedProxies [''10.0.0.0/8'']"
  let ?r = "plain_request ''POST'' ''/v1/auth/guest'' [(''X-Forwarded-For'', [''9.9.9.9, 1.2.3.4, 10.0.0.7''])] [] ''10.0.0.5:443''"
  have 1: "ipInTrustedProxies ?n (remoteHost ?r)" by code_simp
  have 2: "req_header ?r ''X-Forwarded-For'' =
             ''9.9.9.9,'' @ '' 1.2.3.4'' @ concat (map (\<lambda>t. CHR '','' # t) ['' 10.0.0.7''])"
    by code_simp
  have 3: "''9.9.9.9,'' = [] \<or> last ''9.9.9.9,'' = CHR '','' " "CHR '','' \<notin> set '' 1.2.3.4''" "trim_space '' 1.2.3.4'' \<noteq> []"
    "\<not> ipInTrustedProxies ?n (trim_space '' 1.2.3.4'')"
    "\<forall>t \<in> set ['' 10.0.0.7'']. CHR '','' \<notin> set t \<and> ipInTrustedProxies ?n (trim_space t)"
    by code_simp+
  have "trim_space '' 1.2.3.4'' = ''1.2.3.4''" by code_simp
  with clientIP_rightmost_untrusted_hop [OF 1 2 3] show ?thesis by simp
qed

lemma truncateRunes_bound: "length (runes (truncateRunes s n)) \<le> n"
  by (auto simp: truncateRunes_def Let_def runes_def runes_of_bytes_scalar
           dest!: in_set_takeD intro!: runes_string_of_runes [unfolded runes_def, THEN arg_cong [where f = length], THEN eq_refl, THEN le_trans])

text \<open>The client-supplied device fields that are stored with a session are bounded: 256
  runes for the fingerprint, the device token and the security proof, 1024 for the device
  name, counted as Go counts the runes of the stored string.\<close>

theorem request_meta_bounded:
  "length (runes (rm_fingerprint (request_meta_of nets r))) \<le> 256
   \<and> length (runes (rm_device_token (request_meta_of nets r))) \<le> 256
   \<and> length (runes (rm_security_proof (request_meta_of nets r))) \<le> 256
   \<and> length (runes (rm_device_name (request_meta_of nets r))) \<le> 1024"
  by (simp add: request_meta_of_def truncateRunes_bound)

end
