(* ===== verification/TtlCache.thy ===== *)
theory TtlCache
  imports Prelude
begin

text \<open>
  The contract shared by the three time-bounded caches of the server: the CORS origin
  cache (\<open>src/pkg/api/cors.go\<close>, \<open>originCache.allowed\<close>), the per-project rate-limit rules
  (\<open>src/pkg/api/ratelimit.go\<close>, \<open>projectLimiters.resolve\<close>) and the project-config documents
  (\<open>src/internal/infrastructure/postgres/config_reader.go\<close>, \<open>loadDoc\<close>). A read at time
  \<open>now\<close> returns the cached value while it is fresh; otherwise it asks the source, keeps
  the answer for the cache's lifetime, and on an error keeps the last good value (or the
  fallback) for a short grace. The lemmas of the locale are what the clients rely on;
  each cache interprets it on its own code.
\<close>

text \<open>A history of reads: the instant, the key and what the source would answer then.\<close>

fun serve ::
  "(instant \<Rightarrow> 'e + 'v \<Rightarrow> 'k \<Rightarrow> 'c \<Rightarrow> 'v \<times> 'c) \<Rightarrow> (instant \<times> 'k \<times> ('e + 'v)) list \<Rightarrow> 'c \<Rightarrow> 'v list \<times> 'c" where
  "serve read [] c = ([], c)"
| "serve read ((now, k, ans) # evs) c =
     (let (v, c1) = read now ans k c; (vs, c2) = serve read evs c1 in (v # vs, c2))"

lemma serve_Cons:
  "serve read ((now, k, ans) # evs) c =
     (fst (read now ans k c) # fst (serve read evs (snd (read now ans k c))),
      snd (serve read evs (snd (read now ans k c))))"
  by (simp add: case_prod_beta Let_def)

declare serve.simps(2) [simp del]

lemma serve_length [simp]: "length (fst (serve read evs c)) = length evs"
proof (induction evs arbitrary: c)
  case (Cons ev evs)
  then show ?case by (cases ev) (simp add: serve_Cons)
qed simp

text \<open>The entry of \<open>k\<close> holds \<open>v\<close> or expires within one lifetime of \<open>T\<close>.\<close>

definition settled ::
  "('c \<Rightarrow> 'k \<Rightarrow> ('v \<times> instant) option) \<Rightarrow> duration \<Rightarrow> 'k \<Rightarrow> 'v \<Rightarrow> instant \<Rightarrow> 'c \<Rightarrow> bool" where
  "settled lookup horizon k v T c \<longleftrightarrow>
     (\<forall>v' e. lookup c k = Some (v', e) \<longrightarrow> v' = v \<or> e < T + horizon)"

locale ttl_cache =
  fixes lookup :: "'c \<Rightarrow> 'k \<Rightarrow> ('v \<times> instant) option"
    and read :: "instant \<Rightarrow> 'e + 'v \<Rightarrow> 'k \<Rightarrow> 'c \<Rightarrow> 'v \<times> 'c"
    and fallback :: 'v
    and life :: "'c \<Rightarrow> duration"
    and grace :: duration
  assumes read_hit: "lookup c k = Some (v, e) \<Longrightarrow> now < e \<Longrightarrow> read now ans k c = (v, c)"
    and read_miss_value:
      "\<forall>v e. lookup c k = Some (v, e) \<longrightarrow> \<not> now < e \<Longrightarrow>
       fst (read now ans k c) =
         (case ans of Inr v \<Rightarrow> v
          | Inl _ \<Rightarrow> (case lookup c k of Some (v, _) \<Rightarrow> v | None \<Rightarrow> fallback))"
    and read_miss_entry:
      "\<forall>v e. lookup c k = Some (v, e) \<longrightarrow> \<not> now < e \<Longrightarrow>
       lookup (snd (read now ans k c)) k =
         Some (fst (read now ans k c), now + (case ans of Inr _ \<Rightarrow> life c | Inl _ \<Rightarrow> grace))"
    and read_other: "k' \<noteq> k \<Longrightarrow> lookup (snd (read now ans k c)) k' = lookup c k'"
    and read_life: "life (snd (read now ans k c)) = life c"
begin

text \<open>The value a read returns is the fresh value, the source's answer, or the last good one.\<close>

lemma read_cases:
  obtains (hit) e where "lookup c k = Some (fst (read now ans k c), e)" "now < e"
      "snd (read now ans k c) = c"
    | (miss) "\<forall>v e. lookup c k = Some (v, e) \<longrightarrow> \<not> now < e"
proof (cases "\<exists>v e. lookup c k = Some (v, e) \<and> now < e")
  case True
  then obtain v e where "lookup c k = Some (v, e)" "now < e" by blast
  with read_hit [OF this] that(1) show ?thesis by simp
next
  case False
  with that(2) show ?thesis by blast
qed

text \<open>Nothing is invented: every value served for a key satisfies any property that the
  fallback, the initially cached values and the source's answers for that key have.\<close>

lemma read_entry_property:
  assumes "P fallback" and "\<forall>v e. lookup c k = Some (v, e) \<longrightarrow> P v"
    and "k' = k \<longrightarrow> (\<forall>v. ans = Inr v \<longrightarrow> P v)"
  shows "k' = k \<longrightarrow> P (fst (read now ans k' c))"
    and "\<forall>v e. lookup (snd (read now ans k' c)) k = Some (v, e) \<longrightarrow> P v"
proof -
  show val: "k' = k \<longrightarrow> P (fst (read now ans k' c))"
  proof
    assume [simp]: "k' = k"
    show "P (fst (read now ans k' c))"
    proof (cases rule: read_cases [of c k now ans])
      case hit
      then show ?thesis using assms(2) by simp
    next
      case miss
      show ?thesis
        using read_miss_value [OF miss, of ans] assms
        by (auto split: sum.splits option.splits)
    qed
  qed
  show "\<forall>v e. lookup (snd (read now ans k' c)) k = Some (v, e) \<longrightarrow> P v"
  proof (cases "k' = k")
    case True
    show ?thesis
    proof (cases rule: read_cases [of c k now ans])
      case hit
      then show ?thesis using assms(2) True by simp
    next
      case miss
      show ?thesis using read_miss_entry [OF miss, of ans] val True by simp
    qed
  next
    case False
    then show ?thesis using assms(2) read_other [of k k'] by simp
  qed
qed

lemma serve_property:
  assumes "P fallback" and "\<forall>v e. lookup c k = Some (v, e) \<longrightarrow> P v"
    and "\<forall>(now, k', ans) \<in> set evs. k' = k \<longrightarrow> (\<forall>v. ans = Inr v \<longrightarrow> P v)"
  shows "\<forall>i < length evs. fst (snd (evs ! i)) = k \<longrightarrow> P (fst (serve read evs c) ! i)"
  using assms(2,3)
proof (induction evs arbitrary: c)
  case (Cons ev evs)
  obtain now k' ans where ev: "ev = (now, k', ans)" by (cases ev)
  note step = read_entry_property [OF assms(1) Cons.prems(1), of k' ans now]
  have a: "k' = k \<longrightarrow> (\<forall>v. ans = Inr v \<longrightarrow> P v)" using Cons.prems(2) ev by simp
  have "\<forall>i < length evs. fst (snd (evs ! i)) = k \<longrightarrow> P (fst (serve read evs (snd (read now ans k' c))) ! i)"
    using Cons.IH [OF step(2) [OF a]] Cons.prems(2) by simp
  then show ?case
    using step(1) [OF a] by (auto simp: ev serve_Cons nth_Cons split: nat.split)
qed simp

text \<open>Bounded staleness: once the source answers \<open>v\<close> for a key from time \<open>T\<close> on, every read
  of that key at \<open>T + max life grace\<close> or later returns \<open>v\<close>, whatever was cached before.\<close>

lemma read_settled:
  assumes "settled lookup (max (life c) grace) k v T c" and "k' = k \<longrightarrow> T \<le> now \<longrightarrow> ans = Inr v"
  shows "settled lookup (max (life c) grace) k v T (snd (read now ans k' c))"
    and "k' = k \<Longrightarrow> T + max (life c) grace \<le> now \<Longrightarrow> 0 \<le> max (life c) grace \<Longrightarrow>
         fst (read now ans k' c) = v"
proof -
  show "settled lookup (max (life c) grace) k v T (snd (read now ans k' c))"
  proof (cases "k' = k")
    case True
    show ?thesis
    proof (cases rule: read_cases [of c k now ans])
      case hit
      then show ?thesis using assms(1) True by simp
    next
      case miss
      have "T \<le> now \<longrightarrow> fst (read now ans k c) = v"
        using read_miss_value [OF miss, of ans] assms(2) True by auto
      with read_miss_entry [OF miss, of ans] True show ?thesis
        by (auto simp: settled_def read_life split: sum.splits)
    qed
  next
    case False
    then show ?thesis using assms(1) read_other [of k k'] by (simp add: settled_def read_life)
  qed
next
  assume "k' = k" and late: "T + max (life c) grace \<le> now" "0 \<le> max (life c) grace"
  then have ans: "ans = Inr v" using assms(2) by linarith
  show "fst (read now ans k' c) = v"
  proof (cases rule: read_cases [of c k now ans])
    case hit
    then show ?thesis using assms(1) late \<open>k' = k\<close> by (auto simp: settled_def)
  next
    case miss
    then show ?thesis using read_miss_value [OF miss, of ans] ans \<open>k' = k\<close> by simp
  qed
qed

lemma serve_bounded_staleness:
  assumes "settled lookup (max (life c) grace) k v T c" and "0 \<le> max (life c) grace"
    and "\<forall>(now, k', ans) \<in> set evs. k' = k \<longrightarrow> T \<le> now \<longrightarrow> ans = Inr v"
  shows "\<forall>i < length evs. fst (snd (evs ! i)) = k \<longrightarrow> T + max (life c) grace \<le> fst (evs ! i) \<longrightarrow>
           fst (serve read evs c) ! i = v"
  using assms
proof (induction evs arbitrary: c)
  case (Cons ev evs)
  obtain now k' ans where ev: "ev = (now, k', ans)" by (cases ev)
  have a: "k' = k \<longrightarrow> T \<le> now \<longrightarrow> ans = Inr v" using Cons.prems(3) ev by simp
  note step = read_settled [OF Cons.prems(1) a]
  have "\<forall>i < length evs. fst (snd (evs ! i)) = k \<longrightarrow> T + max (life c) grace \<le> fst (evs ! i) \<longrightarrow>
          fst (serve read evs (snd (read now ans k' c))) ! i = v"
    using Cons.IH [of "snd (read now ans k' c)"] step(1) Cons.prems(2,3) by (simp add: read_life)
  then show ?case
    using step(2) Cons.prems(2)
    by (auto simp: ev serve_Cons nth_Cons split: nat.split)
qed simp

end

end
