(* ===== verification/Cors.thy ===== *)
theory Cors
  imports Http TtlCache
begin

text \<open>
  Cross-origin policy (\<open>src/pkg/api/cors.go\<close>): the cached union of the origins registered
  by app clients and the middleware that reflects allowed origins and answers preflight
  requests. The source of the union is an argument that reads the wrapped handler's
  state; a missing source is \<open>None\<close>.
\<close>

section \<open>The origin cache\<close>

record originCache =
  oc_ttl :: duration
  oc_set :: "string set"
  oc_exp :: instant

definition originSourceStaleGrace :: duration where "originSourceStaleGrace = 5 * Second"
definition defaultOriginCacheTTL :: duration where "defaultOriginCacheTTL = 60 * Second"

definition new_origin_cache :: "duration \<Rightarrow> originCache" where
  "new_origin_cache ttl =
     \<lparr>oc_ttl = (if ttl \<le> 0 then defaultOriginCacheTTL else ttl), oc_set = {}, oc_exp = zeroTime\<rparr>"

text \<open>The set a lookup decides on, with the cache it leaves; \<open>ans\<close> is what the source answers
  now, asked only when the cache is stale.\<close>

definition origin_refresh ::
  "instant \<Rightarrow> error + string list \<Rightarrow> originCache \<Rightarrow> string set \<times> originCache" where
  "origin_refresh now ans c =
     (if now < oc_exp c then (oc_set c, c)
      else (case ans of
              Inl _ \<Rightarrow> (oc_set c, c\<lparr>oc_exp := now + originSourceStaleGrace\<rparr>)
            | Inr origins \<Rightarrow> (set origins, c\<lparr>oc_set := set origins, oc_exp := now + oc_ttl c\<rparr>)))"

definition cache_allowed ::
  "(error + string list) option \<Rightarrow> instant \<Rightarrow> string \<Rightarrow> originCache \<Rightarrow> bool \<times> originCache" where
  "cache_allowed src now origin c =
     (case src of
        None \<Rightarrow> (False, c)
      | Some ans \<Rightarrow> let (os, c') = origin_refresh now ans c in (origin \<in> os, c'))"

section \<open>The middleware\<close>

definition cors_allow_any :: "string list \<Rightarrow> bool" where
  "cors_allow_any allowedOrigins \<longleftrightarrow> ''*'' \<in> set (map trim_space allowedOrigins)"

definition cors_static :: "string list \<Rightarrow> string set" where
  "cors_static allowedOrigins = {x \<in> set (map trim_space allowedOrigins). x \<noteq> [] \<and> x \<noteq> ''*''}"

definition cors_methods :: string where
  "cors_methods = ''GET,POST,PUT,PATCH,DELETE,OPTIONS''"

definition cors_request_headers :: string where
  "cors_request_headers =
     ''Authorization,Content-Type,X-Client-ID,X-CSRF-Token,X-Environment,X-Device-Name,'' @
     ''X-Device-Fingerprint,X-Device-Token,X-Security-Token,X-Security-Proof,Idempotency-Key''"

definition setCORSHeaders :: "string \<Rightarrow> 'b response \<Rightarrow> 'b response" where
  "setCORSHeaders origin w =
     (let h = header_add ''Vary'' ''Origin'' (rs_headers w);
          h = header_set ''Access-Control-Allow-Origin'' origin h;
          h = header_set ''Access-Control-Allow-Credentials'' ''true'' h;
          h = header_set ''Access-Control-Allow-Methods'' cors_methods h;
          h = header_set ''Access-Control-Allow-Headers'' cors_request_headers h;
          h = header_set ''Access-Control-Expose-Headers''
                ''Set-Cookie,RateLimit-Limit,RateLimit-Remaining,RateLimit-Reset'' h;
          h = header_set ''Access-Control-Max-Age'' ''600'' h in
      w\<lparr>rs_headers := h\<rparr>)"

definition setCORSHeadersPublic :: "'b response \<Rightarrow> 'b response" where
  "setCORSHeadersPublic w =
     (let h = header_add ''Vary'' ''Origin'' (rs_headers w);
          h = header_set ''Access-Control-Allow-Origin'' ''*'' h;
          h = header_set ''Access-Control-Allow-Methods'' cors_methods h;
          h = header_set ''Access-Control-Allow-Headers'' cors_request_headers h;
          h = header_set ''Access-Control-Max-Age'' ''600'' h in
      w\<lparr>rs_headers := h\<rparr>)"

text \<open>The headers written for a request, if its origin is allowed, and the cache left.\<close>

definition cors_apply ::
  "string list \<Rightarrow> (error + string list) option \<Rightarrow> 'b response \<Rightarrow> http_request \<Rightarrow> originCache \<Rightarrow>
   'b response option \<times> originCache" where
  "cors_apply allowedOrigins src w r c =
     (let origin = req_header r ''Origin'' in
      if cors_allow_any allowedOrigins then (Some (setCORSHeadersPublic w), c)
      else if origin \<in> cors_static allowedOrigins then (Some (setCORSHeaders origin w), c)
      else
        let (ok, c') = cache_allowed src (cx_now (rq_ctx r)) origin c in
        (if ok then Some (setCORSHeaders origin w) else None, c'))"

definition CORSMiddleware ::
  "string list \<Rightarrow> ('s \<Rightarrow> error + string list) option \<Rightarrow> ('b, 's) handler \<Rightarrow> ('b, originCache \<times> 's) handler" where
  "CORSMiddleware allowedOrigins source next =
     (\<lambda>w r (c, s).
        if req_header r ''Origin'' = [] then let (w', s') = next w r s in (w', (c, s'))
        else
          (case cors_apply allowedOrigins (map_option (\<lambda>f. f s) source) w r c of
             (None, c') \<Rightarrow> let (w', s') = next w r s in (w', (c', s'))
           | (Some w1, c') \<Rightarrow>
               if rq_method r = ''OPTIONS'' \<and> req_header r ''Access-Control-Request-Method'' \<noteq> []
               then (w1\<lparr>rs_status := 204\<rparr>, (c', s))
               else let (w', s') = next w1 r s in (w', (c', s'))))"

section \<open>Lemmas\<close>

definition origin_lookup :: "originCache \<Rightarrow> unit \<Rightarrow> (string set \<times> instant) option" where
  "origin_lookup c u = Some (oc_set c, oc_exp c)"

definition origin_read ::
  "instant \<Rightarrow> error + string set \<Rightarrow> unit \<Rightarrow> originCache \<Rightarrow> string set \<times> originCache" where
  "origin_read now ans u c =
     (if now < oc_exp c then (oc_set c, c)
      else (case ans of
              Inl _ \<Rightarrow> (oc_set c, c\<lparr>oc_exp := now + originSourceStaleGrace\<rparr>)
            | Inr os \<Rightarrow> (os, c\<lparr>oc_set := os, oc_exp := now + oc_ttl c\<rparr>)))"

lemma origin_refresh_read: "origin_refresh now ans c = origin_read now (map_sum id set ans) () c"
  by (simp add: origin_refresh_def origin_read_def split: sum.splits)

interpretation origin_cache: ttl_cache origin_lookup origin_read "{}" oc_ttl originSourceStaleGrace
  by unfold_locales (auto simp: origin_lookup_def origin_read_def split: sum.splits)

text \<open>A history of CORS lookups: the instant and what the source would answer then.\<close>

fun origin_sets :: "(instant \<times> (error + string list)) list \<Rightarrow> originCache \<Rightarrow> string set list" where
  "origin_sets [] c = []"
| "origin_sets ((now, ans) # evs) c =
     fst (origin_refresh now ans c) # origin_sets evs (snd (origin_refresh now ans c))"

lemma origin_sets_serve:
  "origin_sets evs c = fst (serve origin_read (map (\<lambda>(now, ans). (now, (), map_sum id set ans)) evs) c)"
  by (induction evs c rule: origin_sets.induct) (simp_all add: serve_Cons origin_refresh_read id_def)

lemma length_origin_sets [simp]: "length (origin_sets evs c) = length evs"
  by (simp add: origin_sets_serve)

section \<open>Properties\<close>

text \<open>C39: revoking an origin takes effect within the cache lifetime: if from \<open>T\<close> on the union of
  the registered origins no longer contains \<open>o\<close>, every lookup at \<open>T + 60s\<close> or later refuses it.\<close>

theorem cors_origin_revocation_bounded:
  assumes "\<forall>(now, ans) \<in> set evs. T \<le> now \<longrightarrow> ans = Inr origins" and "orig \<notin> set origins"
    and "i < length evs" and "T + 60 * Second \<le> fst (evs ! i)" and "zeroTime \<le> T"
  shows "orig \<notin> origin_sets evs (new_origin_cache 0) ! i"
proof -
  let ?c = "new_origin_cache 0"
  let ?evs = "map (\<lambda>(now, ans). (now, (), map_sum id set ans)) evs"
  have h: "max (oc_ttl ?c) originSourceStaleGrace = 60 * Second"
    by (simp add: new_origin_cache_def defaultOriginCacheTTL_def originSourceStaleGrace_def time_units)
  have s: "settled origin_lookup (max (oc_ttl ?c) originSourceStaleGrace) () (set origins) T ?c"
    using assms(5) unfolding h by (simp add: settled_def origin_lookup_def new_origin_cache_def time_units)
  have a: "\<forall>(now, k, ans) \<in> set ?evs. k = () \<longrightarrow> T \<le> now \<longrightarrow> ans = Inr (set origins)"
    using assms(1) by fastforce
  from origin_cache.serve_bounded_staleness [OF s _ a] h assms(3,4)
  have "fst (serve origin_read ?evs ?c) ! i = set origins"
    by (auto simp: time_units case_prod_beta)
  then show ?thesis using assms(2) by (simp add: origin_sets_serve)
qed

theorem cors_origin_revocation_bounded_witness:
  "''https://a'' \<notin> origin_sets [(0, Inr [''https://a'']), (61 * Second, Inr [])] (new_origin_cache 0) ! 1"
  by (rule cors_origin_revocation_bounded [of _ 1 "[]"]) (auto simp: time_units zeroTime_def)

text \<open>Failing open never widens the policy: over any history of lookups, with the source
  failing at any of them, an origin is allowed only if some successful answer listed it.\<close>

theorem cors_never_widens:
  assumes "i < length evs" and "orig \<in> origin_sets evs (new_origin_cache ttl) ! i"
  shows "\<exists>(now, ans) \<in> set evs. \<exists>os. ans = Inr os \<and> orig \<in> set os"
proof (rule ccontr)
  assume no: "\<not> ?thesis"
  let ?evs = "map (\<lambda>(now, ans). (now, (), map_sum id set ans)) evs"
  have "\<forall>(now, k, ans) \<in> set ?evs. k = () \<longrightarrow> (\<forall>v. ans = Inr v \<longrightarrow> orig \<notin> v)"
  proof clarsimp
    fix t a v assume "(t, a) \<in> set evs" "map_sum id set a = Inr v" "orig \<in> v"
    then show False using no by (cases a) fastforce+
  qed
  from origin_cache.serve_property [where P = "\<lambda>v. orig \<notin> v" and k = "()", OF _ _ this]
  have "orig \<notin> fst (serve origin_read ?evs (new_origin_cache ttl)) ! i"
    using assms(1) by (simp add: origin_lookup_def new_origin_cache_def)
  then show False using assms(2) by (simp add: origin_sets_serve)
qed

theorem cors_never_widens_witness:
  "\<exists>(now, ans) \<in> set [(0, Inr [''https://a'']), (61 * Second, Inl ErrInternal)].
     \<exists>os. ans = Inr os \<and> ''https://a'' \<in> set os"
  by (rule cors_never_widens [of 1 _ _ 0])
     (simp_all add: origin_refresh_def new_origin_cache_def time_units defaultOriginCacheTTL_def zeroTime_def)

text \<open>Credentials are never combined with the wildcard. If the middleware writes the
  credentials header at all, the request carried an origin, that very origin (not \<open>*\<close> as a
  policy) is what it reflects, the origin is in the static list or in the origin union, and
  the static list has no wildcard.\<close>

theorem cors_credentials_only_for_listed_origin:
  assumes "cors_apply allowedOrigins src w r c = (Some w', c')"
    and "header_get (rs_headers w) ''Access-Control-Allow-Credentials'' = []"
    and "header_get (rs_headers w') ''Access-Control-Allow-Credentials'' \<noteq> []"
  shows "\<not> cors_allow_any allowedOrigins
     \<and> header_get (rs_headers w') ''Access-Control-Allow-Origin'' = req_header r ''Origin''
     \<and> (req_header r ''Origin'' \<in> cors_static allowedOrigins
        \<or> (\<exists>ans. src = Some ans \<and> req_header r ''Origin'' \<in> fst (origin_refresh (cx_now (rq_ctx r)) ans c)))"
  using assms
  by (auto simp: cors_apply_def Let_def cache_allowed_def case_prod_beta setCORSHeaders_def
      setCORSHeadersPublic_def split: if_splits option.splits)

theorem cors_credentials_only_for_listed_origin_witness:
  "req_header (plain_request ''GET'' ''/v1/csrf'' [(''Origin'', [''https://a''])] [] ''1.2.3.4:5'') ''Origin''
     \<in> cors_static [''https://a'']"
proof -
  let ?r = "plain_request ''GET'' ''/v1/csrf'' [(''Origin'', [''https://a''])] [] ''1.2.3.4:5''"
  let ?w = "\<lparr>rs_status = 0, rs_headers = [], rs_body = (NoBody :: unit body)\<rparr>"
  have "cors_apply [''https://a''] None ?w ?r (new_origin_cache 0) = (Some (setCORSHeaders ''https://a'' ?w), new_origin_cache 0)"
    by (simp add: cors_apply_def plain_request_def req_header_def header_get_def) code_simp
  from cors_credentials_only_for_listed_origin [OF this] show ?thesis
    by (auto simp: setCORSHeaders_def Let_def simp del: list.set)
qed

end
