(* ===== verification/Json.thy ===== *)
theory Json
  imports GoStrings
begin

text \<open>
  JSON values and Go's \<open>encoding/json\<close> decoding of them into structs, as far as the
  project-config documents need it: struct fields are found by name up to case folding,
  every occurrence of a key is applied in order, \<open>null\<close> leaves a field unset, a value of
  the wrong type or an integer literal outside \<open>int64\<close> is an error, and a decoder with
  \<open>DisallowUnknownFields\<close> refuses any other key. A number keeps its literal.
\<close>

datatype json = JNull | JBool bool | JNum string | JStr string | JArr "json list" | JObj "(string \<times> json) list"

section \<open>Integer literals\<close>

definition digits_value :: "string \<Rightarrow> int option" where
  "digits_value s =
     (if s \<noteq> [] \<and> list_all is_digit s
      then Some (foldl (\<lambda>a c. a * 10 + int (the (digit_val c))) 0 s) else None)"

text \<open>\<open>strconv.ParseInt(lit, 10, 64)\<close> on a JSON number literal.\<close>

definition parse_int64 :: "string \<Rightarrow> int option" where
  "parse_int64 lit =
     (case lit of
        c # r \<Rightarrow>
          (case (if c = CHR ''-'' then map_option uminus (digits_value r) else digits_value lit) of
             Some n \<Rightarrow> if int64_range n then Some n else None
           | None \<Rightarrow> None)
      | [] \<Rightarrow> None)"

lemma parse_int64_range: "parse_int64 lit = Some n \<Longrightarrow> int64_range n"
  by (auto simp: parse_int64_def split: list.splits option.splits if_splits)

text \<open>\<open>strconv.Itoa\<close>\<close>

fun nat_digits :: "nat \<Rightarrow> string" where
  "nat_digits n = (if n < 10 then [char_of (48 + n)] else nat_digits (n div 10) @ [char_of (48 + n mod 10)])"

declare nat_digits.simps [simp del]

definition itoa :: "int \<Rightarrow> string" where
  "itoa n = (if n < 0 then CHR ''-'' # nat_digits (nat (- n)) else nat_digits (nat n))"

section \<open>Struct decoding\<close>

text \<open>Two names are the same key when their runes fold to the same letters. Against an ASCII
  name only the ASCII case pairs, the long s and the Kelvin sign fold.\<close>

definition fold_rune :: "rune \<Rightarrow> rune" where
  "fold_rune r = (if 65 \<le> r \<and> r \<le> 90 then r + 32 else if r = 383 then 115 else if r = 8490 then 107 else r)"

definition fold_name :: "string \<Rightarrow> rune list" where
  "fold_name s = map fold_rune (runes s)"

type_synonym 'r setters = "(string \<times> (json \<Rightarrow> 'r \<Rightarrow> 'r option)) list"

definition find_field :: "'r setters \<Rightarrow> string \<Rightarrow> (json \<Rightarrow> 'r \<Rightarrow> 'r option) option" where
  "find_field fs k =
     (case map_of fs k of
        Some f \<Rightarrow> Some f
      | None \<Rightarrow> map_option snd (find (\<lambda>(n, _). fold_name n = fold_name k) fs))"

fun decode_fields :: "'r setters \<Rightarrow> (string \<times> json) list \<Rightarrow> 'r \<Rightarrow> 'r option" where
  "decode_fields fs [] r = Some r"
| "decode_fields fs ((k, v) # kvs) r =
     (case find_field fs k of
        None \<Rightarrow> None
      | Some f \<Rightarrow> Option.bind (f v r) (decode_fields fs kvs))"

text \<open>Strict decoding of a JSON value into a struct with initial value \<open>r\<close>.\<close>

definition decode_struct :: "'r setters \<Rightarrow> json \<Rightarrow> 'r \<Rightarrow> 'r option" where
  "decode_struct fs j r = (case j of JNull \<Rightarrow> Some r | JObj kvs \<Rightarrow> decode_fields fs kvs r | _ \<Rightarrow> None)"

definition as_string_ptr :: "json \<Rightarrow> string option option" where
  "as_string_ptr j = (case j of JNull \<Rightarrow> Some None | JStr s \<Rightarrow> Some (Some s) | _ \<Rightarrow> None)"

definition as_bool_ptr :: "json \<Rightarrow> bool option option" where
  "as_bool_ptr j = (case j of JNull \<Rightarrow> Some None | JBool b \<Rightarrow> Some (Some b) | _ \<Rightarrow> None)"

definition as_int_ptr :: "json \<Rightarrow> int option option" where
  "as_int_ptr j = (case j of JNull \<Rightarrow> Some None | JNum l \<Rightarrow> map_option Some (parse_int64 l) | _ \<Rightarrow> None)"

fun all_some :: "'a option list \<Rightarrow> 'a list option" where
  "all_some [] = Some []"
| "all_some (x # xs) = Option.bind x (\<lambda>y. map_option (\<lambda>ys. y # ys) (all_some xs))"

definition as_string_elem :: "json \<Rightarrow> string option" where
  "as_string_elem j = (case j of JNull \<Rightarrow> Some [] | JStr s \<Rightarrow> Some s | _ \<Rightarrow> None)"

text \<open>A slice of strings; \<open>None\<close> is the nil slice.\<close>

definition as_strings :: "json \<Rightarrow> string list option option" where
  "as_strings j =
     (case j of
        JNull \<Rightarrow> Some None
      | JArr xs \<Rightarrow> map_option Some (all_some (map as_string_elem xs))
      | _ \<Rightarrow> None)"

definition set_via :: "(json \<Rightarrow> 'v option) \<Rightarrow> ('v \<Rightarrow> 'r \<Rightarrow> 'r) \<Rightarrow> json \<Rightarrow> 'r \<Rightarrow> 'r option" where
  "set_via as put j r = map_option (\<lambda>v. put v r) (as j)"

lemma all_some_length: "all_some xs = Some ys \<Longrightarrow> length ys = length xs"
  by (induction xs arbitrary: ys) (auto simp: bind_eq_Some_conv)

text \<open>Fail-closed: one unknown key anywhere in the object and the decoding fails.\<close>

lemma decode_fields_unknown:
  "(k, v) \<in> set kvs \<Longrightarrow> find_field fs k = None \<Longrightarrow> decode_fields fs kvs r = None"
  by (induction kvs arbitrary: r) (auto split: option.splits Option.bind_splits)

lemma decode_struct_unknown:
  "(k, v) \<in> set kvs \<Longrightarrow> find_field fs k = None \<Longrightarrow> decode_struct fs (JObj kvs) r = None"
  by (simp add: decode_struct_def decode_fields_unknown)

end
