(* ===== verification/ConfigSpec.thy ===== *)
theory ConfigSpec
  imports Errors Json "HOL-Library.List_Lexorder" "HOL-Library.Char_ord"
begin

text \<open>
  Validation of project-config documents (\<open>src/internal/domain/configspec.go\<close>): the
  canonical registries, the strict parsers and the validators of the \<open>auth\<close>,
  \<open>password_policy\<close>, \<open>session_policy\<close>, \<open>mfa_policy\<close>, \<open>rate_limits\<close>, \<open>consent\<close>, \<open>features\<close>
  and \<open>public_metadata\<close> documents, role normalisation, and the notification provider
  types. A document is a JSON value; \<open>jerr\<close> stands for the text of a decoding error and
  \<open>up\<close> for \<open>url.Parse\<close> (the scheme and the host of a parsed URL). A loop over a slice is
  a recursion with the set of values seen so far.
\<close>

section \<open>Registries\<close>

definition SupportedAuthMethods :: "string list" where
  "SupportedAuthMethods = [''email'', ''oauth'', ''passkey'', ''magic_link'', ''phone'']"

definition SupportedMFAFactors :: "string list" where
  "SupportedMFAFactors = [''totp'', ''sms'', ''email_otp'', ''webauthn'', ''backup_codes'']"

definition RegistrationModes :: "string list" where
  "RegistrationModes = [''open'', ''invite_only'', ''request_access'', ''closed'']"

definition PasswordStrategies :: "string list" where
  "PasswordStrategies = [''password_first'', ''after_verify'']"

definition RateLimitActions :: "string list" where
  "RateLimitActions = []"

definition RateLimitBy :: "string list" where
  "RateLimitBy = [''ip'']"

definition RateLimitEndpoints :: "string list" where
  "RateLimitEndpoints =
     [''/v1/auth/guest'', ''/v1/auth/sign-in/password'', ''/v1/auth/password/forgot'',
      ''/v1/auth/password/reset'', ''/v1/auth/password/verify'', ''/v1/auth/email/verification/start'',
      ''/v1/auth/email/verification/verify'', ''/v1/auth/phone/verification/start'',
      ''/v1/auth/phone/verification/verify'', ''/v1/auth/otp/start'', ''/v1/auth/otp/verify'',
      ''/v1/auth/magic-link/start'', ''/v1/auth/magic-link/verify'', ''/v1/auth/mfa/challenge'',
      ''/v1/auth/mfa/verify'', ''/v1/auth/webauthn/login/options'', ''/v1/auth/webauthn/login/verify'',
      ''/v1/auth/webauthn/register/options'', ''/v1/auth/webauthn/register/verify'',
      ''/v1/challenges/captcha/verify'', ''/v1/auth/sign-up'', ''/v1/auth/token/refresh'',
      ''/v1/auth/token/exchange'', ''/v1/auth/oauth/exchange'', ''/v1/auth/access-requests'']"

definition RiskSignals :: "string list" where
  "RiskSignals = [''new_device'', ''new_ip'', ''recent_failures'']"

definition RiskActions :: "string list" where
  "RiskActions = [''require_step_up'', ''block'', ''notify'', ''allow'']"

definition EmailProviderTypes :: "string list" where
  "EmailProviderTypes = [''smtp'']"

definition SMSProviderTypes :: "string list" where
  "SMSProviderTypes = [''generic'', ''twilio'', ''aws_sns'']"

definition FeatureKeys :: "string list" where
  "FeatureKeys =
     [''password'', ''otp'', ''phone_login'', ''magic_link'', ''webauthn'', ''oauth'', ''mfa'', ''guest'',
      ''email_verification'', ''phone_verification'', ''email_change'', ''phone_change'',
      ''resumable_flows'', ''impersonation'', ''consent'', ''access_requests'', ''step_up'']"

text \<open>\<open>stringSet.Has\<close> and \<open>stringSet.List\<close> on a registry kept in registration order.\<close>

definition Has :: "string list \<Rightarrow> string \<Rightarrow> bool" where
  "Has reg v \<longleftrightarrow> v \<in> set reg"

lemma Has_iff [simp]: "Has reg v \<longleftrightarrow> v \<in> set reg"
  by (simp add: Has_def)

definition invalid :: "string \<Rightarrow> error" where
  "invalid msg = WithMessage msg ErrValidation"

definition invalid_details :: "(string \<times> detail) list \<Rightarrow> string \<Rightarrow> error" where
  "invalid_details d msg = WithMessage msg (WithDetails d ErrValidation)"

section \<open>URLs\<close>

record url =
  u_scheme :: string
  u_host :: string

type_synonym url_parser = "string \<Rightarrow> url option"

definition ValidateAbsoluteHTTPURL :: "url_parser \<Rightarrow> string \<Rightarrow> string \<Rightarrow> unit res" where
  "ValidateAbsoluteHTTPURL up field s =
     (case up (trim_space s) of
        None \<Rightarrow> Inl (invalid (field @ '' must be an absolute http(s) URL''))
      | Some u \<Rightarrow>
          if u_scheme u = [] \<or> u_host u = []
          then Inl (invalid (field @ '' must be an absolute http(s) URL''))
          else
            let sc = map ascii_lower (u_scheme u) in
            if sc \<noteq> ''http'' \<and> sc \<noteq> ''https'' then Inl (invalid (field @ '' must use http or https''))
            else Inr ())"

section \<open>Roles\<close>

definition maxRoleLength :: nat where "maxRoleLength = 128"

definition roleAllowed :: "rune \<Rightarrow> bool" where
  "roleAllowed r \<longleftrightarrow>
     97 \<le> r \<and> r \<le> 122 \<or> 65 \<le> r \<and> r \<le> 90 \<or> 48 \<le> r \<and> r \<le> 57
     \<or> r = 95 \<or> r = 45 \<or> r = 46 \<or> r = 58 \<or> r = 47"

text \<open>One element of the loop: the trimmed role or the error; \<open>quote\<close> is \<open>%q\<close>.\<close>

definition check_role :: "(string \<Rightarrow> string) \<Rightarrow> string \<Rightarrow> string res" where
  "check_role quote raw =
     (let role = trim_space raw in
      if role = [] then Inl (invalid ''role must not be empty'')
      else if length role > maxRoleLength
      then Inl (invalid (''role '' @ quote role @ '' is longer than 128 characters''))
      else (case find (\<lambda>r. \<not> roleAllowed r) (runes role) of
              Some r \<Rightarrow>
                Inl (invalid (''role '' @ quote role @ '' contains an unsupported character '' @
                              quote (string_of_runes [r])))
            | None \<Rightarrow> Inr role))"

fun collect_roles :: "(string \<Rightarrow> string) \<Rightarrow> string list \<Rightarrow> string list \<Rightarrow> string list res" where
  "collect_roles quote [] out = Inr out"
| "collect_roles quote (raw # roles) out =
     res_bind (check_role quote raw) (\<lambda>role.
       if role \<in> set out then collect_roles quote roles out
       else collect_roles quote roles (out @ [role]))"

definition NormalizeRoles :: "(string \<Rightarrow> string) \<Rightarrow> string list \<Rightarrow> string list res" where
  "NormalizeRoles quote roles = res_bind (collect_roles quote roles []) (\<lambda>out. Inr (sort out))"

section \<open>The auth document\<close>

record AuthRegistrationConfig =
  ar_mode :: "string option"
  ar_password_strategy :: "string option"

record AuthMemberInvitesConfig =
  am_enabled :: "bool option"
  am_default_cap :: "int option"

record AuthConfigSpec =
  ac_methods :: "string list option"
  ac_registration :: "AuthRegistrationConfig option"
  ac_member_invites :: "AuthMemberInvitesConfig option"
  ac_app_base_url :: "string option"
  ac_default_locale :: "string option"
  ac_supported_locales :: "string list option"
  ac_locales :: "string list option"

text \<open>A nil slice and an empty one have the same elements.\<close>

definition elems :: "'a list option \<Rightarrow> 'a list" where
  "elems s = (case s of None \<Rightarrow> [] | Some xs \<Rightarrow> xs)"

definition registration_fields :: "AuthRegistrationConfig setters" where
  "registration_fields =
     [(''mode'', set_via as_string_ptr (\<lambda>v r. r\<lparr>ar_mode := v\<rparr>)),
      (''password_strategy'', set_via as_string_ptr (\<lambda>v r. r\<lparr>ar_password_strategy := v\<rparr>))]"

definition member_invites_fields :: "AuthMemberInvitesConfig setters" where
  "member_invites_fields =
     [(''enabled'', set_via as_bool_ptr (\<lambda>v r. r\<lparr>am_enabled := v\<rparr>)),
      (''default_cap'', set_via as_int_ptr (\<lambda>v r. r\<lparr>am_default_cap := v\<rparr>))]"

text \<open>A pointer to a struct: \<open>null\<close> clears it, an object is decoded into the struct it
  points to, or into a new one.\<close>

definition set_struct ::
  "'q setters \<Rightarrow> 'q \<Rightarrow> ('r \<Rightarrow> 'q option) \<Rightarrow> ('q option \<Rightarrow> 'r \<Rightarrow> 'r) \<Rightarrow> json \<Rightarrow> 'r \<Rightarrow> 'r option" where
  "set_struct fs zero get put j r =
     (case j of
        JNull \<Rightarrow> Some (put None r)
      | JObj _ \<Rightarrow>
          map_option (\<lambda>q. put (Some q) r)
            (decode_struct fs j (case get r of Some q \<Rightarrow> q | None \<Rightarrow> zero))
      | _ \<Rightarrow> None)"

definition auth_fields :: "AuthConfigSpec setters" where
  "auth_fields =
     [(''methods'', set_via as_strings (\<lambda>v r. r\<lparr>ac_methods := v\<rparr>)),
      (''registration'', set_struct registration_fields \<lparr>ar_mode = None, ar_password_strategy = None\<rparr>
          ac_registration (\<lambda>v r. r\<lparr>ac_registration := v\<rparr>)),
      (''member_invites'', set_struct member_invites_fields \<lparr>am_enabled = None, am_default_cap = None\<rparr>
          ac_member_invites (\<lambda>v r. r\<lparr>ac_member_invites := v\<rparr>)),
      (''app_base_url'', set_via as_string_ptr (\<lambda>v r. r\<lparr>ac_app_base_url := v\<rparr>)),
      (''default_locale'', set_via as_string_ptr (\<lambda>v r. r\<lparr>ac_default_locale := v\<rparr>)),
      (''supported_locales'', set_via as_strings (\<lambda>v r. r\<lparr>ac_supported_locales := v\<rparr>)),
      (''locales'', set_via as_strings (\<lambda>v r. r\<lparr>ac_locales := v\<rparr>))]"

definition ParseAuthConfig :: "string \<Rightarrow> json \<Rightarrow> AuthConfigSpec res" where
  "ParseAuthConfig jerr j =
     (case decode_struct auth_fields j
             \<lparr>ac_methods = None, ac_registration = None, ac_member_invites = None, ac_app_base_url = None,
              ac_default_locale = None, ac_supported_locales = None, ac_locales = None\<rparr> of
        None \<Rightarrow> Inl (invalid (''invalid auth config: '' @ jerr))
      | Some c \<Rightarrow> Inr c)"

fun validate_methods_from :: "string list \<Rightarrow> string list \<Rightarrow> unit res" where
  "validate_methods_from seen [] = Inr ()"
| "validate_methods_from seen (m # ms) =
     (if \<not> Has SupportedAuthMethods m then
        Inl (invalid_details [(''field'', DStr ''methods''), (''value'', DStr m),
                              (''allowed'', DStrs SupportedAuthMethods)]
               (''unsupported auth method: '' @ m))
      else if m \<in> set seen then Inl (invalid (''duplicate auth method: '' @ m))
      else validate_methods_from (m # seen) ms)"

definition validateMethods :: "AuthConfigSpec \<Rightarrow> unit res" where
  "validateMethods c = validate_methods_from [] (elems (ac_methods c))"

definition validateRegistration :: "AuthConfigSpec \<Rightarrow> unit res" where
  "validateRegistration c =
     (case ac_registration c of
        None \<Rightarrow> Inr ()
      | Some r \<Rightarrow>
          res_bind
            (case ar_mode r of
               Some m \<Rightarrow>
                 if m \<noteq> [] \<and> \<not> Has RegistrationModes m then
                   Inl (invalid_details [(''field'', DStr ''registration.mode''), (''value'', DStr m),
                                         (''allowed'', DStrs RegistrationModes)]
                          (''unsupported registration mode: '' @ m))
                 else Inr ()
             | None \<Rightarrow> Inr ())
            (\<lambda>_. case ar_password_strategy r of
               Some p \<Rightarrow>
                 if p \<noteq> [] \<and> \<not> Has PasswordStrategies p then
                   Inl (invalid_details [(''field'', DStr ''registration.password_strategy''), (''value'', DStr p),
                                         (''allowed'', DStrs PasswordStrategies)]
                          (''unsupported password strategy: '' @ p))
                 else Inr ()
             | None \<Rightarrow> Inr ()))"

definition memberInvitesMaxCap :: int where "memberInvitesMaxCap = 100000"

definition validateMemberInvites :: "AuthConfigSpec \<Rightarrow> unit res" where
  "validateMemberInvites c =
     (case ac_member_invites c of
        None \<Rightarrow> Inr ()
      | Some mi \<Rightarrow>
          (case am_default_cap mi of
             None \<Rightarrow> Inr ()
           | Some cap \<Rightarrow>
               if cap < 0 \<or> cap > memberInvitesMaxCap then
                 Inl (invalid_details [(''field'', DStr ''member_invites.default_cap''), (''min'', DInt 0),
                                       (''max'', DInt memberInvitesMaxCap)]
                        ''member_invites.default_cap out of range'')
               else if cap > 0 \<and> am_enabled mi = Some False then
                 Inl (invalid ''member_invites.default_cap requires member_invites.enabled'')
               else Inr ()))"

definition validateDefaultLocale :: "AuthConfigSpec \<Rightarrow> unit res" where
  "validateDefaultLocale c =
     (let locales = (if elems (ac_supported_locales c) = [] then elems (ac_locales c)
                     else elems (ac_supported_locales c)) in
      case ac_default_locale c of
        None \<Rightarrow> Inr ()
      | Some d \<Rightarrow>
          if trim_space d = [] \<or> locales = [] \<or> d \<in> set locales then Inr ()
          else Inl (invalid_details [(''field'', DStr ''default_locale''), (''value'', DStr d),
                                     (''supported_locales'', DStrs locales)]
                      ''default_locale must be one of the supported locales''))"

definition validate_auth :: "url_parser \<Rightarrow> AuthConfigSpec \<Rightarrow> unit res" where
  "validate_auth up c =
     res_bind (validateMethods c) (\<lambda>_.
     res_bind (validateRegistration c) (\<lambda>_.
     res_bind (validateMemberInvites c) (\<lambda>_.
     res_bind
       (case ac_app_base_url c of
          Some u \<Rightarrow>
            if trim_space u \<noteq> [] then ValidateAbsoluteHTTPURL up ''app_base_url'' u else Inr ()
        | None \<Rightarrow> Inr ())
       (\<lambda>_. validateDefaultLocale c))))"

section \<open>The password_policy document\<close>

record PasswordPolicySpec =
  pp_min_length :: "int option"
  pp_breached_check :: "bool option"
  pp_history :: "int option"
  pp_zxcvbn_min_score :: "int option"

definition password_policy_fields :: "PasswordPolicySpec setters" where
  "password_policy_fields =
     [(''min_length'', set_via as_int_ptr (\<lambda>v r. r\<lparr>pp_min_length := v\<rparr>)),
      (''breached_check'', set_via as_bool_ptr (\<lambda>v r. r\<lparr>pp_breached_check := v\<rparr>)),
      (''history'', set_via as_int_ptr (\<lambda>v r. r\<lparr>pp_history := v\<rparr>)),
      (''zxcvbn_min_score'', set_via as_int_ptr (\<lambda>v r. r\<lparr>pp_zxcvbn_min_score := v\<rparr>))]"

definition empty_password_policy :: PasswordPolicySpec where
  "empty_password_policy =
     \<lparr>pp_min_length = None, pp_breached_check = None, pp_history = None, pp_zxcvbn_min_score = None\<rparr>"

definition ParsePasswordPolicy :: "string \<Rightarrow> json \<Rightarrow> PasswordPolicySpec res" where
  "ParsePasswordPolicy jerr j =
     (case decode_struct password_policy_fields j empty_password_policy of
        None \<Rightarrow> Inl (invalid (''invalid password_policy: '' @ jerr))
      | Some c \<Rightarrow> Inr c)"

text \<open>\<open>if p != nil && bad(*p) { return err }\<close>\<close>

definition check_ptr :: "'a option \<Rightarrow> ('a \<Rightarrow> bool) \<Rightarrow> error \<Rightarrow> unit res" where
  "check_ptr p bad e = (case p of Some v \<Rightarrow> if bad v then Inl e else Inr () | None \<Rightarrow> Inr ())"

lemma check_ptr_Inr [simp, res_simps]: "check_ptr p bad e = Inr u \<longleftrightarrow> (\<forall>v. p = Some v \<longrightarrow> \<not> bad v)"
  by (auto simp: check_ptr_def split: option.splits)

definition validate_password_policy :: "PasswordPolicySpec \<Rightarrow> unit res" where
  "validate_password_policy c =
     res_bind (check_ptr (pp_min_length c) (\<lambda>v. v < 1 \<or> v > 256)
                 (invalid ''min_length must be between 1 and 256'')) (\<lambda>_.
     res_bind (check_ptr (pp_zxcvbn_min_score c) (\<lambda>v. v < 0 \<or> v > 4)
                 (invalid ''zxcvbn_min_score must be between 0 and 4'')) (\<lambda>_.
     res_bind (check_ptr (pp_breached_check c) (\<lambda>b. b) (invalid ''breached_check not supported'')) (\<lambda>_.
     res_bind (check_ptr (pp_history c) (\<lambda>v. v < 0 \<or> v > 50)
                 (invalid ''history must be between 0 and 50'')) (\<lambda>_.
     check_ptr (pp_history c) (\<lambda>v. v > 0) (invalid ''password history not supported'')))))"

section \<open>The session_policy document\<close>

record SessionPolicySpec =
  sp_access_ttl :: "int option"
  sp_refresh_ttl :: "int option"
  sp_idle_timeout :: "int option"
  sp_absolute_timeout :: "int option"
  sp_reuse_detection :: "bool option"
  sp_access_token_claims :: "string list option"

definition session_policy_fields :: "SessionPolicySpec setters" where
  "session_policy_fields =
     [(''access_ttl'', set_via as_int_ptr (\<lambda>v r. r\<lparr>sp_access_ttl := v\<rparr>)),
      (''refresh_ttl'', set_via as_int_ptr (\<lambda>v r. r\<lparr>sp_refresh_ttl := v\<rparr>)),
      (''idle_timeout'', set_via as_int_ptr (\<lambda>v r. r\<lparr>sp_idle_timeout := v\<rparr>)),
      (''absolute_timeout'', set_via as_int_ptr (\<lambda>v r. r\<lparr>sp_absolute_timeout := v\<rparr>)),
      (''reuse_detection'', set_via as_bool_ptr (\<lambda>v r. r\<lparr>sp_reuse_detection := v\<rparr>)),
      (''access_token_claims'', set_via as_strings (\<lambda>v r. r\<lparr>sp_access_token_claims := v\<rparr>))]"

definition empty_session_policy :: SessionPolicySpec where
  "empty_session_policy =
     \<lparr>sp_access_ttl = None, sp_refresh_ttl = None, sp_idle_timeout = None, sp_absolute_timeout = None,
      sp_reuse_detection = None, sp_access_token_claims = None\<rparr>"

definition ParseSessionPolicy :: "string \<Rightarrow> json \<Rightarrow> SessionPolicySpec res" where
  "ParseSessionPolicy jerr j =
     (case decode_struct session_policy_fields j empty_session_policy of
        None \<Rightarrow> Inl (invalid (''invalid session_policy: '' @ jerr))
      | Some c \<Rightarrow> Inr c)"

definition ValidateSessionPolicyClaims :: "string list \<Rightarrow> unit res" where
  "ValidateSessionPolicyClaims claims =
     first_err (\<lambda>c. if c \<noteq> ''roles'' then
         Inl (invalid_details [(''field'', DStr ''access_token_claims''), (''value'', DStr c),
                               (''allowed'', DStrs [''roles''])]
                (''unsupported access token claim: '' @ c))
       else Inr ()) claims"

definition check_ttl :: "string \<Rightarrow> int option \<Rightarrow> int \<Rightarrow> unit res" where
  "check_ttl field v limit =
     (case v of
        None \<Rightarrow> Inr ()
      | Some x \<Rightarrow>
          if x \<le> 0 then Inl (invalid (field @ '' must be > 0''))
          else if x > limit then
            Inl (invalid_details [(''field'', DStr field), (''value'', DInt x), (''max'', DInt limit)]
                   (field @ '' exceeds maximum''))
          else Inr ())"

lemma check_ttl_Inr [simp, res_simps]:
  "check_ttl f v limit = Inr u \<longleftrightarrow> (\<forall>x. v = Some x \<longrightarrow> 0 < x \<and> x \<le> limit)"
  by (auto simp: check_ttl_def split: option.splits)

text \<open>\<open>if a != nil && b != nil && bad(*a, *b) { return err }\<close>\<close>

definition check_pair :: "string \<Rightarrow> int option \<Rightarrow> string \<Rightarrow> int option \<Rightarrow> (int \<Rightarrow> int \<Rightarrow> bool) \<Rightarrow> string \<Rightarrow> unit res" where
  "check_pair fa a fb b bad msg =
     (case (a, b) of
        (Some x, Some y) \<Rightarrow>
          if bad x y then Inl (invalid_details [(fa, DInt x), (fb, DInt y)] msg) else Inr ()
      | _ \<Rightarrow> Inr ())"

lemma check_pair_Inr [simp, res_simps]:
  "check_pair fa a fb b bad msg = Inr u \<longleftrightarrow> (\<forall>x y. a = Some x \<longrightarrow> b = Some y \<longrightarrow> \<not> bad x y)"
  by (auto simp: check_pair_def split: option.splits)

definition validateOrdering :: "SessionPolicySpec \<Rightarrow> unit res" where
  "validateOrdering c =
     res_bind (check_pair ''access_ttl'' (sp_access_ttl c) ''refresh_ttl'' (sp_refresh_ttl c) (\<lambda>a b. a \<ge> b)
                 ''access_ttl must be less than refresh_ttl'') (\<lambda>_.
     res_bind (check_pair ''access_ttl'' (sp_access_ttl c) ''idle_timeout'' (sp_idle_timeout c) (\<lambda>a b. a > b)
                 ''access_ttl must not exceed idle_timeout'') (\<lambda>_.
     res_bind (check_pair ''idle_timeout'' (sp_idle_timeout c) ''absolute_timeout'' (sp_absolute_timeout c)
                 (\<lambda>a b. a > b) ''idle_timeout must not exceed absolute_timeout'') (\<lambda>_.
     check_pair ''idle_timeout'' (sp_idle_timeout c) ''refresh_ttl'' (sp_refresh_ttl c) (\<lambda>a b. a > b)
                 ''idle_timeout must not exceed refresh_ttl'')))"

definition validate_session_policy :: "SessionPolicySpec \<Rightarrow> unit res" where
  "validate_session_policy c =
     res_bind (check_ttl ''access_ttl'' (sp_access_ttl c) 86400) (\<lambda>_.
     res_bind (check_ttl ''refresh_ttl'' (sp_refresh_ttl c) 31536000) (\<lambda>_.
     res_bind (check_ttl ''idle_timeout'' (sp_idle_timeout c) 31536000) (\<lambda>_.
     res_bind (check_ttl ''absolute_timeout'' (sp_absolute_timeout c) 31536000) (\<lambda>_.
     res_bind (ValidateSessionPolicyClaims (elems (sp_access_token_claims c))) (\<lambda>_.
     validateOrdering c)))))"

section \<open>The mfa_policy document\<close>

record MFAPolicySpec =
  mp_required_for_admins :: "bool option"
  mp_allowed_factors :: "string list option"
  mp_remember_device :: "bool option"

definition mfa_policy_fields :: "MFAPolicySpec setters" where
  "mfa_policy_fields =
     [(''required_for_admins'', set_via as_bool_ptr (\<lambda>v r. r\<lparr>mp_required_for_admins := v\<rparr>)),
      (''allowed_factors'', set_via as_strings (\<lambda>v r. r\<lparr>mp_allowed_factors := v\<rparr>)),
      (''remember_device'', set_via as_bool_ptr (\<lambda>v r. r\<lparr>mp_remember_device := v\<rparr>))]"

definition empty_mfa_policy :: MFAPolicySpec where
  "empty_mfa_policy =
     \<lparr>mp_required_for_admins = None, mp_allowed_factors = None, mp_remember_device = None\<rparr>"

definition ParseMFAPolicy :: "string \<Rightarrow> json \<Rightarrow> MFAPolicySpec res" where
  "ParseMFAPolicy jerr j =
     (case decode_struct mfa_policy_fields j empty_mfa_policy of
        None \<Rightarrow> Inl (invalid (''invalid mfa_policy: '' @ jerr))
      | Some c \<Rightarrow> Inr c)"

fun validate_factors_from :: "string list \<Rightarrow> string list \<Rightarrow> unit res" where
  "validate_factors_from seen [] = Inr ()"
| "validate_factors_from seen (f # fs) =
     (if \<not> Has SupportedMFAFactors f then
        Inl (invalid_details [(''field'', DStr ''allowed_factors''), (''value'', DStr f),
                              (''allowed'', DStrs SupportedMFAFactors)]
               (''allowed_factors: unknown factor '' @ f))
      else if f \<in> set seen then Inl (invalid (''allowed_factors: duplicate factor '' @ f))
      else validate_factors_from (f # seen) fs)"

definition validate_mfa_policy :: "MFAPolicySpec \<Rightarrow> unit res" where
  "validate_mfa_policy c =
     res_bind (validate_factors_from [] (elems (mp_allowed_factors c))) (\<lambda>_.
       if mp_allowed_factors c = Some [] \<and> mp_required_for_admins c = Some True
       then Inl (invalid ''allowed_factors cannot be empty when MFA is required'')
       else Inr ())"

definition MFAPolicyFactorName :: "string \<Rightarrow> string" where
  "MFAPolicyFactorName t =
     (if t = ''email'' then ''email_otp''
      else if t = ''recovery'' \<or> t = ''backup_codes'' then ''backup_codes''
      else t)"

definition FactorAllowed :: "MFAPolicySpec \<Rightarrow> string \<Rightarrow> bool" where
  "FactorAllowed c t \<longleftrightarrow>
     elems (mp_allowed_factors c) = [] \<or> MFAPolicyFactorName t \<in> set (elems (mp_allowed_factors c))"

section \<open>The rate_limits document\<close>

record RateLimitRuleSpec =
  rr_endpoint :: "string option"
  rr_action :: "string option"
  rr_limit :: "int option"
  rr_window_seconds :: "int option"
  rr_by :: "string option"

type_synonym RateLimitsSpec = "RateLimitRuleSpec list"

definition rate_rule_fields :: "RateLimitRuleSpec setters" where
  "rate_rule_fields =
     [(''endpoint'', set_via as_string_ptr (\<lambda>v r. r\<lparr>rr_endpoint := v\<rparr>)),
      (''action'', set_via as_string_ptr (\<lambda>v r. r\<lparr>rr_action := v\<rparr>)),
      (''limit'', set_via as_int_ptr (\<lambda>v r. r\<lparr>rr_limit := v\<rparr>)),
      (''window_seconds'', set_via as_int_ptr (\<lambda>v r. r\<lparr>rr_window_seconds := v\<rparr>)),
      (''by'', set_via as_string_ptr (\<lambda>v r. r\<lparr>rr_by := v\<rparr>))]"

definition as_rules :: "json \<Rightarrow> RateLimitRuleSpec list option" where
  "as_rules j =
     (case j of
        JNull \<Rightarrow> Some []
      | JArr xs \<Rightarrow>
          all_some (map (\<lambda>x. decode_struct rate_rule_fields x
            \<lparr>rr_endpoint = None, rr_action = None, rr_limit = None, rr_window_seconds = None, rr_by = None\<rparr>) xs)
      | _ \<Rightarrow> None)"

definition ParseRateLimits :: "string \<Rightarrow> json \<Rightarrow> RateLimitsSpec res" where
  "ParseRateLimits jerr j =
     (case decode_struct [(''rules'', set_via as_rules (\<lambda>v _. v))] j [] of
        None \<Rightarrow> Inl (invalid (''invalid rate_limits: '' @ jerr))
      | Some c \<Rightarrow> Inr c)"

definition rule_at :: "nat \<Rightarrow> string \<Rightarrow> string" where
  "rule_at i s = ''rules['' @ itoa (int i) @ ''].'' @ s"

definition blank :: "string option \<Rightarrow> bool" where
  "blank p \<longleftrightarrow> p = None \<or> trim_space (the p) = []"

definition validateBy :: "(string \<Rightarrow> string) \<Rightarrow> RateLimitRuleSpec \<Rightarrow> unit res" where
  "validateBy at r =
     (if blank (rr_by r) then Inl (invalid (at ''by'' @ '' is required''))
      else if \<not> Has RateLimitBy (the (rr_by r)) then
        Inl (invalid_details [(''field'', DStr (at ''by'')), (''value'', DStr (the (rr_by r))),
                              (''allowed'', DStrs RateLimitBy)]
               (at ''by'' @ '': unsupported subject''))
      else Inr ())"

definition validateEndpoint :: "(string \<Rightarrow> string) \<Rightarrow> RateLimitRuleSpec \<Rightarrow> unit res" where
  "validateEndpoint at r =
     (if blank (rr_endpoint r) then Inl (invalid (at ''endpoint'' @ '' is required''))
      else if \<not> Has RateLimitEndpoints (the (rr_endpoint r)) then
        Inl (invalid_details [(''field'', DStr (at ''endpoint'')), (''value'', DStr (the (rr_endpoint r)))]
               (at ''endpoint'' @ '': unsupported endpoint''))
      else Inr ())"

definition validate_rule :: "(string \<Rightarrow> string) \<Rightarrow> int \<Rightarrow> int \<Rightarrow> RateLimitRuleSpec \<Rightarrow> unit res" where
  "validate_rule at maxLimit maxWindow r =
     res_bind (validateBy at r) (\<lambda>_.
     res_bind (validateEndpoint at r) (\<lambda>_.
       if \<not> blank (rr_action r) \<and> \<not> Has RateLimitActions (the (rr_action r))
       then Inl (invalid (at ''action'' @ '' not supported yet''))
       else (case rr_limit r of
               None \<Rightarrow> Inl (invalid (at ''limit'' @ '' must be >= 1''))
             | Some l \<Rightarrow>
                 if l < 1 then Inl (invalid (at ''limit'' @ '' must be >= 1''))
                 else if l > maxLimit then Inl (invalid (at ''limit'' @ '' exceeds maximum''))
                 else (case rr_window_seconds r of
                         None \<Rightarrow> Inl (invalid (at ''window_seconds'' @ '' must be >= 1''))
                       | Some w \<Rightarrow>
                           if w < 1 then Inl (invalid (at ''window_seconds'' @ '' must be >= 1''))
                           else if w > maxWindow then Inl (invalid (at ''window_seconds'' @ '' exceeds maximum''))
                           else Inr ()))))"

fun validate_rules_from :: "nat \<Rightarrow> (string \<times> string) list \<Rightarrow> RateLimitRuleSpec list \<Rightarrow> unit res" where
  "validate_rules_from i seen [] = Inr ()"
| "validate_rules_from i seen (r # rs) =
     res_bind (validate_rule (rule_at i) 1000000 86400 r) (\<lambda>_.
       let t = (the (rr_endpoint r), the (rr_by r)) in
       if t \<in> set seen then
         Inl (invalid_details [(''endpoint'', DStr (fst t)), (''by'', DStr (snd t))]
                ''duplicate (endpoint, by) rule'')
       else validate_rules_from (i + 1) (t # seen) rs)"

definition validate_rate_limits :: "RateLimitsSpec \<Rightarrow> unit res" where
  "validate_rate_limits c = validate_rules_from 0 [] c"

section \<open>The consent document\<close>

record ConsentDocumentSpec =
  cd_key :: string
  cd_version :: string
  cd_title :: "string option"
  cd_body :: "string option"
  cd_locale :: "string option"
  cd_required :: "bool option"
  cd_url :: "string option"

definition doc_at :: "nat \<Rightarrow> string \<Rightarrow> string" where
  "doc_at i s = ''documents['' @ itoa (int i) @ ''].'' @ s"

definition validateRequiredPresentability :: "(string \<Rightarrow> string) \<Rightarrow> ConsentDocumentSpec \<Rightarrow> unit res" where
  "validateRequiredPresentability at d =
     (if cd_required d \<noteq> Some True then Inr ()
      else if blank (cd_title d) then Inl (invalid (at ''title'' @ '' is required for a required consent''))
      else if blank (cd_body d) \<and> blank (cd_url d)
      then Inl (invalid (at ''body'' @ '' or '' @ at ''url'' @ '' is required for a required consent''))
      else Inr ())"

definition validate_consent_document ::
  "url_parser \<Rightarrow> (string \<Rightarrow> string) \<Rightarrow> ConsentDocumentSpec \<Rightarrow> (string \<times> string \<times> string) res" where
  "validate_consent_document up at d =
     (let key = trim_space (cd_key d); version = trim_space (cd_version d) in
      if key = [] then Inl (invalid (at ''key'' @ '' is required''))
      else if version = [] then Inl (invalid (at ''version'' @ '' is required''))
      else
        res_bind (validateRequiredPresentability at d) (\<lambda>_.
        res_bind (check_ptr (cd_body d) (\<lambda>b. length b > 64 * 1024)
                    (invalid (at ''body'' @ '' exceeds maximum size''))) (\<lambda>_.
        res_bind (check_ptr (cd_locale d) (\<lambda>l. trim_space l = [] \<and> l \<noteq> [])
                    (invalid (at ''locale'' @ '' must not be blank''))) (\<lambda>_.
        res_bind (if blank (cd_url d) then Inr () else ValidateAbsoluteHTTPURL up (at ''url'') (the (cd_url d))) (\<lambda>_.
        Inr (key, (case cd_locale d of Some l \<Rightarrow> l | None \<Rightarrow> []), version))))))"

fun validate_documents_from ::
  "url_parser \<Rightarrow> nat \<Rightarrow> (string \<times> string \<times> string) list \<Rightarrow> ConsentDocumentSpec list \<Rightarrow> unit res" where
  "validate_documents_from up i seen [] = Inr ()"
| "validate_documents_from up i seen (d # ds) =
     res_bind (validate_consent_document up (doc_at i) d) (\<lambda>key.
       if key \<in> set seen then
         Inl (invalid_details [(''key'', DStr (fst key)), (''locale'', DStr (fst (snd key))),
                               (''version'', DStr (snd (snd key)))]
                ''duplicate consent document (key, locale, version)'')
       else validate_documents_from up (i + 1) (key # seen) ds)"

definition validate_consent :: "url_parser \<Rightarrow> ConsentDocumentSpec list \<Rightarrow> unit res" where
  "validate_consent up docs =
     (if length docs > 200 then Inl (invalid ''too many consent documents'')
      else validate_documents_from up 0 [] docs)"

section \<open>Features, public metadata and providers\<close>

text \<open>A map is the list of its entries in the order the loop visits them.\<close>

definition validate_features :: "(string \<times> bool) list \<Rightarrow> unit res" where
  "validate_features c =
     (let unknown = filter (\<lambda>k. \<not> Has FeatureKeys k) (map fst c) in
      if unknown \<noteq> [] then
        Inl (invalid_details [(''unknown_features'', DStrs (sort unknown))]
               (''unknown feature(s): '' @ join_with '', '' (sort unknown)))
      else Inr ())"

definition PublicMetadataMaxEntries :: nat where "PublicMetadataMaxEntries = 100"
definition PublicMetadataMaxValueLength :: nat where "PublicMetadataMaxValueLength = 4096"
definition publicMetadataMaxKeyLength :: nat where "publicMetadataMaxKeyLength = 256"

definition validate_public_metadata :: "(string \<times> string) list \<Rightarrow> unit res" where
  "validate_public_metadata c =
     (if length c > PublicMetadataMaxEntries then
        Inl (invalid_details [(''value'', DInt (int (length c))), (''allowed'', DInt (int PublicMetadataMaxEntries))]
               ''public_metadata: too many entries'')
      else
        first_err (\<lambda>(k, v).
          if k = [] \<or> length k > publicMetadataMaxKeyLength then
            Inl (invalid_details [(''field'', DStr k)]
                   (''public_metadata: key length must be between 1 and '' @ itoa (int publicMetadataMaxKeyLength)))
          else if length v > PublicMetadataMaxValueLength then
            Inl (invalid_details [(''field'', DStr k)]
                   (''public_metadata: value for '' @ k @ '' exceeds maximum length''))
          else Inr ()) c)"

definition validate_provider :: "(rune \<Rightarrow> rune) \<Rightarrow> string \<Rightarrow> string \<Rightarrow> unit res" where
  "validate_provider lower kind typ0 =
     (let typ = to_lower lower (trim_space typ0); k = to_lower lower (trim_space kind) in
      if typ = [] then Inl (invalid ''provider type is required'')
      else if k = ''email'' then
        (if \<not> Has EmailProviderTypes typ then
           Inl (invalid_details [(''field'', DStr ''type''), (''value'', DStr typ), (''allowed'', DStrs EmailProviderTypes)]
                  (''unsupported email provider type: '' @ typ))
         else Inr ())
      else if k = ''sms'' then
        (if \<not> Has SMSProviderTypes typ then
           Inl (invalid_details [(''field'', DStr ''type''), (''value'', DStr typ), (''allowed'', DStrs SMSProviderTypes)]
                  (''unsupported sms provider type: '' @ typ))
         else Inr ())
      else Inl (invalid (''unknown provider kind: '' @ kind)))"

section \<open>The document registry\<close>

definition ConfigDocuments :: "string list" where
  "ConfigDocuments = [''auth'', ''password_policy'', ''session_policy'', ''mfa_policy'', ''rate_limits'']"

definition ValidateConfigDocument :: "url_parser \<Rightarrow> string \<Rightarrow> string \<Rightarrow> json \<Rightarrow> unit res" where
  "ValidateConfigDocument up jerr name raw =
     (if name = ''auth'' then res_bind (ParseAuthConfig jerr raw) (validate_auth up)
      else if name = ''password_policy'' then res_bind (ParsePasswordPolicy jerr raw) validate_password_policy
      else if name = ''session_policy'' then res_bind (ParseSessionPolicy jerr raw) validate_session_policy
      else if name = ''mfa_policy'' then res_bind (ParseMFAPolicy jerr raw) validate_mfa_policy
      else if name = ''rate_limits'' then res_bind (ParseRateLimits jerr raw) validate_rate_limits
      else Inl (invalid (''unknown configuration document: '' @ name)))"

section \<open>Loops that check every element and refuse duplicates\<close>

text \<open>The contract of the four validation loops: each element passes its own check, which
  yields a key, and no key occurs twice.\<close>

locale unique_loop =
  fixes check :: "nat \<Rightarrow> 'a \<Rightarrow> 'k res"
    and loop :: "nat \<Rightarrow> 'k list \<Rightarrow> 'a list \<Rightarrow> unit res"
  assumes loop_Nil: "loop i seen [] = Inr ()"
    and loop_Cons: "loop i seen (x # xs) = Inr () \<longleftrightarrow>
      (\<exists>k. check i x = Inr k \<and> k \<notin> set seen \<and> loop (i + 1) (k # seen) xs = Inr ())"
begin

lemma loop_accepts:
  "loop i seen xs = Inr () \<longleftrightarrow>
     (\<exists>ks. length ks = length xs \<and> (\<forall>j < length xs. check (i + j) (xs ! j) = Inr (ks ! j))
           \<and> distinct ks \<and> set ks \<inter> set seen = {})"
proof (induction xs arbitrary: i seen)
  case Nil
  then show ?case by (simp add: loop_Nil)
next
  case (Cons x xs)
  show ?case
  proof
    assume "loop i seen (x # xs) = Inr ()"
    then obtain k ks where k: "check i x = Inr k" "k \<notin> set seen" and ks: "length ks = length xs"
      "\<forall>j < length xs. check (i + 1 + j) (xs ! j) = Inr (ks ! j)" "distinct ks" "set ks \<inter> set (k # seen) = {}"
      by (auto simp: loop_Cons Cons.IH)
    then show "\<exists>ks. length ks = length (x # xs) \<and>
        (\<forall>j < length (x # xs). check (i + j) ((x # xs) ! j) = Inr (ks ! j)) \<and> distinct ks \<and> set ks \<inter> set seen = {}"
      by (intro exI [of _ "k # ks"]) (auto simp: nth_Cons split: nat.split)
  next
    assume "\<exists>ks. length ks = length (x # xs) \<and>
        (\<forall>j < length (x # xs). check (i + j) ((x # xs) ! j) = Inr (ks ! j)) \<and> distinct ks \<and> set ks \<inter> set seen = {}"
    then obtain k ks where ks: "length ks = length xs" "distinct (k # ks)" "set (k # ks) \<inter> set seen = {}"
      and c: "\<forall>j < Suc (length xs). check (i + j) ((x # xs) ! j) = Inr ((k # ks) ! j)"
      by (auto simp: length_Suc_conv)
    have "\<forall>j < length xs. check (i + 1 + j) (xs ! j) = Inr (ks ! j)"
    proof (intro allI impI)
      fix j assume "j < length xs"
      then show "check (i + 1 + j) (xs ! j) = Inr (ks ! j)"
        using c [rule_format, of "Suc j"] by simp
    qed
    moreover have "check i x = Inr k" using c [rule_format, of 0] by simp
    ultimately show "loop i seen (x # xs) = Inr ()"
      using ks by (auto simp: loop_Cons Cons.IH intro!: exI [of _ k] exI [of _ ks])
  qed
qed

text \<open>When the key is the element itself, acceptance is membership and distinctness.\<close>

lemma loop_members:
  assumes "\<And>i x. check i x = (if P x then Inr (key x) else Inl (err i x))"
  shows "loop i [] xs = Inr () \<longleftrightarrow> (\<forall>x \<in> set xs. P x) \<and> distinct (map key xs)"
proof -
  have "(\<exists>ks. length ks = length xs \<and> (\<forall>j < length xs. check (i + j) (xs ! j) = Inr (ks ! j)) \<and> distinct ks)
        \<longleftrightarrow> (\<forall>x \<in> set xs. P x) \<and> distinct (map key xs)" (is "?l \<longleftrightarrow> ?r")
  proof
    assume ?l
    then obtain ks where ks: "length ks = length xs" "distinct ks"
      and ch: "\<forall>j < length xs. check (i + j) (xs ! j) = Inr (ks ! j)" by blast
    have c: "P (xs ! j) \<and> key (xs ! j) = ks ! j" if "j < length xs" for j
      using ch [rule_format, OF that] by (simp add: assms split: if_splits)
    then have "ks = map key xs" using ks(1) by (intro nth_equalityI) auto
    with ks(2) c show ?r by (metis in_set_conv_nth)
  next
    assume ?r
    then show ?l by (intro exI [of _ "map key xs"]) (auto simp: assms)
  qed
  then show ?thesis by (simp add: loop_accepts)
qed

end

definition check_method :: "nat \<Rightarrow> string \<Rightarrow> string res" where
  "check_method i m =
     (if Has SupportedAuthMethods m then Inr m
      else Inl (invalid_details [(''field'', DStr ''methods''), (''value'', DStr m),
                                 (''allowed'', DStrs SupportedAuthMethods)] (''unsupported auth method: '' @ m)))"

definition check_factor :: "nat \<Rightarrow> string \<Rightarrow> string res" where
  "check_factor i f =
     (if Has SupportedMFAFactors f then Inr f
      else Inl (invalid_details [(''field'', DStr ''allowed_factors''), (''value'', DStr f),
                                 (''allowed'', DStrs SupportedMFAFactors)] (''allowed_factors: unknown factor '' @ f)))"

definition check_rule :: "nat \<Rightarrow> RateLimitRuleSpec \<Rightarrow> (string \<times> string) res" where
  "check_rule i r =
     res_bind (validate_rule (rule_at i) 1000000 86400 r) (\<lambda>_. Inr (the (rr_endpoint r), the (rr_by r)))"

interpretation methods_loop: unique_loop check_method "\<lambda>_. validate_methods_from"
  by unfold_locales (auto simp: check_method_def)

interpretation factors_loop: unique_loop check_factor "\<lambda>_. validate_factors_from"
  by unfold_locales (auto simp: check_factor_def)

interpretation rules_loop: unique_loop check_rule validate_rules_from
  by unfold_locales (auto simp: check_rule_def res_simps Let_def)

interpretation documents_loop: unique_loop "\<lambda>i. validate_consent_document up (doc_at i)" "validate_documents_from up" for up
  by unfold_locales (auto simp: res_simps)

lemma validateMethods_accepts:
  "validateMethods c = Inr () \<longleftrightarrow>
     set (elems (ac_methods c)) \<subseteq> set SupportedAuthMethods \<and> distinct (elems (ac_methods c))"
  unfolding validateMethods_def
  by (subst methods_loop.loop_members [where key = "\<lambda>x. x" and P = "Has SupportedAuthMethods"])
     (auto simp: check_method_def)

lemma validate_mfa_policy_accepts:
  "validate_mfa_policy c = Inr () \<longleftrightarrow>
     set (elems (mp_allowed_factors c)) \<subseteq> set SupportedMFAFactors \<and> distinct (elems (mp_allowed_factors c))
     \<and> \<not> (mp_allowed_factors c = Some [] \<and> mp_required_for_admins c = Some True)"
proof -
  have "validate_factors_from [] fs = Inr () \<longleftrightarrow> set fs \<subseteq> set SupportedMFAFactors \<and> distinct fs" for fs
    by (subst factors_loop.loop_members [where key = "\<lambda>x. x" and P = "Has SupportedMFAFactors"])
       (auto simp: check_factor_def)
  then show ?thesis by (auto simp: validate_mfa_policy_def res_simps)
qed

definition rule_fits :: "RateLimitRuleSpec \<Rightarrow> bool" where
  "rule_fits r \<longleftrightarrow>
     (\<exists>ep l w. rr_endpoint r = Some ep \<and> ep \<in> set RateLimitEndpoints \<and> rr_by r = Some ''ip''
       \<and> rr_limit r = Some l \<and> 1 \<le> l \<and> l \<le> 1000000
       \<and> rr_window_seconds r = Some w \<and> 1 \<le> w \<and> w \<le> 86400)"

lemma validate_rule_fits: "validate_rule at 1000000 86400 r = Inr () \<Longrightarrow> rule_fits r"
  by (auto simp: validate_rule_def validateBy_def validateEndpoint_def blank_def rule_fits_def res_simps
      RateLimitBy_def split: if_splits option.splits)

lemma validate_rate_limits_sound:
  assumes "validate_rate_limits c = Inr ()"
  shows "\<forall>r \<in> set c. rule_fits r" and "distinct (map rr_endpoint c)"
proof -
  obtain ks where ks: "length ks = length c" "distinct ks"
    and ch: "\<And>j. j < length c \<Longrightarrow> check_rule j (c ! j) = Inr (ks ! j)"
    using assms rules_loop.loop_accepts [of 0 "[]" c] by (auto simp: validate_rate_limits_def)
  have fit: "rule_fits (c ! j) \<and> ks ! j = (the (rr_endpoint (c ! j)), the (rr_by (c ! j)))" if "j < length c" for j
    using ch [OF that] validate_rule_fits by (auto simp: check_rule_def res_simps)
  then show "\<forall>r \<in> set c. rule_fits r" by (metis in_set_conv_nth)
  have "map (\<lambda>e. (the e, ''ip'')) (map rr_endpoint c) = ks"
    using ks(1) fit by (intro nth_equalityI) (simp, force simp: rule_fits_def)
  with ks(2) show "distinct (map rr_endpoint c)" by (metis distinct_map)
qed

lemma validate_session_policy_accepts:
  "validate_session_policy c = Inr () \<longleftrightarrow>
     (\<forall>a. sp_access_ttl c = Some a \<longrightarrow> 0 < a \<and> a \<le> 86400)
   \<and> (\<forall>a. sp_refresh_ttl c = Some a \<longrightarrow> 0 < a \<and> a \<le> 31536000)
   \<and> (\<forall>a. sp_idle_timeout c = Some a \<longrightarrow> 0 < a \<and> a \<le> 31536000)
   \<and> (\<forall>a. sp_absolute_timeout c = Some a \<longrightarrow> 0 < a \<and> a \<le> 31536000)
   \<and> set (elems (sp_access_token_claims c)) \<subseteq> {''roles''}
   \<and> (\<forall>a r. sp_access_ttl c = Some a \<longrightarrow> sp_refresh_ttl c = Some r \<longrightarrow> a < r)
   \<and> (\<forall>a i. sp_access_ttl c = Some a \<longrightarrow> sp_idle_timeout c = Some i \<longrightarrow> a \<le> i)
   \<and> (\<forall>i m. sp_idle_timeout c = Some i \<longrightarrow> sp_absolute_timeout c = Some m \<longrightarrow> i \<le> m)
   \<and> (\<forall>i r. sp_idle_timeout c = Some i \<longrightarrow> sp_refresh_ttl c = Some r \<longrightarrow> i \<le> r)"
  by (auto simp: validate_session_policy_def validateOrdering_def ValidateSessionPolicyClaims_def res_simps not_le not_less
      split: if_splits)

section \<open>Roles: lemmas and properties\<close>

definition role_ok :: "string \<Rightarrow> bool" where
  "role_ok role \<longleftrightarrow> role \<noteq> [] \<and> length role \<le> maxRoleLength \<and> (\<forall>r \<in> set (runes role). roleAllowed r)"

lemma check_role_Inr: "check_role q raw = Inr role \<longleftrightarrow> role = trim_space raw \<and> role_ok role"
  by (auto simp: check_role_def role_ok_def Let_def find_None_iff dest: find_set split: option.splits if_splits)

lemma collect_roles_Inr:
  "(\<exists>res. collect_roles q roles out = Inr res) \<longleftrightarrow> (\<forall>raw \<in> set roles. role_ok (trim_space raw))"
  by (induction roles arbitrary: out) (auto simp: res_simps check_role_Inr)

lemma collect_roles_result:
  "collect_roles q roles out = Inr res \<Longrightarrow> distinct out \<Longrightarrow>
   distinct res \<and> set res = set out \<union> trim_space ` set roles"
  by (induction roles arbitrary: out) (auto simp: res_simps check_role_Inr split: if_splits)

lemma NormalizeRoles_Inr:
  "NormalizeRoles q roles = Inr out \<longleftrightarrow>
     (\<forall>raw \<in> set roles. role_ok (trim_space raw)) \<and> out = sorted_list_of_set (trim_space ` set roles)"
proof -
  have s: "sort res = sorted_list_of_set (trim_space ` set roles)" if "collect_roles q roles [] = Inr res" for res
    using collect_roles_result [OF that] by (metis distinct.simps(1) distinct_remdups_id empty_set sorted_list_of_set_sort_remdups sup_bot.left_neutral)
  show ?thesis using collect_roles_Inr [of q roles "[]"] s by (auto simp: NormalizeRoles_def res_simps)
qed

text \<open>Role lists have one canonical form. An accepted list comes back strictly sorted, as
  exactly the set of its trimmed labels, each label well formed; any other list that names
  the same labels, in whatever order and with whatever repetition, gives the same result, and
  normalising the result again changes nothing, so a role set always yields the same claim.\<close>

theorem NormalizeRoles_canonical:
  assumes "NormalizeRoles quote roles = Inr out"
  shows "sorted out \<and> distinct out \<and> set out = trim_space ` set roles \<and> (\<forall>role \<in> set out. role_ok role)
     \<and> NormalizeRoles quote out = Inr out
     \<and> (\<forall>roles'. trim_space ` set roles' = trim_space ` set roles \<longrightarrow> NormalizeRoles quote roles' = Inr out)"
proof -
  have ok: "\<forall>raw \<in> set roles. role_ok (trim_space raw)"
    and out: "out = sorted_list_of_set (trim_space ` set roles)"
    using assms by (auto simp: NormalizeRoles_Inr)
  have set_out: "set out = trim_space ` set roles" by (simp add: out)
  have idem: "trim_space ` set out = trim_space ` set roles"
    unfolding set_out image_image by simp
  have "NormalizeRoles quote roles' = Inr out" if "trim_space ` set roles' = trim_space ` set roles" for roles'
  proof -
    have "\<forall>raw \<in> set roles'. role_ok (trim_space raw)"
      using ok that by (metis (no_types, lifting) image_iff)
    then show ?thesis by (simp add: NormalizeRoles_Inr out that)
  qed
  moreover from this have "NormalizeRoles quote out = Inr out" using idem by blast
  moreover have "\<forall>role \<in> set out. role_ok role" using ok set_out by auto
  ultimately show ?thesis using set_out by (auto simp: out)
qed

theorem NormalizeRoles_canonical_witness:
  "NormalizeRoles (\<lambda>s. s) ['' ops'', ''admin'', ''ops''] = Inr [''admin'', ''ops''] \<and> sorted [''admin'', ''ops'']"
proof -
  have "NormalizeRoles (\<lambda>s. s) ['' ops'', ''admin'', ''ops''] = Inr [''admin'', ''ops'']" by code_simp
  with NormalizeRoles_canonical [OF this] show ?thesis by blast
qed

section \<open>Fail-closed validation: lemmas and properties\<close>

definition validation_only :: "'a res \<Rightarrow> bool" where
  "validation_only m \<longleftrightarrow> (\<forall>e. m = Inl e \<longrightarrow> err_is e ErrValidation \<and> err_status e = 422)"

lemma invalid_is [simp]:
  "err_is (invalid m) ErrValidation" "err_status (invalid m) = 422"
  "err_is (invalid_details d m) ErrValidation" "err_status (invalid_details d m) = 422"
  by (simp_all add: invalid_def invalid_details_def error_defs err_is_def)

lemma validation_only_simps [simp]:
  "validation_only (Inr x)" "validation_only (Inl (invalid m))" "validation_only (Inl (invalid_details d m))"
  by (simp_all add: validation_only_def)

lemma validation_only_bind [intro!]:
  "validation_only m \<Longrightarrow> (\<And>x. m = Inr x \<Longrightarrow> validation_only (f x)) \<Longrightarrow> validation_only (res_bind m f)"
  by (cases m) (auto simp: validation_only_def)

lemma validation_only_first_err: "(\<And>x. validation_only (f x)) \<Longrightarrow> validation_only (first_err f xs)"
  by (induction xs) auto

lemma validation_only_checks [simp]:
  "validation_only (check_ttl fl v l)" "validation_only (check_pair fa a fb b bad msg)"
  "validation_only (check_ptr p bd (invalid m))"
  by (auto simp: check_ttl_def check_pair_def check_ptr_def split: option.splits)

lemma validation_only_auth: "validation_only (validate_auth up c)"
proof -
  have "validation_only (validate_methods_from seen ms)" for seen ms
    by (induction seen ms rule: validate_methods_from.induct) auto
  moreover have "validation_only (ValidateAbsoluteHTTPURL up f s)" for f s
    by (auto simp: ValidateAbsoluteHTTPURL_def Let_def split: option.splits)
  moreover have "validation_only (validateRegistration c)"
    by (auto simp: validateRegistration_def split: option.splits)
  moreover have "validation_only (validateMemberInvites c)"
    by (auto simp: validateMemberInvites_def split: option.splits)
  moreover have "validation_only (validateDefaultLocale c)"
    by (auto simp: validateDefaultLocale_def Let_def split: option.splits)
  ultimately show ?thesis
    by (auto simp: validate_auth_def validateMethods_def split: option.splits)
qed

lemma validation_only_policies:
  "validation_only (validate_password_policy p)" "validation_only (validate_session_policy s)"
  "validation_only (validate_mfa_policy m)"
proof -
  show "validation_only (validate_password_policy p)" by (auto simp: validate_password_policy_def)
  show "validation_only (validate_session_policy s)"
    by (auto simp: validate_session_policy_def validateOrdering_def ValidateSessionPolicyClaims_def
        intro!: validation_only_first_err)
  have "validation_only (validate_factors_from seen fs)" for seen fs
    by (induction seen fs rule: validate_factors_from.induct) auto
  then show "validation_only (validate_mfa_policy m)" by (auto simp: validate_mfa_policy_def)
qed

lemma validation_only_rate_limits: "validation_only (validate_rate_limits c)"
proof -
  have "validation_only (validate_rule at l w r)" for at l w r
    by (auto simp: validate_rule_def validateBy_def validateEndpoint_def split: option.splits)
  then have "validation_only (validate_rules_from i seen rs)" for i seen rs
    by (induction i seen rs rule: validate_rules_from.induct) (auto simp: Let_def)
  then show ?thesis by (simp add: validate_rate_limits_def)
qed

lemma validation_only_document: "validation_only (ValidateConfigDocument up jerr name raw)"
proof -
  have "validation_only (ParseAuthConfig jerr raw)" "validation_only (ParsePasswordPolicy jerr raw)"
    "validation_only (ParseSessionPolicy jerr raw)" "validation_only (ParseMFAPolicy jerr raw)"
    "validation_only (ParseRateLimits jerr raw)"
    by (simp_all add: ParseAuthConfig_def ParsePasswordPolicy_def ParseSessionPolicy_def ParseMFAPolicy_def
        ParseRateLimits_def split: option.splits)
  then show ?thesis
    by (simp add: ValidateConfigDocument_def validation_only_bind validation_only_auth validation_only_policies
        validation_only_rate_limits)
qed

definition document_keys :: "string \<Rightarrow> string list" where
  "document_keys name =
     (if name = ''auth'' then map fst auth_fields
      else if name = ''password_policy'' then map fst password_policy_fields
      else if name = ''session_policy'' then map fst session_policy_fields
      else if name = ''mfa_policy'' then map fst mfa_policy_fields
      else if name = ''rate_limits'' then [''rules''] else [])"

lemma find_field_None:
  "\<forall>n \<in> set (map fst fs). fold_name n \<noteq> fold_name k \<Longrightarrow> find_field fs k = None"
  by (auto simp: find_field_def find_None_iff map_of_eq_None_iff split: option.splits dest!: map_of_SomeD)

text \<open>An object with a key outside the schema of its kind is refused wherever the key stands.\<close>

lemma document_unknown_key:
  assumes "(k, v) \<in> set kvs" and "\<forall>n \<in> set (document_keys name). fold_name n \<noteq> fold_name k"
  shows "\<exists>e. ValidateConfigDocument up jerr name (JObj kvs) = Inl e"
proof -
  have unk: "decode_struct fs (JObj kvs) r = None" if "map fst fs = document_keys name" for fs :: "'r setters" and r
    using assms(2) by (intro decode_struct_unknown [OF assms(1)] find_field_None) (simp add: that)
  have "\<exists>e. ValidateConfigDocument up jerr name (JObj kvs) = Inl e"
  proof -
    consider "name = ''auth''" | "name = ''password_policy''" | "name = ''session_policy''"
      | "name = ''mfa_policy''" | "name = ''rate_limits''" | "name \<notin> set ConfigDocuments"
      by (auto simp: ConfigDocuments_def)
    then show ?thesis
    proof cases
      case 1
      then show ?thesis by (simp add: ValidateConfigDocument_def ParseAuthConfig_def unk document_keys_def)
    next
      case 2
      then show ?thesis by (simp add: ValidateConfigDocument_def ParsePasswordPolicy_def unk document_keys_def)
    next
      case 3
      then show ?thesis by (simp add: ValidateConfigDocument_def ParseSessionPolicy_def unk document_keys_def)
    next
      case 4
      then show ?thesis by (simp add: ValidateConfigDocument_def ParseMFAPolicy_def unk document_keys_def)
    next
      case 5
      then show ?thesis by (simp add: ValidateConfigDocument_def ParseRateLimits_def unk document_keys_def)
    next
      case 6
      then show ?thesis by (simp add: ValidateConfigDocument_def ConfigDocuments_def)
    qed
  qed
  then show ?thesis .
qed

text \<open>C38: config writes fail closed. Whatever else it holds, a document of an unknown kind is refused, an object
  with a key outside the schema of its kind (up to the case folding of the decoder) is refused wherever the
  key stands among the others, and every refusal of any document is a 422 validation error.\<close>

theorem config_documents_fail_closed:
  shows "(name \<notin> set ConfigDocuments \<longrightarrow> (\<exists>e. ValidateConfigDocument up jerr name raw = Inl e))
     \<and> (\<forall>kvs k v. raw = JObj kvs \<longrightarrow> (k, v) \<in> set kvs \<longrightarrow> (\<forall>n \<in> set (document_keys name). fold_name n \<noteq> fold_name k)
          \<longrightarrow> (\<exists>e. ValidateConfigDocument up jerr name raw = Inl e))
     \<and> (\<forall>e. ValidateConfigDocument up jerr name raw = Inl e \<longrightarrow> err_is e ErrValidation \<and> err_status e = 422)"
proof (intro conjI impI allI)
  show "\<exists>e. ValidateConfigDocument up jerr name raw = Inl e" if "name \<notin> set ConfigDocuments"
    using that by (simp add: ValidateConfigDocument_def ConfigDocuments_def)
  show "\<exists>e. ValidateConfigDocument up jerr name raw = Inl e"
    if "raw = JObj kvs" "(k, v) \<in> set kvs" "\<forall>n \<in> set (document_keys name). fold_name n \<noteq> fold_name k" for kvs k v
    using document_unknown_key [OF that(2,3)] that(1) by blast
  show "err_is e ErrValidation" "err_status e = 422" if "ValidateConfigDocument up jerr name raw = Inl e" for e
    using that validation_only_document [of up jerr name raw] by (auto simp: validation_only_def)
qed

theorem config_documents_fail_closed_witness:
  "\<exists>e. ValidateConfigDocument (\<lambda>_. None) ''unknown field'' ''session_policy''
          (JObj [(''access_ttl'', JNum ''300''), (''acess_ttl'', JNum ''300'')]) = Inl e
        \<and> err_is e ErrValidation \<and> err_status e = 422"
proof -
  let ?kvs = "[(''access_ttl'', JNum ''300''), (''acess_ttl'', JNum ''300'')]"
  have "(''acess_ttl'', JNum ''300'') \<in> set ?kvs" by simp
  moreover have "document_keys ''session_policy'' =
      [''access_ttl'', ''refresh_ttl'', ''idle_timeout'', ''absolute_timeout'', ''reuse_detection'', ''access_token_claims'']"
    by (simp add: document_keys_def session_policy_fields_def)
  moreover have "\<forall>n \<in> set [''access_ttl'', ''refresh_ttl'', ''idle_timeout'', ''absolute_timeout'', ''reuse_detection'',
      ''access_token_claims'']. fold_name n \<noteq> fold_name ''acess_ttl''"
    by (simp add: fold_name_def runes_ascii fold_rune_def)
  ultimately show ?thesis
    using config_documents_fail_closed [of "''session_policy''" "\<lambda>_. None" "''unknown field''" "JObj ?kvs"]
    by (metis (no_types, lifting))
qed

end
