(* ===== verification/RateLimit.thy ===== *)
theory RateLimit
  imports Http TtlCache
begin

text \<open>
  The in-process rate limiter (\<open>src/pkg/api/ratelimit.go\<close>) and the reader of per-project
  rules (\<open>src/internal/infrastructure/postgres/ratelimit_pg.go\<close>). A limiter is a counter
  per key with an expiry; \<open>allow\<close> and the periodic cleanup run under its mutex, so a run
  is a sequence of those atomic steps at non-decreasing instants (\<open>time.Now\<close> is
  monotonic). The middleware owns the three built-in limiters and the per-project ones
  and threads them in front of the state of the handler it wraps.
\<close>

section \<open>One limiter\<close>

record rateLimitEntry =
  en_count :: int
  en_expiry :: instant

record rateLimiter =
  rl_entries :: "string \<rightharpoonup> rateLimitEntry"
  rl_limit :: int
  rl_window :: duration

definition newRateLimiter :: "int \<Rightarrow> duration \<Rightarrow> rateLimiter" where
  "newRateLimiter limit window =
     \<lparr>rl_entries = Map.empty,
      rl_limit = (if limit < 1 then 1 else limit),
      rl_window = (if window \<le> 0 then Minute else window)\<rparr>"

text \<open>One tick of the cleanup goroutine at \<open>now\<close>.\<close>

definition cleanup :: "instant \<Rightarrow> rateLimiter \<Rightarrow> rateLimiter" where
  "cleanup now rl =
     rl\<lparr>rl_entries := (\<lambda>k. case rl_entries rl k of
          None \<Rightarrow> None
        | Some e \<Rightarrow> if en_expiry e < now then None else Some e)\<rparr>"

definition allow :: "string \<Rightarrow> instant \<Rightarrow> rateLimiter \<Rightarrow> bool \<times> rateLimiter" where
  "allow key now rl =
     (case rl_entries rl key of
        None \<Rightarrow>
          (True, rl\<lparr>rl_entries := (rl_entries rl)(key \<mapsto> \<lparr>en_count = 1, en_expiry = now + rl_window rl\<rparr>)\<rparr>)
      | Some e \<Rightarrow>
          if en_expiry e < now then
            (True, rl\<lparr>rl_entries := (rl_entries rl)(key \<mapsto> \<lparr>en_count = 1, en_expiry = now + rl_window rl\<rparr>)\<rparr>)
          else
            let e' = e\<lparr>en_count := en_count e + 1\<rparr> in
            (en_count e' \<le> rl_limit rl, rl\<lparr>rl_entries := (rl_entries rl)(key \<mapsto> e')\<rparr>))"

text \<open>Runs: the atomic steps on one limiter, and the log of the decisions they take.\<close>

datatype limiter_event = Allow string instant | Cleanup instant

fun event_time :: "limiter_event \<Rightarrow> instant" where
  "event_time (Allow _ t) = t"
| "event_time (Cleanup t) = t"

type_synonym decision = "instant \<times> string \<times> bool"

fun run_limiter :: "limiter_event list \<Rightarrow> rateLimiter \<Rightarrow> decision list" where
  "run_limiter [] rl = []"
| "run_limiter (Allow k t # evs) rl = (t, k, fst (allow k t rl)) # run_limiter evs (snd (allow k t rl))"
| "run_limiter (Cleanup t # evs) rl = run_limiter evs (cleanup t rl)"

definition admitted :: "string \<Rightarrow> instant \<Rightarrow> instant \<Rightarrow> decision list \<Rightarrow> int" where
  "admitted k a b log = int (length (filter (\<lambda>(t, k', ok). k' = k \<and> a \<le> t \<and> t \<le> b \<and> ok) log))"

definition attempts_since :: "string \<Rightarrow> instant \<Rightarrow> decision list \<Rightarrow> int" where
  "attempts_since k a log = int (length (filter (\<lambda>(t, k', _). k' = k \<and> a \<le> t) log))"

text \<open>The invariant of a limiter: a positive limit and window, and every counter started.\<close>

definition limiter_ok :: "rateLimiter \<Rightarrow> bool" where
  "limiter_ok rl \<longleftrightarrow> 1 \<le> rl_limit rl \<and> 0 < rl_window rl
     \<and> (\<forall>k e. rl_entries rl k = Some e \<longrightarrow> 1 \<le> en_count e)"

section \<open>Classification of requests\<close>

datatype limiter_ref = AuthLimiter | SensitiveLimiter | GuestLimiter

definition isSensitiveRateLimitedPath :: "string \<Rightarrow> bool" where
  "isSensitiveRateLimitedPath p \<longleftrightarrow> p \<in> set
     [''/v1/auth/sign-in/password'', ''/v1/auth/password/forgot'', ''/v1/auth/password/reset'',
      ''/v1/auth/password/verify'', ''/v1/auth/email/verification/start'',
      ''/v1/auth/email/verification/verify'', ''/v1/auth/phone/verification/start'',
      ''/v1/auth/phone/verification/verify'', ''/v1/auth/otp/start'', ''/v1/auth/otp/verify'',
      ''/v1/auth/magic-link/start'', ''/v1/auth/magic-link/verify'', ''/v1/auth/mfa/challenge'',
      ''/v1/auth/mfa/verify'', ''/v1/auth/mfa/recovery-codes/verify'',
      ''/v1/auth/webauthn/login/options'', ''/v1/auth/webauthn/login/verify'',
      ''/v1/auth/webauthn/register/options'', ''/v1/auth/webauthn/register/verify'',
      ''/v1/auth/flows'', ''/v1/auth/session/step-up'', ''/v1/auth/impersonate/redeem'',
      ''/v1/auth/identities/merge/confirm'', ''/v1/challenges/captcha/verify'']"

definition isFlowGuessPath :: "string \<Rightarrow> bool" where
  "isFlowGuessPath p \<longleftrightarrow>
     has_prefix p ''/v1/auth/flows/''
     \<and> (let rest = drop (length ''/v1/auth/flows/'') p in
        has_suffix rest ''/submit'' \<or> has_suffix rest ''/resend'')"

definition isAuthRateLimitedPath :: "string \<Rightarrow> bool" where
  "isAuthRateLimitedPath p \<longleftrightarrow> p \<in> set
     [''/v1/auth/sign-up'', ''/v1/auth/token/refresh'', ''/v1/auth/token/exchange'',
      ''/v1/auth/oauth/exchange'', ''/v1/auth/access-requests'']"

definition rateLimitForRequest :: "http_request \<Rightarrow> (limiter_ref \<times> string) option" where
  "rateLimitForRequest r =
     (if rq_method r = ''OPTIONS'' then None
      else
        let path = rq_path r in
        if path = ''/v1/auth/guest'' then Some (GuestLimiter, ''Too many guest accounts created.'')
        else if isSensitiveRateLimitedPath path \<or> isFlowGuessPath path
        then Some (SensitiveLimiter, ''Too many attempts. Try again later.'')
        else if isAuthRateLimitedPath path
        then Some (AuthLimiter, ''Too many requests. Try again later.'')
        else None)"

section \<open>Per-project limiters\<close>

record RateLimitRule =
  ru_endpoint :: string
  ru_limit :: int
  ru_window :: duration
  ru_by :: string

record ruleCacheEntry =
  rc_by_endpoint :: "string \<rightharpoonup> RateLimitRule"
  rc_exp :: instant

record projectLimiters =
  pl_ttl :: duration
  pl_rules :: "string \<rightharpoonup> ruleCacheEntry"
  pl_limiters :: "string \<rightharpoonup> rateLimiter"

definition projectRuleCacheTTL :: duration where "projectRuleCacheTTL = 30 * Second"
definition projectRuleStaleGrace :: duration where "projectRuleStaleGrace = 5 * Second"

definition newProjectLimiters :: "duration \<Rightarrow> projectLimiters" where
  "newProjectLimiters ttl =
     \<lparr>pl_ttl = (if ttl \<le> 0 then projectRuleCacheTTL else ttl),
      pl_rules = Map.empty, pl_limiters = Map.empty\<rparr>"

text \<open>The loop that indexes the rules by endpoint: a later rule overrides an earlier one.\<close>

definition rules_by_endpoint :: "RateLimitRule list \<Rightarrow> string \<rightharpoonup> RateLimitRule" where
  "rules_by_endpoint rules = foldl (\<lambda>m r. m(ru_endpoint r \<mapsto> r)) Map.empty rules"

text \<open>\<open>ans\<close> is what the reader answers now; it is consulted on a miss only.\<close>

definition resolve ::
  "instant \<Rightarrow> error + (string \<rightharpoonup> RateLimitRule) \<Rightarrow> string \<Rightarrow> projectLimiters \<Rightarrow>
   (string \<rightharpoonup> RateLimitRule) \<times> projectLimiters" where
  "resolve now ans scope p =
     (case pl_rules p scope of
        Some e \<Rightarrow>
          if now < rc_exp e then (rc_by_endpoint e, p)
          else (case ans of
                  Inl _ \<Rightarrow>
                    (rc_by_endpoint e,
                     p\<lparr>pl_rules := (pl_rules p)(scope \<mapsto> e\<lparr>rc_exp := now + projectRuleStaleGrace\<rparr>)\<rparr>)
                | Inr m \<Rightarrow>
                    (m, p\<lparr>pl_rules := (pl_rules p)(scope \<mapsto>
                            \<lparr>rc_by_endpoint = m, rc_exp = now + pl_ttl p\<rparr>)\<rparr>))
      | None \<Rightarrow>
          (case ans of
             Inl _ \<Rightarrow>
               (Map.empty,
                p\<lparr>pl_rules := (pl_rules p)(scope \<mapsto>
                    \<lparr>rc_by_endpoint = Map.empty, rc_exp = now + projectRuleStaleGrace\<rparr>)\<rparr>)
           | Inr m \<Rightarrow>
               (m, p\<lparr>pl_rules := (pl_rules p)(scope \<mapsto>
                       \<lparr>rc_by_endpoint = m, rc_exp = now + pl_ttl p\<rparr>)\<rparr>)))"

definition getOrCreateLimiter ::
  "string \<Rightarrow> int \<Rightarrow> duration \<Rightarrow> projectLimiters \<Rightarrow> rateLimiter \<times> projectLimiters" where
  "getOrCreateLimiter key limit window p =
     (case pl_limiters p key of
        Some rl \<Rightarrow>
          if rl_limit rl = limit \<and> rl_window rl = window then (rl, p)
          else (newRateLimiter limit window,
                p\<lparr>pl_limiters := (pl_limiters p)(key \<mapsto> newRateLimiter limit window)\<rparr>)
      | None \<Rightarrow>
          (newRateLimiter limit window,
           p\<lparr>pl_limiters := (pl_limiters p)(key \<mapsto> newRateLimiter limit window)\<rparr>))"

text \<open>\<open>limiterFor\<close>: the name of the project's limiter and the namespaced counter key. The
  limiter itself is the entry of \<open>pl_limiters\<close> under that name.\<close>

definition limiterFor ::
  "(string \<Rightarrow> string \<Rightarrow> error + RateLimitRule list) \<Rightarrow> instant \<Rightarrow> string \<Rightarrow> string \<Rightarrow> string \<Rightarrow> string \<Rightarrow>
   projectLimiters \<Rightarrow> (string \<times> string) option \<times> projectLimiters" where
  "limiterFor reader now clientID env0 path ipKey p =
     (if clientID = [] then (None, p)
      else
        let env = (if env0 = [] then liveEnvironment else env0);
            scope = clientID @ ''|'' @ env;
            (byEndpoint, p1) =
              resolve now (map_sum id rules_by_endpoint (reader clientID env)) scope p in
        case byEndpoint path of
          None \<Rightarrow> (None, p1)
        | Some rule \<Rightarrow>
            let (_, p2) = getOrCreateLimiter (scope @ ''|'' @ path) (ru_limit rule) (ru_window rule) p1 in
            (Some (scope @ ''|'' @ path, scope @ ''|'' @ path @ ''|'' @ ipKey), p2))"

section \<open>The middleware\<close>

record rl_state =
  rs_auth :: rateLimiter
  rs_sensitive :: rateLimiter
  rs_guest :: rateLimiter
  rs_project :: "projectLimiters option"

definition init_rl_state :: "bool \<Rightarrow> rl_state" where
  "init_rl_state with_reader =
     \<lparr>rs_auth = newRateLimiter 30 Minute, rs_sensitive = newRateLimiter 10 Minute,
      rs_guest = newRateLimiter 5 Minute,
      rs_project = (if with_reader then Some (newProjectLimiters projectRuleCacheTTL) else None)\<rparr>"

text \<open>\<open>allow\<close> on one of the built-in limiters.\<close>

definition allow_builtin :: "limiter_ref \<Rightarrow> string \<Rightarrow> instant \<Rightarrow> rl_state \<Rightarrow> bool \<times> rl_state" where
  "allow_builtin ref key now st =
     (case ref of
        AuthLimiter \<Rightarrow> let (ok, rl) = allow key now (rs_auth st) in (ok, st\<lparr>rs_auth := rl\<rparr>)
      | SensitiveLimiter \<Rightarrow> let (ok, rl) = allow key now (rs_sensitive st) in (ok, st\<lparr>rs_sensitive := rl\<rparr>)
      | GuestLimiter \<Rightarrow> let (ok, rl) = allow key now (rs_guest st) in (ok, st\<lparr>rs_guest := rl\<rparr>))"

text \<open>\<open>allow\<close> on the limiter of a project, stored under \<open>name\<close>.\<close>

definition allow_project :: "string \<Rightarrow> string \<Rightarrow> instant \<Rightarrow> projectLimiters \<Rightarrow> bool \<times> projectLimiters" where
  "allow_project name key now p =
     (case pl_limiters p name of
        None \<Rightarrow> (True, p)
      | Some rl \<Rightarrow>
          let (ok, rl') = allow key now rl in (ok, p\<lparr>pl_limiters := (pl_limiters p)(name \<mapsto> rl')\<rparr>))"

definition decide ::
  "(string \<Rightarrow> string \<Rightarrow> error + RateLimitRule list) \<Rightarrow> limiter_ref \<Rightarrow> string \<Rightarrow> http_request \<Rightarrow> rl_state \<Rightarrow>
   bool \<times> rl_state" where
  "decide reader ref key r st =
     (let now = cx_now (rq_ctx r) in
      case rs_project st of
        None \<Rightarrow> allow_builtin ref key now st
      | Some p \<Rightarrow>
          (case limiterFor reader now (req_header r ''X-Client-Id'') (req_header r ''X-Environment'')
                  (rq_path r) key p of
             (Some (name, pKey), p1) \<Rightarrow>
               let (ok, p2) = allow_project name pKey now p1 in (ok, st\<lparr>rs_project := Some p2\<rparr>)
           | (None, p1) \<Rightarrow> allow_builtin ref key now (st\<lparr>rs_project := Some p1\<rparr>)))"

text \<open>\<open>http.Error\<close> with status 429 and the JSON text as a plain-text body.\<close>

definition reject_rate_limited :: "string \<Rightarrow> 'b response \<Rightarrow> 'b response" where
  "reject_rate_limited message w =
     w\<lparr>rs_headers :=
         header_set ''X-Content-Type-Options'' ''nosniff''
           (header_set ''Content-Type'' ''text/plain; charset=utf-8''
             (header_set ''Retry-After'' ''60'' (rs_headers w))),
       rs_status := 429, rs_body := RateLimitBody message\<rparr>"

definition NewRateLimitMiddleware ::
  "ipnet list \<Rightarrow> ('s \<Rightarrow> string \<Rightarrow> string \<Rightarrow> error + RateLimitRule list) \<Rightarrow> ('b, 's) handler \<Rightarrow>
   ('b, rl_state \<times> 's) handler" where
  "NewRateLimitMiddleware nets reader next =
     (\<lambda>w r (st, s).
        case rateLimitForRequest r of
          None \<Rightarrow> let (w', s') = next w r s in (w', (st, s'))
        | Some (ref, message) \<Rightarrow>
            let (ok, st') = decide (reader s) ref (clientIP nets r) r st in
            if \<not> ok then (reject_rate_limited message w, (st', s))
            else let (w', s') = next w r s in (w', (st', s')))"

definition SensitiveRateLimitMiddleware ::
  "ipnet list \<Rightarrow> ('b, 's) handler \<Rightarrow> ('b, rl_state \<times> 's) handler" where
  "SensitiveRateLimitMiddleware nets next =
     (\<lambda>w r (st, s).
        let (ok, st') = allow_builtin SensitiveLimiter (clientIP nets r) (cx_now (rq_ctx r)) st in
        if \<not> ok then (reject_rate_limited ''Too many attempts. Try again later.'' w, (st', s))
        else let (w', s') = next w r s in (w', (st', s')))"

definition GuestRateLimitMiddleware ::
  "ipnet list \<Rightarrow> ('b, 's) handler \<Rightarrow> ('b, rl_state \<times> 's) handler" where
  "GuestRateLimitMiddleware nets next =
     (\<lambda>w r (st, s).
        let (ok, st') = allow_builtin GuestLimiter (clientIP nets r) (cx_now (rq_ctx r)) st in
        if \<not> ok then (reject_rate_limited ''Too many guest accounts created.'' w, (st', s))
        else let (w', s') = next w r s in (w', (st', s')))"

section \<open>One limiter: lemmas\<close>

lemma newRateLimiter_ok [simp]: "limiter_ok (newRateLimiter l w)"
  by (simp add: limiter_ok_def newRateLimiter_def time_units)

lemma allow_frame [frame_simps]:
  "rl_limit (snd (allow k t rl)) = rl_limit rl"
  "rl_window (snd (allow k t rl)) = rl_window rl"
  "k' \<noteq> k \<Longrightarrow> rl_entries (snd (allow k t rl)) k' = rl_entries rl k'"
  by (auto simp: allow_def Let_def split: option.splits)

lemma cleanup_frame [frame_simps]:
  "rl_limit (cleanup t rl) = rl_limit rl" "rl_window (cleanup t rl) = rl_window rl"
  by (simp_all add: cleanup_def)

lemma cleanup_entry:
  "rl_entries (cleanup t rl) k =
     (case rl_entries rl k of None \<Rightarrow> None | Some e \<Rightarrow> if en_expiry e < t then None else Some e)"
  by (simp add: cleanup_def)

lemma allow_opens:
  "(\<forall>e. rl_entries rl k = Some e \<longrightarrow> en_expiry e < t) \<Longrightarrow>
   fst (allow k t rl) \<and>
   rl_entries (snd (allow k t rl)) k = Some \<lparr>en_count = 1, en_expiry = t + rl_window rl\<rparr>"
  by (auto simp: allow_def split: option.splits)

lemma allow_counts:
  "rl_entries rl k = Some e \<Longrightarrow> \<not> en_expiry e < t \<Longrightarrow>
   fst (allow k t rl) = (en_count e + 1 \<le> rl_limit rl) \<and>
   rl_entries (snd (allow k t rl)) k = Some (e\<lparr>en_count := en_count e + 1\<rparr>)"
  by (simp add: allow_def Let_def)

lemma allow_ok: "limiter_ok rl \<Longrightarrow> limiter_ok (snd (allow k t rl))"
  by (auto simp: limiter_ok_def allow_def Let_def split: option.splits; force)

lemma cleanup_ok: "limiter_ok rl \<Longrightarrow> limiter_ok (cleanup t rl)"
  by (auto simp: limiter_ok_def cleanup_def split: option.splits if_splits)

lemma admitted_Nil [simp]: "admitted k a b [] = 0"
  by (simp add: admitted_def)

lemma admitted_Cons [simp]:
  "admitted k a b ((t, k', ok) # log) =
     (if k' = k \<and> a \<le> t \<and> t \<le> b \<and> ok then 1 else 0) + admitted k a b log"
  by (simp add: admitted_def)

lemma run_times: "(t, k, ok) \<in> set (run_limiter evs rl) \<Longrightarrow> t \<in> event_time ` set evs"
  by (induction evs rl rule: run_limiter.induct) auto

lemma admitted_late: "\<forall>ev \<in> set evs. b < event_time ev \<Longrightarrow> admitted k a b (run_limiter evs rl) = 0"
  by (auto simp: admitted_def filter_empty_conv dest!: run_times)

lemma admitted_open_window:
  assumes "sorted (map event_time evs)" "rl_entries rl k = Some e" "b \<le> en_expiry e"
  shows "admitted k a b (run_limiter evs rl) \<le> max 0 (rl_limit rl - en_count e)"
  using assms
proof (induction evs rl arbitrary: e rule: run_limiter.induct)
  case (2 k' t evs rl)
  note so = "2.prems"(1)
  show ?case
  proof (cases "k' = k")
    case False
    then show ?thesis using 2 by (simp add: frame_simps)
  next
    case [simp]: True
    show ?thesis
    proof (cases "en_expiry e < t")
      case True
      then have "\<forall>ev \<in> set evs. b < event_time ev" using so "2.prems"(3) by auto
      then show ?thesis using True "2.prems"(3) by (simp add: admitted_late)
    next
      case False
      note c = allow_counts [OF "2.prems"(2) False]
      show ?thesis
        using "2.IH" [of "e\<lparr>en_count := en_count e + 1\<rparr>"] so c "2.prems"(3)
        by (auto simp: frame_simps)
    qed
  qed
next
  case (3 t evs rl)
  show ?case
  proof (cases "en_expiry e < t")
    case True
    then have "\<forall>ev \<in> set evs. b < event_time ev" using "3.prems"(1,3) by auto
    then show ?thesis by (simp add: admitted_late)
  next
    case False
    then show ?thesis using "3.IH" [of e] "3.prems" by (simp add: cleanup_entry frame_simps)
  qed
qed simp

lemma admitted_from:
  assumes "sorted (map event_time evs)" "limiter_ok rl" "\<forall>ev \<in> set evs. a \<le> event_time ev"
  shows "admitted k a (a + rl_window rl) (run_limiter evs rl) \<le>
           rl_limit rl + (case rl_entries rl k of None \<Rightarrow> 0 | Some e \<Rightarrow> max 0 (rl_limit rl - en_count e))"
  using assms
proof (induction evs rl rule: run_limiter.induct)
  case (1 rl)
  then show ?case by (auto simp: limiter_ok_def split: option.splits)
next
  case (2 k' t evs rl)
  have so: "sorted (map event_time evs)" and lim: "1 \<le> rl_limit rl"
    using "2.prems" by (auto simp: limiter_ok_def)
  note IH = "2.IH" [OF so allow_ok [OF "2.prems"(2)]]
  show ?case
  proof (cases "k' = k")
    case False
    then show ?thesis using IH "2.prems"(3) by (simp add: frame_simps cong: option.case_cong)
  next
    case [simp]: True
    show ?thesis
    proof (cases "\<forall>e. rl_entries rl k = Some e \<longrightarrow> en_expiry e < t")
      case True
      note o = allow_opens [OF True]
      have "admitted k a (a + rl_window rl) (run_limiter evs (snd (allow k t rl))) \<le> rl_limit rl - 1"
        using admitted_open_window [OF so, of "snd (allow k t rl)" k _ "a + rl_window rl" a] o lim "2.prems"(3)
        by (auto simp: frame_simps)
      then show ?thesis using o by (auto split: option.splits)
    next
      case False
      then obtain e where e: "rl_entries rl k = Some e" "\<not> en_expiry e < t" by blast
      note c = allow_counts [OF e]
      show ?thesis using IH c e(1) "2.prems"(3) by (auto simp: frame_simps)
    qed
  qed
next
  case (3 t evs rl)
  then show ?case
    using cleanup_ok [OF "3.prems"(2), of t]
    by (auto simp: frame_simps cleanup_entry split: option.splits if_splits)
qed

lemma admitted_any_interval:
  assumes "sorted (map event_time evs)" "limiter_ok rl"
  shows "admitted k a (a + rl_window rl) (run_limiter evs rl) \<le> 2 * rl_limit rl - 1"
  using assms
proof (induction evs rl rule: run_limiter.induct)
  case (1 rl)
  then show ?case by (simp add: limiter_ok_def)
next
  case (2 k' t evs rl)
  show ?case
  proof (cases "a \<le> t")
    case True
    then have "\<forall>ev \<in> set (Allow k' t # evs). a \<le> event_time ev" using "2.prems"(1) by fastforce
    from admitted_from [OF "2.prems" this, of k]
    have "admitted k a (a + rl_window rl) (run_limiter (Allow k' t # evs) rl) \<le>
      rl_limit rl + (case rl_entries rl k of None \<Rightarrow> 0 | Some e \<Rightarrow> max 0 (rl_limit rl - en_count e))" .
    also have "\<dots> \<le> 2 * rl_limit rl - 1"
      using "2.prems"(2) by (cases "rl_entries rl k") (force simp: limiter_ok_def)+
    finally show ?thesis .
  next
    case False
    then show ?thesis using 2 by (simp add: allow_ok frame_simps)
  qed
next
  case (3 t evs rl)
  then show ?case by (simp add: cleanup_ok frame_simps)
qed

text \<open>Removing an expired counter changes no later decision.\<close>

fun is_allow :: "limiter_event \<Rightarrow> bool" where
  "is_allow (Allow _ _) = True"
| "is_allow (Cleanup _) = False"

definition same_live :: "instant \<Rightarrow> rateLimiter \<Rightarrow> rateLimiter \<Rightarrow> bool" where
  "same_live t rl rl' \<longleftrightarrow>
     rl_limit rl = rl_limit rl' \<and> rl_window rl = rl_window rl'
     \<and> (\<forall>k. rl_entries rl k = rl_entries rl' k
            \<or> rl_entries rl k = None \<and> (\<exists>e. rl_entries rl' k = Some e \<and> en_expiry e < t))"

lemma same_live_allow:
  assumes "same_live t rl rl'" "t \<le> t'"
  shows "fst (allow k t' rl) = fst (allow k t' rl')"
    and "same_live t' (snd (allow k t' rl)) (snd (allow k t' rl'))"
proof -
  have k: "rl_entries rl k = rl_entries rl' k
            \<or> rl_entries rl k = None \<and> (\<exists>e. rl_entries rl' k = Some e \<and> en_expiry e < t')"
    and o: "\<And>k'. rl_entries rl k' = rl_entries rl' k'
            \<or> rl_entries rl k' = None \<and> (\<exists>e. rl_entries rl' k' = Some e \<and> en_expiry e < t')"
    and c: "rl_limit rl = rl_limit rl'" "rl_window rl = rl_window rl'"
    using assms by (force simp: same_live_def)+
  show "fst (allow k t' rl) = fst (allow k t' rl')"
    using k c by (auto simp: allow_def Let_def split: option.splits)
  show "same_live t' (snd (allow k t' rl)) (snd (allow k t' rl'))"
    unfolding same_live_def
  proof (intro conjI allI)
    fix k'
    show "rl_entries (snd (allow k t' rl)) k' = rl_entries (snd (allow k t' rl')) k'
          \<or> rl_entries (snd (allow k t' rl)) k' = None
            \<and> (\<exists>e. rl_entries (snd (allow k t' rl')) k' = Some e \<and> en_expiry e < t')"
      using k c o [of k'] by (cases "k' = k") (auto simp: allow_def Let_def split: option.splits)
  qed (use c in \<open>simp_all add: frame_simps\<close>)
qed

lemma same_live_cleanup:
  "same_live t rl rl' \<Longrightarrow> t \<le> t' \<Longrightarrow> same_live t' (cleanup t' rl) rl'"
  unfolding same_live_def
proof (elim conjE, intro conjI allI)
  fix k
  assume "\<forall>k. rl_entries rl k = rl_entries rl' k
            \<or> rl_entries rl k = None \<and> (\<exists>e. rl_entries rl' k = Some e \<and> en_expiry e < t)"
    and "t \<le> t'"
  from this(1) [rule_format, of k] this(2)
  show "rl_entries (cleanup t' rl) k = rl_entries rl' k
        \<or> rl_entries (cleanup t' rl) k = None \<and> (\<exists>e. rl_entries rl' k = Some e \<and> en_expiry e < t')"
    by (cases "rl_entries rl' k") (auto simp: cleanup_entry split: if_splits)
qed (simp_all add: frame_simps)

lemma run_without_cleanup:
  assumes "same_live t rl rl'" "\<forall>ev \<in> set evs. t \<le> event_time ev" "sorted (map event_time evs)"
  shows "run_limiter evs rl = run_limiter (filter is_allow evs) rl'"
  using assms
proof (induction evs rl arbitrary: rl' t rule: run_limiter.induct)
  case (2 k t' evs rl)
  have t: "t \<le> t'" "\<forall>ev \<in> set evs. t' \<le> event_time ev" using "2.prems" by auto
  note s = same_live_allow [OF "2.prems"(1) t(1), of k]
  show ?case using "2.IH" [OF s(2) t(2)] s(1) "2.prems"(3) by simp
next
  case (3 t' evs rl)
  have t: "t \<le> t'" "\<forall>ev \<in> set evs. t' \<le> event_time ev" using "3.prems" by auto
  show ?case using "3.IH" [OF same_live_cleanup [OF "3.prems"(1) t(1)] t(2)] "3.prems"(3) by simp
qed simp

text \<open>A counter never exceeds the number of attempts its window has seen.\<close>

definition counts_bounded :: "decision list \<Rightarrow> rateLimiter \<Rightarrow> bool" where
  "counts_bounded h rl \<longleftrightarrow>
     (\<forall>k e. rl_entries rl k = Some e \<longrightarrow> en_count e \<le> attempts_since k (en_expiry e - rl_window rl) h)"

lemma attempts_snoc:
  "attempts_since k a (h @ [(t, k', ok)]) = attempts_since k a h + (if k' = k \<and> a \<le> t then 1 else 0)"
  by (simp add: attempts_since_def)

lemma attempts_nonneg: "0 \<le> attempts_since k a h"
  by (simp add: attempts_since_def)

lemma attempts_antimono: "a \<le> b \<Longrightarrow> attempts_since k b h \<le> attempts_since k a h"
  unfolding attempts_since_def by (induction h) auto

lemma counts_bounded_allow:
  assumes "counts_bounded h rl" "\<forall>k e. rl_entries rl k = Some e \<longrightarrow> en_expiry e - rl_window rl \<le> t"
  shows "counts_bounded (h @ [(t, k, ok)]) (snd (allow k t rl))"
  using assms attempts_nonneg
  by (fastforce simp: counts_bounded_def attempts_snoc allow_def Let_def split: option.splits if_splits)

lemma open_before:
  assumes "\<forall>k e. rl_entries rl k = Some e \<longrightarrow> en_expiry e - rl_window rl \<le> t" "t \<le> t'"
  shows "\<forall>k' e. rl_entries (snd (allow k t' rl)) k' = Some e \<longrightarrow>
           en_expiry e - rl_window (snd (allow k t' rl)) \<le> t'"
  using assms by (fastforce simp: allow_def Let_def split: option.splits if_splits)

lemma run_no_false_denial:
  assumes "counts_bounded h rl" "\<forall>k e. rl_entries rl k = Some e \<longrightarrow> en_expiry e - rl_window rl \<le> t0"
    and "\<forall>ev \<in> set evs. t0 \<le> event_time ev" "sorted (map event_time evs)"
    and "run_limiter evs rl = pre @ (t, k, ok) # post"
    and "attempts_since k (t - rl_window rl) (h @ pre) < rl_limit rl"
  shows ok
  using assms
proof (induction evs rl arbitrary: h t0 pre rule: run_limiter.induct)
  case (2 k' t' evs rl)
  have t: "t0 \<le> t'" "\<forall>ev \<in> set evs. t' \<le> event_time ev" using "2.prems" by auto
  have op: "\<forall>k e. rl_entries rl k = Some e \<longrightarrow> en_expiry e - rl_window rl \<le> t'"
    using "2.prems"(2) t(1) by force
  show ?case
  proof (cases pre)
    case Nil
    then have eq: "t' = t" "k' = k" "ok = fst (allow k t rl)" and lt: "attempts_since k (t - rl_window rl) h < rl_limit rl"
      using "2.prems"(5,6) by auto
    show ?thesis
    proof (cases "\<forall>e. rl_entries rl k = Some e \<longrightarrow> en_expiry e < t")
      case True
      from allow_opens [OF True] eq show ?thesis by simp
    next
      case False
      then obtain e where e: "rl_entries rl k = Some e" "\<not> en_expiry e < t" by blast
      have "en_count e \<le> attempts_since k (en_expiry e - rl_window rl) h"
        using "2.prems"(1) e by (simp add: counts_bounded_def)
      also have "\<dots> \<le> attempts_since k (t - rl_window rl) h"
        using e(2) by (intro attempts_antimono) simp
      finally show ?thesis using allow_counts [OF e] eq lt by simp
    qed
  next
    case (Cons d pre')
    then have d: "d = (t', k', fst (allow k' t' rl))"
      and rest: "run_limiter evs (snd (allow k' t' rl)) = pre' @ (t, k, ok) # post"
      using "2.prems"(5) by auto
    show ?thesis
      using "2.IH" [OF counts_bounded_allow [OF "2.prems"(1) op] open_before [OF op] t(2) _ rest]
        "2.prems"(4,6) Cons d by (simp add: frame_simps)
  qed
next
  case (3 t' evs rl)
  have t: "t0 \<le> t'" "\<forall>ev \<in> set evs. t' \<le> event_time ev" using "3.prems" by auto
  have sub: "\<And>k e. rl_entries (cleanup t' rl) k = Some e \<Longrightarrow> rl_entries rl k = Some e"
    by (auto simp: cleanup_entry split: option.splits if_splits)
  have "counts_bounded h (cleanup t' rl)"
    using "3.prems"(1) sub by (simp add: counts_bounded_def frame_simps)
  moreover have "\<forall>k e. rl_entries (cleanup t' rl) k = Some e \<longrightarrow> en_expiry e - rl_window (cleanup t' rl) \<le> t'"
    using "3.prems"(2) sub t(1) by (fastforce simp: frame_simps)
  ultimately show ?case
    using "3.IH" [of h t' pre] t(2) "3.prems"(4-6) by (simp add: frame_simps)
qed simp

section \<open>One limiter: properties\<close>

text \<open>C27: the limiter's guarantee. Over every run of requests and cleanups from a new limiter,
  at non-decreasing instants, at most \<open>2 * limit - 1\<close> requests of one key are admitted in any
  interval as long as the window.\<close>

theorem limiter_bounds_every_interval:
  assumes "sorted (map event_time evs)"
  shows "admitted k a (a + rl_window (newRateLimiter limit window))
           (run_limiter evs (newRateLimiter limit window))
         \<le> 2 * rl_limit (newRateLimiter limit window) - 1"
  using assms by (intro admitted_any_interval) simp_all

theorem limiter_bounds_every_interval_witness:
  "admitted ''ip'' 5 (5 + 10) (run_limiter [Allow ''ip'' 1, Allow ''ip'' 11, Allow ''ip'' 12, Allow ''ip'' 12]
      (newRateLimiter 2 10)) \<le> 3"
proof -
  have "sorted (map event_time [Allow ''ip'' 1, Allow ''ip'' 11, Allow ''ip'' 12, Allow ''ip'' 12])" by simp
  from limiter_bounds_every_interval [OF this, of "''ip''" 5 2 10] show ?thesis
    by (simp add: newRateLimiter_def)
qed

text \<open>The window is fixed, not sliding: with the built-in limit of the sensitive endpoints
  (10 per minute) there is a run in which 19 requests of one key are admitted within one
  minute. The bound of the previous property is therefore exact.\<close>

theorem limiter_window_is_fixed:
  "admitted ''ip'' 1 (1 + Minute)
     (run_limiter (Allow ''ip'' 0 # replicate 9 (Allow ''ip'' Minute) @ replicate 10 (Allow ''ip'' (1 + Minute)))
        (newRateLimiter 10 Minute)) = 19"
  by (simp add: newRateLimiter_def allow_def Let_def numeral_eq_Suc time_units)

text \<open>C39: nobody is throttled without cause: a request is admitted whenever fewer than
  \<open>limit\<close> attempts of its key precede it within one window length.\<close>

theorem limiter_admits_below_limit:
  assumes "sorted (map event_time evs)"
    and "run_limiter evs (newRateLimiter limit window) = pre @ (t, k, ok) # post"
    and "attempts_since k (t - rl_window (newRateLimiter limit window)) pre
           < rl_limit (newRateLimiter limit window)"
  shows ok
proof (cases evs)
  case (Cons ev evs')
  let ?rl = "newRateLimiter limit window"
  have "counts_bounded [] ?rl" "\<forall>k e. rl_entries ?rl k = Some e \<longrightarrow> en_expiry e - rl_window ?rl \<le> event_time ev"
    by (simp_all add: counts_bounded_def newRateLimiter_def)
  moreover have "\<forall>ev' \<in> set evs. event_time ev \<le> event_time ev'" using assms(1) Cons by auto
  ultimately show ?thesis
    using run_no_false_denial [OF _ _ _ assms(1,2), of "[]" "event_time ev"] assms(3) by simp
qed (use assms(2) in simp)

theorem limiter_admits_below_limit_witness:
  "run_limiter [Allow ''ip'' 1, Allow ''ip'' 2, Allow ''ip'' 13] (newRateLimiter 2 10)
     = [(1, ''ip'', True), (2, ''ip'', True)] @ (13, ''ip'', True) # []"
proof -
  let ?evs = "[Allow ''ip'' 1, Allow ''ip'' 2, Allow ''ip'' 13]"
  have run: "run_limiter ?evs (newRateLimiter 2 10) =
      [(1, ''ip'', True), (2, ''ip'', True)] @ (13, ''ip'', fst (allow ''ip'' 13
         (snd (allow ''ip'' 2 (snd (allow ''ip'' 1 (newRateLimiter 2 10))))))) # []"
    by (simp add: newRateLimiter_def allow_def Let_def)
  have "fst (allow ''ip'' 13 (snd (allow ''ip'' 2 (snd (allow ''ip'' 1 (newRateLimiter 2 10))))))"
    by (rule limiter_admits_below_limit [OF _ run])
       (simp_all add: newRateLimiter_def attempts_since_def)
  with run show ?thesis by simp
qed

text \<open>C40: the cleanup goroutine is invisible: the decisions of a run are those of the same run
  without its cleanup ticks, wherever the ticks fall.\<close>

theorem cleanup_changes_no_decision:
  assumes "sorted (map event_time evs)"
  shows "run_limiter evs rl = run_limiter (filter is_allow evs) rl"
proof (cases evs)
  case (Cons ev evs')
  then have "\<forall>ev' \<in> set evs. event_time ev \<le> event_time ev'" using assms by auto
  with run_without_cleanup [of "event_time ev" rl rl evs] assms show ?thesis
    by (simp add: same_live_def)
qed simp

theorem cleanup_changes_no_decision_witness:
  "run_limiter [Allow ''ip'' 1, Cleanup 20, Allow ''ip'' 21] (newRateLimiter 1 10)
     = run_limiter [Allow ''ip'' 1, Allow ''ip'' 21] (newRateLimiter 1 10)"
  using cleanup_changes_no_decision
    [of "[Allow ''ip'' 1, Cleanup 20, Allow ''ip'' 21]" "newRateLimiter 1 10"] by simp

text \<open>Credential guessing cannot bypass the sensitive limiter through the flow API: for
  every flow token, submitting to or resending a flow is counted against the sensitive
  limiter unless it is a preflight, and so is every exact sensitive path.\<close>

theorem flow_guesses_are_limited:
  assumes "rq_method r \<noteq> ''OPTIONS''"
    and "rq_path r = ''/v1/auth/flows/'' @ token @ ''/submit'' \<or> rq_path r = ''/v1/auth/flows/'' @ token @ ''/resend''"
  shows "\<exists>msg. rateLimitForRequest r = Some (SensitiveLimiter, msg)"
proof -
  have "isFlowGuessPath (rq_path r)"
    using assms(2) by (auto simp: isFlowGuessPath_def has_prefix_def has_suffix_iff)
  moreover have "rq_path r \<noteq> ''/v1/auth/guest''" using assms(2) by auto
  ultimately show ?thesis using assms(1) by (simp add: rateLimitForRequest_def Let_def)
qed

theorem flow_guesses_are_limited_witness:
  "\<exists>msg. rateLimitForRequest (plain_request ''POST'' ''/v1/auth/flows/tok/submit'' [] [] ''1.2.3.4:5'')
     = Some (SensitiveLimiter, msg)"
  by (rule flow_guesses_are_limited [of _ "''tok''"]) (simp_all add: plain_request_def)

section \<open>Project rules: the cache and the namespaces\<close>

definition rules_lookup :: "projectLimiters \<Rightarrow> string \<Rightarrow> ((string \<rightharpoonup> RateLimitRule) \<times> instant) option" where
  "rules_lookup p scope = map_option (\<lambda>e. (rc_by_endpoint e, rc_exp e)) (pl_rules p scope)"

interpretation rule_cache: ttl_cache rules_lookup resolve Map.empty pl_ttl projectRuleStaleGrace
  by unfold_locales (auto simp: rules_lookup_def resolve_def split: option.splits sum.splits)

text \<open>C27: a change of a project's rate-limit document is enforced everywhere within 30
  seconds: once the reader answers the rules \<open>m\<close> for a scope from \<open>T\<close> on, every lookup of
  that scope at \<open>T + 30s\<close> or later uses \<open>m\<close>, whatever the cache held and however lookups of
  other scopes are interleaved.\<close>

theorem rate_limit_rules_take_effect:
  assumes "\<forall>(now, scope', ans) \<in> set evs. scope' = scope \<longrightarrow> T \<le> now \<longrightarrow> ans = Inr m"
    and "i < length evs" and "fst (snd (evs ! i)) = scope"
    and "T + 30 * Second \<le> fst (evs ! i)"
  shows "fst (serve resolve evs (newProjectLimiters projectRuleCacheTTL)) ! i = m"
proof -
  let ?p = "newProjectLimiters projectRuleCacheTTL"
  have h: "max (pl_ttl ?p) projectRuleStaleGrace = 30 * Second"
    by (simp add: newProjectLimiters_def projectRuleCacheTTL_def projectRuleStaleGrace_def time_units)
  have "settled rules_lookup (max (pl_ttl ?p) projectRuleStaleGrace) scope m T ?p"
    by (simp add: settled_def rules_lookup_def newProjectLimiters_def)
  from rule_cache.serve_bounded_staleness [OF this _ assms(1)] assms(2-4) h show ?thesis
    by (simp add: time_units)
qed

theorem rate_limit_rules_take_effect_witness:
  "fst (serve resolve [(0, ''p|live'', Inl ErrInternal), (40 * Second, ''p|live'', Inr Map.empty)]
          (newProjectLimiters projectRuleCacheTTL)) ! 1 = Map.empty"
proof -
  let ?evs = "[(0, ''p|live'', Inl ErrInternal), (40 * Second, ''p|live'', Inr Map.empty)]
     :: (instant \<times> string \<times> (error + (string \<rightharpoonup> RateLimitRule))) list"
  have "\<forall>(now, scope', ans) \<in> set ?evs. scope' = ''p|live'' \<longrightarrow> 1 \<le> now \<longrightarrow> ans = Inr Map.empty"
    by simp
  from rate_limit_rules_take_effect [OF this, of 1] show ?thesis by (simp add: time_units)
qed

definition effective_env_header :: "http_request \<Rightarrow> string" where
  "effective_env_header r =
     (let e = req_header r ''X-Environment'' in if e = [] then liveEnvironment else e)"

lemma getOrCreateLimiter_other:
  "k' \<noteq> k \<Longrightarrow> pl_limiters (snd (getOrCreateLimiter k l w p)) k' = pl_limiters p k'"
  by (auto simp: getOrCreateLimiter_def split: option.splits)

lemma getOrCreateLimiter_rules [simp]:
  "pl_rules (snd (getOrCreateLimiter k l w p)) = pl_rules p"
  by (auto simp: getOrCreateLimiter_def split: option.splits)

lemma resolve_limiters [simp]: "pl_limiters (snd (resolve now ans scope p)) = pl_limiters p"
  by (auto simp: resolve_def split: option.splits sum.splits)

lemma resolve_other [simp]: "s \<noteq> scope \<Longrightarrow> pl_rules (snd (resolve now ans scope p)) s = pl_rules p s"
  by (auto simp: resolve_def split: option.splits sum.splits)

lemma allow_project_other:
  "n \<noteq> name \<Longrightarrow> pl_limiters (snd (allow_project name key now p)) n = pl_limiters p n"
  by (auto simp: allow_project_def Let_def case_prod_beta split: option.splits)

lemma allow_project_rules [simp]: "pl_rules (snd (allow_project name key now p)) = pl_rules p"
  by (auto simp: allow_project_def Let_def case_prod_beta split: option.splits)

lemma allow_builtin_project [simp]: "rs_project (snd (allow_builtin ref key now st)) = rs_project st"
  by (auto simp: allow_builtin_def Let_def case_prod_beta split: limiter_ref.splits)

lemma limiterFor_other:
  assumes "scope @ ''|'' @ path \<noteq> clientID @ ''|'' @ (if env = [] then liveEnvironment else env) @ ''|'' @ pth"
  shows "pl_limiters (snd (limiterFor reader now clientID env pth ip p)) (scope @ ''|'' @ path) =
           pl_limiters p (scope @ ''|'' @ path)"
  using assms
  by (auto simp: limiterFor_def Let_def case_prod_beta getOrCreateLimiter_other split: option.splits)

lemma limiterFor_name:
  "fst (limiterFor reader now clientID env pth ip p) = Some (n, k) \<Longrightarrow>
   n = clientID @ ''|'' @ (if env = [] then liveEnvironment else env) @ ''|'' @ pth"
  by (auto simp: limiterFor_def Let_def case_prod_beta split: option.splits if_splits)

lemma decide_other:
  assumes "rs_project st = Some p"
    and "name \<noteq> req_header r ''X-Client-Id'' @ ''|'' @ effective_env_header r @ ''|'' @ rq_path r"
    and "name = scope @ ''|'' @ path"
  shows "\<exists>p'. rs_project (snd (decide reader ref key r st)) = Some p' \<and> pl_limiters p' name = pl_limiters p name"
proof -
  let ?l = "limiterFor reader (cx_now (rq_ctx r)) (req_header r ''X-Client-Id'') (req_header r ''X-Environment'')
              (rq_path r) key p"
  have l: "pl_limiters (snd ?l) name = pl_limiters p name"
    using assms(2,3) limiterFor_other [of scope path] by (simp add: effective_env_header_def Let_def)
  show ?thesis
  proof (cases "fst ?l")
    case None
    then show ?thesis using assms(1) l by (cases ?l) (simp add: decide_def Let_def)
  next
    case (Some nk)
    obtain n k where nk: "nk = (n, k)" by (cases nk)
    have "name \<noteq> n" using limiterFor_name [of reader _ _ _ _ key p n k] Some nk assms(2)
      by (simp add: effective_env_header_def Let_def)
    then show ?thesis
      using assms(1) l Some nk
      by (cases ?l) (simp add: decide_def Let_def case_prod_beta allow_project_other)
  qed
qed

text \<open>Project limits are isolated: a request under any other client id, environment or
  endpoint, whatever bytes its headers hold, leaves the counters of this project's endpoint
  untouched. Only the ids and environments that are looked up need be free of the separator.\<close>

theorem project_limits_isolated:
  assumes "rs_project st = Some p"
    and "CHR ''|'' \<notin> set pid" and "CHR ''|'' \<notin> set env"
    and "CHR ''|'' \<notin> set path" and "CHR ''|'' \<notin> set (rq_path r)"
    and "(req_header r ''X-Client-Id'', effective_env_header r, rq_path r) \<noteq> (pid, env, path)"
  shows "\<exists>p'. rs_project (snd (decide reader ref key r st)) = Some p'
           \<and> pl_limiters p' (pid @ ''|'' @ env @ ''|'' @ path) = pl_limiters p (pid @ ''|'' @ env @ ''|'' @ path)"
proof (rule decide_other [OF assms(1), of _ _ "pid @ ''|'' @ env" path])
  let ?c = "req_header r ''X-Client-Id''" and ?e = "effective_env_header r"
  show "pid @ ''|'' @ env @ ''|'' @ path \<noteq> ?c @ ''|'' @ ?e @ ''|'' @ rq_path r"
  proof
    assume eq: "pid @ ''|'' @ env @ ''|'' @ path = ?c @ ''|'' @ ?e @ ''|'' @ rq_path r"
    have l: "split_on CHR ''|'' (pid @ ''|'' @ env @ ''|'' @ path) = [pid, env, path]"
      using assms(2-4) by (simp add: split_on_append_sep split_on_single)
    have "split_on CHR ''|'' (?c @ ''|'' @ ?e @ ''|'' @ rq_path r) =
            split_on CHR ''|'' ?c @ split_on CHR ''|'' ?e @ [rq_path r]"
      using assms(5) by (simp add: split_on_append_sep split_on_single)
    with l eq have "split_on CHR ''|'' ?c @ split_on CHR ''|'' ?e @ [rq_path r] = [pid, env, path]" by simp
    then have "split_on CHR ''|'' ?c @ split_on CHR ''|'' ?e = [pid, env]" "rq_path r = path"
      by (metis append_assoc append1_eq_conv append_Cons append_Nil)+
    then have "split_on CHR ''|'' ?c = [pid]" "split_on CHR ''|'' ?e = [env]"
      by (cases "split_on CHR ''|'' ?c"; cases "tl (split_on CHR ''|'' ?c)"; simp)+
    then have "?c = pid" "?e = env"
      using join_split_on [of "CHR ''|''" ?c] join_split_on [of "CHR ''|''" ?e] by simp_all
    with \<open>rq_path r = path\<close> assms(6) show False by simp
  qed
qed simp

theorem project_limits_isolated_witness:
  "\<exists>p'. rs_project (snd (decide (\<lambda>_ _. Inr []) GuestLimiter ''1.2.3.4''
            (plain_request ''POST'' ''/v1/auth/guest'' [(''X-Client-Id'', [''p|live''])] [] ''1.2.3.4:5'')
            (init_rl_state True))) = Some p'
        \<and> pl_limiters p' (''p'' @ ''|'' @ ''live'' @ ''|'' @ ''/v1/auth/guest'') = None"
proof -
  let ?r = "plain_request ''POST'' ''/v1/auth/guest'' [(''X-Client-Id'', [''p|live''])] [] ''1.2.3.4:5''"
  have 1: "rs_project (init_rl_state True) = Some (newProjectLimiters projectRuleCacheTTL)"
    by (simp add: init_rl_state_def)
  have 2: "CHR ''|'' \<notin> set ''p''" "CHR ''|'' \<notin> set ''live''" "CHR ''|'' \<notin> set ''/v1/auth/guest''"
    "CHR ''|'' \<notin> set (rq_path ?r)"
    "(req_header ?r ''X-Client-Id'', effective_env_header ?r, rq_path ?r) \<noteq> (''p'', ''live'', ''/v1/auth/guest'')"
    by (simp_all add: plain_request_def req_header_def header_get_def)
  from project_limits_isolated [OF 1 2, of "\<lambda>_ _. Inr []" GuestLimiter "''1.2.3.4''"] show ?thesis
    by (simp add: newProjectLimiters_def)
qed

section \<open>Project rules: enforcement\<close>

text \<open>The decisions of a sequence of requests, each with its counter key.\<close>

fun decide_run ::
  "(string \<Rightarrow> string \<Rightarrow> error + RateLimitRule list) \<Rightarrow> (limiter_ref \<times> string \<times> http_request) list \<Rightarrow>
   rl_state \<Rightarrow> bool list" where
  "decide_run reader [] st = []"
| "decide_run reader ((ref, key, r) # rs) st =
     fst (decide reader ref key r st) # decide_run reader rs (snd (decide reader ref key r st))"

text \<open>The state of a project's limiter that \<open>decide\<close> goes on with under a rule.\<close>

definition tracks :: "string \<Rightarrow> rateLimiter \<Rightarrow> int \<Rightarrow> duration \<Rightarrow> projectLimiters \<Rightarrow> bool" where
  "tracks name rl limit window p \<longleftrightarrow>
     rl_limit rl = limit \<and> rl_window rl = window
     \<and> (pl_limiters p name = Some rl \<or> pl_limiters p name = None \<and> rl = newRateLimiter limit window)"

definition rule_cached :: "string \<Rightarrow> string \<Rightarrow> RateLimitRule \<Rightarrow> projectLimiters \<Rightarrow> bool" where
  "rule_cached scope path rule p \<longleftrightarrow>
     (\<forall>e. pl_rules p scope = Some e \<longrightarrow> rc_by_endpoint e path = Some rule)"

definition bound_to :: "string \<Rightarrow> string \<Rightarrow> string \<Rightarrow> http_request \<Rightarrow> bool" where
  "bound_to pid env path r \<longleftrightarrow>
     req_header r ''X-Client-Id'' = pid \<and> effective_env_header r = env \<and> rq_path r = path"

lemma resolve_rule:
  assumes "rule_cached scope path rule p" "ans = Inr m" "m path = Some rule"
  shows "fst (resolve now ans scope p) path = Some rule"
    and "rule_cached scope path rule (snd (resolve now ans scope p))"
  using assms by (auto simp: rule_cached_def resolve_def split: option.splits)

lemma getOrCreate_tracks:
  assumes "tracks name rl limit window p"
  shows "pl_limiters (snd (getOrCreateLimiter name limit window p)) name = Some rl"
  using assms by (auto simp: tracks_def getOrCreateLimiter_def)

lemma limiterFor_bound:
  assumes "pid \<noteq> []" "bound_to pid env path r" "reader pid env = Inr rules"
    and "rules_by_endpoint rules path = Some rule" "rule_cached (pid @ ''|'' @ env) path rule p"
  shows "\<exists>p1. limiterFor reader now (req_header r ''X-Client-Id'') (req_header r ''X-Environment'') (rq_path r) ip p =
           (Some (pid @ ''|'' @ env @ ''|'' @ path, pid @ ''|'' @ env @ ''|'' @ path @ ''|'' @ ip),
            snd (getOrCreateLimiter (pid @ ''|'' @ env @ ''|'' @ path) (ru_limit rule) (ru_window rule) p1))
         \<and> pl_limiters p1 = pl_limiters p \<and> rule_cached (pid @ ''|'' @ env) path rule p1"
proof -
  let ?res = "resolve now (Inr (rules_by_endpoint rules)) (pid @ ''|'' @ env) p"
  have e: "(if req_header r ''X-Environment'' = [] then liveEnvironment else req_header r ''X-Environment'') = env"
    using assms(2) by (simp add: bound_to_def effective_env_header_def Let_def)
  note res = resolve_rule [where m = "rules_by_endpoint rules", OF assms(5) refl assms(4), of now]
  show ?thesis
    using assms(1,2,3) res e
    by (intro exI [of _ "snd ?res"]) (simp add: limiterFor_def Let_def case_prod_beta bound_to_def)
qed

lemma decide_bound:
  assumes "pid \<noteq> []" "bound_to pid env path r" "reader pid env = Inr rules"
    and "rules_by_endpoint rules path = Some rule" "rule_cached (pid @ ''|'' @ env) path rule p"
    and "rs_project st = Some p"
  shows "\<exists>p1. rule_cached (pid @ ''|'' @ env) path rule p1 \<and> pl_limiters p1 = pl_limiters p
     \<and> decide reader ref ip r st =
        (let (ok, p3) = allow_project (pid @ ''|'' @ env @ ''|'' @ path)
                          (pid @ ''|'' @ env @ ''|'' @ path @ ''|'' @ ip) (cx_now (rq_ctx r))
                          (snd (getOrCreateLimiter (pid @ ''|'' @ env @ ''|'' @ path) (ru_limit rule) (ru_window rule) p1))
         in (ok, st\<lparr>rs_project := Some p3\<rparr>))"
  using limiterFor_bound [where reader = reader and pid = pid and env = env, OF assms(1-5), of "cx_now (rq_ctx r)" ip] assms(6)
  by (auto simp: decide_def Let_def)

lemma rule_cached_limiters [simp]:
  "rule_cached scope path rule (snd (getOrCreateLimiter n l w p)) = rule_cached scope path rule p"
  "rule_cached scope path rule (snd (allow_project n k t p)) = rule_cached scope path rule p"
  by (simp_all add: rule_cached_def)

text \<open>C34: a stable per-project rule is enforced by one limiter: the decisions taken on a
  sequence of requests to a project's endpoint are exactly those of a single limiter with
  the rule's limit and window over the namespaced keys, from its creation on.\<close>

theorem project_rule_is_enforced:
  assumes "pid \<noteq> []" and "reader pid env = Inr rules"
    and "rules_by_endpoint rules path = Some rule" and "1 \<le> ru_limit rule" and "0 < ru_window rule"
    and "\<forall>(_, _, r) \<in> set reqs. bound_to pid env path r"
    and "rs_project st = Some (newProjectLimiters ttl)"
  shows "decide_run reader reqs st =
     map (\<lambda>(_, _, ok). ok)
       (run_limiter (map (\<lambda>(_, ip, r). Allow (pid @ ''|'' @ env @ ''|'' @ path @ ''|'' @ ip) (cx_now (rq_ctx r))) reqs)
          (newRateLimiter (ru_limit rule) (ru_window rule)))"
proof -
  let ?n = "pid @ ''|'' @ env @ ''|'' @ path"
  have "decide_run reader reqs st =
      map (\<lambda>(_, _, ok). ok)
        (run_limiter (map (\<lambda>(_, ip, r). Allow (pid @ ''|'' @ env @ ''|'' @ path @ ''|'' @ ip) (cx_now (rq_ctx r))) reqs) rl)"
    if "rs_project st = Some p" "rule_cached (pid @ ''|'' @ env) path rule p"
       "tracks ?n rl (ru_limit rule) (ru_window rule) p" for st p rl
    using that assms(6)
  proof (induction reqs arbitrary: st p rl)
    case (Cons q reqs)
    obtain ref ip r where q: "q = (ref, ip, r)" by (cases q)
    have b: "bound_to pid env path r" using Cons.prems(4) q by simp
    obtain p1 where p1: "rule_cached (pid @ ''|'' @ env) path rule p1" "pl_limiters p1 = pl_limiters p"
      and d: "decide reader ref ip r st =
        (let (ok, p3) = allow_project ?n (?n @ ''|'' @ ip) (cx_now (rq_ctx r))
                          (snd (getOrCreateLimiter ?n (ru_limit rule) (ru_window rule) p1))
         in (ok, st\<lparr>rs_project := Some p3\<rparr>))"
      using decide_bound [where reader = reader and pid = pid and env = env, OF assms(1) b assms(2,3) Cons.prems(2,1), of ref ip]
      by auto
    let ?p2 = "snd (getOrCreateLimiter ?n (ru_limit rule) (ru_window rule) p1)"
    let ?k = "?n @ ''|'' @ ip" and ?t = "cx_now (rq_ctx r)"
    have "tracks ?n rl (ru_limit rule) (ru_window rule) p1"
      using Cons.prems(3) p1(2) by (simp add: tracks_def)
    from getOrCreate_tracks [OF this] have l2: "pl_limiters ?p2 ?n = Some rl" .
    let ?p3 = "?p2\<lparr>pl_limiters := (pl_limiters ?p2)(?n \<mapsto> snd (allow ?k ?t rl))\<rparr>"
    have d': "decide reader ref ip r st = (fst (allow ?k ?t rl), st\<lparr>rs_project := Some ?p3\<rparr>)"
      unfolding d using l2 by (simp add: allow_project_def Let_def case_prod_beta)
    have "rule_cached (pid @ ''|'' @ env) path rule ?p3"
      using p1(1) rule_cached_limiters(1) [of _ path rule ?n _ _ p1] by (simp add: rule_cached_def)
    moreover have "tracks ?n (snd (allow ?k ?t rl)) (ru_limit rule) (ru_window rule) ?p3"
      using Cons.prems(3) by (simp add: tracks_def frame_simps)
    ultimately show ?case
      using Cons.IH [of "st\<lparr>rs_project := Some ?p3\<rparr>" ?p3] Cons.prems(4) d' q by simp
  qed simp
  moreover have "tracks ?n (newRateLimiter (ru_limit rule) (ru_window rule)) (ru_limit rule) (ru_window rule)
                   (newProjectLimiters ttl)"
    using assms(4,5) by (simp add: tracks_def newProjectLimiters_def newRateLimiter_def)
  ultimately show ?thesis
    using assms(7) by (simp add: rule_cached_def newProjectLimiters_def)
qed

definition sample_rule :: "int \<Rightarrow> duration \<Rightarrow> RateLimitRule" where
  "sample_rule l w = \<lparr>ru_endpoint = ''/v1/auth/guest'', ru_limit = l, ru_window = w, ru_by = ''ip''\<rparr>"

definition sample_request :: http_request where
  "sample_request =
     plain_request ''POST'' ''/v1/auth/guest'' [(''X-Client-Id'', [''p''])] [] ''1.2.3.4:5''"

theorem project_rule_is_enforced_witness:
  "decide_run (\<lambda>_ _. Inr [sample_rule 1 60]) (replicate 2 (GuestLimiter, ''1.2.3.4'', sample_request))
     (init_rl_state True) = [True, False]"
proof -
  have "decide_run (\<lambda>_ _. Inr [sample_rule 1 60]) (replicate 2 (GuestLimiter, ''1.2.3.4'', sample_request))
     (init_rl_state True) =
     map (\<lambda>(_, _, ok). ok)
       (run_limiter (map (\<lambda>(_, ip, r). Allow (''p'' @ ''|'' @ ''live'' @ ''|'' @ ''/v1/auth/guest'' @ ''|'' @ ip)
                                         (cx_now (rq_ctx r)))
          (replicate 2 (GuestLimiter, ''1.2.3.4'', sample_request)))
          (newRateLimiter (ru_limit (sample_rule 1 60)) (ru_window (sample_rule 1 60))))"
    by (rule project_rule_is_enforced [where rules = "[sample_rule 1 60]"])
       (auto simp: sample_rule_def sample_request_def rules_by_endpoint_def bound_to_def plain_request_def
          req_header_def header_get_def effective_env_header_def liveEnvironment_def init_rl_state_def)
  then show ?thesis
    by (simp add: numeral_2_eq_2 sample_rule_def newRateLimiter_def allow_def)
qed

text \<open>Every limiter a project holds satisfies the invariant.\<close>

definition project_ok :: "projectLimiters \<Rightarrow> bool" where
  "project_ok p \<longleftrightarrow> (\<forall>n rl. pl_limiters p n = Some rl \<longrightarrow> limiter_ok rl)"

lemma getOrCreate_clamped:
  assumes "project_ok p" "limit < 1 \<or> window \<le> 0"
  shows "pl_limiters (snd (getOrCreateLimiter n limit window p)) n = Some (newRateLimiter limit window)"
    and "project_ok (snd (getOrCreateLimiter n limit window p))"
  using assms
  by (force simp: project_ok_def getOrCreateLimiter_def limiter_ok_def newRateLimiter_def time_units
        split: option.splits if_splits)+

text \<open>Clamping a bad rule defeats it: when the reader yields a rule whose limit is below 1
  or whose window is not positive (a document edited outside the validated write path), the
  limiter it is clamped to never matches the rule, so it is replaced by a new one on every
  request and no request is ever refused.\<close>

theorem clamped_rule_never_refuses:
  assumes "pid \<noteq> []" and "reader pid env = Inr rules"
    and "rules_by_endpoint rules path = Some rule" and "ru_limit rule < 1 \<or> ru_window rule \<le> 0"
    and "\<forall>(_, _, r) \<in> set reqs. bound_to pid env path r"
    and "rs_project st = Some (newProjectLimiters ttl)"
  shows "decide_run reader reqs st = replicate (length reqs) True"
proof -
  let ?n = "pid @ ''|'' @ env @ ''|'' @ path"
  let ?new = "newRateLimiter (ru_limit rule) (ru_window rule)"
  have "decide_run reader reqs st = replicate (length reqs) True"
    if "rs_project st = Some p" "rule_cached (pid @ ''|'' @ env) path rule p" "project_ok p" for st p
    using that assms(5)
  proof (induction reqs arbitrary: st p)
    case (Cons q reqs)
    obtain ref ip r where q: "q = (ref, ip, r)" by (cases q)
    have b: "bound_to pid env path r" using Cons.prems(4) q by simp
    obtain p1 where p1: "rule_cached (pid @ ''|'' @ env) path rule p1" "pl_limiters p1 = pl_limiters p"
      and d: "decide reader ref ip r st =
        (let (ok, p3) = allow_project ?n (?n @ ''|'' @ ip) (cx_now (rq_ctx r))
                          (snd (getOrCreateLimiter ?n (ru_limit rule) (ru_window rule) p1))
         in (ok, st\<lparr>rs_project := Some p3\<rparr>))"
      using decide_bound [where reader = reader and pid = pid and env = env,
          OF assms(1) b assms(2,3) Cons.prems(2,1), of ref ip] by auto
    let ?p2 = "snd (getOrCreateLimiter ?n (ru_limit rule) (ru_window rule) p1)"
    let ?rl = "snd (allow (?n @ ''|'' @ ip) (cx_now (rq_ctx r)) ?new)"
    let ?p3 = "?p2\<lparr>pl_limiters := (pl_limiters ?p2)(?n \<mapsto> ?rl)\<rparr>"
    have ok1: "project_ok p1" using Cons.prems(3) p1(2) by (simp add: project_ok_def)
    note g = getOrCreate_clamped [OF ok1 assms(4), of ?n]
    have "fst (allow (?n @ ''|'' @ ip) (cx_now (rq_ctx r)) ?new)"
      by (simp add: allow_def newRateLimiter_def)
    then have d': "decide reader ref ip r st = (True, st\<lparr>rs_project := Some ?p3\<rparr>)"
      unfolding d using g(1) by (simp add: allow_project_def Let_def case_prod_beta)
    have "rule_cached (pid @ ''|'' @ env) path rule ?p3"
      using p1(1) rule_cached_limiters(1) [of _ path rule ?n _ _ p1] by (simp add: rule_cached_def)
    moreover have "project_ok ?p3"
      using g(2) allow_ok [OF newRateLimiter_ok] by (simp add: project_ok_def)
    ultimately show ?case
      using Cons.IH [of "st\<lparr>rs_project := Some ?p3\<rparr>" ?p3] Cons.prems(4) d' q by simp
  qed simp
  then show ?thesis using assms(6) by (simp add: rule_cached_def project_ok_def newProjectLimiters_def)
qed

theorem clamped_rule_never_refuses_witness:
  "decide_run (\<lambda>_ _. Inr [sample_rule 0 60]) (replicate 5 (GuestLimiter, ''1.2.3.4'', sample_request))
     (init_rl_state True) = replicate 5 True"
proof -
  have "decide_run (\<lambda>_ _. Inr [sample_rule 0 60]) (replicate 5 (GuestLimiter, ''1.2.3.4'', sample_request))
     (init_rl_state True) = replicate (length (replicate 5 (GuestLimiter, ''1.2.3.4'', sample_request))) True"
    by (rule clamped_rule_never_refuses [where pid = "''p''" and env = "''live''" and path = "''/v1/auth/guest''"
          and rules = "[sample_rule 0 60]" and rule = "sample_rule 0 60"])
       (auto simp: sample_rule_def sample_request_def rules_by_endpoint_def bound_to_def plain_request_def
          req_header_def header_get_def effective_env_header_def liveEnvironment_def init_rl_state_def)
  then show ?thesis by simp
qed

text \<open>C35: a refused request never reaches the application: the middleware answers 429 with a
  \<open>Retry-After\<close> header, the wrapped handler is not run (the outcome is the same for every
  handler) and its state is unchanged.\<close>

theorem refused_request_not_served:
  assumes "rateLimitForRequest r = Some (ref, msg)"
    and "\<not> fst (decide (reader s) ref (clientIP nets r) r st)"
  shows "NewRateLimitMiddleware nets reader next w r (st, s) =
           NewRateLimitMiddleware nets reader next' w r (st, s)
       \<and> rs_status (fst (NewRateLimitMiddleware nets reader next w r (st, s))) = 429
       \<and> header_get (rs_headers (fst (NewRateLimitMiddleware nets reader next w r (st, s)))) ''Retry-After'' = ''60''
       \<and> snd (snd (NewRateLimitMiddleware nets reader next w r (st, s))) = s"
  using assms
  by (simp add: NewRateLimitMiddleware_def Let_def case_prod_beta reject_rate_limited_def)

theorem refused_request_not_served_witness:
  "rs_status (fst (NewRateLimitMiddleware [] (\<lambda>_ _ _. Inr []) (\<lambda>w r s. (w, s + 1))
        \<lparr>rs_status = 200, rs_headers = [], rs_body = (NoBody :: unit body)\<rparr> sample_request
        ((init_rl_state False)\<lparr>rs_guest := (newRateLimiter 5 Minute)\<lparr>rl_entries :=
            [''1.2.3.4'' \<mapsto> \<lparr>en_count = 5, en_expiry = 10\<rparr>]\<rparr>\<rparr>, 0 :: nat))) = 429"
proof -
  let ?st = "(init_rl_state False)\<lparr>rs_guest := (newRateLimiter 5 Minute)\<lparr>rl_entries :=
            [''1.2.3.4'' \<mapsto> \<lparr>en_count = 5, en_expiry = 10\<rparr>]\<rparr>\<rparr>"
  have c: "clientIP [] sample_request = ''1.2.3.4''" by code_simp
  have 1: "rateLimitForRequest sample_request = Some (GuestLimiter, ''Too many guest accounts created.'')"
    by code_simp
  have 2: "\<not> fst (decide ((\<lambda>_ _ _. Inr []) (0 :: nat)) GuestLimiter (clientIP [] sample_request) sample_request ?st)"
    unfolding c by (simp add: decide_def Let_def init_rl_state_def allow_builtin_def allow_def newRateLimiter_def
        sample_request_def plain_request_def)
  from refused_request_not_served [where reader = "\<lambda>_ _ _. Inr []" and s = "0 :: nat", OF 1 2]
  show ?thesis by blast
qed

end
