(* ===== verification/ConfigReader.thy ===== *)
theory ConfigReader
  imports ConfigSpec RateLimit
begin

text \<open>
  The runtime reader of the project-config documents
  (\<open>src/internal/infrastructure/postgres/config_reader.go\<close>) and the adapter that feeds the
  rate limiter (\<open>ratelimit_pg.go\<close>). A raw document is a \<open>json option\<close>: \<open>None\<close> is the nil
  slice of an absent row (a stored \<open>jsonb\<close> value is always well-formed JSON). Unlike the
  write path the reader decodes tolerantly: unknown keys are skipped, and a document that
  does not decode yields the defaults. Which rows a read sees and which environment it is
  made for is the business of \<open>Store\<close>; here are the cache and the typed views.
\<close>

section \<open>Tolerant decoding\<close>

definition prune :: "'r setters \<Rightarrow> json \<Rightarrow> json" where
  "prune fs j = (case j of JObj kvs \<Rightarrow> JObj (filter (\<lambda>(k, _). find_field fs k \<noteq> None) kvs) | _ \<Rightarrow> j)"

text \<open>\<open>json.Unmarshal\<close> into a struct: the keys no field answers to are ignored.\<close>

definition decode_lax :: "'r setters \<Rightarrow> json \<Rightarrow> 'r \<Rightarrow> 'r option" where
  "decode_lax fs j r = decode_struct fs (prune fs j) r"

lemma decode_fields_known:
  "decode_fields fs kvs r = Some x \<Longrightarrow> filter (\<lambda>(k, _). find_field fs k \<noteq> None) kvs = kvs"
  by (induction kvs arbitrary: r) (auto split: option.splits Option.bind_splits)

text \<open>What the strict decoder accepts the tolerant one reads the same way.\<close>

lemma decode_lax_strict: "decode_struct fs j r = Some x \<Longrightarrow> decode_lax fs j r = Some x"
  by (auto simp: decode_lax_def prune_def decode_struct_def decode_fields_known simp del: not_None_eq split: json.splits)

section \<open>The cache\<close>

type_synonym cacheKey = "string \<times> string \<times> string"

record cacheEntry =
  ce_raw :: "json option"
  ce_exp :: instant

record configReader =
  cr_ttl :: duration
  cr_entries :: "cacheKey \<rightharpoonup> cacheEntry"

definition configReaderDefaultTTL :: duration where "configReaderDefaultTTL = 30 * Second"
definition staleEntryGrace :: duration where "staleEntryGrace = 5 * Second"
definition runtimeDefaultEnv :: string where "runtimeDefaultEnv = ''live''"

definition NewConfigReader :: "duration \<Rightarrow> configReader" where
  "NewConfigReader ttl =
     \<lparr>cr_ttl = (if ttl \<le> 0 then configReaderDefaultTTL else ttl), cr_entries = Map.empty\<rparr>"

definition invalidate :: "string \<Rightarrow> string \<Rightarrow> string \<Rightarrow> configReader \<Rightarrow> configReader" where
  "invalidate projectID env key r = r\<lparr>cr_entries := (cr_entries r)((projectID, env, key) := None)\<rparr>"

text \<open>\<open>loadDoc\<close>: the environment is defaulted, then the entry of the full key is read. \<open>ans\<close> is
  what \<open>fetch\<close> would answer now.\<close>

definition load_entry ::
  "bool \<Rightarrow> instant \<Rightarrow> error + json option \<Rightarrow> cacheKey \<Rightarrow> configReader \<Rightarrow> json option res \<times> configReader" where
  "load_entry failClosed now ans k r =
     (let entry = cr_entries r k in
      if (case entry of Some e \<Rightarrow> now < ce_exp e | None \<Rightarrow> False) then (Inr (ce_raw (the entry)), r)
      else (case ans of
              Inl e \<Rightarrow>
                if failClosed then (Inl e, r)
                else
                  let prev = (case entry of Some p \<Rightarrow> p | None \<Rightarrow> \<lparr>ce_raw = None, ce_exp = zeroTime\<rparr>) in
                  (Inr (ce_raw prev),
                   r\<lparr>cr_entries := (cr_entries r)(k \<mapsto> prev\<lparr>ce_exp := now + staleEntryGrace\<rparr>)\<rparr>)
            | Inr raw \<Rightarrow>
                (Inr raw, r\<lparr>cr_entries := (cr_entries r)(k \<mapsto> \<lparr>ce_raw = raw, ce_exp = now + cr_ttl r\<rparr>)\<rparr>)))"

definition loadDoc ::
  "instant \<Rightarrow> error + json option \<Rightarrow> string \<Rightarrow> string \<Rightarrow> string \<Rightarrow> bool \<Rightarrow> configReader
     \<Rightarrow> json option res \<times> configReader" where
  "loadDoc now ans projectID env key failClosed r =
     load_entry failClosed now ans (projectID, if env = [] then runtimeDefaultEnv else env, key) r"

section \<open>The typed views\<close>

record EffectivePasswordPolicy =
  ep_min_length :: int
  ep_zxcvbn_min_score :: int
  ep_breached_check :: bool
  ep_history :: int

record EffectiveSessionPolicy =
  es_access_ttl :: duration
  es_refresh_ttl :: duration
  es_idle_timeout :: duration
  es_absolute_timeout :: duration
  es_reuse_detection :: bool
  es_access_token_claims :: "string list"

record EffectiveMFAPolicy =
  em_required_for_admins :: bool
  em_allowed_factors :: "string list"
  em_remember_device :: bool

record EffectiveAuthConfig =
  ea_methods :: "string list"
  ea_registration_mode :: string
  ea_password_strategy :: string
  ea_app_base_url :: string
  ea_default_locale :: string
  ea_supported_locales :: "string list"
  ea_member_invites_enabled :: bool
  ea_member_invites_default_cap :: int

definition RolesClaimEnabled :: "EffectiveSessionPolicy \<Rightarrow> bool" where
  "RolesClaimEnabled p \<longleftrightarrow> list_ex (\<lambda>c. c = ''roles'') (es_access_token_claims p)"

text \<open>\<open>if p != nil && ok(*p) { x = f(*p) }\<close>\<close>

definition override :: "'a option \<Rightarrow> ('a \<Rightarrow> bool) \<Rightarrow> ('a \<Rightarrow> 'b) \<Rightarrow> 'b \<Rightarrow> 'b" where
  "override p ok f d = (case p of Some x \<Rightarrow> if ok x then f x else d | None \<Rightarrow> d)"

definition defaultPasswordMinLength :: int where "defaultPasswordMinLength = 8"

definition passwordPolicyOf :: "json option \<Rightarrow> EffectivePasswordPolicy" where
  "passwordPolicyOf raw =
     (let eff = \<lparr>ep_min_length = defaultPasswordMinLength, ep_zxcvbn_min_score = 0,
                 ep_breached_check = False, ep_history = 0\<rparr> in
      case raw of
        None \<Rightarrow> eff
      | Some j \<Rightarrow>
          (case decode_lax password_policy_fields j empty_password_policy of
             None \<Rightarrow> eff
           | Some spec \<Rightarrow>
               \<lparr>ep_min_length = override (pp_min_length spec) (\<lambda>n. n > 0) id defaultPasswordMinLength,
                ep_zxcvbn_min_score = override (pp_zxcvbn_min_score spec) (\<lambda>n. n \<ge> 0) id 0,
                ep_breached_check = override (pp_breached_check spec) (\<lambda>_. True) id False,
                ep_history = override (pp_history spec) (\<lambda>n. n > 0) id 0\<rparr>))"

definition coreAuthAccessTTL :: duration where "coreAuthAccessTTL = 10 * Minute"
definition coreAuthRefreshTTL :: duration where "coreAuthRefreshTTL = 30 * 24 * Hour"

definition defaultSessionPolicy :: EffectiveSessionPolicy where
  "defaultSessionPolicy =
     \<lparr>es_access_ttl = coreAuthAccessTTL, es_refresh_ttl = coreAuthRefreshTTL, es_idle_timeout = 0,
      es_absolute_timeout = 0, es_reuse_detection = False, es_access_token_claims = []\<rparr>"

text \<open>The last step of \<open>parseSessionPolicy\<close>: a refresh token must outlast the access token.\<close>

definition order_ttls :: "EffectiveSessionPolicy \<Rightarrow> EffectiveSessionPolicy" where
  "order_ttls eff =
     (if es_refresh_ttl eff \<le> es_access_ttl eff then
        let eff1 = eff\<lparr>es_refresh_ttl := coreAuthRefreshTTL\<rparr> in
        if es_refresh_ttl eff1 \<le> es_access_ttl eff1 then eff1\<lparr>es_access_ttl := coreAuthAccessTTL\<rparr> else eff1
      else eff)"

definition parseSessionPolicy :: "json option \<Rightarrow> EffectiveSessionPolicy" where
  "parseSessionPolicy raw =
     (case raw of
        None \<Rightarrow> defaultSessionPolicy
      | Some j \<Rightarrow>
          (case decode_lax session_policy_fields j empty_session_policy of
             None \<Rightarrow> defaultSessionPolicy
           | Some spec \<Rightarrow>
               order_ttls
                 \<lparr>es_access_ttl = override (sp_access_ttl spec) (\<lambda>n. n > 0) seconds coreAuthAccessTTL,
                  es_refresh_ttl = override (sp_refresh_ttl spec) (\<lambda>n. n > 0) seconds coreAuthRefreshTTL,
                  es_idle_timeout = override (sp_idle_timeout spec) (\<lambda>n. n > 0) seconds 0,
                  es_absolute_timeout = override (sp_absolute_timeout spec) (\<lambda>n. n > 0) seconds 0,
                  es_reuse_detection = override (sp_reuse_detection spec) (\<lambda>_. True) id False,
                  es_access_token_claims = elems (sp_access_token_claims spec)\<rparr>))"

definition mfaPolicyOf :: "json option \<Rightarrow> EffectiveMFAPolicy" where
  "mfaPolicyOf raw =
     (let eff = \<lparr>em_required_for_admins = False, em_allowed_factors = [], em_remember_device = False\<rparr> in
      case raw of
        None \<Rightarrow> eff
      | Some j \<Rightarrow>
          (case decode_lax mfa_policy_fields j empty_mfa_policy of
             None \<Rightarrow> eff
           | Some spec \<Rightarrow>
               \<lparr>em_required_for_admins = override (mp_required_for_admins spec) (\<lambda>_. True) id False,
                em_allowed_factors = elems (mp_allowed_factors spec),
                em_remember_device = override (mp_remember_device spec) (\<lambda>_. True) id False\<rparr>))"

definition as_string_value :: "json \<Rightarrow> string option option" where
  "as_string_value j = (case j of JNull \<Rightarrow> Some None | JStr s \<Rightarrow> Some (Some s) | _ \<Rightarrow> None)"

definition consent_document_fields :: "ConsentDocumentSpec setters" where
  "consent_document_fields =
     [(''key'', set_via as_string_value (\<lambda>v r. case v of Some s \<Rightarrow> r\<lparr>cd_key := s\<rparr> | None \<Rightarrow> r)),
      (''version'', set_via as_string_value (\<lambda>v r. case v of Some s \<Rightarrow> r\<lparr>cd_version := s\<rparr> | None \<Rightarrow> r)),
      (''title'', set_via as_string_ptr (\<lambda>v r. r\<lparr>cd_title := v\<rparr>)),
      (''body'', set_via as_string_ptr (\<lambda>v r. r\<lparr>cd_body := v\<rparr>)),
      (''locale'', set_via as_string_ptr (\<lambda>v r. r\<lparr>cd_locale := v\<rparr>)),
      (''required'', set_via as_bool_ptr (\<lambda>v r. r\<lparr>cd_required := v\<rparr>)),
      (''url'', set_via as_string_ptr (\<lambda>v r. r\<lparr>cd_url := v\<rparr>))]"

definition empty_consent_document :: ConsentDocumentSpec where
  "empty_consent_document =
     \<lparr>cd_key = [], cd_version = [], cd_title = None, cd_body = None, cd_locale = None,
      cd_required = None, cd_url = None\<rparr>"

definition as_documents :: "json \<Rightarrow> ConsentDocumentSpec list option" where
  "as_documents j =
     (case j of
        JNull \<Rightarrow> Some []
      | JArr xs \<Rightarrow> all_some (map (\<lambda>x. decode_lax consent_document_fields x empty_consent_document) xs)
      | _ \<Rightarrow> None)"

definition consentDocumentsOf :: "json option \<Rightarrow> ConsentDocumentSpec list" where
  "consentDocumentsOf raw =
     (case raw of
        None \<Rightarrow> []
      | Some j \<Rightarrow>
          (case decode_lax [(''documents'', set_via as_documents (\<lambda>v _. v))] j [] of
             None \<Rightarrow> []
           | Some docs \<Rightarrow> docs))"

text \<open>The auth document, its nested structs decoded tolerantly too.\<close>

definition set_struct_lax ::
  "'q setters \<Rightarrow> 'q \<Rightarrow> ('r \<Rightarrow> 'q option) \<Rightarrow> ('q option \<Rightarrow> 'r \<Rightarrow> 'r) \<Rightarrow> json \<Rightarrow> 'r \<Rightarrow> 'r option" where
  "set_struct_lax fs zero get put j r = set_struct fs zero get put (prune fs j) r"

definition auth_runtime_fields :: "AuthConfigSpec setters" where
  "auth_runtime_fields =
     [(''registration'', set_struct_lax registration_fields \<lparr>ar_mode = None, ar_password_strategy = None\<rparr>
          ac_registration (\<lambda>v r. r\<lparr>ac_registration := v\<rparr>)),
      (''member_invites'', set_struct_lax member_invites_fields \<lparr>am_enabled = None, am_default_cap = None\<rparr>
          ac_member_invites (\<lambda>v r. r\<lparr>ac_member_invites := v\<rparr>))]
     @ filter (\<lambda>(k, _). k \<noteq> ''registration'' \<and> k \<noteq> ''member_invites'') auth_fields"

definition str_or_empty :: "string option \<Rightarrow> string" where
  "str_or_empty p = (case p of Some s \<Rightarrow> s | None \<Rightarrow> [])"

definition authConfigOf :: "json option \<Rightarrow> EffectiveAuthConfig" where
  "authConfigOf raw =
     (let eff = \<lparr>ea_methods = [], ea_registration_mode = [], ea_password_strategy = [], ea_app_base_url = [],
                 ea_default_locale = [], ea_supported_locales = [], ea_member_invites_enabled = False,
                 ea_member_invites_default_cap = 0\<rparr> in
      case raw of
        None \<Rightarrow> eff
      | Some j \<Rightarrow>
          (case decode_lax auth_runtime_fields j
                  \<lparr>ac_methods = None, ac_registration = None, ac_member_invites = None, ac_app_base_url = None,
                   ac_default_locale = None, ac_supported_locales = None, ac_locales = None\<rparr> of
             None \<Rightarrow> eff
           | Some spec \<Rightarrow>
               \<lparr>ea_methods = elems (ac_methods spec),
                ea_registration_mode =
                  (case ac_registration spec of Some r \<Rightarrow> str_or_empty (ar_mode r) | None \<Rightarrow> []),
                ea_password_strategy =
                  (case ac_registration spec of Some r \<Rightarrow> str_or_empty (ar_password_strategy r) | None \<Rightarrow> []),
                ea_app_base_url = str_or_empty (ac_app_base_url spec),
                ea_default_locale = str_or_empty (ac_default_locale spec),
                ea_supported_locales =
                  (if elems (ac_supported_locales spec) \<noteq> [] then elems (ac_supported_locales spec)
                   else elems (ac_locales spec)),
                ea_member_invites_enabled =
                  (case ac_member_invites spec of Some m \<Rightarrow> override (am_enabled m) (\<lambda>_. True) id False | None \<Rightarrow> False),
                ea_member_invites_default_cap =
                  (case ac_member_invites spec of Some m \<Rightarrow> override (am_default_cap m) (\<lambda>_. True) id 0 | None \<Rightarrow> 0)\<rparr>))"

section \<open>The rate-limit rules of a project\<close>

definition enforceable :: "RateLimitRuleSpec \<Rightarrow> RateLimitRule option" where
  "enforceable r =
     (case (rr_endpoint r, rr_limit r, rr_window_seconds r, rr_by r) of
        (Some ep, Some limit, Some win, Some by_) \<Rightarrow>
          if by_ \<noteq> ''ip'' \<or> \<not> Has RateLimitEndpoints ep then None
          else Some \<lparr>ru_endpoint = ep, ru_limit = limit, ru_window = seconds win, ru_by = by_\<rparr>
      | _ \<Rightarrow> None)"

text \<open>\<open>doc\<close> is the stored row, read for the client id and the environment (\<open>live\<close> when the
  header is absent).\<close>

definition RateLimitRules ::
  "string \<Rightarrow> (string \<Rightarrow> string \<Rightarrow> json option) \<Rightarrow> string \<Rightarrow> string \<Rightarrow> RateLimitRule list res" where
  "RateLimitRules jerr doc clientID env =
     (if clientID = [] then Inr []
      else
        let env = (if env = [] then runtimeDefaultEnv else env) in
        case doc clientID env of
          None \<Rightarrow> Inr []
        | Some j \<Rightarrow> res_bind (ParseRateLimits jerr j) (\<lambda>spec. Inr (List.map_filter enforceable spec)))"

section \<open>The cache contract\<close>

definition doc_lookup :: "configReader \<Rightarrow> cacheKey \<Rightarrow> (json option \<times> instant) option" where
  "doc_lookup r k = map_option (\<lambda>e. (ce_raw e, ce_exp e)) (cr_entries r k)"

text \<open>A fail-open read always yields a document or its absence.\<close>

definition doc_read :: "instant \<Rightarrow> error + json option \<Rightarrow> cacheKey \<Rightarrow> configReader \<Rightarrow> json option \<times> configReader" where
  "doc_read now ans k r = map_prod (case_sum (\<lambda>_. None) id) id (load_entry False now ans k r)"

lemma load_entry_open: "load_entry False now ans k r = map_prod Inr id (doc_read now ans k r)"
  by (simp add: doc_read_def load_entry_def Let_def split: sum.splits)

interpretation config_cache: ttl_cache doc_lookup doc_read None cr_ttl staleEntryGrace
  by unfold_locales
     (auto simp: doc_lookup_def doc_read_def load_entry_def Let_def split: sum.splits option.splits)

section \<open>Properties\<close>

text \<open>C37: a configuration change reaches enforcement within the cache lifetime: if from \<open>T\<close> on the
  database answers every fetch of a (project, environment, key) with \<open>doc\<close>, every read of that key at
  \<open>T + 30s\<close> or later uses \<open>doc\<close>, whatever was read before \<open>T\<close>, successfully or not, and whatever is read for
  other keys. (A fetch that fails after \<open>T\<close> would serve the old document for five seconds more.)\<close>

theorem config_change_takes_effect:
  assumes "\<forall>(now, k', ans) \<in> set evs. k' = k \<longrightarrow> T \<le> now \<longrightarrow> ans = Inr doc"
    and "i < length evs" and "fst (snd (evs ! i)) = k" and "T + 30 * Second \<le> fst (evs ! i)"
  shows "fst (serve doc_read evs (NewConfigReader 0)) ! i = doc"
proof -
  let ?c = "NewConfigReader 0"
  have h: "max (cr_ttl ?c) staleEntryGrace = 30 * Second"
    by (simp add: NewConfigReader_def configReaderDefaultTTL_def staleEntryGrace_def time_units)
  have "settled doc_lookup (max (cr_ttl ?c) staleEntryGrace) k doc T ?c"
    by (simp add: settled_def doc_lookup_def NewConfigReader_def)
  from config_cache.serve_bounded_staleness [OF this _ assms(1)] assms(2-4) h show ?thesis
    by (simp add: time_units)
qed

theorem config_change_takes_effect_witness:
  "fst (serve doc_read [(0, (''p'', ''live'', ''auth''), Inl ErrInternal),
                        (40 * Second, (''p'', ''live'', ''auth''), Inr (Some JNull))] (NewConfigReader 0)) ! 1 = Some JNull"
proof -
  let ?evs = "[(0, (''p'', ''live'', ''auth''), Inl ErrInternal),
               (40 * Second, (''p'', ''live'', ''auth''), Inr (Some JNull))]
     :: (instant \<times> cacheKey \<times> (error + json option)) list"
  have "\<forall>(now, k', ans) \<in> set ?evs. k' = (''p'', ''live'', ''auth'') \<longrightarrow> 1 \<le> now \<longrightarrow> ans = Inr (Some JNull)"
    by simp
  from config_change_takes_effect [OF this, of 1] show ?thesis by (simp add: time_units)
qed

lemma order_ttls_ordered: "es_access_ttl (order_ttls p) < es_refresh_ttl (order_ttls p)"
  by (simp add: order_ttls_def Let_def coreAuthAccessTTL_def coreAuthRefreshTTL_def time_units)

lemma order_ttls_id: "es_access_ttl p < es_refresh_ttl p \<Longrightarrow> order_ttls p = p"
  by (simp add: order_ttls_def)

lemma order_ttls_other [simp]:
  "es_idle_timeout (order_ttls p) = es_idle_timeout p"
  "es_absolute_timeout (order_ttls p) = es_absolute_timeout p"
  "es_reuse_detection (order_ttls p) = es_reuse_detection p"
  "es_access_token_claims (order_ttls p) = es_access_token_claims p"
  by (simp_all add: order_ttls_def Let_def)

lemma override_simps [simp]:
  "override None ok f d = d" "override (Some x) ok f d = (if ok x then f x else d)"
  by (simp_all add: override_def)

lemma parseSessionPolicy_ordered: "es_access_ttl (parseSessionPolicy raw) < es_refresh_ttl (parseSessionPolicy raw)"
proof -
  have "es_access_ttl defaultSessionPolicy < es_refresh_ttl defaultSessionPolicy"
    by (simp add: defaultSessionPolicy_def coreAuthAccessTTL_def coreAuthRefreshTTL_def time_units)
  then show ?thesis
    by (simp add: parseSessionPolicy_def order_ttls_ordered split: option.split)
qed

text \<open>Whatever JSON is stored, the effective session policy has an access token that expires
  before its refresh token.\<close>

theorem session_policy_ordered:
  "es_access_ttl (parseSessionPolicy raw) < es_refresh_ttl (parseSessionPolicy raw)"
  by (rule parseSessionPolicy_ordered)

text \<open>A session_policy document that the write path accepts takes effect at run time exactly
  as written: each timeout and the reuse detection are the configured ones (zero or off when
  absent), and a configured access lifetime or pair of lifetimes is used to the second.\<close>

theorem session_policy_takes_effect:
  assumes "ValidateConfigDocument up jerr ''session_policy'' j = Inr ()"
  shows "\<exists>spec. ParseSessionPolicy jerr j = Inr spec
     \<and> es_idle_timeout (parseSessionPolicy (Some j)) = (case sp_idle_timeout spec of Some n \<Rightarrow> n * Second | None \<Rightarrow> 0)
     \<and> es_absolute_timeout (parseSessionPolicy (Some j)) = (case sp_absolute_timeout spec of Some n \<Rightarrow> n * Second | None \<Rightarrow> 0)
     \<and> es_reuse_detection (parseSessionPolicy (Some j)) = (sp_reuse_detection spec = Some True)
     \<and> (\<forall>a. sp_access_ttl spec = Some a \<longrightarrow> es_access_ttl (parseSessionPolicy (Some j)) = a * Second)
     \<and> (\<forall>r. sp_refresh_ttl spec = Some r \<longrightarrow> 600 < r \<or> sp_access_ttl spec \<noteq> None \<longrightarrow>
             es_refresh_ttl (parseSessionPolicy (Some j)) = r * Second)"
proof -
  obtain spec where p: "ParseSessionPolicy jerr j = Inr spec" and v: "validate_session_policy spec = Inr ()"
    using assms by (auto simp: ValidateConfigDocument_def res_simps)
  have lax: "decode_lax session_policy_fields j empty_session_policy = Some spec"
    using p by (auto simp: ParseSessionPolicy_def decode_lax_strict split: option.splits)
  note acc = v [unfolded validate_session_policy_accepts]
  note policy = parseSessionPolicy_def lax order_ttls_def Let_def coreAuthAccessTTL_def coreAuthRefreshTTL_def
  have sec: "seconds n = n * Second" if "0 < n" "n \<le> 31536000" for n
    using that seconds_exact [of n] by (simp add: Second_def)
  have "es_idle_timeout (parseSessionPolicy (Some j)) = (case sp_idle_timeout spec of Some n \<Rightarrow> n * Second | None \<Rightarrow> 0)"
    using acc by (auto simp: parseSessionPolicy_def lax sec split: option.splits)
  moreover have "es_absolute_timeout (parseSessionPolicy (Some j)) =
      (case sp_absolute_timeout spec of Some n \<Rightarrow> n * Second | None \<Rightarrow> 0)"
    using acc by (auto simp: parseSessionPolicy_def lax sec split: option.splits)
  moreover have "es_reuse_detection (parseSessionPolicy (Some j)) = (sp_reuse_detection spec = Some True)"
    by (cases "sp_reuse_detection spec") (auto simp: parseSessionPolicy_def lax)
  moreover have "\<forall>a. sp_access_ttl spec = Some a \<longrightarrow> es_access_ttl (parseSessionPolicy (Some j)) = a * Second"
    using acc by (cases "sp_refresh_ttl spec") (auto simp: policy sec time_units)
  moreover have "\<forall>r. sp_refresh_ttl spec = Some r \<longrightarrow> 600 < r \<or> sp_access_ttl spec \<noteq> None \<longrightarrow>
      es_refresh_ttl (parseSessionPolicy (Some j)) = r * Second"
    using acc by (cases "sp_access_ttl spec") (auto simp: policy sec time_units)
  ultimately show ?thesis using p by blast
qed

definition sample_session_doc :: json where
  "sample_session_doc = JObj [(''access_ttl'', JNum ''60''), (''refresh_ttl'', JNum ''120'')]"

theorem session_policy_takes_effect_witness:
  "\<exists>spec. ParseSessionPolicy [] sample_session_doc = Inr spec
     \<and> es_idle_timeout (parseSessionPolicy (Some sample_session_doc)) =
         (case sp_idle_timeout spec of Some n \<Rightarrow> n * Second | None \<Rightarrow> 0)
     \<and> (\<forall>r. sp_refresh_ttl spec = Some r \<longrightarrow> 600 < r \<or> sp_access_ttl spec \<noteq> None \<longrightarrow>
             es_refresh_ttl (parseSessionPolicy (Some sample_session_doc)) = r * Second)"
proof -
  have "ValidateConfigDocument (\<lambda>_. None) [] ''session_policy'' sample_session_doc = Inr ()"
    by code_simp
  from session_policy_takes_effect [OF this] show ?thesis by blast
qed

text \<open>The exception the property leaves: a refresh lifetime of at most ten minutes, written without
  an access lifetime, is accepted and then replaced by thirty days.\<close>

lemma short_refresh_ttl_discarded:
  "ValidateConfigDocument (\<lambda>_. None) [] ''session_policy'' (JObj [(''refresh_ttl'', JNum ''600'')]) = Inr ()"
  "es_refresh_ttl (parseSessionPolicy (Some (JObj [(''refresh_ttl'', JNum ''600'')]))) = 30 * 24 * Hour"
  by code_simp+

text \<open>C35: a rate_limits document that the write path accepts is enforced in full: reading it back
  yields one limiter rule per stored rule, in order, with its endpoint, its limit and its
  window, none of which the limiter would clamp.\<close>

theorem rate_limits_document_enforced:
  assumes "ValidateConfigDocument up jerr ''rate_limits'' j = Inr ()" and "doc pid env = Some j"
    and "pid \<noteq> []" and "env \<noteq> []"
  shows "\<exists>spec rules. ParseRateLimits jerr j = Inr spec \<and> RateLimitRules jerr doc pid env = Inr rules
     \<and> map (\<lambda>r. (Some (ru_endpoint r), Some (ru_limit r))) rules = map (\<lambda>s. (rr_endpoint s, rr_limit s)) spec
     \<and> map (\<lambda>r. Some (ru_window r)) rules = map (\<lambda>s. map_option (\<lambda>w. w * Second) (rr_window_seconds s)) spec
     \<and> list_all (\<lambda>r. 1 \<le> ru_limit r \<and> 0 < ru_window r) rules"
proof -
  obtain spec where p: "ParseRateLimits jerr j = Inr spec" and v: "validate_rate_limits spec = Inr ()"
    using assms(1) by (auto simp: ValidateConfigDocument_def res_simps)
  have one: "\<exists>r. enforceable s = Some r \<and> Some (ru_endpoint r) = rr_endpoint s \<and> Some (ru_limit r) = rr_limit s
      \<and> Some (ru_window r) = map_option (\<lambda>w. w * Second) (rr_window_seconds s) \<and> 1 \<le> ru_limit r \<and> 0 < ru_window r"
    if "rule_fits s" for s
    using that seconds_exact
    by (auto simp: rule_fits_def enforceable_def Has_def Second_def)
  have "\<forall>s \<in> set spec. rule_fits s" by (rule validate_rate_limits_sound(1) [OF v])
  then have "map (\<lambda>r. (Some (ru_endpoint r), Some (ru_limit r))) (List.map_filter enforceable spec)
       = map (\<lambda>s. (rr_endpoint s, rr_limit s)) spec
     \<and> map (\<lambda>r. Some (ru_window r)) (List.map_filter enforceable spec)
       = map (\<lambda>s. map_option (\<lambda>w. w * Second) (rr_window_seconds s)) spec
     \<and> list_all (\<lambda>r. 1 \<le> ru_limit r \<and> 0 < ru_window r) (List.map_filter enforceable spec)"
  proof (induction spec)
    case (Cons s spec)
    from Cons.prems obtain r where "enforceable s = Some r" "Some (ru_endpoint r) = rr_endpoint s"
      "Some (ru_limit r) = rr_limit s" "Some (ru_window r) = map_option (\<lambda>w. w * Second) (rr_window_seconds s)"
      "1 \<le> ru_limit r" "0 < ru_window r" using one [of s] by auto
    with Cons show ?case by (simp add: List.map_filter_simps)
  qed (simp add: List.map_filter_simps)
  with p assms(2-4) show ?thesis by (simp add: RateLimitRules_def)
qed

definition sample_rate_doc :: json where
  "sample_rate_doc = JObj [(''rules'', JArr [JObj [(''endpoint'', JStr ''/v1/auth/guest''), (''limit'', JNum ''3''),
     (''window_seconds'', JNum ''60''), (''by'', JStr ''ip'')]])]"

theorem rate_limits_document_enforced_witness:
  "\<exists>spec rules. ParseRateLimits [] sample_rate_doc = Inr spec
     \<and> RateLimitRules [] (\<lambda>_ _. Some sample_rate_doc) ''p'' ''live'' = Inr rules
     \<and> list_all (\<lambda>r. 1 \<le> ru_limit r \<and> 0 < ru_window r) rules"
proof -
  have "ValidateConfigDocument (\<lambda>_. None) [] ''rate_limits'' sample_rate_doc = Inr ()" by code_simp
  from rate_limits_document_enforced [OF this, of "\<lambda>_ _. Some sample_rate_doc" "''p''" "''live''"]
  show ?thesis by auto
qed

text \<open>Every endpoint a rate_limits document may name is one the middleware limits: any request
  to it other than a preflight is classified, so an accepted rule is never inert.\<close>

theorem rate_limit_endpoints_classified:
  assumes "rq_path r \<in> set RateLimitEndpoints" and "rq_method r \<noteq> ''OPTIONS''"
  shows "rateLimitForRequest r \<noteq> None"
proof -
  have "list_all (\<lambda>p. p = ''/v1/auth/guest'' \<or> isSensitiveRateLimitedPath p \<or> isAuthRateLimitedPath p) RateLimitEndpoints"
    by code_simp
  with assms show ?thesis
    by (auto simp: list_all_iff rateLimitForRequest_def Let_def)
qed

theorem rate_limit_endpoints_classified_witness:
  "rateLimitForRequest (plain_request ''POST'' ''/v1/auth/otp/verify'' [] [] []) \<noteq> None"
proof -
  have "''/v1/auth/otp/verify'' \<in> set RateLimitEndpoints" by code_simp
  then show ?thesis
    using rate_limit_endpoints_classified [of "plain_request ''POST'' ''/v1/auth/otp/verify'' [] [] []"]
    by (simp add: plain_request_def)
qed

text \<open>The converse fails for five classified paths: no document can set a rule for them.\<close>

lemma classified_paths_without_rules:
  "list_all (\<lambda>p. isSensitiveRateLimitedPath p \<and> \<not> Has RateLimitEndpoints p)
     [''/v1/auth/mfa/recovery-codes/verify'', ''/v1/auth/flows'', ''/v1/auth/session/step-up'',
      ''/v1/auth/impersonate/redeem'', ''/v1/auth/identities/merge/confirm'']"
  by code_simp

end
