(* ===== verification/Aggregates.thy ===== *)
theory Aggregates
  imports ConfigReader Http
begin

text \<open>
  The data of the runtime: the aggregates the program marshals into \<open>jsonb\<close> and encrypted columns
  (\<open>src/internal/domain\<close> and the envelope structs of \<open>src/internal/infrastructure/postgres\<close>), the rows
  of the tables the modelled operations read and write, and the database.

  A table is the list of its rows; a \<open>jsonb\<close> or encrypted envelope column is the record the program
  marshals into it, \<open>None\<close> when it does not decode. Two keys the program adds to an envelope in SQL are
  columns of their own: \<open>s_device_id\<close> (the \<open>device_id\<close> that \<open>jsonb_set\<close> writes into
  \<open>iam_sessions.data\<close>) and \<open>cr_grant_flow_id\<close> (\<open>grant_flow_id\<close> of \<open>iam_security_cases.data\<close>).
\<close>

section \<open>Aggregates\<close>

record AccountDeletion =
  ad_ok :: bool
  ad_request_id :: string
  ad_status :: string
  ad_requested_at :: "instant option"
  ad_delete_at :: "instant option"
  ad_cancelled_at :: "instant option"
  ad_grace_days :: int

record Account =
  acc_deletion :: "AccountDeletion option"
  acc_id :: string
  acc_project_id :: string
  acc_kind :: string
  acc_status :: string
  acc_primary_email :: string
  acc_email_verified :: bool
  acc_primary_phone :: string
  acc_phone_verified :: bool
  acc_name :: string
  acc_locale :: string
  acc_invite_cap :: "int option"
  acc_created_at :: instant
  acc_updated_at :: instant

record Session =
  se_id :: string
  se_account_id :: string
  se_project_id :: string
  se_client_id :: string
  se_amr :: "string list"
  se_aal :: int
  se_access_token :: string
  se_refresh_token :: string
  se_expires_in :: int
  se_refresh_expires_in :: int
  se_created_at :: instant
  se_device_name :: string
  se_ip :: string
  se_user_agent :: string
  se_fingerprint :: string
  se_trusted :: bool
  se_last_active_at :: instant

record Factor =
  fa_id :: string
  fa_type :: string
  fa_status :: string
  fa_hint :: string

record mfaChallengeData =
  md_factor_id :: string
  md_flow_token_hash :: string
  md_public_key :: "json option"
  md_session :: string
  md_attempts :: int

definition empty_mfa_challenge :: mfaChallengeData where
  "empty_mfa_challenge =
     \<lparr>md_factor_id = [], md_flow_token_hash = [], md_public_key = None, md_session = [], md_attempts = 0\<rparr>"

record coreAuthRefreshToken =
  rd_id :: string
  rd_project_id :: string
  rd_environment :: string
  rd_user_id :: string
  rd_session_id :: string
  rd_hash :: string
  rd_revoked :: bool
  rd_expires_at :: instant
  rd_created_at :: instant

record coreAuthCredential =
  pc_id :: string
  pc_project_id :: string
  pc_user_id :: string
  pc_type :: string
  pc_hash :: string
  pc_created_at :: instant
  pc_updated_at :: instant
  pc_failed_attempts :: int
  pc_locked_until :: instant

record coreAuthChallengeData =
  cg_id :: string
  cg_project_id :: string
  cg_environment :: string
  cg_type :: string
  cg_purpose :: string
  cg_account_id :: string
  cg_subject :: string
  cg_code_hash :: string
  cg_token_hash :: string
  cg_redirect_to :: string
  cg_locale :: string
  cg_channel :: string
  cg_expires_at :: instant
  cg_created_at :: instant

definition empty_challenge :: coreAuthChallengeData where
  "empty_challenge =
     \<lparr>cg_id = [], cg_project_id = [], cg_environment = [], cg_type = [], cg_purpose = [], cg_account_id = [], cg_subject = [],
      cg_code_hash = [], cg_token_hash = [], cg_redirect_to = [], cg_locale = [], cg_channel = [], cg_expires_at = zeroTime,
      cg_created_at = zeroTime\<rparr>"

record challengeEnvelope =
  ce_id :: string
  ce_project_id :: string
  ce_environment :: string
  ce_type :: string
  ce_channel :: string
  ce_purpose :: string
  ce_subject :: string
  ce_redirect_to :: string
  ce_locale :: string
  ce_code_hash :: string
  ce_expires_at :: instant
  ce_consumed :: bool
  ce_attempts :: int
  ce_created_at :: instant

text \<open>The \<open>data\<close> column of a challenge is a JSON object that three readers decode, each the keys it knows; an absent
  key reads as the zero value. The document holds every key: first those of \<open>coreAuthChallengeData\<close>, then
  those only \<open>challengeEnvelope\<close> and \<open>mfaChallengeData\<close> have.\<close>

record challenge_doc = coreAuthChallengeData +
  do_consumed :: bool
  do_attempts :: int
  do_factor_id :: string
  do_flow_token_hash :: string
  do_public_key :: "json option"
  do_session :: string

definition core_view :: "challenge_doc \<Rightarrow> coreAuthChallengeData" where
  "core_view v = coreAuthChallengeData.truncate v"

definition mfa_view :: "challenge_doc \<Rightarrow> mfaChallengeData" where
  "mfa_view v = \<lparr>md_factor_id = do_factor_id v, md_flow_token_hash = do_flow_token_hash v, md_public_key = do_public_key v,
     md_session = do_session v, md_attempts = do_attempts v\<rparr>"

definition env_view :: "challenge_doc \<Rightarrow> challengeEnvelope" where
  "env_view v = \<lparr>ce_id = cg_id v, ce_project_id = cg_project_id v, ce_environment = cg_environment v, ce_type = cg_type v,
     ce_channel = cg_channel v, ce_purpose = cg_purpose v, ce_subject = cg_subject v, ce_redirect_to = cg_redirect_to v,
     ce_locale = cg_locale v, ce_code_hash = cg_code_hash v, ce_expires_at = cg_expires_at v, ce_consumed = do_consumed v,
     ce_attempts = do_attempts v, ce_created_at = cg_created_at v\<rparr>"

text \<open>\<open>marshal\<close> of each of the three.\<close>

definition core_doc :: "coreAuthChallengeData \<Rightarrow> challenge_doc" where
  "core_doc ch = coreAuthChallengeData.extend ch
     \<lparr>do_consumed = False, do_attempts = 0, do_factor_id = [], do_flow_token_hash = [], do_public_key = None, do_session = []\<rparr>"

definition mfa_doc :: "mfaChallengeData \<Rightarrow> challenge_doc" where
  "mfa_doc v = coreAuthChallengeData.extend empty_challenge
     \<lparr>do_consumed = False, do_attempts = md_attempts v, do_factor_id = md_factor_id v, do_flow_token_hash = md_flow_token_hash v,
      do_public_key = md_public_key v, do_session = md_session v\<rparr>"

definition env_doc :: "challengeEnvelope \<Rightarrow> challenge_doc" where
  "env_doc e = coreAuthChallengeData.extend
     \<lparr>cg_id = ce_id e, cg_project_id = ce_project_id e, cg_environment = ce_environment e, cg_type = ce_type e, cg_purpose = ce_purpose e,
      cg_account_id = [], cg_subject = ce_subject e, cg_code_hash = ce_code_hash e, cg_token_hash = [],
      cg_redirect_to = ce_redirect_to e, cg_locale = ce_locale e, cg_channel = ce_channel e, cg_expires_at = ce_expires_at e,
      cg_created_at = ce_created_at e\<rparr>
     \<lparr>do_consumed = ce_consumed e, do_attempts = ce_attempts e, do_factor_id = [], do_flow_token_hash = [], do_public_key = None,
      do_session = []\<rparr>"

lemma views_of_docs [simp]:
  "core_view (core_doc ch) = ch" "mfa_view (mfa_doc v) = v" "env_view (env_doc e) = e"
  "do_attempts (core_doc ch) = 0" "do_attempts (mfa_doc v) = md_attempts v" "do_attempts (env_doc e) = ce_attempts e"
  "md_attempts (mfa_view w) = do_attempts w" "ce_attempts (env_view w) = do_attempts w"
  by (simp_all add: core_view_def core_doc_def mfa_view_def mfa_doc_def env_view_def env_doc_def
      coreAuthChallengeData.defs)

record coreAuthCodeData =
  co_id :: string
  co_project_id :: string
  co_user_id :: string
  co_client_id :: string
  co_code_hash :: string
  co_challenge_hash :: string
  co_expires_at :: instant
  co_created_at :: instant

record SecurityPolicy =
  sec_version :: int
  sec_mode :: string
  sec_continue_url :: string
  sec_client_urls :: "(string \<times> string) list"
  sec_notify :: bool
  sec_require_new_device_proof :: bool
  sec_flow_ttl_seconds :: int
  sec_trust_ttl_seconds :: int
  sec_retention_days :: int
  sec_failure_threshold :: int
  sec_failure_window_seconds :: int
  sec_notification_cooldown_seconds :: int

record SecurityDevice =
  sd_id :: string
  sd_name :: string
  sd_first_seen_at :: instant
  sd_last_seen_at :: instant
  sd_trusted_until :: "instant option"
  sd_revoked :: bool
  sd_current :: bool
  sd_session_ids :: "string list"

record SecurityEvent =
  sve_id :: string
  sve_type :: string
  sve_at :: instant
  sve_outcome :: string
  sve_session_id :: string
  sve_device_id :: string
  sve_ip :: string
  sve_user_agent :: string

record SecurityIncident =
  in_id :: string
  in_account_id :: string
  in_status :: string
  in_severity :: string
  in_reasons :: "string list"
  in_events :: "SecurityEvent list"
  in_session_id :: string
  in_device_id :: string
  in_created_at :: instant
  in_updated_at :: instant
  in_policy_version :: int
  in_revoked_session_ids :: "string list"
  in_resolution :: string

record SecurityCaseMessage =
  cm_at :: instant
  cm_author :: string
  cm_message :: string

record SecurityCase =
  cs_id :: string
  cs_account_id :: string
  cs_status :: string
  cs_contact_masked :: string
  cs_created_at :: instant
  cs_updated_at :: instant
  cs_messages :: "SecurityCaseMessage list"

record securityCasePrivate =
  cp_protected :: bool
  cp_all_sessions :: bool
  cp_target_session :: string
  cp_revoked_session_ids :: "string list"
  cp_contact :: string
  cp_identifier :: string

record SecurityDelivery =
  de_id :: string
  de_incident_id :: string
  de_case_id :: string
  de_channel :: string
  de_recipient_masked :: string
  de_status :: string
  de_attempts :: int
  de_last_error :: string
  de_created_at :: instant
  de_updated_at :: instant

record securityDeliveryPayload =
  dp_to :: string
  dp_template :: string
  dp_code :: string
  dp_continuation :: string
  dp_summary :: string
  dp_link :: string
  dp_locale :: string

record SecuritySession =
  sse_id :: string
  sse_name :: string

record SecurityProofFactor =
  spf_id :: string
  spf_type :: string
  spf_hint :: string

record SecurityFlowState =
  fs_deletion :: "AccountDeletion option"
  fs_sessions :: "SecuritySession list"
  fs_challenge :: "json option"
  fs_flow_token :: string
  fs_kind :: string
  fs_status :: string
  fs_step :: string
  fs_version :: int
  fs_next_actions :: "string list"
  fs_expires_at :: instant
  fs_incident :: "SecurityIncident option"
  fs_case :: "SecurityCase option"
  fs_contact_masked :: string
  fs_attempts_left :: int
  fs_resend_at :: "instant option"
  fs_factors :: "SecurityProofFactor list"
  fs_all_sessions :: bool
  fs_revoked_session_ids :: "string list"
  fs_outcome :: string
  fs_error_code :: string

record securityFlow =
  fw_contacts :: securityIncidentPrivate
  fw_recovery_phone :: string
  fw_target_device_id :: string
  fw_current_token :: string
  fw_previous_token_hash :: string
  fw_previous_input_hash :: string
  fw_previous_until :: instant
  fw_protected :: bool
  fw_factor_id :: string
  fw_factor_recipient :: string
  fw_webauthn_session :: "json option"
  fw_purpose :: string
  fw_id :: string
  fw_project_id :: string
  fw_environment :: string
  fw_account_id :: string
  fw_target_session :: string
  fw_recipient :: string
  fw_identifier :: string
  fw_case_id :: string
  fw_incident_id :: string
  fw_code_hash :: string
  fw_code_expires :: instant
  fw_cutoff :: instant
  fw_proved :: bool
  fw_support_grant :: bool
  fw_mfa_required :: bool
  fw_contact_verified :: bool
  fw_state :: SecurityFlowState

text \<open>The \<open>data\<close> column of a flow that another adapter wrote, decoded as \<open>securityFlow\<close>: no key is shared.\<close>

definition empty_flow_state :: SecurityFlowState where
  "empty_flow_state =
     \<lparr>fs_deletion = None, fs_sessions = [], fs_challenge = None, fs_flow_token = [], fs_kind = [], fs_status = [], fs_step = [],
      fs_version = 0, fs_next_actions = [], fs_expires_at = 0, fs_incident = None, fs_case = None, fs_contact_masked = [],
      fs_attempts_left = 0, fs_resend_at = None, fs_factors = [], fs_all_sessions = False, fs_revoked_session_ids = [],
      fs_outcome = [], fs_error_code = []\<rparr>"

definition empty_security_flow :: securityFlow where
  "empty_security_flow =
     \<lparr>fw_contacts = \<lparr>ip_email = [], ip_phone = [], ip_mfa_required = False\<rparr>, fw_recovery_phone = [], fw_target_device_id = [],
      fw_current_token = [], fw_previous_token_hash = [], fw_previous_input_hash = [], fw_previous_until = 0, fw_protected = False,
      fw_factor_id = [], fw_factor_recipient = [], fw_webauthn_session = None, fw_purpose = [], fw_id = [], fw_project_id = [],
      fw_environment = [], fw_account_id = [], fw_target_session = [], fw_recipient = [], fw_identifier = [], fw_case_id = [],
      fw_incident_id = [], fw_code_hash = [], fw_code_expires = 0, fw_cutoff = 0, fw_proved = False, fw_support_grant = False,
      fw_mfa_required = False, fw_contact_verified = False, fw_state = empty_flow_state\<rparr>"

text \<open>\<open>ac_code\<close> and \<open>ac_token\<close> are never marshalled.\<close>

record FlowActiveChallenge =
  ac_challenge_id :: string
  ac_channel :: string
  ac_expires_at :: instant
  ac_resend_at :: instant
  ac_attempts_left :: int
  ac_code :: string
  ac_token :: string
  ac_public_key :: "json option"
  ac_redirect_url :: string
  ac_provider :: string

text \<open>A reference to a consent document, key and version; an acceptance has the same fields.\<close>

type_synonym FlowConsentRef = "string \<times> string"

record flowData =
  fd_locale :: string
  fd_redirect_to :: string
  fd_email :: string
  fd_phone :: string
  fd_name :: string
  fd_has_password :: bool
  fd_active :: "FlowActiveChallenge option"
  fd_consents_required :: "FlowConsentRef list"
  fd_consents_accepted :: "FlowConsentRef list"
  fd_registration_mode :: string
  fd_password_strategy :: string
  fd_error :: "(string \<times> string) option"
  fd_method :: string
  fd_available_methods :: "string list"
  fd_cookie_mode :: bool

definition empty_flow_data :: flowData where
  "empty_flow_data =
     \<lparr>fd_locale = [], fd_redirect_to = [], fd_email = [], fd_phone = [], fd_name = [], fd_has_password = False, fd_active = None,
      fd_consents_required = [], fd_consents_accepted = [], fd_registration_mode = [], fd_password_strategy = [], fd_error = None,
      fd_method = [], fd_available_methods = [], fd_cookie_mode = False\<rparr>"

record AdminRiskRule =
  rk_id :: string
  rk_name :: string
  rk_signal :: string
  rk_condition :: string
  rk_action :: string
  rk_enabled :: bool

record OperatorAdminToken =
  ot_id :: string
  ot_project_id :: string
  ot_name :: string
  ot_scopes :: "string list"
  ot_created_at :: instant
  ot_expires_at :: instant
  ot_revoked :: bool

record ScimToken =
  st_id :: string
  st_project_id :: string
  st_connection_id :: string
  st_name :: string
  st_expires_at :: instant

record ServiceAccount =
  sv_id :: string
  sv_project_id :: string
  sv_name :: string
  sv_scopes :: "string list"
  sv_disabled :: bool

record saSecret =
  ss_secret_id :: string
  ss_client_id :: string
  ss_name :: string
  ss_hash :: string
  ss_created_at :: instant
  ss_expires_at :: "instant option"
  ss_revoked :: bool

record saEnvelope =
  sa_account :: ServiceAccount
  sa_secrets :: "saSecret list"

record APIKey =
  ky_id :: string
  ky_project_id :: string
  ky_name :: string
  ky_scopes :: "string list"
  ky_prefix :: string
  ky_disabled :: bool

record AppClient =
  app_id :: string
  app_project_id :: string
  app_name :: string
  app_type :: string
  app_environment :: string
  app_redirect_uris :: "string list"
  app_allowed_origins :: "string list"
  app_disabled :: bool
  app_post_logout_redirect_uris :: "string list"
  app_backchannel_logout_uri :: string
  app_scopes :: "string list"
  app_jwks :: string
  app_jwks_uri :: string
  app_registration_token_hash :: string
  app_token_endpoint_auth_method :: string
  app_token_profile_id :: string

datatype payload =
    PSession Session
  | PServiceAccount ServiceAccount
  | PAPIKey APIKey
  | PAccount Account
  | PChallenge coreAuthChallengeData
  | PFactor Factor
  | PFields "(string \<times> detail) list"

record Event =
  ev_id :: string
  ev_version :: int
  ev_type :: string
  ev_project_id :: string
  ev_environment :: string
  ev_aggregate_id :: string
  ev_occurred_at :: instant
  ev_payload :: payload

section \<open>Rows\<close>

record user_row =
  u_id :: string
  u_project_id :: string
  u_environment :: string
  u_kind :: string
  u_status :: string
  u_primary_email :: "string option"
  u_primary_phone :: "string option"
  u_created_at :: instant
  u_updated_at :: instant
  u_security_recovered_at :: "instant option"
  u_data :: "Account option"

record session_row =
  s_id :: string
  s_project_id :: string
  s_environment :: string
  s_user_id :: string
  s_client_id :: "string option"
  s_aal :: int
  s_trusted :: bool
  s_expires_at :: "instant option"
  s_created_at :: instant
  s_last_active_at :: instant
  s_device_id :: "string option"
  s_data :: "Session option"

record refresh_row =
  rt_id :: string
  rt_project_id :: string
  rt_environment :: string
  rt_user_id :: string
  rt_session_id :: string
  rt_hash :: string
  rt_revoked :: bool
  rt_expires_at :: "instant option"
  rt_created_at :: instant
  rt_data :: "coreAuthRefreshToken option"

record credential_row =
  k_id :: string
  k_project_id :: string
  k_environment :: string
  k_user_id :: string
  k_type :: string
  k_secret :: string
  k_updated_at :: instant
  k_data :: "coreAuthCredential option"

record challenge_row =
  ch_id :: string
  ch_project_id :: string
  ch_environment :: string
  ch_type :: string
  ch_subject :: "string option"
  ch_code_hash :: "string option"
  ch_expires_at :: instant
  ch_consumed :: bool
  ch_created_at :: instant
  ch_data :: "challenge_doc option"

definition core_data :: "challenge_row \<Rightarrow> coreAuthChallengeData option" where
  "core_data r = map_option core_view (ch_data r)"

definition mfa_data :: "challenge_row \<Rightarrow> mfaChallengeData option" where
  "mfa_data r = map_option mfa_view (ch_data r)"

definition env_data :: "challenge_row \<Rightarrow> challengeEnvelope option" where
  "env_data r = map_option env_view (ch_data r)"

lemma data_frame [simp]:
  "core_data (r\<lparr>ch_consumed := b\<rparr>) = core_data r" "mfa_data (r\<lparr>ch_consumed := b\<rparr>) = mfa_data r"
  "env_data (r\<lparr>ch_consumed := b\<rparr>) = env_data r"
  "mfa_data (r\<lparr>ch_data := Some (mfa_doc v)\<rparr>) = Some v" "mfa_data (r\<lparr>ch_data := Some (mfa_doc v), ch_consumed := b\<rparr>) = Some v"
  by (simp_all add: core_data_def mfa_data_def env_data_def)

record auth_code_row =
  code_id :: string
  code_project_id :: string
  code_hash :: string
  code_client_id :: "string option"
  code_user_id :: "string option"
  code_expires_at :: instant
  code_consumed :: bool
  code_data :: "coreAuthCodeData option"

record factor_row =
  f_id :: string
  f_project_id :: string
  f_environment :: string
  f_user_id :: string
  f_type :: string
  f_status :: string
  f_secret :: "string option"
  f_created_at :: instant
  f_data :: "Factor option"

record recovery_row =
  rc_id :: string
  rc_project_id :: string
  rc_environment :: string
  rc_user_id :: string
  rc_hash :: string
  rc_used :: bool
  rc_created_at :: instant

record provider_row =
  prov_id :: string
  prov_project_id :: string
  prov_kind :: string
  prov_provider :: string
  prov_enabled :: bool

record deletion_row =
  dl_project_id :: string
  dl_environment :: string
  dl_user_id :: string
  dl_status :: string
  dl_delete_at :: instant
  dl_data :: AccountDeletion

record guard_row =
  g_project_id :: string
  g_environment :: string
  g_user_id :: string
  g_created_at :: instant
  g_flow_id :: string

record device_row =
  dv_id :: string
  dv_project_id :: string
  dv_environment :: string
  dv_user_id :: string
  dv_token_hash :: string
  dv_data :: "SecurityDevice option"

record incident_row =
  ic_id :: string
  ic_project_id :: string
  ic_environment :: string
  ic_user_id :: string
  ic_status :: string
  ic_created_at :: instant
  ic_data :: "SecurityIncident option"
  ic_private_data :: "securityIncidentPrivate option"

record securityExchange =
  sx_key_hash :: string
  sx_token :: string
  sx_until :: instant

record continuation_row =
  cn_token_hash :: string
  cn_project_id :: string
  cn_environment :: string
  cn_user_id :: string
  cn_incident_id :: string
  cn_case_id :: string
  cn_purpose :: string
  cn_expires_at :: instant
  cn_consumed :: bool
  cn_exchange_data :: "securityExchange option"

record case_row =
  cr_id :: string
  cr_project_id :: string
  cr_environment :: string
  cr_user_id :: string
  cr_status :: string
  cr_created_at :: instant
  cr_grant_flow_id :: string
  cr_data :: "SecurityCase option"
  cr_private_data :: "securityCasePrivate option"

record delivery_row =
  dr_id :: string
  dr_project_id :: string
  dr_environment :: string
  dr_user_id :: string
  dr_dedup_key :: string
  dr_status :: string
  dr_created_at :: instant
  dr_data :: "SecurityDelivery option"
  dr_private_data :: "securityDeliveryPayload option"

record attempt_row =
  tr_project_id :: string
  tr_environment :: string
  tr_subject_hash :: string
  tr_kind :: string
  tr_window_start :: instant
  tr_attempts :: int

text \<open>\<open>fl_payload\<close> and \<open>fl_auth\<close> are the \<open>data\<close> column as its two readers decode it.\<close>

record flow_row =
  fl_id :: string
  fl_project_id :: string
  fl_environment :: string
  fl_token_hash :: string
  fl_kind :: string
  fl_status :: string
  fl_step :: string
  fl_user_id :: string
  fl_expires_at :: instant
  fl_previous_token_hash :: string
  fl_payload :: "securityFlow option"
  fl_auth :: "flowData option"

record audit_row =
  au_id :: string
  au_project_id :: string
  au_type :: string
  au_actor_id :: "string option"
  au_target_id :: "string option"
  au_at :: instant
  au_actor_kind :: principal_kind

record signing_key_row =
  sk_kid :: string
  sk_project_id :: string
  sk_environment :: string
  sk_status :: string
  sk_private_pem :: "string option"

record admin_token_row =
  at_id :: string
  at_project_id :: string
  at_hash :: string
  at_expires_at :: "instant option"
  at_data :: "OperatorAdminToken option"

record api_key_row =
  ak_id :: string
  ak_project_id :: string
  ak_prefix :: string
  ak_hash :: string
  ak_disabled :: bool
  ak_expires_at :: "instant option"
  ak_created_at :: instant
  ak_data :: "APIKey option"

record scim_token_row =
  sc_id :: string
  sc_project_id :: string
  sc_connection_id :: string
  sc_hash :: string
  sc_data :: "ScimToken option"

record app_client_row =
  ap_id :: string
  ap_project_id :: string
  ap_environment :: string
  ap_data :: "AppClient option"

record app_secret_row =
  as_id :: string
  as_project_id :: string
  as_app_id :: string
  as_hash :: string

record service_account_row =
  sr_id :: string
  sr_project_id :: string
  sr_name :: string
  sr_disabled :: bool
  sr_created_at :: instant
  sr_updated_at :: instant
  sr_data :: "saEnvelope option"

record risk_event =
  re_project_id :: string
  re_environment :: string
  re_account_id :: string
  re_rule :: string
  re_signal :: string
  re_action :: string

record consent_row =
  ct_id :: string
  ct_project_id :: string
  ct_environment :: string
  ct_user_id :: string
  ct_doc_key :: string
  ct_version :: string
  ct_locale :: "string option"
  ct_accepted_at :: instant

record invite_row =
  iv_id :: string
  iv_project_id :: string
  iv_environment :: string
  iv_email :: "string option"
  iv_token_hash :: string
  iv_status :: string
  iv_expires_at :: "instant option"
  iv_accepted_at :: "instant option"

record access_request_row =
  ar_id :: string
  ar_project_id :: string
  ar_environment :: string
  ar_email :: string
  ar_status :: string

record block_row =
  bl_id :: string
  bl_project_id :: string
  bl_subject :: string
  bl_expires_at :: "instant option"

record db =
  db_users :: "user_row list"
  db_sessions :: "session_row list"
  db_refresh :: "refresh_row list"
  db_credentials :: "credential_row list"
  db_challenges :: "challenge_row list"
  db_codes :: "auth_code_row list"
  db_factors :: "factor_row list"
  db_recovery :: "recovery_row list"
  db_providers :: "provider_row list"
  db_config :: "cacheKey \<rightharpoonup> json"
  db_envs :: "(string \<times> string) list"
  db_roles :: "(string \<times> string \<times> string \<times> string) list"
  db_guards :: "guard_row list"
  db_deletions :: "deletion_row list"
  db_devices :: "device_row list"
  db_incidents :: "incident_row list"
  db_continuations :: "continuation_row list"
  db_cases :: "case_row list"
  db_deliveries :: "delivery_row list"
  db_attempts :: "attempt_row list"
  db_flows :: "flow_row list"
  db_audit :: "audit_row list"
  db_consents :: "consent_row list"
  db_invites :: "invite_row list"
  db_access_requests :: "access_request_row list"
  db_blocks :: "block_row list"
  db_policies :: "(string \<times> string) \<rightharpoonup> SecurityPolicy option"
  db_keys :: "signing_key_row list"
  db_denied :: "(string \<times> instant) list"
  db_admin_tokens :: "admin_token_row list"
  db_api_keys :: "api_key_row list"
  db_scim_tokens :: "scim_token_row list"
  db_apps :: "app_client_row list"
  db_app_secrets :: "app_secret_row list"
  db_service_accounts :: "service_account_row list"
  db_risk_rules :: "(string \<times> AdminRiskRule) list"
  db_risk_events :: "risk_event list"
  db_outbox :: "Event list"

definition empty_db :: db where
  "empty_db =
     \<lparr>db_users = [], db_sessions = [], db_refresh = [], db_credentials = [], db_challenges = [],
      db_codes = [], db_factors = [], db_recovery = [], db_providers = [], db_config = Map.empty, db_envs = [], db_roles = [], db_guards = [],
      db_deletions = [], db_devices = [], db_incidents = [], db_continuations = [],
      db_cases = [], db_deliveries = [], db_attempts = [], db_flows = [], db_audit = [],
      db_consents = [], db_invites = [], db_access_requests = [], db_blocks = [], db_policies = Map.empty, db_keys = [], db_denied = [],
      db_admin_tokens = [], db_api_keys = [], db_scim_tokens = [], db_apps = [], db_app_secrets = [],
      db_service_accounts = [],
      db_risk_rules = [], db_risk_events = [], db_outbox = []\<rparr>"

end
