(* ===== verification/Store.thy ===== *)
theory Store
  imports Aggregates "HOL-Library.List_Lexorder" "HOL-Library.Char_ord"
begin

text \<open>
  The persistence layer the runtime works on (\<open>src/internal/infrastructure/postgres\<close>): transactions
  (\<open>tx.go\<close>), the outbox and audit emitters (\<open>emitter.go\<close>, \<open>audit_emitter.go\<close>), environment resolution (\<open>envscope.go\<close>, \<open>signenv.go\<close>), the config accessors on
  top of the document cache (\<open>config_reader.go\<close>) and the token signer (\<open>signer.go\<close>).

  Every transaction is serializable, so a run of the
  server is a sequence of transactions. Cryptography and randomness are the \<open>sys\<close> argument of the
  operations. Loss of the database connection is not modelled.
\<close>

section \<open>Transactions\<close>

text \<open>Statements issued on the connection pool from inside a transaction commit at once and
  survive its rollback; the transaction's own snapshot does not see them.\<close>

datatype pool_write =
    PoolCredential string coreAuthCredential instant
  | PoolRiskEvent risk_event
  | PoolChallenge string mfaChallengeData bool
  | PoolTx "db \<Rightarrow> db"

fun apply_pool_write :: "pool_write \<Rightarrow> db \<Rightarrow> db" where
  "apply_pool_write (PoolCredential cid data t) d =
     d\<lparr>db_credentials :=
         update_where (\<lambda>k. k_id k = cid) (\<lambda>k. k\<lparr>k_data := Some data, k_updated_at := t\<rparr>) (db_credentials d)\<rparr>"
| "apply_pool_write (PoolRiskEvent e) d = d\<lparr>db_risk_events := db_risk_events d @ [e]\<rparr>"
| "apply_pool_write (PoolChallenge cid data spent) d =
     d\<lparr>db_challenges := update_where (\<lambda>r. ch_id r = cid)
         (\<lambda>r. r\<lparr>ch_data := Some (mfa_doc data), ch_consumed := spent \<or> ch_consumed r\<rparr>) (db_challenges d)\<rparr>"
| "apply_pool_write (PoolTx f) d = f d"

definition apply_pool :: "pool_write list \<Rightarrow> db \<Rightarrow> db" where
  "apply_pool ws d = fold apply_pool_write ws d"

text \<open>The state of the process inside a transaction: its view of the database, the pool writes so
  far, the shared config cache and the authenticator's own (process memory, not rolled back) and
  the number of random draws.\<close>

record txs =
  tx_db :: db
  tx_pool :: "pool_write list"
  tx_cfg :: configReader
  tx_auth_cfg :: configReader
  tx_draws :: nat

type_synonym 'a tx = "txs \<Rightarrow> 'a res \<times> txs"

definition ret :: "'a \<Rightarrow> 'a tx" where "ret x s = (Inr x, s)"
definition throw :: "error \<Rightarrow> 'a tx" where "throw e s = (Inl e, s)"

definition tx_bind :: "'a tx \<Rightarrow> ('a \<Rightarrow> 'b tx) \<Rightarrow> 'b tx" where
  "tx_bind m f s = (case m s of (Inl e, s') \<Rightarrow> (Inl e, s') | (Inr x, s') \<Rightarrow> f x s')"

text \<open>A call whose error the caller inspects.\<close>

definition tx_handle :: "'a tx \<Rightarrow> (error \<Rightarrow> 'b tx) \<Rightarrow> ('a \<Rightarrow> 'b tx) \<Rightarrow> 'b tx" where
  "tx_handle m h f s = (case m s of (Inl e, s') \<Rightarrow> h e s' | (Inr x, s') \<Rightarrow> f x s')"

definition lift_res :: "'a res \<Rightarrow> 'a tx" where "lift_res r s = (r, s)"
definition query :: "(db \<Rightarrow> 'a) \<Rightarrow> 'a tx" where "query q s = (Inr (q (tx_db s)), s)"
definition exec :: "(db \<Rightarrow> db) \<Rightarrow> unit tx" where "exec f s = (Inr (), s\<lparr>tx_db := f (tx_db s)\<rparr>)"
definition pool_exec :: "pool_write \<Rightarrow> unit tx" where
  "pool_exec w s = (Inr (), s\<lparr>tx_pool := tx_pool s @ [w]\<rparr>)"

text \<open>\<open>isUniqueViolation\<close> on an insert maps to a conflict.\<close>

definition insert_unique ::
  "(db \<Rightarrow> 'r list) \<Rightarrow> (('r list \<Rightarrow> 'r list) \<Rightarrow> db \<Rightarrow> db) \<Rightarrow> ('r \<Rightarrow> 'r \<Rightarrow> bool) \<Rightarrow> 'r \<Rightarrow> error \<Rightarrow> unit tx" where
  "insert_unique get upd clash r e =
     tx_bind (query get) (\<lambda>rows. if list_ex (clash r) rows then throw e else exec (upd (\<lambda>rs. rs @ [r])))"

text \<open>\<open>withTx\<close>: commit on success, roll back on an error; the pool writes stay either way.\<close>

definition withTx :: "'a tx \<Rightarrow> 'a tx" where
  "withTx m s =
     (case m (s\<lparr>tx_pool := []\<rparr>) of
        (Inr x, s') \<Rightarrow> (Inr x, s'\<lparr>tx_db := apply_pool (tx_pool s') (tx_db s'), tx_pool := tx_pool s\<rparr>)
      | (Inl e, s') \<Rightarrow> (Inl e, s'\<lparr>tx_db := apply_pool (tx_pool s') (tx_db s), tx_pool := tx_pool s\<rparr>))"

text \<open>A transaction of its own begun inside another (\<open>db.withTx\<close> on a fresh context): it commits
  even when the enclosing one rolls back. What it writes is computed on the database it commits to.\<close>

definition independent :: "'a tx \<Rightarrow> 'a tx" where
  "independent m s =
     (case m s of
        (Inl e, s') \<Rightarrow> (Inl e, s'\<lparr>tx_db := tx_db s, tx_pool := tx_pool s\<rparr>)
      | (Inr x, s') \<Rightarrow>
          (Inr x, s'\<lparr>tx_db := tx_db s,
                     tx_pool := tx_pool s @
                       [PoolTx (\<lambda>d. case m (s\<lparr>tx_db := d\<rparr>) of (Inr _, t) \<Rightarrow> tx_db t | (Inl _, _) \<Rightarrow> d)]\<rparr>))"

text \<open>\<open>unmarshal(row.Data, &v)\<close>: an error that is no domain sentinel when the envelope is broken.\<close>

definition unmarshal :: "'a option \<Rightarrow> 'a tx" where
  "unmarshal v = (case v of Some x \<Rightarrow> ret x | None \<Rightarrow> throw (WithMessage ''unmarshal'' ErrInternal))"

text \<open>\<open>INSERT\<close> of a row whose primary key must be new.\<close>

definition insert_row :: "(db \<Rightarrow> 'r list) \<Rightarrow> (('r list \<Rightarrow> 'r list) \<Rightarrow> db \<Rightarrow> db) \<Rightarrow> ('r \<Rightarrow> string) \<Rightarrow> 'r \<Rightarrow> unit tx" where
  "insert_row get upd key r =
     tx_bind (query get) (\<lambda>rows.
       if key r \<in> set (map key rows) then throw (WithMessage ''duplicate key'' ErrInternal)
       else exec (upd (\<lambda>rs. rs @ [r])))"

section \<open>The library code the program calls\<close>

text \<open>A claim as \<open>tokenClaims\<close> renders it: a number stands for the integer it is read as; an array is
  \<open>CStrs\<close> when every element is a string, else \<open>CAnys\<close>, with \<open>None\<close> for the other elements.\<close>

datatype claim = CStr string | CInt int | CStrs "string list" | CAnys "string option list" | CTime instant

type_synonym claims = "(string \<times> claim) list"

text \<open>\<open>sy_uuid\<close>, \<open>sy_token\<close>, \<open>sy_url_token k\<close> and \<open>sy_word\<close> are the \<open>n\<close>-th draws of \<open>uuid.NewString\<close>, of a
  hex-encoded random token, of \<open>k\<close> random bytes in URL-safe base64 and of four random bytes. \<open>sy_load_key\<close> decrypts and parses a stored private key,
  \<open>sy_new_key\<close> generates, encodes and encrypts one. \<open>sy_jwt_verify\<close> checks signature and validity
  at an instant against (kid, key) pairs. \<open>sy_bcrypt_hash n\<close> is \<open>bcrypt.GenerateFromPassword\<close> with the \<open>n\<close>-th salt.
  \<open>sy_digit n\<close> is the \<open>n\<close>-th draw of \<open>rand.Int\<close> below ten.
  \<open>sy_hex_token k n\<close> is the \<open>n\<close>-th draw of \<open>k\<close> random bytes in hex, \<open>sy_totp_key n label\<close> the \<open>n\<close>-th secret and otpauth URL of
  \<open>totp.Generate\<close>, and \<open>sy_totp_ok t code secret\<close> is \<open>totp.Validate\<close> at the instant \<open>t\<close>.
  \<open>sy_fold\<close> is Unicode case folding, \<open>sy_lower\<close>, \<open>sy_upper\<close>, \<open>sy_is_lower\<close>, \<open>sy_is_upper\<close> and \<open>sy_is_digit\<close> are the
  tables of \<open>unicode\<close> outside ASCII, \<open>sy_parse_url\<close> is
  \<open>url.Parse\<close>, \<open>sy_link\<close> renders a URL with a fragment set and \<open>sy_rfc3339\<close> formats an instant.\<close>

record security_url = url +
  url_user :: bool
  url_fragment :: string
  url_raw_query :: string
  url_hostname :: string

record sys =
  sy_sha256 :: "string \<Rightarrow> string"
  sy_bcrypt_ok :: "string \<Rightarrow> string \<Rightarrow> bool"
  sy_bcrypt_hash :: "nat \<Rightarrow> string \<Rightarrow> string res"
  sy_uuid :: "nat \<Rightarrow> string"
  sy_token :: "nat \<Rightarrow> string"
  sy_url_token :: "nat \<Rightarrow> nat \<Rightarrow> string"
  sy_word :: "nat \<Rightarrow> 32 word"
  sy_digit :: "nat \<Rightarrow> nat"
  sy_load_key :: "string \<Rightarrow> string res"
  sy_new_key :: "nat \<Rightarrow> string"
  sy_jwt_sign :: "string \<Rightarrow> string \<Rightarrow> claims \<Rightarrow> string res"
  sy_jwt_verify :: "(string \<times> string) list \<Rightarrow> instant \<Rightarrow> string \<Rightarrow> claims option"
  sy_jwt_peek :: "string \<Rightarrow> claims option"
  sy_fold :: "string \<Rightarrow> string"
  sy_lower :: "rune \<Rightarrow> rune"
  sy_upper :: "rune \<Rightarrow> rune"
  sy_is_lower :: "rune \<Rightarrow> bool"
  sy_is_upper :: "rune \<Rightarrow> bool"
  sy_is_digit :: "rune \<Rightarrow> bool"
  sy_hex_token :: "nat \<Rightarrow> nat \<Rightarrow> string"
  sy_totp_key :: "nat \<Rightarrow> string \<Rightarrow> (string \<times> string) res"
  sy_totp_ok :: "instant \<Rightarrow> string \<Rightarrow> string \<Rightarrow> bool"
  sy_public_url :: string
  sy_parse_url :: "string \<Rightarrow> security_url option"
  sy_link :: "string \<Rightarrow> string \<Rightarrow> string"
  sy_rfc3339 :: "instant \<Rightarrow> string"

definition draw :: "(nat \<Rightarrow> 'a) \<Rightarrow> 'a tx" where
  "draw f s = (Inr (f (tx_draws s)), s\<lparr>tx_draws := tx_draws s + 1\<rparr>)"

definition newUUID :: "sys \<Rightarrow> string tx" where "newUUID sy = draw (sy_uuid sy)"
definition coreAuthRandomToken :: "sys \<Rightarrow> string tx" where "coreAuthRandomToken sy = draw (sy_token sy)"
definition coreAuthSHA256 :: "sys \<Rightarrow> string \<Rightarrow> string" where "coreAuthSHA256 sy t = sy_sha256 sy t"

section \<open>Events\<close>

text \<open>\<open>outboxEmitter.Emit\<close>: the message joins the caller's transaction.\<close>

definition outbox_Emit :: "sys \<Rightarrow> ctx \<Rightarrow> string \<Rightarrow> string \<Rightarrow> string \<Rightarrow> string \<Rightarrow> payload \<Rightarrow> unit tx" where
  "outbox_Emit sy c typ projectID env aggregateID p =
     tx_bind (newUUID sy) (\<lambda>i.
       exec (\<lambda>d. d\<lparr>db_outbox := db_outbox d @
         [\<lparr>ev_id = i, ev_version = 1, ev_type = typ, ev_project_id = projectID, ev_environment = env,
           ev_aggregate_id = aggregateID, ev_occurred_at = cx_now c, ev_payload = p\<rparr>]\<rparr>))"

text \<open>\<open>auditingEmitter.Emit\<close>: an event of a privileged actor is also recorded in the audit log.\<close>

definition nullIfEmpty :: "string \<Rightarrow> string option" where
  "nullIfEmpty s = (if s = [] then None else Some s)"

definition auditableActor :: "principal_kind \<Rightarrow> bool" where
  "auditableActor k \<longleftrightarrow> k \<in> {PrincipalAdmin, PrincipalOperator, PrincipalService, PrincipalSCIM}"

definition auditActorID :: "principal \<Rightarrow> string" where
  "auditActorID p = (if pr_account_id p \<noteq> [] then pr_account_id p else principal_kind_name (pr_kind p))"

definition audit_record :: "sys \<Rightarrow> ctx \<Rightarrow> string \<Rightarrow> string \<Rightarrow> string \<Rightarrow> string \<Rightarrow> principal_kind \<Rightarrow> unit tx" where
  "audit_record sy c projectID typ actorID targetID kind =
     tx_bind (newUUID sy) (\<lambda>i.
       exec (db_audit_update (\<lambda>rs. rs @
         [\<lparr>au_id = i, au_project_id = projectID, au_type = typ, au_actor_id = nullIfEmpty actorID,
           au_target_id = nullIfEmpty targetID, au_at = cx_now c, au_actor_kind = kind\<rparr>])))"

definition audit_Emit :: "sys \<Rightarrow> ctx \<Rightarrow> string \<Rightarrow> string \<Rightarrow> string \<Rightarrow> string \<Rightarrow> payload \<Rightarrow> unit tx" where
  "audit_Emit sy c typ projectID env aggregateID p =
     tx_bind (case cx_principal c of
                Some pr \<Rightarrow>
                  if auditableActor (pr_kind pr) \<and> projectID \<noteq> []
                  then audit_record sy c projectID typ (auditActorID pr) aggregateID (pr_kind pr) else ret ()
              | None \<Rightarrow> ret ()) (\<lambda>_.
       outbox_Emit sy c typ projectID env aggregateID p)"

section \<open>Environments\<close>

definition unknown_env :: "string \<Rightarrow> error" where
  "unknown_env env = WithMessage (''unknown environment: '' @ env) ErrBadRequest"

definition requested_env :: "ctx \<Rightarrow> string \<Rightarrow> string \<Rightarrow> string tx" where
  "requested_env c projectID fallback =
     (let env = cx_env c in
      if env = [] \<or> env = fallback then ret fallback
      else tx_bind (query db_envs) (\<lambda>envs.
             if (projectID, env) \<notin> set envs then throw (unknown_env env) else ret env))"

definition effectiveEnv :: "sys \<Rightarrow> ctx \<Rightarrow> string \<Rightarrow> string tx" where
  "effectiveEnv sy c projectID =
     (case cx_principal c of
        Some p \<Rightarrow>
          if pr_environment p \<noteq> [] then
            (if cx_env c \<noteq> [] \<and> sy_fold sy (cx_env c) \<noteq> sy_fold sy (pr_environment p)
             then throw (WithMessage ''environment mismatch: token is scoped to a different environment'' ErrForbidden)
             else ret (pr_environment p))
          else requested_env c projectID runtimeDefaultEnv
      | None \<Rightarrow> requested_env c projectID runtimeDefaultEnv)"

definition resolveSignEnv :: "ctx \<Rightarrow> string \<Rightarrow> string \<Rightarrow> string tx" where
  "resolveSignEnv c projectID fallback = requested_env c projectID fallback"

section \<open>Config accessors\<close>

definition rawDocForEnv :: "ctx \<Rightarrow> bool \<Rightarrow> string \<Rightarrow> string \<Rightarrow> string \<Rightarrow> json option tx" where
  "rawDocForEnv c failClosed projectID env key s =
     (let e = (if env = [] then runtimeDefaultEnv else env);
          (r, cfg) = loadDoc (cx_now c) (Inr (db_config (tx_db s) (projectID, e, key))) projectID env key failClosed (tx_cfg s) in
      (r, s\<lparr>tx_cfg := cfg\<rparr>))"

definition rawDoc :: "sys \<Rightarrow> ctx \<Rightarrow> string \<Rightarrow> string \<Rightarrow> json option tx" where
  "rawDoc sy c projectID key = tx_bind (effectiveEnv sy c projectID) (\<lambda>env. rawDocForEnv c False projectID env key)"

definition rawDocStrict :: "sys \<Rightarrow> ctx \<Rightarrow> string \<Rightarrow> string \<Rightarrow> json option tx" where
  "rawDocStrict sy c projectID key = tx_bind (effectiveEnv sy c projectID) (\<lambda>env. rawDocForEnv c True projectID env key)"

definition PasswordPolicy :: "sys \<Rightarrow> ctx \<Rightarrow> string \<Rightarrow> EffectivePasswordPolicy tx" where
  "PasswordPolicy sy c projectID = tx_bind (rawDoc sy c projectID ''password_policy'') (\<lambda>raw. ret (passwordPolicyOf raw))"

definition SessionPolicy :: "sys \<Rightarrow> ctx \<Rightarrow> string \<Rightarrow> EffectiveSessionPolicy tx" where
  "SessionPolicy sy c projectID = tx_bind (rawDoc sy c projectID ''session_policy'') (\<lambda>raw. ret (parseSessionPolicy raw))"

definition SessionPolicyForEnv :: "ctx \<Rightarrow> string \<Rightarrow> string \<Rightarrow> EffectiveSessionPolicy tx" where
  "SessionPolicyForEnv c projectID env =
     tx_bind (rawDocForEnv c False projectID env ''session_policy'') (\<lambda>raw. ret (parseSessionPolicy raw))"

definition MFAPolicy :: "sys \<Rightarrow> ctx \<Rightarrow> string \<Rightarrow> EffectiveMFAPolicy tx" where
  "MFAPolicy sy c projectID = tx_bind (rawDoc sy c projectID ''mfa_policy'') (\<lambda>raw. ret (mfaPolicyOf raw))"

definition ConsentConfig :: "sys \<Rightarrow> ctx \<Rightarrow> string \<Rightarrow> ConsentDocumentSpec list tx" where
  "ConsentConfig sy c projectID = tx_bind (rawDocStrict sy c projectID ''consent'') (\<lambda>raw. ret (consentDocumentsOf raw))"

definition AuthConfig :: "sys \<Rightarrow> ctx \<Rightarrow> string \<Rightarrow> EffectiveAuthConfig tx" where
  "AuthConfig sy c projectID = tx_bind (rawDoc sy c projectID ''auth'') (\<lambda>raw. ret (authConfigOf raw))"

text \<open>\<open>mfaLoadPolicy\<close> reads the row itself, uncached, and refuses a document that does not decode.\<close>

definition mfaLoadPolicy :: "sys \<Rightarrow> ctx \<Rightarrow> string \<Rightarrow> MFAPolicySpec tx" where
  "mfaLoadPolicy sy c projectID =
     tx_bind (effectiveEnv sy c projectID) (\<lambda>env.
     tx_bind (query (\<lambda>d. db_config d (projectID, env, ''mfa_policy''))) (\<lambda>row.
       case row of
         None \<Rightarrow> ret empty_mfa_policy
       | Some j \<Rightarrow> unmarshal (decode_lax mfa_policy_fields j empty_mfa_policy)))"

definition mfaGateEnroll :: "sys \<Rightarrow> ctx \<Rightarrow> string \<Rightarrow> string \<Rightarrow> unit tx" where
  "mfaGateEnroll sy c projectID dbFactorType =
     tx_bind (mfaLoadPolicy sy c projectID) (\<lambda>pol.
       if \<not> FactorAllowed pol dbFactorType
       then throw (WithMessage (''MFA factor '' @ MFAPolicyFactorName dbFactorType @ '' is not permitted by policy'')
                     ErrMFAFactorNotAllowed)
       else ret ())"

section \<open>Roles\<close>

definition userRoles :: "string \<Rightarrow> string \<Rightarrow> string \<Rightarrow> string list tx" where
  "userRoles projectID env userID =
     (if projectID = [] \<or> userID = [] then ret []
      else query (\<lambda>d. sort (map (\<lambda>(_, _, _, r). r)
             (filter (\<lambda>(p, e, u, _). p = projectID \<and> e = env \<and> u = userID) (db_roles d)))))"

section \<open>The signer\<close>

definition keysFor :: "string \<Rightarrow> string \<Rightarrow> signing_key_row list tx" where
  "keysFor projectID env =
     query (\<lambda>d. filter (\<lambda>k. sk_project_id k = projectID \<and> sk_environment k = env) (db_keys d))"

text \<open>The loop of \<open>activeKey\<close>: the first active key with a private half, or its load error.\<close>

fun first_active :: "sys \<Rightarrow> signing_key_row list \<Rightarrow> (string \<times> string) option res" where
  "first_active sy [] = Inr None"
| "first_active sy (k # ks) =
     (if sk_status k \<noteq> ''active'' then first_active sy ks
      else (case sk_private_pem k of
              Some pem \<Rightarrow>
                if pem = [] then first_active sy ks
                else res_bind (sy_load_key sy pem) (\<lambda>priv. Inr (Some (sk_kid k, priv)))
            | None \<Rightarrow> first_active sy ks))"

definition activeKey :: "sys \<Rightarrow> string \<Rightarrow> string \<Rightarrow> (string \<times> string) tx" where
  "activeKey sy projectID env =
     tx_bind (keysFor projectID env) (\<lambda>rows.
     tx_bind (lift_res (first_active sy rows)) (\<lambda>found.
       case found of
         Some kp \<Rightarrow> ret kp
       | None \<Rightarrow>
           tx_bind (draw (sy_new_key sy)) (\<lambda>pem.
           tx_bind (lift_res (sy_load_key sy pem)) (\<lambda>priv.
           tx_bind (newUUID sy) (\<lambda>kid.
           tx_bind (insert_row db_keys db_keys_update sk_kid
                      \<lparr>sk_kid = kid, sk_project_id = projectID, sk_environment = env, sk_status = ''active'',
                       sk_private_pem = Some pem\<rparr>) (\<lambda>_.
             ret (kid, priv)))))))"

definition Sign :: "sys \<Rightarrow> ctx \<Rightarrow> string \<Rightarrow> string \<Rightarrow> claims \<Rightarrow> duration \<Rightarrow> string tx" where
  "Sign sy c projectID env cl ttl =
     tx_bind (activeKey sy projectID env) (\<lambda>(kid, priv).
       lift_res (sy_jwt_sign sy kid priv
         (cl @ [(''iat'', CTime (cx_now c)), (''exp'', CTime (cx_now c + ttl)), (''nbf'', CTime (cx_now c))])))"

text \<open>The verification set: every key that is not retired and loads.\<close>

definition publicSet :: "sys \<Rightarrow> string \<Rightarrow> string \<Rightarrow> (string \<times> string) list tx" where
  "publicSet sy projectID env =
     tx_bind (keysFor projectID env) (\<lambda>rows.
       ret (List.map_filter
         (\<lambda>k. if sk_status k = ''retired'' then None
              else (case sk_private_pem k of
                      Some pem \<Rightarrow>
                        if pem = [] then None
                        else (case sy_load_key sy pem of Inr priv \<Rightarrow> Some (sk_kid k, priv) | Inl _ \<Rightarrow> None)
                    | None \<Rightarrow> None)) rows))"

definition Verify :: "sys \<Rightarrow> ctx \<Rightarrow> string \<Rightarrow> string \<Rightarrow> string \<Rightarrow> claims tx" where
  "Verify sy c projectID env token =
     tx_bind (publicSet sy projectID env) (\<lambda>keys.
       case sy_jwt_verify sy keys (cx_now c) token of
         Some cl \<Rightarrow> ret cl
       | None \<Rightarrow> throw ErrInvalidToken)"

definition UnverifiedClaims :: "sys \<Rightarrow> string \<Rightarrow> claims option" where
  "UnverifiedClaims sy token = sy_jwt_peek sy token"

section \<open>Account deletion and recovery guards\<close>

definition deletion_deadline_passed :: error where
  "deletion_deadline_passed = WithMessage ''The account deletion deadline has passed'' ErrForbidden"

definition accountDeletionAccess :: "ctx \<Rightarrow> string \<Rightarrow> string \<Rightarrow> string \<Rightarrow> unit tx" where
  "accountDeletionAccess c projectID env account =
     tx_bind (query db_deletions) (\<lambda>rows.
       if list_ex (\<lambda>r. dl_project_id r = projectID \<and> dl_environment r = env \<and> dl_user_id r = account
                       \<and> dl_status r \<in> {''pending'', ''deleted''} \<and> dl_delete_at r \<le> nowIn c) rows
       then throw deletion_deadline_passed else ret ())"

definition securityAccountGuard :: "sys \<Rightarrow> ctx \<Rightarrow> string \<Rightarrow> string \<Rightarrow> unit tx" where
  "securityAccountGuard sy c projectID accountID =
     tx_bind (effectiveEnv sy c projectID) (\<lambda>env.
     tx_bind (accountDeletionAccess c projectID env accountID) (\<lambda>_.
     tx_bind (query db_guards) (\<lambda>guards.
       if list_ex (\<lambda>g. g_project_id g = projectID \<and> g_environment g = env \<and> g_user_id g = accountID) guards
       then throw (WithMessage ''Complete the account security recovery flow'' ErrAccountLocked)
       else ret ())))"

section \<open>Lemmas on transactions\<close>

lemma ret_apply [simp]: "ret x s = (Inr x, s)" by (simp add: ret_def)
lemma throw_apply [simp]: "throw e s = (Inl e, s)" by (simp add: throw_def)
lemma lift_res_apply [simp]: "lift_res r s = (r, s)" by (simp add: lift_res_def)
lemma query_apply [simp]: "query q s = (Inr (q (tx_db s)), s)" by (simp add: query_def)
lemma exec_apply [simp]: "exec f s = (Inr (), s\<lparr>tx_db := f (tx_db s)\<rparr>)" by (simp add: exec_def)
lemma pool_exec_apply [simp]: "pool_exec w s = (Inr (), s\<lparr>tx_pool := tx_pool s @ [w]\<rparr>)"
  by (simp add: pool_exec_def)
lemma draw_apply [simp]: "draw f s = (Inr (f (tx_draws s)), s\<lparr>tx_draws := tx_draws s + 1\<rparr>)"
  by (simp add: draw_def)

lemma tx_bind_Inl [simp]: "m s = (Inl e, s') \<Longrightarrow> tx_bind m f s = (Inl e, s')"
  by (simp add: tx_bind_def)

lemma tx_bind_Inr [simp]: "m s = (Inr x, s') \<Longrightarrow> tx_bind m f s = f x s'"
  by (simp add: tx_bind_def)

text \<open>How a sequence of steps succeeds or fails.\<close>

lemma tx_bind_eq_Inr [res_simps]:
  "tx_bind m f s = (Inr y, s'') \<longleftrightarrow> (\<exists>x s'. m s = (Inr x, s') \<and> f x s' = (Inr y, s''))"
  by (auto simp: tx_bind_def split: prod.splits sum.splits)

lemma tx_bind_eq_Inl [res_simps]:
  "tx_bind m f s = (Inl e, s'') \<longleftrightarrow> m s = (Inl e, s'') \<or> (\<exists>x s'. m s = (Inr x, s') \<and> f x s' = (Inl e, s''))"
  by (auto simp: tx_bind_def split: prod.splits sum.splits)

lemma unmarshal_eq_Inr [simp, res_simps]: "unmarshal v s = (Inr x, s') \<longleftrightarrow> v = Some x \<and> s' = s"
  by (auto simp: unmarshal_def split: option.splits)

section \<open>Relations every step of a transaction respects\<close>

text \<open>\<open>within R m\<close>: whatever \<open>m\<close> returns, the database before and after it are related by \<open>R\<close>.
  A frame condition is the case where \<open>R\<close> is equality of a projection, a monotone fact (a revoked
  token stays revoked) and the preservation of an invariant are others. The locale derives the
  rule of each transaction constructor once for every reflexive and transitive \<open>R\<close>.\<close>

definition within :: "(db \<Rightarrow> db \<Rightarrow> bool) \<Rightarrow> 'a tx \<Rightarrow> bool" where
  "within R m \<longleftrightarrow> (\<forall>s. R (tx_db s) (tx_db (snd (m s))))"

locale tx_relation =
  fixes R :: "db \<Rightarrow> db \<Rightarrow> bool"
  assumes R_refl: "R d d"
    and R_trans: "R a b \<Longrightarrow> R b d \<Longrightarrow> R a d"
begin

lemma within_ret: "within R (ret x)" by (simp add: within_def R_refl)
lemma within_throw: "within R (throw e)" by (simp add: within_def R_refl)
lemma within_lift: "within R (lift_res r)" by (simp add: within_def R_refl)
lemma within_query: "within R (query q)" by (simp add: within_def R_refl)
lemma within_draw: "within R (draw f)" by (simp add: within_def R_refl)
lemma within_pool_exec: "within R (pool_exec w)" by (simp add: within_def R_refl)
lemma within_unmarshal: "within R (unmarshal v)"
  by (cases v) (simp_all add: unmarshal_def within_ret within_throw)

lemma within_exec: "(\<And>d. R d (f d)) \<Longrightarrow> within R (exec f)" by (simp add: within_def)

lemma within_bind:
  assumes "within R m" and "\<And>x. within R (f x)"
  shows "within R (tx_bind m f)"
  unfolding within_def
proof
  fix s
  obtain r s' where m: "m s = (r, s')" by (cases "m s")
  have "R (tx_db s) (tx_db s')" using assms(1) m by (metis within_def snd_conv)
  moreover have "R (tx_db s') (tx_db (snd (f x s')))" for x using assms(2) by (simp add: within_def)
  ultimately show "R (tx_db s) (tx_db (snd (tx_bind m f s)))"
    using m by (cases r) (auto simp: tx_bind_def intro: R_trans)
qed

lemma within_handle:
  assumes "within R m" and "\<And>e. within R (h e)" and "\<And>x. within R (f x)"
  shows "within R (tx_handle m h f)"
  unfolding within_def
proof
  fix s
  obtain r s' where m: "m s = (r, s')" by (cases "m s")
  have "R (tx_db s) (tx_db s')" using assms(1) m by (metis within_def snd_conv)
  moreover have "R (tx_db s') (tx_db (snd (f x s')))" "R (tx_db s') (tx_db (snd (h e s')))" for x e
    using assms(2,3) by (simp_all add: within_def)
  ultimately show "R (tx_db s) (tx_db (snd (tx_handle m h f s)))"
    using m by (cases r) (auto simp: tx_handle_def intro: R_trans)
qed

lemma within_independent: "within R (independent m)"
  by (simp add: within_def independent_def R_refl split: prod.split sum.split)

lemma within_insert_row: "(\<And>d. R d (upd (\<lambda>rs. rs @ [r]) d)) \<Longrightarrow> within R (insert_row get upd key r)"
  unfolding insert_row_def by (intro within_bind within_query) (simp add: within_throw within_exec)

lemma within_rawDoc: "within R (rawDocForEnv c fc p e k)"
  by (simp add: within_def rawDocForEnv_def Let_def case_prod_beta R_refl)

text \<open>A committed transaction is related to its start when the pool writes are too.\<close>

lemma within_withTx:
  assumes "within R m" and "\<And>s w d. w \<in> set (tx_pool (snd (m (s\<lparr>tx_pool := []\<rparr>)))) \<Longrightarrow> R d (apply_pool_write w d)"
  shows "within R (withTx m)"
  unfolding within_def
proof
  fix s
  obtain r s' where m: "m (s\<lparr>tx_pool := []\<rparr>) = (r, s')" by (cases "m (s\<lparr>tx_pool := []\<rparr>)")
  have "R d (fold apply_pool_write ws d)" if "set ws \<subseteq> set (tx_pool s')" for ws d
    using that assms(2) [where s = s] m
    by (induction ws arbitrary: d) (auto intro: R_refl R_trans)
  then have pool: "R d (apply_pool (tx_pool s') d)" for d by (simp add: apply_pool_def)
  have "R (tx_db s) (tx_db s')"
    using assms(1) m unfolding within_def by (metis snd_conv txs.select_convs(1) txs.surjective txs.update_convs(2))
  then show "R (tx_db s) (tx_db (snd (withTx m s)))"
    using m pool by (cases r) (auto simp: withTx_def intro: R_trans)
qed

lemmas within_basic = within_ret within_throw within_lift within_query within_draw within_pool_exec
  within_unmarshal within_bind within_handle within_rawDoc within_independent

end

text \<open>A projection of the database is kept.\<close>

definition keeps :: "(db \<Rightarrow> 'p) \<Rightarrow> 'a tx \<Rightarrow> bool" where
  "keeps p m \<longleftrightarrow> within (\<lambda>a b. p b = p a) m"

interpretation frame: tx_relation "\<lambda>a b. p b = p a" for p :: "db \<Rightarrow> 'p"
  by unfold_locales simp_all

lemma keeps_ret [frame_simps, intro!]: "keeps p (ret x)" unfolding keeps_def by (rule frame.within_ret)
lemma keeps_throw [frame_simps, intro!]: "keeps p (throw e)" unfolding keeps_def by (rule frame.within_throw)
lemma keeps_lift [frame_simps, intro!]: "keeps p (lift_res r)" unfolding keeps_def by (rule frame.within_lift)
lemma keeps_query [frame_simps, intro!]: "keeps p (query q)" unfolding keeps_def by (rule frame.within_query)
lemma keeps_draw [frame_simps, intro!]: "keeps p (draw f)" unfolding keeps_def by (rule frame.within_draw)
lemma keeps_unmarshal [frame_simps, intro!]: "keeps p (unmarshal v)" unfolding keeps_def by (rule frame.within_unmarshal)
lemma keeps_rawDoc [frame_simps, intro!]: "keeps p (rawDocForEnv c fc pid e k)"
  unfolding keeps_def by (rule frame.within_rawDoc)
lemma keeps_Pair [intro!]: "keeps p (Pair r)" by (simp add: keeps_def within_def)
lemma keeps_exec [intro!]: "(\<And>d. p (f d) = p d) \<Longrightarrow> keeps p (exec f)"
  unfolding keeps_def by (rule frame.within_exec)
lemma keeps_bind [intro!]: "keeps p m \<Longrightarrow> (\<And>x. keeps p (f x)) \<Longrightarrow> keeps p (tx_bind m f)"
  unfolding keeps_def by (rule frame.within_bind)
lemma keeps_handle [intro!]:
  "keeps p m \<Longrightarrow> (\<And>e. keeps p (h e)) \<Longrightarrow> (\<And>x. keeps p (f x)) \<Longrightarrow> keeps p (tx_handle m h f)"
  unfolding keeps_def by (rule frame.within_handle)
lemma keeps_independent [intro!]: "keeps p (independent m)"
  unfolding keeps_def by (rule frame.within_independent)
lemma keeps_insert_row [intro!]:
  "(\<And>d. p (upd (\<lambda>rs. rs @ [r]) d) = p d) \<Longrightarrow> keeps p (insert_row get upd key r)"
  unfolding keeps_def by (rule frame.within_insert_row)

lemma keepsD: "keeps p m \<Longrightarrow> m s = (r, s') \<Longrightarrow> p (tx_db s') = p (tx_db s)"
  unfolding keeps_def within_def by (drule spec [of _ s]) simp

section \<open>What the steps leave alone\<close>

lemma keeps_requested_env [intro!]: "keeps p (requested_env c pid fb)"
  by (auto simp: requested_env_def Let_def)

lemma keeps_effectiveEnv [intro!]: "keeps p (effectiveEnv sy c pid)"
  by (auto simp: effectiveEnv_def split: option.split)

lemma keeps_resolveSignEnv [intro!]: "keeps p (resolveSignEnv c pid fb)"
  by (auto simp: resolveSignEnv_def)

lemma keeps_SessionPolicy [intro!]: "keeps p (SessionPolicy sy c pid)"
  by (auto simp: SessionPolicy_def rawDoc_def)

lemma keeps_SessionPolicyForEnv [intro!]: "keeps p (SessionPolicyForEnv c pid e)"
  by (auto simp: SessionPolicyForEnv_def)

lemma keeps_userRoles [intro!]: "keeps p (userRoles pid e u)"
  by (auto simp: userRoles_def)

lemma keeps_keysFor [intro!]: "keeps p (keysFor pid e)"
  by (auto simp: keysFor_def)

lemma keeps_newUUID [intro!]: "keeps p (newUUID sy)"
  by (auto simp: newUUID_def)

lemma keeps_coreAuthRandomToken [intro!]: "keeps p (coreAuthRandomToken sy)"
  by (auto simp: coreAuthRandomToken_def)

lemma keeps_activeKey [intro!]:
  "(\<And>d f. p (db_keys_update f d) = p d) \<Longrightarrow> keeps p (activeKey sy pid e)"
  by (auto simp: activeKey_def split: option.split)

lemma keeps_Sign [intro!]: "(\<And>d f. p (db_keys_update f d) = p d) \<Longrightarrow> keeps p (Sign sy c pid e cl ttl)"
  by (auto simp: Sign_def split: prod.split)

lemma keeps_audit_Emit [intro!]:
  "(\<And>d f. p (db_outbox_update f d) = p d) \<Longrightarrow> (\<And>d f. p (db_audit_update f d) = p d) \<Longrightarrow>
     keeps p (audit_Emit sy c t pid e a pl)"
  by (auto simp: audit_Emit_def outbox_Emit_def audit_record_def split: option.split)

lemma keeps_Verify [intro!]: "keeps p (Verify sy c pid e t)"
  by (auto simp: Verify_def publicSet_def split: option.split)

lemma keeps_accountDeletionAccess [intro!]: "keeps p (accountDeletionAccess c pid e a)"
  by (auto simp: accountDeletionAccess_def)

lemma keeps_securityAccountGuard [intro!]: "keeps p (securityAccountGuard sy c pid a)"
  by (auto simp: securityAccountGuard_def)

section \<open>Transactions without pool writes\<close>

definition quiet :: "'a tx \<Rightarrow> bool" where
  "quiet m \<longleftrightarrow> (\<forall>s. tx_pool (snd (m s)) = tx_pool s)"

lemma quiet_basic [intro!]:
  "quiet (ret x)" "quiet (throw e)" "quiet (lift_res r)" "quiet (query q)" "quiet (exec f)" "quiet (draw g)"
  "quiet (rawDocForEnv c fc pid env k)"
  by (simp_all add: quiet_def rawDocForEnv_def Let_def case_prod_beta)

lemma quiet_unmarshal [intro!]: "quiet (unmarshal v)"
  by (cases v) (auto simp: unmarshal_def)

lemma quiet_bind [intro!]:
  assumes "quiet m" and "\<And>x. quiet (f x)"
  shows "quiet (tx_bind m f)"
  unfolding quiet_def
proof
  fix s
  obtain r s' where m: "m s = (r, s')" by (cases "m s")
  then have "tx_pool s' = tx_pool s" using assms(1) by (metis quiet_def snd_conv)
  then show "tx_pool (snd (tx_bind m f s)) = tx_pool s"
    using m assms(2) by (cases r) (simp_all add: tx_bind_def quiet_def)
qed

lemma quiet_handle [intro!]:
  assumes "quiet m" and "\<And>e. quiet (h e)" and "\<And>x. quiet (f x)"
  shows "quiet (tx_handle m h f)"
  unfolding quiet_def
proof
  fix s
  obtain r s' where m: "m s = (r, s')" by (cases "m s")
  then have "tx_pool s' = tx_pool s" using assms(1) by (metis quiet_def snd_conv)
  then show "tx_pool (snd (tx_handle m h f s)) = tx_pool s"
    using m assms(2,3) by (cases r) (simp_all add: tx_handle_def quiet_def)
qed

lemma quiet_insert_row [intro!]: "quiet (insert_row get upd key r)"
  by (auto simp: insert_row_def)

lemma quiet_insert_unique [intro!]: "quiet (insert_unique get upd clash r e)"
  by (auto simp: insert_unique_def)

lemma insert_unique_Inr:
  "insert_unique get upd clash r e s = (Inr u, s') \<longleftrightarrow>
     \<not> list_ex (clash r) (get (tx_db s)) \<and> s' = s\<lparr>tx_db := upd (\<lambda>rs. rs @ [r]) (tx_db s)\<rparr>"
  by (auto simp: insert_unique_def res_simps)

lemma quiet_Pair [intro!]: "quiet (Pair r)" by (simp add: quiet_def)

lemma quiet_steps [intro!]:
  "quiet (newUUID sy)" "quiet (coreAuthRandomToken sy)" "quiet (audit_Emit sy c t pid env a pl)"
  "quiet (requested_env c pid fb)" "quiet (effectiveEnv sy c pid)"
  by (auto simp: newUUID_def coreAuthRandomToken_def audit_Emit_def audit_record_def outbox_Emit_def requested_env_def
      effectiveEnv_def Let_def split: option.split)

lemma quiet_env [intro!]:
  "quiet (resolveSignEnv c pid fb)" "quiet (SessionPolicy sy c pid)" "quiet (SessionPolicyForEnv c pid env)"
  "quiet (userRoles pid env u)" "quiet (keysFor pid env)" "quiet (accountDeletionAccess c pid env a)"
  by (auto simp: resolveSignEnv_def SessionPolicy_def SessionPolicyForEnv_def rawDoc_def userRoles_def keysFor_def
      accountDeletionAccess_def)

lemma quiet_sign [intro!]:
  "quiet (activeKey sy pid env)" "quiet (Sign sy c pid env cl ttl)" "quiet (securityAccountGuard sy c pid a)"
  by (auto simp: activeKey_def Sign_def securityAccountGuard_def split: option.split)

text \<open>Such a transaction commits its result, or leaves the database as it was.\<close>

lemma withTx_quiet:
  assumes "quiet m" and "tx_pool s = []"
  shows "withTx m s = (case m s of (Inr x, s') \<Rightarrow> (Inr x, s') | (Inl e, s') \<Rightarrow> (Inl e, s'\<lparr>tx_db := tx_db s\<rparr>))"
proof -
  obtain d cfg acfg n where s: "s = \<lparr>tx_db = d, tx_pool = [], tx_cfg = cfg, tx_auth_cfg = acfg, tx_draws = n\<rparr>"
    using assms(2) by (cases s) simp
  obtain r s' where m: "m s = (r, s')" by (cases "m s")
  then have "tx_pool s' = []" using assms by (metis quiet_def snd_conv)
  then obtain d' cfg' acfg' n' where s': "s' = \<lparr>tx_db = d', tx_pool = [], tx_cfg = cfg', tx_auth_cfg = acfg', tx_draws = n'\<rparr>"
    by (cases s') simp
  show ?thesis using m by (cases r) (simp_all add: s s' withTx_def apply_pool_def)
qed

section \<open>The random source\<close>

text \<open>The random source only moves forward.\<close>

definition forward :: "'a tx \<Rightarrow> bool" where
  "forward m \<longleftrightarrow> (\<forall>s. tx_draws s \<le> tx_draws (snd (m s)))"

lemma forward_basic [intro!]:
  "forward (ret x)" "forward (throw e)" "forward (lift_res r)" "forward (query q)" "forward (exec f)" "forward (draw g)"
  "forward (rawDocForEnv c fc pid env k)" "forward (Pair r')"
  by (simp_all add: forward_def rawDocForEnv_def Let_def case_prod_beta)

lemma forward_unmarshal [intro!]: "forward (unmarshal v)"
  by (cases v) (auto simp: unmarshal_def)

lemma forward_handle [intro!]:
  assumes "forward m" and "\<And>e. forward (h e)" and "\<And>x. forward (f x)"
  shows "forward (tx_handle m h f)"
  unfolding forward_def
proof
  fix s
  obtain r s' where m: "m s = (r, s')" by (cases "m s")
  then have "tx_draws s \<le> tx_draws s'" using assms(1) by (metis forward_def snd_conv)
  then show "tx_draws s \<le> tx_draws (snd (tx_handle m h f s))"
    using m assms(2,3) by (cases r) (auto simp: tx_handle_def forward_def intro: order_trans)
qed

lemma tx_bind_handle: "tx_bind m f = tx_handle m throw f"
  by (auto simp: tx_bind_def tx_handle_def fun_eq_iff split: prod.split sum.split)

lemma forward_bind [intro!]: "forward m \<Longrightarrow> (\<And>x. forward (f x)) \<Longrightarrow> forward (tx_bind m f)"
  by (auto simp: tx_bind_handle)

lemma forward_insert_row [intro!]: "forward (insert_row get upd key r)"
  by (auto simp: insert_row_def)

lemma forward_independent [intro!]:
  assumes "forward m"
  shows "forward (independent m)"
  unfolding forward_def
proof
  fix s
  obtain r s' where m: "m s = (r, s')" by (cases "m s")
  then have "tx_draws s \<le> tx_draws s'" using assms by (metis forward_def snd_conv)
  with m show "tx_draws s \<le> tx_draws (snd (independent m s))" by (cases r) (simp_all add: independent_def)
qed

lemma forwardD: "forward m \<Longrightarrow> m s = (r, s') \<Longrightarrow> tx_draws s \<le> tx_draws s'"
  by (metis forward_def snd_conv)

lemma forward_env [intro!]:
  "forward (requested_env c pid fb)" "forward (effectiveEnv sy c pid)" "forward (resolveSignEnv c pid fb)"
  "forward (SessionPolicy sy c pid)" "forward (securityAccountGuard sy c pid a)"
  "forward (newUUID sy)" "forward (coreAuthRandomToken sy)" "forward (audit_Emit sy c t pid e a pl)"
  by (auto simp: requested_env_def effectiveEnv_def resolveSignEnv_def SessionPolicy_def rawDoc_def securityAccountGuard_def
      accountDeletionAccess_def newUUID_def coreAuthRandomToken_def audit_Emit_def audit_record_def outbox_Emit_def Let_def
      split: option.split)

end
