(* ===== verification/Security.thy ===== *)
theory Security
  imports Store
begin

text \<open>
  Detection of account-security incidents (\<open>src/internal/infrastructure/postgres\<close>:
  \<open>security_events_pg.go\<close>, and the policy, throttle, device, delivery and continuation operations of
  \<open>security_pg.go\<close>, \<open>security_delivery_pg.go\<close>, \<open>security_support_pg.go\<close> it calls).

  The server publishes every event through \<open>securityEmitter\<close> over \<open>auditingEmitter\<close> over
  \<open>outboxEmitter\<close>; \<open>Emit\<close> is that stack. The observer runs in the caller's transaction, before the
  event is stored: when it fails, the caller's transaction fails with it.
\<close>

section \<open>Scope and policy\<close>

record SecurityScope =
  scp_project_id :: string
  scp_environment :: string
  scp_account_id :: string
  scp_session_id :: string
  scp_actor_id :: string

definition account_scope :: "string \<Rightarrow> string \<Rightarrow> string \<Rightarrow> SecurityScope" where
  "account_scope projectID env accountID =
     \<lparr>scp_project_id = projectID, scp_environment = env, scp_account_id = accountID, scp_session_id = [],
      scp_actor_id = []\<rparr>"

definition accountHashToken :: "sys \<Rightarrow> string \<Rightarrow> string" where "accountHashToken sy t = sy_sha256 sy t"

text \<open>\<open>accountRandomToken(securityTokenBytes)\<close>.\<close>

definition accountRandomToken :: "sys \<Rightarrow> string tx" where "accountRandomToken sy = draw (sy_token sy)"

definition no_rows :: error where "no_rows = WithMessage ''no rows in result set'' ErrInternal"

definition security_scope :: "sys \<Rightarrow> ctx \<Rightarrow> SecurityScope \<Rightarrow> SecurityScope tx" where
  "security_scope sy c v =
     (if scp_project_id v = [] then throw ErrProjectNotFound
      else tx_bind (effectiveEnv sy (c\<lparr>cx_env := scp_environment v\<rparr>) (scp_project_id v)) (\<lambda>env.
             ret (v\<lparr>scp_environment := env\<rparr>)))"

definition securityDefaultPolicy :: SecurityPolicy where
  "securityDefaultPolicy =
     \<lparr>sec_version = 1, sec_mode = ''disabled'', sec_continue_url = [], sec_client_urls = [], sec_notify = False,
      sec_require_new_device_proof = False, sec_flow_ttl_seconds = 1800, sec_trust_ttl_seconds = 2592000,
      sec_retention_days = 90, sec_failure_threshold = 5, sec_failure_window_seconds = 900,
      sec_notification_cooldown_seconds = 1800\<rparr>"

definition security_Policy :: "sys \<Rightarrow> ctx \<Rightarrow> SecurityScope \<Rightarrow> SecurityPolicy tx" where
  "security_Policy sy c scope =
     tx_bind (security_scope sy c scope) (\<lambda>scope.
     tx_bind (query (\<lambda>d. db_policies d (scp_project_id scope, scp_environment scope))) (\<lambda>row.
       case row of None \<Rightarrow> ret securityDefaultPolicy | Some data \<Rightarrow> unmarshal data))"

definition securityURLValid :: "sys \<Rightarrow> string \<Rightarrow> bool" where
  "securityURLValid sy raw =
     (case sy_parse_url sy raw of
        None \<Rightarrow> False
      | Some u \<Rightarrow>
          \<not> (u_host u = [] \<or> url_user u \<or> url_fragment u \<noteq> [] \<or> url_raw_query u \<noteq> [])
          \<and> (u_scheme u = ''https''
             \<or> (u_scheme u = ''http'' \<and> url_hostname u \<in> {''localhost'', ''127.0.0.1'', ''::1''})))"

definition security_bounds :: "SecurityPolicy \<Rightarrow> (int \<times> int \<times> int) list" where
  "security_bounds p =
     [(sec_flow_ttl_seconds p, 300, 3600), (sec_trust_ttl_seconds p, 300, 7776000), (sec_retention_days p, 1, 3650),
      (sec_failure_threshold p, 2, 100), (sec_failure_window_seconds p, 60, 86400),
      (sec_notification_cooldown_seconds p, 60, 86400)]"

definition invalidSecurityContinuationURL :: "string \<Rightarrow> error" where
  "invalidSecurityContinuationURL field =
     WithMessage (field @ '' must be an absolute HTTPS URL (HTTP is allowed only for localhost), without credentials, query parameters or a fragment; this is separate from OAuth Redirect URIs'') ErrValidation"

definition validateSecurityPolicy :: "sys \<Rightarrow> SecurityPolicy \<Rightarrow> unit res" where
  "validateSecurityPolicy sy p =
     (if sec_version p \<noteq> 1 \<or> sec_mode p \<notin> set [''disabled'', ''observe'', ''enforce''] then Inl ErrValidation
      else if list_ex (\<lambda>(v, lo, hi). v < lo \<or> v > hi) (security_bounds p)
      then Inl (WithMessage ''Invalid security policy bounds'' ErrValidation)
      else if sec_notify p \<and> sec_continue_url p = []
      then Inl (WithMessage ''continue_url is required when security notifications are enabled'' ErrValidation)
      else if sec_continue_url p \<noteq> [] \<and> \<not> securityURLValid sy (sec_continue_url p)
      then Inl (invalidSecurityContinuationURL ''continue_url'')
      else first_err (\<lambda>(client, uri).
             if trim_space client = []
             then Inl (WithMessage ''client_urls must use a non-empty client ID as each key'' ErrValidation)
             else if \<not> securityURLValid sy uri
             then Inl (invalidSecurityContinuationURL (''client_urls['' @ [CHR 0x22] @ client @ [CHR 0x22] @ '']''))
             else Inr ()) (sec_client_urls p))"

text \<open>\<open>pgSecurity.emit\<close>: the resulting notifications go to the inner emitter.\<close>

definition security_emit :: "sys \<Rightarrow> ctx \<Rightarrow> SecurityScope \<Rightarrow> string \<Rightarrow> string \<Rightarrow> payload \<Rightarrow> unit tx" where
  "security_emit sy c scope typ i payload =
     audit_Emit sy c typ (scp_project_id scope) (scp_environment scope) i payload"

definition SetPolicy :: "sys \<Rightarrow> ctx \<Rightarrow> SecurityScope \<Rightarrow> SecurityPolicy \<Rightarrow> SecurityPolicy tx" where
  "SetPolicy sy c scope p =
     tx_bind (security_scope sy c scope) (\<lambda>scope.
     tx_bind (lift_res (validateSecurityPolicy sy p)) (\<lambda>_.
     withTx (
       tx_bind (exec (\<lambda>d. d\<lparr>db_policies := (db_policies d)((scp_project_id scope, scp_environment scope) \<mapsto> Some p)\<rparr>)) (\<lambda>_.
       tx_bind (security_emit sy c scope ''security.policy.updated'' (scp_project_id scope)
                  (PFields [(''version'', DInt (sec_version p)), (''mode'', DStr (sec_mode p))])) (\<lambda>_.
         ret p)))))"

section \<open>Rate of attempts\<close>

definition throttle :: "sys \<Rightarrow> ctx \<Rightarrow> SecurityScope \<Rightarrow> string \<Rightarrow> string \<Rightarrow> int \<Rightarrow> duration \<Rightarrow> bool tx" where
  "throttle sy c scope subject kind limit window =
     (let now = nowIn c;
          hit = (\<lambda>r. tr_project_id r = scp_project_id scope \<and> tr_environment r = scp_environment scope
                     \<and> tr_subject_hash r = accountHashToken sy subject \<and> tr_kind r = kind);
          bump = (\<lambda>r. if tr_window_start r < now - window then r\<lparr>tr_attempts := 1, tr_window_start := now\<rparr>
                      else r\<lparr>tr_attempts := tr_attempts r + 1\<rparr>)
      in tx_bind (query (\<lambda>d. find hit (db_attempts d))) (\<lambda>found.
           case found of
             None \<Rightarrow>
               tx_bind (exec (db_attempts_update (\<lambda>rs. rs @
                 [\<lparr>tr_project_id = scp_project_id scope, tr_environment = scp_environment scope,
                   tr_subject_hash = accountHashToken sy subject, tr_kind = kind, tr_window_start = now,
                   tr_attempts = 1\<rparr>]))) (\<lambda>_. ret (1 \<le> limit))
           | Some r \<Rightarrow>
               tx_bind (exec (db_attempts_update (update_where hit bump))) (\<lambda>_. ret (tr_attempts (bump r) \<le> limit))))"

section \<open>Deliveries\<close>

text \<open>\<open>strings.LastIndex(contact, "@")\<close>.\<close>

fun last_index :: "char \<Rightarrow> string \<Rightarrow> nat option" where
  "last_index x [] = None"
| "last_index x (y # ys) =
     (case last_index x ys of Some n \<Rightarrow> Some (Suc n) | None \<Rightarrow> if x = y then Some 0 else None)"

definition securityMask :: "string \<Rightarrow> string" where
  "securityMask contact =
     (let short = (if length contact > 4 then ''***'' @ drop (length contact - 4) contact else ''***'')
      in case last_index CHR ''@'' contact of
           Some n \<Rightarrow> if n > 0 then take 1 contact @ ''***'' @ drop n contact else short
         | None \<Rightarrow> short)"

definition delivery_base :: "ctx \<Rightarrow> SecurityPolicy \<Rightarrow> string" where
  "delivery_base c policy =
     (let configured = (case cx_principal c of
                          Some p \<Rightarrow> if pr_client_id p \<noteq> []
                                    then (case map_of (sec_client_urls policy) (pr_client_id p) of
                                            Some u \<Rightarrow> u | None \<Rightarrow> [])
                                    else []
                        | None \<Rightarrow> [])
      in if configured \<noteq> [] then configured else sec_continue_url policy)"

definition deliveryLink :: "sys \<Rightarrow> ctx \<Rightarrow> SecurityScope \<Rightarrow> securityDeliveryPayload \<Rightarrow> securityDeliveryPayload tx" where
  "deliveryLink sy c scope payload =
     tx_bind (security_Policy sy c scope) (\<lambda>policy.
       if dp_continuation payload = [] then ret payload
       else
         let base = delivery_base c policy
         in if \<not> securityURLValid sy base
            then throw (WithMessage ''Configure the security continuation URL before starting recovery'' ErrValidation)
            else ret (payload\<lparr>dp_link := sy_link sy base (dp_continuation payload)\<rparr>))"

definition queueDelivery ::
  "sys \<Rightarrow> ctx \<Rightarrow> SecurityScope \<Rightarrow> securityDeliveryPayload \<Rightarrow> string \<Rightarrow> string \<Rightarrow> string \<Rightarrow> unit tx" where
  "queueDelivery sy c scope payload incidentID caseID dedup =
     tx_bind (deliveryLink sy c scope payload) (\<lambda>payload.
     tx_bind (newUUID sy) (\<lambda>i.
       let now = nowIn c;
           v = \<lparr>de_id = i, de_incident_id = incidentID, de_case_id = caseID,
                de_channel = (if CHR ''@'' \<in> set (dp_to payload) then ''email'' else ''sms''),
                de_recipient_masked = securityMask (dp_to payload), de_status = ''queued'', de_attempts = 0,
                de_last_error = [], de_created_at = now, de_updated_at = now\<rparr>
       in tx_bind (query (\<lambda>d. list_ex (\<lambda>r. dr_dedup_key r = dedup) (db_deliveries d))) (\<lambda>duplicate.
            if duplicate then ret ()
            else
              tx_bind (insert_row db_deliveries db_deliveries_update dr_id
                \<lparr>dr_id = i, dr_project_id = scp_project_id scope, dr_environment = scp_environment scope,
                 dr_user_id = scp_account_id scope, dr_dedup_key = dedup, dr_status = ''queued'', dr_created_at = now,
                 dr_data = Some v, dr_private_data = Some payload\<rparr>) (\<lambda>_.
                security_emit sy c scope ''security.delivery.requested'' i
                  (PFields [(''delivery_id'', DStr i)])))))"

definition continuation :: "sys \<Rightarrow> ctx \<Rightarrow> SecurityScope \<Rightarrow> string \<Rightarrow> string \<Rightarrow> string \<Rightarrow> string tx" where
  "continuation sy c scope incidentID caseID purpose =
     tx_bind (accountRandomToken sy) (\<lambda>token.
     tx_bind (if purpose = ''support_grant''
              then exec (db_continuations_update (update_where
                     (\<lambda>r. cn_project_id r = scp_project_id scope \<and> cn_environment r = scp_environment scope
                          \<and> cn_case_id r = caseID \<and> cn_purpose r = ''support_grant'')
                     (\<lambda>r. r\<lparr>cn_consumed := True, cn_exchange_data := None\<rparr>)))
              else ret ()) (\<lambda>_.
     tx_bind (insert_row db_continuations db_continuations_update cn_token_hash
       \<lparr>cn_token_hash = accountHashToken sy token, cn_project_id = scp_project_id scope,
        cn_environment = scp_environment scope, cn_user_id = scp_account_id scope, cn_incident_id = incidentID,
        cn_case_id = caseID, cn_purpose = purpose, cn_expires_at = nowIn c + 30 * Minute, cn_consumed = False,
        cn_exchange_data = None\<rparr>) (\<lambda>_.
       ret token)))"

section \<open>Incidents\<close>

definition security_account :: "SecurityScope \<Rightarrow> Account tx" where
  "security_account scope =
     tx_bind (query (\<lambda>d. find (\<lambda>u. u_id u = scp_account_id scope \<and> u_project_id u = scp_project_id scope
                                   \<and> u_environment u = scp_environment scope) (db_users d))) (\<lambda>row.
       case row of None \<Rightarrow> throw ErrUserNotFound | Some u \<Rightarrow> unmarshal (u_data u))"

definition securityVerifiedContacts :: "Account \<Rightarrow> securityIncidentPrivate" where
  "securityVerifiedContacts account =
     \<lparr>ip_email = (if acc_email_verified account then acc_primary_email account else []),
      ip_phone = (if acc_phone_verified account then acc_primary_phone account else []),
      ip_mfa_required = False\<rparr>"

text \<open>\<open>save\<close> on the incident and on the device table.\<close>

definition save_incident :: "SecurityScope \<Rightarrow> string \<Rightarrow> string \<Rightarrow> SecurityIncident \<Rightarrow> unit tx" where
  "save_incident scope i status v =
     exec (db_incidents_update (update_where
       (\<lambda>r. ic_id r = i \<and> ic_project_id r = scp_project_id scope \<and> ic_environment r = scp_environment scope
            \<and> (scp_account_id scope = [] \<or> ic_user_id r = scp_account_id scope))
       (\<lambda>r. r\<lparr>ic_data := Some v, ic_status := status\<rparr>)))"

definition save_device :: "SecurityScope \<Rightarrow> string \<Rightarrow> SecurityDevice \<Rightarrow> unit tx" where
  "save_device scope i v =
     exec (db_devices_update (update_where
       (\<lambda>r. dv_id r = i \<and> dv_project_id r = scp_project_id scope \<and> dv_environment r = scp_environment scope
            \<and> dv_user_id r = scp_account_id scope)
       (\<lambda>r. r\<lparr>dv_data := Some v\<rparr>)))"

text \<open>The middle dot between the parts of an alert summary, in UTF-8.\<close>

definition dot :: string where "dot = '' '' @ [CHR 0xC2, CHR 0xB7] @ '' ''"

definition incident_open :: "SecurityScope \<Rightarrow> instant \<Rightarrow> string \<Rightarrow> string \<Rightarrow> incident_row \<Rightarrow> bool" where
  "incident_open scope since sessionID typ r \<longleftrightarrow>
     ic_project_id r = scp_project_id scope \<and> ic_environment r = scp_environment scope
   \<and> ic_user_id r = scp_account_id scope \<and> ic_status r = ''open'' \<and> ic_created_at r > since
   \<and> (case ic_data r of
        Some v \<Rightarrow> in_session_id v = sessionID \<and> (case in_events v of e # _ \<Rightarrow> sve_type e = typ | [] \<Rightarrow> False)
      | None \<Rightarrow> False)"

definition recordIncident ::
  "sys \<Rightarrow> ctx \<Rightarrow> SecurityScope \<Rightarrow> string \<Rightarrow> string \<Rightarrow> string \<Rightarrow> string \<Rightarrow> string \<Rightarrow> string list
     \<Rightarrow> securityIncidentPrivate \<Rightarrow> SecurityPolicy \<Rightarrow> unit tx" where
  "recordIncident sy c scope typ sessionID deviceID severity outcome reasons contacts policy =
     (let now = nowIn c; meta = cx_meta c in
      tx_bind (newUUID sy) (\<lambda>eventID.
      let activityEvent =
            \<lparr>sve_id = eventID, sve_type = typ, sve_at = now, sve_outcome = outcome, sve_session_id = sessionID,
             sve_device_id = deviceID, sve_ip = rm_ip meta, sve_user_agent = rm_user_agent meta\<rparr> in
      tx_bind (query (\<lambda>d. sort_key (\<lambda>r. - ic_created_at r)
                 (filter (incident_open scope (now - seconds (sec_notification_cooldown_seconds policy)) sessionID typ)
                    (db_incidents d)))) (\<lambda>open_rows.
        case open_rows of
          row # _ \<Rightarrow>
            tx_bind (unmarshal (ic_data row)) (\<lambda>inc.
              save_incident scope (in_id inc) (in_status inc)
                (inc\<lparr>in_updated_at := now,
                     in_events := (if length (in_events inc) < 100 then in_events inc @ [activityEvent]
                                   else in_events inc)\<rparr>))
        | [] \<Rightarrow>
            tx_bind (newUUID sy) (\<lambda>i.
            let inc = \<lparr>in_id = i, in_account_id = scp_account_id scope, in_status = ''open'', in_severity = severity,
                       in_reasons = reasons, in_events = [activityEvent], in_session_id = sessionID,
                       in_device_id = deviceID, in_created_at = now, in_updated_at = now,
                       in_policy_version = sec_version policy, in_revoked_session_ids = [], in_resolution = []\<rparr> in
            tx_bind (insert_row db_incidents db_incidents_update ic_id
              \<lparr>ic_id = i, ic_project_id = scp_project_id scope, ic_environment = scp_environment scope,
               ic_user_id = scp_account_id scope, ic_status = ''open'', ic_created_at = now, ic_data = Some inc,
               ic_private_data = Some contacts\<rparr>) (\<lambda>_.
            tx_bind (security_emit sy c scope ''security.incident.created'' i
              (PFields [(''incident_id'', DStr i), (''account_id'', DStr (scp_account_id scope)),
                        (''severity'', DStr severity), (''reasons'', DStrs reasons)])) (\<lambda>_.
              if sec_notify policy \<and> sec_mode policy = ''enforce'' \<and> (ip_email contacts \<noteq> [] \<or> ip_phone contacts \<noteq> [])
              then tx_bind (continuation sy c scope i [] ''review'') (\<lambda>token.
                     queueDelivery sy c scope
                       \<lparr>dp_to = (if ip_email contacts = [] then ip_phone contacts else ip_email contacts),
                        dp_template = ''security_alert'', dp_code = [], dp_continuation = token,
                        dp_summary = typ @ dot @ outcome @ dot @ sy_rfc3339 sy now @ dot @ rm_user_agent meta @ dot @ rm_ip meta,
                        dp_link = [], dp_locale = []\<rparr>
                       i [] (''incident:'' @ i))
              else ret ()))))))"

section \<open>Sessions that look unfamiliar\<close>

definition keep_last :: "nat \<Rightarrow> 'a list \<Rightarrow> 'a list" where "keep_last n xs = drop (length xs - n) xs"

definition recognizeDevice :: "sys \<Rightarrow> ctx \<Rightarrow> SecurityScope \<Rightarrow> string \<Rightarrow> (bool \<times> string) tx" where
  "recognizeDevice sy c scope sessionID =
     (let meta = cx_meta c in
      if rm_device_token meta = [] then ret (False, [])
      else tx_bind (query (\<lambda>d. find (\<lambda>v. dv_project_id v = scp_project_id scope \<and> dv_environment v = scp_environment scope
                      \<and> dv_user_id v = scp_account_id scope
                      \<and> dv_token_hash v = accountHashToken sy (rm_device_token meta)) (db_devices d))) (\<lambda>found.
        case found of
          None \<Rightarrow> ret (False, [])
        | Some row \<Rightarrow>
            tx_bind (unmarshal (dv_data row)) (\<lambda>device.
              if sd_revoked device then ret (False, [])
              else
                let ids = (if sessionID \<in> set (sd_session_ids device) then sd_session_ids device
                           else sd_session_ids device @ [sessionID]);
                    device' = device\<lparr>sd_last_seen_at := nowIn c, sd_session_ids := keep_last 1000 ids\<rparr>
                in tx_bind (save_device scope (sd_id device) device') (\<lambda>_.
                   tx_bind (exec (db_sessions_update (update_where
                     (\<lambda>r. s_id r = sessionID \<and> s_project_id r = scp_project_id scope
                          \<and> s_environment r = scp_environment scope \<and> s_user_id r = scp_account_id scope)
                     (\<lambda>r. r\<lparr>s_device_id := Some (sd_id device)\<rparr>)))) (\<lambda>_.
                     ret (True, sd_id device))))))"

definition other_session :: "SecurityScope \<Rightarrow> string \<Rightarrow> session_row \<Rightarrow> bool" where
  "other_session scope sessionID r \<longleftrightarrow>
     s_project_id r = scp_project_id scope \<and> s_environment r = scp_environment scope
   \<and> s_user_id r = scp_account_id scope \<and> s_id r \<noteq> sessionID"

definition recent_failures :: "sys \<Rightarrow> ctx \<Rightarrow> SecurityScope \<Rightarrow> SecurityPolicy \<Rightarrow> attempt_row \<Rightarrow> bool" where
  "recent_failures sy c scope policy r \<longleftrightarrow>
     tr_project_id r = scp_project_id scope \<and> tr_environment r = scp_environment scope
   \<and> tr_subject_hash r = accountHashToken sy (scp_account_id scope)
   \<and> tr_kind r \<in> {''password_failures'', ''mfa_failures''}
   \<and> tr_window_start r > nowIn c - seconds (sec_failure_window_seconds policy)
   \<and> tr_attempts r \<ge> sec_failure_threshold policy"

definition sessionReasons ::
  "sys \<Rightarrow> ctx \<Rightarrow> SecurityScope \<Rightarrow> Session \<Rightarrow> SecurityPolicy \<Rightarrow> (string list \<times> string) tx" where
  "sessionReasons sy c scope sess policy =
     tx_bind (recognizeDevice sy c scope (se_id sess)) (\<lambda>(known, deviceID).
     tx_bind (query (\<lambda>d. list_ex (other_session scope (se_id sess)) (db_sessions d))) (\<lambda>prior.
     tx_bind (if \<not> prior \<and> time_sub (nowIn c) (se_created_at sess) < Minute
              then tx_bind (query (\<lambda>d. find (\<lambda>u. u_id u = scp_account_id scope) (db_users d))) (\<lambda>row.
                     case row of None \<Rightarrow> throw no_rows | Some u \<Rightarrow> ret (\<not> u_created_at u < nowIn c - Minute))
              else ret False) (\<lambda>first.
       if first then ret ([], [])
       else
         let ip = rm_ip (cx_meta c) in
         tx_bind (query (\<lambda>d. ip \<noteq> [] \<and> prior
             \<and> \<not> list_ex (\<lambda>r. other_session scope (se_id sess) r
                               \<and> (case s_data r of Some v \<Rightarrow> se_ip v = ip | None \<Rightarrow> False)) (db_sessions d))) (\<lambda>new_ip.
         tx_bind (query (\<lambda>d. list_ex (recent_failures sy c scope policy) (db_attempts d))) (\<lambda>failures.
           let reasons = (if known then [] else [''new_device'']) @ (if new_ip then [''new_ip''] else [])
                         @ (if failures then [''recent_failures''] else [])
           in ret (if reasons = [] then ([], []) else (reasons, deviceID)))))))"

section \<open>The observer\<close>

definition session_events :: "string list" where
  "session_events = [''session.created'', ''token.reuse_detected'', ''session.device_mismatch'']"

definition observed_types :: "string list" where
  "observed_types = session_events @
     [''password.changed'', ''password.reset'', ''email.changed'', ''phone.changed'', ''mfa.factor.activated'',
      ''mfa.factor.removed'', ''mfa.recovery_codes.generated'', ''webauthn.credential.registered'',
      ''webauthn.credential.removed'', ''identity.linked'', ''identity.unlinked'']"

definition account_aggregates :: "string list" where
  "account_aggregates =
     [''token.reuse_detected'', ''password.reset'', ''password.changed'', ''email.changed'', ''phone.changed'',
      ''identity.linked'', ''identity.unlinked'', ''mfa.recovery_codes.generated'']"

text \<open>The string-valued keys of a marshalled payload, of those the observer reads.\<close>

fun payload_strings :: "payload \<Rightarrow> (string \<times> string) list" where
  "payload_strings (PSession v) = [(''AccountID'', se_account_id v)]"
| "payload_strings (PServiceAccount v) = []"
| "payload_strings (PAPIKey v) = []"
| "payload_strings (PAccount v) = []"
| "payload_strings (PFactor v) = []"
| "payload_strings (PChallenge v) = [(''account_id'', cg_account_id v)]"
| "payload_strings (PFields fs) = List.map_filter (\<lambda>(k, v). case v of DStr x \<Rightarrow> Some (k, x) | _ \<Rightarrow> None) fs"

fun securityPayloadString :: "payload \<Rightarrow> string list \<Rightarrow> string" where
  "securityPayloadString p [] = []"
| "securityPayloadString p (k # ks) =
     (case map_of (payload_strings p) k of
        Some v \<Rightarrow> if v \<noteq> [] then v else securityPayloadString p ks
      | None \<Rightarrow> securityPayloadString p ks)"

text \<open>The account an event is about: named by the payload, else the caller, else the aggregate.\<close>

definition observed_account :: "ctx \<Rightarrow> string \<Rightarrow> string \<Rightarrow> string \<Rightarrow> string" where
  "observed_account c typ aggregateID named =
     (if named \<noteq> [] then named
      else case cx_principal c of
             Some p \<Rightarrow> if pr_account_id p \<noteq> [] then pr_account_id p
                       else if typ \<in> set account_aggregates then aggregateID else []
           | None \<Rightarrow> if typ \<in> set account_aggregates then aggregateID else [])"

text \<open>The second half of \<open>observe\<close>, from the account guard on.\<close>

definition observe_account ::
  "sys \<Rightarrow> ctx \<Rightarrow> string \<Rightarrow> SecurityScope \<Rightarrow> SecurityPolicy \<Rightarrow> string \<Rightarrow> string \<Rightarrow> string list \<Rightarrow> string \<Rightarrow> unit tx" where
  "observe_account sy c typ scope policy sessionID deviceID reasons severity =
     tx_bind (if typ \<in> set session_events then ret ()
              else securityAccountGuard sy c (scp_project_id scope) (scp_account_id scope)) (\<lambda>_.
       if sec_mode policy = ''disabled'' then ret ()
       else
         let sessionID = (if sessionID = [] then (case cx_principal c of Some p \<Rightarrow> pr_session_id p | None \<Rightarrow> [])
                          else sessionID);
             blocked = typ = ''token.reuse_detected'' \<or> typ = ''session.device_mismatch''
         in tx_handle (security_account scope)
              (\<lambda>e. if err_is e ErrUserNotFound then ret () else throw e)
              (\<lambda>a. tx_bind (query (\<lambda>d. list_ex (\<lambda>f. f_project_id f = scp_project_id scope
                         \<and> f_environment f = scp_environment scope \<and> f_user_id f = scp_account_id scope
                         \<and> f_status f = ''active'') (db_factors d))) (\<lambda>active.
                let contacts = (case cx_old_contact c of Some old \<Rightarrow> old | None \<Rightarrow> securityVerifiedContacts a)
                in recordIncident sy c scope typ sessionID deviceID (if blocked then ''high'' else severity)
                     (if blocked then ''blocked'' else ''succeeded'') reasons
                     (contacts\<lparr>ip_mfa_required := active \<or> typ = ''mfa.factor.removed''\<rparr>) policy)))"

definition observe :: "sys \<Rightarrow> ctx \<Rightarrow> string \<Rightarrow> string \<Rightarrow> string \<Rightarrow> string \<Rightarrow> payload \<Rightarrow> unit tx" where
  "observe sy c typ projectID env aggregateID p =
     (if typ \<notin> set observed_types then ret ()
      else
        tx_bind (security_scope sy c (account_scope projectID (if cx_env c = [] then env else cx_env c) [])) (\<lambda>scope.
        tx_bind (security_Policy sy c scope) (\<lambda>policy.
          if sec_mode policy = ''disabled'' \<and> typ \<in> set session_events then ret ()
          else
            let named = securityPayloadString p [''account_id'', ''user_id'', ''AccountID''];
                sessionID = securityPayloadString p [''session_id'']
            in if typ = ''session.created''
               then (case p of
                       PSession sess \<Rightarrow>
                         tx_bind (sessionReasons sy c (scope\<lparr>scp_account_id := se_account_id sess\<rparr>) sess policy) (\<lambda>(reasons, deviceID).
                           if reasons = [] then ret ()
                           else
                             let acc = observed_account c typ aggregateID (se_account_id sess)
                             in if acc = [] then ret ()
                                else observe_account sy c typ (scope\<lparr>scp_account_id := acc\<rparr>) policy (se_id sess) deviceID
                                       reasons ''warning'')
                     | _ \<Rightarrow> throw (WithMessage ''unmarshal'' ErrInternal))
               else
                 let acc = observed_account c typ aggregateID named
                 in if acc = [] then ret ()
                    else observe_account sy c typ (scope\<lparr>scp_account_id := acc\<rparr>) policy sessionID [] [typ] ''notice'')))"

text \<open>\<open>securityEmitter.Emit\<close>, over the auditing emitter, over the outbox.\<close>

definition Emit :: "sys \<Rightarrow> ctx \<Rightarrow> string \<Rightarrow> string \<Rightarrow> string \<Rightarrow> string \<Rightarrow> payload \<Rightarrow> unit tx" where
  "Emit sy c typ projectID env aggregateID p =
     tx_bind (if has_prefix typ ''security.'' then ret () else observe sy c typ projectID env aggregateID p) (\<lambda>_.
       audit_Emit sy c typ projectID env aggregateID p)"

section \<open>What observation leaves alone\<close>

text \<open>A projection of the database that ignores the tables of the event log and of incidents.\<close>

definition side_free :: "(db \<Rightarrow> 'p) \<Rightarrow> bool" where
  "side_free p \<longleftrightarrow>
     (\<forall>f d. p (db_outbox_update f d) = p d) \<and> (\<forall>f d. p (db_audit_update f d) = p d)
   \<and> (\<forall>f d. p (db_incidents_update f d) = p d) \<and> (\<forall>f d. p (db_continuations_update f d) = p d)
   \<and> (\<forall>f d. p (db_deliveries_update f d) = p d)"

lemma side_freeD:
  assumes "side_free p"
  shows "p (db_outbox_update f d) = p d" "p (db_audit_update f2 d) = p d" "p (db_incidents_update g d) = p d"
    "p (db_continuations_update h d) = p d" "p (db_deliveries_update k d) = p d"
  using assms by (simp_all add: side_free_def)

lemma keeps_security_policy [intro!]: "keeps p (security_scope sy c v)" "keeps p (security_Policy sy c v)"
  "keeps p (security_account v)" "keeps p (accountRandomToken sy)"
  by (auto simp: security_scope_def security_Policy_def security_account_def accountRandomToken_def split: option.split)

lemma keeps_security_emit [intro!]: "side_free p \<Longrightarrow> keeps p (security_emit sy c v t i pl)"
  by (auto simp: security_emit_def side_freeD)

lemma keeps_queueDelivery [intro!]: "side_free p \<Longrightarrow> keeps p (queueDelivery sy c v pl i k d)"
  by (auto simp: queueDelivery_def deliveryLink_def Let_def side_freeD)

lemma keeps_continuation [intro!]: "side_free p \<Longrightarrow> keeps p (continuation sy c v i k u)"
  by (auto simp: continuation_def side_freeD)

lemma keeps_recordIncident [intro!]:
  "side_free p \<Longrightarrow> keeps p (recordIncident sy c v t si di sv oc rs ct po)"
  by (auto simp: recordIncident_def save_incident_def Let_def side_freeD split: list.split)

lemma keeps_observe_account [intro!]:
  "side_free p \<Longrightarrow> keeps p (observe_account sy c t v po si di rs sv)"
  by (auto simp: observe_account_def Let_def)

lemma keeps_sessionReasons [intro!]:
  "(\<And>f d. p (db_devices_update f d) = p d) \<Longrightarrow>
   (\<And>f g d. p (db_sessions_update (update_where f (\<lambda>r. r\<lparr>s_device_id := g\<rparr>)) d) = p d) \<Longrightarrow>
     keeps p (sessionReasons sy c v se po)"
  by (auto simp: sessionReasons_def recognizeDevice_def save_device_def Let_def split: option.split prod.split)

lemma keeps_Emit [intro!]:
  "side_free p \<Longrightarrow> t \<noteq> ''session.created'' \<Longrightarrow> keeps p (Emit sy c t pid e a pl)"
  by (auto simp: Emit_def observe_def Let_def side_freeD)

lemma keeps_Emit_created:
  "side_free p \<Longrightarrow> (\<And>f d. p (db_devices_update f d) = p d) \<Longrightarrow>
   (\<And>f g d. p (db_sessions_update (update_where f (\<lambda>r. r\<lparr>s_device_id := g\<rparr>)) d) = p d) \<Longrightarrow>
     keeps p (Emit sy c t pid e a pl)"
  by (auto simp: Emit_def observe_def Let_def side_freeD split: payload.split prod.split)

lemma Emit_unobserved:
  "t \<notin> set observed_types \<Longrightarrow> Emit sy c t pid e a pl = audit_Emit sy c t pid e a pl"
  by (simp add: Emit_def observe_def tx_bind_def fun_eq_iff)

section \<open>When observation succeeds\<close>

lemma quiet_security [intro!]: "quiet (security_scope sy c v)" "quiet (security_Policy sy c v)"
  "quiet (security_account v)" "quiet (accountRandomToken sy)" "quiet (security_emit sy c v t i pl)"
  "quiet (throttle sy c v su k l w)"
  by (auto simp: security_scope_def security_Policy_def security_account_def accountRandomToken_def security_emit_def
      throttle_def Let_def split: option.split)

lemma quiet_queueDelivery [intro!]: "quiet (queueDelivery sy c v pl i k d)"
  by (auto simp: queueDelivery_def deliveryLink_def Let_def)

lemma quiet_continuation [intro!]: "quiet (continuation sy c v i k u)"
  by (auto simp: continuation_def)

lemma quiet_recordIncident [intro!]: "quiet (recordIncident sy c v t si di sv oc rs ct po)"
  by (auto simp: recordIncident_def save_incident_def Let_def split: list.split)

lemma quiet_sessionReasons [intro!]: "quiet (sessionReasons sy c v se po)"
  by (auto simp: sessionReasons_def recognizeDevice_def save_device_def Let_def split: option.split prod.split)

lemma quiet_observe_account [intro!]: "quiet (observe_account sy c t v po si di rs sv)"
  by (auto simp: observe_account_def Let_def)

lemma quiet_Emit [intro!]: "quiet (Emit sy c t pid e a pl)"
  by (auto simp: Emit_def observe_def Let_def split: payload.split prod.split)

lemma forward_security [intro!]: "forward (security_scope sy c v)" "forward (security_Policy sy c v)"
  "forward (security_account v)" "forward (accountRandomToken sy)" "forward (security_emit sy c v t i pl)"
  "forward (throttle sy c v su k l w)"
  by (auto simp: security_scope_def security_Policy_def security_account_def accountRandomToken_def security_emit_def
      throttle_def Let_def split: option.split)

lemma forward_queueDelivery [intro!]: "forward (queueDelivery sy c v pl i k d)"
  by (auto simp: queueDelivery_def deliveryLink_def Let_def)

text \<open>What observation depends on.\<close>

definition observer_tables where
  "observer_tables d = (db_envs d, db_policies d, db_incidents d, db_continuations d, db_deliveries d)"

lemma forward_Emit_unobserved [intro!]: "t \<notin> set observed_types \<Longrightarrow> forward (Emit sy c t pid e a pl)"
  by (simp add: Emit_unobserved forward_env)

lemma audit_Emit_run:
  "\<exists>s'. audit_Emit sy c t pid e a pl s = (Inr (), s')"
  by (auto simp: audit_Emit_def outbox_Emit_def audit_record_def newUUID_def tx_bind_def split: option.split)

text \<open>An event the observer does not look at is always published.\<close>

lemma Emit_run:
  assumes "t \<notin> set observed_types" and "side_free p"
  shows "\<exists>s'. Emit sy c t pid e a pl s = (Inr (), s') \<and> p (tx_db s') = p (tx_db s)"
proof -
  obtain s' where "audit_Emit sy c t pid e a pl s = (Inr (), s')" using audit_Emit_run by blast
  moreover have "t \<noteq> ''session.created''" using assms(1) by (auto simp: observed_types_def session_events_def)
  ultimately show ?thesis using keepsD [OF keeps_Emit [OF assms(2)]] by (metis Emit_unobserved [OF assms(1)])
qed

text \<open>The environment a request resolves to depends on the database only through the list of
  environments, and resolving it again changes nothing.\<close>

lemma effectiveEnv_state: "snd (effectiveEnv sy c pid s) = s"
  by (auto simp: effectiveEnv_def requested_env_def tx_bind_def Let_def split: option.split)

lemma effectiveEnv_cong: "db_envs (tx_db s') = db_envs (tx_db s) \<Longrightarrow> fst (effectiveEnv sy c pid s') = fst (effectiveEnv sy c pid s)"
  by (auto simp: effectiveEnv_def requested_env_def tx_bind_def Let_def split: option.split)

lemma effectiveEnv_again:
  "effectiveEnv sy c pid s = (Inr e, s') \<Longrightarrow> effectiveEnv sy (c\<lparr>cx_env := e\<rparr>) pid s' = (Inr e, s')"
  by (auto simp: effectiveEnv_def requested_env_def res_simps Let_def split: option.splits if_splits)

lemma effectiveEnv_env: "effectiveEnv sy (c\<lparr>cx_env := cx_env c\<rparr>) pid s = effectiveEnv sy c pid s" by simp

lemma security_scope_eq:
  "security_scope sy c v s =
     (if scp_project_id v = [] then (Inl ErrProjectNotFound, s)
      else case fst (effectiveEnv sy (c\<lparr>cx_env := scp_environment v\<rparr>) (scp_project_id v) s) of
             Inl e \<Rightarrow> (Inl e, s) | Inr e \<Rightarrow> (Inr (v\<lparr>scp_environment := e\<rparr>), s))"
  using effectiveEnv_state [of sy "c\<lparr>cx_env := scp_environment v\<rparr>" "scp_project_id v" s]
  by (auto simp: security_scope_def tx_bind_def split: prod.splits sum.splits)

text \<open>The policy in force for a scope.\<close>

definition policy_of :: "sys \<Rightarrow> ctx \<Rightarrow> SecurityScope \<Rightarrow> txs \<Rightarrow> SecurityPolicy res" where
  "policy_of sy c v s = fst (security_Policy sy c v s)"

lemma security_Policy_run: "security_Policy sy c v s = (policy_of sy c v s, s)"
  by (auto simp: policy_of_def security_Policy_def security_scope_eq tx_bind_def unmarshal_def split: option.split sum.split)

lemma policy_of_cong:
  "db_envs (tx_db s') = db_envs (tx_db s) \<Longrightarrow> db_policies (tx_db s') = db_policies (tx_db s) \<Longrightarrow>
     policy_of sy c v s' = policy_of sy c v s"
  using effectiveEnv_cong [of s' s sy "c\<lparr>cx_env := scp_environment v\<rparr>" "scp_project_id v"]
  by (auto simp: policy_of_def security_Policy_def security_scope_eq tx_bind_def unmarshal_def split: option.split sum.split)

lemma policy_of_scope:
  assumes "security_scope sy c v s = (Inr v', s')"
  shows "policy_of sy c (v'\<lparr>scp_account_id := a\<rparr>) s = policy_of sy c v s" and "s' = s"
proof -
  obtain e where e: "fst (effectiveEnv sy (c\<lparr>cx_env := scp_environment v\<rparr>) (scp_project_id v) s) = Inr e"
      "v' = v\<lparr>scp_environment := e\<rparr>" "scp_project_id v \<noteq> []" "s' = s"
    using assms by (auto simp: security_scope_eq split: if_splits sum.splits)
  then have run: "effectiveEnv sy (c\<lparr>cx_env := scp_environment v\<rparr>) (scp_project_id v) s = (Inr e, s)"
    by (metis effectiveEnv_state prod.collapse)
  have "effectiveEnv sy (c\<lparr>cx_env := e\<rparr>) (scp_project_id v) s = (Inr e, s)"
    using effectiveEnv_again [OF run] by simp
  then show "policy_of sy c (v'\<lparr>scp_account_id := a\<rparr>) s = policy_of sy c v s" "s' = s"
    using e run by (simp_all add: policy_of_def security_Policy_def security_scope_eq tx_bind_def)
qed

text \<open>The observer can record an incident: the policy of the environment is readable, and if it is
  enabled the identifiers it will draw are unused and the continuation link can be built.\<close>

definition observer_ready :: "sys \<Rightarrow> ctx \<Rightarrow> string \<Rightarrow> string \<Rightarrow> txs \<Rightarrow> bool" where
  "observer_ready sy c pid env s \<longleftrightarrow>
     (case policy_of sy c (account_scope pid (if cx_env c = [] then env else cx_env c) []) s of
        Inl _ \<Rightarrow> False
      | Inr p \<Rightarrow> sec_mode p = ''disabled''
          \<or> (\<forall>n \<ge> tx_draws s. sy_uuid sy n \<notin> ic_id ` set (db_incidents (tx_db s)))
            \<and> (sec_notify p \<and> sec_mode p = ''enforce'' \<longrightarrow>
                securityURLValid sy (delivery_base c p)
              \<and> (\<forall>n \<ge> tx_draws s. sy_sha256 sy (sy_token sy n) \<notin> cn_token_hash ` set (db_continuations (tx_db s)))
              \<and> (\<forall>n \<ge> tx_draws s. sy_uuid sy n \<notin> dr_id ` set (db_deliveries (tx_db s)))))"

lemma observer_ready_disabled:
  assumes "case policy_of sy c (account_scope pid (if cx_env c = [] then env else cx_env c) []) s of
             Inl _ \<Rightarrow> False | Inr p \<Rightarrow> sec_mode p = ''disabled''"
  shows "observer_ready sy c pid env s"
  using assms unfolding observer_ready_def by (simp only: split: sum.split_asm sum.split) blast

lemma observer_ready_cong:
  assumes "observer_ready sy c pid env s" and "tx_draws s \<le> tx_draws s'"
    and "observer_tables (tx_db s') = observer_tables (tx_db s)"
  shows "observer_ready sy c pid env s'"
proof -
  have eq: "db_envs (tx_db s') = db_envs (tx_db s)" "db_policies (tx_db s') = db_policies (tx_db s)"
      "db_incidents (tx_db s') = db_incidents (tx_db s)" "db_continuations (tx_db s') = db_continuations (tx_db s)"
      "db_deliveries (tx_db s') = db_deliveries (tx_db s)"
    using assms(3) by (simp_all add: observer_tables_def)
  have later: "\<forall>n \<ge> tx_draws s'. P n" if "\<forall>n \<ge> tx_draws s. P n" for P
    using that assms(2) le_trans by blast
  show ?thesis
    using assms(1) later unfolding observer_ready_def eq(3-5) policy_of_cong [OF eq(1,2)]
    by (simp only: split: sum.split_asm sum.split) blast
qed

lemma security_emit_run:
  "\<exists>s'. security_emit sy c v t i pl s = (Inr (), s') \<and> tx_draws s \<le> tx_draws s'
     \<and> db_envs (tx_db s') = db_envs (tx_db s) \<and> db_policies (tx_db s') = db_policies (tx_db s)
     \<and> db_continuations (tx_db s') = db_continuations (tx_db s) \<and> db_deliveries (tx_db s') = db_deliveries (tx_db s)"
  by (auto simp: security_emit_def audit_Emit_def outbox_Emit_def audit_record_def newUUID_def tx_bind_def
      split: option.split)

lemma continuation_run:
  assumes "u \<noteq> ''support_grant''" and "sy_sha256 sy (sy_token sy (tx_draws s)) \<notin> cn_token_hash ` set (db_continuations (tx_db s))"
  shows "\<exists>s'. continuation sy c v i k u s = (Inr (sy_token sy (tx_draws s)), s') \<and> tx_draws s \<le> tx_draws s'
     \<and> db_envs (tx_db s') = db_envs (tx_db s) \<and> db_policies (tx_db s') = db_policies (tx_db s)
     \<and> db_deliveries (tx_db s') = db_deliveries (tx_db s)"
  using assms by (simp add: continuation_def accountRandomToken_def accountHashToken_def tx_bind_def insert_row_def)

lemma queueDelivery_run:
  assumes "policy_of sy c v s = Inr p" and "dp_continuation pl = [] \<or> securityURLValid sy (delivery_base c p)"
    and "sy_uuid sy (tx_draws s) \<notin> dr_id ` set (db_deliveries (tx_db s))"
  shows "\<exists>s'. queueDelivery sy c v pl i k dd s = (Inr (), s')"
proof -
  obtain pl' where pl': "deliveryLink sy c v pl s = (Inr pl', s)"
    using assms(1,2) by (cases "dp_continuation pl = []") (simp_all add: deliveryLink_def security_Policy_run tx_bind_def Let_def)
  show ?thesis
    using assms(3) security_emit_run
    by (simp add: queueDelivery_def tx_bind_def pl' newUUID_def Let_def insert_row_def) blast
qed

text \<open>The identifiers and the link an incident with a notification needs.\<close>

lemma recordIncident_run:
  assumes "policy_of sy c v s = Inr p"
    and "\<forall>n \<ge> tx_draws s. sy_uuid sy n \<notin> ic_id ` set (db_incidents (tx_db s))"
    and "sec_notify p \<and> sec_mode p = ''enforce'' \<longrightarrow>
        securityURLValid sy (delivery_base c p)
      \<and> (\<forall>n \<ge> tx_draws s. sy_sha256 sy (sy_token sy n) \<notin> cn_token_hash ` set (db_continuations (tx_db s)))
      \<and> (\<forall>n \<ge> tx_draws s. sy_uuid sy n \<notin> dr_id ` set (db_deliveries (tx_db s)))"
  shows "\<exists>s'. recordIncident sy c v t si di sv oc rs ct p s = (Inr (), s')"
proof -
  let ?since = "nowIn c - seconds (sec_notification_cooldown_seconds p)"
  let ?rows = "sort_key (\<lambda>r. - ic_created_at r) (filter (incident_open v ?since si t) (db_incidents (tx_db s)))"
  show ?thesis
  proof (cases ?rows)
    case (Cons row rest)
    then have "row \<in> set ?rows" by simp
    then have "incident_open v ?since si t row" by simp
    then obtain inc where "ic_data row = Some inc" by (auto simp: incident_open_def split: option.splits)
    then show ?thesis
      by (simp add: recordIncident_def tx_bind_def newUUID_def Let_def Cons save_incident_def unmarshal_def)
  next
    case Nil
    let ?i = "sy_uuid sy (Suc (tx_draws s))"
    let ?ev = "\<lparr>sve_id = sy_uuid sy (tx_draws s), sve_type = t, sve_at = nowIn c, sve_outcome = oc, sve_session_id = si,
             sve_device_id = di, sve_ip = rm_ip (cx_meta c), sve_user_agent = rm_user_agent (cx_meta c)\<rparr>"
    let ?inc = "\<lparr>in_id = ?i, in_account_id = scp_account_id v, in_status = ''open'', in_severity = sv,
                       in_reasons = rs, in_events = [?ev], in_session_id = si,
                       in_device_id = di, in_created_at = nowIn c, in_updated_at = nowIn c,
                       in_policy_version = sec_version p, in_revoked_session_ids = [], in_resolution = []\<rparr>"
    let ?row = "\<lparr>ic_id = ?i, ic_project_id = scp_project_id v, ic_environment = scp_environment v,
               ic_user_id = scp_account_id v, ic_status = ''open'', ic_created_at = nowIn c, ic_data = Some ?inc,
               ic_private_data = Some ct\<rparr>"
    let ?pl = "PFields [(''incident_id'', DStr ?i), (''account_id'', DStr (scp_account_id v)),
                        (''severity'', DStr sv), (''reasons'', DStrs rs)]"
    let ?s1 = "s\<lparr>tx_draws := Suc (Suc (tx_draws s)), tx_db := db_incidents_update (\<lambda>rs. rs @ [?row]) (tx_db s)\<rparr>"
    have fresh: "?i \<notin> ic_id ` set (db_incidents (tx_db s))" using assms(2) by simp
    obtain s2 where s2: "security_emit sy c v ''security.incident.created'' ?i ?pl ?s1 = (Inr (), s2)"
      "tx_draws ?s1 \<le> tx_draws s2" "db_envs (tx_db s2) = db_envs (tx_db s) \<and> db_policies (tx_db s2) = db_policies (tx_db s)"
      "db_continuations (tx_db s2) = db_continuations (tx_db s)" "db_deliveries (tx_db s2) = db_deliveries (tx_db s)"
      using security_emit_run [of sy c v "''security.incident.created''" ?i ?pl ?s1] by auto
    show ?thesis
    proof (cases "sec_notify p \<and> sec_mode p = ''enforce'' \<and> (ip_email ct \<noteq> [] \<or> ip_phone ct \<noteq> [])")
      case False
      then show ?thesis
        using s2(1) fresh by (auto simp: recordIncident_def tx_bind_def newUUID_def Let_def Nil insert_row_def)
    next
      case True
      then have ok: "securityURLValid sy (delivery_base c p)"
        "sy_sha256 sy (sy_token sy (tx_draws s2)) \<notin> cn_token_hash ` set (db_continuations (tx_db s2))"
        "\<And>n. tx_draws s \<le> n \<Longrightarrow> sy_uuid sy n \<notin> dr_id ` set (db_deliveries (tx_db s2))"
        using assms(3) s2(2,4,5) by simp_all
      obtain s3 where s3: "continuation sy c v ?i [] ''review'' s2 = (Inr (sy_token sy (tx_draws s2)), s3)"
        "tx_draws s2 \<le> tx_draws s3" "db_envs (tx_db s3) = db_envs (tx_db s2)" "db_policies (tx_db s3) = db_policies (tx_db s2)"
        "db_deliveries (tx_db s3) = db_deliveries (tx_db s2)"
        using continuation_run [of "''review''" sy s2 c v ?i "[]", OF _ ok(2)] by auto
      have "policy_of sy c v s3 = Inr p"
        using s3(3,4) s2(3) assms(1) policy_of_cong [of s3 s sy c v] by simp
      moreover have "sy_uuid sy (tx_draws s3) \<notin> dr_id ` set (db_deliveries (tx_db s3))"
        using ok(3) [of "tx_draws s3"] s2(2) s3(2,5) by simp
      ultimately show ?thesis
        using queueDelivery_run [of sy c v s3 p] ok(1) True s2(1) s3(1) fresh
        by (auto simp: recordIncident_def tx_bind_def newUUID_def Let_def Nil insert_row_def)
    qed
  qed
qed

text \<open>The account of an event can be read, or does not exist.\<close>

definition users_decode :: "db \<Rightarrow> bool" where
  "users_decode d \<longleftrightarrow> list_all (\<lambda>u. u_data u \<noteq> None) (db_users d)"

lemma security_account_run:
  assumes "users_decode (tx_db s)"
  shows "security_account v s = (Inl ErrUserNotFound, s) \<or> (\<exists>a. security_account v s = (Inr a, s))"
  using assms
  by (auto simp: security_account_def tx_bind_def users_decode_def list_all_iff unmarshal_def dest!: find_set split: option.split)

text \<open>A detected reuse or device change is always recorded when the observer is ready.\<close>

lemma observe_blocked_run:
  assumes "observer_ready sy c pid env s" and "users_decode (tx_db s)"
    and "t = ''token.reuse_detected'' \<or> t = ''session.device_mismatch''"
  shows "\<exists>s'. observe sy c t pid env a pl s = (Inr (), s')"
proof -
  let ?v = "account_scope pid (if cx_env c = [] then env else cx_env c) []"
  have t: "t \<in> set observed_types" "t \<in> set session_events" "t \<noteq> ''session.created''"
    using assms(3) by (auto simp: observed_types_def session_events_def)
  obtain p where p: "policy_of sy c ?v s = Inr p"
    using assms(1) by (auto simp: observer_ready_def split: sum.splits)
  then obtain w where w: "security_scope sy c ?v s = (Inr w, s)"
    by (auto simp: policy_of_def security_Policy_def tx_bind_def security_scope_eq split: if_splits sum.splits)
  have pw: "policy_of sy c (w\<lparr>scp_account_id := x\<rparr>) s = Inr p" for x using policy_of_scope(1) [OF w] p by simp
  have "scp_account_id w = []" using w by (auto simp: security_scope_eq account_scope_def split: if_splits sum.splits)
  then have w': "w\<lparr>scp_account_id := []\<rparr> = w" by (cases w) simp
  have pol: "security_Policy sy c w s = (Inr p, s)" using pw [of "[]"] by (simp add: w' security_Policy_run)
  have rec: "\<exists>s'. observe_account sy c t (w\<lparr>scp_account_id := acc\<rparr>) p si [] rs sv s = (Inr (), s')"
    if enabled: "sec_mode p \<noteq> ''disabled''" for acc si rs sv
  proof -
    have "\<exists>s'. recordIncident sy c (w\<lparr>scp_account_id := acc\<rparr>) t i k l oc rs ct p s = (Inr (), s')" for i k l oc ct
      using recordIncident_run [OF pw] assms(1) enabled p by (simp add: observer_ready_def)
    then show ?thesis
      using security_account_run [OF assms(2), of "w\<lparr>scp_account_id := acc\<rparr>"] t enabled
      by (auto simp: observe_account_def tx_bind_def tx_handle_def Let_def)
  qed
  show ?thesis
    using t rec by (auto simp: observe_def tx_bind_def w pol Let_def)
qed

lemma Emit_blocked_run:
  assumes "observer_ready sy c pid env s" and "users_decode (tx_db s)"
    and "t = ''token.reuse_detected'' \<or> t = ''session.device_mismatch''" and "side_free p"
  shows "\<exists>s'. Emit sy c t pid env a pl s = (Inr (), s') \<and> p (tx_db s') = p (tx_db s)"
proof -
  obtain s1 where "observe sy c t pid env a pl s = (Inr (), s1)" using observe_blocked_run [OF assms(1-3)] by blast
  moreover obtain s' where "audit_Emit sy c t pid env a pl s1 = (Inr (), s')" using audit_Emit_run by blast
  moreover have "\<not> has_prefix t ''security.''" using assms(3) by (auto simp: has_prefix_def)
  ultimately have run: "Emit sy c t pid env a pl s = (Inr (), s')" by (simp add: Emit_def)
  moreover have "t \<noteq> ''session.created''" using assms(3) by auto
  ultimately show ?thesis using keepsD [OF keeps_Emit [OF assms(4)] run] by blast
qed

text \<open>An environment the project does not have makes the observer, and so the operation, fail.\<close>

lemma Emit_unknown_env:
  assumes "cx_env c \<notin> {[], runtimeDefaultEnv}" and "(pid, cx_env c) \<notin> set (db_envs (tx_db s))" and "cx_principal c = None"
    and "pid \<noteq> []" and "t \<in> set observed_types"
  shows "Emit sy c t pid env a pl s = (Inl (unknown_env (cx_env c)), s)"
proof -
  have "\<not> has_prefix t ''security.''"
    using assms(5) by (auto simp: observed_types_def session_events_def has_prefix_def)
  then show ?thesis
    using assms
    by (simp add: Emit_def observe_def tx_bind_def security_scope_eq account_scope_def effectiveEnv_def requested_env_def Let_def)
qed

end
