(* ===== verification/SecurityFlow.thy ===== *)
theory SecurityFlow
  imports Security
begin

text \<open>
  The security flow as the sign-in guard uses it (\<open>src/internal/infrastructure/postgres\<close>:
  \<open>security_flows_pg.go\<close>, \<open>security_guards_pg.go\<close>): a capability with a one-time token, stored
  encrypted in \<open>iam_flows\<close>, that proves control of a verified contact. The guard demands a proof for a
  sign-in from an unknown device, consumes it when it is presented, and counts failed attempts.
\<close>

section \<open>Flows\<close>

definition securityFlowScope :: "securityFlow \<Rightarrow> SecurityScope" where
  "securityFlowScope f = account_scope (fw_project_id f) (fw_environment f) (fw_account_id f)"

definition securityFlowTokenPrefix :: string where "securityFlowTokenPrefix = ''sft_''"

definition empty_flow_state :: SecurityFlowState where
  "empty_flow_state =
     \<lparr>fs_deletion = None, fs_sessions = [], fs_challenge = None, fs_flow_token = [], fs_kind = [], fs_status = [],
      fs_step = [], fs_version = 0, fs_next_actions = [], fs_expires_at = zeroTime, fs_incident = None, fs_case = None,
      fs_contact_masked = [], fs_attempts_left = 0, fs_resend_at = None, fs_factors = [], fs_all_sessions = False,
      fs_revoked_session_ids = [], fs_outcome = [], fs_error_code = []\<rparr>"

definition newFlow :: "sys \<Rightarrow> ctx \<Rightarrow> SecurityScope \<Rightarrow> string \<Rightarrow> (securityFlow \<times> string) tx" where
  "newFlow sy c scope kind =
     tx_bind (security_Policy sy c scope) (\<lambda>p.
       if sec_mode p = ''disabled'' \<and> kind \<noteq> ''account_deletion''
       then throw (WithMessage ''Account security is disabled'' ErrForbidden)
       else
         tx_bind (accountRandomToken sy) (\<lambda>token.
         tx_bind (newUUID sy) (\<lambda>i.
           ret (\<lparr>fw_contacts = \<lparr>ip_email = [], ip_phone = [], ip_mfa_required = False\<rparr>, fw_recovery_phone = [],
                 fw_target_device_id = [], fw_current_token = [], fw_previous_token_hash = [],
                 fw_previous_input_hash = [], fw_previous_until = zeroTime, fw_protected = False, fw_factor_id = [],
                 fw_factor_recipient = [], fw_webauthn_session = None, fw_purpose = [], fw_id = i,
                 fw_project_id = scp_project_id scope, fw_environment = scp_environment scope,
                 fw_account_id = scp_account_id scope, fw_target_session = [], fw_recipient = [], fw_identifier = [],
                 fw_case_id = [], fw_incident_id = [], fw_code_hash = [], fw_code_expires = zeroTime,
                 fw_cutoff = nowIn c, fw_proved = False, fw_support_grant = False, fw_mfa_required = False,
                 fw_contact_verified = False,
                 fw_state = empty_flow_state
                   \<lparr>fs_kind := ''security_'' @ kind, fs_status := ''pending'', fs_step := ''verify_contact'',
                    fs_version := 1, fs_attempts_left := 5,
                    fs_expires_at := nowIn c + seconds (sec_flow_ttl_seconds p)\<rparr>\<rparr>,
                securityFlowTokenPrefix @ token))))"

text \<open>\<open>saveFlow\<close>: the row is inserted under the flow's id, or updated; the token hash is unique.\<close>

definition saveFlow :: "sys \<Rightarrow> securityFlow \<Rightarrow> string \<Rightarrow> securityFlow tx" where
  "saveFlow sy f token =
     (let f = f\<lparr>fw_current_token := token,
                fw_state := (fw_state f)\<lparr>fs_flow_token := [], fs_sessions := [], fs_factors := []\<rparr>\<rparr>;
          h = accountHashToken sy token;
          st = fw_state f
      in tx_bind (query db_flows) (\<lambda>rows.
           if list_ex (\<lambda>r. fl_token_hash r = h \<and> fl_id r \<noteq> fw_id f) rows
           then throw (WithMessage ''duplicate key'' ErrInternal)
           else if list_ex (\<lambda>r. fl_id r = fw_id f) rows
           then tx_bind (exec (db_flows_update (update_where (\<lambda>r. fl_id r = fw_id f)
                  (\<lambda>r. r\<lparr>fl_token_hash := h, fl_status := fs_status st, fl_step := fs_step st,
                         fl_previous_token_hash := fw_previous_token_hash f, fl_payload := Some f,
                         fl_auth := Some empty_flow_data\<rparr>)))) (\<lambda>_. ret f)
           else tx_bind (exec (db_flows_update (\<lambda>rs. rs @
                  [\<lparr>fl_id = fw_id f, fl_project_id = fw_project_id f, fl_environment = fw_environment f,
                    fl_token_hash = h, fl_kind = fs_kind st, fl_status = fs_status st, fl_step = fs_step st,
                    fl_user_id = fw_account_id f, fl_expires_at = fs_expires_at st,
                    fl_previous_token_hash = fw_previous_token_hash f, fl_payload = Some f,
                    fl_auth = Some empty_flow_data\<rparr>]))) (\<lambda>_. ret f)))"

definition security_kinds :: "string list" where
  "security_kinds = [''security_review'', ''security_recovery'', ''security_account_deletion'']"

definition loadFlow :: "sys \<Rightarrow> ctx \<Rightarrow> SecurityScope \<Rightarrow> string \<Rightarrow> securityFlow tx" where
  "loadFlow sy c scope token =
     (if \<not> has_prefix token securityFlowTokenPrefix then throw ErrFlowNotFound
      else
        let h = accountHashToken sy token in
        tx_bind (query (\<lambda>d. find (\<lambda>r. fl_project_id r = scp_project_id scope \<and> fl_environment r = scp_environment scope
                   \<and> (fl_token_hash r = h \<or> fl_previous_token_hash r = h) \<and> fl_kind r \<in> set security_kinds)
                   (db_flows d))) (\<lambda>row.
          case row of
            None \<Rightarrow> throw ErrFlowNotFound
          | Some r \<Rightarrow>
              tx_bind (unmarshal (fl_payload r)) (\<lambda>f.
                if fw_id f = [] \<or> fw_project_id f \<noteq> scp_project_id scope \<or> fw_environment f \<noteq> scp_environment scope
                then throw ErrFlowNotFound
                else if \<not> nowIn c < fs_expires_at (fw_state f) then throw ErrFlowExpired
                else ret f)))"

section \<open>One-time codes\<close>

fun digits :: "nat \<Rightarrow> nat \<Rightarrow> string" where
  "digits 0 n = []"
| "digits (Suc k) n = digits k (n div 10) @ [char_of (48 + n mod 10)]"

definition code_of :: "32 word \<Rightarrow> string" where
  "code_of w = digits 6 (unat w mod 1000000)"

definition coreAuthRandomCode :: "sys \<Rightarrow> string tx" where
  "coreAuthRandomCode sy = draw (\<lambda>n. code_of (sy_word sy n))"

definition issueCode :: "sys \<Rightarrow> ctx \<Rightarrow> securityFlow \<Rightarrow> securityFlow tx" where
  "issueCode sy c f =
     (if fw_recipient f = [] then ret (f\<lparr>fw_state := (fw_state f)\<lparr>fs_step := ''verify_mfa''\<rparr>\<rparr>)
      else
        tx_bind (coreAuthRandomCode sy) (\<lambda>code.
        let f = f\<lparr>fw_code_hash := accountHashToken sy code, fw_code_expires := nowIn c + 10 * Minute,
                  fw_state := (fw_state f)\<lparr>fs_attempts_left := 5, fs_resend_at := Some (nowIn c + Minute),
                                          fs_contact_masked := securityMask (fw_recipient f)\<rparr>\<rparr> in
        tx_bind (newUUID sy) (\<lambda>u.
        tx_bind (queueDelivery sy c (securityFlowScope f)
                   \<lparr>dp_to = fw_recipient f, dp_template = ''security_code'', dp_code = code, dp_continuation = [],
                    dp_summary = [], dp_link = [], dp_locale = []\<rparr>
                   (fw_incident_id f) (fw_case_id f) (''code:'' @ fw_id f @ '':'' @ u)) (\<lambda>_.
          ret f))))"

section \<open>Reviews\<close>

record SecurityFlowInput =
  fi_exchange_key :: string
  fi_request_id :: string
  fi_device_id :: string
  fi_credential :: "json option"
  fi_action :: string
  fi_incident_id :: string
  fi_session_id :: string
  fi_continuation_token :: string
  fi_identifier :: string
  fi_contact :: string
  fi_code :: string
  fi_password :: string
  fi_new_password :: string
  fi_factor_id :: string
  fi_message :: string
  fi_all_sessions :: bool
  fi_version :: int

definition no_input :: SecurityFlowInput where
  "no_input =
     \<lparr>fi_exchange_key = [], fi_request_id = [], fi_device_id = [], fi_credential = None, fi_action = [],
      fi_incident_id = [], fi_session_id = [], fi_continuation_token = [], fi_identifier = [], fi_contact = [],
      fi_code = [], fi_password = [], fi_new_password = [], fi_factor_id = [], fi_message = [],
      fi_all_sessions = False, fi_version = 0\<rparr>"

definition priorMFARequired :: "securityFlow \<Rightarrow> bool tx" where
  "priorMFARequired f =
     query (\<lambda>d. list_ex (\<lambda>r. f_project_id r = fw_project_id f \<and> f_environment r = fw_environment f
                \<and> f_user_id r = fw_account_id f \<and> f_status r = ''active'' \<and> f_created_at r \<le> fw_cutoff f) (db_factors d))"

text \<open>\<open>load\<close> on the incident and on the device table.\<close>

definition load_incident :: "SecurityScope \<Rightarrow> string \<Rightarrow> (SecurityIncident \<times> securityIncidentPrivate) tx" where
  "load_incident scope i =
     tx_bind (query (\<lambda>d. find (\<lambda>r. ic_id r = i \<and> ic_project_id r = scp_project_id scope
                \<and> ic_environment r = scp_environment scope
                \<and> (scp_account_id scope = [] \<or> ic_user_id r = scp_account_id scope)) (db_incidents d))) (\<lambda>row.
       case row of
         None \<Rightarrow> throw ErrNotFound
       | Some r \<Rightarrow> tx_bind (unmarshal (ic_data r)) (\<lambda>v.
                   tx_bind (unmarshal (ic_private_data r)) (\<lambda>priv. ret (v, priv))))"

definition load_device :: "SecurityScope \<Rightarrow> string \<Rightarrow> SecurityDevice tx" where
  "load_device scope i =
     tx_bind (query (\<lambda>d. find (\<lambda>r. dv_id r = i \<and> dv_project_id r = scp_project_id scope
                \<and> dv_environment r = scp_environment scope
                \<and> (scp_account_id scope = [] \<or> dv_user_id r = scp_account_id scope)) (db_devices d))) (\<lambda>row.
       case row of None \<Rightarrow> throw ErrNotFound | Some r \<Rightarrow> unmarshal (dv_data r))"

definition review_target :: "SecurityScope \<Rightarrow> securityFlow \<Rightarrow> SecurityFlowInput \<Rightarrow> Account \<Rightarrow> securityFlow tx" where
  "review_target scope f inp a =
     (if fi_incident_id inp \<noteq> []
      then tx_bind (load_incident scope (fi_incident_id inp)) (\<lambda>(inc, priv).
             if in_status inc = ''resolved'' then throw (WithMessage ''Incident is already resolved'' ErrConflict)
             else ret (f\<lparr>fw_contacts := priv, fw_incident_id := in_id inc, fw_target_session := in_session_id inc,
                         fw_cutoff := in_created_at inc,
                         fw_recipient := (if ip_email priv = [] then ip_phone priv else ip_email priv),
                         fw_mfa_required := ip_mfa_required priv\<rparr>))
      else
        let f = f\<lparr>fw_target_session := fi_session_id inp,
                  fw_recipient := (if acc_email_verified a then acc_primary_email a
                                   else if acc_phone_verified a then acc_primary_phone a else fw_recipient f)\<rparr>
        in if fw_target_session f = [] \<or> fw_incident_id f \<noteq> [] then ret f
           else tx_bind (query (\<lambda>d. list_ex (\<lambda>r. s_id r = fw_target_session f \<and> s_project_id r = scp_project_id scope
                           \<and> s_environment r = scp_environment scope \<and> s_user_id r = scp_account_id scope)
                           (db_sessions d))) (\<lambda>found.
                  if found then ret f else throw ErrSessionNotFound))"

definition startReview :: "sys \<Rightarrow> ctx \<Rightarrow> SecurityScope \<Rightarrow> securityFlow \<Rightarrow> SecurityFlowInput \<Rightarrow> securityFlow tx" where
  "startReview sy c scope f inp =
     tx_bind (security_account scope) (\<lambda>a.
     tx_bind (review_target scope (f\<lparr>fw_contacts := securityVerifiedContacts a\<rparr>) inp a) (\<lambda>f.
     tx_bind (if fi_device_id inp = [] then ret f
              else tx_bind (load_device scope (fi_device_id inp)) (\<lambda>device.
                     if sd_revoked device \<or> scp_session_id scope \<notin> set (sd_session_ids device) then throw ErrForbidden
                     else ret (f\<lparr>fw_purpose := ''trust'', fw_target_device_id := fi_device_id inp,
                                 fw_target_session := scp_session_id scope\<rparr>))) (\<lambda>f.
     tx_bind (priorMFARequired f) (\<lambda>activeMFA.
       issueCode sy c (f\<lparr>fw_mfa_required := fw_mfa_required f \<or> activeMFA,
                         fw_state := (fw_state f)\<lparr>fs_step := ''verify_identity''\<rparr>\<rparr>)))))"

definition validateFlowAuthority :: "securityFlow \<Rightarrow> unit tx" where
  "validateFlowAuthority f =
     tx_bind (if \<not> fw_support_grant f then ret True
              else query (\<lambda>d. list_ex (\<lambda>r. cr_id r = fw_case_id f \<and> cr_project_id r = fw_project_id f
                     \<and> cr_environment r = fw_environment f \<and> cr_status r = ''approved''
                     \<and> cr_grant_flow_id r = fw_id f) (db_cases d))) (\<lambda>valid.
       if \<not> valid then throw ErrInvalidToken
       else if fw_account_id f = [] then ret ()
       else tx_bind (query (\<lambda>d. find (\<lambda>u. u_id u = fw_account_id f \<and> u_project_id u = fw_project_id f
                       \<and> u_environment u = fw_environment f) (db_users d))) (\<lambda>row.
              case row of
                None \<Rightarrow> throw no_rows
              | Some u \<Rightarrow> (case u_security_recovered_at u of
                            Some t \<Rightarrow> if t > fw_cutoff f then throw ErrFlowExpired else ret ()
                          | None \<Rightarrow> ret ())))"

section \<open>The sign-in guard\<close>

text \<open>The context of a transaction that must outlive the request.\<close>

definition background :: "ctx \<Rightarrow> string \<Rightarrow> ctx" where
  "background c env =
     \<lparr>cx_env = env, cx_principal = None, cx_soft = None, cx_meta = cx_meta c, cx_offset = 0, cx_now = cx_now c,
      cx_old_contact = None\<rparr>"

definition requireSignInProof :: "sys \<Rightarrow> ctx \<Rightarrow> SecurityScope \<Rightarrow> unit tx" where
  "requireSignInProof sy c scope =
     (let c = background c (scp_environment scope) in
      tx_bind (independent (
        tx_bind (throttle sy c scope (scp_account_id scope) ''signin_proof'' 5 (15 * Minute)) (\<lambda>ok.
          if \<not> ok then throw ErrRateLimited
          else
            tx_bind (newFlow sy c scope ''review'') (\<lambda>(f, t).
            tx_bind (startReview sy c scope (f\<lparr>fw_purpose := ''signin''\<rparr>) no_input) (\<lambda>f.
            tx_bind (saveFlow sy f t) (\<lambda>_. ret t)))))) (\<lambda>token.
        throw (WithDetails [(''security_flow_token'', DStr token)] ErrStepUpRequired)))"

definition consumeSignInProof :: "sys \<Rightarrow> ctx \<Rightarrow> SecurityScope \<Rightarrow> string \<Rightarrow> string \<Rightarrow> unit tx" where
  "consumeSignInProof sy c scope accountID token =
     tx_bind (loadFlow sy c scope token) (\<lambda>f.
       if fw_current_token f \<noteq> token \<or> fw_account_id f \<noteq> accountID \<or> fw_purpose f \<noteq> ''signin'' \<or> \<not> fw_proved f
          \<or> fs_outcome (fw_state f) \<noteq> ''sign_in_approved''
       then throw ErrInvalidToken
       else
         tx_bind (validateFlowAuthority f) (\<lambda>_.
         tx_bind (saveFlow sy (f\<lparr>fw_proved := False,
                                 fw_state := (fw_state f)\<lparr>fs_outcome := ''sign_in_proof_consumed''\<rparr>\<rparr>) token) (\<lambda>_.
           ret ())))"

definition guardSignIn :: "sys \<Rightarrow> ctx \<Rightarrow> Account \<Rightarrow> int \<Rightarrow> unit tx" where
  "guardSignIn sy c acc aal =
     tx_bind (securityAccountGuard sy c (acc_project_id acc) (acc_id acc)) (\<lambda>_.
     tx_bind (security_scope sy c (account_scope (acc_project_id acc) (cx_env c) (acc_id acc))) (\<lambda>scope.
     tx_bind (security_Policy sy c scope) (\<lambda>p.
       if sec_mode p \<noteq> ''enforce'' \<or> \<not> sec_require_new_device_proof p \<or> aal \<ge> 2 then ret ()
       else
         let meta = cx_meta c in
         if rm_security_proof meta \<noteq> [] then consumeSignInProof sy c scope (acc_id acc) (rm_security_proof meta)
         else
           tx_bind (query (\<lambda>d. rm_device_token meta \<noteq> [] \<and>
               list_ex (\<lambda>v. dv_project_id v = scp_project_id scope \<and> dv_environment v = scp_environment scope
                            \<and> dv_user_id v = scp_account_id scope
                            \<and> dv_token_hash v = accountHashToken sy (rm_device_token meta)
                            \<and> (case dv_data v of Some dev \<Rightarrow> \<not> sd_revoked dev | None \<Rightarrow> False))
                       (db_devices d))) (\<lambda>known.
             if known then ret ()
             else
               tx_bind (query (\<lambda>d.
                   list_ex (\<lambda>u. u_id u = acc_id acc \<and> u_created_at u < nowIn c - Minute) (db_users d)
                   \<or> list_ex (\<lambda>r. s_user_id r = acc_id acc) (db_sessions d))) (\<lambda>existing.
                 if \<not> existing then ret () else requireSignInProof sy c scope)))))"

text \<open>A failed password or factor check, counted in a transaction of its own.\<close>

definition recordFailure :: "sys \<Rightarrow> ctx \<Rightarrow> string \<Rightarrow> string \<Rightarrow> string \<Rightarrow> unit tx" where
  "recordFailure sy c projectID accountID kind =
     tx_bind (security_scope sy c (account_scope projectID (cx_env c) accountID)) (\<lambda>scope.
     tx_bind (security_Policy sy c scope) (\<lambda>p.
       if sec_mode p = ''disabled'' then ret ()
       else
         let c = background c (scp_environment scope) in
         independent (
           tx_bind (throttle sy c scope accountID kind (sec_failure_threshold p - 1)
                      (seconds (sec_failure_window_seconds p))) (\<lambda>ok.
             if ok then ret ()
             else
               tx_handle (security_account scope)
                 (\<lambda>e. if err_is e ErrUserNotFound then ret () else throw e)
                 (\<lambda>a. tx_bind (query (\<lambda>d. list_ex (\<lambda>r. f_project_id r = scp_project_id scope
                             \<and> f_environment r = scp_environment scope \<and> f_user_id r = accountID
                             \<and> f_status r = ''active'' \<and> f_created_at r \<le> nowIn c) (db_factors d))) (\<lambda>required.
                     recordIncident sy c scope kind [] [] ''warning'' ''blocked'' [kind]
                       ((securityVerifiedContacts a)\<lparr>ip_mfa_required := required \<or> kind = ''mfa_failures''\<rparr>) p))))))"

section \<open>Frames\<close>

lemma forward_flow [intro!]:
  "forward (newFlow sy c v k)" "forward (saveFlow sy f t)" "forward (loadFlow sy c v t)" "forward (issueCode sy c f)"
  "forward (validateFlowAuthority f)" "forward (load_incident v i)" "forward (load_device v i)"
  by (auto simp: newFlow_def saveFlow_def loadFlow_def issueCode_def coreAuthRandomCode_def validateFlowAuthority_def
      load_incident_def load_device_def Let_def split: option.split)

lemma forward_startReview [intro!]: "forward (startReview sy c v f inp)"
  by (auto simp: startReview_def review_target_def priorMFARequired_def Let_def split: prod.split)

lemma forward_guardSignIn [intro!]: "forward (guardSignIn sy c acc aal)"
  by (auto simp: guardSignIn_def requireSignInProof_def consumeSignInProof_def Let_def split: prod.split)

end
