(* ===== verification/Sessions.thy ===== *)
theory Sessions
  imports SecurityFlow
begin

text \<open>
  Sessions of the runtime (\<open>src/internal/infrastructure/postgres/coreauth_pg.go\<close>,
  \<open>session_revoke.go\<close>): minting, refresh with rotation
  and reuse detection, code exchange, guests, sign-out and revocation, each the whole transaction
  with every row it writes and every event it emits.
\<close>

section \<open>Constants and mappers\<close>

definition coreAuthDefaultEnv :: string where "coreAuthDefaultEnv = ''live''"
definition coreAuthStatusActive :: string where "coreAuthStatusActive = ''active''"
definition coreAuthStatusSuspended :: string where "coreAuthStatusSuspended = ''suspended''"
definition coreAuthStatusBanned :: string where "coreAuthStatusBanned = ''banned''"
definition coreAuthKindGuest :: string where "coreAuthKindGuest = ''guest''"

definition coreAuthLoadAccount :: "user_row \<Rightarrow> string \<Rightarrow> Account tx" where
  "coreAuthLoadAccount row projectID =
     (if u_project_id row \<noteq> projectID then throw ErrUserNotFound else unmarshal (u_data row))"

definition coreAuthLoadSession :: "session_row \<Rightarrow> string \<Rightarrow> Session tx" where
  "coreAuthLoadSession row projectID =
     (if s_project_id row \<noteq> projectID then throw ErrSessionNotFound else unmarshal (s_data row))"

definition coreAuthAccountActive :: "instant \<Rightarrow> Account \<Rightarrow> unit res" where
  "coreAuthAccountActive now acc =
     (if (case acc_deletion acc of
            Some d \<Rightarrow> ad_status d = ''pending'' \<and> (case ad_delete_at d of Some t \<Rightarrow> \<not> now < t | None \<Rightarrow> False)
          | None \<Rightarrow> False)
      then Inl deletion_deadline_passed
      else if acc_status acc = coreAuthStatusSuspended then Inl ErrAccountSuspended
      else if acc_status acc = coreAuthStatusBanned then Inl ErrAccountBanned
      else if acc_status acc = [] then Inr ()
      else if acc_status acc = coreAuthStatusActive then Inr ()
      else Inl ErrForbidden)"

text \<open>The primary-key finders; the error is the one their callers map a missing row to.\<close>

definition FindIamUser :: "error \<Rightarrow> string \<Rightarrow> user_row tx" where
  "FindIamUser missing i =
     tx_bind (query (\<lambda>d. find (\<lambda>r. u_id r = i) (db_users d))) (\<lambda>r.
       case r of Some row \<Rightarrow> ret row | None \<Rightarrow> throw missing)"

definition FindIamSession :: "error \<Rightarrow> string \<Rightarrow> session_row tx" where
  "FindIamSession missing i =
     tx_bind (query (\<lambda>d. find (\<lambda>r. s_id r = i) (db_sessions d))) (\<lambda>r.
       case r of Some row \<Rightarrow> ret row | None \<Rightarrow> throw missing)"

section \<open>Tokens\<close>

definition oidcIssuer :: "string \<Rightarrow> string \<Rightarrow> string \<Rightarrow> string" where
  "oidcIssuer base projectID env =
     (if base = [] then [] else base @ ''/p/'' @ projectID @ ''/e/'' @ env)"

definition coreAuthSignAccessToken ::
  "sys \<Rightarrow> ctx \<Rightarrow> Account \<Rightarrow> string \<Rightarrow> string \<Rightarrow> string \<Rightarrow> string list \<Rightarrow> int \<Rightarrow> duration \<Rightarrow> bool \<Rightarrow> string tx" where
  "coreAuthSignAccessToken sy c acc sessionID clientID signEnv amr aal ttl includeRoles =
     (let aud = (if clientID = [] then acc_project_id acc else clientID) in
      tx_bind (newUUID sy) (\<lambda>jti.
      tx_bind (if includeRoles then userRoles (acc_project_id acc) signEnv (acc_id acc) else ret []) (\<lambda>roles.
        Sign sy c (acc_project_id acc) signEnv
          ([(''iss'', CStr (oidcIssuer (sy_public_url sy) (acc_project_id acc) signEnv)),
            (''sub'', CStr (acc_id acc)),
            (''sid'', CStr sessionID),
            (''jti'', CStr jti),
            (''pid'', CStr (acc_project_id acc)),
            (''aud'', CStr aud),
            (''aal'', CInt aal),
            (''amr'', CStrs amr),
            (''typ'', CStr ''access''),
            (''env'', CStr signEnv)]
           @ (if clientID \<noteq> [] then [(''client_id'', CStr clientID)] else [])
           @ (if roles \<noteq> [] then [(''roles'', CStrs roles)] else []))
          ttl)))"

definition coreAuthSessionLifetime :: "EffectiveSessionPolicy \<Rightarrow> duration" where
  "coreAuthSessionLifetime sp =
     (if es_absolute_timeout sp > 0 \<and> es_absolute_timeout sp < es_refresh_ttl sp
      then es_absolute_timeout sp else es_refresh_ttl sp)"

definition coreAuthRefreshHorizon :: "instant \<Rightarrow> instant \<Rightarrow> EffectiveSessionPolicy \<Rightarrow> instant" where
  "coreAuthRefreshHorizon now createdAt sp =
     (let horizon = now + es_refresh_ttl sp in
      if es_absolute_timeout sp > 0 \<and> createdAt + es_absolute_timeout sp < horizon
      then createdAt + es_absolute_timeout sp else horizon)"

text \<open>\<open>int(d / time.Second)\<close>: division truncates toward zero.\<close>

definition whole_seconds :: "duration \<Rightarrow> int" where
  "whole_seconds d = (if d < 0 then - ((- d) div Second) else d div Second)"

definition refreshTokenEnv :: "coreAuthRefreshToken \<Rightarrow> string" where
  "refreshTokenEnv rt = (if rd_environment rt = [] then coreAuthDefaultEnv else rd_environment rt)"

text \<open>The row a refresh-token envelope is inserted as.\<close>

definition refresh_row_of :: "coreAuthRefreshToken \<Rightarrow> refresh_row" where
  "refresh_row_of rt =
     \<lparr>rt_id = rd_id rt, rt_project_id = rd_project_id rt, rt_environment = refreshTokenEnv rt,
      rt_user_id = rd_user_id rt, rt_session_id = rd_session_id rt, rt_hash = rd_hash rt,
      rt_revoked = rd_revoked rt, rt_expires_at = Some (rd_expires_at rt), rt_created_at = rd_created_at rt,
      rt_data = Some rt\<rparr>"

definition coreAuthInsertRefreshToken :: "coreAuthRefreshToken \<Rightarrow> unit tx" where
  "coreAuthInsertRefreshToken rt = insert_row db_refresh db_refresh_update rt_id (refresh_row_of rt)"

section \<open>Minting\<close>

definition session_row_of ::
  "Session \<Rightarrow> string \<Rightarrow> int \<Rightarrow> string \<Rightarrow> instant \<Rightarrow> EffectiveSessionPolicy \<Rightarrow> session_row" where
  "session_row_of sess signEnv aal clientID now sp =
     \<lparr>s_id = se_id sess, s_project_id = se_project_id sess, s_environment = signEnv,
      s_user_id = se_account_id sess, s_client_id = (if clientID \<noteq> [] then Some clientID else None),
      s_aal = aal, s_trusted = False, s_expires_at = Some (now + coreAuthSessionLifetime sp),
      s_created_at = now, s_last_active_at = now, s_device_id = None,
      s_data = Some sess\<rparr>"

definition coreAuthInsertSessionRow ::
  "Session \<Rightarrow> string \<Rightarrow> int \<Rightarrow> string \<Rightarrow> instant \<Rightarrow> EffectiveSessionPolicy \<Rightarrow> unit tx" where
  "coreAuthInsertSessionRow sess signEnv aal clientID now sp =
     insert_row db_sessions db_sessions_update s_id (session_row_of sess signEnv aal clientID now sp)"

definition newCoreAuthSession ::
  "ctx \<Rightarrow> string \<Rightarrow> Account \<Rightarrow> string \<Rightarrow> string list \<Rightarrow> int \<Rightarrow> string \<Rightarrow> string \<Rightarrow> EffectiveSessionPolicy \<Rightarrow> instant \<Rightarrow> Session" where
  "newCoreAuthSession c sessionID acc clientID amr aal accessToken refreshPlain sp now =
     (let meta = cx_meta c in
      \<lparr>se_id = sessionID, se_account_id = acc_id acc, se_project_id = acc_project_id acc, se_client_id = clientID,
       se_amr = amr, se_aal = aal, se_access_token = accessToken, se_refresh_token = refreshPlain,
       se_expires_in = whole_seconds (es_access_ttl sp), se_refresh_expires_in = whole_seconds (es_refresh_ttl sp),
       se_created_at = now, se_device_name = rm_device_name meta, se_ip = rm_ip meta,
       se_user_agent = rm_user_agent meta, se_fingerprint = rm_fingerprint meta, se_trusted = False,
       se_last_active_at = now\<rparr>)"

definition coreAuthMintSession :: "sys \<Rightarrow> ctx \<Rightarrow> Account \<Rightarrow> string \<Rightarrow> string list \<Rightarrow> int \<Rightarrow> Session tx" where
  "coreAuthMintSession sy c acc clientID amr aal0 =
     tx_bind (guardSignIn sy c acc aal0) (\<lambda>_.
     let now = cx_now c; aal = (if aal0 \<le> 0 then 1 else aal0) in
     tx_bind (newUUID sy) (\<lambda>sessionID.
     tx_bind (SessionPolicy sy c (acc_project_id acc)) (\<lambda>sp.
     tx_bind (resolveSignEnv c (acc_project_id acc) coreAuthDefaultEnv) (\<lambda>signEnv.
     tx_bind (coreAuthSignAccessToken sy c acc sessionID clientID signEnv amr aal (es_access_ttl sp)
                (RolesClaimEnabled sp)) (\<lambda>accessToken.
     tx_bind (coreAuthRandomToken sy) (\<lambda>refreshPlain.
     let sess = newCoreAuthSession c sessionID acc clientID amr aal accessToken refreshPlain sp now in
     tx_bind (coreAuthInsertSessionRow sess signEnv aal clientID now sp) (\<lambda>_.
     tx_bind (newUUID sy) (\<lambda>rid.
     tx_bind (coreAuthInsertRefreshToken
                \<lparr>rd_id = rid, rd_project_id = acc_project_id acc, rd_environment = signEnv, rd_user_id = acc_id acc,
                 rd_session_id = sessionID, rd_hash = coreAuthSHA256 sy refreshPlain, rd_revoked = False,
                 rd_expires_at = coreAuthRefreshHorizon now now sp, rd_created_at = now\<rparr>) (\<lambda>_.
     tx_bind (Emit sy c ''session.created'' (se_project_id sess) signEnv (se_id sess) (PSession sess)) (\<lambda>_.
       ret sess))))))))))"

section \<open>Rotation\<close>

definition coreAuthRotateAAL :: "session_row \<Rightarrow> Session \<Rightarrow> int \<times> string list \<times> string" where
  "coreAuthRotateAAL row prev =
     (let aal = (if s_aal row \<le> 0 then se_aal prev else s_aal row);
          aal = (if aal \<le> 0 then 1 else aal) in
      (aal, se_amr prev, se_client_id prev))"

definition coreAuthUpdateRotatedSession ::
  "session_row \<Rightarrow> Session \<Rightarrow> EffectiveSessionPolicy \<Rightarrow> instant \<Rightarrow> instant tx" where
  "coreAuthUpdateRotatedSession row sess sp now =
     (let horizon = coreAuthRefreshHorizon now (s_created_at row) sp in
      tx_bind (exec (db_sessions_update (update_where (\<lambda>r. s_id r = s_id row)
          (\<lambda>r. r\<lparr>s_last_active_at := now, s_expires_at := Some horizon, s_device_id := None,
                s_data := Some sess\<rparr>)))) (\<lambda>_.
        ret horizon))"

definition coreAuthBuildRotatedSession ::
  "ctx \<Rightarrow> Account \<Rightarrow> Session \<Rightarrow> string \<Rightarrow> string \<Rightarrow> string list \<Rightarrow> int \<Rightarrow> string \<Rightarrow> string \<Rightarrow> EffectiveSessionPolicy \<Rightarrow> instant \<Rightarrow> Session" where
  "coreAuthBuildRotatedSession c acc prev sessionID clientID amr aal accessToken refreshPlain sp now =
     \<lparr>se_id = sessionID, se_account_id = acc_id acc, se_project_id = acc_project_id acc, se_client_id = clientID,
      se_amr = amr, se_aal = aal, se_access_token = accessToken, se_refresh_token = refreshPlain,
      se_expires_in = whole_seconds (es_access_ttl sp), se_refresh_expires_in = whole_seconds (es_refresh_ttl sp),
      se_created_at = se_created_at prev, se_device_name = se_device_name prev,
      se_ip = (if rm_ip (cx_meta c) \<noteq> [] then rm_ip (cx_meta c) else se_ip prev),
      se_user_agent = se_user_agent prev, se_fingerprint = se_fingerprint prev, se_trusted = se_trusted prev,
      se_last_active_at = now\<rparr>"

definition coreAuthRotateSession :: "sys \<Rightarrow> ctx \<Rightarrow> Account \<Rightarrow> session_row \<Rightarrow> Session tx" where
  "coreAuthRotateSession sy c acc row =
     (let now = cx_now c in
      tx_bind (coreAuthLoadSession row (s_project_id row)) (\<lambda>prev.
      tx_bind (SessionPolicy sy c (acc_project_id acc)) (\<lambda>sp.
      case coreAuthRotateAAL row prev of (aal, amr, clientID) \<Rightarrow>
      tx_bind (resolveSignEnv c (acc_project_id acc) coreAuthDefaultEnv) (\<lambda>signEnv.
      tx_bind (coreAuthSignAccessToken sy c acc (s_id row) clientID signEnv amr aal (es_access_ttl sp)
                 (RolesClaimEnabled sp)) (\<lambda>accessToken.
      tx_bind (coreAuthRandomToken sy) (\<lambda>refreshPlain.
      let sess = coreAuthBuildRotatedSession c acc prev (s_id row) clientID amr aal accessToken refreshPlain sp now in
      tx_bind (coreAuthUpdateRotatedSession row sess sp now) (\<lambda>horizon.
      tx_bind (newUUID sy) (\<lambda>rid.
      tx_bind (coreAuthInsertRefreshToken
                 \<lparr>rd_id = rid, rd_project_id = acc_project_id acc, rd_environment = signEnv, rd_user_id = acc_id acc,
                  rd_session_id = s_id row, rd_hash = coreAuthSHA256 sy refreshPlain, rd_revoked = False,
                  rd_expires_at = horizon, rd_created_at = now\<rparr>) (\<lambda>_.
        ret sess)))))))))"

section \<open>Revocation\<close>

definition mark_revoked :: "coreAuthRefreshToken option \<Rightarrow> refresh_row \<Rightarrow> refresh_row" where
  "mark_revoked data r = r\<lparr>rt_revoked := True, rt_data := data\<rparr>"

definition empty_refresh_token :: coreAuthRefreshToken where
  "empty_refresh_token =
     \<lparr>rd_id = [], rd_project_id = [], rd_environment = [], rd_user_id = [], rd_session_id = [], rd_hash = [],
      rd_revoked = False, rd_expires_at = zeroTime, rd_created_at = zeroTime\<rparr>"

definition coreAuthMarkRefreshRevoked :: "refresh_row \<Rightarrow> unit tx" where
  "coreAuthMarkRefreshRevoked row =
     (let data = (case rt_data row of Some v \<Rightarrow> v | None \<Rightarrow> empty_refresh_token) in
      exec (db_refresh_update (update_where (\<lambda>r. rt_id r = rt_id row)
        (mark_revoked (Some (data\<lparr>rd_revoked := True\<rparr>))))))"

text \<open>The loop over a session's live refresh tokens.\<close>

fun revoke_refresh_rows :: "refresh_row list \<Rightarrow> unit tx" where
  "revoke_refresh_rows [] = ret ()"
| "revoke_refresh_rows (r # rs) =
     tx_bind (unmarshal (rt_data r)) (\<lambda>data.
     tx_bind (exec (db_refresh_update (update_where (\<lambda>x. rt_id x = rt_id r)
                (mark_revoked (Some (data\<lparr>rd_revoked := True\<rparr>)))))) (\<lambda>_.
       revoke_refresh_rows rs))"

definition revokeSessionRecord :: "sys \<Rightarrow> ctx \<Rightarrow> session_row \<Rightarrow> unit tx" where
  "revokeSessionRecord sy c row =
     tx_bind (query (\<lambda>d. filter (\<lambda>r. rt_project_id r = s_project_id row \<and> rt_session_id r = s_id row \<and> \<not> rt_revoked r)
                          (db_refresh d))) (\<lambda>tokens.
     tx_bind (revoke_refresh_rows tokens) (\<lambda>_.
     tx_bind (exec (db_sessions_update (delete_where (\<lambda>r. s_id r = s_id row)))) (\<lambda>_.
       Emit sy c ''session.revoked'' (s_project_id row) (s_environment row) (s_id row)
         (PFields [(''session_id'', DStr (s_id row)), (''user_id'', DStr (s_user_id row)),
                   (''project_id'', DStr (s_project_id row))]))))"

definition coreAuthRevokeSession :: "sys \<Rightarrow> ctx \<Rightarrow> string \<Rightarrow> string \<Rightarrow> unit tx" where
  "coreAuthRevokeSession sy c projectID sessionID =
     tx_bind (FindIamSession ErrSessionNotFound sessionID) (\<lambda>row.
       if projectID \<noteq> [] \<and> s_project_id row \<noteq> projectID then throw ErrSessionNotFound
       else revokeSessionRecord sy c row)"

text \<open>\<open>revokeUserSessions\<close>: the sessions of a user in one environment, but one.\<close>

fun revoke_each :: "sys \<Rightarrow> ctx \<Rightarrow> string \<Rightarrow> session_row list \<Rightarrow> int \<Rightarrow> int tx" where
  "revoke_each sy c exceptID [] n = ret n"
| "revoke_each sy c exceptID (r # rs) n =
     (if exceptID \<noteq> [] \<and> s_id r = exceptID then revoke_each sy c exceptID rs n
      else tx_bind (revokeSessionRecord sy c r) (\<lambda>_. revoke_each sy c exceptID rs (n + 1)))"

definition revokeUserSessions :: "sys \<Rightarrow> ctx \<Rightarrow> string \<Rightarrow> string \<Rightarrow> string \<Rightarrow> string \<Rightarrow> int tx" where
  "revokeUserSessions sy c projectID env userID exceptID =
     tx_bind (query (\<lambda>d. filter (\<lambda>r. s_project_id r = projectID
                \<and> s_environment r = (if env = [] then ''live'' else env) \<and> s_user_id r = userID) (db_sessions d))) (\<lambda>rows.
       revoke_each sy c exceptID rows 0)"

text \<open>\<open>coreAuthRevokeAllForUser\<close>: an error on one session is logged, not returned.\<close>

fun revoke_logged :: "sys \<Rightarrow> ctx \<Rightarrow> string \<Rightarrow> session_row list \<Rightarrow> unit tx" where
  "revoke_logged sy c projectID [] = ret ()"
| "revoke_logged sy c projectID (r # rs) =
     (\<lambda>s. revoke_logged sy c projectID rs (snd (coreAuthRevokeSession sy c projectID (s_id r) s)))"

definition coreAuthRevokeAllForUser :: "sys \<Rightarrow> ctx \<Rightarrow> string \<Rightarrow> string \<Rightarrow> unit tx" where
  "coreAuthRevokeAllForUser sy c projectID userID =
     tx_bind (query (\<lambda>d. filter (\<lambda>r. s_project_id r = projectID \<and> s_user_id r = userID) (db_sessions d))) (\<lambda>rows.
       revoke_logged sy c projectID rows)"

text \<open>\<open>coreAuthSignOutAll\<close>: a session that is already gone still counts.\<close>

fun sign_out_each :: "sys \<Rightarrow> ctx \<Rightarrow> string \<Rightarrow> string \<Rightarrow> session_row list \<Rightarrow> int \<Rightarrow> int tx" where
  "sign_out_each sy c projectID exceptID [] n = ret n"
| "sign_out_each sy c projectID exceptID (r # rs) n =
     (if s_id r = exceptID then sign_out_each sy c projectID exceptID rs n
      else (\<lambda>s. case coreAuthRevokeSession sy c projectID (s_id r) s of
              (Inl e, s') \<Rightarrow>
                if \<not> err_is e ErrSessionNotFound then (Inl e, s')
                else sign_out_each sy c projectID exceptID rs (n + 1) s'
            | (Inr _, s') \<Rightarrow> sign_out_each sy c projectID exceptID rs (n + 1) s'))"

definition coreAuthSignOutAll :: "sys \<Rightarrow> ctx \<Rightarrow> string \<Rightarrow> string \<Rightarrow> string \<Rightarrow> int tx" where
  "coreAuthSignOutAll sy c projectID userID exceptID =
     tx_bind (query (\<lambda>d. filter (\<lambda>r. s_project_id r = projectID \<and> s_user_id r = userID) (db_sessions d))) (\<lambda>rows.
       sign_out_each sy c projectID exceptID rows 0)"

definition SignOut :: "sys \<Rightarrow> ctx \<Rightarrow> string \<Rightarrow> bool \<Rightarrow> unit tx" where
  "SignOut sy c sessionID everywhere =
     (if sessionID = [] then throw ErrSessionNotFound
      else withTx (
        tx_bind (FindIamSession ErrSessionNotFound sessionID) (\<lambda>row.
          if everywhere then
            tx_bind (coreAuthSignOutAll sy c (s_project_id row) (s_user_id row) []) (\<lambda>_.
              Emit sy c ''user.signed_out_everywhere'' (s_project_id row) coreAuthDefaultEnv (s_user_id row)
                (PFields [(''account_id'', DStr (s_user_id row)), (''project_id'', DStr (s_project_id row))]))
          else
            tx_bind (coreAuthRevokeSession sy c (s_project_id row) sessionID) (\<lambda>_.
              Emit sy c ''user.signed_out'' (s_project_id row) coreAuthDefaultEnv (s_user_id row)
                (PFields [(''account_id'', DStr (s_user_id row)), (''session_id'', DStr sessionID),
                          (''project_id'', DStr (s_project_id row))])))))"

definition SignOutAll :: "sys \<Rightarrow> ctx \<Rightarrow> string \<Rightarrow> string \<Rightarrow> int tx" where
  "SignOutAll sy c accountID exceptID =
     (if accountID = [] then throw ErrUserNotFound
      else withTx (
        tx_bind (FindIamUser ErrUserNotFound accountID) (\<lambda>userRow.
        tx_bind (coreAuthSignOutAll sy c (u_project_id userRow) accountID exceptID) (\<lambda>n.
        tx_bind (Emit sy c ''user.sessions_revoked'' (u_project_id userRow) coreAuthDefaultEnv accountID
                   (PFields [(''account_id'', DStr accountID), (''count'', DInt n),
                             (''project_id'', DStr (u_project_id userRow))])) (\<lambda>_.
          ret n)))))"

section \<open>What the steps leave alone\<close>

lemma keeps_find [intro!]: "keeps p (FindIamUser e i)" "keeps p (FindIamSession e i)"
  by (auto simp: FindIamUser_def FindIamSession_def split: option.split)

lemma keeps_load [intro!]: "keeps p (coreAuthLoadAccount ur pid)" "keeps p (coreAuthLoadSession sr pid)"
  by (auto simp: coreAuthLoadAccount_def coreAuthLoadSession_def)

lemma keeps_guardSignIn [intro!]:
  "(\<And>d f. p (db_flows_update f d) = p d) \<Longrightarrow> keeps p (guardSignIn sy c acc aal)"
  by (auto simp: guardSignIn_def consumeSignInProof_def requireSignInProof_def loadFlow_def validateFlowAuthority_def
      saveFlow_def Let_def split: option.split)

lemma keeps_coreAuthSignAccessToken [intro!]:
  "(\<And>d f. p (db_keys_update f d) = p d) \<Longrightarrow> keeps p (coreAuthSignAccessToken sy c acc sid cl e amr aal ttl ir)"
  by (auto simp: coreAuthSignAccessToken_def Let_def)

text \<open>The tables of accounts and what authenticates them.\<close>

definition auth_tables where
  "auth_tables d = (db_users d, db_sessions d, db_refresh d, db_credentials d, db_challenges d, db_codes d, db_factors d)"

lemma auth_tables_frame [simp]:
  "auth_tables (db_keys_update f d) = auth_tables d" "auth_tables (db_flows_update h d) = auth_tables d"
  by (simp_all add: auth_tables_def)

lemma auth_tables_side_free [simp, intro!]: "side_free auth_tables" by (simp add: side_free_def auth_tables_def)

lemma insert_row_Inr:
  "insert_row get upd key r s = (Inr u, s') \<longleftrightarrow>
     key r \<notin> set (map key (get (tx_db s))) \<and> s' = s\<lparr>tx_db := upd (\<lambda>rs. rs @ [r]) (tx_db s)\<rparr>"
  by (auto simp: insert_row_def res_simps)

lemma Emit_auth_tables:
  "Emit sy c t pid e a pl s = (r, s') \<Longrightarrow> t \<noteq> ''session.created'' \<Longrightarrow> auth_tables (tx_db s') = auth_tables (tx_db s)"
  by (rule keepsD [OF keeps_Emit]) auto

lemma unobserved:
  "''session.revoked'' \<notin> set observed_types" "''user.signed_out'' \<notin> set observed_types"
  "''user.signed_out_everywhere'' \<notin> set observed_types" "''token.refreshed'' \<notin> set observed_types"
  by (simp_all add: observed_types_def session_events_def)

lemmas Emit_auth_run = Emit_run [OF _ auth_tables_side_free]

text \<open>The same tables up to the device the observer links a session to.\<close>

definition unlink :: "session_row \<Rightarrow> session_row" where "unlink r = r\<lparr>s_device_id := None\<rparr>"

definition linked_tables where "linked_tables d = auth_tables (db_sessions_update (map unlink) d)"

lemma unlink_simps [simp]:
  "s_id (unlink r) = s_id r" "s_project_id (unlink r) = s_project_id r" "s_environment (unlink r) = s_environment r"
  "s_user_id (unlink r) = s_user_id r" "s_client_id (unlink r) = s_client_id r" "s_aal (unlink r) = s_aal r"
  "s_trusted (unlink r) = s_trusted r" "s_expires_at (unlink r) = s_expires_at r"
  "s_created_at (unlink r) = s_created_at r" "s_last_active_at (unlink r) = s_last_active_at r"
  "s_device_id (unlink r) = None" "s_data (unlink r) = s_data r" "unlink (unlink r) = unlink r"
  by (simp_all add: unlink_def)

lemma linked_tables_frame [simp, intro!]:
  "side_free linked_tables" "linked_tables (db_devices_update f d) = linked_tables d"
  "linked_tables (db_sessions_update (update_where q (\<lambda>r. r\<lparr>s_device_id := g\<rparr>)) d) = linked_tables d"
  by (simp_all add: side_free_def linked_tables_def auth_tables_def update_where_def unlink_def o_def if_distrib
      cong: if_cong)

lemma linked_tables_auth: "auth_tables d' = auth_tables d \<Longrightarrow> linked_tables d' = linked_tables d"
  by (simp add: linked_tables_def auth_tables_def)

lemma unlink_eq: "unlink x = unlink y \<Longrightarrow> x = y\<lparr>s_device_id := s_device_id x\<rparr>"
  by (cases x, cases y) (simp add: unlink_def)

lemma unlink_find:
  "map unlink xs = map unlink ys \<Longrightarrow> find (\<lambda>r. s_id r = i) ys = Some y \<Longrightarrow>
     \<exists>dev. find (\<lambda>r. s_id r = i) xs = Some (y\<lparr>s_device_id := dev\<rparr>)"
proof (induction xs arbitrary: ys)
  case (Cons x xs)
  then obtain z zs where ys: "ys = z # zs" "unlink x = unlink z" "map unlink xs = map unlink zs" by (cases ys) auto
  then have "x = z\<lparr>s_device_id := s_device_id x\<rparr>" "s_id x = s_id z" by (simp_all only: unlink_eq) (metis unlink_simps(1))+
  then show ?case using Cons.IH [OF ys(3)] Cons.prems(2) ys(1) by (cases "s_id z = i") (auto intro: exI [of _ "s_device_id x"])
qed auto

text \<open>The steps of a successful mint.\<close>

lemma coreAuthMintSession_steps:
  assumes "coreAuthMintSession sy c acc cl amr aal0 s = (Inr sess, s')"
  defines "aal \<equiv> (if aal0 \<le> 0 then 1 else aal0)" and "now \<equiv> cx_now c"
  obtains s1 s2 s3 s4 s5 s6 s8 sid sp e at plain rid where
    "guardSignIn sy c acc aal0 s = (Inr (), s1)" "newUUID sy s1 = (Inr sid, s2)"
      "SessionPolicy sy c (acc_project_id acc) s2 = (Inr sp, s3)"
      "resolveSignEnv c (acc_project_id acc) coreAuthDefaultEnv s3 = (Inr e, s4)"
      "coreAuthSignAccessToken sy c acc sid cl e amr aal (es_access_ttl sp) (RolesClaimEnabled sp) s4 = (Inr at, s5)"
      "coreAuthRandomToken sy s5 = (Inr plain, s6)"
    and "sess = newCoreAuthSession c sid acc cl amr aal at plain sp now"
    and "sid \<notin> s_id ` set (db_sessions (tx_db s6))"
      "newUUID sy (s6\<lparr>tx_db := db_sessions_update (\<lambda>rs. rs @ [session_row_of sess e aal cl now sp]) (tx_db s6)\<rparr>) = (Inr rid, s8)"
      "rid \<notin> rt_id ` set (db_refresh (tx_db s8))"
    and "Emit sy c ''session.created'' (se_project_id sess) e (se_id sess) (PSession sess)
      (s8\<lparr>tx_db := db_refresh_update (\<lambda>rs. rs @ [refresh_row_of
                       \<lparr>rd_id = rid, rd_project_id = acc_project_id acc, rd_environment = e, rd_user_id = acc_id acc,
                        rd_session_id = sid, rd_hash = coreAuthSHA256 sy plain, rd_revoked = False,
                        rd_expires_at = coreAuthRefreshHorizon now now sp, rd_created_at = now\<rparr>]) (tx_db s8)\<rparr>) = (Inr (), s')"
      using assms(1) that unfolding coreAuthMintSession_def Let_def aal_def [symmetric] now_def [symmetric]
  by (auto simp: res_simps coreAuthInsertSessionRow_def coreAuthInsertRefreshToken_def insert_row_Inr
        session_row_of_def refresh_row_of_def newCoreAuthSession_def Let_def)

text \<open>What a successful mint has written: one session row and one live refresh token of it.\<close>

lemma coreAuthMintSession_Inr:
  assumes "coreAuthMintSession sy c acc cl amr aal0 s = (Inr sess, s')"
  defines "aal \<equiv> (if aal0 \<le> 0 then 1 else aal0)" and "now \<equiv> cx_now c"
  obtains sp e rid sid at plain where
    "sess = newCoreAuthSession c sid acc cl amr aal at plain sp now"
    and "sid \<notin> s_id ` set (db_sessions (tx_db s))" and "rid \<notin> rt_id ` set (db_refresh (tx_db s))"
    and "linked_tables (tx_db s') = linked_tables
           ((tx_db s)\<lparr>db_sessions := db_sessions (tx_db s) @ [session_row_of sess e aal cl now sp],
                     db_refresh := db_refresh (tx_db s) @ [refresh_row_of
                       \<lparr>rd_id = rid, rd_project_id = acc_project_id acc, rd_environment = e, rd_user_id = acc_id acc,
                        rd_session_id = sid, rd_hash = coreAuthSHA256 sy plain, rd_revoked = False,
                        rd_expires_at = coreAuthRefreshHorizon now now sp, rd_created_at = now\<rparr>]\<rparr>)"
proof -
  from coreAuthMintSession_steps [OF assms(1), folded aal_def now_def]
  obtain s1 s2 s3 s4 s5 s6 s8 sid sp e at plain rid where
    st: "guardSignIn sy c acc aal0 s = (Inr (), s1)" "newUUID sy s1 = (Inr sid, s2)"
      "SessionPolicy sy c (acc_project_id acc) s2 = (Inr sp, s3)"
      "resolveSignEnv c (acc_project_id acc) coreAuthDefaultEnv s3 = (Inr e, s4)"
      "coreAuthSignAccessToken sy c acc sid cl e amr aal (es_access_ttl sp) (RolesClaimEnabled sp) s4 = (Inr at, s5)"
      "coreAuthRandomToken sy s5 = (Inr plain, s6)"
    and sess: "sess = newCoreAuthSession c sid acc cl amr aal at plain sp now"
    and ins: "sid \<notin> s_id ` set (db_sessions (tx_db s6))"
      "newUUID sy (s6\<lparr>tx_db := db_sessions_update (\<lambda>rs. rs @ [session_row_of sess e aal cl now sp]) (tx_db s6)\<rparr>) = (Inr rid, s8)"
      "rid \<notin> rt_id ` set (db_refresh (tx_db s8))"
    and em: "Emit sy c ''session.created'' (se_project_id sess) e (se_id sess) (PSession sess)
      (s8\<lparr>tx_db := db_refresh_update (\<lambda>rs. rs @ [refresh_row_of
                       \<lparr>rd_id = rid, rd_project_id = acc_project_id acc, rd_environment = e, rd_user_id = acc_id acc,
                        rd_session_id = sid, rd_hash = coreAuthSHA256 sy plain, rd_revoked = False,
                        rd_expires_at = coreAuthRefreshHorizon now now sp, rd_created_at = now\<rparr>]) (tx_db s8)\<rparr>) = (Inr (), s')"
    .
  have pre: "auth_tables (tx_db s6) = auth_tables (tx_db s)"
    using keepsD [where p = auth_tables, OF keeps_guardSignIn st(1)]
      keepsD [where p = auth_tables, OF keeps_newUUID st(2)]
      keepsD [where p = auth_tables, OF keeps_SessionPolicy st(3)]
      keepsD [where p = auth_tables, OF keeps_resolveSignEnv st(4)]
      keepsD [where p = auth_tables, OF keeps_coreAuthSignAccessToken st(5)]
      keepsD [where p = auth_tables, OF keeps_coreAuthRandomToken st(6)] by simp
  have s8: "tx_db s8 = db_sessions_update (\<lambda>rs. rs @ [session_row_of sess e aal cl now sp]) (tx_db s6)"
    using ins(2) by (auto simp: newUUID_def)
  have "linked_tables (tx_db s') = linked_tables (db_refresh_update (\<lambda>rs. rs @ [refresh_row_of
                       \<lparr>rd_id = rid, rd_project_id = acc_project_id acc, rd_environment = e, rd_user_id = acc_id acc,
                        rd_session_id = sid, rd_hash = coreAuthSHA256 sy plain, rd_revoked = False,
                        rd_expires_at = coreAuthRefreshHorizon now now sp, rd_created_at = now\<rparr>]) (tx_db s8))"
    using keepsD [where p = linked_tables, OF keeps_Emit_created em] by simp
  then show thesis
    using that [OF sess] ins pre by (simp add: s8 linked_tables_def auth_tables_def)
qed

section \<open>Revocation: lemmas\<close>

text \<open>The effect of the revocation loop on one row of the refresh-token table.\<close>

definition revoke_row :: "refresh_row list \<Rightarrow> refresh_row \<Rightarrow> refresh_row" where
  "revoke_row rs y =
     fold (\<lambda>r x. if rt_id x = rt_id r then mark_revoked (Some ((the (rt_data r))\<lparr>rd_revoked := True\<rparr>)) x else x) rs y"

lemma mark_revoked_simps [simp]:
  "rt_id (mark_revoked v r) = rt_id r" "rt_project_id (mark_revoked v r) = rt_project_id r"
  "rt_environment (mark_revoked v r) = rt_environment r" "rt_user_id (mark_revoked v r) = rt_user_id r"
  "rt_session_id (mark_revoked v r) = rt_session_id r" "rt_hash (mark_revoked v r) = rt_hash r"
  "rt_expires_at (mark_revoked v r) = rt_expires_at r" "rt_created_at (mark_revoked v r) = rt_created_at r"
  "rt_revoked (mark_revoked v r)" "rt_data (mark_revoked v r) = v"
  by (simp_all add: mark_revoked_def)

lemma revoke_row_Nil [simp]: "revoke_row [] y = y" by (simp add: revoke_row_def)

lemma revoke_row_Cons:
  "revoke_row (r # rs) y =
     revoke_row rs (if rt_id y = rt_id r then mark_revoked (Some ((the (rt_data r))\<lparr>rd_revoked := True\<rparr>)) y else y)"
  by (simp add: revoke_row_def)

lemma revoke_row_identity [simp]:
  "rt_id (revoke_row rs y) = rt_id y" "rt_project_id (revoke_row rs y) = rt_project_id y"
  "rt_environment (revoke_row rs y) = rt_environment y" "rt_user_id (revoke_row rs y) = rt_user_id y"
  "rt_session_id (revoke_row rs y) = rt_session_id y" "rt_hash (revoke_row rs y) = rt_hash y"
  "rt_expires_at (revoke_row rs y) = rt_expires_at y" "rt_created_at (revoke_row rs y) = rt_created_at y"
  by (induction rs arbitrary: y) (simp_all add: revoke_row_Cons)

lemma revoke_row_revoked [simp]: "rt_revoked (revoke_row rs y) \<longleftrightarrow> rt_revoked y \<or> rt_id y \<in> rt_id ` set rs"
  by (induction rs arbitrary: y) (auto simp: revoke_row_Cons)

lemma revoke_row_other: "rt_id y \<notin> rt_id ` set rs \<Longrightarrow> revoke_row rs y = y"
  by (induction rs arbitrary: y) (auto simp: revoke_row_Cons)

lemma revoke_refresh_rows_Inr:
  "revoke_refresh_rows rs s = (Inr (), s') \<longleftrightarrow>
     (\<forall>r \<in> set rs. rt_data r \<noteq> None) \<and> s' = s\<lparr>tx_db := db_refresh_update (map (revoke_row rs)) (tx_db s)\<rparr>"
proof (induction rs arbitrary: s s')
  case Nil
  then show ?case by (auto simp: revoke_row_def)
next
  case (Cons r rs)
  show ?case
  proof (cases "rt_data r")
    case None
    then show ?thesis by (auto simp: res_simps)
  next
    case (Some v)
    then show ?thesis by (simp add: res_simps Cons.IH update_where_def revoke_row_Cons o_def Some cong: if_cong)
  qed
qed

definition session_tokens :: "session_row \<Rightarrow> db \<Rightarrow> refresh_row list" where
  "session_tokens row d =
     filter (\<lambda>r. rt_project_id r = s_project_id row \<and> rt_session_id r = s_id row \<and> \<not> rt_revoked r) (db_refresh d)"

text \<open>A successful revocation: the session row is gone and its live tokens are revoked.\<close>

lemma revokeSessionRecord_Inr:
  "revokeSessionRecord sy c row s = (Inr u, s') \<Longrightarrow>
     (\<forall>r \<in> set (session_tokens row (tx_db s)). rt_data r \<noteq> None)
   \<and> auth_tables (tx_db s') = auth_tables ((tx_db s)
        \<lparr>db_sessions := delete_where (\<lambda>r. s_id r = s_id row) (db_sessions (tx_db s)),
         db_refresh := map (revoke_row (session_tokens row (tx_db s))) (db_refresh (tx_db s))\<rparr>)"
  by (auto simp: revokeSessionRecord_def res_simps revoke_refresh_rows_Inr session_tokens_def)
    (drule Emit_auth_tables; simp add: auth_tables_def)+

text \<open>It succeeds whenever the envelopes of those tokens decode.\<close>

lemma revokeSessionRecord_ok:
  "(\<forall>r \<in> set (session_tokens row (tx_db s)). rt_data r \<noteq> None) \<Longrightarrow>
     \<exists>s'. revokeSessionRecord sy c row s = (Inr (), s')"
  using Emit_auth_run [OF unobserved(1)]
  by (auto simp: revokeSessionRecord_def res_simps revoke_refresh_rows_Inr session_tokens_def) metis

section \<open>The session invariant\<close>

text \<open>Primary keys are unique, every envelope decodes and agrees with its columns, and every refresh
  token that is not revoked belongs to an existing session of the same project and user.\<close>

definition token_ok :: "refresh_row \<Rightarrow> bool" where
  "token_ok r \<longleftrightarrow> (case rt_data r of Some v \<Rightarrow> rd_revoked v = rt_revoked r | None \<Rightarrow> False)"

definition session_ok :: "session_row \<Rightarrow> bool" where
  "session_ok x \<longleftrightarrow> (case s_data x of
     Some v \<Rightarrow> se_id v = s_id x \<and> se_account_id v = s_user_id x \<and> se_project_id v = s_project_id x
   | None \<Rightarrow> False)"

definition user_ok :: "user_row \<Rightarrow> bool" where
  "user_ok u \<longleftrightarrow> (case u_data u of
     Some a \<Rightarrow> acc_id a = u_id u \<and> acc_project_id a = u_project_id u
   | None \<Rightarrow> False)"

definition anchors :: "refresh_row \<Rightarrow> session_row \<Rightarrow> bool" where
  "anchors r x \<longleftrightarrow> s_id x = rt_session_id r \<and> s_project_id x = rt_project_id r \<and> s_user_id x = rt_user_id r"

definition sessions_wf :: "db \<Rightarrow> bool" where
  "sessions_wf d \<longleftrightarrow>
     distinct (map u_id (db_users d)) \<and> distinct (map s_id (db_sessions d)) \<and> distinct (map rt_id (db_refresh d))
   \<and> list_all token_ok (db_refresh d) \<and> list_all session_ok (db_sessions d) \<and> list_all user_ok (db_users d)
   \<and> list_all (\<lambda>r. rt_revoked r \<or> list_ex (anchors r) (db_sessions d)) (db_refresh d)"

lemma sessions_wf_cong: "auth_tables d' = auth_tables d \<Longrightarrow> sessions_wf d' = sessions_wf d"
  by (simp add: sessions_wf_def auth_tables_def)

lemma sessions_wf_unlink: "sessions_wf (db_sessions_update (map unlink) d) = sessions_wf d"
proof -
  have "session_ok (unlink x) = session_ok x" "anchors r (unlink x) = anchors r x" for x r
    by (simp_all add: session_ok_def anchors_def split: option.split)
  then show ?thesis by (simp add: sessions_wf_def list_all_iff list_ex_iff o_def)
qed

lemma sessions_wf_linked: "linked_tables d' = linked_tables d \<Longrightarrow> sessions_wf d' = sessions_wf d"
  unfolding linked_tables_def using sessions_wf_cong sessions_wf_unlink by metis

lemma coreAuthMintSession_wf:
  assumes "coreAuthMintSession sy c acc cl amr aal s = (Inr sess, s')" and "sessions_wf (tx_db s)"
  shows "sessions_wf (tx_db s')"
proof (rule coreAuthMintSession_Inr [OF assms(1)])
  fix sp e rid sid at plain
  let ?aal = "if aal \<le> 0 then 1 else aal" and ?now = "cx_now c" and ?d = "tx_db s"
  let ?row = "session_row_of sess e ?aal cl ?now sp"
  let ?tok = "refresh_row_of
     \<lparr>rd_id = rid, rd_project_id = acc_project_id acc, rd_environment = e, rd_user_id = acc_id acc,
      rd_session_id = sid, rd_hash = coreAuthSHA256 sy plain, rd_revoked = False,
      rd_expires_at = coreAuthRefreshHorizon ?now ?now sp, rd_created_at = ?now\<rparr>"
  assume sess: "sess = newCoreAuthSession c sid acc cl amr ?aal at plain sp ?now"
    and new: "sid \<notin> s_id ` set (db_sessions ?d)" "rid \<notin> rt_id ` set (db_refresh ?d)"
    and tables: "linked_tables (tx_db s') =
      linked_tables (?d\<lparr>db_sessions := db_sessions ?d @ [?row], db_refresh := db_refresh ?d @ [?tok]\<rparr>)"
  have "session_ok ?row" "token_ok ?tok" "anchors ?tok ?row" "s_id ?row = sid" "rt_id ?tok = rid"
    by (simp_all add: sess session_ok_def token_ok_def anchors_def session_row_of_def refresh_row_of_def
        newCoreAuthSession_def Let_def)
  then have "sessions_wf (?d\<lparr>db_sessions := db_sessions ?d @ [?row], db_refresh := db_refresh ?d @ [?tok]\<rparr>)"
    using assms(2) new by (auto simp: sessions_wf_def list_all_iff list_ex_iff)
  with tables show ?thesis using sessions_wf_linked by blast
qed

text \<open>\<open>row\<close> is a session row of the table, or of an earlier state of it.\<close>

definition consistent :: "session_row \<Rightarrow> db \<Rightarrow> bool" where
  "consistent row d \<longleftrightarrow> list_all (\<lambda>x. s_id x = s_id row \<longrightarrow> s_project_id x = s_project_id row) (db_sessions d)"

lemma token_ok_revoke_row: "token_ok y \<Longrightarrow> token_ok (revoke_row rs y)"
  by (induction rs arbitrary: y) (auto simp: revoke_row_Cons token_ok_def)

lemma revokeSessionRecord_wf:
  assumes "revokeSessionRecord sy c row s = (Inr u, s')" and "sessions_wf (tx_db s)" and "consistent row (tx_db s)"
  shows "sessions_wf (tx_db s')"
proof -
  let ?d = "(tx_db s)\<lparr>db_sessions := delete_where (\<lambda>r. s_id r = s_id row) (db_sessions (tx_db s)),
         db_refresh := map (revoke_row (session_tokens row (tx_db s))) (db_refresh (tx_db s))\<rparr>"
  have anchored: "rt_id r \<in> rt_id ` set (session_tokens row (tx_db s)) \<or> list_ex (anchors r) (db_sessions ?d)"
    if live: "r \<in> set (db_refresh (tx_db s))" "\<not> rt_revoked r" for r
  proof -
    obtain x where x: "x \<in> set (db_sessions (tx_db s))" "anchors r x"
      using assms(2) live by (auto simp: sessions_wf_def list_all_iff list_ex_iff)
    show ?thesis
    proof (cases "s_id x = s_id row")
      case True
      then have "r \<in> set (session_tokens row (tx_db s))"
        using live x assms(3) by (auto simp: session_tokens_def anchors_def consistent_def list_all_iff)
      then show ?thesis by blast
    qed (use x in \<open>auto simp: list_ex_iff delete_where_def\<close>)
  qed
  have "anchors (revoke_row rs r) = anchors r" for rs r by (auto simp: anchors_def fun_eq_iff)
  then have "sessions_wf ?d"
    using assms(2) anchored
    by (auto simp: sessions_wf_def list_all_iff delete_where_def token_ok_revoke_row o_def distinct_map inj_on_def)
  then show ?thesis using revokeSessionRecord_Inr [OF assms(1)] sessions_wf_cong by blast
qed

section \<open>The revocation contract\<close>

text \<open>\<open>revokes ids d d'\<close>: the sessions in \<open>ids\<close> are gone, every refresh token of theirs is revoked, and
  nothing else of the account tables has changed.\<close>

definition token_step :: "string set \<Rightarrow> refresh_row \<Rightarrow> refresh_row \<Rightarrow> bool" where
  "token_step ids r r' \<longleftrightarrow>
     r' = r \<or> (rt_session_id r \<in> ids \<and> r' = mark_revoked (rt_data r') r)"

definition other_tables where
  "other_tables d = (db_users d, db_credentials d, db_challenges d, db_codes d, db_factors d)"

definition revokes :: "string set \<Rightarrow> db \<Rightarrow> db \<Rightarrow> bool" where
  "revokes ids d d' \<longleftrightarrow>
     db_sessions d' = filter (\<lambda>x. s_id x \<notin> ids) (db_sessions d)
   \<and> list_all2 (token_step ids) (db_refresh d) (db_refresh d')
   \<and> list_all (\<lambda>r. rt_session_id r \<in> ids \<longrightarrow> rt_revoked r) (db_refresh d')
   \<and> other_tables d' = other_tables d"

lemma token_ok_data: "token_ok r \<Longrightarrow> rt_data r \<noteq> None"
  by (auto simp: token_ok_def split: option.splits)

lemma token_step_refl [simp]: "token_step ids r r" by (simp add: token_step_def)

lemma mark_revoked_idem: "mark_revoked v (mark_revoked w r) = mark_revoked v r"
  by (simp add: mark_revoked_def)

lemma revoke_row_mark: "rt_id y \<in> rt_id ` set rs \<Longrightarrow> revoke_row rs y = mark_revoked (rt_data (revoke_row rs y)) y"
proof (induction rs arbitrary: y)
  case (Cons r rs)
  show ?case
  proof (cases "rt_id y \<in> rt_id ` set rs")
    case True
    then show ?thesis
      using Cons.IH [of y] Cons.IH [of "mark_revoked (Some ((the (rt_data r))\<lparr>rd_revoked := True\<rparr>)) y"]
      by (simp add: revoke_row_Cons mark_revoked_idem)
  next
    case False
    with Cons.prems show ?thesis by (auto simp: revoke_row_Cons revoke_row_other)
  qed
qed simp

lemma token_step_trans: "token_step A r r1 \<Longrightarrow> token_step B r1 r2 \<Longrightarrow> token_step (A \<union> B) r r2"
  unfolding token_step_def by (metis Un_iff mark_revoked_idem mark_revoked_simps(5))

lemma token_step_revoked: "token_step ids r r' \<Longrightarrow> rt_revoked r \<Longrightarrow> rt_revoked r'"
  unfolding token_step_def by (metis mark_revoked_simps(9))

lemma token_step_session: "token_step ids r r' \<Longrightarrow> rt_session_id r' = rt_session_id r"
  unfolding token_step_def by (metis mark_revoked_simps(5))

lemma list_all2_preimage: "list_all2 P xs ys \<Longrightarrow> y \<in> set ys \<Longrightarrow> \<exists>x \<in> set xs. P x y"
  by (induction rule: list_all2_induct) auto

lemma revokes_trans:
  assumes "revokes A d d1" and "revokes B d1 d2"
  shows "revokes (A \<union> B) d d2"
proof -
  have l: "list_all2 (token_step (A \<union> B)) (db_refresh d) (db_refresh d2)"
    using assms list_all2_trans [of "token_step A" "token_step B" "token_step (A \<union> B)"] token_step_trans
    unfolding revokes_def by blast
  have "rt_revoked r2" if r2: "r2 \<in> set (db_refresh d2)" "rt_session_id r2 \<in> A" for r2
  proof -
    have "list_all2 (token_step B) (db_refresh d1) (db_refresh d2)" using assms(2) by (simp add: revokes_def)
    from list_all2_preimage [OF this r2(1)] obtain r1
      where "r1 \<in> set (db_refresh d1)" "token_step B r1 r2" by blast
    moreover from this(2) r2(2) have "rt_session_id r1 \<in> A" by (simp add: token_step_session)
    ultimately show ?thesis using assms(1) token_step_revoked by (auto simp: revokes_def list_all_iff)
  qed
  moreover have "rt_revoked r2" if "r2 \<in> set (db_refresh d2)" "rt_session_id r2 \<in> B" for r2
    using assms(2) that by (simp add: revokes_def list_all_iff)
  moreover have "db_sessions d2 = filter (\<lambda>x. s_id x \<notin> A \<union> B) (db_sessions d)" "other_tables d2 = other_tables d"
    using assms by (simp_all add: revokes_def conj_commute)
  ultimately show ?thesis using l by (auto simp: revokes_def list_all_iff)
qed

lemma revokes_empty [simp]: "revokes {} d d"
  by (simp add: revokes_def list_all2_refl list_all_iff)

lemma revokes_cong: "auth_tables d' = auth_tables d'' \<Longrightarrow> revokes ids d d' = revokes ids d d''"
  by (simp add: revokes_def auth_tables_def other_tables_def)

text \<open>The primitive satisfies it on a well-formed database.\<close>

lemma revokeSessionRecord_revokes:
  assumes "sessions_wf (tx_db s)" and "row \<in> set (db_sessions (tx_db s))"
  shows "\<exists>s'. revokeSessionRecord sy c row s = (Inr (), s') \<and> sessions_wf (tx_db s')
           \<and> revokes {s_id row} (tx_db s) (tx_db s')"
proof -
  let ?d = "tx_db s"
  have con: "consistent row ?d"
    using assms distinct_key_eq [of s_id "db_sessions ?d"] by (auto simp: sessions_wf_def consistent_def list_all_iff)
  have "\<forall>r \<in> set (session_tokens row ?d). rt_data r \<noteq> None"
    using assms(1) by (auto simp: sessions_wf_def session_tokens_def list_all_iff dest!: token_ok_data)
  then obtain s' where run: "revokeSessionRecord sy c row s = (Inr (), s')"
    using revokeSessionRecord_ok by blast
  have live: "rt_project_id r = s_project_id row"
    if r: "r \<in> set (db_refresh ?d)" "\<not> rt_revoked r" "rt_session_id r = s_id row" for r
  proof -
    from r assms(1) obtain x where "x \<in> set (db_sessions ?d)" "anchors r x"
      by (auto simp: sessions_wf_def list_all_iff list_ex_iff)
    with r(3) con show ?thesis by (auto simp: anchors_def consistent_def list_all_iff)
  qed
  have step: "token_step {s_id row} r (revoke_row (session_tokens row ?d) r)"
    if r: "r \<in> set (db_refresh ?d)" for r
  proof (cases "rt_id r \<in> rt_id ` set (session_tokens row ?d)")
    case True
    then obtain r' where r': "r' \<in> set (db_refresh ?d)" "rt_id r' = rt_id r" "rt_session_id r' = s_id row"
      by (auto simp: session_tokens_def)
    then have "r' = r" using r assms(1) distinct_key_eq [of rt_id "db_refresh ?d"] by (auto simp: sessions_wf_def)
    with r' revoke_row_mark [OF True] show ?thesis by (simp add: token_step_def)
  qed (simp add: revoke_row_other)
  have "rt_revoked (revoke_row (session_tokens row ?d) r)"
    if "r \<in> set (db_refresh ?d)" "rt_session_id r = s_id row" for r
    using that live [of r] by (auto simp: session_tokens_def)
  then have "revokes {s_id row} ?d (?d
        \<lparr>db_sessions := delete_where (\<lambda>r. s_id r = s_id row) (db_sessions ?d),
         db_refresh := map (revoke_row (session_tokens row ?d)) (db_refresh ?d)\<rparr>)"
    using step
    by (simp add: revokes_def delete_where_def list_all_iff other_tables_def list_all2_map2 list_all2_same)
  then have "revokes {s_id row} ?d (tx_db s')"
    using revokes_cong revokeSessionRecord_Inr [OF run] by blast
  with run revokeSessionRecord_wf [OF run assms(1) con] show ?thesis by blast
qed

section \<open>The revocation loops\<close>

text \<open>Three loops revoke a list of sessions one by one: \<open>revokeUserSessions\<close> (which stops at the first
  error), \<open>coreAuthRevokeAllForUser\<close> (which logs it) and \<open>coreAuthSignOutAll\<close> (which tolerates a
  session that is gone). They share this contract: on the rows they do not skip they run a step
  that revokes the session, and on success go on with the rest.\<close>

locale revocation_loop =
  fixes loop :: "int \<Rightarrow> session_row list \<Rightarrow> 'a tx"
    and skip :: "session_row \<Rightarrow> bool"
    and admissible :: "session_row \<Rightarrow> bool"
    and step :: "session_row \<Rightarrow> unit tx"
    and out :: "int \<Rightarrow> 'a"
  assumes loop_Nil: "loop n [] s = (Inr (out n), s)"
    and loop_skip: "skip r \<Longrightarrow> loop n (r # rs) s = loop n rs s"
    and loop_step: "\<not> skip r \<Longrightarrow> step r s = (Inr (), s') \<Longrightarrow> loop n (r # rs) s = loop (n + 1) rs s'"
    and step_revokes: "sessions_wf (tx_db s) \<Longrightarrow> r \<in> set (db_sessions (tx_db s)) \<Longrightarrow> admissible r \<Longrightarrow>
      \<exists>s'. step r s = (Inr (), s') \<and> sessions_wf (tx_db s') \<and> revokes {s_id r} (tx_db s) (tx_db s')"
begin

lemma loop_revokes:
  assumes "sessions_wf (tx_db s)" and "set rs \<subseteq> set (db_sessions (tx_db s))" and "distinct (map s_id rs)"
    and "\<forall>r \<in> set rs. admissible r"
  shows "\<exists>s'. loop n rs s = (Inr (out (n + int (length (filter (\<lambda>r. \<not> skip r) rs)))), s')
           \<and> sessions_wf (tx_db s') \<and> revokes (s_id ` {r \<in> set rs. \<not> skip r}) (tx_db s) (tx_db s')"
  using assms
proof (induction rs arbitrary: n s)
  case Nil
  then show ?case by (simp add: loop_Nil)
next
  case (Cons r rs)
  show ?case
  proof (cases "skip r")
    case True
    moreover have "{x \<in> set (r # rs). \<not> skip x} = {x \<in> set rs. \<not> skip x}" using True by auto
    ultimately show ?thesis using Cons.IH [of s n] Cons.prems by (simp add: loop_skip)
  next
    case False
    obtain s1 where s1: "step r s = (Inr (), s1)" "sessions_wf (tx_db s1)" "revokes {s_id r} (tx_db s) (tx_db s1)"
      using step_revokes [of s r] Cons.prems by auto
    have "set rs \<subseteq> set (db_sessions (tx_db s1))"
      using Cons.prems s1(3) by (auto simp: revokes_def image_iff)
    with Cons.IH [of s1 "n + 1"] s1(2) Cons.prems obtain s' where
      s': "loop (n + 1) rs s1 = (Inr (out (n + 1 + int (length (filter (\<lambda>r. \<not> skip r) rs)))), s')"
        "sessions_wf (tx_db s')" "revokes (s_id ` {r \<in> set rs. \<not> skip r}) (tx_db s1) (tx_db s')" by auto
    have "s_id ` {x \<in> set (r # rs). \<not> skip x} = {s_id r} \<union> s_id ` {x \<in> set rs. \<not> skip x}" using False by auto
    then show ?thesis
      using revokes_trans [OF s1(3) s'(3)] s'(1,2) False by (simp add: loop_step [OF False s1(1)] algebra_simps)
  qed
qed

end

lemma FindIamSession_row:
  "distinct (map s_id (db_sessions (tx_db s))) \<Longrightarrow> row \<in> set (db_sessions (tx_db s)) \<Longrightarrow>
     FindIamSession e (s_id row) s = (Inr row, s)"
  by (simp add: FindIamSession_def tx_bind_def find_unique_key)

lemma coreAuthRevokeSession_revokes:
  assumes "sessions_wf (tx_db s)" and "row \<in> set (db_sessions (tx_db s))" and "s_project_id row = pid"
  shows "\<exists>s'. coreAuthRevokeSession sy c pid (s_id row) s = (Inr (), s') \<and> sessions_wf (tx_db s')
           \<and> revokes {s_id row} (tx_db s) (tx_db s')"
  using revokeSessionRecord_revokes [OF assms(1,2)] assms FindIamSession_row [of s row]
  by (simp add: coreAuthRevokeSession_def sessions_wf_def)

interpretation admin_loop: revocation_loop "\<lambda>n rs. revoke_each sy c ex rs n" "\<lambda>r. ex \<noteq> [] \<and> s_id r = ex"
  "\<lambda>_. True" "revokeSessionRecord sy c" id
  by unfold_locales (auto simp: revokeSessionRecord_revokes)

interpretation reuse_loop: revocation_loop "\<lambda>_. revoke_logged sy c pid" "\<lambda>_. False"
  "\<lambda>r. s_project_id r = pid" "\<lambda>r. coreAuthRevokeSession sy c pid (s_id r)" "\<lambda>_. ()"
  by unfold_locales (simp_all add: coreAuthRevokeSession_revokes)

interpretation sign_out_loop: revocation_loop "\<lambda>n rs. sign_out_each sy c pid ex rs n" "\<lambda>r. s_id r = ex"
  "\<lambda>r. s_project_id r = pid" "\<lambda>r. coreAuthRevokeSession sy c pid (s_id r)" id
  by unfold_locales (simp_all add: coreAuthRevokeSession_revokes)

section \<open>Sign-out\<close>

lemma quiet_find [intro!]: "quiet (FindIamUser er i)" "quiet (FindIamSession er i)"
  by (auto simp: FindIamUser_def FindIamSession_def split: option.split)

lemma quiet_revoke_refresh_rows [intro!]: "quiet (revoke_refresh_rows rs)"
  by (induction rs) auto

lemma quiet_revoke [intro!]: "quiet (revokeSessionRecord sy c row)" "quiet (coreAuthRevokeSession sy c pid sid)"
  by (auto simp: revokeSessionRecord_def coreAuthRevokeSession_def)

lemma quiet_sign_out_each [intro!]: "quiet (sign_out_each sy c pid ex rs n)"
proof (induction rs arbitrary: n)
  case (Cons r rs)
  have q: "tx_pool (snd (coreAuthRevokeSession sy c pid (s_id r) s)) = tx_pool s" for s
    using quiet_revoke(2) by (simp add: quiet_def)
  show ?case
    unfolding quiet_def
  proof
    fix s
    obtain v s' where v: "coreAuthRevokeSession sy c pid (s_id r) s = (v, s')"
      by (cases "coreAuthRevokeSession sy c pid (s_id r) s")
    with q [of s] Cons.IH show "tx_pool (snd (sign_out_each sy c pid ex (r # rs) n s)) = tx_pool s"
      by (cases v) (simp_all add: quiet_def)
  qed
qed auto

lemma quiet_revoke_logged [intro!]: "quiet (revoke_logged sy c pid rs)"
proof (induction rs)
  case (Cons r rs)
  then show ?case using quiet_revoke(2) by (simp add: quiet_def)
qed auto

lemma quiet_revoke_all [intro!]:
  "quiet (coreAuthSignOutAll sy c pid uid ex)" "quiet (coreAuthRevokeAllForUser sy c pid uid)"
  by (auto simp: coreAuthSignOutAll_def coreAuthRevokeAllForUser_def)

text \<open>Revocation leaves what the security observer depends on.\<close>

definition undisturbed :: "'a tx \<Rightarrow> bool" where
  "undisturbed m \<longleftrightarrow> forward m \<and> keeps observer_tables m"

lemma undisturbed_handle:
  "undisturbed m \<Longrightarrow> (\<And>e. undisturbed (h e)) \<Longrightarrow> (\<And>x. undisturbed (f x)) \<Longrightarrow> undisturbed (tx_handle m h f)"
  by (auto simp: undisturbed_def)

lemma undisturbed_basic: "undisturbed (ret x)" "undisturbed (throw e)" "undisturbed (query q)" "undisturbed (Pair r)"
  by (auto simp: undisturbed_def)

lemma undisturbed_find: "undisturbed (FindIamUser er i)" "undisturbed (FindIamSession er i)"
  by (auto simp: undisturbed_def FindIamUser_def FindIamSession_def split: option.split)

lemma undisturbed_refresh_rows: "undisturbed (revoke_refresh_rows rs)"
  by (induction rs) (auto simp: undisturbed_def observer_tables_def)

lemma undisturbed_revoke:
  "undisturbed (revokeSessionRecord sy c row)" "undisturbed (coreAuthRevokeSession sy c pid i)"
  "undisturbed (coreAuthMarkRefreshRevoked r)"
  using undisturbed_refresh_rows undisturbed_find
  by (auto simp: undisturbed_def revokeSessionRecord_def coreAuthRevokeSession_def coreAuthMarkRefreshRevoked_def
      observer_tables_def Emit_unobserved unobserved Let_def)

lemma undisturbed_revoke_logged: "undisturbed (revoke_logged sy c pid rs)"
proof (induction rs)
  case Nil
  then show ?case by (simp add: undisturbed_basic)
next
  case (Cons r rs)
  have "revoke_logged sy c pid (r # rs) =
      tx_handle (coreAuthRevokeSession sy c pid (s_id r)) (\<lambda>_. revoke_logged sy c pid rs) (\<lambda>_. revoke_logged sy c pid rs)"
    by (auto simp: fun_eq_iff tx_handle_def split: prod.split sum.split)
  then show ?case using undisturbed_handle [OF undisturbed_revoke(2)] Cons.IH by simp
qed

lemma undisturbed_revoke_all: "undisturbed (coreAuthRevokeAllForUser sy c pid uid)"
  using undisturbed_revoke_logged by (auto simp: undisturbed_def coreAuthRevokeAllForUser_def)

lemma observer_ready_after:
  assumes "undisturbed m" and "m s = (r, s')" and "observer_ready sy c pid env s"
  shows "observer_ready sy c pid env s'"
proof (rule observer_ready_cong [OF assms(3)])
  show "tx_draws s \<le> tx_draws s'" using assms(1,2) forwardD [of m s r s'] by (simp add: undisturbed_def)
  show "observer_tables (tx_db s') = observer_tables (tx_db s)"
    using assms(1,2) keepsD [of observer_tables m s r s'] by (simp add: undisturbed_def)
qed

lemma sessions_wf_users: "sessions_wf d \<Longrightarrow> users_decode d"
  by (auto simp: sessions_wf_def users_decode_def list_all_iff user_ok_def split: option.splits)

lemma distinct_map_filter_key: "distinct (map k xs) \<Longrightarrow> distinct (map k (filter p xs))"
  by (induction xs) auto

text \<open>The ids of the sessions of a user in a project.\<close>

definition user_sessions :: "string \<Rightarrow> string \<Rightarrow> db \<Rightarrow> string set" where
  "user_sessions pid uid d = s_id ` {x \<in> set (db_sessions d). s_project_id x = pid \<and> s_user_id x = uid}"

lemma coreAuthSignOutAll_revokes:
  assumes "sessions_wf (tx_db s)"
  shows "\<exists>n s'. coreAuthSignOutAll sy c pid uid ex s = (Inr n, s') \<and> sessions_wf (tx_db s')
           \<and> n = int (card (user_sessions pid uid (tx_db s) - {ex}))
           \<and> revokes (user_sessions pid uid (tx_db s) - {ex}) (tx_db s) (tx_db s')"
proof -
  let ?rows = "filter (\<lambda>r. s_project_id r = pid \<and> s_user_id r = uid) (db_sessions (tx_db s))"
  have d: "distinct (map s_id (db_sessions (tx_db s)))" using assms by (simp add: sessions_wf_def)
  have ids: "s_id ` {r \<in> set ?rows. s_id r \<noteq> ex} = user_sessions pid uid (tx_db s) - {ex}"
    by (auto simp: user_sessions_def)
  have "set (map s_id (filter (\<lambda>r. s_id r \<noteq> ex) ?rows)) = user_sessions pid uid (tx_db s) - {ex}"
    by (auto simp: user_sessions_def)
  moreover have "distinct (map s_id (filter (\<lambda>r. s_id r \<noteq> ex) ?rows))" by (intro distinct_map_filter_key d)
  ultimately have "length (filter (\<lambda>r. s_id r \<noteq> ex) ?rows) = card (user_sessions pid uid (tx_db s) - {ex})"
    using distinct_card [of "map s_id (filter (\<lambda>r. s_id r \<noteq> ex) ?rows)"] by (simp del: filter_filter set_map)
  moreover have "set ?rows \<subseteq> set (db_sessions (tx_db s))" "\<forall>r \<in> set ?rows. s_project_id r = pid" by auto
  note sign_out_loop.loop_revokes [where n = 0 and sy = sy and c = c and ex = ex,
    OF assms this(1) distinct_map_filter_key [OF d] this(2)]
  ultimately show ?thesis
    unfolding coreAuthSignOutAll_def tx_bind_def query_def ids by (simp del: filter_filter)
qed

lemma withTx_commit: "quiet m \<Longrightarrow> tx_pool s = [] \<Longrightarrow> m s = (Inr x, s') \<Longrightarrow> withTx m s = (Inr x, s')"
  by (simp add: withTx_quiet)

section \<open>Sample state\<close>

text \<open>A concrete library and database on which the theorems are instantiated: hashes are tagged
  plaintexts, tokens and ids are numbered, a JWT is its claims' subject and session.\<close>

definition sample_sys :: sys where
  "sample_sys =
     \<lparr>sy_sha256 = (\<lambda>t. ''h:'' @ t), sy_bcrypt_ok = (\<lambda>h p. h = ''b:'' @ p),
      sy_bcrypt_hash = (\<lambda>_ p. Inr (''b:'' @ p)),
      sy_uuid = (\<lambda>n. CHR ''u'' # replicate n CHR ''1''), sy_token = (\<lambda>n. CHR ''t'' # replicate n CHR ''1''), sy_url_token = (\<lambda>k n. CHR ''b'' # replicate n CHR ''1''), sy_word = of_nat, sy_digit = (\<lambda>n. n mod 10),
      sy_load_key = Inr, sy_new_key = (\<lambda>n. CHR ''k'' # replicate n CHR ''1''),
      sy_jwt_sign = (\<lambda>kid key cl. Inr (''jwt'')), sy_jwt_verify = (\<lambda>ks now t. None), sy_jwt_peek = (\<lambda>t. None),
      sy_fold = id, sy_lower = id, sy_upper = id, sy_is_lower = (\<lambda>_. False), sy_is_upper = (\<lambda>_. False),
      sy_is_digit = (\<lambda>_. False), sy_hex_token = (\<lambda>n i. CHR ''x'' # replicate i CHR ''1''),
      sy_totp_key = (\<lambda>i l. Inr (CHR ''s'' # replicate i CHR ''1'', l)), sy_totp_ok = (\<lambda>t code secret. code = secret), sy_public_url = ''https://iam'', sy_parse_url = (\<lambda>_. None),
      sy_link = (\<lambda>b t. b @ ''#'' @ t), sy_rfc3339 = (\<lambda>_. [])\<rparr>"

definition sample_ctx :: "instant \<Rightarrow> ctx" where
  "sample_ctx now = \<lparr>cx_env = [], cx_principal = None, cx_soft = None, cx_meta = no_meta, cx_offset = 0, cx_now = now, cx_old_contact = None\<rparr>"

definition sample_account :: Account where
  "sample_account =
     \<lparr>acc_deletion = None, acc_id = ''alice'', acc_project_id = ''p'', acc_kind = ''human'', acc_status = ''active'',
      acc_primary_email = ''a@x'', acc_email_verified = True, acc_primary_phone = [], acc_phone_verified = False,
      acc_name = [], acc_locale = [], acc_invite_cap = None, acc_created_at = 0, acc_updated_at = 0\<rparr>"

definition sample_session :: Session where
  "sample_session =
     \<lparr>se_id = ''s'', se_account_id = ''alice'', se_project_id = ''p'', se_client_id = ''web'', se_amr = [''pwd'', ''otp''],
      se_aal = 2, se_access_token = ''at'', se_refresh_token = ''rt'', se_expires_in = 600,
      se_refresh_expires_in = 2592000, se_created_at = 0, se_device_name = [], se_ip = [], se_user_agent = [],
      se_fingerprint = ''fp'', se_trusted = False, se_last_active_at = 0\<rparr>"

definition sample_token :: coreAuthRefreshToken where
  "sample_token =
     \<lparr>rd_id = ''r'', rd_project_id = ''p'', rd_environment = ''live'', rd_user_id = ''alice'', rd_session_id = ''s'',
      rd_hash = ''h:rt'', rd_revoked = False, rd_expires_at = coreAuthRefreshTTL, rd_created_at = 0\<rparr>"

definition sample_db :: db where
  "sample_db = empty_db
     \<lparr>db_users := [\<lparr>u_id = ''alice'', u_project_id = ''p'', u_environment = ''live'', u_kind = ''human'',
                    u_status = ''active'', u_primary_email = Some ''a@x'', u_primary_phone = None, u_created_at = 0,
                    u_updated_at = 0, u_security_recovered_at = None, u_data = Some sample_account\<rparr>],
      db_sessions := [session_row_of sample_session ''live'' 2 ''web'' 0 defaultSessionPolicy],
      db_refresh := [refresh_row_of sample_token],
      db_keys := [\<lparr>sk_kid = ''kid'', sk_project_id = ''p'', sk_environment = ''live'', sk_status = ''active'',
                   sk_private_pem = Some ''pem''\<rparr>]\<rparr>"

definition sample_state :: "db \<Rightarrow> txs" where
  "sample_state d = \<lparr>tx_db = d, tx_pool = [], tx_cfg = NewConfigReader 0, tx_auth_cfg = NewConfigReader 0, tx_draws = 0\<rparr>"

lemma sample_db_wf: "sessions_wf sample_db" by code_simp

section \<open>Signing out\<close>

lemma SignOut_everywhere_run:
  assumes "sessions_wf (tx_db s)" and "tx_pool s = []" and "row \<in> set (db_sessions (tx_db s))" and "s_id row \<noteq> []"
  shows "\<exists>s'. SignOut sy c (s_id row) True s = (Inr (), s') \<and> sessions_wf (tx_db s')
           \<and> revokes (user_sessions (s_project_id row) (s_user_id row) (tx_db s) - {[]}) (tx_db s) (tx_db s')"
proof -
  let ?ids = "user_sessions (s_project_id row) (s_user_id row) (tx_db s) - {[]}"
  have fnd: "FindIamSession e (s_id row) s = (Inr row, s)" for e
    using assms(1,3) by (simp add: FindIamSession_row sessions_wf_def)
  obtain n s1 where s1: "coreAuthSignOutAll sy c (s_project_id row) (s_user_id row) [] s = (Inr n, s1)"
      "revokes ?ids (tx_db s) (tx_db s1)" "sessions_wf (tx_db s1)"
    using coreAuthSignOutAll_revokes [OF assms(1), of sy c "s_project_id row" "s_user_id row" "[]"] by auto
  obtain s' where s': "Emit sy c ''user.signed_out_everywhere'' (s_project_id row) coreAuthDefaultEnv (s_user_id row)
                (PFields [(''account_id'', DStr (s_user_id row)), (''project_id'', DStr (s_project_id row))]) s1 = (Inr (), s')"
      "auth_tables (tx_db s') = auth_tables (tx_db s1)"
    using Emit_auth_run unobserved by blast
  have "SignOut sy c (s_id row) True s = (Inr (), s')"
    using assms(4) by (auto simp: SignOut_def tx_bind_def fnd s1 s'(1) intro!: withTx_commit assms(2))
  moreover have "sessions_wf (tx_db s')" using s1(3) by (simp only: sessions_wf_cong [OF s'(2)])
  moreover have "revokes ?ids (tx_db s) (tx_db s')" using s1(2) by (simp only: revokes_cong [OF s'(2)])
  ultimately show ?thesis by blast
qed

lemma SignOut_one_run:
  assumes "sessions_wf (tx_db s)" and "tx_pool s = []" and "row \<in> set (db_sessions (tx_db s))" and "s_id row \<noteq> []"
  shows "\<exists>s'. SignOut sy c (s_id row) False s = (Inr (), s') \<and> sessions_wf (tx_db s')
           \<and> revokes {s_id row} (tx_db s) (tx_db s')"
proof -
  have fnd: "FindIamSession e (s_id row) s = (Inr row, s)" for e
    using assms(1,3) by (simp add: FindIamSession_row sessions_wf_def)
  obtain s1 where s1: "coreAuthRevokeSession sy c (s_project_id row) (s_id row) s = (Inr (), s1)"
      "revokes {s_id row} (tx_db s) (tx_db s1)" "sessions_wf (tx_db s1)"
    using coreAuthRevokeSession_revokes [OF assms(1,3) refl] by blast
  obtain s' where s': "Emit sy c ''user.signed_out'' (s_project_id row) coreAuthDefaultEnv (s_user_id row)
                (PFields [(''account_id'', DStr (s_user_id row)), (''session_id'', DStr (s_id row)),
                          (''project_id'', DStr (s_project_id row))]) s1 = (Inr (), s')"
      "auth_tables (tx_db s') = auth_tables (tx_db s1)"
    using Emit_auth_run unobserved by blast
  have "SignOut sy c (s_id row) False s = (Inr (), s')"
    using assms(4) by (auto simp: SignOut_def tx_bind_def fnd s1 s'(1) intro!: withTx_commit assms(2))
  moreover have "sessions_wf (tx_db s')" using s1(3) by (simp only: sessions_wf_cong [OF s'(2)])
  moreover have "revokes {s_id row} (tx_db s) (tx_db s')" using s1(2) by (simp only: revokes_cong [OF s'(2)])
  ultimately show ?thesis by blast
qed

section \<open>Properties\<close>

text \<open>C25: signing out everywhere ends every session of the account in the project, and only those: the
  operation succeeds, the rows are gone, every refresh token of theirs is revoked, and no other
  session, token, account, credential, challenge, code or factor changes.\<close>

theorem sign_out_everywhere_revokes_all:
  assumes "sessions_wf (tx_db s)" and "tx_pool s = []" and "row \<in> set (db_sessions (tx_db s))"
    and "[] \<notin> s_id ` set (db_sessions (tx_db s))"
  shows "\<exists>s'. SignOut sy c (s_id row) True s = (Inr (), s')
           \<and> revokes (user_sessions (s_project_id row) (s_user_id row) (tx_db s)) (tx_db s) (tx_db s')"
proof -
  have "user_sessions (s_project_id row) (s_user_id row) (tx_db s) - {[]} = user_sessions (s_project_id row) (s_user_id row) (tx_db s)"
    "s_id row \<noteq> []"
    using assms(3,4) by (force simp: user_sessions_def)+
  with SignOut_everywhere_run [OF assms(1-3)] show ?thesis by fastforce
qed

theorem sign_out_everywhere_revokes_all_witness:
  "\<exists>s'. SignOut sample_sys (sample_ctx 5) ''s'' True (sample_state sample_db) = (Inr (), s')
        \<and> revokes {''s''} sample_db (tx_db s')"
proof -
  let ?row = "session_row_of sample_session ''live'' 2 ''web'' 0 defaultSessionPolicy"
  have "sessions_wf (tx_db (sample_state sample_db))" by (simp add: sample_state_def sample_db_wf)
  moreover have "?row \<in> set (db_sessions (tx_db (sample_state sample_db)))"
    "[] \<notin> s_id ` set (db_sessions (tx_db (sample_state sample_db)))" "s_id ?row = ''s''"
    "user_sessions (s_project_id ?row) (s_user_id ?row) (tx_db (sample_state sample_db)) = {''s''}"
    by (simp add: sample_state_def sample_db_def, code_simp, code_simp, code_simp)
  ultimately show ?thesis
    using sign_out_everywhere_revokes_all [of "sample_state sample_db" ?row sample_sys "sample_ctx 5"]
    by (simp add: sample_state_def)
qed

text \<open>Signing out of one session ends that session and its refresh tokens and nothing else.\<close>

theorem sign_out_revokes_one:
  assumes "sessions_wf (tx_db s)" and "tx_pool s = []" and "row \<in> set (db_sessions (tx_db s))" and "s_id row \<noteq> []"
  shows "\<exists>s'. SignOut sy c (s_id row) False s = (Inr (), s') \<and> revokes {s_id row} (tx_db s) (tx_db s')"
  using SignOut_one_run [OF assms] by blast

theorem sign_out_revokes_one_witness:
  "\<exists>s'. SignOut sample_sys (sample_ctx 5) ''s'' False (sample_state sample_db) = (Inr (), s')
        \<and> revokes {''s''} sample_db (tx_db s')"
proof -
  let ?row = "session_row_of sample_session ''live'' 2 ''web'' 0 defaultSessionPolicy"
  have "sessions_wf (tx_db (sample_state sample_db))" by (simp add: sample_state_def sample_db_wf)
  moreover have "?row \<in> set (db_sessions (tx_db (sample_state sample_db)))" "s_id ?row = ''s''"
    by (simp add: sample_state_def sample_db_def, code_simp)
  ultimately show ?thesis
    using sign_out_revokes_one [of "sample_state sample_db" ?row sample_sys "sample_ctx 5"]
    by (simp add: sample_state_def)
qed

end
