(* ===== verification/Refresh.thy ===== *)
theory Refresh
  imports Sessions
begin

text \<open>
  Token refresh, code exchange, guest accounts and session lookup
  (\<open>src/internal/infrastructure/postgres/coreauth_pg.go\<close>): \<open>Refresh\<close> and the six steps of its
  transaction, \<open>ExchangeCode\<close>, \<open>CreateGuest\<close>, \<open>GetSession\<close> and \<open>coreAuthVerifyAccess\<close>.
\<close>

section \<open>Refresh\<close>

definition coreAuthHandleReusedRefresh :: "sys \<Rightarrow> ctx \<Rightarrow> refresh_row \<Rightarrow> EffectiveSessionPolicy \<Rightarrow> unit tx" where
  "coreAuthHandleReusedRefresh sy c row sp =
     (if \<not> es_reuse_detection sp then ret ()
      else tx_bind (coreAuthRevokeAllForUser sy c (rt_project_id row) (rt_user_id row)) (\<lambda>_.
             Emit sy c ''token.reuse_detected'' (rt_project_id row) coreAuthDefaultEnv (rt_user_id row)
               (PFields [(''session_id'', DStr (rt_session_id row))])))"

text \<open>The outcome of the transaction: the three rejections commit, and are mapped to their errors
  outside it.\<close>

datatype coreAuthRefreshResult = Rotated Account Session | Mismatch | Revoked | Expired

definition coreAuthLoadRefreshRow :: "ctx \<Rightarrow> string \<Rightarrow> (refresh_row \<times> EffectiveSessionPolicy) tx" where
  "coreAuthLoadRefreshRow c hash =
     tx_bind (query (\<lambda>d. find (\<lambda>r. rt_hash r = hash) (db_refresh d))) (\<lambda>found.
       case found of
         None \<Rightarrow> throw ErrInvalidToken
       | Some row \<Rightarrow>
           tx_bind (SessionPolicyForEnv c (rt_project_id row) (rt_environment row)) (\<lambda>sp. ret (row, sp)))"

definition coreAuthLoadRefreshAccountSession :: "ctx \<Rightarrow> refresh_row \<Rightarrow> (Account \<times> session_row) tx" where
  "coreAuthLoadRefreshAccountSession c row =
     tx_bind (FindIamUser ErrUserNotFound (rt_user_id row)) (\<lambda>userRow.
     tx_bind (coreAuthLoadAccount userRow (rt_project_id row)) (\<lambda>acc.
     tx_bind (lift_res (coreAuthAccountActive (cx_now c) acc)) (\<lambda>_.
     tx_bind (FindIamSession ErrSessionNotFound (rt_session_id row)) (\<lambda>sessRow.
       ret (acc, sessRow)))))"

text \<open>Revoke the presented token and its session; a session that is already gone is no error.\<close>

definition revoke_presented :: "sys \<Rightarrow> ctx \<Rightarrow> refresh_row \<Rightarrow> session_row \<Rightarrow> unit tx" where
  "revoke_presented sy c row sessRow =
     tx_bind (coreAuthMarkRefreshRevoked row) (\<lambda>_.
       tx_handle (coreAuthRevokeSession sy c (s_project_id sessRow) (s_id sessRow))
         (\<lambda>e. if \<not> err_is e ErrSessionNotFound then throw e else ret ()) ret)"

definition coreAuthCheckDeviceMismatch :: "sys \<Rightarrow> ctx \<Rightarrow> refresh_row \<Rightarrow> session_row \<Rightarrow> Session \<Rightarrow> bool tx" where
  "coreAuthCheckDeviceMismatch sy c row sessRow prev =
     (let fp = rm_fingerprint (cx_meta c) in
      if se_fingerprint prev = [] \<or> fp = [] \<or> fp = se_fingerprint prev then ret False
      else
        tx_bind (revoke_presented sy c row sessRow) (\<lambda>_.
        tx_bind (Emit sy c ''session.device_mismatch'' (s_project_id sessRow) coreAuthDefaultEnv (s_id sessRow)
                   (PFields [(''session_id'', DStr (s_id sessRow)), (''user_id'', DStr (s_user_id sessRow))])) (\<lambda>_.
          ret True)))"

definition session_timed_out :: "instant \<Rightarrow> EffectiveSessionPolicy \<Rightarrow> session_row \<Rightarrow> bool" where
  "session_timed_out now sp sessRow \<longleftrightarrow>
     (es_absolute_timeout sp > 0 \<and> now > s_created_at sessRow + es_absolute_timeout sp)
     \<or> (es_idle_timeout sp > 0 \<and> now > s_last_active_at sessRow + es_idle_timeout sp)"

definition coreAuthCheckSessionTimeout ::
  "sys \<Rightarrow> ctx \<Rightarrow> refresh_row \<Rightarrow> session_row \<Rightarrow> EffectiveSessionPolicy \<Rightarrow> bool tx" where
  "coreAuthCheckSessionTimeout sy c row sessRow sp =
     (if \<not> session_timed_out (cx_now c) sp sessRow then ret False
      else tx_bind (revoke_presented sy c row sessRow) (\<lambda>_. ret True))"

definition coreAuthRotateRefresh :: "sys \<Rightarrow> ctx \<Rightarrow> refresh_row \<Rightarrow> Account \<Rightarrow> session_row \<Rightarrow> coreAuthRefreshResult tx" where
  "coreAuthRotateRefresh sy c row acc sessRow =
     tx_bind (coreAuthMarkRefreshRevoked row) (\<lambda>_.
     tx_bind (coreAuthRotateSession sy c acc sessRow) (\<lambda>sess.
     tx_bind (Emit sy c ''token.refreshed'' (acc_project_id acc) coreAuthDefaultEnv (se_id sess) (PSession sess)) (\<lambda>_.
       ret (Rotated acc sess))))"

definition coreAuthRefreshInTx :: "sys \<Rightarrow> ctx \<Rightarrow> string \<Rightarrow> coreAuthRefreshResult tx" where
  "coreAuthRefreshInTx sy c hash =
     tx_bind (coreAuthLoadRefreshRow c hash) (\<lambda>(row, sp).
       if rt_revoked row then
         tx_bind (coreAuthHandleReusedRefresh sy c row sp) (\<lambda>_. ret Revoked)
       else if (case rt_expires_at row of Some v \<Rightarrow> nowIn c > v | None \<Rightarrow> False) then throw ErrTokenExpired
       else
         tx_bind (coreAuthLoadRefreshAccountSession c row) (\<lambda>(acc, sessRow).
         tx_bind (coreAuthLoadSession sessRow (s_project_id sessRow)) (\<lambda>prev.
         tx_bind (coreAuthCheckDeviceMismatch sy c row sessRow prev) (\<lambda>mismatch.
           if mismatch then ret Mismatch
           else
             tx_bind (coreAuthCheckSessionTimeout sy c row sessRow sp) (\<lambda>expired.
               if expired then ret Expired
               else coreAuthRotateRefresh sy c row acc sessRow)))))"

fun refresh_outcome :: "coreAuthRefreshResult \<Rightarrow> (Account \<times> Session) res" where
  "refresh_outcome (Rotated acc sess) = Inr (acc, sess)"
| "refresh_outcome Revoked = Inl ErrTokenRevoked"
| "refresh_outcome Expired = Inl ErrSessionExpired"
| "refresh_outcome Mismatch = Inl ErrSessionDeviceMismatch"

definition Refresh :: "sys \<Rightarrow> ctx \<Rightarrow> string \<Rightarrow> (Account \<times> Session) tx" where
  "Refresh sy c refreshToken =
     (if trim_space refreshToken = [] then throw (WithMessage ''refresh_token is required'' ErrInvalidToken)
      else tx_bind (withTx (coreAuthRefreshInTx sy c (coreAuthSHA256 sy refreshToken))) (\<lambda>res.
             lift_res (refresh_outcome res)))"

section \<open>Code exchange\<close>

definition coreAuthLoadValidAuthCode :: "sys \<Rightarrow> ctx \<Rightarrow> string \<Rightarrow> string \<Rightarrow> (auth_code_row \<times> Account) tx" where
  "coreAuthLoadValidAuthCode sy c codeHash verifier =
     tx_bind (query (\<lambda>d. find (\<lambda>r. code_hash r = codeHash) (db_codes d))) (\<lambda>found.
       case found of
         None \<Rightarrow> throw ErrInvalidToken
       | Some row \<Rightarrow>
           if code_consumed row then throw ErrTokenUsed
           else if code_expires_at row \<noteq> zeroTime \<and> nowIn c > code_expires_at row then throw ErrTokenExpired
           else
             tx_bind (unmarshal (code_data row)) (\<lambda>data.
               if co_challenge_hash data \<noteq> [] \<and> coreAuthSHA256 sy verifier \<noteq> co_challenge_hash data
               then throw (WithMessage ''code_verifier mismatch'' ErrInvalidToken)
               else
                 (case code_user_id row of
                    Some userID \<Rightarrow>
                      if userID = [] then throw ErrInvalidToken
                      else
                        tx_bind (FindIamUser ErrUserNotFound userID) (\<lambda>userRow.
                        tx_bind (coreAuthLoadAccount userRow (code_project_id row)) (\<lambda>acc.
                        tx_bind (lift_res (coreAuthAccountActive (cx_now c) acc)) (\<lambda>_.
                          ret (row, acc))))
                  | None \<Rightarrow> throw ErrInvalidToken)))"

definition ExchangeCode :: "sys \<Rightarrow> ctx \<Rightarrow> string \<Rightarrow> string \<Rightarrow> (Account \<times> Session) tx" where
  "ExchangeCode sy c code verifier =
     (if trim_space code = [] then throw (WithMessage ''code is required'' ErrBadRequest)
      else withTx (
        tx_bind (coreAuthLoadValidAuthCode sy c (coreAuthSHA256 sy code) verifier) (\<lambda>(row, acc).
        tx_bind (exec (db_codes_update (update_where (\<lambda>r. code_id r = code_id row) (\<lambda>r. r\<lparr>code_consumed := True\<rparr>)))) (\<lambda>_.
        tx_bind (coreAuthMintSession sy c acc (str_or_empty (code_client_id row)) [''oauth''] 1) (\<lambda>sess.
        tx_bind (Emit sy c ''token.exchanged'' (acc_project_id acc) coreAuthDefaultEnv (se_id sess) (PSession sess)) (\<lambda>_.
          ret (acc, sess)))))))"

section \<open>Guests and lookup\<close>

definition CreateGuest :: "sys \<Rightarrow> ctx \<Rightarrow> string \<Rightarrow> (Account \<times> Session) tx" where
  "CreateGuest sy c projectID =
     (if projectID = [] then throw (WithMessage ''project is required'' ErrValidation)
      else
        tx_bind (effectiveEnv sy c projectID) (\<lambda>env.
        withTx (
          tx_bind (newUUID sy) (\<lambda>i.
          let now = cx_now c;
              acc = \<lparr>acc_deletion = None, acc_id = i, acc_project_id = projectID, acc_kind = coreAuthKindGuest,
                     acc_status = coreAuthStatusActive, acc_primary_email = [], acc_email_verified = False,
                     acc_primary_phone = [], acc_phone_verified = False, acc_name = [], acc_locale = [],
                     acc_invite_cap = None, acc_created_at = now, acc_updated_at = now\<rparr> in
          tx_bind (insert_row db_users db_users_update u_id
                     \<lparr>u_id = i, u_project_id = projectID, u_environment = env, u_kind = acc_kind acc,
                      u_status = acc_status acc, u_primary_email = None, u_primary_phone = None,
                      u_created_at = now, u_updated_at = now, u_security_recovered_at = None, u_data = Some acc\<rparr>) (\<lambda>_.
          tx_bind (coreAuthMintSession sy c acc [] [''anonymous''] 1) (\<lambda>sess.
          tx_bind (Emit sy c ''guest.created'' (acc_project_id acc) env (acc_id acc) (PAccount acc)) (\<lambda>_.
            ret (acc, sess))))))))"

definition GetSession :: "string \<Rightarrow> (Account \<times> Session) tx" where
  "GetSession sessionID =
     (if sessionID = [] then throw ErrSessionNotFound
      else
        tx_bind (FindIamSession ErrSessionNotFound sessionID) (\<lambda>row.
        tx_bind (coreAuthLoadSession row (s_project_id row)) (\<lambda>sess.
        tx_bind (FindIamUser ErrUserNotFound (s_user_id row)) (\<lambda>userRow.
        tx_bind (coreAuthLoadAccount userRow (s_project_id row)) (\<lambda>acc.
          ret (acc, sess))))))"

text \<open>A claim that is a string, or the empty string (\<open>claims[k].(string)\<close>).\<close>

definition claimStr :: "claims \<Rightarrow> string \<Rightarrow> string" where
  "claimStr cl k = (case map_of cl k of Some (CStr v) \<Rightarrow> v | _ \<Rightarrow> [])"

definition coreAuthVerifyAccess :: "sys \<Rightarrow> ctx \<Rightarrow> string \<Rightarrow> string \<Rightarrow> (claims \<times> Session option) tx" where
  "coreAuthVerifyAccess sy c projectID token =
     (let env = (case UnverifiedClaims sy token of
                   Some peek \<Rightarrow> if claimStr peek ''env'' \<noteq> [] then claimStr peek ''env'' else coreAuthDefaultEnv
                 | None \<Rightarrow> coreAuthDefaultEnv) in
      tx_bind (Verify sy c projectID env token) (\<lambda>cl.
        let sid = claimStr cl ''sid'' in
        if sid = [] then ret (cl, None)
        else
          tx_bind (query (\<lambda>d. find (\<lambda>r. s_id r = sid) (db_sessions d))) (\<lambda>found.
            case found of
              None \<Rightarrow> ret (cl, None)
            | Some row \<Rightarrow>
                if s_project_id row \<noteq> projectID \<or> s_environment row \<noteq> env then ret (cl, None)
                else
                  tx_bind (accountDeletionAccess c (s_project_id row) (s_environment row) (s_user_id row)) (\<lambda>_.
                    if (case s_expires_at row of Some v \<Rightarrow> nowIn c > v | None \<Rightarrow> False) then ret (cl, None)
                    else ret (cl, s_data row)))))"

section \<open>Lemmas\<close>

text \<open>The policy a session is held to: the one of its own environment, as the cache serves it.\<close>

definition policy_in_force :: "ctx \<Rightarrow> string \<Rightarrow> string \<Rightarrow> txs \<Rightarrow> EffectiveSessionPolicy" where
  "policy_in_force c pid env s =
     (let e = (if env = [] then runtimeDefaultEnv else env); k = (pid, e, ''session_policy'') in
      parseSessionPolicy (fst (doc_read (cx_now c) (Inr (db_config (tx_db s) k)) k (tx_cfg s))))"

definition policy_state :: "ctx \<Rightarrow> string \<Rightarrow> string \<Rightarrow> txs \<Rightarrow> txs" where
  "policy_state c pid env s =
     (let e = (if env = [] then runtimeDefaultEnv else env); k = (pid, e, ''session_policy'') in
      s\<lparr>tx_cfg := snd (doc_read (cx_now c) (Inr (db_config (tx_db s) k)) k (tx_cfg s))\<rparr>)"

lemma policy_state_simps [simp]:
  "tx_db (policy_state c pid env s) = tx_db s" "tx_pool (policy_state c pid env s) = tx_pool s"
  "tx_draws (policy_state c pid env s) = tx_draws s"
  by (simp_all add: policy_state_def Let_def)

lemma SessionPolicyForEnv_run:
  "SessionPolicyForEnv c pid env s = (Inr (policy_in_force c pid env s), policy_state c pid env s)"
  by (simp add: SessionPolicyForEnv_def tx_bind_def rawDocForEnv_def policy_in_force_def policy_state_def Let_def
      loadDoc_def load_entry_open case_prod_beta)

lemma quiet_token [intro!]: "quiet (coreAuthSignAccessToken sy c acc sid cl e amr aal ttl ir)"
  by (auto simp: coreAuthSignAccessToken_def Let_def)

lemma quiet_load [intro!]: "quiet (coreAuthLoadAccount ur pid)" "quiet (coreAuthLoadSession sr pid)"
  by (auto simp: coreAuthLoadAccount_def coreAuthLoadSession_def)

lemma quiet_rotate [intro!]: "quiet (coreAuthRotateSession sy c acc row)"
  by (auto simp: coreAuthRotateSession_def coreAuthUpdateRotatedSession_def coreAuthInsertRefreshToken_def Let_def
      split: prod.split)

lemma quiet_revoke_presented [intro!]: "quiet (revoke_presented sy c row sr)"
  by (auto simp: revoke_presented_def coreAuthMarkRefreshRevoked_def Let_def)

lemma quiet_refresh [intro!]: "quiet (coreAuthRefreshInTx sy c h)"
  by (auto simp: coreAuthRefreshInTx_def coreAuthLoadRefreshRow_def coreAuthLoadRefreshAccountSession_def
      coreAuthHandleReusedRefresh_def coreAuthCheckDeviceMismatch_def coreAuthCheckSessionTimeout_def
      coreAuthRotateRefresh_def coreAuthMarkRefreshRevoked_def Let_def split: option.split)

text \<open>What a rotation writes: the snapshot on the session row, and one new live token of it.\<close>

lemma coreAuthRotateSession_Inr:
  assumes "coreAuthRotateSession sy c acc row s = (Inr sess, s')"
  defines "now \<equiv> cx_now c"
  obtains prev sp e rid at plain where
    "s_data row = Some prev"
    and "sess = coreAuthBuildRotatedSession c acc prev (s_id row) (se_client_id prev) (se_amr prev)
                  (fst (coreAuthRotateAAL row prev)) at plain sp now"
    and "rid \<notin> rt_id ` set (db_refresh (tx_db s))"
    and "auth_tables (tx_db s') = auth_tables
           ((tx_db s)\<lparr>db_sessions := update_where (\<lambda>r. s_id r = s_id row)
                        (\<lambda>r. r\<lparr>s_last_active_at := now,
                               s_expires_at := Some (coreAuthRefreshHorizon now (s_created_at row) sp),
                               s_device_id := None, s_data := Some sess\<rparr>) (db_sessions (tx_db s)),
                     db_refresh := db_refresh (tx_db s) @ [refresh_row_of
                       \<lparr>rd_id = rid, rd_project_id = acc_project_id acc, rd_environment = e, rd_user_id = acc_id acc,
                        rd_session_id = s_id row, rd_hash = coreAuthSHA256 sy plain, rd_revoked = False,
                        rd_expires_at = coreAuthRefreshHorizon now (s_created_at row) sp, rd_created_at = now\<rparr>]\<rparr>)"
proof -
  obtain s2 s3 s4 s5 s7 prev aal sp e at plain rid where
    st: "SessionPolicy sy c (acc_project_id acc) s = (Inr sp, s2)"
      "resolveSignEnv c (acc_project_id acc) coreAuthDefaultEnv s2 = (Inr e, s3)"
      "coreAuthSignAccessToken sy c acc (s_id row) (se_client_id prev) e (se_amr prev) aal (es_access_ttl sp)
         (RolesClaimEnabled sp) s3 = (Inr at, s4)"
      "coreAuthRandomToken sy s4 = (Inr plain, s5)"
    and aal: "s_data row = Some prev" "aal = fst (coreAuthRotateAAL row prev)"
    and sess: "sess = coreAuthBuildRotatedSession c acc prev (s_id row) (se_client_id prev) (se_amr prev) aal at plain sp now"
    and ins: "newUUID sy (s5\<lparr>tx_db := db_sessions_update (update_where (\<lambda>r. s_id r = s_id row)
                (\<lambda>r. r\<lparr>s_last_active_at := now, s_expires_at := Some (coreAuthRefreshHorizon now (s_created_at row) sp),
                       s_device_id := None, s_data := Some sess\<rparr>)) (tx_db s5)\<rparr>) = (Inr rid, s7)"
      "rid \<notin> rt_id ` set (db_refresh (tx_db s7))"
      "s' = s7\<lparr>tx_db := db_refresh_update (\<lambda>rs. rs @ [refresh_row_of
                       \<lparr>rd_id = rid, rd_project_id = acc_project_id acc, rd_environment = e, rd_user_id = acc_id acc,
                        rd_session_id = s_id row, rd_hash = coreAuthSHA256 sy plain, rd_revoked = False,
                        rd_expires_at = coreAuthRefreshHorizon now (s_created_at row) sp, rd_created_at = now\<rparr>]) (tx_db s7)\<rparr>"
    using assms(1) unfolding coreAuthRotateSession_def Let_def now_def [symmetric]
    by (auto simp: res_simps coreAuthUpdateRotatedSession_def coreAuthInsertRefreshToken_def insert_row_Inr
        coreAuthLoadSession_def refresh_row_of_def coreAuthRotateAAL_def Let_def)
  have pre: "auth_tables (tx_db s5) = auth_tables (tx_db s)"
    using keepsD [where p = auth_tables, OF keeps_SessionPolicy st(1)]
      keepsD [where p = auth_tables, OF keeps_resolveSignEnv st(2)]
      keepsD [where p = auth_tables, OF keeps_coreAuthSignAccessToken st(3)]
      keepsD [where p = auth_tables, OF keeps_coreAuthRandomToken st(4)] by simp
  have s7: "tx_db s7 = db_sessions_update (update_where (\<lambda>r. s_id r = s_id row)
                (\<lambda>r. r\<lparr>s_last_active_at := now, s_expires_at := Some (coreAuthRefreshHorizon now (s_created_at row) sp),
                       s_device_id := None, s_data := Some sess\<rparr>)) (tx_db s5)"
    using ins(1) by (auto simp: newUUID_def)
  show thesis
    using that [OF aal(1) sess [unfolded aal(2)]] ins(2,3) pre by (simp add: s7 auth_tables_def)
qed

text \<open>A refresh that succeeds went through every check and rotated.\<close>

lemma coreAuthRefreshInTx_Rotated:
  assumes "coreAuthRefreshInTx sy c h s = (Inr (Rotated acc sess), s')"
  obtains row ur sessRow s1 s2 where
    "find (\<lambda>r. rt_hash r = h) (db_refresh (tx_db s)) = Some row" and "\<not> rt_revoked row"
    and "\<forall>v. rt_expires_at row = Some v \<longrightarrow> nowIn c \<le> v"
    and "find (\<lambda>r. u_id r = rt_user_id row) (db_users (tx_db s)) = Some ur"
    and "u_project_id ur = rt_project_id row" and "u_data ur = Some acc" and "coreAuthAccountActive (cx_now c) acc = Inr ()"
    and "find (\<lambda>r. s_id r = rt_session_id row) (db_sessions (tx_db s)) = Some sessRow"
    and "\<not> session_timed_out (cx_now c) (policy_in_force c (rt_project_id row) (rt_environment row) s) sessRow"
    and "auth_tables (tx_db s1) = auth_tables ((tx_db s)\<lparr>db_refresh := update_where (\<lambda>r. rt_id r = rt_id row)
           (mark_revoked (Some ((case rt_data row of Some v \<Rightarrow> v | None \<Rightarrow> empty_refresh_token)\<lparr>rd_revoked := True\<rparr>)))
           (db_refresh (tx_db s))\<rparr>)"
    and "coreAuthRotateSession sy c acc sessRow s1 = (Inr sess, s2)"
    and "auth_tables (tx_db s') = auth_tables (tx_db s2)"
proof -
  obtain row where row: "find (\<lambda>r. rt_hash r = h) (db_refresh (tx_db s)) = Some row"
    using assms by (auto simp: coreAuthRefreshInTx_def coreAuthLoadRefreshRow_def res_simps split: option.splits)
  let ?sp = "policy_in_force c (rt_project_id row) (rt_environment row) s"
  let ?s0 = "policy_state c (rt_project_id row) (rt_environment row) s"
  have load: "coreAuthLoadRefreshRow c h s = (Inr (row, ?sp), ?s0)"
    by (simp add: coreAuthLoadRefreshRow_def tx_bind_def row SessionPolicyForEnv_run)
  note run = assms [unfolded coreAuthRefreshInTx_def, simplified tx_bind_Inr [of "coreAuthLoadRefreshRow c h", OF load]]
  have live: "\<not> rt_revoked row" "\<forall>v. rt_expires_at row = Some v \<longrightarrow> nowIn c \<le> v"
    using run by (auto simp: res_simps split: if_splits option.splits)
  have "tx_bind (coreAuthLoadRefreshAccountSession c row) (\<lambda>(acc', sessRow).
         tx_bind (coreAuthLoadSession sessRow (s_project_id sessRow)) (\<lambda>prev.
         tx_bind (coreAuthCheckDeviceMismatch sy c row sessRow prev) (\<lambda>mismatch.
           if mismatch then ret Mismatch
           else tx_bind (coreAuthCheckSessionTimeout sy c row sessRow ?sp) (\<lambda>expired.
               if expired then ret Expired
               else coreAuthRotateRefresh sy c row acc' sessRow)))) ?s0 = (Inr (Rotated acc sess), s')"
    using run live by (simp split: if_splits)
  then obtain acc' sessRow s3 where las: "coreAuthLoadRefreshAccountSession c row ?s0 = (Inr (acc', sessRow), s3)"
    and rest: "tx_bind (coreAuthLoadSession sessRow (s_project_id sessRow)) (\<lambda>prev.
         tx_bind (coreAuthCheckDeviceMismatch sy c row sessRow prev) (\<lambda>mismatch.
           if mismatch then ret Mismatch
           else tx_bind (coreAuthCheckSessionTimeout sy c row sessRow ?sp) (\<lambda>expired.
               if expired then ret Expired
               else coreAuthRotateRefresh sy c row acc' sessRow))) s3 = (Inr (Rotated acc sess), s')"
    unfolding tx_bind_eq_Inr [of "coreAuthLoadRefreshAccountSession c row"] by auto
  obtain ur where acc: "find (\<lambda>r. u_id r = rt_user_id row) (db_users (tx_db s)) = Some ur" "u_project_id ur = rt_project_id row"
      "u_data ur = Some acc'" "coreAuthAccountActive (cx_now c) acc' = Inr ()"
    and sr: "find (\<lambda>r. s_id r = rt_session_id row) (db_sessions (tx_db s)) = Some sessRow" and s3: "s3 = ?s0"
    using las by (auto simp: coreAuthLoadRefreshAccountSession_def FindIamUser_def FindIamSession_def coreAuthLoadAccount_def
        res_simps split: option.splits if_splits)
  have no_timeout: "\<not> session_timed_out (cx_now c) ?sp sessRow"
    and rot: "coreAuthRotateRefresh sy c row acc' sessRow s3 = (Inr (Rotated acc sess), s')"
    using rest
    by (auto simp: res_simps coreAuthLoadSession_def coreAuthCheckDeviceMismatch_def coreAuthCheckSessionTimeout_def Let_def
        split: if_splits)
  let ?s1 = "?s0\<lparr>tx_db := db_refresh_update (update_where (\<lambda>r. rt_id r = rt_id row)
           (mark_revoked (Some ((case rt_data row of Some v \<Rightarrow> v | None \<Rightarrow> empty_refresh_token)\<lparr>rd_revoked := True\<rparr>))))
           (tx_db s)\<rparr>"
  obtain s2 where s2: "coreAuthRotateSession sy c acc sessRow ?s1 = (Inr sess, s2)" "acc' = acc"
      "auth_tables (tx_db s') = auth_tables (tx_db s2)"
    using rot s3
    by (auto simp: coreAuthRotateRefresh_def res_simps coreAuthMarkRefreshRevoked_def Let_def dest: Emit_auth_tables)
  show thesis
    by (rule that [OF row live acc(1,2) _ _ sr no_timeout _ s2(1) s2(3)])
       (use acc(3,4) s2(2) in \<open>auto simp: auth_tables_def\<close>)
qed

lemma Refresh_Inr:
  "Refresh sy c t s = (Inr (acc, sess), s') \<Longrightarrow> tx_pool s = [] \<Longrightarrow>
     coreAuthRefreshInTx sy c (coreAuthSHA256 sy t) s = (Inr (Rotated acc sess), s')"
  by (auto simp: Refresh_def res_simps withTx_quiet [OF quiet_refresh] split: if_splits prod.splits sum.splits
      elim!: refresh_outcome.elims)

text \<open>Marking one token revoked keeps the invariant.\<close>

lemma mark_revoked_wf:
  assumes "sessions_wf d"
  shows "sessions_wf (db_refresh_update (update_where (\<lambda>r. rt_id r = i) (mark_revoked (Some (v\<lparr>rd_revoked := True\<rparr>)))) d)"
proof -
  let ?f = "mark_revoked (Some (v\<lparr>rd_revoked := True\<rparr>))"
  have "token_ok (?f r)" "anchors (?f r) = anchors r" for r
    by (simp_all add: token_ok_def anchors_def fun_eq_iff)
  moreover have "map rt_id (update_where (\<lambda>r. rt_id r = i) ?f t) = map rt_id t" for t
    by (rule map_key_update_where) simp
  ultimately show ?thesis
    using assms by (auto simp: sessions_wf_def list_all_iff set_update_where)
qed

lemma update_session_wf:
  assumes "sessions_wf d" and "\<And>r. s_id r = i \<Longrightarrow> r \<in> set (db_sessions d) \<Longrightarrow> session_ok (f r)"
    and "\<And>r. s_id (f r) = s_id r" "\<And>r. s_project_id (f r) = s_project_id r" "\<And>r. s_user_id (f r) = s_user_id r"
  shows "sessions_wf (d\<lparr>db_sessions := update_where (\<lambda>r. s_id r = i) f (db_sessions d)\<rparr>)"
proof -
  have "map s_id (update_where (\<lambda>r. s_id r = i) f t) = map s_id t" for t
    by (rule map_key_update_where) (simp add: assms(3))
  moreover have "list_ex (anchors r) (update_where (\<lambda>r. s_id r = i) f t) = list_ex (anchors r) t" for r t
    by (induction t) (auto simp: anchors_def assms(3-5))
  ultimately show ?thesis
    using assms(1,2) by (auto simp: sessions_wf_def list_all_iff set_update_where)
qed

lemma insert_token_wf:
  assumes "sessions_wf d" and "rt_id r \<notin> rt_id ` set (db_refresh d)" and "token_ok r"
    and "x \<in> set (db_sessions d)" and "anchors r x"
  shows "sessions_wf (d\<lparr>db_refresh := db_refresh d @ [r]\<rparr>)"
  using assms by (auto simp: sessions_wf_def list_ex_iff)

text \<open>The account and the session of a live token are the ones it names.\<close>

lemma live_token_rows:
  assumes "sessions_wf d" and "row \<in> set (db_refresh d)" and "\<not> rt_revoked row"
    and "find (\<lambda>r. s_id r = rt_session_id row) (db_sessions d) = Some sr"
  shows "sr \<in> set (db_sessions d)" and "anchors row sr"
proof -
  have sr: "sr \<in> set (db_sessions d)" "s_id sr = rt_session_id row" using find_set [OF assms(4)] by auto
  obtain x where x: "x \<in> set (db_sessions d)" "anchors row x"
    using assms(1-3) by (auto simp: sessions_wf_def list_all_iff list_ex_iff)
  then have "x = sr" using assms(1) sr distinct_key_eq [of s_id "db_sessions d" x sr] by (simp add: sessions_wf_def anchors_def)
  with sr x show "sr \<in> set (db_sessions d)" "anchors row sr" by auto
qed

lemma user_row_ok:
  "sessions_wf d \<Longrightarrow> find (\<lambda>r. u_id r = i) (db_users d) = Some ur \<Longrightarrow> u_data ur = Some acc \<Longrightarrow>
     acc_id acc = i \<and> acc_project_id acc = u_project_id ur"
  by (auto simp: sessions_wf_def list_all_iff user_ok_def dest!: find_set)

lemma coreAuthRotateSession_wf:
  assumes run: "coreAuthRotateSession sy c acc row s = (Inr sess, s')" and wf: "sessions_wf (tx_db s)"
    and row: "row \<in> set (db_sessions (tx_db s))" "acc_id acc = s_user_id row" "acc_project_id acc = s_project_id row"
  shows "sessions_wf (tx_db s')"
proof (rule coreAuthRotateSession_Inr [OF run])
  fix prev sp e rid at plain
  let ?now = "cx_now c" and ?d = "tx_db s"
  let ?h = "coreAuthRefreshHorizon ?now (s_created_at row) sp"
  let ?f = "\<lambda>r. r\<lparr>s_last_active_at := ?now, s_expires_at := Some ?h, s_device_id := None, s_data := Some sess\<rparr>"
  let ?tok = "refresh_row_of \<lparr>rd_id = rid, rd_project_id = acc_project_id acc, rd_environment = e, rd_user_id = acc_id acc,
      rd_session_id = s_id row, rd_hash = coreAuthSHA256 sy plain, rd_revoked = False, rd_expires_at = ?h, rd_created_at = ?now\<rparr>"
  assume sess: "sess = coreAuthBuildRotatedSession c acc prev (s_id row) (se_client_id prev) (se_amr prev)
                  (fst (coreAuthRotateAAL row prev)) at plain sp ?now"
    and new: "rid \<notin> rt_id ` set (db_refresh ?d)"
    and t: "auth_tables (tx_db s') = auth_tables
       (?d\<lparr>db_sessions := update_where (\<lambda>r. s_id r = s_id row) ?f (db_sessions ?d), db_refresh := db_refresh ?d @ [?tok]\<rparr>)"
  let ?d1 = "?d\<lparr>db_sessions := update_where (\<lambda>r. s_id r = s_id row) ?f (db_sessions ?d)\<rparr>"
  have same: "r = row" if "r \<in> set (db_sessions ?d)" "s_id r = s_id row" for r
    using that wf row(1) distinct_key_eq [of s_id "db_sessions ?d" r row] by (simp add: sessions_wf_def)
  have wf1: "sessions_wf ?d1"
    by (rule update_session_wf [OF wf]) (auto dest!: same simp: session_ok_def sess coreAuthBuildRotatedSession_def row)
  have mem: "?f row \<in> set (db_sessions ?d1)" using row(1) by (force simp: set_update_where)
  have "sessions_wf (?d1\<lparr>db_refresh := db_refresh ?d1 @ [?tok]\<rparr>)"
    by (rule insert_token_wf [OF wf1 _ _ mem]) (use new row in \<open>auto simp: refresh_row_of_def token_ok_def anchors_def\<close>)
  then have "sessions_wf (?d\<lparr>db_sessions := update_where (\<lambda>r. s_id r = s_id row) ?f (db_sessions ?d), db_refresh := db_refresh ?d @ [?tok]\<rparr>)"
    by simp
  then show ?thesis by (simp only: sessions_wf_cong [OF t])
qed

section \<open>Rejections\<close>

lemma coreAuthLoadRefreshRow_run:
  "find (\<lambda>r. rt_hash r = h) (db_refresh (tx_db s)) = Some row \<Longrightarrow>
     coreAuthLoadRefreshRow c h s =
       (Inr (row, policy_in_force c (rt_project_id row) (rt_environment row) s),
        policy_state c (rt_project_id row) (rt_environment row) s)"
  by (simp add: coreAuthLoadRefreshRow_def tx_bind_def SessionPolicyForEnv_run)

lemma coreAuthRevokeAllForUser_revokes:
  assumes "sessions_wf (tx_db s)"
  shows "\<exists>s'. coreAuthRevokeAllForUser sy c pid uid s = (Inr (), s') \<and> sessions_wf (tx_db s')
           \<and> revokes (user_sessions pid uid (tx_db s)) (tx_db s) (tx_db s')"
proof -
  let ?rows = "filter (\<lambda>r. s_project_id r = pid \<and> s_user_id r = uid) (db_sessions (tx_db s))"
  have d: "distinct (map s_id (db_sessions (tx_db s)))" using assms by (simp add: sessions_wf_def)
  have ids: "s_id ` set ?rows = user_sessions pid uid (tx_db s)"
    by (auto simp: user_sessions_def)
  have "set ?rows \<subseteq> set (db_sessions (tx_db s))" "\<forall>r \<in> set ?rows. s_project_id r = pid" by auto
  from reuse_loop.loop_revokes [where sy = sy and c = c, OF assms this(1) distinct_map_filter_key [OF d] this(2)]
  show ?thesis
    unfolding coreAuthRevokeAllForUser_def tx_bind_def query_def by (simp add: ids [symmetric] del: filter_filter)
qed

text \<open>A replayed token: with reuse detection every session of its account is revoked, then the
  detection is published, which may still fail.\<close>

definition publish_reuse :: "sys \<Rightarrow> ctx \<Rightarrow> refresh_row \<Rightarrow> unit tx" where
  "publish_reuse sy c row =
     Emit sy c ''token.reuse_detected'' (rt_project_id row) coreAuthDefaultEnv (rt_user_id row)
       (PFields [(''session_id'', DStr (rt_session_id row))])"

lemma refresh_replayed_run:
  assumes "sessions_wf (tx_db s)" and "find (\<lambda>r. rt_hash r = h) (db_refresh (tx_db s)) = Some row" and "rt_revoked row"
    and "es_reuse_detection (policy_in_force c (rt_project_id row) (rt_environment row) s)"
  obtains s1 where "coreAuthRefreshInTx sy c h s = tx_bind (publish_reuse sy c row) (\<lambda>_. ret Revoked) s1"
    and "sessions_wf (tx_db s1)" and "revokes (user_sessions (rt_project_id row) (rt_user_id row) (tx_db s)) (tx_db s) (tx_db s1)"
    and "tx_draws s \<le> tx_draws s1" and "observer_tables (tx_db s1) = observer_tables (tx_db s)"
proof -
  let ?s0 = "policy_state c (rt_project_id row) (rt_environment row) s"
  obtain s1 where s1: "coreAuthRevokeAllForUser sy c (rt_project_id row) (rt_user_id row) ?s0 = (Inr (), s1)"
      "sessions_wf (tx_db s1)" "revokes (user_sessions (rt_project_id row) (rt_user_id row) (tx_db s)) (tx_db s) (tx_db s1)"
    using coreAuthRevokeAllForUser_revokes [of ?s0 sy c "rt_project_id row" "rt_user_id row"] assms(1) by auto
  have "coreAuthRefreshInTx sy c h s = tx_bind (publish_reuse sy c row) (\<lambda>_. ret Revoked) s1"
    using assms(3,4) coreAuthLoadRefreshRow_run [OF assms(2), of c] s1(1)
    by (simp add: coreAuthRefreshInTx_def coreAuthHandleReusedRefresh_def publish_reuse_def tx_bind_def)
  then show thesis
    using that s1(2,3) forwardD [of "coreAuthRevokeAllForUser sy c (rt_project_id row) (rt_user_id row)" ?s0]
      keepsD [of observer_tables "coreAuthRevokeAllForUser sy c (rt_project_id row) (rt_user_id row)" ?s0]
      undisturbed_revoke_all [of sy c "rt_project_id row" "rt_user_id row"] s1(1)
    by (simp add: undisturbed_def)
qed

lemma refresh_replayed_undetected:
  assumes "find (\<lambda>r. rt_hash r = h) (db_refresh (tx_db s)) = Some row" and "rt_revoked row"
    and "\<not> es_reuse_detection (policy_in_force c (rt_project_id row) (rt_environment row) s)"
  shows "coreAuthRefreshInTx sy c h s = (Inr Revoked, policy_state c (rt_project_id row) (rt_environment row) s)"
  using assms coreAuthLoadRefreshRow_run [OF assms(1)]
  by (simp add: coreAuthRefreshInTx_def coreAuthHandleReusedRefresh_def tx_bind_def)

text \<open>Whatever a replay returns normally, the invariant holds and the revocation is done.\<close>

lemma refresh_replayed_Inr:
  assumes "sessions_wf (tx_db s)" and "find (\<lambda>r. rt_hash r = h) (db_refresh (tx_db s)) = Some row" and "rt_revoked row"
    and "coreAuthRefreshInTx sy c h s = (Inr res, s')"
  shows "res = Revoked \<and> sessions_wf (tx_db s')
     \<and> (if es_reuse_detection (policy_in_force c (rt_project_id row) (rt_environment row) s)
        then revokes (user_sessions (rt_project_id row) (rt_user_id row) (tx_db s)) (tx_db s) (tx_db s')
        else tx_db s' = tx_db s)"
proof (cases "es_reuse_detection (policy_in_force c (rt_project_id row) (rt_environment row) s)")
  case False
  then show ?thesis using assms(1,4) by (auto simp: refresh_replayed_undetected [OF assms(2,3) False])
next
  case True
  obtain s1 where run: "coreAuthRefreshInTx sy c h s = tx_bind (publish_reuse sy c row) (\<lambda>_. ret Revoked) s1"
    and s1: "sessions_wf (tx_db s1)" "revokes (user_sessions (rt_project_id row) (rt_user_id row) (tx_db s)) (tx_db s) (tx_db s1)"
      "tx_draws s \<le> tx_draws s1" "observer_tables (tx_db s1) = observer_tables (tx_db s)"
    by (rule refresh_replayed_run [OF assms(1-3) True, where sy = sy])
  have "publish_reuse sy c row s1 = (Inr (), s')" "res = Revoked"
    using assms(4) unfolding run by (auto simp: res_simps)
  then have t: "auth_tables (tx_db s') = auth_tables (tx_db s1)"
    by (auto simp: publish_reuse_def dest: Emit_auth_tables)
  show ?thesis using True s1 \<open>res = Revoked\<close> by (simp add: sessions_wf_cong [OF t] revokes_cong [OF t])
qed

lemma refresh_replayed:
  assumes "sessions_wf (tx_db s)" and "find (\<lambda>r. rt_hash r = h) (db_refresh (tx_db s)) = Some row" and "rt_revoked row"
    and "observer_ready sy c (rt_project_id row) coreAuthDefaultEnv s"
  shows "\<exists>s'. coreAuthRefreshInTx sy c h s = (Inr Revoked, s')"
proof (cases "es_reuse_detection (policy_in_force c (rt_project_id row) (rt_environment row) s)")
  case False
  then show ?thesis using refresh_replayed_undetected [OF assms(2,3)] by blast
next
  case True
  obtain s1 where run: "coreAuthRefreshInTx sy c h s = tx_bind (publish_reuse sy c row) (\<lambda>_. ret Revoked) s1"
    and s1: "sessions_wf (tx_db s1)" "revokes (user_sessions (rt_project_id row) (rt_user_id row) (tx_db s)) (tx_db s) (tx_db s1)"
      "tx_draws s \<le> tx_draws s1" "observer_tables (tx_db s1) = observer_tables (tx_db s)"
    by (rule refresh_replayed_run [OF assms(1-3) True, where sy = sy])
  have "\<exists>s'. publish_reuse sy c row s1 = (Inr (), s')"
    unfolding publish_reuse_def
    using Emit_blocked_run [OF observer_ready_cong [OF assms(4) s1(3,4)] sessions_wf_users [OF s1(1)] _ auth_tables_side_free]
    by blast
  then show ?thesis using run by auto
qed

text \<open>Revoking the presented token and its session.\<close>

lemma revokes_after_mark:
  assumes "revokes {i} (db_refresh_update (update_where p (mark_revoked v)) d) d'"
    and "\<And>r. r \<in> set (db_refresh d) \<Longrightarrow> p r \<Longrightarrow> rt_session_id r = i"
  shows "revokes {i} d d'"
proof -
  have tr: "token_step {i} x z" if "token_step {i} x y" "token_step {i} y z" for x y z
    using token_step_trans [OF that] by simp
  have a: "list_all2 (token_step {i}) (db_refresh d) (update_where p (mark_revoked v) (db_refresh d))"
    using assms(2) by (simp add: update_where_def list_all2_map2 list_all2_same token_step_def)
  have b: "list_all2 (token_step {i}) (update_where p (mark_revoked v) (db_refresh d)) (db_refresh d')"
    using assms(1) by (simp add: revokes_def)
  have "list_all2 (token_step {i}) (db_refresh d) (db_refresh d')"
    by (rule list_all2_trans [OF tr a b])
  with assms(1) show ?thesis by (simp add: revokes_def other_tables_def)
qed

lemma revoke_presented_revokes:
  assumes "sessions_wf (tx_db s)" and "row \<in> set (db_refresh (tx_db s))" and "sr \<in> set (db_sessions (tx_db s))"
    and "rt_session_id row = s_id sr"
  shows "\<exists>s'. revoke_presented sy c row sr s = (Inr (), s') \<and> sessions_wf (tx_db s') \<and> revokes {s_id sr} (tx_db s) (tx_db s')"
proof -
  let ?v = "Some ((case rt_data row of Some v \<Rightarrow> v | None \<Rightarrow> empty_refresh_token)\<lparr>rd_revoked := True\<rparr>)"
  let ?d = "db_refresh_update (update_where (\<lambda>r. rt_id r = rt_id row) (mark_revoked ?v)) (tx_db s)"
  let ?s1 = "s\<lparr>tx_db := ?d\<rparr>"
  have "sessions_wf (tx_db ?s1)" using mark_revoked_wf [OF assms(1)] by simp
  then obtain s' where s': "coreAuthRevokeSession sy c (s_project_id sr) (s_id sr) ?s1 = (Inr (), s')" "sessions_wf (tx_db s')"
      "revokes {s_id sr} ?d (tx_db s')"
    using coreAuthRevokeSession_revokes [of ?s1 sr "s_project_id sr"] assms(3) by auto
  have "rt_session_id r = s_id sr" if "r \<in> set (db_refresh (tx_db s))" "rt_id r = rt_id row" for r
    using that assms distinct_key_eq [of rt_id "db_refresh (tx_db s)" r row] by (simp add: sessions_wf_def)
  then have "revokes {s_id sr} (tx_db s) (tx_db s')" by (rule revokes_after_mark [OF s'(3)])
  moreover have "revoke_presented sy c row sr s = (Inr (), s')"
    using s'(1) by (simp add: revoke_presented_def coreAuthMarkRefreshRevoked_def tx_bind_def tx_handle_def Let_def)
  ultimately show ?thesis using s'(2) by blast
qed

text \<open>The token, account and session a refresh works on, once they are loaded and checked.\<close>

definition refreshable :: "ctx \<Rightarrow> string \<Rightarrow> txs \<Rightarrow> refresh_row \<Rightarrow> Account \<Rightarrow> session_row \<Rightarrow> bool" where
  "refreshable c h s row acc sr \<longleftrightarrow>
     find (\<lambda>r. rt_hash r = h) (db_refresh (tx_db s)) = Some row \<and> \<not> rt_revoked row
   \<and> (\<forall>v. rt_expires_at row = Some v \<longrightarrow> nowIn c \<le> v)
   \<and> (\<exists>ur. find (\<lambda>r. u_id r = rt_user_id row) (db_users (tx_db s)) = Some ur
          \<and> u_project_id ur = rt_project_id row \<and> u_data ur = Some acc)
   \<and> coreAuthAccountActive (cx_now c) acc = Inr ()
   \<and> find (\<lambda>r. s_id r = rt_session_id row) (db_sessions (tx_db s)) = Some sr"

definition device_changed :: "ctx \<Rightarrow> Session \<Rightarrow> bool" where
  "device_changed c prev \<longleftrightarrow>
     se_fingerprint prev \<noteq> [] \<and> rm_fingerprint (cx_meta c) \<noteq> [] \<and> rm_fingerprint (cx_meta c) \<noteq> se_fingerprint prev"

lemma refreshable_rows:
  assumes "sessions_wf (tx_db s)" and "refreshable c h s row acc sr"
  shows "row \<in> set (db_refresh (tx_db s))" and "sr \<in> set (db_sessions (tx_db s))" and "anchors row sr"
    and "acc_id acc = s_user_id sr" and "acc_project_id acc = s_project_id sr" and "rt_session_id row = s_id sr"
    and "\<exists>prev. s_data sr = Some prev \<and> se_id prev = s_id sr"
proof -
  show row: "row \<in> set (db_refresh (tx_db s))" using assms(2) find_set by (fastforce simp: refreshable_def)
  show sr: "sr \<in> set (db_sessions (tx_db s))" and an: "anchors row sr"
    using live_token_rows [OF assms(1) row] assms(2) by (auto simp: refreshable_def)
  obtain ur where "find (\<lambda>r. u_id r = rt_user_id row) (db_users (tx_db s)) = Some ur"
    "u_project_id ur = rt_project_id row" "u_data ur = Some acc" using assms(2) by (auto simp: refreshable_def)
  with user_row_ok [OF assms(1) this(1,3)] an
  show "acc_id acc = s_user_id sr" "acc_project_id acc = s_project_id sr" "rt_session_id row = s_id sr"
    by (simp_all add: anchors_def)
  show "\<exists>prev. s_data sr = Some prev \<and> se_id prev = s_id sr"
    using assms(1) sr by (auto simp: sessions_wf_def list_all_iff session_ok_def split: option.splits)
qed

lemma refresh_checked_run:
  assumes "refreshable c h s row acc sr" and "s_data sr = Some prev"
  shows "coreAuthRefreshInTx sy c h s =
     tx_bind (coreAuthCheckDeviceMismatch sy c row sr prev) (\<lambda>mismatch.
       if mismatch then ret Mismatch
       else tx_bind (coreAuthCheckSessionTimeout sy c row sr (policy_in_force c (rt_project_id row) (rt_environment row) s)) (\<lambda>expired.
              if expired then ret Expired else coreAuthRotateRefresh sy c row acc sr))
       (policy_state c (rt_project_id row) (rt_environment row) s)"
proof -
  let ?s0 = "policy_state c (rt_project_id row) (rt_environment row) s"
  have f: "find (\<lambda>r. rt_hash r = h) (db_refresh (tx_db s)) = Some row" using assms(1) by (simp add: refreshable_def)
  have las: "coreAuthLoadRefreshAccountSession c row ?s0 = (Inr (acc, sr), ?s0)"
    using assms(1) by (auto simp: refreshable_def coreAuthLoadRefreshAccountSession_def FindIamUser_def FindIamSession_def
        coreAuthLoadAccount_def tx_bind_def unmarshal_def)
  have prev: "coreAuthLoadSession sr (s_project_id sr) ?s0 = (Inr prev, ?s0)"
    by (simp add: coreAuthLoadSession_def assms(2) unmarshal_def)
  have "\<not> (case rt_expires_at row of None \<Rightarrow> False | Some v \<Rightarrow> v < nowIn c)"
    using assms(1) by (auto simp: refreshable_def split: option.splits)
  moreover have "\<not> rt_revoked row" using assms(1) by (simp add: refreshable_def)
  ultimately show ?thesis
    unfolding coreAuthRefreshInTx_def
    by (simp add: tx_bind_Inr [of "coreAuthLoadRefreshRow c h", OF coreAuthLoadRefreshRow_run [OF f]]
        tx_bind_Inr [of "coreAuthLoadRefreshAccountSession c row", OF las]
        tx_bind_Inr [of "coreAuthLoadSession sr (s_project_id sr)", OF prev])
qed

definition publish_mismatch :: "sys \<Rightarrow> ctx \<Rightarrow> session_row \<Rightarrow> unit tx" where
  "publish_mismatch sy c sr =
     Emit sy c ''session.device_mismatch'' (s_project_id sr) coreAuthDefaultEnv (s_id sr)
       (PFields [(''session_id'', DStr (s_id sr)), (''user_id'', DStr (s_user_id sr))])"

lemma refresh_other_device_run:
  assumes "sessions_wf (tx_db s)" and "refreshable c h s row acc sr" and "s_data sr = Some prev" and "device_changed c prev"
  obtains s1 where "coreAuthRefreshInTx sy c h s = tx_bind (publish_mismatch sy c sr) (\<lambda>_. ret Mismatch) s1"
    and "sessions_wf (tx_db s1)" and "revokes {s_id sr} (tx_db s) (tx_db s1)"
    and "tx_draws s \<le> tx_draws s1" and "observer_tables (tx_db s1) = observer_tables (tx_db s)"
proof -
  let ?s0 = "policy_state c (rt_project_id row) (rt_environment row) s"
  note r = refreshable_rows [OF assms(1,2)]
  obtain s1 where s1: "revoke_presented sy c row sr ?s0 = (Inr (), s1)" "sessions_wf (tx_db s1)" "revokes {s_id sr} (tx_db s) (tx_db s1)"
    using revoke_presented_revokes [of ?s0 row sr sy c] assms(1) r by auto
  have u: "undisturbed (revoke_presented sy c row sr)"
    using undisturbed_revoke(2,3) by (auto simp: undisturbed_def revoke_presented_def)
  have "coreAuthCheckDeviceMismatch sy c row sr prev ?s0 = tx_bind (publish_mismatch sy c sr) (\<lambda>_. ret True) s1"
    using assms(4) s1(1) by (simp add: coreAuthCheckDeviceMismatch_def device_changed_def publish_mismatch_def Let_def tx_bind_def)
  then have "coreAuthRefreshInTx sy c h s = tx_bind (publish_mismatch sy c sr) (\<lambda>_. ret Mismatch) s1"
    unfolding refresh_checked_run [OF assms(2,3)] by (auto simp: tx_bind_def split: prod.split sum.split)
  then show thesis
    using that s1 u forwardD [of "revoke_presented sy c row sr" ?s0] keepsD [of observer_tables "revoke_presented sy c row sr" ?s0]
    by (simp add: undisturbed_def)
qed

lemma refresh_other_device_Inr:
  assumes "sessions_wf (tx_db s)" and "refreshable c h s row acc sr" and "s_data sr = Some prev" and "device_changed c prev"
    and "coreAuthRefreshInTx sy c h s = (Inr res, s')"
  shows "res = Mismatch \<and> sessions_wf (tx_db s') \<and> revokes {s_id sr} (tx_db s) (tx_db s')"
proof -
  obtain s1 where run: "coreAuthRefreshInTx sy c h s = tx_bind (publish_mismatch sy c sr) (\<lambda>_. ret Mismatch) s1"
    and s1: "sessions_wf (tx_db s1)" "revokes {s_id sr} (tx_db s) (tx_db s1)"
      "tx_draws s \<le> tx_draws s1" "observer_tables (tx_db s1) = observer_tables (tx_db s)"
    by (rule refresh_other_device_run [OF assms(1-4), where sy = sy])
  have "publish_mismatch sy c sr s1 = (Inr (), s')" "res = Mismatch"
    using assms(5) unfolding run by (auto simp: res_simps)
  then have t: "auth_tables (tx_db s') = auth_tables (tx_db s1)"
    by (auto simp: publish_mismatch_def dest: Emit_auth_tables)
  show ?thesis using s1 \<open>res = Mismatch\<close> by (simp add: sessions_wf_cong [OF t] revokes_cong [OF t])
qed

lemma refresh_other_device:
  assumes "sessions_wf (tx_db s)" and "refreshable c h s row acc sr" and "s_data sr = Some prev" and "device_changed c prev"
    and "observer_ready sy c (s_project_id sr) coreAuthDefaultEnv s"
  shows "\<exists>s'. coreAuthRefreshInTx sy c h s = (Inr Mismatch, s')"
proof -
  obtain s1 where run: "coreAuthRefreshInTx sy c h s = tx_bind (publish_mismatch sy c sr) (\<lambda>_. ret Mismatch) s1"
    and s1: "sessions_wf (tx_db s1)" "revokes {s_id sr} (tx_db s) (tx_db s1)"
      "tx_draws s \<le> tx_draws s1" "observer_tables (tx_db s1) = observer_tables (tx_db s)"
    by (rule refresh_other_device_run [OF assms(1-4), where sy = sy])
  have "\<exists>s'. publish_mismatch sy c sr s1 = (Inr (), s')"
    unfolding publish_mismatch_def
    using Emit_blocked_run [OF observer_ready_cong [OF assms(5) s1(3,4)] sessions_wf_users [OF s1(1)] _ auth_tables_side_free]
    by blast
  then show ?thesis using run by auto
qed

lemma no_device_change:
  "\<not> device_changed c prev \<Longrightarrow> coreAuthCheckDeviceMismatch sy c row sr prev s = (Inr False, s)"
  by (auto simp: device_changed_def coreAuthCheckDeviceMismatch_def Let_def)

lemma refresh_timed_out:
  assumes "sessions_wf (tx_db s)" and "refreshable c h s row acc sr" and "s_data sr = Some prev" and "\<not> device_changed c prev"
    and "session_timed_out (cx_now c) (policy_in_force c (rt_project_id row) (rt_environment row) s) sr"
  shows "\<exists>s'. coreAuthRefreshInTx sy c h s = (Inr Expired, s') \<and> sessions_wf (tx_db s') \<and> revokes {s_id sr} (tx_db s) (tx_db s')"
proof -
  let ?s0 = "policy_state c (rt_project_id row) (rt_environment row) s"
  note r = refreshable_rows [OF assms(1,2)]
  obtain s1 where s1: "revoke_presented sy c row sr ?s0 = (Inr (), s1)" "sessions_wf (tx_db s1)" "revokes {s_id sr} (tx_db s) (tx_db s1)"
    using revoke_presented_revokes [of ?s0 row sr sy c] assms(1) r by auto
  then show ?thesis
    unfolding refresh_checked_run [OF assms(2,3)] using assms(5)
    by (simp add: tx_bind_def no_device_change [OF assms(4)] coreAuthCheckSessionTimeout_def)
qed

lemma refresh_rotates_run:
  assumes "refreshable c h s row acc sr" and "s_data sr = Some prev" and "\<not> device_changed c prev"
    and "\<not> session_timed_out (cx_now c) (policy_in_force c (rt_project_id row) (rt_environment row) s) sr"
  shows "coreAuthRefreshInTx sy c h s =
     coreAuthRotateRefresh sy c row acc sr (policy_state c (rt_project_id row) (rt_environment row) s)"
  unfolding refresh_checked_run [OF assms(1,2)] using assms(4)
  by (simp add: tx_bind_def no_device_change [OF assms(3)] coreAuthCheckSessionTimeout_def)

text \<open>The other ways a refresh ends.\<close>

lemma refresh_not_refreshable:
  assumes "coreAuthRefreshInTx sy c h s = (Inr res, s')"
    and "find (\<lambda>r. rt_hash r = h) (db_refresh (tx_db s)) = Some row" and "\<not> rt_revoked row"
  shows "\<exists>acc sr. refreshable c h s row acc sr"
  using assms
  by (auto simp: coreAuthRefreshInTx_def tx_bind_Inr [of "coreAuthLoadRefreshRow c h", OF coreAuthLoadRefreshRow_run]
      refreshable_def coreAuthLoadRefreshAccountSession_def FindIamUser_def FindIamSession_def
      coreAuthLoadAccount_def res_simps not_less split: if_splits option.splits)

lemma coreAuthRotateRefresh_Inr:
  assumes "coreAuthRotateRefresh sy c row acc sr s = (Inr res, s')"
  obtains sess s2 where "res = Rotated acc sess"
    and "coreAuthRotateSession sy c acc sr (s\<lparr>tx_db := db_refresh_update (update_where (\<lambda>r. rt_id r = rt_id row)
           (mark_revoked (Some ((case rt_data row of Some v \<Rightarrow> v | None \<Rightarrow> empty_refresh_token)\<lparr>rd_revoked := True\<rparr>)))) (tx_db s)\<rparr>)
         = (Inr sess, s2)"
    and "auth_tables (tx_db s') = auth_tables (tx_db s2)"
  using assms
  by (auto simp: coreAuthRotateRefresh_def res_simps coreAuthMarkRefreshRevoked_def Let_def dest: Emit_auth_tables)

lemma coreAuthRefreshInTx_wf:
  assumes "coreAuthRefreshInTx sy c h s = (Inr res, s')" and "sessions_wf (tx_db s)"
  shows "sessions_wf (tx_db s')"
proof -
  obtain row where row: "find (\<lambda>r. rt_hash r = h) (db_refresh (tx_db s)) = Some row"
    using assms(1) by (auto simp: coreAuthRefreshInTx_def coreAuthLoadRefreshRow_def res_simps split: option.splits)
  show ?thesis
  proof (cases "rt_revoked row")
    case True
    then show ?thesis using refresh_replayed_Inr [OF assms(2) row True assms(1)] by blast
  next
    case False
    obtain acc sr where ok: "refreshable c h s row acc sr" using refresh_not_refreshable [OF assms(1) row False] by blast
    note r = refreshable_rows [OF assms(2) ok]
    obtain prev where prev: "s_data sr = Some prev" using r(7) by blast
    consider (device) "device_changed c prev"
      | (time) "\<not> device_changed c prev" "session_timed_out (cx_now c) (policy_in_force c (rt_project_id row) (rt_environment row) s) sr"
      | (rotate) "\<not> device_changed c prev" "\<not> session_timed_out (cx_now c) (policy_in_force c (rt_project_id row) (rt_environment row) s) sr"
      by blast
    then show ?thesis
    proof cases
      case device
      from refresh_other_device_Inr [OF assms(2) ok prev this assms(1)] show ?thesis by blast
    next
      case time
      from refresh_timed_out [OF assms(2) ok prev this, of sy] assms(1) show ?thesis by auto
    next
      case rotate
      from assms(1) [unfolded refresh_rotates_run [OF ok prev rotate]] show ?thesis
      proof (rule coreAuthRotateRefresh_Inr)
        fix sess s2
        let ?s1 = "(policy_state c (rt_project_id row) (rt_environment row) s)
          \<lparr>tx_db := db_refresh_update (update_where (\<lambda>r. rt_id r = rt_id row)
             (mark_revoked (Some ((case rt_data row of Some v \<Rightarrow> v | None \<Rightarrow> empty_refresh_token)\<lparr>rd_revoked := True\<rparr>))))
             (tx_db (policy_state c (rt_project_id row) (rt_environment row) s))\<rparr>"
        assume rot: "coreAuthRotateSession sy c acc sr ?s1 = (Inr sess, s2)" and t: "auth_tables (tx_db s') = auth_tables (tx_db s2)"
        have "sessions_wf (tx_db ?s1)" using mark_revoked_wf [OF assms(2)] by simp
        from coreAuthRotateSession_wf [OF rot this] r(2,4,5) have "sessions_wf (tx_db s2)" by simp
        then show ?thesis by (simp only: sessions_wf_cong [OF t])
      qed
    qed
  qed
qed

section \<open>Properties\<close>

lemma Refresh_run:
  assumes "coreAuthRefreshInTx sy c (coreAuthSHA256 sy t) s = (Inr res, s')" and "tx_pool s = []" and "trim_space t \<noteq> []"
  shows "Refresh sy c t s = (refresh_outcome res, s')"
  using assms(3) by (simp add: Refresh_def tx_bind_def withTx_commit [OF quiet_refresh assms(2) assms(1)])

text \<open>C31: in a state that satisfies the invariant of the session tables, a refresh that succeeds keeps who the
  session speaks for and how it was authenticated: the token presented was not revoked, the rotated session has
  the same id, account, project, client, authentication methods and creation time as the session of that token,
  its assurance level is the one of the session row (so an MFA elevation survives; the one of the stored session,
  or 1, when the row has none), and the new refresh token is stored under its hash, not revoked, for that session.\<close>

theorem refresh_preserves_session:
  assumes "Refresh sy c t s = (Inr (acc, sess), s')" and "sessions_wf (tx_db s)" and "tx_pool s = []"
  shows "\<exists>row sr prev new. row \<in> set (db_refresh (tx_db s)) \<and> rt_hash row = coreAuthSHA256 sy t \<and> \<not> rt_revoked row
     \<and> sr \<in> set (db_sessions (tx_db s)) \<and> anchors row sr \<and> s_data sr = Some prev
     \<and> se_id sess = s_id sr \<and> se_account_id sess = s_user_id sr \<and> se_project_id sess = s_project_id sr
     \<and> se_client_id sess = se_client_id prev \<and> se_amr sess = se_amr prev \<and> se_created_at sess = se_created_at prev
     \<and> se_aal sess = (if s_aal sr > 0 then s_aal sr else if se_aal prev > 0 then se_aal prev else 1)
     \<and> new \<in> set (db_refresh (tx_db s')) \<and> rt_hash new = coreAuthSHA256 sy (se_refresh_token sess)
     \<and> \<not> rt_revoked new \<and> rt_session_id new = s_id sr"
  using Refresh_Inr [OF assms(1,3)]
proof (rule coreAuthRefreshInTx_Rotated)
  fix row ur sr s1 s2
  assume row: "find (\<lambda>r. rt_hash r = coreAuthSHA256 sy t) (db_refresh (tx_db s)) = Some row" "\<not> rt_revoked row"
    and exp: "\<forall>v. rt_expires_at row = Some v \<longrightarrow> nowIn c \<le> v"
    and ur: "find (\<lambda>r. u_id r = rt_user_id row) (db_users (tx_db s)) = Some ur" "u_project_id ur = rt_project_id row"
      "u_data ur = Some acc" "coreAuthAccountActive (cx_now c) acc = Inr ()"
    and sr: "find (\<lambda>r. s_id r = rt_session_id row) (db_sessions (tx_db s)) = Some sr"
    and rot: "coreAuthRotateSession sy c acc sr s1 = (Inr sess, s2)" and t: "auth_tables (tx_db s') = auth_tables (tx_db s2)"
  have "refreshable c (coreAuthSHA256 sy t) s row acc sr" using row exp ur sr by (auto simp: refreshable_def)
  note r = refreshable_rows [OF assms(2) this]
  show ?thesis using rot
  proof (rule coreAuthRotateSession_Inr)
    fix prev sp e rid at plain
    let ?h = "coreAuthRefreshHorizon (cx_now c) (s_created_at sr) sp"
    let ?new = "refresh_row_of \<lparr>rd_id = rid, rd_project_id = acc_project_id acc, rd_environment = e, rd_user_id = acc_id acc,
        rd_session_id = s_id sr, rd_hash = coreAuthSHA256 sy plain, rd_revoked = False, rd_expires_at = ?h, rd_created_at = cx_now c\<rparr>"
    assume prev: "s_data sr = Some prev"
      and sess: "sess = coreAuthBuildRotatedSession c acc prev (s_id sr) (se_client_id prev) (se_amr prev)
                  (fst (coreAuthRotateAAL sr prev)) at plain sp (cx_now c)"
      and t2: "auth_tables (tx_db s2) = auth_tables
           ((tx_db s1)\<lparr>db_sessions := update_where (\<lambda>r. s_id r = s_id sr)
                        (\<lambda>r. r\<lparr>s_last_active_at := cx_now c, s_expires_at := Some ?h, s_device_id := None, s_data := Some sess\<rparr>) (db_sessions (tx_db s1)),
                     db_refresh := db_refresh (tx_db s1) @ [?new]\<rparr>)"
    have "?new \<in> set (db_refresh (tx_db s'))" using t t2 by (simp add: auth_tables_def)
    moreover have "rt_hash ?new = coreAuthSHA256 sy (se_refresh_token sess)" "\<not> rt_revoked ?new" "rt_session_id ?new = s_id sr"
      by (simp_all add: refresh_row_of_def sess coreAuthBuildRotatedSession_def)
    ultimately show ?thesis
      using r prev row find_set [OF row(1)] sess
      by (intro exI [of _ row] exI [of _ sr] exI [of _ prev] exI [of _ ?new])
         (simp add: coreAuthBuildRotatedSession_def coreAuthRotateAAL_def Let_def)
  qed
qed

lemma sample_refresh_ok:
  "case fst (Refresh sample_sys (sample_ctx 5) ''rt'' (sample_state sample_db)) of
     Inr (acc, sess) \<Rightarrow> se_aal sess = 2 \<and> se_refresh_token sess \<noteq> ''rt'' | Inl _ \<Rightarrow> False"
  by code_simp

lemma sample_state_idle [simp]: "tx_pool (sample_state d) = []" "tx_db (sample_state d) = d"
  by (simp_all add: sample_state_def)

theorem refresh_preserves_session_witness:
  "\<exists>acc sess s' new. Refresh sample_sys (sample_ctx 5) ''rt'' (sample_state sample_db) = (Inr (acc, sess), s')
     \<and> new \<in> set (db_refresh (tx_db s')) \<and> rt_hash new = coreAuthSHA256 sample_sys (se_refresh_token sess) \<and> \<not> rt_revoked new"
proof -
  obtain acc sess s' where run: "Refresh sample_sys (sample_ctx 5) ''rt'' (sample_state sample_db) = (Inr (acc, sess), s')"
    using sample_refresh_ok by (auto split: sum.splits prod.splits) (metis prod.collapse)
  from refresh_preserves_session [OF run] sample_db_wf run show ?thesis by fastforce
qed

text \<open>C26: the replay of a refresh token. In a state that satisfies the invariant of the session tables and where the security observer can record an incident (the
  security policy of the request's environment is readable and what it draws is unused; otherwise the
  revocation is rolled back), presenting a token that was already rotated or revoked is rejected with
  token_revoked; when the policy of the token's own environment has reuse detection on, every session of the
  account in the project is ended and the revocation is committed although the request fails; when it is off
  nothing changes.\<close>

theorem refresh_replay_rejected:
  assumes "sessions_wf (tx_db s)" and "tx_pool s = []" and "trim_space t \<noteq> []"
    and "find (\<lambda>r. rt_hash r = coreAuthSHA256 sy t) (db_refresh (tx_db s)) = Some row" and "rt_revoked row"
    and "observer_ready sy c (rt_project_id row) coreAuthDefaultEnv s"
  shows "\<exists>s'. Refresh sy c t s = (Inl ErrTokenRevoked, s')
     \<and> (if es_reuse_detection (policy_in_force c (rt_project_id row) (rt_environment row) s)
        then revokes (user_sessions (rt_project_id row) (rt_user_id row) (tx_db s)) (tx_db s) (tx_db s')
        else tx_db s' = tx_db s)"
proof -
  obtain s' where run: "coreAuthRefreshInTx sy c (coreAuthSHA256 sy t) s = (Inr Revoked, s')"
    using refresh_replayed [OF assms(1,4-6)] by blast
  show ?thesis
    using refresh_replayed_Inr [OF assms(1,4,5) run] Refresh_run [OF run assms(2,3)] by (intro exI [of _ s']) simp
qed

definition reuse_policy_doc :: json where
  "reuse_policy_doc = JObj [(''reuse_detection'', JBool True), (''idle_timeout'', JNum ''900'')]"

definition replay_db :: db where
  "replay_db = sample_db\<lparr>db_refresh := db_refresh sample_db @
       [refresh_row_of (sample_token\<lparr>rd_id := ''r0'', rd_hash := ''h:old'', rd_revoked := True\<rparr>)],
     db_config := [(''p'', ''live'', ''session_policy'') \<mapsto> reuse_policy_doc]\<rparr>"

theorem refresh_replay_rejected_witness:
  "\<exists>s'. Refresh sample_sys (sample_ctx 5) ''old'' (sample_state replay_db) = (Inl ErrTokenRevoked, s')
        \<and> revokes {''s''} replay_db (tx_db s')"
proof -
  let ?row = "refresh_row_of (sample_token\<lparr>rd_id := ''r0'', rd_hash := ''h:old'', rd_revoked := True\<rparr>)"
  have "sessions_wf replay_db" "trim_space ''old'' \<noteq> []" "rt_revoked ?row"
    "find (\<lambda>r. rt_hash r = coreAuthSHA256 sample_sys ''old'') (db_refresh replay_db) = Some ?row"
    "es_reuse_detection (policy_in_force (sample_ctx 5) (rt_project_id ?row) (rt_environment ?row) (sample_state replay_db))"
    "user_sessions (rt_project_id ?row) (rt_user_id ?row) replay_db = {''s''}"
    by code_simp+
  moreover have "observer_ready sample_sys (sample_ctx 5) (rt_project_id ?row) coreAuthDefaultEnv (sample_state replay_db)"
    by (rule observer_ready_disabled) code_simp
  ultimately show ?thesis
    using refresh_replay_rejected [of "sample_state replay_db" "''old''" sample_sys ?row "sample_ctx 5"] by simp
qed

text \<open>A live refresh token presented with another device fingerprint than the session was bound to
  is rejected as a device mismatch, and the session and all its refresh tokens are revoked in the
  same committed transaction; no other session is touched.\<close>

theorem refresh_device_change_revokes:
  assumes "sessions_wf (tx_db s)" and "tx_pool s = []" and "trim_space t \<noteq> []"
    and "refreshable c (coreAuthSHA256 sy t) s row acc sr" and "s_data sr = Some prev" and "device_changed c prev"
    and "observer_ready sy c (s_project_id sr) coreAuthDefaultEnv s"
  shows "\<exists>s'. Refresh sy c t s = (Inl ErrSessionDeviceMismatch, s') \<and> revokes {s_id sr} (tx_db s) (tx_db s')"
proof -
  obtain s' where run: "coreAuthRefreshInTx sy c (coreAuthSHA256 sy t) s = (Inr Mismatch, s')"
    using refresh_other_device [OF assms(1,4-7)] by blast
  show ?thesis
    using refresh_other_device_Inr [OF assms(1,4-6) run] Refresh_run [OF run assms(2,3)] by (intro exI [of _ s']) simp
qed

definition other_device :: "ctx \<Rightarrow> ctx" where
  "other_device c = c\<lparr>cx_meta := (cx_meta c)\<lparr>rm_fingerprint := ''other''\<rparr>\<rparr>"

definition sample_session_row :: session_row where
  "sample_session_row = session_row_of sample_session ''live'' 2 ''web'' 0 defaultSessionPolicy"

theorem refresh_device_change_revokes_witness:
  "\<exists>s'. Refresh sample_sys (other_device (sample_ctx 5)) ''rt'' (sample_state sample_db) = (Inl ErrSessionDeviceMismatch, s')
        \<and> revokes {''s''} sample_db (tx_db s')"
proof -
  let ?c = "other_device (sample_ctx 5)"
  have "trim_space ''rt'' \<noteq> []" "device_changed ?c sample_session" "s_data sample_session_row = Some sample_session"
    "s_id sample_session_row = ''s''" by code_simp+
  moreover have "refreshable ?c (coreAuthSHA256 sample_sys ''rt'') (sample_state sample_db) (refresh_row_of sample_token)
      sample_account sample_session_row"
    unfolding refreshable_def
    by (auto simp: sample_db_def sample_session_row_def sample_sys_def coreAuthSHA256_def refresh_row_of_def sample_token_def
        sample_account_def coreAuthAccountActive_def nowIn_def other_device_def sample_ctx_def coreAuthRefreshTTL_def
        session_row_of_def sample_session_def coreAuthStatusSuspended_def coreAuthStatusBanned_def coreAuthStatusActive_def time_units)
  moreover have "observer_ready sample_sys ?c (s_project_id sample_session_row) coreAuthDefaultEnv (sample_state sample_db)"
    by (rule observer_ready_disabled) code_simp
  ultimately show ?thesis
    using refresh_device_change_revokes [of "sample_state sample_db" "''rt''" ?c sample_sys] sample_db_wf by fastforce
qed

text \<open>C32: a session past the idle or the absolute timeout cannot be refreshed. In a state that satisfies the
  invariant of the session tables, when an unrevoked, unexpired token of an active account is presented without a
  fingerprint of another device, and its session is by the wall clock past a timeout that the policy of the token's
  environment sets, the request fails with session_expired, and that session and its tokens, and no others, are
  revoked in the committed transaction.\<close>

theorem refresh_timeout_revokes:
  assumes "sessions_wf (tx_db s)" and "tx_pool s = []" and "trim_space t \<noteq> []"
    and "refreshable c (coreAuthSHA256 sy t) s row acc sr" and "s_data sr = Some prev" and "\<not> device_changed c prev"
    and "session_timed_out (cx_now c) (policy_in_force c (rt_project_id row) (rt_environment row) s) sr"
  shows "\<exists>s'. Refresh sy c t s = (Inl ErrSessionExpired, s') \<and> revokes {s_id sr} (tx_db s) (tx_db s')"
  using refresh_timed_out [OF assms(1,4-7)] Refresh_run [OF _ assms(2,3), of sy c Expired] by auto

theorem refresh_timeout_revokes_witness:
  "\<exists>s'. Refresh sample_sys (sample_ctx (901 * Second)) ''rt'' (sample_state replay_db) = (Inl ErrSessionExpired, s')
        \<and> revokes {''s''} replay_db (tx_db s')"
proof -
  let ?c = "sample_ctx (901 * Second)" and ?row = "refresh_row_of sample_token"
  have "sessions_wf replay_db" "trim_space ''rt'' \<noteq> []" "\<not> device_changed ?c sample_session"
    "s_data sample_session_row = Some sample_session" "s_id sample_session_row = ''s''"
    "session_timed_out (cx_now ?c) (policy_in_force ?c (rt_project_id ?row) (rt_environment ?row) (sample_state replay_db)) sample_session_row"
    by code_simp+
  moreover have "refreshable ?c (coreAuthSHA256 sample_sys ''rt'') (sample_state replay_db) ?row
      sample_account sample_session_row"
    unfolding refreshable_def
    by (auto simp: replay_db_def sample_db_def sample_session_row_def sample_sys_def coreAuthSHA256_def refresh_row_of_def sample_token_def
        sample_account_def coreAuthAccountActive_def nowIn_def sample_ctx_def coreAuthRefreshTTL_def
        session_row_of_def sample_session_def coreAuthStatusSuspended_def coreAuthStatusBanned_def coreAuthStatusActive_def time_units)
  ultimately show ?thesis
    using refresh_timeout_revokes [of "sample_state replay_db" "''rt''" ?c sample_sys] by fastforce
qed

text \<open>C28: a thief can hide a replay. When the request names an environment the project does not have,
  publishing the detection fails inside the transaction that revoked the sessions, so a replayed token
  is refused with bad_request and the database is left exactly as it was: no session of the account is
  revoked although reuse detection is on.\<close>

theorem unknown_environment_hides_replay:
  assumes "sessions_wf (tx_db s)" and "tx_pool s = []" and "trim_space t \<noteq> []"
    and "find (\<lambda>r. rt_hash r = coreAuthSHA256 sy t) (db_refresh (tx_db s)) = Some row" and "rt_revoked row"
    and "es_reuse_detection (policy_in_force c (rt_project_id row) (rt_environment row) s)"
    and "cx_env c \<notin> {[], ''live''}" and "(rt_project_id row, cx_env c) \<notin> set (db_envs (tx_db s))"
    and "cx_principal c = None" and "rt_project_id row \<noteq> []"
  shows "\<exists>s'. Refresh sy c t s = (Inl (unknown_env (cx_env c)), s') \<and> tx_db s' = tx_db s"
proof -
  obtain s1 where run: "coreAuthRefreshInTx sy c (coreAuthSHA256 sy t) s = tx_bind (publish_reuse sy c row) (\<lambda>_. ret Revoked) s1"
    and s1: "sessions_wf (tx_db s1)" "revokes (user_sessions (rt_project_id row) (rt_user_id row) (tx_db s)) (tx_db s) (tx_db s1)"
      "tx_draws s \<le> tx_draws s1" "observer_tables (tx_db s1) = observer_tables (tx_db s)"
    by (rule refresh_replayed_run [OF assms(1,4-6), where sy = sy])
  have "publish_reuse sy c row s1 = (Inl (unknown_env (cx_env c)), s1)"
    unfolding publish_reuse_def
    by (rule Emit_unknown_env) (use assms(7-10) s1(4) in \<open>auto simp: observer_tables_def runtimeDefaultEnv_def observed_types_def session_events_def\<close>)
  then have "coreAuthRefreshInTx sy c (coreAuthSHA256 sy t) s = (Inl (unknown_env (cx_env c)), s1)" using run by simp
  then show ?thesis
    using assms(3) by (simp add: Refresh_def tx_bind_def withTx_quiet [OF quiet_refresh assms(2)])
qed

theorem unknown_environment_hides_replay_witness:
  "\<exists>s'. Refresh sample_sys ((sample_ctx 5)\<lparr>cx_env := ''nowhere''\<rparr>) ''old'' (sample_state replay_db)
      = (Inl (unknown_env ''nowhere''), s') \<and> db_sessions (tx_db s') = db_sessions replay_db"
proof -
  let ?row = "refresh_row_of (sample_token\<lparr>rd_id := ''r0'', rd_hash := ''h:old'', rd_revoked := True\<rparr>)"
  let ?c = "(sample_ctx 5)\<lparr>cx_env := ''nowhere''\<rparr>"
  have "sessions_wf replay_db" "trim_space ''old'' \<noteq> []" "rt_revoked ?row"
    "find (\<lambda>r. rt_hash r = coreAuthSHA256 sample_sys ''old'') (db_refresh replay_db) = Some ?row"
    "es_reuse_detection (policy_in_force ?c (rt_project_id ?row) (rt_environment ?row) (sample_state replay_db))"
    "cx_env ?c \<notin> {[], ''live''}" "(rt_project_id ?row, cx_env ?c) \<notin> set (db_envs replay_db)" "rt_project_id ?row \<noteq> []"
    by code_simp+
  moreover have "cx_principal ?c = None" "cx_env ?c = ''nowhere''" by (simp_all add: sample_ctx_def)
  ultimately show ?thesis
    using unknown_environment_hides_replay [of "sample_state replay_db" "''old''" sample_sys ?row ?c] by auto
qed

end
