(* ===== verification/MachineIdentity.thy ===== *)
theory MachineIdentity
  imports Refresh
begin

text \<open>
  Machine identities (\<open>src/internal/infrastructure/postgres/machineid_pg.go\<close>,
  \<open>machineid_clientcreds_pg.go\<close>): service accounts with their client secrets, API keys, and the
  verification of both. Secrets are random; only their digest is stored.
\<close>

section \<open>Helpers\<close>

definition machineIDRandomToken :: "sys \<Rightarrow> nat \<Rightarrow> string tx" where
  "machineIDRandomToken sy nbytes = draw (sy_url_token sy nbytes)"

definition machineIDHash :: "sys \<Rightarrow> string \<Rightarrow> string" where
  "machineIDHash sy t = sy_sha256 sy t"

definition randomTokenBytes :: nat where "randomTokenBytes = 32"
definition apiKeyPrefixRandomBytes :: nat where "apiKeyPrefixRandomBytes = 6"

section \<open>Service accounts\<close>

definition loadServiceAccount :: "string \<Rightarrow> string \<Rightarrow> (service_account_row \<times> saEnvelope) tx" where
  "loadServiceAccount projectID i =
     tx_bind (query (\<lambda>d. find (\<lambda>r. sr_id r = i) (db_service_accounts d))) (\<lambda>found.
       case found of
         None \<Rightarrow> throw ErrNotFound
       | Some row \<Rightarrow>
           if sr_project_id row \<noteq> projectID then throw ErrNotFound
           else tx_bind (unmarshal (sr_data row)) (\<lambda>env. ret (row, env)))"

definition update_service_account :: "service_account_row \<Rightarrow> (service_account_row \<Rightarrow> service_account_row) \<Rightarrow> unit tx" where
  "update_service_account row f =
     exec (db_service_accounts_update (update_where (\<lambda>r. sr_id r = sr_id row) f))"

definition CreateServiceAccount :: "sys \<Rightarrow> ctx \<Rightarrow> string \<Rightarrow> string \<Rightarrow> string list \<Rightarrow> ServiceAccount tx" where
  "CreateServiceAccount sy c projectID name scopes = withTx (
     tx_bind (newUUID sy) (\<lambda>i.
     let svcAcct = \<lparr>sv_id = i, sv_project_id = projectID, sv_name = name, sv_scopes = scopes, sv_disabled = False\<rparr> in
     tx_bind (insert_unique db_service_accounts db_service_accounts_update (\<lambda>a b. sr_id a = sr_id b)
                \<lparr>sr_id = i, sr_project_id = projectID, sr_name = name, sr_disabled = False, sr_created_at = cx_now c,
                 sr_updated_at = cx_now c, sr_data = Some \<lparr>sa_account = svcAcct, sa_secrets = []\<rparr>\<rparr> ErrConflict) (\<lambda>_.
     tx_bind (Emit sy c ''service_account.created'' projectID [] i (PServiceAccount svcAcct)) (\<lambda>_.
       ret svcAcct))))"

text \<open>A page of accounts: by id, after the cursor, one row more than the limit is read to see whether
  there are others. \<open>unmarshal\<close> of a broken row fails the whole page.\<close>

record MachineIDServiceAccountPage =
  pg_items :: "ServiceAccount list"
  pg_next_cursor :: string
  pg_has_more :: bool

definition page_limit :: "int \<Rightarrow> nat" where
  "page_limit l = (if l \<le> 0 \<or> l > 100 then 50 else nat l)"

definition service_account_rows :: "string \<Rightarrow> string \<Rightarrow> db \<Rightarrow> service_account_row list" where
  "service_account_rows projectID cursor d =
     sort_key sr_id (filter (\<lambda>r. sr_project_id r = projectID \<and> (cursor \<noteq> [] \<longrightarrow> cursor < sr_id r)) (db_service_accounts d))"

definition ListServiceAccounts :: "string \<Rightarrow> string \<Rightarrow> int \<Rightarrow> MachineIDServiceAccountPage tx" where
  "ListServiceAccounts projectID cursor lim =
     (let limit = page_limit lim in
      tx_bind (query (\<lambda>d. take (limit + 1) (service_account_rows projectID cursor d))) (\<lambda>rows.
      let hasMore = length rows > limit; shown = (if hasMore then take limit rows else rows) in
      tx_bind (unmarshal (all_some (map sr_data shown))) (\<lambda>envs.
      let items = map sa_account envs in
      ret \<lparr>pg_items = items,
           pg_next_cursor = (if hasMore \<and> items \<noteq> [] then sv_id (last items) else []),
           pg_has_more = hasMore\<rparr>)))"

definition GetServiceAccount :: "string \<Rightarrow> string \<Rightarrow> ServiceAccount tx" where
  "GetServiceAccount projectID i = tx_bind (loadServiceAccount projectID i) (\<lambda>(_, env). ret (sa_account env))"

definition UpdateServiceAccount ::
  "sys \<Rightarrow> ctx \<Rightarrow> string \<Rightarrow> string \<Rightarrow> string list option \<Rightarrow> bool option \<Rightarrow> ServiceAccount tx" where
  "UpdateServiceAccount sy c projectID i scopes disabled = withTx (
     tx_bind (loadServiceAccount projectID i) (\<lambda>(row, env).
     let acct = sa_account env;
         acct = (case scopes of Some v \<Rightarrow> acct\<lparr>sv_scopes := v\<rparr> | None \<Rightarrow> acct);
         acct = (case disabled of Some v \<Rightarrow> acct\<lparr>sv_disabled := v\<rparr> | None \<Rightarrow> acct) in
     tx_bind (update_service_account row
                (\<lambda>r. r\<lparr>sr_disabled := sv_disabled acct, sr_updated_at := cx_now c, sr_data := Some (env\<lparr>sa_account := acct\<rparr>)\<rparr>)) (\<lambda>_.
     tx_bind (Emit sy c ''service_account.updated'' (sv_project_id acct) [] (sv_id acct) (PServiceAccount acct)) (\<lambda>_.
       ret acct))))"

definition DeleteServiceAccount :: "sys \<Rightarrow> ctx \<Rightarrow> string \<Rightarrow> string \<Rightarrow> unit tx" where
  "DeleteServiceAccount sy c projectID i = withTx (
     tx_bind (loadServiceAccount projectID i) (\<lambda>(row, _).
     tx_bind (exec (db_service_accounts_update (delete_where (\<lambda>r. sr_id r = sr_id row)))) (\<lambda>_.
       Emit sy c ''service_account.deleted'' projectID [] i
         (PFields [(''id'', DStr i), (''project_id'', DStr projectID)]))))"

definition CreateServiceAccountSecret ::
  "sys \<Rightarrow> ctx \<Rightarrow> string \<Rightarrow> string \<Rightarrow> string \<Rightarrow> instant option \<Rightarrow> (string \<times> string \<times> string) tx" where
  "CreateServiceAccountSecret sy c projectID i name expiresAt = withTx (
     tx_bind (loadServiceAccount projectID i) (\<lambda>(row, env).
     tx_bind (machineIDRandomToken sy randomTokenBytes) (\<lambda>plaintext.
     tx_bind (newUUID sy) (\<lambda>secretID.
     let clientID = sv_id (sa_account env);
         sec = \<lparr>ss_secret_id = secretID, ss_client_id = clientID, ss_name = name, ss_hash = machineIDHash sy plaintext,
                ss_created_at = cx_now c, ss_expires_at = expiresAt, ss_revoked = False\<rparr> in
     tx_bind (update_service_account row
                (\<lambda>r. r\<lparr>sr_updated_at := cx_now c, sr_data := Some (env\<lparr>sa_secrets := sa_secrets env @ [sec]\<rparr>)\<rparr>)) (\<lambda>_.
     tx_bind (Emit sy c ''service_account.secret.created'' projectID [] i (PServiceAccount (sa_account env))) (\<lambda>_.
       ret (secretID, clientID, plaintext)))))))"

text \<open>The loop stops at the first secret with the id.\<close>

fun revoke_secret :: "string \<Rightarrow> saSecret list \<Rightarrow> saSecret list option" where
  "revoke_secret i [] = None"
| "revoke_secret i (s # ss) =
     (if ss_secret_id s = i then Some (s\<lparr>ss_revoked := True\<rparr> # ss) else map_option (Cons s) (revoke_secret i ss))"

definition RevokeServiceAccountSecret :: "sys \<Rightarrow> ctx \<Rightarrow> string \<Rightarrow> string \<Rightarrow> string \<Rightarrow> unit tx" where
  "RevokeServiceAccountSecret sy c projectID i secretID = withTx (
     tx_bind (loadServiceAccount projectID i) (\<lambda>(row, env).
       case revoke_secret secretID (sa_secrets env) of
         None \<Rightarrow> throw ErrNotFound
       | Some secrets \<Rightarrow>
           tx_bind (update_service_account row
                      (\<lambda>r. r\<lparr>sr_updated_at := cx_now c, sr_data := Some (env\<lparr>sa_secrets := secrets\<rparr>)\<rparr>)) (\<lambda>_.
             Emit sy c ''service_account.secret.revoked'' projectID [] i (PServiceAccount (sa_account env)))))"

definition MintToken :: "sys \<Rightarrow> ctx \<Rightarrow> string \<Rightarrow> string \<Rightarrow> string tx" where
  "MintToken sy c projectID i = withTx (
     tx_bind (loadServiceAccount projectID i) (\<lambda>(_, env).
       if sv_disabled (sa_account env) then throw ErrForbidden
       else
         tx_bind (resolveSignEnv c projectID ''live'') (\<lambda>signEnv.
         tx_bind (Sign sy c projectID signEnv
                    [(''iss'', CStr projectID), (''sub'', CStr i), (''pid'', CStr projectID), (''typ'', CStr ''service''),
                     (''scope'', CStrs (sv_scopes (sa_account env))), (''env'', CStr signEnv)] Hour) (\<lambda>token.
         tx_bind (Emit sy c ''service_account.token.minted'' projectID [] i (PServiceAccount (sa_account env))) (\<lambda>_.
           ret token)))))"

section \<open>API keys\<close>

definition loadAPIKey :: "string \<Rightarrow> string \<Rightarrow> (api_key_row \<times> APIKey) tx" where
  "loadAPIKey projectID keyID =
     tx_bind (query (\<lambda>d. find (\<lambda>r. ak_id r = keyID) (db_api_keys d))) (\<lambda>found.
       case found of
         None \<Rightarrow> throw ErrNotFound
       | Some row \<Rightarrow>
           if ak_project_id row \<noteq> projectID then throw ErrNotFound
           else tx_bind (unmarshal (ak_data row)) (\<lambda>key. ret (row, key)))"

definition mintAPIKeySecret :: "sys \<Rightarrow> (string \<times> string \<times> string) tx" where
  "mintAPIKeySecret sy =
     tx_bind (machineIDRandomToken sy apiKeyPrefixRandomBytes) (\<lambda>p.
     let prefix = ''iak_'' @ p in
     tx_bind (machineIDRandomToken sy randomTokenBytes) (\<lambda>b.
     let plaintext = prefix @ ''.'' @ b in
     ret (plaintext, prefix, machineIDHash sy plaintext)))"

definition CreateAPIKey :: "sys \<Rightarrow> ctx \<Rightarrow> string \<Rightarrow> string \<Rightarrow> string list \<Rightarrow> (APIKey \<times> string) tx" where
  "CreateAPIKey sy c projectID name scopes = withTx (
     tx_bind (mintAPIKeySecret sy) (\<lambda>(plaintext, prefix, hash).
     tx_bind (newUUID sy) (\<lambda>i.
     let key = \<lparr>ky_id = i, ky_project_id = projectID, ky_name = name, ky_scopes = scopes, ky_prefix = prefix, ky_disabled = False\<rparr> in
     tx_bind (insert_unique db_api_keys db_api_keys_update (\<lambda>a b. ak_id a = ak_id b \<or> ak_prefix a = ak_prefix b)
                \<lparr>ak_id = i, ak_project_id = projectID, ak_prefix = prefix, ak_hash = hash, ak_disabled = False,
                 ak_expires_at = None, ak_created_at = cx_now c, ak_data = Some key\<rparr> ErrConflict) (\<lambda>_.
     tx_bind (Emit sy c ''api_key.created'' projectID [] i (PAPIKey key)) (\<lambda>_.
       ret (key, plaintext))))))"

definition ListAPIKeys :: "string \<Rightarrow> APIKey list tx" where
  "ListAPIKeys projectID =
     tx_bind (query (\<lambda>d. sort_key ak_created_at (filter (\<lambda>r. ak_project_id r = projectID) (db_api_keys d)))) (\<lambda>rows.
       unmarshal (all_some (map ak_data rows)))"

definition UpdateAPIKey ::
  "sys \<Rightarrow> ctx \<Rightarrow> string \<Rightarrow> string \<Rightarrow> string \<Rightarrow> string list option \<Rightarrow> bool option \<Rightarrow> APIKey tx" where
  "UpdateAPIKey sy c projectID keyID name scopes disabled = withTx (
     tx_bind (loadAPIKey projectID keyID) (\<lambda>(row, key).
     let key = (if name \<noteq> [] then key\<lparr>ky_name := name\<rparr> else key);
         key = (case scopes of Some v \<Rightarrow> key\<lparr>ky_scopes := v\<rparr> | None \<Rightarrow> key);
         key = (case disabled of Some v \<Rightarrow> key\<lparr>ky_disabled := v\<rparr> | None \<Rightarrow> key) in
     tx_bind (exec (db_api_keys_update (update_where (\<lambda>r. ak_id r = ak_id row)
                (\<lambda>r. r\<lparr>ak_disabled := ky_disabled key, ak_data := Some key\<rparr>)))) (\<lambda>_.
     tx_bind (Emit sy c ''api_key.updated'' (ky_project_id key) [] (ky_id key) (PAPIKey key)) (\<lambda>_.
       ret key))))"

text \<open>The new prefix must not be one of another key (\<open>uq_iam_api_keys_prefix\<close>); the violation is not
  translated here.\<close>

definition RotateAPIKey :: "sys \<Rightarrow> ctx \<Rightarrow> string \<Rightarrow> string \<Rightarrow> (APIKey \<times> string) tx" where
  "RotateAPIKey sy c projectID keyID = withTx (
     tx_bind (loadAPIKey projectID keyID) (\<lambda>(row, key).
     tx_bind (mintAPIKeySecret sy) (\<lambda>(plaintext, prefix, hash).
     let key = key\<lparr>ky_prefix := prefix\<rparr> in
     tx_bind (query db_api_keys) (\<lambda>rows.
       if list_ex (\<lambda>r. ak_id r \<noteq> ak_id row \<and> ak_prefix r = prefix) rows
       then throw (WithMessage ''duplicate key'' ErrInternal)
       else
         tx_bind (exec (db_api_keys_update (update_where (\<lambda>r. ak_id r = ak_id row)
                    (\<lambda>r. r\<lparr>ak_prefix := prefix, ak_hash := hash, ak_data := Some key\<rparr>)))) (\<lambda>_.
         tx_bind (Emit sy c ''api_key.rotated'' (ky_project_id key) [] (ky_id key) (PAPIKey key)) (\<lambda>_.
           ret (key, plaintext)))))))"

definition RevokeAPIKey :: "sys \<Rightarrow> ctx \<Rightarrow> string \<Rightarrow> string \<Rightarrow> unit tx" where
  "RevokeAPIKey sy c projectID keyID = withTx (
     tx_bind (loadAPIKey projectID keyID) (\<lambda>(row, _).
     tx_bind (exec (db_api_keys_update (delete_where (\<lambda>r. ak_id r = ak_id row)))) (\<lambda>_.
       Emit sy c ''api_key.revoked'' projectID [] keyID
         (PFields [(''id'', DStr keyID), (''project_id'', DStr projectID)]))))"

section \<open>Client credentials\<close>

record resolvedServiceAccount =
  rs_id :: string
  rs_project_id :: string
  rs_environment :: string
  rs_scopes :: "string list"

definition resolvedFrom :: "sys \<Rightarrow> ctx \<Rightarrow> service_account_row \<Rightarrow> saEnvelope \<Rightarrow> resolvedServiceAccount tx" where
  "resolvedFrom sy c row env =
     tx_bind (effectiveEnv sy c (sr_project_id row)) (\<lambda>environment.
       ret \<lparr>rs_id = sr_id row, rs_project_id = sr_project_id row, rs_environment = environment,
            rs_scopes = sv_scopes (sa_account env)\<rparr>)"

definition serviceAccountSecretMatches :: "sys \<Rightarrow> instant \<Rightarrow> saSecret list \<Rightarrow> string \<Rightarrow> bool" where
  "serviceAccountSecretMatches sy now secrets presented \<longleftrightarrow>
     list_ex (\<lambda>s. \<not> ss_revoked s
                  \<and> \<not> (case ss_expires_at s of Some t \<Rightarrow> t \<noteq> zeroTime \<and> now > t | None \<Rightarrow> False)
                  \<and> machineIDHash sy presented = ss_hash s) secrets"

definition find_service_account :: "string \<Rightarrow> (service_account_row \<times> saEnvelope) tx" where
  "find_service_account clientID =
     tx_bind (query (\<lambda>d. find (\<lambda>r. sr_id r = clientID) (db_service_accounts d))) (\<lambda>found.
       case found of
         Some row \<Rightarrow> (case sr_data row of
             Some env \<Rightarrow> if sv_disabled (sa_account env) then throw ErrUnauthorized else ret (row, env)
           | None \<Rightarrow> throw ErrUnauthorized)
       | None \<Rightarrow> throw ErrUnauthorized)"

definition loadServiceAccountCredential :: "sys \<Rightarrow> ctx \<Rightarrow> string \<Rightarrow> resolvedServiceAccount tx" where
  "loadServiceAccountCredential sy c clientID =
     tx_bind (find_service_account clientID) (\<lambda>(row, env). resolvedFrom sy c row env)"

definition verifyServiceAccountSecret :: "sys \<Rightarrow> ctx \<Rightarrow> string \<Rightarrow> string \<Rightarrow> resolvedServiceAccount tx" where
  "verifyServiceAccountSecret sy c clientID secret =
     (if clientID = [] \<or> secret = [] then throw ErrUnauthorized
      else
        tx_bind (find_service_account clientID) (\<lambda>(row, env).
          if \<not> serviceAccountSecretMatches sy (cx_now c) (sa_secrets env) secret then throw ErrUnauthorized
          else resolvedFrom sy c row env))"

text \<open>\<open>splitScopes\<close> walks runes: an invalid byte of the request becomes the replacement rune.\<close>

definition splitScopes :: "string \<Rightarrow> string list" where
  "splitScopes scope = filter (\<lambda>w. w \<noteq> []) (split_on CHR '' '' (string_of_runes (runes scope)))"

definition joinScopes :: "string list \<Rightarrow> string" where
  "joinScopes scopes = join_with '' '' scopes"

definition narrowServiceScopes :: "string list \<Rightarrow> string \<Rightarrow> string list res" where
  "narrowServiceScopes granted requested =
     (let wanted = splitScopes requested in
      if wanted = [] then Inr granted
      else case find (\<lambda>s. s \<notin> set granted) wanted of
             Some s \<Rightarrow> Inl (WithMessage (''invalid_scope: the service account was not granted '' @ s)
                              (WithDetails [(''scope'', DStr s), (''granted'', DStrs granted)] ErrValidation))
           | None \<Rightarrow> Inr wanted)"

definition serviceTokenTTL :: duration where "serviceTokenTTL = Hour"

record OIDCTokenCmd =
  tk_authenticated_client_id :: string
  tk_client_id :: string
  tk_client_secret :: string
  tk_scope :: string

definition tokenClientCredentialsGrant :: "sys \<Rightarrow> ctx \<Rightarrow> OIDCTokenCmd \<Rightarrow> (string \<times> int \<times> string) tx" where
  "tokenClientCredentialsGrant sy c cmd =
     (let clientID = (if tk_authenticated_client_id cmd \<noteq> [] then tk_authenticated_client_id cmd else tk_client_id cmd) in
      tx_bind (if tk_authenticated_client_id cmd \<noteq> [] \<and> tk_authenticated_client_id cmd = clientID
               then loadServiceAccountCredential sy c clientID
               else verifyServiceAccountSecret sy c clientID (tk_client_secret cmd)) (\<lambda>account.
      tx_bind (lift_res (narrowServiceScopes (rs_scopes account) (tk_scope cmd))) (\<lambda>scopes.
      tx_bind (Sign sy c (rs_project_id account) (rs_environment account)
                 [(''iss'', CStr (oidcIssuer (sy_public_url sy) (rs_project_id account) (rs_environment account))),
                  (''sub'', CStr (rs_id account)), (''pid'', CStr (rs_project_id account)),
                  (''env'', CStr (rs_environment account)), (''client_id'', CStr (rs_id account)),
                  (''typ'', CStr ''service''), (''scope'', CStrs scopes)] serviceTokenTTL) (\<lambda>token.
      tx_bind (Emit sy c ''service_account.token.minted'' (rs_project_id account) (rs_environment account) (rs_id account)
                 (PFields [(''client_id'', DStr (rs_id account)), (''scopes'', DStrs scopes)])) (\<lambda>_.
        ret (token, whole_seconds serviceTokenTTL, joinScopes scopes))))))"

section \<open>Pages\<close>

text \<open>A client that follows the cursor to the end; \<open>None\<close> when a page fails or the budget is used up.\<close>

fun walk_pages :: "nat \<Rightarrow> string \<Rightarrow> string \<Rightarrow> int \<Rightarrow> txs \<Rightarrow> ServiceAccount list option" where
  "walk_pages 0 pid cursor lim s = None"
| "walk_pages (Suc n) pid cursor lim s =
     (case fst (ListServiceAccounts pid cursor lim s) of
        Inl _ \<Rightarrow> None
      | Inr page \<Rightarrow>
          if pg_has_more page then map_option (append (pg_items page)) (walk_pages n pid (pg_next_cursor page) lim s)
          else Some (pg_items page))"

definition accounts_ok :: "service_account_row list \<Rightarrow> bool" where
  "accounts_ok rows \<longleftrightarrow> distinct (map sr_id rows) \<and>
     list_all (\<lambda>r. sr_id r \<noteq> [] \<and> (case sr_data r of Some env \<Rightarrow> sv_id (sa_account env) = sr_id r | None \<Rightarrow> False)) rows"

definition account_of :: "service_account_row \<Rightarrow> ServiceAccount" where
  "account_of r = sa_account (the (sr_data r))"

lemma all_some_map_ok:
  "list_all (\<lambda>r. sr_data r \<noteq> None) rows \<Longrightarrow> all_some (map sr_data rows) = Some (map (the \<circ> sr_data) rows)"
  by (induction rows) auto

lemma filter_after_last:
  fixes f :: "'a \<Rightarrow> 'k::linorder"
  assumes "sorted (map f (A @ B))" and "distinct (map f (A @ B))" and "A \<noteq> []"
  shows "filter (\<lambda>x. f (last A) < f x) (A @ B) = B"
proof -
  obtain A' where A: "A = A' @ [last A]" using assms(3) by (metis append_butlast_last_id)
  have "\<not> f (last A) < f x" if "x \<in> set A" for x
  proof -
    have "sorted (map f (A' @ [last A]))" using assms(1) A by (metis map_append sorted_append)
    moreover have "x \<in> set (A' @ [last A])" using that A by simp
    ultimately show ?thesis by (auto simp: sorted_append not_less)
  qed
  moreover have "f (last A) < f x" if "x \<in> set B" for x
  proof -
    have "f (last A) \<le> f x" using assms(1,3) that by (auto simp: sorted_append)
    moreover have "f (last A) \<noteq> f x" using assms(2) that last_in_set [OF assms(3)] by force
    ultimately show ?thesis by simp
  qed
  ultimately show ?thesis by (simp add: filter_empty_conv)
qed

lemma service_account_rows_after:
  assumes "cursor \<noteq> []"
  shows "service_account_rows pid cursor d = filter (\<lambda>r. cursor < sr_id r) (service_account_rows pid [] d)"
  using assms by (simp add: service_account_rows_def filter_sort conj_commute)

lemma ListServiceAccounts_run:
  assumes "list_all (\<lambda>r. sr_data r \<noteq> None) B"
    and B_def: "B = service_account_rows pid cursor (tx_db s)" and l_def: "l = page_limit lim"
  shows "ListServiceAccounts pid cursor lim s =
    (Inr \<lparr>pg_items = map account_of (take l B),
          pg_next_cursor = (if l < length B \<and> take l B \<noteq> [] then sv_id (account_of (last (take l B))) else []),
          pg_has_more = l < length B\<rparr>, s)"
proof -
  let ?rows = "take (l + 1) B"
  have shown: "(if l < length B then take l ?rows else ?rows) = take l B" by (auto simp: min_def)
  have more: "l < length ?rows \<longleftrightarrow> l < length B" by (auto simp: min_def)
  have "list_all (\<lambda>r. sr_data r \<noteq> None) (take l B)"
    using assms(1) by (auto simp: B_def list_all_iff dest: in_set_takeD)
  then have items: "all_some (map sr_data (take l B)) = Some (map (the \<circ> sr_data) (take l B))" by (rule all_some_map_ok)
  have "ListServiceAccounts pid cursor lim s =
      tx_bind (unmarshal (all_some (map sr_data (if l < length ?rows then take l ?rows else ?rows)))) (\<lambda>envs.
        ret \<lparr>pg_items = map sa_account envs,
             pg_next_cursor = (if l < length ?rows \<and> map sa_account envs \<noteq> [] then sv_id (last (map sa_account envs)) else []),
             pg_has_more = l < length ?rows\<rparr>) s"
    by (simp add: ListServiceAccounts_def Let_def tx_bind_def B_def l_def)
  then have run: "ListServiceAccounts pid cursor lim s =
      (Inr \<lparr>pg_items = map (sa_account \<circ> (the \<circ> sr_data)) (take l B),
            pg_next_cursor = (if l < length B \<and> take l B \<noteq> [] then sv_id (last (map (sa_account \<circ> (the \<circ> sr_data)) (take l B))) else []),
            pg_has_more = l < length B\<rparr>, s)"
    unfolding more shown items by (simp only: tx_bind_def unmarshal_def option.case ret_apply prod.case sum.case map_map map_is_Nil_conv)
  have acc: "sa_account \<circ> (the \<circ> sr_data) = account_of" by (simp add: fun_eq_iff account_of_def)
  show ?thesis unfolding run acc by (cases "take l B = []") (simp_all only: last_map simp_thms if_False if_True)
qed

lemma walk_pages_suffix:
  assumes "accounts_ok (service_account_rows pid [] (tx_db s))"
    and "service_account_rows pid [] (tx_db s) = A @ B" and "service_account_rows pid cursor (tx_db s) = B" and "length B < n"
  shows "walk_pages n pid cursor lim s = Some (map account_of B)"
  using assms
proof (induction n arbitrary: A B cursor)
  case (Suc n)
  let ?L = "service_account_rows pid [] (tx_db s)" and ?l = "page_limit lim"
  have l: "0 < ?l" by (simp add: page_limit_def)
  have ok: "list_all (\<lambda>r. sr_data r \<noteq> None) B"
    using Suc.prems(1,2) by (auto simp: accounts_ok_def list_all_iff split: option.splits)
  note page = ListServiceAccounts_run [OF ok Suc.prems(3) [symmetric] refl]
  show ?case
  proof (cases "?l < length B")
    case False
    then show ?thesis by (simp add: page)
  next
    case True
    let ?A = "A @ take ?l B" and ?B = "drop ?l B"
    have ne: "take ?l B \<noteq> []" using True l by auto
    have last: "last (take ?l B) \<in> set ?L" using ne Suc.prems(2) by (metis UnI2 in_set_takeD last_in_set set_append)
    let ?c = "sv_id (account_of (last (take ?l B)))"
    have c: "?c = sr_id (last (take ?l B))" "?c \<noteq> []"
      using last Suc.prems(1) by (auto simp: accounts_ok_def list_all_iff account_of_def split: option.splits)
    have L: "?L = ?A @ ?B" using Suc.prems(2) by simp
    have "sorted (map sr_id ?L)" by (simp add: service_account_rows_def)
    then have "service_account_rows pid ?c (tx_db s) = ?B"
    proof -
      assume srt: "sorted (map sr_id ?L)"
      have "distinct (map sr_id ?L)" using Suc.prems(1) by (simp add: accounts_ok_def)
      then have "filter (\<lambda>r. sr_id (last ?A) < sr_id r) ?L = ?B"
        using filter_after_last [of sr_id ?A ?B] srt ne unfolding L by blast
      then show ?thesis using ne c(1) by (simp add: service_account_rows_after [OF c(2) [unfolded c(1)]])
    qed
    moreover have "length ?B < n" using Suc.prems(4) True l by simp
    ultimately have "walk_pages n pid ?c lim s = Some (map account_of ?B)"
      by (intro Suc.IH [OF Suc.prems(1) L])
    then show ?thesis
      using True ne by (simp add: page flip: map_append)
  qed
qed simp


text \<open>C24: listing service accounts by pages is complete and terminates: a client that follows the cursors
  from the start with any page size receives every account of the project exactly once, in order of
  id, within as many requests as there are accounts and one.\<close>

theorem service_account_pages_complete:
  assumes "accounts_ok (service_account_rows pid [] (tx_db s))"
  shows "walk_pages (length (service_account_rows pid [] (tx_db s)) + 1) pid [] lim s =
           Some (map account_of (sort_key sr_id (filter (\<lambda>r. sr_project_id r = pid) (db_service_accounts (tx_db s)))))"
proof -
  have rows: "service_account_rows pid [] (tx_db s) = sort_key sr_id (filter (\<lambda>r. sr_project_id r = pid) (db_service_accounts (tx_db s)))"
    by (simp add: service_account_rows_def)
  show ?thesis using walk_pages_suffix [OF assms, of "[]" _ "[]"] unfolding rows by (metis append_Nil less_add_one)
qed

definition sa_row :: "string \<Rightarrow> string \<Rightarrow> service_account_row" where
  "sa_row pid i = \<lparr>sr_id = i, sr_project_id = pid, sr_name = [], sr_disabled = False, sr_created_at = 0, sr_updated_at = 0,
     sr_data = Some \<lparr>sa_account = \<lparr>sv_id = i, sv_project_id = pid, sv_name = [], sv_scopes = [], sv_disabled = False\<rparr>, sa_secrets = []\<rparr>\<rparr>"

definition paged_db :: db where
  "paged_db = empty_db\<lparr>db_service_accounts := [sa_row ''p'' ''c'', sa_row ''p'' ''a'', sa_row ''q'' ''x'', sa_row ''p'' ''b'']\<rparr>"

theorem service_account_pages_complete_witness:
  "map_option (map sv_id) (walk_pages 4 ''p'' [] 1 (sample_state paged_db)) = Some [''a'', ''b'', ''c'']"
proof -
  have rows: "service_account_rows ''p'' [] (tx_db (sample_state paged_db)) = [sa_row ''p'' ''a'', sa_row ''p'' ''b'', sa_row ''p'' ''c'']"
    "sort_key sr_id (filter (\<lambda>r. sr_project_id r = ''p'') (db_service_accounts (tx_db (sample_state paged_db)))) =
       [sa_row ''p'' ''a'', sa_row ''p'' ''b'', sa_row ''p'' ''c'']"
    by code_simp+
  have "accounts_ok (service_account_rows ''p'' [] (tx_db (sample_state paged_db)))" unfolding rows by code_simp
  from service_account_pages_complete [OF this, of 1] show ?thesis
    unfolding rows by (simp add: account_of_def sa_row_def eval_nat_numeral del: walk_pages.simps)
qed

end
