(* ===== verification/Authenticator.thy ===== *)
theory Authenticator
  imports MachineIdentity
begin

text \<open>
  The authenticator (\<open>src/internal/infrastructure/postgres/authenticator_pg.go\<close>, the denylist of
  \<open>oidc_tokens_pg.go\<close>) and the security handler that places the principal in the request context
  (\<open>src/pkg/api/auth.go\<close>): how each security scheme turns a credential into a principal.
\<close>

section \<open>Claims\<close>

definition authDefaultEnv :: string where "authDefaultEnv = ''live''"

definition activityThrottle :: duration where "activityThrottle = 60 * Second"

definition claimEnv :: "claims \<Rightarrow> string" where
  "claimEnv cl = (if claimStr cl ''env'' \<noteq> [] then claimStr cl ''env'' else authDefaultEnv)"

definition claimInt :: "claims \<Rightarrow> string \<Rightarrow> int" where
  "claimInt cl k = (case map_of cl k of Some (CInt v) \<Rightarrow> v | _ \<Rightarrow> 0)"

definition claimScopes :: "claims \<Rightarrow> string list" where
  "claimScopes cl =
     (case (case map_of cl ''scope'' of Some v \<Rightarrow> Some v | None \<Rightarrow> map_of cl ''scp'') of
        Some (CStr s) \<Rightarrow> if s = [] then [] else go_fields s
      | Some (CStrs ss) \<Rightarrow> ss
      | Some (CAnys vs) \<Rightarrow> List.map_filter id vs
      | _ \<Rightarrow> [])"

section \<open>The denylist\<close>

definition tokenDenied :: "ctx \<Rightarrow> string \<Rightarrow> bool tx" where
  "tokenDenied c jti =
     (if jti = [] then ret False
      else query (\<lambda>d. list_ex (\<lambda>(j, e). j = jti \<and> e > cx_now c) (db_denied d)))"

text \<open>\<open>INSERT ... ON CONFLICT (jti) DO NOTHING\<close>: the row and whether it was inserted.\<close>

definition insert_denied :: "string \<Rightarrow> instant \<Rightarrow> bool tx" where
  "insert_denied jti expiresAt =
     tx_bind (query (\<lambda>d. jti \<in> fst ` set (db_denied d))) (\<lambda>present.
       if present then ret False
       else tx_bind (exec (db_denied_update (\<lambda>rs. rs @ [(jti, expiresAt)]))) (\<lambda>_. ret True))"

definition denyToken :: "string \<Rightarrow> instant \<Rightarrow> unit tx" where
  "denyToken jti expiresAt =
     (if jti = [] \<or> expiresAt = zeroTime then ret ()
      else tx_bind (insert_denied jti expiresAt) (\<lambda>_. ret ()))"

definition claimOnce :: "string \<Rightarrow> instant \<Rightarrow> bool tx" where
  "claimOnce jti expiresAt =
     (if jti = [] \<or> expiresAt = zeroTime then ret False else insert_denied jti expiresAt)"

section \<open>Schemes\<close>

text \<open>Replace whatever error a step returns.\<close>

definition failing_with :: "error \<Rightarrow> 'a tx \<Rightarrow> 'a tx" where
  "failing_with e m s = (case m s of (Inl _, s') \<Rightarrow> (Inl e, s') | (Inr x, s') \<Rightarrow> (Inr x, s'))"

text \<open>A read through the authenticator's own config reader.\<close>

definition with_auth_cfg :: "'a tx \<Rightarrow> 'a tx" where
  "with_auth_cfg m s =
     (case m (s\<lparr>tx_cfg := tx_auth_cfg s\<rparr>) of (r, s') \<Rightarrow> (r, s'\<lparr>tx_cfg := tx_cfg s, tx_auth_cfg := tx_cfg s'\<rparr>))"

definition blank_principal :: "principal_kind \<Rightarrow> principal" where
  "blank_principal k =
     \<lparr>pr_credential_id = [], pr_kind = k, pr_account_id = [], pr_project_id = [], pr_environment = [],
      pr_session_id = [], pr_client_id = [], pr_connection_id = [], pr_scopes = [], pr_aal = 0\<rparr>"

definition verifyJWT :: "sys \<Rightarrow> ctx \<Rightarrow> string \<Rightarrow> claims tx" where
  "verifyJWT sy c token =
     (case UnverifiedClaims sy token of
        None \<Rightarrow> throw ErrUnauthorized
      | Some peek \<Rightarrow>
          let pid = claimStr peek ''pid'' in
          if pid = [] then throw ErrUnauthorized
          else
            tx_bind (failing_with ErrUnauthorized (Verify sy c pid (claimEnv peek) token)) (\<lambda>verified.
            tx_bind (tokenDenied c (claimStr verified ''jti'')) (\<lambda>denied.
              if denied then throw ErrTokenRevoked else ret verified)))"

definition session_stale :: "instant \<Rightarrow> EffectiveSessionPolicy \<Rightarrow> session_row \<Rightarrow> bool" where
  "session_stale now policy row \<longleftrightarrow>
     (es_idle_timeout policy > 0 \<and> time_sub now (s_last_active_at row) > es_idle_timeout policy)
     \<or> (es_absolute_timeout policy > 0 \<and> time_sub now (s_created_at row) > es_absolute_timeout policy)"

definition checkSessionLive :: "ctx \<Rightarrow> string \<Rightarrow> unit tx" where
  "checkSessionLive c sid =
     tx_bind (FindIamSession ErrUnauthorized sid) (\<lambda>row.
     tx_bind (accountDeletionAccess c (s_project_id row) (s_environment row) (s_user_id row)) (\<lambda>_.
       if (case s_expires_at row of Some v \<Rightarrow> nowIn c > v | None \<Rightarrow> False) then throw ErrUnauthorized
       else
         tx_bind (with_auth_cfg (SessionPolicyForEnv c (s_project_id row) (s_environment row))) (\<lambda>policy.
           if session_stale (cx_now c) policy row then throw ErrUnauthorized
           else if time_sub (cx_now c) (s_last_active_at row) > activityThrottle
           then exec (db_sessions_update (update_where (\<lambda>r. s_id r = s_id row) (\<lambda>r. r\<lparr>s_last_active_at := cx_now c\<rparr>)))
           else ret ())))"

definition User :: "sys \<Rightarrow> ctx \<Rightarrow> string \<Rightarrow> principal tx" where
  "User sy c token =
     tx_bind (verifyJWT sy c token) (\<lambda>cl.
       if claimStr cl ''typ'' \<noteq> ''access'' then throw ErrUnauthorized
       else
         let sid = claimStr cl ''sid'' in
         tx_bind (if sid \<noteq> [] then checkSessionLive c sid else ret ()) (\<lambda>_.
           ret ((blank_principal PrincipalUser)
             \<lparr>pr_account_id := claimStr cl ''sub'', pr_project_id := claimStr cl ''pid'', pr_environment := claimEnv cl,
              pr_session_id := sid, pr_client_id := claimStr cl ''aud'', pr_aal := claimInt cl ''aal'',
              pr_scopes := claimScopes cl\<rparr>)))"

definition Admin :: "sys \<Rightarrow> ctx \<Rightarrow> string \<Rightarrow> principal tx" where
  "Admin sy c token =
     tx_bind (verifyJWT sy c token) (\<lambda>cl.
       if claimStr cl ''typ'' \<noteq> ''admin'' then throw ErrUnauthorized
       else
         tx_bind (query (\<lambda>d. find (\<lambda>r. at_hash r = sy_sha256 sy token) (db_admin_tokens d))) (\<lambda>found.
           case found of
             None \<Rightarrow> throw ErrUnauthorized
           | Some row \<Rightarrow>
               if (case at_data row of Some tok \<Rightarrow> ot_revoked tok | None \<Rightarrow> False) then throw ErrUnauthorized
               else if (case at_expires_at row of Some v \<Rightarrow> nowIn c > v | None \<Rightarrow> False) then throw ErrUnauthorized
               else ret ((blank_principal PrincipalAdmin)
                 \<lparr>pr_credential_id := at_id row, pr_account_id := claimStr cl ''sub'',
                  pr_project_id := claimStr cl ''pid'', pr_environment := claimEnv cl,
                  pr_client_id := claimStr cl ''act'', pr_scopes := claimScopes cl\<rparr>)))"

definition Master :: "string \<Rightarrow> string \<Rightarrow> principal res" where
  "Master masterKey token =
     (if masterKey = [] \<or> token = [] then Inl ErrUnauthorized
      else if token \<noteq> masterKey then Inl ErrUnauthorized
      else Inr ((blank_principal PrincipalOperator)\<lparr>pr_environment := authDefaultEnv\<rparr>))"

definition api_key_principal :: "sys \<Rightarrow> ctx \<Rightarrow> string \<Rightarrow> principal tx" where
  "api_key_principal sy c token =
     tx_bind (query (\<lambda>d. find (\<lambda>r. ak_hash r = machineIDHash sy token) (db_api_keys d))) (\<lambda>found.
       case found of
         None \<Rightarrow> throw ErrUnauthorized
       | Some row \<Rightarrow>
           if ak_disabled row then throw ErrUnauthorized
           else if (case ak_expires_at row of Some v \<Rightarrow> nowIn c > v | None \<Rightarrow> False) then throw ErrUnauthorized
           else ret ((blank_principal PrincipalService)
             \<lparr>pr_project_id := ak_project_id row, pr_environment := authDefaultEnv,
              pr_scopes := (case ak_data row of Some key \<Rightarrow> ky_scopes key | None \<Rightarrow> [])\<rparr>))"

definition Service :: "sys \<Rightarrow> ctx \<Rightarrow> string \<Rightarrow> principal tx" where
  "Service sy c token s =
     (case verifyJWT sy c token s of
        (Inr cl, s') \<Rightarrow>
          if claimStr cl ''typ'' = ''service''
          then (Inr ((blank_principal PrincipalService)
                  \<lparr>pr_account_id := claimStr cl ''sub'', pr_project_id := claimStr cl ''pid'',
                   pr_environment := claimEnv cl, pr_scopes := claimScopes cl\<rparr>), s')
          else api_key_principal sy c token s'
      | (Inl _, s') \<Rightarrow> api_key_principal sy c token s')"

definition SCIM :: "sys \<Rightarrow> ctx \<Rightarrow> string \<Rightarrow> principal tx" where
  "SCIM sy c token =
     tx_bind (query (\<lambda>d. find (\<lambda>r. sc_hash r = sy_sha256 sy token) (db_scim_tokens d))) (\<lambda>found.
       case found of
         None \<Rightarrow> throw ErrUnauthorized
       | Some row \<Rightarrow>
           if (case sc_data row of
                 Some tok \<Rightarrow> st_expires_at tok \<noteq> zeroTime \<and> nowIn c > st_expires_at tok
               | None \<Rightarrow> False)
           then throw ErrUnauthorized
           else ret ((blank_principal PrincipalSCIM)
             \<lparr>pr_project_id := sc_project_id row, pr_environment := authDefaultEnv,
              pr_connection_id := sc_connection_id row\<rparr>))"

definition serviceAccountClient :: "sys \<Rightarrow> ctx \<Rightarrow> string \<Rightarrow> string \<Rightarrow> principal tx" where
  "serviceAccountClient sy c clientID secret =
     tx_bind (failing_with ErrUnauthorized (verifyServiceAccountSecret sy c clientID secret)) (\<lambda>account.
       ret ((blank_principal PrincipalService)
         \<lparr>pr_account_id := rs_id account, pr_project_id := rs_project_id account,
          pr_environment := rs_environment account, pr_client_id := rs_id account, pr_scopes := rs_scopes account\<rparr>))"

definition Client :: "sys \<Rightarrow> ctx \<Rightarrow> string \<Rightarrow> string \<Rightarrow> principal tx" where
  "Client sy c clientID secret =
     tx_bind (query (\<lambda>d. find (\<lambda>r. ap_id r = clientID) (db_apps d))) (\<lambda>found.
       case found of
         None \<Rightarrow> serviceAccountClient sy c clientID secret
       | Some app \<Rightarrow>
           tx_bind (query (\<lambda>d. filter (\<lambda>r. as_app_id r = clientID) (db_app_secrets d))) (\<lambda>rows.
             if list_ex (\<lambda>r. as_hash r = sy_sha256 sy secret) rows
             then ret ((blank_principal PrincipalClient)
               \<lparr>pr_project_id := ap_project_id app, pr_environment := authDefaultEnv, pr_client_id := clientID\<rparr>)
             else throw ErrUnauthorized))"

definition RegistrationClient :: "sys \<Rightarrow> string \<Rightarrow> principal tx" where
  "RegistrationClient sy token =
     (if trim_space token = [] then throw ErrUnauthorized
      else
        tx_bind (query (\<lambda>d. find (\<lambda>r. case ap_data r of
                                        Some app \<Rightarrow> app_registration_token_hash app = sy_sha256 sy token
                                      | None \<Rightarrow> False) (db_apps d))) (\<lambda>found.
          case found of
            None \<Rightarrow> throw ErrUnauthorized
          | Some row \<Rightarrow>
              ret ((blank_principal PrincipalClient)
                \<lparr>pr_project_id := ap_project_id row, pr_environment := ap_environment row, pr_client_id := ap_id row\<rparr>)))"

definition OAuth2 :: "sys \<Rightarrow> ctx \<Rightarrow> string \<Rightarrow> principal tx" where
  "OAuth2 sy c token =
     tx_bind (verifyJWT sy c token) (\<lambda>cl.
       if claimStr cl ''typ'' \<noteq> ''access'' then throw ErrUnauthorized
       else ret ((blank_principal PrincipalUser)
         \<lparr>pr_account_id := claimStr cl ''sub'', pr_project_id := claimStr cl ''pid'', pr_environment := claimEnv cl,
          pr_client_id := claimStr cl ''aud'', pr_scopes := claimScopes cl\<rparr>))"

section \<open>The security handler\<close>

text \<open>A scheme passes with a principal, skips to the next declared alternative, or fails.\<close>

datatype scheme =
    BearerAuth string | AdminTokenScheme string | MasterKeyScheme string | ServiceTokenScheme string
  | ScimTokenScheme string | ClientSecretBasic string string | OAuth2Scheme string | RegistrationToken string

datatype scheme_result = Passed ctx | SkipServerSecurity | Failed error

definition auth_result :: "ctx \<Rightarrow> principal res \<Rightarrow> scheme_result" where
  "auth_result c r = (case r of Inl e \<Rightarrow> Failed e | Inr p \<Rightarrow> Passed (c\<lparr>cx_principal := Some p\<rparr>))"

definition skip_unauthorized :: "ctx \<Rightarrow> principal res \<Rightarrow> scheme_result" where
  "skip_unauthorized c r =
     (case r of Inl e \<Rightarrow> if err_is e ErrUnauthorized then SkipServerSecurity else Failed e
              | Inr _ \<Rightarrow> auth_result c r)"

fun HandleScheme :: "sys \<Rightarrow> string \<Rightarrow> ctx \<Rightarrow> scheme \<Rightarrow> txs \<Rightarrow> scheme_result \<times> txs" where
  "HandleScheme sy mk c (BearerAuth t) s = apfst (auth_result c) (User sy c t s)"
| "HandleScheme sy mk c (AdminTokenScheme t) s = apfst (skip_unauthorized c) (Admin sy c t s)"
| "HandleScheme sy mk c (MasterKeyScheme t) s = (skip_unauthorized c (Master mk t), s)"
| "HandleScheme sy mk c (ServiceTokenScheme t) s = apfst (auth_result c) (Service sy c t s)"
| "HandleScheme sy mk c (ScimTokenScheme t) s = apfst (auth_result c) (SCIM sy c t s)"
| "HandleScheme sy mk c (ClientSecretBasic i p) s = apfst (auth_result c) (Client sy c i p s)"
| "HandleScheme sy mk c (OAuth2Scheme t) s = apfst (auth_result c) (OAuth2 sy c t s)"
| "HandleScheme sy mk c (RegistrationToken t) s = apfst (auth_result c) (RegistrationClient sy t s)"

section \<open>What a verified token proves\<close>

text \<open>The keys a token of a project and environment is verified with.\<close>

definition verification_keys :: "sys \<Rightarrow> string \<Rightarrow> string \<Rightarrow> db \<Rightarrow> (string \<times> string) list" where
  "verification_keys sy pid env d =
     List.map_filter
       (\<lambda>k. if sk_status k = ''retired'' then None
            else (case sk_private_pem k of
                    Some pem \<Rightarrow> if pem = [] then None
                                else (case sy_load_key sy pem of Inr priv \<Rightarrow> Some (sk_kid k, priv) | Inl _ \<Rightarrow> None)
                  | None \<Rightarrow> None))
       (filter (\<lambda>k. sk_project_id k = pid \<and> sk_environment k = env) (db_keys d))"

lemma publicSet_run: "publicSet sy pid env s = (Inr (verification_keys sy pid env (tx_db s)), s)"
  by (simp add: publicSet_def keysFor_def tx_bind_def verification_keys_def)

lemma Verify_run:
  "Verify sy c pid env t s =
     (case sy_jwt_verify sy (verification_keys sy pid env (tx_db s)) (cx_now c) t of
        Some cl \<Rightarrow> (Inr cl, s) | None \<Rightarrow> (Inl ErrInvalidToken, s))"
  by (simp add: Verify_def tx_bind_def publicSet_run split: option.split)

definition denied :: "ctx \<Rightarrow> string \<Rightarrow> db \<Rightarrow> bool" where
  "denied c jti d \<longleftrightarrow> jti \<noteq> [] \<and> list_ex (\<lambda>(j, e). j = jti \<and> e > cx_now c) (db_denied d)"

lemma tokenDenied_run: "tokenDenied c jti s = (Inr (denied c jti (tx_db s)), s)"
  by (simp add: tokenDenied_def denied_def)

text \<open>A token that verifies, under the keys of the project and environment it names itself, and is
  not on the denylist.\<close>

definition genuine :: "sys \<Rightarrow> ctx \<Rightarrow> string \<Rightarrow> db \<Rightarrow> claims \<Rightarrow> bool" where
  "genuine sy c t d cl \<longleftrightarrow>
     (\<exists>peek. sy_jwt_peek sy t = Some peek \<and> claimStr peek ''pid'' \<noteq> []
        \<and> sy_jwt_verify sy (verification_keys sy (claimStr peek ''pid'') (claimEnv peek) d) (cx_now c) t = Some cl)
     \<and> \<not> denied c (claimStr cl ''jti'') d"

lemma verifyJWT_run:
  "verifyJWT sy c t s = (Inr cl, s') \<longleftrightarrow> s' = s \<and> genuine sy c t (tx_db s) cl"
  by (auto simp: verifyJWT_def UnverifiedClaims_def Let_def genuine_def failing_with_def Verify_run tokenDenied_run res_simps
      split: option.splits)

lemma verifyJWT_state: "snd (verifyJWT sy c t s) = s"
  by (auto simp: verifyJWT_def UnverifiedClaims_def Let_def failing_with_def Verify_run tokenDenied_run tx_bind_def
      split: option.splits)

lemma verifyJWT_error: "verifyJWT sy c t s = (Inl e, s') \<Longrightarrow> s' = s \<and> e \<in> {ErrUnauthorized, ErrTokenRevoked}"
  by (auto simp: verifyJWT_def UnverifiedClaims_def Let_def failing_with_def Verify_run tokenDenied_run res_simps
      split: option.splits if_splits)

text \<open>The library hands back the claims of the token it verified.\<close>

definition jwt_sound :: "sys \<Rightarrow> bool" where
  "jwt_sound sy \<longleftrightarrow> (\<forall>ks now t cl. sy_jwt_verify sy ks now t = Some cl \<longrightarrow> sy_jwt_peek sy t = Some cl)"

lemma genuine_keys:
  assumes "jwt_sound sy" and "genuine sy c t d cl"
  shows "claimStr cl ''pid'' \<noteq> []"
    and "sy_jwt_verify sy (verification_keys sy (claimStr cl ''pid'') (claimEnv cl) d) (cx_now c) t = Some cl"
  using assms by (auto simp: genuine_def jwt_sound_def)

section \<open>Who administers a project\<close>

definition live_admin_token :: "sys \<Rightarrow> ctx \<Rightarrow> string \<Rightarrow> db \<Rightarrow> bool" where
  "live_admin_token sy c t d \<longleftrightarrow>
     (\<exists>row \<in> set (db_admin_tokens d). at_hash row = sy_sha256 sy t
        \<and> (\<forall>tok. at_data row = Some tok \<longrightarrow> \<not> ot_revoked tok) \<and> (\<forall>v. at_expires_at row = Some v \<longrightarrow> nowIn c \<le> v))"

definition live_api_key :: "sys \<Rightarrow> ctx \<Rightarrow> string \<Rightarrow> string \<Rightarrow> db \<Rightarrow> bool" where
  "live_api_key sy c pid t d \<longleftrightarrow>
     (\<exists>row \<in> set (db_api_keys d). ak_hash row = sy_sha256 sy t \<and> ak_project_id row = pid \<and> \<not> ak_disabled row
        \<and> (\<forall>v. ak_expires_at row = Some v \<longrightarrow> nowIn c \<le> v))"

definition live_secret :: "sys \<Rightarrow> ctx \<Rightarrow> string \<Rightarrow> string \<Rightarrow> string \<Rightarrow> db \<Rightarrow> bool" where
  "live_secret sy c pid i p d \<longleftrightarrow>
     (\<exists>row \<in> set (db_service_accounts d). \<exists>env. sr_id row = i \<and> sr_project_id row = pid \<and> sr_data row = Some env
        \<and> \<not> sv_disabled (sa_account env)
        \<and> (\<exists>sec \<in> set (sa_secrets env). \<not> ss_revoked sec \<and> ss_hash sec = sy_sha256 sy p
              \<and> (\<forall>v. ss_expires_at sec = Some v \<longrightarrow> v = zeroTime \<or> cx_now c \<le> v)))"

text \<open>The credentials that make a caller an administrator of a project.\<close>

fun administers :: "sys \<Rightarrow> string \<Rightarrow> ctx \<Rightarrow> string \<Rightarrow> db \<Rightarrow> scheme \<Rightarrow> bool" where
  "administers sy mk c pid d (MasterKeyScheme t) \<longleftrightarrow> t = mk \<and> mk \<noteq> []"
| "administers sy mk c pid d (AdminTokenScheme t) \<longleftrightarrow>
     live_admin_token sy c t d
     \<and> (\<exists>env cl. sy_jwt_verify sy (verification_keys sy pid env d) (cx_now c) t = Some cl \<and> claimStr cl ''typ'' = ''admin'')"
| "administers sy mk c pid d (ServiceTokenScheme t) \<longleftrightarrow>
     live_api_key sy c pid t d
     \<or> (\<exists>env cl. sy_jwt_verify sy (verification_keys sy pid env d) (cx_now c) t = Some cl \<and> claimStr cl ''typ'' = ''service'')"
| "administers sy mk c pid d (ClientSecretBasic i p) \<longleftrightarrow> live_secret sy c pid i p d"
| "administers sy mk c pid d _ \<longleftrightarrow> False"

lemma auth_result_Passed: "auth_result c r = Passed c' \<longleftrightarrow> (\<exists>p. r = Inr p \<and> c' = c\<lparr>cx_principal := Some p\<rparr>)"
  by (auto simp: auth_result_def split: sum.splits)

lemma skip_unauthorized_Passed: "skip_unauthorized c r = Passed c' \<longleftrightarrow> (\<exists>p. r = Inr p \<and> c' = c\<lparr>cx_principal := Some p\<rparr>)"
  by (auto simp: skip_unauthorized_def auth_result_def split: sum.splits if_splits)

lemma apfst_eq: "apfst f m = (x, s) \<longleftrightarrow> (\<exists>r. m = (r, s) \<and> f r = x)"
  by (cases m) auto

lemma requireProjectAdmin_with:
  "requireProjectAdmin (c\<lparr>cx_principal := Some p\<rparr>) pid = Inr q \<longleftrightarrow>
     q = p \<and> (pr_kind p = PrincipalOperator \<or> pr_kind p \<in> {PrincipalAdmin, PrincipalService} \<and> pr_project_id p = pid \<and> pid \<noteq> [])"
  by (auto simp: requireProjectAdmin_def requirePrincipal_def)

lemma Master_Inr: "Master mk t = Inr p \<Longrightarrow> t = mk \<and> mk \<noteq> [] \<and> pr_kind p = PrincipalOperator"
  by (auto simp: Master_def blank_principal_def split: if_splits)

lemma Admin_Inr:
  assumes "Admin sy c t s = (Inr p, s')"
  shows "\<exists>cl. genuine sy c t (tx_db s) cl \<and> claimStr cl ''typ'' = ''admin'' \<and> live_admin_token sy c t (tx_db s)
     \<and> pr_kind p = PrincipalAdmin \<and> pr_project_id p = claimStr cl ''pid''"
  using assms unfolding live_admin_token_def
  by (auto simp: Admin_def res_simps verifyJWT_run blank_principal_def split: option.splits if_splits dest!: find_set)
     fastforce+

lemma api_key_principal_Inr:
  assumes "api_key_principal sy c t s = (Inr p, s')"
  shows "pr_kind p = PrincipalService \<and> live_api_key sy c (pr_project_id p) t (tx_db s)"
  using assms unfolding live_api_key_def
  by (auto simp: api_key_principal_def res_simps blank_principal_def machineIDHash_def split: option.splits if_splits dest!: find_set)

lemma Service_Inr:
  assumes "Service sy c t s = (Inr p, s')"
  shows "pr_kind p = PrincipalService
     \<and> (live_api_key sy c (pr_project_id p) t (tx_db s)
        \<or> (\<exists>cl. genuine sy c t (tx_db s) cl \<and> claimStr cl ''typ'' = ''service'' \<and> pr_project_id p = claimStr cl ''pid''))"
proof (cases "verifyJWT sy c t s")
  case (Pair r s1)
  have s1: "s1 = s" using verifyJWT_state [of sy c t s] Pair by simp
  show ?thesis
    using assms Pair s1 api_key_principal_Inr [of sy c t s p s']
    by (auto simp: Service_def verifyJWT_run [of sy c t s _ s] blank_principal_def split: sum.splits if_splits)
qed

lemma Client_Inr:
  assumes "Client sy c i p s = (Inr q, s')"
  shows "pr_kind q = PrincipalClient \<or> pr_kind q = PrincipalService \<and> live_secret sy c (pr_project_id q) i p (tx_db s)"
  using assms unfolding live_secret_def
  by (auto simp: Client_def serviceAccountClient_def failing_with_def verifyServiceAccountSecret_def find_service_account_def
      resolvedFrom_def serviceAccountSecretMatches_def list_ex_iff machineIDHash_def
      res_simps blank_principal_def split: option.splits if_splits sum.splits prod.splits dest!: find_set)
     fastforce+


text \<open>C1: the tenancy boundary end to end. Whatever credential a caller presents under whatever scheme,
  it passes the project-admin guard of a project only if it is the configured master key, or a
  token that verifies under a signing key of exactly that project and is recorded as a live admin
  token or is a service token, or an API key of that project that is neither disabled nor expired, or the
  client secret of an enabled service account of that project that is neither revoked nor expired. The
  JWT library is assumed to hand back the claims of the token it verified.\<close>

theorem only_own_credentials_administer:
  assumes "jwt_sound sy" and "HandleScheme sy mk c sch s = (Passed c', s')" and "requireProjectAdmin c' pid = Inr p"
  shows "administers sy mk c pid (tx_db s) sch"
proof (cases sch)
  case (AdminTokenScheme t)
  then obtain q where q: "Admin sy c t s = (Inr q, s')" "requireProjectAdmin (c\<lparr>cx_principal := Some q\<rparr>) pid = Inr p"
    using assms(2,3) by (auto simp: apfst_eq skip_unauthorized_Passed)
  then have "pr_project_id q = pid" using Admin_Inr [OF q(1)] by (auto simp: requireProjectAdmin_with)
  then show ?thesis
    using AdminTokenScheme Admin_Inr [OF q(1)] genuine_keys(2) [OF assms(1)] by (metis administers.simps(2))
next
  case (ServiceTokenScheme t)
  then obtain q where q: "Service sy c t s = (Inr q, s')" "requireProjectAdmin (c\<lparr>cx_principal := Some q\<rparr>) pid = Inr p"
    using assms(2,3) by (auto simp: apfst_eq auth_result_Passed)
  then have "pr_project_id q = pid" using Service_Inr [OF q(1)] by (auto simp: requireProjectAdmin_with)
  then show ?thesis
    using ServiceTokenScheme Service_Inr [OF q(1)] genuine_keys(2) [OF assms(1)] by (metis administers.simps(3))
next
  case (ClientSecretBasic i r)
  then obtain q where q: "Client sy c i r s = (Inr q, s')" "requireProjectAdmin (c\<lparr>cx_principal := Some q\<rparr>) pid = Inr p"
    using assms(2,3) by (auto simp: apfst_eq auth_result_Passed)
  then show ?thesis using ClientSecretBasic Client_Inr [OF q(1)] by (auto simp: requireProjectAdmin_with)
next
  case (MasterKeyScheme t)
  then show ?thesis using assms(2) by (auto simp: skip_unauthorized_Passed dest: Master_Inr)
next
  case (BearerAuth t)
  then show ?thesis
    using assms(2,3)
    by (auto simp: apfst_eq auth_result_Passed requireProjectAdmin_with User_def res_simps blank_principal_def Let_def split: if_splits)
next
  case (OAuth2Scheme t)
  then show ?thesis
    using assms(2,3)
    by (auto simp: apfst_eq auth_result_Passed requireProjectAdmin_with OAuth2_def res_simps blank_principal_def split: if_splits)
next
  case (ScimTokenScheme t)
  then show ?thesis
    using assms(2,3)
    by (auto simp: apfst_eq auth_result_Passed requireProjectAdmin_with SCIM_def res_simps blank_principal_def
        split: if_splits option.splits)
next
  case (RegistrationToken t)
  then show ?thesis
    using assms(2,3)
    by (auto simp: apfst_eq auth_result_Passed requireProjectAdmin_with RegistrationClient_def res_simps blank_principal_def
        split: if_splits option.splits)
qed

definition jwt_sys :: sys where
  "jwt_sys = sample_sys
     \<lparr>sy_jwt_verify := (\<lambda>ks now t. if t = ''adm'' \<and> (''kid'', ''pem'') \<in> set ks
                          then Some [(''pid'', CStr ''p''), (''typ'', CStr ''admin''), (''sub'', CStr ''ops'')] else None),
      sy_jwt_peek := (\<lambda>t. if t = ''adm'' then Some [(''pid'', CStr ''p''), (''typ'', CStr ''admin''), (''sub'', CStr ''ops'')]
                          else None)\<rparr>"

definition admin_db :: db where
  "admin_db = sample_db\<lparr>db_admin_tokens :=
     [\<lparr>at_id = ''a1'', at_project_id = ''p'', at_hash = ''h:adm'', at_expires_at = None, at_data = None\<rparr>]\<rparr>"

theorem only_own_credentials_administer_witness:
  "\<exists>c' s' p. HandleScheme jwt_sys ''master'' (sample_ctx 5) (AdminTokenScheme ''adm'') (sample_state admin_db) = (Passed c', s')
     \<and> requireProjectAdmin c' ''p'' = Inr p \<and> administers jwt_sys ''master'' (sample_ctx 5) ''p'' admin_db (AdminTokenScheme ''adm'')"
proof -
  have run: "case HandleScheme jwt_sys ''master'' (sample_ctx 5) (AdminTokenScheme ''adm'') (sample_state admin_db) of
          (Passed c', _) \<Rightarrow> (case requireProjectAdmin c' ''p'' of Inr _ \<Rightarrow> True | Inl _ \<Rightarrow> False) | _ \<Rightarrow> False"
    by code_simp
  moreover have "jwt_sound jwt_sys" by (simp add: jwt_sound_def jwt_sys_def)
  ultimately show ?thesis
    using only_own_credentials_administer [of jwt_sys "''master''" "sample_ctx 5" "AdminTokenScheme ''adm''" "sample_state admin_db"]
    by (auto split: prod.splits scheme_result.splits sum.splits simp del: administers.simps)
qed

section \<open>Minted tokens authenticate\<close>

text \<open>When the claims of a token are valid; times are kept in whole seconds.\<close>

definition valid_at :: "instant \<Rightarrow> claims \<Rightarrow> bool" where
  "valid_at now cl \<longleftrightarrow>
     (case map_of cl ''nbf'' of Some (CTime t) \<Rightarrow> t \<le> now | _ \<Rightarrow> True)
     \<and> (case map_of cl ''exp'' of Some (CTime t) \<Rightarrow> now + Second \<le> t | _ \<Rightarrow> True)"

text \<open>The library verifies what it signed, under any key set with the signing key, and renders the
  claims as they were given; \<open>aud\<close> may be rendered as an array, the times as numbers. A generated
  key is not the empty string.\<close>

definition jwt_roundtrip :: "sys \<Rightarrow> bool" where
  "jwt_roundtrip sy \<longleftrightarrow>
     (\<forall>n. sy_new_key sy n \<noteq> [])
     \<and> (\<forall>kid key cl tok. sy_jwt_sign sy kid key cl = Inr tok \<longrightarrow>
          (\<exists>cl'. sy_jwt_peek sy tok = Some cl'
             \<and> (\<forall>k. k \<notin> {''aud'', ''iat'', ''exp'', ''nbf''} \<longrightarrow> claimStr cl' k = claimStr cl k \<and> claimInt cl' k = claimInt cl k)
             \<and> (\<forall>ks now. (kid, key) \<in> set ks \<and> valid_at now cl \<longrightarrow> sy_jwt_verify sy ks now tok = Some cl')))"

lemma first_active_key:
  assumes "first_active sy ks = Inr (Some (kid, priv))"
  shows "\<exists>k \<in> set ks. sk_status k = ''active'' \<and> sk_kid k = kid
           \<and> (\<exists>pem. sk_private_pem k = Some pem \<and> pem \<noteq> [] \<and> sy_load_key sy pem = Inr priv)"
  using assms by (induction ks) (auto split: if_splits option.splits simp: res_bind_def split: sum.splits)


lemma verification_keys_member:
  assumes "k \<in> set (db_keys d)" and "sk_project_id k = pid" "sk_environment k = env" and "sk_status k = ''active''"
    and "sk_private_pem k = Some pem" "pem \<noteq> []" "sy_load_key sy pem = Inr priv"
  shows "(sk_kid k, priv) \<in> set (verification_keys sy pid env d)"
proof -
  have mem: "y \<in> set (List.map_filter f xs)" if "x \<in> set xs" "f x = Some y" for f :: "signing_key_row \<Rightarrow> _" and x y xs
    using that by (induction xs) (auto simp: List.map_filter_simps split: option.split)
  show ?thesis unfolding verification_keys_def by (rule mem [of k]) (use assms in auto)
qed

lemma activeKey_verifies:
  assumes "activeKey sy pid env s = (Inr (kid, priv), s')" and "\<forall>n. sy_new_key sy n \<noteq> []"
  shows "(kid, priv) \<in> set (verification_keys sy pid env (tx_db s'))"
proof -
  let ?rows = "filter (\<lambda>k. sk_project_id k = pid \<and> sk_environment k = env) (db_keys (tx_db s))"
  have run: "activeKey sy pid env s =
     tx_bind (lift_res (first_active sy ?rows)) (\<lambda>found. case found of
         Some kp \<Rightarrow> ret kp
       | None \<Rightarrow> tx_bind (draw (sy_new_key sy)) (\<lambda>pem. tx_bind (lift_res (sy_load_key sy pem)) (\<lambda>priv. tx_bind (newUUID sy) (\<lambda>kid.
           tx_bind (insert_row db_keys db_keys_update sk_kid
                      \<lparr>sk_kid = kid, sk_project_id = pid, sk_environment = env, sk_status = ''active'',
                       sk_private_pem = Some pem\<rparr>) (\<lambda>_. ret (kid, priv)))))) s"
    by (simp add: activeKey_def keysFor_def tx_bind_def)
  show ?thesis
  proof (cases "first_active sy ?rows")
    case (Inl e)
    then show ?thesis using assms(1) by (simp add: run tx_bind_def)
  next
    case (Inr found)
    show ?thesis
    proof (cases found)
      case (Some kp)
      then have "first_active sy ?rows = Inr (Some (kid, priv))" and s': "s' = s"
        using assms(1) Inr by (simp_all add: run tx_bind_def)
      then obtain k pem where "k \<in> set (db_keys (tx_db s))" "sk_project_id k = pid" "sk_environment k = env" "sk_status k = ''active''"
          "sk_private_pem k = Some pem" "pem \<noteq> []" "sy_load_key sy pem = Inr priv" "sk_kid k = kid"
        using first_active_key by fastforce
      then show ?thesis using verification_keys_member [of k "tx_db s" pid env pem sy priv] s' by simp
    next
      case None
      then obtain n where n: "sy_load_key sy (sy_new_key sy n) = Inr priv"
          "\<lparr>sk_kid = kid, sk_project_id = pid, sk_environment = env, sk_status = ''active'',
            sk_private_pem = Some (sy_new_key sy n)\<rparr> \<in> set (db_keys (tx_db s'))"
        using assms(1) Inr by (auto simp: run res_simps newUUID_def insert_row_Inr)
      from verification_keys_member [OF n(2)] n(1) assms(2) show ?thesis by simp
    qed
  qed
qed

lemma Sign_verifies:
  assumes "Sign sy c pid env cl ttl s = (Inr tok, s')" and "\<forall>n. sy_new_key sy n \<noteq> []"
  obtains kid priv where "(kid, priv) \<in> set (verification_keys sy pid env (tx_db s'))"
    and "sy_jwt_sign sy kid priv (cl @ [(''iat'', CTime (cx_now c)), (''exp'', CTime (cx_now c + ttl)), (''nbf'', CTime (cx_now c))]) = Inr tok"
proof -
  obtain kid priv where "activeKey sy pid env s = (Inr (kid, priv), s')"
    "sy_jwt_sign sy kid priv (cl @ [(''iat'', CTime (cx_now c)), (''exp'', CTime (cx_now c + ttl)), (''nbf'', CTime (cx_now c))]) = Inr tok"
    using assms(1) by (auto simp: Sign_def res_simps)
  with activeKey_verifies [OF this(1) assms(2)] that show thesis by blast
qed

lemma requested_env_Inr:
  "requested_env c pid fb s = (Inr e, s') \<Longrightarrow> s' = s \<and> e = (if cx_env c = [] then fb else cx_env c)"
  by (auto simp: requested_env_def Let_def res_simps split: if_splits)

text \<open>What a signed token says and proves, when it is read back at the instant it was signed.\<close>

lemma signed_claims:
  assumes "Sign sy c pid env cl ttl s = (Inr tok, s')" and "jwt_roundtrip sy" and "Second \<le> ttl"
    and "map_of cl ''exp'' = None" "map_of cl ''nbf'' = None" "map_of cl ''iat'' = None"
  obtains cl' where "sy_jwt_peek sy tok = Some cl'"
    and "sy_jwt_verify sy (verification_keys sy pid env (tx_db s')) (cx_now c) tok = Some cl'"
    and "\<And>k. k \<notin> {''aud'', ''iat'', ''exp'', ''nbf''} \<Longrightarrow> claimStr cl' k = claimStr cl k \<and> claimInt cl' k = claimInt cl k"
proof -
  let ?cl = "cl @ [(''iat'', CTime (cx_now c)), (''exp'', CTime (cx_now c + ttl)), (''nbf'', CTime (cx_now c))]"
  obtain kid priv where k: "(kid, priv) \<in> set (verification_keys sy pid env (tx_db s'))" "sy_jwt_sign sy kid priv ?cl = Inr tok"
    using Sign_verifies [OF assms(1) assms(2) [unfolded jwt_roundtrip_def, THEN conjunct1]] by blast
  obtain cl' where cl': "sy_jwt_peek sy tok = Some cl'"
      "\<forall>k. k \<notin> {''aud'', ''iat'', ''exp'', ''nbf''} \<longrightarrow> claimStr cl' k = claimStr ?cl k \<and> claimInt cl' k = claimInt ?cl k"
      "\<forall>ks now. (kid, priv) \<in> set ks \<and> valid_at now ?cl \<longrightarrow> sy_jwt_verify sy ks now tok = Some cl'"
    using assms(2) [unfolded jwt_roundtrip_def, THEN conjunct2, rule_format, OF k(2)] by (elim exE conjE)
  have "valid_at (cx_now c) ?cl" using assms(3-6) by (simp add: valid_at_def map_add_def)
  moreover have "map_of ?cl k = map_of cl k" if "k \<notin> {''aud'', ''iat'', ''exp'', ''nbf''}" for k
    using that by (simp add: map_add_def split: option.split)
  ultimately show thesis
    using that [OF cl'(1)] cl'(2,3) k(1) by (simp add: claimStr_def claimInt_def)
qed

lemma coreAuthSignAccessToken_genuine:
  assumes "coreAuthSignAccessToken sy c acc sid cl e amr aal ttl ir s = (Inr tok, s')" and "jwt_roundtrip sy"
    and "acc_project_id acc \<noteq> []" and "e \<noteq> []" and "Second \<le> ttl"
    and "\<forall>n \<ge> tx_draws s. sy_uuid sy n \<notin> fst ` set (db_denied (tx_db s))"
  shows "\<exists>cl'. genuine sy c tok (tx_db s') cl' \<and> claimStr cl' ''typ'' = ''access'' \<and> claimStr cl' ''sid'' = sid
     \<and> claimStr cl' ''sub'' = acc_id acc \<and> claimStr cl' ''pid'' = acc_project_id acc \<and> claimEnv cl' = e \<and> claimInt cl' ''aal'' = aal"
proof -
  obtain roles s2 cls where cls: "cls =
        [(''iss'', CStr (oidcIssuer (sy_public_url sy) (acc_project_id acc) e)), (''sub'', CStr (acc_id acc)), (''sid'', CStr sid),
          (''jti'', CStr (sy_uuid sy (tx_draws s))), (''pid'', CStr (acc_project_id acc)),
          (''aud'', CStr (if cl = [] then acc_project_id acc else cl)),
          (''aal'', CInt aal), (''amr'', CStrs amr), (''typ'', CStr ''access''), (''env'', CStr e)]
          @ (if cl \<noteq> [] then [(''client_id'', CStr cl)] else []) @ (if roles \<noteq> [] then [(''roles'', CStrs roles)] else [])"
    and sign: "Sign sy c (acc_project_id acc) e cls ttl s2 = (Inr tok, s')" and db: "db_denied (tx_db s2) = db_denied (tx_db s)"
  proof -
    let ?s1 = "s\<lparr>tx_draws := tx_draws s + 1\<rparr>"
    obtain roles s2 where r: "(if ir then userRoles (acc_project_id acc) e (acc_id acc) else ret []) ?s1 = (Inr roles, s2)"
      using assms(1) by (auto simp: coreAuthSignAccessToken_def Let_def res_simps newUUID_def)
    then have "tx_db s2 = tx_db s" by (auto simp: userRoles_def split: if_splits)
    moreover note assms(1) [unfolded coreAuthSignAccessToken_def Let_def newUUID_def,
      unfolded tx_bind_Inr [of "draw (sy_uuid sy)" s, OF draw_apply] tx_bind_Inr [of "if ir then _ else _", OF r]]
    ultimately show thesis using that [OF refl] by simp
  qed
  have none: "map_of cls ''exp'' = None" "map_of cls ''nbf'' = None" "map_of cls ''iat'' = None"
    by (simp_all add: cls)
  obtain cl' where cl': "sy_jwt_peek sy tok = Some cl'"
    "sy_jwt_verify sy (verification_keys sy (acc_project_id acc) e (tx_db s')) (cx_now c) tok = Some cl'"
    "\<And>k. k \<notin> {''aud'', ''iat'', ''exp'', ''nbf''} \<Longrightarrow> claimStr cl' k = claimStr cls k \<and> claimInt cl' k = claimInt cls k"
    using signed_claims [OF sign assms(2,5) none] by metis
  have says: "claimStr cl' ''typ'' = ''access''" "claimStr cl' ''sid'' = sid" "claimStr cl' ''sub'' = acc_id acc"
    "claimStr cl' ''pid'' = acc_project_id acc" "claimStr cl' ''env'' = e" "claimInt cl' ''aal'' = aal"
    "claimStr cl' ''jti'' = sy_uuid sy (tx_draws s)"
    by (simp_all add: cl'(3)) (simp_all add: cls claimStr_def claimInt_def)
  have "db_denied (tx_db s') = db_denied (tx_db s)"
    using keepsD [where p = db_denied, OF keeps_Sign sign] db by simp
  then have "\<not> denied c (claimStr cl' ''jti'') (tx_db s')"
    using assms(6) by (force simp: denied_def says list_ex_iff)
  then have "genuine sy c tok (tx_db s') cl'"
    using cl'(1,2) assms(3,4) by (simp add: genuine_def says claimEnv_def)
  with says assms(4) show ?thesis by (auto simp: claimEnv_def)
qed


text \<open>The sign-in guard has asked for the account deletion of the environment it signs for.\<close>

lemma guardSignIn_not_deleted:
  assumes "guardSignIn sy c acc aal s = (Inr u, s1)" and "cx_principal c = None"
    and "db_deletions (tx_db s2) = db_deletions (tx_db s)"
  shows "accountDeletionAccess c (acc_project_id acc) (if cx_env c = [] then ''live'' else cx_env c) (acc_id acc) s2
           = (Inr (), s2)"
proof -
  obtain s3 where g: "securityAccountGuard sy c (acc_project_id acc) (acc_id acc) s = (Inr (), s3)"
    using assms(1) unfolding guardSignIn_def tx_bind_eq_Inr by auto
  then obtain e s4 s5 where e: "effectiveEnv sy c (acc_project_id acc) s = (Inr e, s4)"
    and a: "accountDeletionAccess c (acc_project_id acc) e (acc_id acc) s4 = (Inr (), s5)"
    unfolding securityAccountGuard_def tx_bind_eq_Inr by auto
  from e assms(2) have "s4 = s" "e = (if cx_env c = [] then ''live'' else cx_env c)"
    by (auto simp: effectiveEnv_def runtimeDefaultEnv_def dest!: requested_env_Inr)
  with a show ?thesis
    by (auto simp: accountDeletionAccess_def tx_bind_def assms(3) split: if_splits)
qed

text \<open>What a mint leaves behind: a token signed under a key that verifies it, and its session.\<close>

lemma coreAuthMintSession_signed:
  assumes "coreAuthMintSession sy c acc cl amr aal0 s = (Inr sess, s')" and "cx_principal c = None"
  defines "aal \<equiv> (if aal0 \<le> 0 then 1 else aal0)" and "now \<equiv> cx_now c" and "e \<equiv> (if cx_env c = [] then ''live'' else cx_env c)"
  obtains raw sid plain s4 s5 dev where
    "coreAuthSignAccessToken sy c acc sid cl e amr aal (es_access_ttl (parseSessionPolicy raw))
       (RolesClaimEnabled (parseSessionPolicy raw)) s4 = (Inr (se_access_token sess), s5)"
    and "sess = newCoreAuthSession c sid acc cl amr aal (se_access_token sess) plain (parseSessionPolicy raw) now"
    and "tx_draws s \<le> tx_draws s4" and "db_denied (tx_db s4) = db_denied (tx_db s)"
    and "db_keys (tx_db s') = db_keys (tx_db s5)" "db_denied (tx_db s') = db_denied (tx_db s5)"
    and "accountDeletionAccess c (acc_project_id acc) e (acc_id acc) s' = (Inr (), s')"
    and "find (\<lambda>r. s_id r = sid) (db_sessions (tx_db s'))
           = Some ((session_row_of sess e aal cl now (parseSessionPolicy raw))\<lparr>s_device_id := dev\<rparr>)"
proof -
  from coreAuthMintSession_steps [OF assms(1), folded aal_def now_def]
  obtain s1 s2 s3 s4 s5 s6 s8 sid sp e' at plain rid where
    st: "guardSignIn sy c acc aal0 s = (Inr (), s1)" "newUUID sy s1 = (Inr sid, s2)"
      "SessionPolicy sy c (acc_project_id acc) s2 = (Inr sp, s3)"
      "resolveSignEnv c (acc_project_id acc) coreAuthDefaultEnv s3 = (Inr e', s4)"
      "coreAuthSignAccessToken sy c acc sid cl e' amr aal (es_access_ttl sp) (RolesClaimEnabled sp) s4 = (Inr at, s5)"
      "coreAuthRandomToken sy s5 = (Inr plain, s6)"
    and sess: "sess = newCoreAuthSession c sid acc cl amr aal at plain sp now"
    and ins: "sid \<notin> s_id ` set (db_sessions (tx_db s6))"
      "newUUID sy (s6\<lparr>tx_db := db_sessions_update (\<lambda>rs. rs @ [session_row_of sess e' aal cl now sp]) (tx_db s6)\<rparr>) = (Inr rid, s8)"
    and em: "Emit sy c ''session.created'' (se_project_id sess) e' (se_id sess) (PSession sess)
      (s8\<lparr>tx_db := db_refresh_update (\<lambda>rs. rs @ [refresh_row_of
                       \<lparr>rd_id = rid, rd_project_id = acc_project_id acc, rd_environment = e', rd_user_id = acc_id acc,
                        rd_session_id = sid, rd_hash = coreAuthSHA256 sy plain, rd_revoked = False,
                        rd_expires_at = coreAuthRefreshHorizon now now sp, rd_created_at = now\<rparr>]) (tx_db s8)\<rparr>) = (Inr (), s')"
    by metis
  obtain raw where raw: "sp = parseSessionPolicy raw" using st(3) unfolding SessionPolicy_def tx_bind_eq_Inr by auto
  have e': "e' = e" using requested_env_Inr [OF st(4) [unfolded resolveSignEnv_def]] by (simp add: e_def coreAuthDefaultEnv_def)
  have draws: "tx_draws s \<le> tx_draws s4"
    using forwardD [OF forward_guardSignIn st(1)] forwardD [OF forward_env(4) st(3)] forwardD [OF forward_env(3) st(4)]
      forwardD [OF forward_env(6) st(2)] by simp
  let ?p = "\<lambda>d. (db_denied d, db_deletions d)"
  have pre: "?p (tx_db s4) = ?p (tx_db s)"
    using keepsD [where p = ?p, OF keeps_guardSignIn st(1)] keepsD [where p = ?p, OF keeps_newUUID st(2)]
      keepsD [where p = ?p, OF keeps_SessionPolicy st(3)] keepsD [where p = ?p, OF keeps_resolveSignEnv st(4)] by simp
  have mid: "?p (tx_db s5) = ?p (tx_db s4)" using keepsD [where p = ?p, OF keeps_coreAuthSignAccessToken st(5)] by simp
  let ?q = "\<lambda>d. (db_denied d, db_deletions d, db_keys d)"
  have s8: "tx_db s8 = db_sessions_update (\<lambda>rs. rs @ [session_row_of sess e' aal cl now sp]) (tx_db s6)"
    using ins(2) by (auto simp: newUUID_def)
  let ?ids = "\<lambda>d. map unlink (db_sessions d)"
  have free: "side_free ?q" "side_free ?ids" by (simp_all add: side_free_def)
  have upd: "?ids (db_sessions_update (update_where f (\<lambda>r. r\<lparr>s_device_id := g\<rparr>)) d) = ?ids d" for f g d
    by (simp add: update_where_def unlink_def o_def if_distrib cong: if_cong)
  have post: "?q (tx_db s') = ?q (tx_db s5)"
    using keepsD [where p = ?q, OF keeps_Emit_created em] keepsD [where p = ?q, OF keeps_coreAuthRandomToken st(6)] free(1)
    by (simp add: s8)
  have "?ids (tx_db s') = ?ids (tx_db s8)"
    using keepsD [where p = ?ids, OF keeps_Emit_created [OF free(2) _ upd] em] by simp
  then have ids: "?ids (tx_db s') = map unlink (db_sessions (tx_db s6) @ [session_row_of sess e' aal cl now sp])"
    by (simp add: s8)
  have at: "se_access_token sess = at" "se_id sess = sid" by (simp_all add: sess newCoreAuthSession_def Let_def)
  have "find (\<lambda>r. s_id r = sid) (db_sessions (tx_db s6)) = None" using ins(1) by (auto simp: find_None_iff)
  then have "find (\<lambda>r. s_id r = sid) (db_sessions (tx_db s6) @ [session_row_of sess e' aal cl now sp])
      = Some (session_row_of sess e' aal cl now sp)"
    by (simp add: find_append session_row_of_def at)
  from unlink_find [OF ids this] obtain dev where
    "find (\<lambda>r. s_id r = sid) (db_sessions (tx_db s')) = Some ((session_row_of sess e' aal cl now sp)\<lparr>s_device_id := dev\<rparr>)" by blast
  moreover have "accountDeletionAccess c (acc_project_id acc) e (acc_id acc) s' = (Inr (), s')"
    using guardSignIn_not_deleted [OF st(1) assms(2), of s'] pre mid post by (simp add: e_def)
  ultimately show thesis
    using that [of sid raw s4 s5 plain dev] st(5) sess draws pre post at by (simp add: e' raw)
qed


lemma seconds_of_lifetime: "0 < whole_seconds d \<Longrightarrow> Second \<le> d"
proof -
  assume "0 < whole_seconds d"
  then have "0 \<le> d" "0 < d div Second" by (auto simp: whole_seconds_def Second_def split: if_splits)
  then show "Second \<le> d" by (simp add: Second_def pos_imp_zdiv_pos_iff)
qed



text \<open>A library that signs one set of claims, and verifies it under the key it was signed with.\<close>

definition minted_claims :: claims where
  "minted_claims =
     [(''iss'', CStr ''https://iam/p/p/e/live''), (''sub'', CStr ''alice''), (''sid'', CStr ''u''), (''jti'', CStr ''u1''),
      (''pid'', CStr ''p''), (''aud'', CStr ''web''), (''aal'', CInt 1), (''amr'', CStrs [''pwd'']), (''typ'', CStr ''access''),
      (''env'', CStr ''live''), (''client_id'', CStr ''web''), (''iat'', CTime 5), (''exp'', CTime (5 + 600 * Second)), (''nbf'', CTime 5)]"

definition mint_sys :: sys where
  "mint_sys = sample_sys
     \<lparr>sy_jwt_sign := (\<lambda>kid key cl. if kid = ''kid'' \<and> key = ''pem'' \<and> cl = minted_claims then Inr ''tok'' else Inl ErrInternal),
      sy_jwt_peek := (\<lambda>t. if t = ''tok'' then Some minted_claims else None),
      sy_jwt_verify := (\<lambda>ks now t. if t = ''tok'' \<and> (''kid'', ''pem'') \<in> set ks \<and> valid_at now minted_claims
                                   then Some minted_claims else None)\<rparr>"

lemma mint_sys_roundtrip: "jwt_roundtrip mint_sys"
  by (auto simp: jwt_roundtrip_def mint_sys_def sample_sys_def split: if_splits)


text \<open>A bearer token is accepted only while the session it names exists.\<close>

lemma checkSessionLive_found:
  "checkSessionLive c sid s = (Inr u, s') \<Longrightarrow> sid \<in> s_id ` set (db_sessions (tx_db s))"
  unfolding checkSessionLive_def tx_bind_eq_Inr FindIamSession_def
  by (auto split: option.splits dest!: find_set)

lemma User_session:
  assumes "User sy c t s = (Inr p, s')" and "pr_session_id p \<noteq> []"
  shows "pr_session_id p \<in> s_id ` set (db_sessions (tx_db s))"
proof -
  obtain cl s1 where v: "verifyJWT sy c t s = (Inr cl, s1)" using assms(1) unfolding User_def tx_bind_eq_Inr by blast
  then have s1: "s1 = s" by (simp add: verifyJWT_run)
  have "pr_session_id p = claimStr cl ''sid'' \<and> (claimStr cl ''sid'' \<noteq> [] \<longrightarrow> (\<exists>s2. checkSessionLive c (claimStr cl ''sid'') s = (Inr (), s2)))"
    using assms(1) v s1 by (auto simp: User_def res_simps blank_principal_def Let_def split: if_splits)
  then show ?thesis using assms(2) checkSessionLive_found by metis
qed

text \<open>C2: signing out takes effect on access tokens at once. After a sign-out (of one session or
  everywhere) no bearer token is accepted for an ended session, although its signature stays valid
  until it expires, and no refresh token of it is live.\<close>

theorem signed_out_tokens_rejected:
  assumes "sessions_wf (tx_db s)" and "tx_pool s = []" and "row \<in> set (db_sessions (tx_db s))"
    and "[] \<notin> s_id ` set (db_sessions (tx_db s))"
    and "ended = (if everywhere then user_sessions (s_project_id row) (s_user_id row) (tx_db s) else {s_id row})"
  shows "\<exists>s'. SignOut sy c (s_id row) everywhere s = (Inr (), s')
     \<and> (\<forall>sy' c' t p s1 s2. tx_db s1 = tx_db s' \<longrightarrow> User sy' c' t s1 = (Inr p, s2) \<longrightarrow> pr_session_id p \<notin> ended)
     \<and> (\<forall>r \<in> set (db_refresh (tx_db s')). rt_session_id r \<in> ended \<longrightarrow> rt_revoked r)"
proof -
  have id: "s_id row \<noteq> []" using assms(3,4) by force
  have ne: "[] \<notin> ended" using assms(4) id by (auto simp: assms(5) user_sessions_def)
  obtain s' where s': "SignOut sy c (s_id row) everywhere s = (Inr (), s')" "revokes (ended - {[]}) (tx_db s) (tx_db s')"
    using SignOut_everywhere_run [OF assms(1-3) id, of sy c] SignOut_one_run [OF assms(1-3) id, of sy c] id
    by (cases everywhere) (auto simp: assms(5))
  have "pr_session_id p \<notin> ended" if "tx_db s1 = tx_db s'" "User sy' c' t s1 = (Inr p, s2)" for sy' c' t p s1 s2
    using User_session [OF that(2)] ne s'(2) that(1) by (cases "pr_session_id p = []") (auto simp: revokes_def)
  moreover have "\<forall>r \<in> set (db_refresh (tx_db s')). rt_session_id r \<in> ended \<longrightarrow> rt_revoked r"
    using s'(2) ne by (auto simp: revokes_def list_all_iff)
  ultimately show ?thesis using s'(1) by blast
qed

theorem signed_out_tokens_rejected_witness:
  "\<exists>s'. SignOut sample_sys (sample_ctx 5) ''s'' True (sample_state sample_db) = (Inr (), s')
     \<and> (\<forall>sy' c' t p s2. User sy' c' t s' = (Inr p, s2) \<longrightarrow> pr_session_id p \<noteq> ''s'')"
proof -
  let ?row = "sample_session_row"
  have "?row \<in> set (db_sessions (tx_db (sample_state sample_db)))"
    by (simp add: sample_db_def sample_session_row_def)
  moreover have "[] \<notin> s_id ` set (db_sessions (tx_db (sample_state sample_db)))" "s_id ?row = ''s''"
    "{''s''} = (if True then user_sessions (s_project_id ?row) (s_user_id ?row) (tx_db (sample_state sample_db)) else {s_id ?row})"
    by code_simp+
  moreover have "sessions_wf (tx_db (sample_state sample_db))" "tx_pool (sample_state sample_db) = []" using sample_db_wf by simp_all
  ultimately obtain s' where "SignOut sample_sys (sample_ctx 5) (s_id ?row) True (sample_state sample_db) = (Inr (), s')"
    "\<forall>sy' c' t p s1 s2. tx_db s1 = tx_db s' \<longrightarrow> User sy' c' t s1 = (Inr p, s2) \<longrightarrow> pr_session_id p \<notin> {''s''}"
    using signed_out_tokens_rejected [of "sample_state sample_db" ?row "{''s''}" True sample_sys "sample_ctx 5"] by metis
  then show ?thesis using \<open>s_id ?row = ''s''\<close> by (metis singletonI)
qed

section \<open>The life of an API key\<close>

lemma find_key_None: "k \<notin> f ` set xs \<Longrightarrow> find (\<lambda>x. f x = k) xs = None"
  by (auto simp: find_None_iff)

lemma quiet_withTx_Inr:
  "quiet m \<Longrightarrow> tx_pool s = [] \<Longrightarrow> withTx m s = (Inr x, s') \<Longrightarrow> m s = (Inr x, s')"
  by (auto simp: withTx_quiet split: prod.splits sum.splits)

lemma quietD: "quiet m \<Longrightarrow> m s = (r, s') \<Longrightarrow> tx_pool s' = tx_pool s"
  by (metis quiet_def snd_conv)

lemma quiet_api_keys [intro!]:
  "quiet (mintAPIKeySecret sy)" "quiet (loadAPIKey pid i)"
  by (auto simp: mintAPIKeySecret_def loadAPIKey_def machineIDRandomToken_def Let_def split: option.split)

lemma Service_opaque: "sy_jwt_peek sy t = None \<Longrightarrow> Service sy c t s = api_key_principal sy c t s"
  by (simp add: Service_def verifyJWT_def UnverifiedClaims_def)

definition api_key_principal_of :: "api_key_row \<Rightarrow> principal" where
  "api_key_principal_of row = (blank_principal PrincipalService)
     \<lparr>pr_project_id := ak_project_id row, pr_environment := authDefaultEnv,
      pr_scopes := (case ak_data row of Some key \<Rightarrow> ky_scopes key | None \<Rightarrow> [])\<rparr>"

lemma api_key_principal_run:
  "api_key_principal sy c t s =
     (case find (\<lambda>r. ak_hash r = sy_sha256 sy t) (db_api_keys (tx_db s)) of
        Some row \<Rightarrow> if \<not> ak_disabled row \<and> (\<forall>v. ak_expires_at row = Some v \<longrightarrow> nowIn c \<le> v)
                    then (Inr (api_key_principal_of row), s) else (Inl ErrUnauthorized, s)
      | None \<Rightarrow> (Inl ErrUnauthorized, s))"
  by (auto simp: api_key_principal_def tx_bind_def machineIDHash_def api_key_principal_of_def split: option.splits)

lemma Emit_api_keys:
  assumes "t \<notin> set observed_types"
  shows "\<exists>s'. Emit sy c t pid e a pl s = (Inr (), s') \<and> db_api_keys (tx_db s') = db_api_keys (tx_db s)"
  using Emit_run [OF assms, of db_api_keys] by (simp add: side_free_def)

lemma unobserved_api_keys: "''api_key.created'' \<notin> set observed_types" "''api_key.revoked'' \<notin> set observed_types"
  by (simp_all add: observed_types_def session_events_def)

lemma CreateAPIKey_Inr:
  assumes "CreateAPIKey sy c pid name scopes s = (Inr (key, secret), s')" and "tx_pool s = []"
  obtains row where "db_api_keys (tx_db s') = db_api_keys (tx_db s) @ [row]" and "ak_id row = ky_id key"
    and "ak_id row \<notin> ak_id ` set (db_api_keys (tx_db s))"
    and "ak_project_id row = pid" "ak_hash row = sy_sha256 sy secret" "\<not> ak_disabled row" "ak_expires_at row = None"
    and "ak_data row = Some key" "ky_scopes key = scopes" "tx_pool s' = []"
proof -
  let ?body = "tx_bind (mintAPIKeySecret sy) (\<lambda>(plaintext, prefix, hash).
     tx_bind (newUUID sy) (\<lambda>i.
     let key = \<lparr>ky_id = i, ky_project_id = pid, ky_name = name, ky_scopes = scopes, ky_prefix = prefix, ky_disabled = False\<rparr> in
     tx_bind (insert_unique db_api_keys db_api_keys_update (\<lambda>a b. ak_id a = ak_id b \<or> ak_prefix a = ak_prefix b)
                \<lparr>ak_id = i, ak_project_id = pid, ak_prefix = prefix, ak_hash = hash, ak_disabled = False,
                 ak_expires_at = None, ak_created_at = cx_now c, ak_data = Some key\<rparr> ErrConflict) (\<lambda>_.
     tx_bind (Emit sy c ''api_key.created'' pid [] i (PAPIKey key)) (\<lambda>_. ret (key, plaintext)))))"
  let ?i = "sy_uuid sy (Suc (Suc (tx_draws s)))" and ?pre = "''iak_'' @ sy_url_token sy apiKeyPrefixRandomBytes (tx_draws s)"
  let ?key = "\<lparr>ky_id = ?i, ky_project_id = pid, ky_name = name, ky_scopes = scopes, ky_prefix = ?pre, ky_disabled = False\<rparr>"
  let ?plain = "?pre @ ''.'' @ sy_url_token sy randomTokenBytes (Suc (tx_draws s))"
  let ?s1 = "s\<lparr>tx_draws := Suc (Suc (Suc (tx_draws s))), tx_db := db_api_keys_update (\<lambda>rs. rs @
     [\<lparr>ak_id = ?i, ak_project_id = pid, ak_prefix = ?pre, ak_hash = sy_sha256 sy ?plain, ak_disabled = False,
       ak_expires_at = None, ak_created_at = cx_now c, ak_data = Some ?key\<rparr>]) (tx_db s)\<rparr>"
  have q: "quiet ?body" by (auto simp: Let_def case_prod_beta)
  from quiet_withTx_Inr [OF q assms(2)] assms(1) have run: "?body s = (Inr (key, secret), s')" by (simp add: CreateAPIKey_def)
  then have "tx_pool s' = []" using quietD [OF q] assms(2) by simp
  moreover have "key = \<lparr>ky_id = ?i, ky_project_id = pid, ky_name = name, ky_scopes = scopes, ky_prefix = ?pre, ky_disabled = False\<rparr>"
      "db_api_keys (tx_db s') = db_api_keys (tx_db s) @
         [\<lparr>ak_id = ?i, ak_project_id = pid, ak_prefix = ?pre, ak_hash = sy_sha256 sy secret, ak_disabled = False,
           ak_expires_at = None, ak_created_at = cx_now c, ak_data = Some key\<rparr>]"
      "\<forall>r \<in> set (db_api_keys (tx_db s)). ak_id r \<noteq> ?i"
    using run Emit_api_keys [OF unobserved_api_keys(1), of sy c pid "[]" ?i "PAPIKey ?key" ?s1]
    by (auto simp: tx_bind_def mintAPIKeySecret_def machineIDRandomToken_def newUUID_def insert_unique_def Let_def
        machineIDHash_def list_ex_iff split: if_splits)
  ultimately show thesis by (intro that) auto
qed

lemma loadAPIKey_run:
  "loadAPIKey pid i s =
     (case find (\<lambda>r. ak_id r = i) (db_api_keys (tx_db s)) of
        None \<Rightarrow> (Inl ErrNotFound, s)
      | Some row \<Rightarrow> if ak_project_id row \<noteq> pid then (Inl ErrNotFound, s)
                    else (case ak_data row of Some key \<Rightarrow> (Inr (row, key), s) | None \<Rightarrow> (Inl (WithMessage ''unmarshal'' ErrInternal), s)))"
  by (simp add: loadAPIKey_def tx_bind_def unmarshal_def split: option.split)

lemma RevokeAPIKey_run:
  assumes "tx_pool s = []" and "find (\<lambda>r. ak_id r = i) (db_api_keys (tx_db s)) = Some row" and "ak_data row = Some key"
  shows "if ak_project_id row = pid
         then \<exists>s'. RevokeAPIKey sy c pid i s = (Inr (), s') \<and> db_api_keys (tx_db s') = filter (\<lambda>r. ak_id r \<noteq> i) (db_api_keys (tx_db s))
         else RevokeAPIKey sy c pid i s = (Inl ErrNotFound, s)"
proof -
  let ?body = "tx_bind (loadAPIKey pid i) (\<lambda>(row, _).
     tx_bind (exec (db_api_keys_update (delete_where (\<lambda>r. ak_id r = ak_id row)))) (\<lambda>_.
       Emit sy c ''api_key.revoked'' pid [] i (PFields [(''id'', DStr i), (''project_id'', DStr pid)])))"
  have q: "quiet ?body" by (auto split: prod.split)
  have "ak_id row = i" using find_set [OF assms(2)] by simp
  moreover have "RevokeAPIKey sy c pid i s = (case ?body s of (Inr x, s') \<Rightarrow> (Inr x, s') | (Inl e, s') \<Rightarrow> (Inl e, s'\<lparr>tx_db := tx_db s\<rparr>))"
    unfolding RevokeAPIKey_def by (rule withTx_quiet [OF q assms(1)])
  moreover have "\<exists>s'. Emit sy c ''api_key.revoked'' pid [] i (PFields [(''id'', DStr i), (''project_id'', DStr pid)])
      (s\<lparr>tx_db := db_api_keys_update (delete_where (\<lambda>r. ak_id r = i)) (tx_db s)\<rparr>) = (Inr (), s')
      \<and> db_api_keys (tx_db s') = delete_where (\<lambda>r. ak_id r = i) (db_api_keys (tx_db s))"
    using Emit_api_keys [OF unobserved_api_keys(2), of sy c pid "[]" i _ "s\<lparr>tx_db := db_api_keys_update (delete_where (\<lambda>r. ak_id r = i)) (tx_db s)\<rparr>"]
    by simp
  ultimately show ?thesis
    using assms(2,3) by (auto simp: tx_bind_def loadAPIKey_run delete_where_def)
qed


text \<open>C4: the life of an API key. The secret returned at creation authenticates, at any time and from
  any environment, as a service principal of the key's project with the key's scopes; another project
  cannot revoke it; once its project revokes it, it is rejected at once. The digest of a new secret
  is not that of a stored one, and an API key is no JWT.\<close>

theorem api_key_lifecycle:
  assumes "CreateAPIKey sy c pid name scopes s = (Inr (key, secret), s')" and "tx_pool s = []"
    and "sy_sha256 sy secret \<notin> ak_hash ` set (db_api_keys (tx_db s))" and "sy_jwt_peek sy secret = None"
  shows "(\<exists>p. Service sy c' secret s' = (Inr p, s') \<and> pr_kind p = PrincipalService \<and> pr_project_id p = pid \<and> pr_scopes p = scopes)
     \<and> (pid' \<noteq> pid \<longrightarrow> RevokeAPIKey sy c2 pid' (ky_id key) s' = (Inl ErrNotFound, s'))
     \<and> (\<exists>s2. RevokeAPIKey sy c2 pid (ky_id key) s' = (Inr (), s2) \<and> Service sy c' secret s2 = (Inl ErrUnauthorized, s2))"
proof (rule CreateAPIKey_Inr [OF assms(1,2)], intro conjI impI)
  fix row
  assume row: "db_api_keys (tx_db s') = db_api_keys (tx_db s) @ [row]" "ak_id row = ky_id key" "ak_id row \<notin> ak_id ` set (db_api_keys (tx_db s))"
    "ak_project_id row = pid" "ak_hash row = sy_sha256 sy secret" "\<not> ak_disabled row" "ak_expires_at row = None"
    "ak_data row = Some key" "ky_scopes key = scopes" "tx_pool s' = []"
  have old: "find (\<lambda>r. ak_hash r = sy_sha256 sy secret) (db_api_keys (tx_db s)) = None" "find (\<lambda>r. ak_id r = ky_id key) (db_api_keys (tx_db s)) = None"
    using find_key_None [OF assms(3)] find_key_None [OF row(3)] row(2) by simp_all
  then have find: "find (\<lambda>r. ak_hash r = sy_sha256 sy secret) (db_api_keys (tx_db s')) = Some row"
      "find (\<lambda>r. ak_id r = ky_id key) (db_api_keys (tx_db s')) = Some row"
    using row by (simp_all add: find_append)
  show "\<exists>p. Service sy c' secret s' = (Inr p, s') \<and> pr_kind p = PrincipalService \<and> pr_project_id p = pid \<and> pr_scopes p = scopes"
    using row find by (simp add: Service_opaque [OF assms(4)] api_key_principal_run api_key_principal_of_def blank_principal_def)
  show "RevokeAPIKey sy c2 pid' (ky_id key) s' = (Inl ErrNotFound, s')" if "pid' \<noteq> pid"
    using RevokeAPIKey_run [OF row(10) find(2) row(8), of pid' sy c2] that row(4) by simp
  obtain s2 where s2: "RevokeAPIKey sy c2 pid (ky_id key) s' = (Inr (), s2)"
      "db_api_keys (tx_db s2) = filter (\<lambda>r. ak_id r \<noteq> ky_id key) (db_api_keys (tx_db s'))"
    using RevokeAPIKey_run [OF row(10) find(2) row(8), of pid sy c2] row(4) by auto
  then have "sy_sha256 sy secret \<notin> ak_hash ` set (db_api_keys (tx_db s2))" using row assms(3) by force
  from find_key_None [OF this]
  show "\<exists>s2. RevokeAPIKey sy c2 pid (ky_id key) s' = (Inr (), s2) \<and> Service sy c' secret s2 = (Inl ErrUnauthorized, s2)"
    using s2(1) by (auto simp: Service_opaque [OF assms(4)] api_key_principal_run)
qed

theorem api_key_lifecycle_witness:
  "\<exists>key secret s' p. CreateAPIKey sample_sys (sample_ctx 5) ''p'' ''ci'' [''read''] (sample_state sample_db) = (Inr (key, secret), s')
     \<and> Service sample_sys (sample_ctx 9) secret s' = (Inr p, s') \<and> pr_scopes p = [''read'']
     \<and> RevokeAPIKey sample_sys (sample_ctx 9) ''q'' (ky_id key) s' = (Inl ErrNotFound, s')"
proof -
  have "case CreateAPIKey sample_sys (sample_ctx 5) ''p'' ''ci'' [''read''] (sample_state sample_db) of
          (Inr (key, secret), _) \<Rightarrow> True | _ \<Rightarrow> False"
    by code_simp
  then obtain key secret s' where
    run: "CreateAPIKey sample_sys (sample_ctx 5) ''p'' ''ci'' [''read''] (sample_state sample_db) = (Inr (key, secret), s')"
    by (auto split: prod.splits sum.splits)
  have "db_api_keys (tx_db (sample_state sample_db)) = []" "sy_jwt_peek sample_sys secret = None"
    by (simp_all add: sample_db_def empty_db_def sample_sys_def)
  with api_key_lifecycle [OF run, of "sample_ctx 9" "''q''" "sample_ctx 9"] run show ?thesis by auto
qed

end
