(* ===== verification/Devices.thy ===== *)
theory Devices
  imports Refresh
begin

text \<open>
  The devices of an account (\<open>src/internal/infrastructure/postgres/security_pg.go\<close>): registration of
  the device behind a live session, renaming, trusting with a proof, and revocation, which ends the
  sessions linked to the device.
\<close>

section \<open>Operations\<close>

record SecurityDeviceRegistration =
  dreg_device :: SecurityDevice
  dreg_device_token :: string

definition RegisterDevice :: "sys \<Rightarrow> ctx \<Rightarrow> SecurityScope \<Rightarrow> string \<Rightarrow> SecurityDeviceRegistration tx" where
  "RegisterDevice sy c scope name =
     tx_bind (security_scope sy c scope) (\<lambda>scope.
       if scp_account_id scope = [] \<or> scp_session_id scope = [] then throw ErrUnauthorized
       else
         let own = (\<lambda>r. s_id r = scp_session_id scope \<and> s_project_id r = scp_project_id scope
                        \<and> s_environment r = scp_environment scope \<and> s_user_id r = scp_account_id scope) in
         withTx (
           tx_bind (query (\<lambda>d. list_ex own (db_sessions d))) (\<lambda>live.
             if \<not> live then throw ErrSessionExpired
             else
               tx_bind (throttle sy c scope (scp_account_id scope) ''device'' 20 Hour) (\<lambda>ok.
                 if \<not> ok then throw ErrRateLimited
                 else
                   tx_bind (accountRandomToken sy) (\<lambda>token.
                   tx_bind (newUUID sy) (\<lambda>i.
                   let v = \<lparr>sd_id = i, sd_name = trim_space name, sd_first_seen_at = nowIn c, sd_last_seen_at = nowIn c,
                            sd_trusted_until = None, sd_revoked = False, sd_current = False,
                            sd_session_ids = [scp_session_id scope]\<rparr> in
                   tx_bind (insert_unique db_devices db_devices_update
                     (\<lambda>a b. dv_id a = dv_id b \<or> dv_token_hash a = dv_token_hash b)
                     \<lparr>dv_id = i, dv_project_id = scp_project_id scope, dv_environment = scp_environment scope,
                      dv_user_id = scp_account_id scope, dv_token_hash = accountHashToken sy token, dv_data = Some v\<rparr>
                     (WithMessage ''duplicate key'' ErrInternal)) (\<lambda>_.
                   tx_bind (exec (db_sessions_update (update_where own (\<lambda>r. r\<lparr>s_device_id := Some i\<rparr>)))) (\<lambda>_.
                     ret \<lparr>dreg_device = v\<lparr>sd_current := True\<rparr>, dreg_device_token = token\<rparr>))))))))"

definition deviceSessionIDs :: "SecurityScope \<Rightarrow> string \<Rightarrow> string list tx" where
  "deviceSessionIDs scope i =
     query (\<lambda>d. map s_id (filter (\<lambda>r. s_project_id r = scp_project_id scope \<and> s_environment r = scp_environment scope
       \<and> s_user_id r = scp_account_id scope \<and> s_device_id r = Some i) (db_sessions d)))"

definition revokeSession :: "sys \<Rightarrow> ctx \<Rightarrow> SecurityScope \<Rightarrow> string \<Rightarrow> unit tx" where
  "revokeSession sy c scope i =
     tx_bind (query (\<lambda>d. list_ex (\<lambda>r. s_id r = i \<and> s_project_id r = scp_project_id scope
                \<and> s_environment r = scp_environment scope \<and> s_user_id r = scp_account_id scope) (db_sessions d))) (\<lambda>present.
       if \<not> present then ret () else coreAuthRevokeSession sy c (scp_project_id scope) i)"

fun revoke_sessions :: "sys \<Rightarrow> ctx \<Rightarrow> SecurityScope \<Rightarrow> string list \<Rightarrow> unit tx" where
  "revoke_sessions sy c scope [] = ret ()"
| "revoke_sessions sy c scope (i # is) = tx_bind (revokeSession sy c scope i) (\<lambda>_. revoke_sessions sy c scope is)"

definition trustDevice :: "sys \<Rightarrow> ctx \<Rightarrow> SecurityScope \<Rightarrow> SecurityDevice \<Rightarrow> string \<Rightarrow> SecurityDevice tx" where
  "trustDevice sy c scope device proof_token =
     tx_bind (loadFlow sy c scope proof_token) (\<lambda>f.
       if fw_current_token f \<noteq> proof_token \<or> fw_support_grant f \<or> fw_purpose f \<noteq> ''trust''
          \<or> fw_target_device_id f \<noteq> sd_id device \<or> fs_status (fw_state f) \<noteq> ''pending''
          \<or> fw_account_id f \<noteq> scp_account_id scope \<or> \<not> fw_proved f \<or> fs_step (fw_state f) \<noteq> ''review''
          \<or> sd_revoked device \<or> fw_target_session f \<notin> set (sd_session_ids device)
       then throw ErrStepUpRequired
       else
         tx_bind (security_Policy sy c scope) (\<lambda>policy.
         tx_bind (saveFlow sy (f\<lparr>fw_state := (fw_state f)\<lparr>fs_status := ''completed'', fs_step := ''completed'',
                                                       fs_outcome := ''device_trusted''\<rparr>\<rparr>) proof_token) (\<lambda>_.
           ret (device\<lparr>sd_trusted_until := Some (nowIn c + seconds (sec_trust_ttl_seconds policy))\<rparr>))))"

text \<open>One update of a device: the new device, and whether it is the caller's own.\<close>

definition device_action ::
  "sys \<Rightarrow> ctx \<Rightarrow> SecurityScope \<Rightarrow> string \<Rightarrow> string \<Rightarrow> string \<Rightarrow> string \<Rightarrow> SecurityDevice \<Rightarrow> (SecurityDevice \<times> bool) tx" where
  "device_action sy c scope i action name proof_token device =
     (let current = scp_session_id scope \<in> set (sd_session_ids device) in
      if action = ''rename'' then ret (device\<lparr>sd_name := trim_space name\<rparr>, current)
      else if action = ''untrust'' then ret (device\<lparr>sd_trusted_until := None\<rparr>, current)
      else if action = ''trust''
      then tx_bind (trustDevice sy c scope device proof_token) (\<lambda>device. ret (device, current))
      else if action = ''revoke''
      then tx_bind (deviceSessionIDs scope i) (\<lambda>ids.
           tx_bind (revoke_sessions sy c scope ids) (\<lambda>_.
             ret (device\<lparr>sd_revoked := True, sd_trusted_until := None\<rparr>, scp_session_id scope \<in> set ids)))
      else throw ErrBadRequest)"

definition UpdateDevice ::
  "sys \<Rightarrow> ctx \<Rightarrow> SecurityScope \<Rightarrow> string \<Rightarrow> string \<Rightarrow> string \<Rightarrow> string \<Rightarrow> SecurityDevice tx" where
  "UpdateDevice sy c scope i action name proof_token =
     tx_bind (security_scope sy c scope) (\<lambda>scope.
     withTx (
       tx_bind (load_device scope i) (\<lambda>device.
       tx_bind (device_action sy c scope i action name proof_token device) (\<lambda>(device, current).
       tx_bind (save_device scope i device) (\<lambda>_.
       tx_bind (security_emit sy c scope (''security.device.'' @ action) i
                  (PFields [(''account_id'', DStr (scp_account_id scope)), (''device_id'', DStr i)])) (\<lambda>_.
         ret (device\<lparr>sd_current := current\<rparr>)))))))"

section \<open>Revoking a device\<close>

definition scope_owns :: "SecurityScope \<Rightarrow> session_row \<Rightarrow> bool" where
  "scope_owns w r \<longleftrightarrow> s_project_id r = scp_project_id w \<and> s_environment r = scp_environment w \<and> s_user_id r = scp_account_id w"

definition device_sessions :: "SecurityScope \<Rightarrow> string \<Rightarrow> db \<Rightarrow> string set" where
  "device_sessions w i d = s_id ` {r \<in> set (db_sessions d). scope_owns w r \<and> s_device_id r = Some i}"

lemma revokeSession_revokes:
  assumes "sessions_wf (tx_db s)" and "row \<in> set (db_sessions (tx_db s))" and "scope_owns w row"
  shows "\<exists>s'. revokeSession sy c w (s_id row) s = (Inr (), s') \<and> sessions_wf (tx_db s')
           \<and> revokes {s_id row} (tx_db s) (tx_db s')"
proof -
  have "list_ex (\<lambda>r. s_id r = s_id row \<and> s_project_id r = scp_project_id w \<and> s_environment r = scp_environment w
          \<and> s_user_id r = scp_account_id w) (db_sessions (tx_db s))"
    using assms(2,3) by (auto simp: list_ex_iff scope_owns_def)
  moreover have "s_project_id row = scp_project_id w" using assms(3) by (simp add: scope_owns_def)
  ultimately show ?thesis
    using coreAuthRevokeSession_revokes [OF assms(1,2), where pid = "scp_project_id w"]
    by (simp add: revokeSession_def tx_bind_def)
qed

interpretation device_loop: revocation_loop "\<lambda>_ rs. revoke_sessions sy c w (map s_id rs)" "\<lambda>_. False"
  "scope_owns w" "\<lambda>r. revokeSession sy c w (s_id r)" "\<lambda>_. ()"
  by unfold_locales (simp_all add: revokeSession_revokes)

lemma deviceSessionIDs_run:
  "deviceSessionIDs w i s =
     (Inr (map s_id (filter (\<lambda>r. scope_owns w r \<and> s_device_id r = Some i) (db_sessions (tx_db s)))), s)"
  by (simp add: deviceSessionIDs_def scope_owns_def)

lemma keeps_devices_revoke:
  "keeps db_devices (revoke_refresh_rows rs)" "keeps db_devices (revokeSessionRecord sy c row)"
  "keeps db_devices (coreAuthRevokeSession sy c pid sid)" "keeps db_devices (revokeSession sy c w sid)"
  "keeps db_devices (revoke_sessions sy c w sids)"
proof -
  have rows: "keeps db_devices (revoke_refresh_rows rs)" for rs
    by (induction rs) (auto simp: coreAuthMarkRefreshRevoked_def Let_def)
  then show "keeps db_devices (revoke_refresh_rows rs)" .
  have record_: "keeps db_devices (revokeSessionRecord sy c row)" for row
    using rows by (auto simp: revokeSessionRecord_def Emit_unobserved observed_types_def session_events_def)
  then show "keeps db_devices (revokeSessionRecord sy c row)" .
  have one: "keeps db_devices (coreAuthRevokeSession sy c pid sid)" for pid sid
    using record_ by (auto simp: coreAuthRevokeSession_def)
  then show "keeps db_devices (coreAuthRevokeSession sy c pid sid)" .
  have scoped: "keeps db_devices (revokeSession sy c w sid)" for w sid
    using one by (auto simp: revokeSession_def)
  then show "keeps db_devices (revokeSession sy c w sid)" .
  show "keeps db_devices (revoke_sessions sy c w sids)" using scoped by (induction sids) auto
qed

lemma keeps_devices_emit: "keeps db_devices (security_emit sy c w t i pl)"
  by (auto simp: security_emit_def)

lemma quiet_device [intro!]:
  "quiet (load_device w i)" "quiet (save_device w i v)" "quiet (deviceSessionIDs w i)" "quiet (security_emit sy c w t a pl)"
  by (auto simp: load_device_def save_device_def deviceSessionIDs_def security_emit_def split: option.split)

lemma quiet_revoke_sessions [intro!]: "quiet (revoke_sessions sy c w sids)"
  by (induction sids) (auto simp: revokeSession_def)

lemma revoke_sessions_run:
  assumes "sessions_wf (tx_db s)"
  obtains s' where "revoke_sessions sy c w (map s_id (filter (\<lambda>r. scope_owns w r \<and> s_device_id r = Some i) (db_sessions (tx_db s)))) s
       = (Inr (), s')" and "sessions_wf (tx_db s')" and "revokes (device_sessions w i (tx_db s)) (tx_db s) (tx_db s')"
proof -
  let ?rs = "filter (\<lambda>r. scope_owns w r \<and> s_device_id r = Some i) (db_sessions (tx_db s))"
  have dist: "distinct (map s_id ?rs)" using assms by (simp add: sessions_wf_def distinct_map_filter_key)
  have eq: "s_id ` {r \<in> set ?rs. \<not> False} = device_sessions w i (tx_db s)" by (simp add: device_sessions_def)
  have sub: "set ?rs \<subseteq> set (db_sessions (tx_db s))" and own: "\<forall>r \<in> set ?rs. scope_owns w r" by auto
  note device_loop.loop_revokes [where sy = sy and c = c, OF assms sub dist own, unfolded eq]
  then show thesis using that by blast
qed

text \<open>The stored device after a revocation.\<close>

definition revoked_device :: "SecurityDevice \<Rightarrow> SecurityDevice" where
  "revoked_device v = v\<lparr>sd_revoked := True, sd_trusted_until := None\<rparr>"

lemma device_revoke_body:
  assumes "sessions_wf (tx_db s)" and "load_device w i s = (Inr v, s)"
  obtains s' cur where "tx_bind (load_device w i) (\<lambda>device.
       tx_bind (device_action sy c w i ''revoke'' name tok device) (\<lambda>(device, current).
       tx_bind (save_device w i device) (\<lambda>_.
       tx_bind (security_emit sy c w (''security.device.'' @ ''revoke'') i
                  (PFields [(''account_id'', DStr (scp_account_id w)), (''device_id'', DStr i)])) (\<lambda>_.
         ret (device\<lparr>sd_current := current\<rparr>))))) s = (Inr ((revoked_device v)\<lparr>sd_current := cur\<rparr>), s')"
    and "sessions_wf (tx_db s')" and "revokes (device_sessions w i (tx_db s)) (tx_db s) (tx_db s')"
    and "db_devices (tx_db s') = update_where (\<lambda>r. dv_id r = i \<and> dv_project_id r = scp_project_id w
          \<and> dv_environment r = scp_environment w \<and> dv_user_id r = scp_account_id w)
          (\<lambda>r. r\<lparr>dv_data := Some (revoked_device v)\<rparr>) (db_devices (tx_db s))"
proof -
  obtain s1 where run: "revoke_sessions sy c w (map s_id (filter (\<lambda>r. scope_owns w r \<and> s_device_id r = Some i) (db_sessions (tx_db s)))) s
       = (Inr (), s1)" and wf: "sessions_wf (tx_db s1)" and rev: "revokes (device_sessions w i (tx_db s)) (tx_db s) (tx_db s1)"
    by (rule revoke_sessions_run [OF assms(1)])
  have dev: "db_devices (tx_db s1) = db_devices (tx_db s)" by (rule keepsD [OF keeps_devices_revoke(5) run])
  let ?cur = "scp_session_id w \<in> set (map s_id (filter (\<lambda>r. scope_owns w r \<and> s_device_id r = Some i) (db_sessions (tx_db s))))"
  let ?m = "security_emit sy c w (''security.device.'' @ ''revoke'') i
        (PFields [(''account_id'', DStr (scp_account_id w)), (''device_id'', DStr i)])"
  obtain s2 where sav: "save_device w i (revoked_device v) s1 = (Inr (), s2)"
    and s2: "auth_tables (tx_db s2) = auth_tables (tx_db s1)" "db_devices (tx_db s2) = update_where (\<lambda>r. dv_id r = i
          \<and> dv_project_id r = scp_project_id w \<and> dv_environment r = scp_environment w \<and> dv_user_id r = scp_account_id w)
          (\<lambda>r. r\<lparr>dv_data := Some (revoked_device v)\<rparr>) (db_devices (tx_db s))"
    by (simp add: save_device_def dev auth_tables_def)
  obtain s' where s': "?m s2 = (Inr (), s')" using security_emit_run by blast
  have act: "device_action sy c w i ''revoke'' name tok v s = (Inr (revoked_device v, ?cur), s1)"
    using run by (simp add: device_action_def deviceSessionIDs_run tx_bind_def revoked_device_def)
  have t: "auth_tables (tx_db s') = auth_tables (tx_db s1)" "db_devices (tx_db s') = db_devices (tx_db s2)"
    using s2(1) keepsD [of auth_tables ?m s2, OF keeps_security_emit [OF auth_tables_side_free] s']
      keepsD [of db_devices ?m s2, OF keeps_devices_emit s'] by simp_all
  show thesis
  proof (rule that)
    show "sessions_wf (tx_db s')" using wf sessions_wf_cong [OF t(1)] by simp
    show "revokes (device_sessions w i (tx_db s)) (tx_db s) (tx_db s')" using rev revokes_cong [OF t(1)] by simp
  qed (use assms(2) act sav s' t(2) s2(2) in \<open>simp_all add: tx_bind_def\<close>)
qed


lemma UpdateDevice_quiet: "quiet (device_action sy c w i ''revoke'' name tok v)"
  by (auto simp: device_action_def Let_def)

lemma UpdateDevice_revoke:
  assumes "sessions_wf (tx_db s)" and "tx_pool s = []" and "security_scope sy c v s = (Inr w, s)"
    and "load_device w i s = (Inr dev, s)"
  obtains s' cur where "UpdateDevice sy c v i ''revoke'' name tok s = (Inr ((revoked_device dev)\<lparr>sd_current := cur\<rparr>), s')"
    and "sessions_wf (tx_db s')" and "revokes (device_sessions w i (tx_db s)) (tx_db s) (tx_db s')"
    and "db_devices (tx_db s') = update_where (\<lambda>r. dv_id r = i \<and> dv_project_id r = scp_project_id w
          \<and> dv_environment r = scp_environment w \<and> dv_user_id r = scp_account_id w)
          (\<lambda>r. r\<lparr>dv_data := Some (revoked_device dev)\<rparr>) (db_devices (tx_db s))"
proof -
  let ?m = "tx_bind (load_device w i) (\<lambda>device.
       tx_bind (device_action sy c w i ''revoke'' name tok device) (\<lambda>(device, current).
       tx_bind (save_device w i device) (\<lambda>_.
       tx_bind (security_emit sy c w (''security.device.'' @ ''revoke'') i
                  (PFields [(''account_id'', DStr (scp_account_id w)), (''device_id'', DStr i)])) (\<lambda>_.
         ret (device\<lparr>sd_current := current\<rparr>)))))"
  have q: "quiet ?m" using UpdateDevice_quiet by (auto simp: case_prod_beta)
  obtain s' cur where r: "?m s = (Inr ((revoked_device dev)\<lparr>sd_current := cur\<rparr>), s')" "sessions_wf (tx_db s')"
      "revokes (device_sessions w i (tx_db s)) (tx_db s) (tx_db s')"
      "db_devices (tx_db s') = update_where (\<lambda>r. dv_id r = i \<and> dv_project_id r = scp_project_id w
          \<and> dv_environment r = scp_environment w \<and> dv_user_id r = scp_account_id w)
          (\<lambda>r. r\<lparr>dv_data := Some (revoked_device dev)\<rparr>) (db_devices (tx_db s))"
    by (rule device_revoke_body [OF assms(1,4)])
  have "UpdateDevice sy c v i ''revoke'' name tok s = withTx ?m s"
    unfolding UpdateDevice_def by (rule tx_bind_Inr [of "security_scope sy c v" s w s, OF assms(3)])
  then have "UpdateDevice sy c v i ''revoke'' name tok s = (Inr ((revoked_device dev)\<lparr>sd_current := cur\<rparr>), s')"
    using withTx_commit [OF q assms(2) r(1)] by (rule trans)
  from that [OF this r(2-4)] show thesis .
qed

text \<open>What the sign-in guard and the event observer ask of a device token.\<close>

definition token_recognised :: "sys \<Rightarrow> SecurityScope \<Rightarrow> string \<Rightarrow> db \<Rightarrow> bool" where
  "token_recognised sy w tok d \<longleftrightarrow>
     list_ex (\<lambda>v. dv_project_id v = scp_project_id w \<and> dv_environment v = scp_environment w
        \<and> dv_user_id v = scp_account_id w \<and> dv_token_hash v = accountHashToken sy tok
        \<and> (case dv_data v of Some dev \<Rightarrow> \<not> sd_revoked dev | None \<Rightarrow> False)) (db_devices d)"

lemma revoked_not_recognised:
  assumes "\<forall>v \<in> set (db_devices d). dv_token_hash v = accountHashToken sy tok \<longrightarrow> dv_id v = i"
  shows "\<not> token_recognised sy w tok (d\<lparr>db_devices := update_where (\<lambda>r. dv_id r = i \<and> dv_project_id r = scp_project_id w
          \<and> dv_environment r = scp_environment w \<and> dv_user_id r = scp_account_id w)
          (\<lambda>r. r\<lparr>dv_data := Some (revoked_device dev)\<rparr>) (db_devices d)\<rparr>)"
  using assms by (auto simp: token_recognised_def list_ex_iff update_where_def revoked_device_def)

text \<open>C29: revoking a device ends it at once. The request succeeds for every device of the account, every session
  linked to the device is gone with all its refresh tokens revoked and no other session is touched,
  and the device's token no longer passes the recognition test of the sign-in guard.\<close>

theorem device_revocation_ends_its_sessions:
  assumes "sessions_wf (tx_db s)" and "tx_pool s = []" and "security_scope sy c v s = (Inr w, s)"
    and "load_device w i s = (Inr dev, s)"
    and "\<forall>r \<in> set (db_devices (tx_db s)). dv_token_hash r = accountHashToken sy dtok \<longrightarrow> dv_id r = i"
  shows "\<exists>dev' s'. UpdateDevice sy c v i ''revoke'' name tok s = (Inr dev', s')
     \<and> sd_revoked dev' \<and> sd_trusted_until dev' = None
     \<and> revokes (s_id ` {r \<in> set (db_sessions (tx_db s)). scope_owns w r \<and> s_device_id r = Some i}) (tx_db s) (tx_db s')
     \<and> \<not> token_recognised sy w dtok (tx_db s')"
proof -
  obtain s' cur where r: "UpdateDevice sy c v i ''revoke'' name tok s = (Inr ((revoked_device dev)\<lparr>sd_current := cur\<rparr>), s')"
    "revokes (device_sessions w i (tx_db s)) (tx_db s) (tx_db s')"
    "db_devices (tx_db s') = update_where (\<lambda>r. dv_id r = i \<and> dv_project_id r = scp_project_id w
          \<and> dv_environment r = scp_environment w \<and> dv_user_id r = scp_account_id w)
          (\<lambda>r. r\<lparr>dv_data := Some (revoked_device dev)\<rparr>) (db_devices (tx_db s))"
    by (rule UpdateDevice_revoke [OF assms(1-4)])
  have "\<not> token_recognised sy w dtok (tx_db s')"
    using revoked_not_recognised [OF assms(5), of w dev] r(3) by (simp add: token_recognised_def)
  then show ?thesis
    using r(1,2) by (intro exI [of _ "(revoked_device dev)\<lparr>sd_current := cur\<rparr>"] exI [of _ s'])
      (simp add: revoked_device_def device_sessions_def)
qed

definition sample_scope :: SecurityScope where
  "sample_scope = (account_scope ''p'' [] ''alice'')\<lparr>scp_session_id := ''s''\<rparr>"

definition sample_device :: SecurityDevice where
  "sample_device = \<lparr>sd_id = ''d'', sd_name = ''laptop'', sd_first_seen_at = 0, sd_last_seen_at = 0, sd_trusted_until = None,
     sd_revoked = False, sd_current = False, sd_session_ids = [''s'']\<rparr>"

definition device_db :: db where
  "device_db = sample_db
     \<lparr>db_devices := [\<lparr>dv_id = ''d'', dv_project_id = ''p'', dv_environment = ''live'', dv_user_id = ''alice'',
                      dv_token_hash = ''h:dt'', dv_data = Some sample_device\<rparr>],
      db_sessions := map (s_device_id_update (\<lambda>_. Some ''d'')) (db_sessions sample_db)\<rparr>"

abbreviation "live_scope \<equiv> sample_scope\<lparr>scp_environment := ''live''\<rparr>"

lemma sample_device_scope:
  "security_scope sample_sys (sample_ctx n) sample_scope s = (Inr live_scope, s)"
  by (simp add: security_scope_def sample_scope_def account_scope_def effectiveEnv_def sample_ctx_def requested_env_def
      runtimeDefaultEnv_def tx_bind_def)

theorem device_revocation_ends_its_sessions_witness:
  "\<exists>dev' s'. UpdateDevice sample_sys (sample_ctx 5) sample_scope ''d'' ''revoke'' [] [] (sample_state device_db) = (Inr dev', s')
     \<and> sd_revoked dev' \<and> db_sessions (tx_db s') = [] \<and> \<not> token_recognised sample_sys live_scope ''dt'' (tx_db s')"
proof -
  have h: "sessions_wf device_db"
    "\<forall>r \<in> set (db_devices device_db). dv_token_hash r = accountHashToken sample_sys ''dt'' \<longrightarrow> dv_id r = ''d''"
    by code_simp+
  have ld: "load_device live_scope ''d'' (sample_state device_db) = (Inr sample_device, sample_state device_db)"
    by (simp add: load_device_def sample_scope_def account_scope_def device_db_def sample_state_def tx_bind_def)
  have ids: "\<forall>x \<in> set (db_sessions device_db). s_id x \<in> s_id ` {r \<in> set (db_sessions device_db). scope_owns live_scope r \<and> s_device_id r = Some ''d''}"
    by code_simp
  obtain dev' s' where run: "UpdateDevice sample_sys (sample_ctx 5) sample_scope ''d'' ''revoke'' [] [] (sample_state device_db) = (Inr dev', s')"
      "sd_revoked dev'" "\<not> token_recognised sample_sys live_scope ''dt'' (tx_db s')"
      "revokes (s_id ` {r \<in> set (db_sessions device_db). scope_owns live_scope r \<and> s_device_id r = Some ''d''}) device_db (tx_db s')"
    using device_revocation_ends_its_sessions [where name = "[]" and tok = "[]" and dtok = "''dt''", OF _ _ sample_device_scope [of 5] ld] h by auto
  moreover have "db_sessions (tx_db s') = []" using ids run(4) unfolding revokes_def by (metis (no_types, lifting) filter_False)
  ultimately show ?thesis by blast
qed


section \<open>Refreshing and the device link\<close>

text \<open>A rotation writes the session envelope anew, without the device it was linked to.\<close>

lemma Refresh_unlinks:
  assumes "Refresh sy c t s = (Inr (acc, sess), s')" and "sessions_wf (tx_db s)" and "tx_pool s = []"
  obtains new where "sessions_wf (tx_db s')" and "tx_pool s' = []"
    and "se_id sess \<in> s_id ` set (db_sessions (tx_db s'))"
    and "\<forall>x \<in> set (db_sessions (tx_db s')). s_id x = se_id sess \<longrightarrow> s_device_id x = None"
    and "new \<in> set (db_refresh (tx_db s'))" and "rt_hash new = coreAuthSHA256 sy (se_refresh_token sess)"
    and "\<not> rt_revoked new" and "rt_session_id new = se_id sess"
proof -
  note run = Refresh_Inr [OF assms(1,3)]
  have wf: "sessions_wf (tx_db s')" using coreAuthRefreshInTx_wf [OF run assms(2)] .
  have pool: "tx_pool s' = []"
    using quiet_refresh [of sy c "coreAuthSHA256 sy t"] run assms(3) unfolding quiet_def by (metis snd_conv)
  show thesis using run
  proof (rule coreAuthRefreshInTx_Rotated)
    fix row ur sr s1 s2
    assume sr: "find (\<lambda>r. s_id r = rt_session_id row) (db_sessions (tx_db s)) = Some sr"
      and rot: "coreAuthRotateSession sy c acc sr s1 = (Inr sess, s2)" and t: "auth_tables (tx_db s') = auth_tables (tx_db s2)"
      and s1: "auth_tables (tx_db s1) = auth_tables ((tx_db s)\<lparr>db_refresh := update_where (\<lambda>r. rt_id r = rt_id row)
           (mark_revoked (Some ((case rt_data row of Some v \<Rightarrow> v | None \<Rightarrow> empty_refresh_token)\<lparr>rd_revoked := True\<rparr>)))
           (db_refresh (tx_db s))\<rparr>)"
    show thesis using rot
    proof (rule coreAuthRotateSession_Inr)
      fix prev sp e rid at plain
      let ?h = "coreAuthRefreshHorizon (cx_now c) (s_created_at sr) sp"
      let ?new = "refresh_row_of \<lparr>rd_id = rid, rd_project_id = acc_project_id acc, rd_environment = e, rd_user_id = acc_id acc,
        rd_session_id = s_id sr, rd_hash = coreAuthSHA256 sy plain, rd_revoked = False, rd_expires_at = ?h, rd_created_at = cx_now c\<rparr>"
      assume sess: "sess = coreAuthBuildRotatedSession c acc prev (s_id sr) (se_client_id prev) (se_amr prev)
                  (fst (coreAuthRotateAAL sr prev)) at plain sp (cx_now c)"
        and t2: "auth_tables (tx_db s2) = auth_tables
           ((tx_db s1)\<lparr>db_sessions := update_where (\<lambda>r. s_id r = s_id sr)
                        (\<lambda>r. r\<lparr>s_last_active_at := cx_now c, s_expires_at := Some ?h, s_device_id := None, s_data := Some sess\<rparr>) (db_sessions (tx_db s1)),
                     db_refresh := db_refresh (tx_db s1) @ [?new]\<rparr>)"
      have i: "se_id sess = s_id sr" "se_refresh_token sess = plain" by (simp_all add: sess coreAuthBuildRotatedSession_def)
      have srin: "sr \<in> set (db_sessions (tx_db s))" using find_set [OF sr] ..
      have tabs: "db_sessions (tx_db s') = update_where (\<lambda>r. s_id r = s_id sr)
          (\<lambda>r. r\<lparr>s_last_active_at := cx_now c, s_expires_at := Some ?h, s_device_id := None, s_data := Some sess\<rparr>) (db_sessions (tx_db s))"
        "db_refresh (tx_db s') = db_refresh (tx_db s1) @ [?new]"
        using t t2 s1 by (simp_all add: auth_tables_def)
      have "map s_id (db_sessions (tx_db s')) = map s_id (db_sessions (tx_db s))"
        unfolding tabs by (simp add: update_where_def)
      then have "se_id sess \<in> s_id ` set (db_sessions (tx_db s'))" using srin i(1) by (metis image_set imageI)
      moreover have "\<forall>x \<in> set (db_sessions (tx_db s')). s_id x = se_id sess \<longrightarrow> s_device_id x = None"
        unfolding tabs i(1) by (auto simp: update_where_def)
      ultimately show thesis
        by (rule that [of ?new, OF wf pool]) (simp_all add: i tabs(2) refresh_row_of_def)
    qed
  qed
qed


text \<open>C30: a device revocation misses a session that was refreshed since it was linked. The rotation of the
  refresh token drops the session's device link, so revoking any device of the account, the one the
  session was started from included, succeeds and leaves the session and its new refresh token alive.\<close>

theorem refreshed_session_survives_device_revocation:
  assumes "Refresh sy c t s = (Inr (acc, sess), s1)" and "sessions_wf (tx_db s)" and "tx_pool s = []"
    and "security_scope sy c' v s1 = (Inr w, s1)" and "load_device w i s1 = (Inr dev, s1)"
  shows "\<exists>dev' s2. UpdateDevice sy c' v i ''revoke'' name tok s1 = (Inr dev', s2)
     \<and> (\<exists>x \<in> set (db_sessions (tx_db s2)). s_id x = se_id sess)
     \<and> (\<exists>r \<in> set (db_refresh (tx_db s2)). rt_hash r = coreAuthSHA256 sy (se_refresh_token sess)
          \<and> rt_session_id r = se_id sess \<and> \<not> rt_revoked r)"
proof -
  obtain new where new: "sessions_wf (tx_db s1)" "tx_pool s1 = []" "se_id sess \<in> s_id ` set (db_sessions (tx_db s1))"
      "\<forall>x \<in> set (db_sessions (tx_db s1)). s_id x = se_id sess \<longrightarrow> s_device_id x = None"
      "new \<in> set (db_refresh (tx_db s1))" "rt_hash new = coreAuthSHA256 sy (se_refresh_token sess)"
      "\<not> rt_revoked new" "rt_session_id new = se_id sess"
    by (rule Refresh_unlinks [OF assms(1-3)])
  obtain s2 cur where s2: "UpdateDevice sy c' v i ''revoke'' name tok s1 = (Inr ((revoked_device dev)\<lparr>sd_current := cur\<rparr>), s2)"
      "revokes (device_sessions w i (tx_db s1)) (tx_db s1) (tx_db s2)"
    by (rule UpdateDevice_revoke [OF new(1,2) assms(4,5)])
  have out: "se_id sess \<notin> device_sessions w i (tx_db s1)" using new(4) by (auto simp: device_sessions_def)
  have "\<exists>x \<in> set (db_sessions (tx_db s2)). s_id x = se_id sess"
    using s2(2) new(3) out by (auto simp: revokes_def)
  moreover have "new \<in> set (db_refresh (tx_db s2))"
  proof -
    have "list_all2 (token_step (device_sessions w i (tx_db s1))) (db_refresh (tx_db s1)) (db_refresh (tx_db s2))"
      using s2(2) by (simp add: revokes_def)
    then obtain r where "r \<in> set (db_refresh (tx_db s2))" "token_step (device_sessions w i (tx_db s1)) new r"
      using new(5) by (metis (mono_tags, lifting) list_all2_conv_all_nth in_set_conv_nth)
    with out new(8) show ?thesis by (simp add: token_step_def)
  qed
  ultimately show ?thesis using s2(1) new(6-8) by blast
qed

theorem refreshed_session_survives_device_revocation_witness:
  "\<exists>acc sess s1 dev' s2. Refresh sample_sys (sample_ctx 5) ''rt'' (sample_state device_db) = (Inr (acc, sess), s1)
     \<and> UpdateDevice sample_sys (sample_ctx 5) sample_scope ''d'' ''revoke'' [] [] s1 = (Inr dev', s2)
     \<and> (\<exists>x \<in> set (db_sessions (tx_db s2)). s_id x = se_id sess)"
proof -
  let ?P = "\<lambda>r. dv_id r = ''d'' \<and> dv_project_id r = scp_project_id live_scope \<and> dv_environment r = scp_environment live_scope
      \<and> (scp_account_id live_scope = [] \<or> dv_user_id r = scp_account_id live_scope)"
  have "case Refresh sample_sys (sample_ctx 5) ''rt'' (sample_state device_db) of
      (Inr _, s1) \<Rightarrow> map_option dv_data (find ?P (db_devices (tx_db s1))) = Some (Some sample_device) | (Inl _, _) \<Rightarrow> False"
    by code_simp
  then obtain acc sess s1 where run: "Refresh sample_sys (sample_ctx 5) ''rt'' (sample_state device_db) = (Inr (acc, sess), s1)"
    and dev: "map_option dv_data (find ?P (db_devices (tx_db s1))) = Some (Some sample_device)"
    by (auto split: prod.splits sum.splits)
  have "load_device live_scope ''d'' s1 = (Inr sample_device, s1)"
    using dev by (auto simp: load_device_def tx_bind_def unmarshal_def)
  moreover have "sessions_wf device_db" by code_simp
  ultimately show ?thesis
    using refreshed_session_survives_device_revocation [OF run _ _ sample_device_scope [of 5], of "''d''" sample_device "[]" "[]"] run
    by fastforce
qed

end
