(* ===== verification/Password.thy ===== *)
theory Password
  imports Refresh
begin

text \<open>
  Password sign-in (\<open>src/internal/infrastructure/postgres/coreauth_pg.go\<close>): strength scoring
  (\<open>coreauth_password.go\<close>) and the password policy, the lockout of a credential, the risk rules
  (\<open>risk_engine_pg.go\<close>, \<open>risk_pg.go\<close>) and the sign-in itself, with registration and the password
  lifecycle on top of them.
\<close>

section \<open>Strength\<close>

definition commonPasswordBases :: "string list" where
  "commonPasswordBases =
     [''password'', ''passw0rd'', ''qwerty'', ''qwertyuiop'', ''azerty'', ''admin'', ''root'', ''welcome'', ''letmein'', ''login'',
      ''abc'', ''abcd'', ''test'', ''guest'', ''user'', ''iloveyou'', ''dragon'', ''monkey'', ''master'', ''superman'',
      ''football'', ''baseball'', ''sunshine'', ''princess'', ''secret'', ''hello'', ''whatever'', ''trustno'', ''changeme'',
      ''default'']"

definition is_lower_rune :: "sys \<Rightarrow> rune \<Rightarrow> bool" where
  "is_lower_rune sy r \<longleftrightarrow> (if r < 128 then 97 \<le> r \<and> r \<le> 122 else sy_is_lower sy r)"

definition is_upper_rune :: "sys \<Rightarrow> rune \<Rightarrow> bool" where
  "is_upper_rune sy r \<longleftrightarrow> (if r < 128 then 65 \<le> r \<and> r \<le> 90 else sy_is_upper sy r)"

definition is_digit_rune :: "sys \<Rightarrow> rune \<Rightarrow> bool" where
  "is_digit_rune sy r \<longleftrightarrow> (if r < 128 then 48 \<le> r \<and> r \<le> 57 else sy_is_digit sy r)"

text \<open>\<open>strings.ToLower\<close> and \<open>strings.ToUpper\<close>.\<close>

definition lower_rune :: "sys \<Rightarrow> rune \<Rightarrow> rune" where
  "lower_rune sy r = (if r < 128 then (if 65 \<le> r \<and> r \<le> 90 then r + 32 else r) else sy_lower sy r)"

definition upper_rune :: "sys \<Rightarrow> rune \<Rightarrow> rune" where
  "upper_rune sy r = (if r < 128 then (if 97 \<le> r \<and> r \<le> 122 then r - 32 else r) else sy_upper sy r)"

definition ToLower :: "sys \<Rightarrow> string \<Rightarrow> string" where
  "ToLower sy s = to_lower (lower_rune sy) s"

definition ToUpper :: "sys \<Rightarrow> string \<Rightarrow> string" where
  "ToUpper sy s =
     (if list_all (\<lambda>c. (of_char c :: nat) < 128) s then map (\<lambda>c. char_of (upper_rune sy (of_char c))) s
      else string_of_runes (map (upper_rune sy) (runes s)))"

definition passwordCharClasses :: "sys \<Rightarrow> string \<Rightarrow> int" where
  "passwordCharClasses sy pw =
     (let rs = runes pw;
          lower = list_ex (is_lower_rune sy) rs;
          upper = list_ex (\<lambda>r. \<not> is_lower_rune sy r \<and> is_upper_rune sy r) rs;
          digit = list_ex (\<lambda>r. \<not> is_lower_rune sy r \<and> \<not> is_upper_rune sy r \<and> is_digit_rune sy r) rs;
          other = list_ex (\<lambda>r. \<not> is_lower_rune sy r \<and> \<not> is_upper_rune sy r \<and> \<not> is_digit_rune sy r) rs
      in int (length (filter id [lower, upper, digit, other])))"

text \<open>\<open>strings.TrimRight\<close> with an ASCII cutset.\<close>

definition trim_right :: "string \<Rightarrow> string \<Rightarrow> string" where
  "trim_right s cs = rev (dropWhile (\<lambda>c. c \<in> set cs) (rev s))"

definition passwordBase :: "sys \<Rightarrow> string \<Rightarrow> string" where
  "passwordBase sy pw = trim_right (ToLower sy (trim_space pw)) ''0123456789!@#$%^&*._-''"

definition hasObviousSequence :: "sys \<Rightarrow> string \<Rightarrow> bool" where
  "hasObviousSequence sy password \<longleftrightarrow>
     password \<noteq> [] \<and>
     (let lower = ToLower sy password in
      list_ex (\<lambda>q. length lower \<ge> 4 \<and> contains_sub q lower)
        [''0123456789'', ''abcdefghijklmnopqrstuvwxyz'', ''qwertyuiop'', ''asdfghjkl'', ''zxcvbnm'']
      \<or> list_all (\<lambda>r. r = hd (runes password)) (runes password))"

definition passwordLenExcellent :: nat where "passwordLenExcellent = 16"
definition passwordLenStrong :: nat where "passwordLenStrong = 12"
definition passwordLenGood :: nat where "passwordLenGood = 10"
definition passwordLenMinimum :: nat where "passwordLenMinimum = 8"
definition passwordSequencePenalty :: int where "passwordSequencePenalty = 2"
definition passwordScoreMax :: int where "passwordScoreMax = 4"

definition length_tier :: "nat \<Rightarrow> int" where
  "length_tier n =
     (if n \<ge> passwordLenExcellent then 3 else if n \<ge> passwordLenStrong then 2
      else if n \<ge> passwordLenGood then 1 else if n \<ge> passwordLenMinimum then 1 else 0)"

definition passwordStrengthScore :: "sys \<Rightarrow> string \<Rightarrow> int" where
  "passwordStrengthScore sy password =
     (let n = length (runes password) in
      if n = 0 then 0
      else if passwordBase sy password \<in> set commonPasswordBases then 0
      else
        let score = length_tier n + (passwordCharClasses sy password - 1)
                    - (if hasObviousSequence sy password then passwordSequencePenalty else 0);
            score = (if score < 0 then 0 else score)
        in if score > passwordScoreMax then passwordScoreMax else score)"

section \<open>The password policy\<close>

record CoreAuthPasswordCheckResult =
  pk_valid :: bool
  pk_score :: int
  pk_violations :: "string list"

definition check_password :: "sys \<Rightarrow> EffectivePasswordPolicy \<Rightarrow> string \<Rightarrow> CoreAuthPasswordCheckResult" where
  "check_password sy pol password =
     (let r0 = \<lparr>pk_valid = True, pk_score = passwordStrengthScore sy password, pk_violations = []\<rparr>;
          r1 = (if int (length (runes password)) < ep_min_length pol
                then \<lparr>pk_valid = False, pk_score = 0, pk_violations = pk_violations r0 @ [''too_short'']\<rparr> else r0);
          r2 = (if trim_space password = []
                then \<lparr>pk_valid = False, pk_score = 0, pk_violations = pk_violations r1 @ [''blank'']\<rparr> else r1);
          r3 = (if ToLower sy password = password \<or> ToUpper sy password = password
                then r2\<lparr>pk_violations := pk_violations r2 @ [''no_mixed_case'']\<rparr> else r2)
      in if ep_zxcvbn_min_score pol > 0 \<and> pk_score r3 < ep_zxcvbn_min_score pol
         then r3\<lparr>pk_valid := False, pk_violations := pk_violations r3 @ [''too_weak'']\<rparr> else r3)"

definition CheckPassword :: "sys \<Rightarrow> ctx \<Rightarrow> string \<Rightarrow> string \<Rightarrow> CoreAuthPasswordCheckResult tx" where
  "CheckPassword sy c projectID password =
     tx_bind (PasswordPolicy sy c projectID) (\<lambda>pol. ret (check_password sy pol password))"

definition coreAuthEnforcePasswordPolicy :: "sys \<Rightarrow> ctx \<Rightarrow> string \<Rightarrow> string \<Rightarrow> unit tx" where
  "coreAuthEnforcePasswordPolicy sy c projectID password =
     tx_bind (CheckPassword sy c projectID password) (\<lambda>res.
       if \<not> pk_valid res
       then throw (WithDetails [(''violations'', DStrs (pk_violations res)), (''score'', DInt (pk_score res))] ErrWeakPassword)
       else ret ())"

definition coreAuthHashPassword :: "sys \<Rightarrow> string \<Rightarrow> string tx" where
  "coreAuthHashPassword sy plaintext = tx_bind (draw (\<lambda>n. sy_bcrypt_hash sy n plaintext)) lift_res"

definition coreAuthCheckPassword :: "sys \<Rightarrow> string \<Rightarrow> string \<Rightarrow> bool" where
  "coreAuthCheckPassword sy hash plaintext = sy_bcrypt_ok sy hash plaintext"

section \<open>Risk rules\<close>

definition riskActionBlock :: string where "riskActionBlock = ''block''"
definition riskActionStepUp :: string where "riskActionStepUp = ''require_step_up''"
definition riskActionNotify :: string where "riskActionNotify = ''notify''"
definition riskActionAllow :: string where "riskActionAllow = ''allow''"

record riskDecision =
  rk_decided :: string
  rk_by_rule :: string
  rk_on_signal :: string

definition no_decision :: riskDecision where
  "no_decision = \<lparr>rk_decided = [], rk_by_rule = [], rk_on_signal = []\<rparr>"

definition EffectiveSignal :: "AdminRiskRule \<Rightarrow> string" where
  "EffectiveSignal r = (if rk_signal r \<noteq> [] then rk_signal r else rk_condition r)"

definition riskActionRank :: "string \<Rightarrow> int" where
  "riskActionRank a =
     (if a = riskActionBlock then 3 else if a = riskActionStepUp then 2 else if a = riskActionNotify then 1 else 0)"

definition sessionSeen :: "string \<Rightarrow> string \<Rightarrow> (Session \<Rightarrow> string) \<Rightarrow> string \<Rightarrow> bool tx" where
  "sessionSeen projectID accountID get value =
     query (\<lambda>d. list_ex (\<lambda>r. s_project_id r = projectID \<and> s_user_id r = accountID
                \<and> (case s_data r of Some v \<Rightarrow> get v = value | None \<Rightarrow> False)) (db_sessions d))"

text \<open>The signals that hold, as \<open>map[string]bool\<close>: a missing key reads as false.\<close>

definition signInSignals :: "ctx \<Rightarrow> string \<Rightarrow> string \<Rightarrow> int \<Rightarrow> (string \<times> bool) list tx" where
  "signInSignals c projectID accountID priorFailures =
     (let meta = cx_meta c; out = [(''recent_failures'', priorFailures > 0)] in
      tx_bind (if rm_fingerprint meta \<noteq> []
               then tx_bind (sessionSeen projectID accountID se_fingerprint (rm_fingerprint meta)) (\<lambda>seen.
                      ret (out @ [(''new_device'', \<not> seen)]))
               else ret out) (\<lambda>out.
        if rm_ip meta \<noteq> []
        then tx_bind (sessionSeen projectID accountID se_ip (rm_ip meta)) (\<lambda>seen. ret (out @ [(''new_ip'', \<not> seen)]))
        else ret out))"

definition signal_holds :: "(string \<times> bool) list \<Rightarrow> string \<Rightarrow> bool" where
  "signal_holds signals k = (map_of signals k = Some True)"

text \<open>The loop over the rules: \<open>Inl\<close> is the early return of an \<open>allow\<close> rule.\<close>

fun apply_rules :: "(string \<Rightarrow> bool) \<Rightarrow> AdminRiskRule list \<Rightarrow> riskDecision \<Rightarrow> riskDecision + riskDecision" where
  "apply_rules holds [] decision = Inr decision"
| "apply_rules holds (rule # rules) decision =
     (let signal = EffectiveSignal rule in
      if \<not> rk_enabled rule then apply_rules holds rules decision
      else if \<not> holds signal then apply_rules holds rules decision
      else if rk_action rule = riskActionAllow
      then Inl \<lparr>rk_decided = riskActionAllow, rk_by_rule = rk_name rule, rk_on_signal = signal\<rparr>
      else if riskActionRank (rk_action rule) > riskActionRank (rk_decided decision)
      then apply_rules holds rules \<lparr>rk_decided = rk_action rule, rk_by_rule = rk_name rule, rk_on_signal = signal\<rparr>
      else apply_rules holds rules decision)"

definition ListRules :: "string \<Rightarrow> AdminRiskRule list tx" where
  "ListRules projectID = query (\<lambda>d. map snd (filter (\<lambda>(p, _). p = projectID) (db_risk_rules d)))"

definition recordRiskEvent :: "sys \<Rightarrow> string \<Rightarrow> string \<Rightarrow> string \<Rightarrow> riskDecision \<Rightarrow> unit tx" where
  "recordRiskEvent sy projectID environment accountID decision =
     tx_bind (newUUID sy) (\<lambda>_.
       pool_exec (PoolRiskEvent \<lparr>re_project_id = projectID, re_environment = environment, re_account_id = accountID,
         re_rule = rk_by_rule decision, re_signal = rk_on_signal decision, re_action = rk_decided decision\<rparr>))"

definition evaluateSignInRisk ::
  "sys \<Rightarrow> ctx \<Rightarrow> string \<Rightarrow> string \<Rightarrow> string \<Rightarrow> int \<Rightarrow> riskDecision tx" where
  "evaluateSignInRisk sy c projectID environment accountID priorFailures =
     tx_bind (ListRules projectID) (\<lambda>rules.
       if rules = [] then ret no_decision
       else
         tx_bind (signInSignals c projectID accountID priorFailures) (\<lambda>signals.
           case apply_rules (signal_holds signals) rules no_decision of
             Inl allowed \<Rightarrow> ret allowed
           | Inr decision \<Rightarrow>
               if rk_decided decision = [] then ret decision
               else tx_bind (recordRiskEvent sy projectID environment accountID decision) (\<lambda>_. ret decision)))"

section \<open>Lockout\<close>

definition coreAuthMaxLoginFailures :: int where "coreAuthMaxLoginFailures = 10"
definition coreAuthLockoutDuration :: duration where "coreAuthLockoutDuration = 15 * Minute"
definition coreAuthCredentialPassword :: string where "coreAuthCredentialPassword = ''password''"

definition empty_credential :: coreAuthCredential where
  "empty_credential =
     \<lparr>pc_id = [], pc_project_id = [], pc_user_id = [], pc_type = [], pc_hash = [], pc_created_at = zeroTime,
      pc_updated_at = zeroTime, pc_failed_attempts = 0, pc_locked_until = zeroTime\<rparr>"

definition credential_data :: "credential_row \<Rightarrow> coreAuthCredential" where
  "credential_data cred = (case k_data cred of Some v \<Rightarrow> v | None \<Rightarrow> empty_credential)"

text \<open>Written on the pool, so that it survives the rollback of the failed sign-in.\<close>

definition coreAuthPersistCredentialLock :: "ctx \<Rightarrow> credential_row \<Rightarrow> coreAuthCredential \<Rightarrow> unit tx" where
  "coreAuthPersistCredentialLock c cred data = pool_exec (PoolCredential (k_id cred) data (cx_now c))"

definition coreAuthRecordLoginFailure :: "ctx \<Rightarrow> credential_row \<Rightarrow> coreAuthCredential \<Rightarrow> unit tx" where
  "coreAuthRecordLoginFailure c cred data =
     (let data = data\<lparr>pc_failed_attempts := pc_failed_attempts data + 1\<rparr>;
          data = (if pc_failed_attempts data \<ge> coreAuthMaxLoginFailures
                  then data\<lparr>pc_locked_until := cx_now c + coreAuthLockoutDuration, pc_failed_attempts := 0\<rparr> else data)
      in coreAuthPersistCredentialLock c cred data)"

definition coreAuthClearLoginFailures :: "ctx \<Rightarrow> credential_row \<Rightarrow> coreAuthCredential \<Rightarrow> unit tx" where
  "coreAuthClearLoginFailures c cred data =
     coreAuthPersistCredentialLock c cred (data\<lparr>pc_failed_attempts := 0, pc_locked_until := zeroTime\<rparr>)"

section \<open>Sign-in\<close>

definition coreAuthFindUserByEmail :: "sys \<Rightarrow> ctx \<Rightarrow> string \<Rightarrow> string \<Rightarrow> user_row tx" where
  "coreAuthFindUserByEmail sy c projectID email =
     tx_bind (effectiveEnv sy c projectID) (\<lambda>env.
     tx_bind (query (\<lambda>d. find (\<lambda>r. u_project_id r = projectID \<and> u_environment r = env \<and> u_primary_email r = Some email) (db_users d))) (\<lambda>row.
       case row of Some r \<Rightarrow> ret r | None \<Rightarrow> throw ErrUserNotFound))"

definition password_credential :: "string \<Rightarrow> string \<Rightarrow> string \<Rightarrow> credential_row \<Rightarrow> bool" where
  "password_credential projectID env userID r \<longleftrightarrow>
     k_project_id r = projectID \<and> k_environment r = env \<and> k_user_id r = userID \<and> k_type r = coreAuthCredentialPassword"

definition coreAuthFindPasswordCredential :: "sys \<Rightarrow> ctx \<Rightarrow> string \<Rightarrow> string \<Rightarrow> credential_row tx" where
  "coreAuthFindPasswordCredential sy c projectID userID =
     tx_bind (effectiveEnv sy c projectID) (\<lambda>env.
     tx_bind (query (\<lambda>d. find (password_credential projectID env userID) (db_credentials d))) (\<lambda>row.
       case row of Some r \<Rightarrow> ret r | None \<Rightarrow> throw ErrInvalidCredentials))"

definition coreAuthLoadPasswordCredential ::
  "sys \<Rightarrow> ctx \<Rightarrow> string \<Rightarrow> string \<Rightarrow> (Account \<times> credential_row \<times> coreAuthCredential) tx" where
  "coreAuthLoadPasswordCredential sy c projectID email =
     tx_handle (coreAuthFindUserByEmail sy c projectID email)
       (\<lambda>e. if err_is e ErrUserNotFound then throw ErrInvalidCredentials else throw e)
       (\<lambda>userRow.
          tx_bind (coreAuthLoadAccount userRow projectID) (\<lambda>acc.
          tx_bind (coreAuthFindPasswordCredential sy c projectID (acc_id acc)) (\<lambda>cred.
            ret (acc, cred, credential_data cred))))"

definition coreAuthVerifyPassword :: "sys \<Rightarrow> ctx \<Rightarrow> credential_row \<Rightarrow> coreAuthCredential \<Rightarrow> string \<Rightarrow> int tx" where
  "coreAuthVerifyPassword sy c cred credData password =
     (if pc_locked_until credData > nowIn c then throw ErrAccountLocked
      else if \<not> coreAuthCheckPassword sy (k_secret cred) password
      then tx_bind (coreAuthRecordLoginFailure c cred credData) (\<lambda>_.
           tx_bind (recordFailure sy c (k_project_id cred) (k_user_id cred) ''password_failures'') (\<lambda>_.
             throw ErrInvalidCredentials))
      else
        tx_bind (if pc_failed_attempts credData > 0 \<or> pc_locked_until credData \<noteq> zeroTime
                 then coreAuthClearLoginFailures c cred credData else ret ()) (\<lambda>_.
          ret (pc_failed_attempts credData)))"

text \<open>\<open>mfaFactorFromRow\<close>: the columns fill in what the envelope leaves empty.\<close>

definition mfaFactorFromRow :: "factor_row \<Rightarrow> Factor tx" where
  "mfaFactorFromRow row =
     tx_bind (unmarshal (f_data row)) (\<lambda>f.
       ret (f\<lparr>fa_id := f_id row, fa_type := (if fa_type f = [] then f_type row else fa_type f),
              fa_status := (if fa_status f = [] then f_status row else fa_status f)\<rparr>))"

fun active_factors :: "factor_row list \<Rightarrow> Factor list tx" where
  "active_factors [] = ret []"
| "active_factors (row # rows) =
     tx_bind (mfaFactorFromRow row) (\<lambda>f.
     tx_bind (active_factors rows) (\<lambda>fs. ret (if fa_status f = coreAuthStatusActive then f # fs else fs)))"

definition coreAuthActiveFactors :: "string \<Rightarrow> Factor list tx" where
  "coreAuthActiveFactors accountID =
     tx_bind (query (\<lambda>d. filter (\<lambda>r. f_user_id r = accountID) (db_factors d))) active_factors"

record CoreAuthPasswordResult =
  pw_account :: Account
  pw_session :: "Session option"
  pw_mfa_required :: bool
  pw_factors :: "Factor list"
  pw_prior_failures :: int

definition coreAuthCompletePasswordSignIn :: "sys \<Rightarrow> ctx \<Rightarrow> Account \<Rightarrow> int \<Rightarrow> CoreAuthPasswordResult tx" where
  "coreAuthCompletePasswordSignIn sy c acc priorFailures =
     tx_bind (coreAuthActiveFactors (acc_id acc)) (\<lambda>factors.
     tx_bind (effectiveEnv sy c (acc_project_id acc)) (\<lambda>riskEnv.
     tx_bind (evaluateSignInRisk sy c (acc_project_id acc) riskEnv (acc_id acc) priorFailures) (\<lambda>decision.
       if rk_decided decision = riskActionBlock then throw (WithMessage ''blocked by a risk rule'' ErrForbidden)
       else if factors \<noteq> []
       then ret \<lparr>pw_account = acc, pw_session = None, pw_mfa_required = True, pw_factors = factors,
                 pw_prior_failures = priorFailures\<rparr>
       else
         tx_bind (coreAuthMintSession sy c acc [] [''pwd''] 1) (\<lambda>sess.
         tx_bind (Emit sy c ''user.signed_in'' (acc_project_id acc) coreAuthDefaultEnv (acc_id acc) (PAccount acc)) (\<lambda>_.
           ret \<lparr>pw_account = acc, pw_session = Some sess, pw_mfa_required = False, pw_factors = [],
                pw_prior_failures = priorFailures\<rparr>)))))"

definition password_sign_in :: "sys \<Rightarrow> ctx \<Rightarrow> string \<Rightarrow> string \<Rightarrow> string \<Rightarrow> CoreAuthPasswordResult tx" where
  "password_sign_in sy c projectID email password =
     tx_bind (coreAuthLoadPasswordCredential sy c projectID email) (\<lambda>(acc, cred, credData).
     tx_bind (coreAuthVerifyPassword sy c cred credData password) (\<lambda>priorFailures.
     tx_bind (lift_res (coreAuthAccountActive (cx_now c) acc)) (\<lambda>_.
       coreAuthCompletePasswordSignIn sy c acc priorFailures)))"

definition AuthenticatePassword :: "sys \<Rightarrow> ctx \<Rightarrow> string \<Rightarrow> string \<Rightarrow> string \<Rightarrow> CoreAuthPasswordResult tx" where
  "AuthenticatePassword sy c projectID email password =
     (if projectID = [] \<or> email = [] then throw ErrInvalidCredentials
      else withTx (password_sign_in sy c projectID email password))"

section \<open>Writes that outlive a rollback\<close>

text \<open>\<open>pooled p m\<close>: what \<open>m\<close> writes on the pool leaves the projection \<open>p\<close> of the database alone.\<close>

definition pooled :: "(db \<Rightarrow> 'p) \<Rightarrow> 'a tx \<Rightarrow> bool" where
  "pooled p m \<longleftrightarrow> (\<forall>s. \<exists>ws. tx_pool (snd (m s)) = tx_pool s @ ws \<and> (\<forall>w \<in> set ws. \<forall>d. p (apply_pool_write w d) = p d))"

lemma pooledD:
  assumes "pooled p m" and "m s = (r, s')"
  obtains ws where "tx_pool s' = tx_pool s @ ws" and "\<And>d. p (apply_pool ws d) = p d"
proof -
  obtain ws where ws: "tx_pool s' = tx_pool s @ ws" "\<forall>w \<in> set ws. \<forall>d. p (apply_pool_write w d) = p d"
    using assms unfolding pooled_def by (metis snd_conv)
  have "p (fold apply_pool_write ws d) = p d" for d
    using ws(2) by (induction ws arbitrary: d) auto
  then show thesis using that ws(1) by (simp add: apply_pool_def)
qed

lemma withTx_idle:
  assumes "tx_pool s = []"
  shows "withTx m s =
     (case m s of
        (Inr x, s') \<Rightarrow> (Inr x, s'\<lparr>tx_db := apply_pool (tx_pool s') (tx_db s'), tx_pool := []\<rparr>)
      | (Inl e, s') \<Rightarrow> (Inl e, s'\<lparr>tx_db := apply_pool (tx_pool s') (tx_db s), tx_pool := []\<rparr>))"
proof -
  have "s\<lparr>tx_pool := []\<rparr> = s" using assms by (cases s) simp
  then show ?thesis by (simp only: withTx_def assms)
qed

lemma pooled_quiet: "quiet m \<Longrightarrow> pooled p m"
  unfolding pooled_def quiet_def by (metis append_Nil2 empty_iff list.set(1))

lemma pooled_handle [intro!]:
  assumes "pooled p m" and "\<And>e. pooled p (h e)" and "\<And>x. pooled p (f x)"
  shows "pooled p (tx_handle m h f)"
  unfolding pooled_def
proof
  fix s
  obtain r s' where m: "m s = (r, s')" by (cases "m s")
  obtain ws where ws: "tx_pool s' = tx_pool s @ ws" "\<forall>w \<in> set ws. \<forall>d. p (apply_pool_write w d) = p d"
    using assms(1) m unfolding pooled_def by (metis snd_conv)
  have "\<exists>vs. tx_pool (snd (tx_handle m h f s)) = tx_pool s' @ vs \<and> (\<forall>w \<in> set vs. \<forall>d. p (apply_pool_write w d) = p d)"
    using assms(2,3) m by (cases r) (simp_all add: tx_handle_def pooled_def)
  then obtain vs where "tx_pool (snd (tx_handle m h f s)) = tx_pool s @ (ws @ vs)" "\<forall>w \<in> set (ws @ vs). \<forall>d. p (apply_pool_write w d) = p d"
    using ws by auto
  then show "\<exists>ws. tx_pool (snd (tx_handle m h f s)) = tx_pool s @ ws \<and> (\<forall>w \<in> set ws. \<forall>d. p (apply_pool_write w d) = p d)"
    by blast
qed

lemma pooled_bind [intro!]: "pooled p m \<Longrightarrow> (\<And>x. pooled p (f x)) \<Longrightarrow> pooled p (tx_bind m f)"
  unfolding tx_bind_handle by (rule pooled_handle) (auto intro: pooled_quiet)

lemma pooled_basic [intro!]:
  "pooled p (ret x)" "pooled p (throw e)" "pooled p (query q)" "pooled p (lift_res r')" "pooled p (Pair r)"
  by (auto intro: pooled_quiet)

lemma pooled_independent [intro!]:
  assumes "keeps p m"
  shows "pooled p (independent m)"
  unfolding pooled_def
proof
  fix s
  obtain r s' where m: "m s = (r, s')" by (cases "m s")
  have "p (case m (s\<lparr>tx_db := d\<rparr>) of (Inr _, t) \<Rightarrow> tx_db t | (Inl _, _) \<Rightarrow> d) = p d" for d
  proof -
    obtain r' t where t: "m (s\<lparr>tx_db := d\<rparr>) = (r', t)" by (cases "m (s\<lparr>tx_db := d\<rparr>)")
    then show ?thesis using keepsD [OF assms t] by (cases r') simp_all
  qed
  then show "\<exists>ws. tx_pool (snd (independent m s)) = tx_pool s @ ws \<and> (\<forall>w \<in> set ws. \<forall>d. p (apply_pool_write w d) = p d)"
    using m by (cases r) (auto simp: independent_def)
qed

lemma pooled_recordFailure:
  assumes "side_free p" and "\<And>f d. p (db_attempts_update f d) = p d"
  shows "pooled p (recordFailure sy c pid a k)"
proof -
  have "keeps p (throttle sy c' v sb k' l w)" for c' v sb k' l w
    using assms(2) by (auto simp: throttle_def Let_def split: option.split)
  then show ?thesis
    unfolding recordFailure_def Let_def
    by (intro pooled_bind pooled_quiet [OF quiet_security(1)] pooled_quiet [OF quiet_security(2)])
      (auto intro: assms)
qed

section \<open>The lock of a credential\<close>

text \<open>What a sign-in reads to find and test a credential.\<close>

definition lock_tables where "lock_tables d = (db_users d, db_credentials d, db_envs d)"

lemma lock_tables_side [simp, intro!]: "side_free lock_tables" by (simp add: side_free_def lock_tables_def)

definition password_target :: "string \<Rightarrow> string \<Rightarrow> string \<Rightarrow> db \<Rightarrow> Account \<Rightarrow> credential_row \<Rightarrow> bool" where
  "password_target pid e email d acc cred \<longleftrightarrow>
     (\<exists>ur. find (\<lambda>r. u_project_id r = pid \<and> u_environment r = e \<and> u_primary_email r = Some email) (db_users d) = Some ur
          \<and> u_data ur = Some acc)
   \<and> find (password_credential pid e (acc_id acc)) (db_credentials d) = Some cred"

lemma load_target:
  assumes "effectiveEnv sy c pid s = (Inr e, s)" and "password_target pid e email (tx_db s) acc cred"
  shows "coreAuthLoadPasswordCredential sy c pid email s = (Inr (acc, cred, credential_data cred), s)"
  using assms find_set unfolding password_target_def
  by (fastforce simp: coreAuthLoadPasswordCredential_def tx_handle_def coreAuthFindUserByEmail_def tx_bind_def
      coreAuthLoadAccount_def coreAuthFindPasswordCredential_def unmarshal_def)

text \<open>The credential after a failed attempt.\<close>

definition failed_credential :: "instant \<Rightarrow> coreAuthCredential \<Rightarrow> coreAuthCredential" where
  "failed_credential now v =
     (if pc_failed_attempts v + 1 \<ge> coreAuthMaxLoginFailures
      then v\<lparr>pc_locked_until := now + coreAuthLockoutDuration, pc_failed_attempts := 0\<rparr>
      else v\<lparr>pc_failed_attempts := pc_failed_attempts v + 1\<rparr>)"

lemma coreAuthRecordLoginFailure_run:
  "coreAuthRecordLoginFailure c cred v s =
     (Inr (), s\<lparr>tx_pool := tx_pool s @ [PoolCredential (k_id cred) (failed_credential (cx_now c) v) (cx_now c)]\<rparr>)"
  by (simp add: coreAuthRecordLoginFailure_def coreAuthPersistCredentialLock_def failed_credential_def Let_def)

lemma locked_attempt:
  assumes "tx_pool s = []" and "pid \<noteq> []" and "email \<noteq> []" and "effectiveEnv sy c pid s = (Inr e, s)"
    and "password_target pid e email (tx_db s) acc cred" and "pc_locked_until (credential_data cred) > nowIn c"
  shows "AuthenticatePassword sy c pid email pw s = (Inl ErrAccountLocked, s)"
proof -
  have "password_sign_in sy c pid email pw s = (Inl ErrAccountLocked, s)"
    using load_target [OF assms(4,5)] assms(6) by (simp add: password_sign_in_def tx_bind_def coreAuthVerifyPassword_def)
  moreover have "s\<lparr>tx_db := tx_db s, tx_pool := []\<rparr> = s" using assms(1) by (cases s) simp
  ultimately show ?thesis using assms(1-3) by (simp add: AuthenticatePassword_def withTx_idle apply_pool_def)
qed

lemma wrong_attempt:
  assumes "tx_pool s = []" and "pid \<noteq> []" and "email \<noteq> []" and "effectiveEnv sy c pid s = (Inr e, s)"
    and "password_target pid e email (tx_db s) acc cred" and "\<not> pc_locked_until (credential_data cred) > nowIn c"
    and "\<not> coreAuthCheckPassword sy (k_secret cred) pw"
  obtains er s' where "AuthenticatePassword sy c pid email pw s = (Inl er, s')" and "tx_pool s' = []"
    and "lock_tables (tx_db s') = lock_tables ((tx_db s)\<lparr>db_credentials := update_where (\<lambda>k. k_id k = k_id cred)
        (\<lambda>k. k\<lparr>k_data := Some (failed_credential (cx_now c) (credential_data cred)), k_updated_at := cx_now c\<rparr>)
        (db_credentials (tx_db s))\<rparr>)"
proof -
  let ?w = "PoolCredential (k_id cred) (failed_credential (cx_now c) (credential_data cred)) (cx_now c)"
  let ?s1 = "s\<lparr>tx_pool := [?w]\<rparr>"
  let ?m = "recordFailure sy c (k_project_id cred) (k_user_id cred) ''password_failures''"
  obtain r s2 where m: "?m ?s1 = (r, s2)" by (cases "?m ?s1")
  have "pooled lock_tables ?m" by (rule pooled_recordFailure) (auto simp: lock_tables_def)
  from pooledD [OF this m] obtain ws where ws: "tx_pool s2 = [?w] @ ws" "\<And>d. lock_tables (apply_pool ws d) = lock_tables d"
    by auto
  obtain er where run: "password_sign_in sy c pid email pw s = (Inl er, s2)"
    using load_target [OF assms(4,5)] assms(1,6,7) m
    by (cases r) (auto simp: password_sign_in_def tx_bind_def coreAuthVerifyPassword_def coreAuthRecordLoginFailure_run)
  have "AuthenticatePassword sy c pid email pw s = (Inl er, s2\<lparr>tx_db := apply_pool (tx_pool s2) (tx_db s), tx_pool := []\<rparr>)"
    using run assms(1-3) by (simp add: AuthenticatePassword_def withTx_idle)
  moreover have "lock_tables (apply_pool (tx_pool s2) (tx_db s)) = lock_tables (apply_pool_write ?w (tx_db s))"
    using ws by (simp add: apply_pool_def)
  ultimately show thesis using that by simp
qed


text \<open>The credential stays the target, with the new failure count.\<close>

lemma target_after_failure:
  assumes "password_target pid e email d acc cred"
    and "lock_tables d' = lock_tables (d\<lparr>db_credentials := update_where (\<lambda>k. k_id k = k_id cred)
        (\<lambda>k. k\<lparr>k_data := Some v, k_updated_at := t\<rparr>) (db_credentials d)\<rparr>)"
  shows "password_target pid e email d' acc (cred\<lparr>k_data := Some v, k_updated_at := t\<rparr>)"
proof -
  let ?f = "\<lambda>k. k\<lparr>k_data := Some v, k_updated_at := t\<rparr>"
  have "find (password_credential pid e (acc_id acc)) (update_where (\<lambda>k. k_id k = k_id cred) ?f ks)
      = map_option (\<lambda>k. if k_id k = k_id cred then ?f k else k) (find (password_credential pid e (acc_id acc)) ks)" for ks
    by (induction ks) (auto simp: update_where_def password_credential_def)
  then show ?thesis using assms by (auto simp: password_target_def lock_tables_def)
qed

text \<open>A series of attempts, and how many of them were not refused as locked.\<close>

fun guesses :: "sys \<Rightarrow> string \<Rightarrow> string \<Rightarrow> (ctx \<times> string) list \<Rightarrow> txs \<Rightarrow> nat" where
  "guesses sy pid email [] s = 0"
| "guesses sy pid email ((c, pw) # as) s =
     (let (r, s') = AuthenticatePassword sy c pid email pw s in
      (if r = Inl ErrAccountLocked then 0 else 1) + guesses sy pid email as s')"

definition attempt_in :: "sys \<Rightarrow> string \<Rightarrow> string \<Rightarrow> string \<Rightarrow> instant \<Rightarrow> txs \<Rightarrow> ctx \<times> string \<Rightarrow> bool" where
  "attempt_in sy pid e secret t0 s a \<longleftrightarrow>
     effectiveEnv sy (fst a) pid s = (Inr e, s) \<and> \<not> coreAuthCheckPassword sy secret (snd a)
   \<and> t0 \<le> cx_now (fst a) \<and> nowIn (fst a) < t0 + coreAuthLockoutDuration"

lemma attempt_in_cong:
  assumes "attempt_in sy pid e secret t0 s a" and "db_envs (tx_db s') = db_envs (tx_db s)"
  shows "attempt_in sy pid e secret t0 s' a"
proof -
  have "effectiveEnv sy (fst a) pid s' = (Inr e, s')"
    using assms(1) effectiveEnv_cong [OF assms(2), of sy "fst a" pid] effectiveEnv_state [of sy "fst a" pid s']
    by (simp add: attempt_in_def prod_eq_iff)
  then show ?thesis using assms(1) by (simp add: attempt_in_def)
qed

lemma guesses_locked:
  assumes "tx_pool s = []" and "pid \<noteq> []" and "email \<noteq> []"
    and "password_target pid e email (tx_db s) acc cred" and "pc_locked_until (credential_data cred) \<ge> t0 + coreAuthLockoutDuration"
    and "\<forall>a \<in> set as. attempt_in sy pid e secret t0 s a"
  shows "guesses sy pid email as s = 0"
  using assms(6)
proof (induction as)
  case (Cons a as)
  obtain c pw where a: "a = (c, pw)" by (cases a)
  have "AuthenticatePassword sy c pid email pw s = (Inl ErrAccountLocked, s)"
    using Cons.prems assms(5) by (intro locked_attempt [OF assms(1-3) _ assms(4)]) (auto simp: attempt_in_def a)
  then show ?case using Cons by (simp add: a)
qed simp

lemma guesses_bound:
  assumes "tx_pool s = []" and "pid \<noteq> []" and "email \<noteq> []" and "password_target pid e email (tx_db s) acc cred"
    and "0 \<le> pc_failed_attempts (credential_data cred)" and "\<forall>a \<in> set as. attempt_in sy pid e (k_secret cred) t0 s a"
  shows "int (guesses sy pid email as s) \<le> max 1 (coreAuthMaxLoginFailures - pc_failed_attempts (credential_data cred))"
  using assms(1,4-6)
proof (induction as arbitrary: s cred)
  case (Cons a as)
  obtain c pw where a: "a = (c, pw)" by (cases a)
  let ?v = "credential_data cred"
  have env: "effectiveEnv sy c pid s = (Inr e, s)" and bad: "\<not> coreAuthCheckPassword sy (k_secret cred) pw"
    and t: "t0 \<le> cx_now c" using Cons.prems(4) by (auto simp: attempt_in_def a)
  show ?case
  proof (cases "pc_locked_until ?v > nowIn c")
    case True
    from locked_attempt [OF Cons.prems(1) assms(2,3) env Cons.prems(2) True] Cons.IH [OF Cons.prems(1-3)] Cons.prems(4)
    show ?thesis by (simp add: a)
  next
    case False
    let ?w = "failed_credential (cx_now c) ?v"
    let ?k = "cred\<lparr>k_data := Some ?w, k_updated_at := cx_now c\<rparr>"
    obtain er s' where run: "AuthenticatePassword sy c pid email pw s = (Inl er, s')" and pool: "tx_pool s' = []"
      and tabs: "lock_tables (tx_db s') = lock_tables ((tx_db s)\<lparr>db_credentials := update_where (\<lambda>k. k_id k = k_id cred)
        (\<lambda>k. k\<lparr>k_data := Some ?w, k_updated_at := cx_now c\<rparr>) (db_credentials (tx_db s))\<rparr>)"
      by (rule wrong_attempt [OF Cons.prems(1) assms(2,3) env Cons.prems(2) False bad])
    have tgt: "password_target pid e email (tx_db s') acc ?k" by (rule target_after_failure [OF Cons.prems(2) tabs])
    have envs: "db_envs (tx_db s') = db_envs (tx_db s)" using tabs by (simp add: lock_tables_def)
    have rest: "\<forall>a \<in> set as. attempt_in sy pid e (k_secret ?k) t0 s' a"
      using Cons.prems(4) attempt_in_cong [OF _ envs] by simp
    have data: "credential_data ?k = ?w" by (simp add: credential_data_def)
    have "int (guesses sy pid email as s') \<le>
        (if pc_failed_attempts ?v + 1 \<ge> coreAuthMaxLoginFailures then 0 else coreAuthMaxLoginFailures - (pc_failed_attempts ?v + 1))"
    proof (cases "pc_failed_attempts ?v + 1 \<ge> coreAuthMaxLoginFailures")
      case True
      then have "pc_locked_until (credential_data ?k) \<ge> t0 + coreAuthLockoutDuration"
        unfolding data using t by (simp add: failed_credential_def)
      from guesses_locked [OF pool assms(2,3) tgt this rest] True show ?thesis by simp
    next
      case False
      then have n: "pc_failed_attempts (credential_data ?k) = pc_failed_attempts ?v + 1"
        unfolding data by (simp add: failed_credential_def)
      have "0 \<le> pc_failed_attempts (credential_data ?k)" unfolding n using Cons.prems(3) by simp
      from Cons.IH [OF pool tgt this rest, unfolded n] False show ?thesis by (simp add: max_def)
    qed
    then show ?thesis by (simp add: a run split: if_splits)
  qed
qed (simp add: max_def)


definition password_credential_row :: credential_row where
  "password_credential_row =
     \<lparr>k_id = ''k'', k_project_id = ''p'', k_environment = ''live'', k_user_id = ''alice'', k_type = ''password'',
      k_secret = ''b:pw'', k_updated_at = 0, k_data = Some (empty_credential\<lparr>pc_failed_attempts := 3\<rparr>)\<rparr>"

definition password_db :: db where
  "password_db = sample_db\<lparr>db_credentials := [password_credential_row]\<rparr>"

lemma sample_effectiveEnv: "effectiveEnv sample_sys (sample_ctx n) pid s = (Inr ''live'', s)"
  by (simp add: effectiveEnv_def sample_ctx_def requested_env_def runtimeDefaultEnv_def)

lemma sample_target: "password_target ''p'' ''live'' ''a@x'' password_db sample_account password_credential_row"
  by (simp add: password_target_def password_db_def sample_db_def password_credential_def password_credential_row_def
      sample_account_def coreAuthCredentialPassword_def)


section \<open>What a successful sign-in has passed\<close>

definition row_active :: "factor_row \<Rightarrow> bool" where
  "row_active r \<longleftrightarrow>
     (case f_data r of Some f \<Rightarrow> (if fa_status f = [] then f_status r else fa_status f) = coreAuthStatusActive | None \<Rightarrow> False)"

lemma mfaFactorFromRow_Inr:
  "mfaFactorFromRow r s = (Inr f, s') \<Longrightarrow> s' = s \<and> (fa_status f = coreAuthStatusActive \<longleftrightarrow> row_active r)"
  by (auto simp: mfaFactorFromRow_def res_simps row_active_def)

lemma active_factors_Inr:
  "active_factors rows s = (Inr fs, s') \<Longrightarrow> s' = s \<and> (fs = [] \<longleftrightarrow> \<not> list_ex row_active rows)"
  by (induction rows arbitrary: fs s') (auto simp: res_simps dest!: mfaFactorFromRow_Inr split: if_splits)

lemma coreAuthActiveFactors_Inr:
  assumes "coreAuthActiveFactors a s = (Inr fs, s')"
  shows "s' = s" and "fs = [] \<longleftrightarrow> \<not> list_ex row_active (filter (\<lambda>r. f_user_id r = a) (db_factors (tx_db s)))"
  using assms active_factors_Inr [of "filter (\<lambda>r. f_user_id r = a) (db_factors (tx_db s))" s fs s']
  by (simp_all add: coreAuthActiveFactors_def tx_bind_def)

lemma load_target_Inr:
  assumes "coreAuthLoadPasswordCredential sy c pid email s = (Inr (acc, cred, v), s')"
  obtains e where "s' = s" and "effectiveEnv sy c pid s = (Inr e, s)" and "password_target pid e email (tx_db s) acc cred"
    and "v = credential_data cred"
proof -
  obtain e where e: "effectiveEnv sy c pid s = (Inr e, s)"
    using assms effectiveEnv_state [of sy c pid s]
    by (cases "effectiveEnv sy c pid s"; cases "fst (effectiveEnv sy c pid s)")
      (auto simp: coreAuthLoadPasswordCredential_def tx_handle_def coreAuthFindUserByEmail_def split: if_splits)
  then have "s' = s \<and> password_target pid e email (tx_db s) acc cred \<and> v = credential_data cred"
    using assms
    by (auto simp: coreAuthLoadPasswordCredential_def tx_handle_def coreAuthFindUserByEmail_def res_simps coreAuthLoadAccount_def
        coreAuthFindPasswordCredential_def password_target_def split: option.splits if_splits)
  then show thesis using that e by blast
qed

lemma coreAuthVerifyPassword_Inr:
  assumes "coreAuthVerifyPassword sy c cred v pw s = (Inr n, s')"
  shows "coreAuthCheckPassword sy (k_secret cred) pw" and "pc_locked_until v \<le> nowIn c" and "tx_db s' = tx_db s"
    and "n = pc_failed_attempts v"
    and "(\<And>f d. p (db_credentials_update f d) = p d) \<Longrightarrow> \<exists>ws. tx_pool s' = tx_pool s @ ws \<and> (\<forall>d. p (apply_pool ws d) = p d)"
  using assms
  by (auto simp: coreAuthVerifyPassword_def res_simps coreAuthClearLoginFailures_def coreAuthPersistCredentialLock_def apply_pool_def
      split: if_splits)

lemma evaluateSignInRisk_Inr:
  assumes "evaluateSignInRisk sy c pid e a n s = (Inr r, s')"
  shows "tx_db s' = tx_db s"
    and "(\<And>f d. p (db_risk_events_update f d) = p d) \<Longrightarrow> \<exists>ws. tx_pool s' = tx_pool s @ ws \<and> (\<forall>d. p (apply_pool ws d) = p d)"
  using assms
  by (auto simp: evaluateSignInRisk_def ListRules_def signInSignals_def sessionSeen_def recordRiskEvent_def newUUID_def Let_def
      res_simps apply_pool_def split: if_splits sum.splits)


lemma coreAuthCompletePasswordSignIn_Inr:
  assumes "coreAuthCompletePasswordSignIn sy c acc n s = (Inr res, s')"
  obtains fs env r s1 where "coreAuthActiveFactors (acc_id acc) s = (Inr fs, s)"
    and "evaluateSignInRisk sy c (acc_project_id acc) env (acc_id acc) n s = (Inr r, s1)"
    and "rk_decided r \<noteq> riskActionBlock" and "pw_account res = acc"
    and "if fs \<noteq> [] then s' = s1 \<and> pw_mfa_required res \<and> pw_session res = None
      else \<exists>sess s2. coreAuthMintSession sy c acc [] [''pwd''] 1 s1 = (Inr sess, s2) \<and> pw_session res = Some sess"
proof -
  obtain fs sa env sb r s1 where st: "coreAuthActiveFactors (acc_id acc) s = (Inr fs, sa)"
    "effectiveEnv sy c (acc_project_id acc) sa = (Inr env, sb)"
    "evaluateSignInRisk sy c (acc_project_id acc) env (acc_id acc) n sb = (Inr r, s1)"
    "rk_decided r \<noteq> riskActionBlock" "pw_account res = acc"
    "if fs \<noteq> [] then s' = s1 \<and> pw_mfa_required res \<and> pw_session res = None
      else \<exists>sess s2. coreAuthMintSession sy c acc [] [''pwd''] 1 s1 = (Inr sess, s2) \<and> pw_session res = Some sess"
    using assms unfolding coreAuthCompletePasswordSignIn_def by (auto simp: res_simps split: if_splits)
  have "sa = s" by (rule coreAuthActiveFactors_Inr(1) [OF st(1)])
  moreover have "sb = sa" using effectiveEnv_state [of sy c "acc_project_id acc" sa] st(2) by simp
  ultimately show thesis using that st by simp
qed

lemma AuthenticatePassword_Inr:
  assumes "AuthenticatePassword sy c pid email pw s = (Inr res, s')" and "tx_pool s = []"
  obtains s1 where "password_sign_in sy c pid email pw s = (Inr res, s1)" and "tx_db s' = apply_pool (tx_pool s1) (tx_db s1)"
  using assms by (auto simp: AuthenticatePassword_def withTx_idle split: if_splits prod.splits sum.splits)

definition session_tables where "session_tables d = (db_sessions d, db_refresh d)"

text \<open>C7: a password sign-in that succeeds has found an active account by its email in the environment of
  the request, its password credential was not locked and the password matched the stored hash. When
  the account has an active second factor the result asks for it and carries no session, and no
  session or refresh token has been created; otherwise the session is the account's, at assurance
  level 1.\<close>

theorem password_sign_in_sound:
  assumes "AuthenticatePassword sy c pid email pw s = (Inr res, s')" and "tx_pool s = []"
  shows "\<exists>e acc cred. effectiveEnv sy c pid s = (Inr e, s) \<and> password_target pid e email (tx_db s) acc cred
     \<and> coreAuthCheckPassword sy (k_secret cred) pw \<and> pc_locked_until (credential_data cred) \<le> nowIn c
     \<and> coreAuthAccountActive (cx_now c) acc = Inr () \<and> pw_account res = acc
     \<and> (if list_ex row_active (filter (\<lambda>r. f_user_id r = acc_id acc) (db_factors (tx_db s)))
        then pw_mfa_required res \<and> pw_session res = None \<and> session_tables (tx_db s') = session_tables (tx_db s)
        else \<exists>sess. pw_session res = Some sess \<and> se_account_id sess = acc_id acc \<and> se_aal sess = 1 \<and> se_amr sess = [''pwd''])"
proof -
  obtain s1 where run: "password_sign_in sy c pid email pw s = (Inr res, s1)"
    and db: "tx_db s' = apply_pool (tx_pool s1) (tx_db s1)" by (rule AuthenticatePassword_Inr [OF assms])
  obtain acc cred v n s2 s3 where
    ld: "coreAuthLoadPasswordCredential sy c pid email s = (Inr (acc, cred, v), s2)"
    and vp: "coreAuthVerifyPassword sy c cred v pw s2 = (Inr n, s3)"
    and act: "coreAuthAccountActive (cx_now c) acc = Inr ()"
    and cp: "coreAuthCompletePasswordSignIn sy c acc n s3 = (Inr res, s1)"
    using run by (auto simp: password_sign_in_def res_simps)
  obtain e where e: "s2 = s" "effectiveEnv sy c pid s = (Inr e, s)" "password_target pid e email (tx_db s) acc cred"
    "v = credential_data cred" by (rule load_target_Inr [OF ld])
  note v = coreAuthVerifyPassword_Inr [OF vp]
  obtain fs env r s4 where fs: "coreAuthActiveFactors (acc_id acc) s3 = (Inr fs, s3)"
    and rk: "evaluateSignInRisk sy c (acc_project_id acc) env (acc_id acc) n s3 = (Inr r, s4)"
    and "rk_decided r \<noteq> riskActionBlock" and res: "pw_account res = acc"
    and out: "if fs \<noteq> [] then s1 = s4 \<and> pw_mfa_required res \<and> pw_session res = None
      else \<exists>sess s2. coreAuthMintSession sy c acc [] [''pwd''] 1 s4 = (Inr sess, s2) \<and> pw_session res = Some sess"
    by (rule coreAuthCompletePasswordSignIn_Inr [OF cp])
  have d: "tx_db s4 = tx_db s" using v(3) e(1) evaluateSignInRisk_Inr(1) [OF rk] by simp
  have fac: "fs = [] \<longleftrightarrow> \<not> list_ex row_active (filter (\<lambda>r. f_user_id r = acc_id acc) (db_factors (tx_db s)))"
    using coreAuthActiveFactors_Inr(2) [OF fs] v(3) e(1) by simp
  show ?thesis
  proof (cases "fs = []")
    case True
    then obtain sess s5 where m: "coreAuthMintSession sy c acc [] [''pwd''] 1 s4 = (Inr sess, s5)" "pw_session res = Some sess"
      using out by auto
    have "se_account_id sess = acc_id acc \<and> se_aal sess = 1 \<and> se_amr sess = [''pwd'']"
      by (rule coreAuthMintSession_Inr [OF m(1)]) (simp add: newCoreAuthSession_def Let_def)
    then show ?thesis using e v(1,2) act m(2) res fac True by (intro exI [of _ e] exI [of _ acc] exI [of _ cred]) auto
  next
    case False
    obtain ws where ws: "tx_pool s3 = ws" "\<forall>d. session_tables (apply_pool ws d) = session_tables d"
      using v(5) [of session_tables] assms(2) e(1) by (auto simp: session_tables_def)
    obtain vs where vs: "tx_pool s4 = ws @ vs" "\<forall>d. session_tables (apply_pool vs d) = session_tables d"
      using evaluateSignInRisk_Inr(2) [OF rk, of session_tables] ws(1) by (auto simp: session_tables_def)
    have "session_tables (tx_db s') = session_tables (tx_db s)"
      using db out False vs ws(2) d by (simp add: apply_pool_def)
    then show ?thesis using e v(1,2) act out res fac False by (intro exI [of _ e] exI [of _ acc] exI [of _ cred]) auto
  qed
qed


definition mfa_db :: db where
  "mfa_db = password_db\<lparr>db_factors :=
     [\<lparr>f_id = ''f'', f_project_id = ''p'', f_environment = ''live'', f_user_id = ''alice'', f_type = ''totp'', f_status = ''active'',
       f_secret = Some ''k'', f_created_at = 0, f_data = Some \<lparr>fa_id = ''f'', fa_type = ''totp'', fa_status = ''active'', fa_hint = []\<rparr>\<rparr>]\<rparr>"

theorem password_sign_in_sound_witness:
  "\<exists>res s'. AuthenticatePassword sample_sys (sample_ctx 5) ''p'' ''a@x'' ''pw'' (sample_state mfa_db) = (Inr res, s')
     \<and> pw_mfa_required res \<and> pw_session res = None \<and> db_sessions (tx_db s') = db_sessions mfa_db"
proof -
  have "case fst (AuthenticatePassword sample_sys (sample_ctx 5) ''p'' ''a@x'' ''pw'' (sample_state mfa_db)) of
      Inr res \<Rightarrow> acc_id (pw_account res) = ''alice'' | Inl _ \<Rightarrow> False" by code_simp
  then obtain res s' where run: "AuthenticatePassword sample_sys (sample_ctx 5) ''p'' ''a@x'' ''pw'' (sample_state mfa_db) = (Inr res, s')"
    and acc: "acc_id (pw_account res) = ''alice''"
    by (cases "AuthenticatePassword sample_sys (sample_ctx 5) ''p'' ''a@x'' ''pw'' (sample_state mfa_db)") (auto split: sum.splits)
  have "list_ex row_active (filter (\<lambda>r. f_user_id r = ''alice'') (db_factors mfa_db))" by code_simp
  with password_sign_in_sound [OF run sample_state_idle(1)] run acc show ?thesis by (auto simp: session_tables_def)
qed

section \<open>The risk decision\<close>

definition fired :: "(string \<Rightarrow> bool) \<Rightarrow> AdminRiskRule list \<Rightarrow> AdminRiskRule list" where
  "fired holds rules = filter (\<lambda>r. rk_enabled r \<and> holds (EffectiveSignal r)) rules"

lemma apply_rules_allow:
  "list_ex (\<lambda>r. rk_action r = riskActionAllow) (fired holds rules) \<Longrightarrow>
     \<exists>v. apply_rules holds rules d = Inl v \<and> rk_decided v = riskActionAllow"
  by (induction rules arbitrary: d) (auto simp: fired_def Let_def)

lemma apply_rules_strongest:
  assumes "\<not> list_ex (\<lambda>r. rk_action r = riskActionAllow) (fired holds rules)"
  shows "\<exists>v. apply_rules holds rules d = Inr v \<and> riskActionRank (rk_decided d) \<le> riskActionRank (rk_decided v)
     \<and> list_all (\<lambda>r. riskActionRank (rk_action r) \<le> riskActionRank (rk_decided v)) (fired holds rules)
     \<and> (v = d \<or> list_ex (\<lambda>r. rk_action r = rk_decided v \<and> rk_name r = rk_by_rule v) (fired holds rules))"
  using assms
proof (induction rules arbitrary: d)
  case (Cons r rules)
  show ?case
  proof (cases "rk_enabled r \<and> holds (EffectiveSignal r)")
    case True
    let ?v = "\<lparr>rk_decided = rk_action r, rk_by_rule = rk_name r, rk_on_signal = EffectiveSignal r\<rparr>"
    show ?thesis
    proof (cases "riskActionRank (rk_action r) > riskActionRank (rk_decided d)")
      case rank: True
      have "\<not> list_ex (\<lambda>r. rk_action r = riskActionAllow) (fired holds rules)" using Cons.prems True by (simp add: fired_def)
      from Cons.IH [OF this, of ?v] True rank Cons.prems show ?thesis by (fastforce simp: fired_def Let_def)
    next
      case False
      have "\<not> list_ex (\<lambda>r. rk_action r = riskActionAllow) (fired holds rules)" using Cons.prems True by (simp add: fired_def)
      from Cons.IH [OF this, of d] True False Cons.prems show ?thesis by (fastforce simp: fired_def Let_def)
    qed
  next
    case False
    then have "\<not> list_ex (\<lambda>r. rk_action r = riskActionAllow) (fired holds rules)" using Cons.prems by (auto simp: fired_def)
    from Cons.IH [OF this, of d] False show ?thesis by (auto simp: fired_def Let_def)
  qed
qed (simp add: fired_def)

lemma signInSignals_run: "\<exists>sig. signInSignals c pid a n s = (Inr sig, s)"
  by (auto simp: signInSignals_def sessionSeen_def tx_bind_def Let_def)

definition signals_of :: "ctx \<Rightarrow> string \<Rightarrow> string \<Rightarrow> int \<Rightarrow> txs \<Rightarrow> string \<Rightarrow> bool" where
  "signals_of c pid a n s = (case fst (signInSignals c pid a n s) of Inr sig \<Rightarrow> signal_holds sig | Inl _ \<Rightarrow> (\<lambda>_. False))"

definition rules_of :: "string \<Rightarrow> db \<Rightarrow> AdminRiskRule list" where
  "rules_of pid d = map snd (filter (\<lambda>(p, _). p = pid) (db_risk_rules d))"

definition fired_rules :: "ctx \<Rightarrow> string \<Rightarrow> string \<Rightarrow> int \<Rightarrow> txs \<Rightarrow> AdminRiskRule list" where
  "fired_rules c pid a n s = fired (signals_of c pid a n s) (rules_of pid (tx_db s))"

text \<open>C36: the action the risk rules decide does not depend on their order. If an enabled rule that fires
  allows, the decision is allow and no event is written (although the comment on the actions says that allow
  records). Otherwise no rule that fires has a stronger action than the decision; when there is a decision it is
  the action of a rule that fires, and exactly one event, with that rule and action, is written on the pool, so
  that it survives the rollback of a blocked sign-in; when there is none nothing is written.\<close>

theorem risk_decision_order_independent:
  "\<exists>v s'. evaluateSignInRisk sy c pid env a n s = (Inr v, s') \<and> tx_db s' = tx_db s
     \<and> (if list_ex (\<lambda>r. rk_action r = riskActionAllow) (fired_rules c pid a n s) then rk_decided v = riskActionAllow \<and> tx_pool s' = tx_pool s
        else list_all (\<lambda>r. riskActionRank (rk_action r) \<le> riskActionRank (rk_decided v)) (fired_rules c pid a n s)
          \<and> (if rk_decided v = [] then tx_pool s' = tx_pool s
             else list_ex (\<lambda>r. rk_action r = rk_decided v \<and> rk_name r = rk_by_rule v) (fired_rules c pid a n s)
               \<and> tx_pool s' = tx_pool s @ [PoolRiskEvent \<lparr>re_project_id = pid, re_environment = env, re_account_id = a,
                   re_rule = rk_by_rule v, re_signal = rk_on_signal v, re_action = rk_decided v\<rparr>]))"
proof -
  obtain sig where sig: "signInSignals c pid a n s = (Inr sig, s)" using signInSignals_run by blast
  let ?rs = "rules_of pid (tx_db s)"
  let ?R = "fired_rules c pid a n s"
  have R: "?R = fired (signal_holds sig) ?rs" by (simp add: fired_rules_def signals_of_def sig)
  have run: "evaluateSignInRisk sy c pid env a n s = (if ?rs = [] then (Inr no_decision, s)
      else case apply_rules (signal_holds sig) ?rs no_decision of
             Inl allowed \<Rightarrow> (Inr allowed, s)
           | Inr v \<Rightarrow> if rk_decided v = [] then (Inr v, s)
               else tx_bind (recordRiskEvent sy pid env a v) (\<lambda>_. ret v) s)"
    by (simp add: evaluateSignInRisk_def ListRules_def rules_of_def sig tx_bind_def split: sum.split)
  show ?thesis
  proof (cases "list_ex (\<lambda>r. rk_action r = riskActionAllow) ?R")
    case True
    then obtain v where v: "apply_rules (signal_holds sig) ?rs no_decision = Inl v" "rk_decided v = riskActionAllow"
      using apply_rules_allow [of "signal_holds sig" ?rs no_decision] by (auto simp: R)
    have "?rs \<noteq> []" using True by (auto simp: R fired_def)
    with True v show ?thesis by (simp add: run)
  next
    case False
    then obtain v where v: "apply_rules (signal_holds sig) ?rs no_decision = Inr v"
      "list_all (\<lambda>r. riskActionRank (rk_action r) \<le> riskActionRank (rk_decided v)) ?R"
      "v = no_decision \<or> list_ex (\<lambda>r. rk_action r = rk_decided v \<and> rk_name r = rk_by_rule v) ?R"
      using apply_rules_strongest [of "signal_holds sig" ?rs no_decision] by (auto simp: R)
    have nd: "rk_decided no_decision = []" by (simp add: no_decision_def)
    have empty: "?rs = [] \<Longrightarrow> v = no_decision" using v(1) by simp
    show ?thesis
      using False v(2,3) nd empty
      by (auto simp: run v(1) recordRiskEvent_def newUUID_def tx_bind_def)
  qed
qed

end
