(* ===== verification/Challenges.thy ===== *)
theory Challenges
  imports Password
begin

text \<open>
  One-time challenges (\<open>src/internal/infrastructure/postgres/coreauth_pg.go\<close>): a code and a link token
  sent to a contact, and the operations they authorise: verification of an email or a phone, change
  of either, the password reset and the change of a password.
\<close>

section \<open>Issuing\<close>

definition coreAuthChallengeTTL :: duration where "coreAuthChallengeTTL = 15 * Minute"
definition coreAuthChallengeEmail :: string where "coreAuthChallengeEmail = ''email''"
definition coreAuthChallengePhone :: string where "coreAuthChallengePhone = ''phone''"

record Challenge =
  cl_id :: string
  cl_type :: string
  cl_expires_at :: instant
  cl_code :: string
  cl_token :: string

record CoreAuthVerifyStartCmd =
  vs_project_id :: string
  vs_account_id :: string
  vs_contact :: string
  vs_redirect_to :: string
  vs_locale :: string
  vs_channel :: string
  vs_suppress_email :: bool

record CoreAuthVerifyConsumeCmd =
  vc_project_id :: string
  vc_account_id :: string
  vc_challenge_id :: string
  vc_code :: string
  vc_token :: string

definition challenge_row_of :: "coreAuthChallengeData \<Rightarrow> string \<Rightarrow> challenge_row" where
  "challenge_row_of ch chEnv =
     \<lparr>ch_id = cg_id ch, ch_project_id = cg_project_id ch, ch_environment = chEnv, ch_type = cg_type ch,
      ch_subject = nullIfEmpty (cg_subject ch), ch_code_hash = nullIfEmpty (cg_code_hash ch),
      ch_expires_at = cg_expires_at ch, ch_consumed = False, ch_created_at = cg_created_at ch, ch_data = Some (core_doc ch)\<rparr>"

definition coreAuthInsertChallenge :: "sys \<Rightarrow> ctx \<Rightarrow> coreAuthChallengeData \<Rightarrow> Challenge tx" where
  "coreAuthInsertChallenge sy c ch =
     (let chEnv = (if cg_environment ch = [] then coreAuthDefaultEnv else cg_environment ch) in
      tx_bind (insert_row db_challenges db_challenges_update ch_id (challenge_row_of ch chEnv)) (\<lambda>_.
      tx_bind (Emit sy c ''challenge.created'' (cg_project_id ch) chEnv (cg_id ch) (PChallenge ch)) (\<lambda>_.
        ret \<lparr>cl_id = cg_id ch, cl_type = cg_type ch, cl_expires_at = cg_expires_at ch, cl_code = [], cl_token = []\<rparr>)))"

definition newCoreAuthChallenge ::
  "sys \<Rightarrow> ctx \<Rightarrow> CoreAuthVerifyStartCmd \<Rightarrow> string \<Rightarrow> string \<Rightarrow> (coreAuthChallengeData \<times> string \<times> string) tx" where
  "newCoreAuthChallenge sy c cmd chType purpose =
     (if vs_project_id cmd = [] then throw (WithMessage ''project is required'' ErrValidation)
      else if trim_space (vs_contact cmd) = [] then throw (WithMessage ''contact is required'' ErrValidation)
      else
        tx_bind (coreAuthRandomCode sy) (\<lambda>code.
        tx_bind (coreAuthRandomToken sy) (\<lambda>token.
        tx_bind (effectiveEnv sy c (vs_project_id cmd)) (\<lambda>env.
        tx_bind (newUUID sy) (\<lambda>i.
          ret (\<lparr>cg_id = i, cg_project_id = vs_project_id cmd, cg_environment = env, cg_type = chType, cg_purpose = purpose,
                cg_account_id = vs_account_id cmd, cg_subject = trim_space (vs_contact cmd),
                cg_code_hash = coreAuthSHA256 sy code, cg_token_hash = coreAuthSHA256 sy token,
                cg_redirect_to = vs_redirect_to cmd, cg_locale = vs_locale cmd, cg_channel = vs_channel cmd,
                cg_expires_at = cx_now c + coreAuthChallengeTTL, cg_created_at = cx_now c\<rparr>, code, token))))))"

definition challenge_mail :: "coreAuthChallengeData \<Rightarrow> string \<Rightarrow> string \<Rightarrow> payload" where
  "challenge_mail ch code token =
     PFields [(''code'', DStr code), (''token'', DStr token), (''channel'', DStr (cg_channel ch)),
       (''account_id'', DStr (cg_account_id ch)), (''challenge_id'', DStr (cg_id ch)), (''contact'', DStr (cg_subject ch)),
       (''to'', DStr (cg_subject ch)), (''locale'', DStr (cg_locale ch)), (''redirect_to'', DStr (cg_redirect_to ch)),
       (''purpose'', DStr (cg_purpose ch))]"

definition coreAuthStartChallenge :: "sys \<Rightarrow> ctx \<Rightarrow> CoreAuthVerifyStartCmd \<Rightarrow> string \<Rightarrow> string \<Rightarrow> Challenge tx" where
  "coreAuthStartChallenge sy c cmd chType purpose =
     tx_bind (newCoreAuthChallenge sy c cmd chType purpose) (\<lambda>(ch, code, token).
     withTx (
       tx_bind (coreAuthInsertChallenge sy c ch) (\<lambda>out.
       let out = out\<lparr>cl_code := code, cl_token := token\<rparr> in
       if vs_suppress_email cmd then ret out
       else tx_bind (Emit sy c (chType @ ''.verification.requested'') (cg_project_id ch) (cg_environment ch) (cg_id ch)
                       (challenge_mail ch code token)) (\<lambda>_. ret out))))"

section \<open>Consuming\<close>

text \<open>A row whose envelope does not decode is skipped.\<close>

definition token_matches :: "string \<Rightarrow> challenge_row \<Rightarrow> bool" where
  "token_matches wantHash r \<longleftrightarrow> (case core_data r of Some data \<Rightarrow> cg_token_hash data = wantHash | None \<Rightarrow> False)"

definition coreAuthFindChallengeByToken :: "sys \<Rightarrow> string \<Rightarrow> string \<Rightarrow> string \<Rightarrow> challenge_row tx" where
  "coreAuthFindChallengeByToken sy projectID wantType token =
     tx_bind (query (\<lambda>d. find (token_matches (coreAuthSHA256 sy token))
        (filter (\<lambda>r. ch_project_id r = projectID \<and> \<not> ch_consumed r \<and> ch_type r = wantType) (db_challenges d)))) (\<lambda>found.
       case found of Some r \<Rightarrow> ret r | None \<Rightarrow> throw ErrChallengeInvalid)"

definition coreAuthFindChallengeByTokenAnyProject :: "sys \<Rightarrow> string \<Rightarrow> string \<Rightarrow> challenge_row tx" where
  "coreAuthFindChallengeByTokenAnyProject sy wantType token =
     tx_bind (query (\<lambda>d. find (token_matches (coreAuthSHA256 sy token))
        (filter (\<lambda>r. ch_type r = wantType \<and> \<not> ch_consumed r) (db_challenges d)))) (\<lambda>found.
       case found of Some r \<Rightarrow> ret r | None \<Rightarrow> throw ErrChallengeInvalid)"

definition coreAuthLookupChallengeRow :: "sys \<Rightarrow> string \<Rightarrow> CoreAuthVerifyConsumeCmd \<Rightarrow> string \<Rightarrow> challenge_row tx" where
  "coreAuthLookupChallengeRow sy projectID cmd wantType =
     (if vc_challenge_id cmd \<noteq> []
      then tx_bind (query (\<lambda>d. find (\<lambda>r. ch_id r = vc_challenge_id cmd) (db_challenges d))) (\<lambda>found.
             case found of Some r \<Rightarrow> ret r | None \<Rightarrow> throw ErrChallengeInvalid)
      else if vc_token cmd \<noteq> [] then coreAuthFindChallengeByToken sy projectID wantType (vc_token cmd)
      else throw ErrChallengeInvalid)"

definition validateChallenge ::
  "sys \<Rightarrow> ctx \<Rightarrow> challenge_row \<Rightarrow> string \<Rightarrow> CoreAuthVerifyConsumeCmd \<Rightarrow> string \<Rightarrow> coreAuthChallengeData tx" where
  "validateChallenge sy c row projectID cmd wantType =
     (if ch_project_id row \<noteq> projectID then throw ErrChallengeInvalid
      else tx_bind (unmarshal (core_data row)) (\<lambda>data.
        if wantType \<noteq> [] \<and> cg_type data \<noteq> wantType then throw ErrChallengeInvalid
        else if ch_consumed row then throw ErrTokenUsed
        else if ch_expires_at row \<noteq> zeroTime \<and> nowIn c > ch_expires_at row then throw ErrChallengeExpired
        else if vc_code cmd \<noteq> []
        then (if coreAuthSHA256 sy (vc_code cmd) \<noteq> cg_code_hash data then throw ErrInvalidOTP else ret data)
        else if vc_token cmd \<noteq> []
        then (if coreAuthSHA256 sy (vc_token cmd) \<noteq> cg_token_hash data then throw ErrChallengeInvalid else ret data)
        else throw ErrChallengeInvalid))"

definition mark_consumed :: "challenge_row \<Rightarrow> unit tx" where
  "mark_consumed row =
     exec (db_challenges_update (update_where (\<lambda>r. ch_id r = ch_id row) (\<lambda>r. r\<lparr>ch_consumed := True\<rparr>)))"

definition coreAuthConsumeChallenge ::
  "sys \<Rightarrow> ctx \<Rightarrow> string \<Rightarrow> CoreAuthVerifyConsumeCmd \<Rightarrow> string \<Rightarrow> coreAuthChallengeData tx" where
  "coreAuthConsumeChallenge sy c projectID cmd wantType =
     tx_bind (coreAuthLookupChallengeRow sy projectID cmd wantType) (\<lambda>row.
     tx_bind (validateChallenge sy c row projectID cmd wantType) (\<lambda>data.
     tx_bind (mark_consumed row) (\<lambda>_.
     tx_bind (Emit sy c ''challenge.consumed'' projectID coreAuthDefaultEnv (ch_id row) (PChallenge data)) (\<lambda>_.
       ret data))))"

section \<open>The account\<close>

text \<open>The lookup columns follow the envelope; an empty contact leaves its column as it is.\<close>

definition sync_user :: "Account \<Rightarrow> user_row \<Rightarrow> user_row" where
  "sync_user acc r =
     r\<lparr>u_status := acc_status acc, u_data := Some acc, u_updated_at := acc_updated_at acc,
       u_primary_email := (if acc_primary_email acc \<noteq> [] then Some (acc_primary_email acc) else u_primary_email r),
       u_primary_phone := (if acc_primary_phone acc \<noteq> [] then Some (acc_primary_phone acc) else u_primary_phone r)\<rparr>"

definition contact_clash :: "user_row \<Rightarrow> user_row \<Rightarrow> bool" where
  "contact_clash a b \<longleftrightarrow>
     u_id a \<noteq> u_id b \<and> u_project_id a = u_project_id b \<and> u_environment a = u_environment b
   \<and> (u_primary_email a \<noteq> None \<and> u_primary_email a = u_primary_email b
      \<or> u_primary_phone a \<noteq> None \<and> u_primary_phone a = u_primary_phone b)"

definition coreAuthUpdateAccount :: "sys \<Rightarrow> ctx \<Rightarrow> Account \<Rightarrow> Account tx" where
  "coreAuthUpdateAccount sy c acc =
     tx_bind (FindIamUser ErrNotFound (acc_id acc)) (\<lambda>row.
       if u_project_id row \<noteq> acc_project_id acc then throw ErrUserNotFound
       else
         let acc = acc\<lparr>acc_updated_at := cx_now c\<rparr>; row' = sync_user acc row in
         tx_bind (query (\<lambda>d. list_ex (contact_clash row') (db_users d))) (\<lambda>clash.
           if clash then throw ErrEmailExists
           else
             tx_bind (exec (db_users_update (update_where (\<lambda>r. u_id r = u_id row) (\<lambda>_. row')))) (\<lambda>_.
             tx_bind (Emit sy c ''user.updated'' (acc_project_id acc) coreAuthDefaultEnv (acc_id acc) (PAccount acc)) (\<lambda>_.
               ret acc))))"

definition coreAuthFindUserByPhone :: "sys \<Rightarrow> ctx \<Rightarrow> string \<Rightarrow> string \<Rightarrow> user_row tx" where
  "coreAuthFindUserByPhone sy c projectID phone =
     tx_bind (effectiveEnv sy c projectID) (\<lambda>env.
     tx_bind (query (\<lambda>d. find (\<lambda>r. u_project_id r = projectID \<and> u_environment r = env \<and> u_primary_phone r = Some phone) (db_users d))) (\<lambda>row.
       case row of Some r \<Rightarrow> ret r | None \<Rightarrow> throw ErrUserNotFound))"

section \<open>Verification\<close>

definition StartEmailVerification :: "sys \<Rightarrow> ctx \<Rightarrow> CoreAuthVerifyStartCmd \<Rightarrow> Challenge tx" where
  "StartEmailVerification sy c cmd = coreAuthStartChallenge sy c cmd coreAuthChallengeEmail ''verify''"

definition StartPhoneVerification :: "sys \<Rightarrow> ctx \<Rightarrow> CoreAuthVerifyStartCmd \<Rightarrow> Challenge tx" where
  "StartPhoneVerification sy c cmd = coreAuthStartChallenge sy c cmd coreAuthChallengePhone ''verify''"

definition StartEmailChange :: "sys \<Rightarrow> ctx \<Rightarrow> CoreAuthVerifyStartCmd \<Rightarrow> Challenge tx" where
  "StartEmailChange sy c cmd = coreAuthStartChallenge sy c cmd coreAuthChallengeEmail ''change''"

definition StartPhoneChange :: "sys \<Rightarrow> ctx \<Rightarrow> CoreAuthVerifyStartCmd \<Rightarrow> Challenge tx" where
  "StartPhoneChange sy c cmd = coreAuthStartChallenge sy c cmd coreAuthChallengePhone ''change''"

definition VerifyEmail :: "sys \<Rightarrow> ctx \<Rightarrow> CoreAuthVerifyConsumeCmd \<Rightarrow> (Account \<times> Session) tx" where
  "VerifyEmail sy c cmd = withTx (
     tx_bind (coreAuthConsumeChallenge sy c (vc_project_id cmd) cmd coreAuthChallengeEmail) (\<lambda>data.
     tx_bind (coreAuthFindUserByEmail sy c (vc_project_id cmd) (cg_subject data)) (\<lambda>userRow.
     tx_bind (coreAuthLoadAccount userRow (vc_project_id cmd)) (\<lambda>acc.
     tx_bind (coreAuthUpdateAccount sy c (acc\<lparr>acc_email_verified := True\<rparr>)) (\<lambda>acc.
     tx_bind (coreAuthMintSession sy c acc [] [''otp''] 1) (\<lambda>sess.
     tx_bind (Emit sy c ''email.verified'' (acc_project_id acc) coreAuthDefaultEnv (acc_id acc) (PAccount acc)) (\<lambda>_.
       ret (acc, sess))))))))"

definition VerifyPhone :: "sys \<Rightarrow> ctx \<Rightarrow> CoreAuthVerifyConsumeCmd \<Rightarrow> (Account \<times> Session) tx" where
  "VerifyPhone sy c cmd = withTx (
     tx_bind (coreAuthConsumeChallenge sy c (vc_project_id cmd) cmd coreAuthChallengePhone) (\<lambda>data.
     tx_bind (coreAuthFindUserByPhone sy c (vc_project_id cmd) (cg_subject data)) (\<lambda>userRow.
     tx_bind (coreAuthLoadAccount userRow (vc_project_id cmd)) (\<lambda>acc.
     tx_bind (coreAuthUpdateAccount sy c acc) (\<lambda>acc.
     tx_bind (coreAuthMintSession sy c acc [] [''otp''] 1) (\<lambda>sess.
     tx_bind (Emit sy c ''phone.verified'' (acc_project_id acc) coreAuthDefaultEnv (acc_id acc) (PAccount acc)) (\<lambda>_.
       ret (acc, sess))))))))"

definition change_account :: "CoreAuthVerifyConsumeCmd \<Rightarrow> coreAuthChallengeData \<Rightarrow> string" where
  "change_account cmd data = (if vc_account_id cmd = [] then cg_account_id data else vc_account_id cmd)"

definition VerifyEmailChange :: "sys \<Rightarrow> ctx \<Rightarrow> CoreAuthVerifyConsumeCmd \<Rightarrow> Account tx" where
  "VerifyEmailChange sy c cmd = withTx (
     tx_bind (coreAuthConsumeChallenge sy c (vc_project_id cmd) cmd coreAuthChallengeEmail) (\<lambda>data.
     tx_bind (FindIamUser ErrUserNotFound (change_account cmd data)) (\<lambda>userRow.
     tx_bind (coreAuthLoadAccount userRow (vc_project_id cmd)) (\<lambda>acc.
     let c = c\<lparr>cx_old_contact := Some (securityVerifiedContacts acc)\<rparr> in
     tx_bind (coreAuthUpdateAccount sy c (acc\<lparr>acc_primary_email := cg_subject data, acc_email_verified := True\<rparr>)) (\<lambda>acc.
     tx_bind (Emit sy c ''email.changed'' (acc_project_id acc) coreAuthDefaultEnv (acc_id acc) (PAccount acc)) (\<lambda>_.
       ret acc))))))"

definition VerifyPhoneChange :: "sys \<Rightarrow> ctx \<Rightarrow> CoreAuthVerifyConsumeCmd \<Rightarrow> Account tx" where
  "VerifyPhoneChange sy c cmd = withTx (
     tx_bind (coreAuthConsumeChallenge sy c (vc_project_id cmd) cmd coreAuthChallengePhone) (\<lambda>data.
     tx_bind (FindIamUser ErrUserNotFound (change_account cmd data)) (\<lambda>userRow.
     tx_bind (coreAuthLoadAccount userRow (vc_project_id cmd)) (\<lambda>acc.
     let c = c\<lparr>cx_old_contact := Some (securityVerifiedContacts acc)\<rparr> in
     tx_bind (coreAuthUpdateAccount sy c (acc\<lparr>acc_primary_phone := cg_subject data, acc_phone_verified := True\<rparr>)) (\<lambda>acc.
     tx_bind (Emit sy c ''phone.changed'' (acc_project_id acc) coreAuthDefaultEnv (acc_id acc) (PAccount acc)) (\<lambda>_.
       ret acc))))))"

definition CancelEmailChange :: "sys \<Rightarrow> ctx \<Rightarrow> string \<Rightarrow> unit tx" where
  "CancelEmailChange sy c token =
     (if trim_space token = [] then throw ErrChallengeInvalid
      else withTx (
        tx_bind (coreAuthFindChallengeByTokenAnyProject sy coreAuthChallengeEmail token) (\<lambda>row.
        tx_bind (mark_consumed row) (\<lambda>_.
          Emit sy c ''email_change.cancelled'' (ch_project_id row) coreAuthDefaultEnv (ch_id row)
            (PFields [(''challenge_id'', DStr (ch_id row)), (''project_id'', DStr (ch_project_id row))])))))"

section \<open>The link callback\<close>

definition coreAuthSameOrigin :: "sys \<Rightarrow> string \<Rightarrow> string \<Rightarrow> bool" where
  "coreAuthSameOrigin sy a b =
     (case (sy_parse_url sy a, sy_parse_url sy b) of
        (Some ua, Some ub) \<Rightarrow>
          \<not> (u_scheme ua = [] \<or> u_host ua = [] \<or> u_scheme ub = [] \<or> u_host ub = [])
          \<and> sy_fold sy (u_scheme ua) = sy_fold sy (u_scheme ub) \<and> sy_fold sy (u_host ua) = sy_fold sy (u_host ub)
      | _ \<Rightarrow> False)"

definition coreAuthSafeRedirect :: "sys \<Rightarrow> ctx \<Rightarrow> string \<Rightarrow> string \<Rightarrow> string tx" where
  "coreAuthSafeRedirect sy c projectID candidate =
     (let candidate = trim_space candidate in
      if candidate = [] then ret []
      else if has_prefix candidate ''/'' \<and> \<not> has_prefix candidate ''//'' then ret candidate
      else tx_handle (AuthConfig sy c projectID) (\<lambda>_. ret []) (\<lambda>auth.
             if ea_app_base_url auth \<noteq> [] \<and> coreAuthSameOrigin sy candidate (ea_app_base_url auth)
             then ret candidate else ret []))"

definition verified_by_link :: "sys \<Rightarrow> ctx \<Rightarrow> coreAuthChallengeData \<Rightarrow> unit tx" where
  "verified_by_link sy c data =
     tx_handle (tx_bind (coreAuthFindUserByEmail sy c (cg_project_id data) (cg_subject data)) (\<lambda>userRow.
                  coreAuthLoadAccount userRow (cg_project_id data)))
       (\<lambda>_. ret ())
       (\<lambda>acc. tx_bind (coreAuthUpdateAccount sy c (acc\<lparr>acc_email_verified := True\<rparr>)) (\<lambda>_. ret ()))"

definition VerifyEmailCallback :: "sys \<Rightarrow> ctx \<Rightarrow> string \<Rightarrow> string \<Rightarrow> string tx" where
  "VerifyEmailCallback sy c token redirectTo =
     (if trim_space token = [] then throw ErrChallengeInvalid
      else withTx (
        tx_bind (coreAuthFindChallengeByTokenAnyProject sy coreAuthChallengeEmail token) (\<lambda>row.
        tx_bind (unmarshal (core_data row)) (\<lambda>data.
        tx_bind (coreAuthConsumeChallenge sy c (cg_project_id data)
                   \<lparr>vc_project_id = cg_project_id data, vc_account_id = [], vc_challenge_id = [], vc_code = [], vc_token = token\<rparr>
                   coreAuthChallengeEmail) (\<lambda>_.
        tx_bind (verified_by_link sy c data) (\<lambda>_.
        tx_bind (coreAuthSafeRedirect sy c (cg_project_id data) redirectTo) (\<lambda>redirect.
        tx_bind (if redirect = [] then coreAuthSafeRedirect sy c (cg_project_id data) (cg_redirect_to data) else ret redirect) (\<lambda>redirect.
        tx_bind (Emit sy c ''email.verified'' (cg_project_id data) coreAuthDefaultEnv (cg_account_id data) (PChallenge data)) (\<lambda>_.
          ret redirect)))))))))"

section \<open>The password lifecycle\<close>

record CoreAuthPasswordForgotCmd =
  fg_project_id :: string
  fg_email :: string
  fg_redirect_to :: string
  fg_locale :: string
  fg_captcha_token :: string

record CoreAuthPasswordResetCmd =
  rs_project_id :: string
  rs_token :: string
  rs_challenge_id :: string
  rs_code :: string
  rs_new_password :: string

record CoreAuthPasswordChangeCmd =
  cc_account_id :: string
  cc_session_id :: string
  cc_current_password :: string
  cc_new_password :: string
  cc_revoke_other_sessions :: bool

definition issue_reset :: "sys \<Rightarrow> ctx \<Rightarrow> CoreAuthPasswordForgotCmd \<Rightarrow> Account \<Rightarrow> unit tx" where
  "issue_reset sy c cmd acc =
     tx_bind (coreAuthRandomCode sy) (\<lambda>code.
     tx_bind (coreAuthRandomToken sy) (\<lambda>token.
     tx_bind (newUUID sy) (\<lambda>i.
     let ch = \<lparr>cg_id = i, cg_project_id = fg_project_id cmd, cg_environment = [], cg_type = ''password_reset'',
               cg_purpose = ''reset'', cg_account_id = acc_id acc, cg_subject = fg_email cmd,
               cg_code_hash = coreAuthSHA256 sy code, cg_token_hash = coreAuthSHA256 sy token,
               cg_redirect_to = fg_redirect_to cmd, cg_locale = fg_locale cmd, cg_channel = [],
               cg_expires_at = cx_now c + coreAuthChallengeTTL, cg_created_at = cx_now c\<rparr> in
     tx_bind (coreAuthInsertChallenge sy c ch) (\<lambda>_.
       Emit sy c ''password.reset_requested'' (fg_project_id cmd) coreAuthDefaultEnv (acc_id acc)
         (PFields [(''code'', DStr code), (''token'', DStr token), (''account_id'', DStr (acc_id acc)),
            (''challenge_id'', DStr (cg_id ch)), (''contact'', DStr (cg_subject ch)), (''to'', DStr (cg_subject ch)),
            (''locale'', DStr (cg_locale ch)), (''redirect_to'', DStr (cg_redirect_to ch)), (''purpose'', DStr (cg_purpose ch))])))))"

definition ForgotPassword :: "sys \<Rightarrow> ctx \<Rightarrow> CoreAuthPasswordForgotCmd \<Rightarrow> unit tx" where
  "ForgotPassword sy c cmd =
     (if fg_project_id cmd = [] \<or> trim_space (fg_email cmd) = []
      then throw (WithMessage ''project and email are required'' ErrValidation)
      else withTx (
        tx_handle (coreAuthFindUserByEmail sy c (fg_project_id cmd) (fg_email cmd))
          (\<lambda>e. if err_is e ErrUserNotFound then ret () else throw e)
          (\<lambda>userRow.
             tx_bind (coreAuthLoadAccount userRow (fg_project_id cmd)) (\<lambda>acc. issue_reset sy c cmd acc))))"

definition coreAuthLoadResetTargetAccount :: "sys \<Rightarrow> ctx \<Rightarrow> string \<Rightarrow> string \<Rightarrow> string \<Rightarrow> Account tx" where
  "coreAuthLoadResetTargetAccount sy c projectID accountID newPassword =
     tx_bind (FindIamUser ErrUserNotFound accountID) (\<lambda>userRow.
     tx_bind (coreAuthLoadAccount userRow projectID) (\<lambda>acc.
     tx_bind (coreAuthEnforcePasswordPolicy sy c (acc_project_id acc) newPassword) (\<lambda>_.
       ret acc)))"

definition coreAuthUpsertPasswordCredential :: "sys \<Rightarrow> ctx \<Rightarrow> string \<Rightarrow> string \<Rightarrow> string \<Rightarrow> unit tx" where
  "coreAuthUpsertPasswordCredential sy c projectID userID hash =
     tx_bind (effectiveEnv sy c projectID) (\<lambda>env.
     tx_bind (query (\<lambda>d. find (password_credential projectID env userID) (db_credentials d))) (\<lambda>found.
       case found of
         None \<Rightarrow>
           tx_bind (newUUID sy) (\<lambda>i.
             insert_row db_credentials db_credentials_update k_id
               \<lparr>k_id = i, k_project_id = projectID, k_environment = env, k_user_id = userID, k_type = coreAuthCredentialPassword,
                k_secret = hash, k_updated_at = cx_now c,
                k_data = Some \<lparr>pc_id = i, pc_project_id = projectID, pc_user_id = userID, pc_type = coreAuthCredentialPassword,
                  pc_hash = hash, pc_created_at = cx_now c, pc_updated_at = cx_now c, pc_failed_attempts = 0,
                  pc_locked_until = zeroTime\<rparr>\<rparr>)
       | Some row \<Rightarrow>
           exec (db_credentials_update (update_where (\<lambda>r. k_id r = k_id row) (\<lambda>r.
             r\<lparr>k_secret := hash, k_updated_at := cx_now c,
               k_data := Some ((credential_data row)\<lparr>pc_hash := hash, pc_updated_at := cx_now c\<rparr>)\<rparr>)))))"

definition ResetPassword :: "sys \<Rightarrow> ctx \<Rightarrow> CoreAuthPasswordResetCmd \<Rightarrow> (Account \<times> Session) tx" where
  "ResetPassword sy c cmd =
     (if trim_space (rs_new_password cmd) = [] then throw ErrWeakPassword
      else withTx (
        tx_bind (coreAuthConsumeChallenge sy c (rs_project_id cmd)
                   \<lparr>vc_project_id = rs_project_id cmd, vc_account_id = [], vc_challenge_id = rs_challenge_id cmd,
                    vc_code = rs_code cmd, vc_token = rs_token cmd\<rparr> ''password_reset'') (\<lambda>data.
        tx_bind (coreAuthLoadResetTargetAccount sy c (rs_project_id cmd) (cg_account_id data) (rs_new_password cmd)) (\<lambda>acc.
        tx_bind (coreAuthHashPassword sy (rs_new_password cmd)) (\<lambda>hash.
        tx_bind (coreAuthUpsertPasswordCredential sy c (acc_project_id acc) (acc_id acc) hash) (\<lambda>_.
        tx_bind (coreAuthSignOutAll sy c (acc_project_id acc) (acc_id acc) []) (\<lambda>_.
        tx_bind (coreAuthMintSession sy c acc [] [''pwd''] 1) (\<lambda>sess.
        tx_bind (Emit sy c ''password.reset'' (acc_project_id acc) coreAuthDefaultEnv (acc_id acc) (PAccount acc)) (\<lambda>_.
          ret (acc, sess))))))))))"

definition ChangePassword :: "sys \<Rightarrow> ctx \<Rightarrow> CoreAuthPasswordChangeCmd \<Rightarrow> unit tx" where
  "ChangePassword sy c cmd =
     (if cc_account_id cmd = [] then throw ErrUnauthorized
      else if trim_space (cc_new_password cmd) = [] then throw ErrWeakPassword
      else withTx (
        tx_bind (FindIamUser ErrUserNotFound (cc_account_id cmd)) (\<lambda>userRow.
        tx_bind (coreAuthLoadAccount userRow (u_project_id userRow)) (\<lambda>acc.
        tx_bind (securityAccountGuard sy c (acc_project_id acc) (acc_id acc)) (\<lambda>_.
        tx_bind (coreAuthFindPasswordCredential sy c (acc_project_id acc) (acc_id acc)) (\<lambda>cred.
          if \<not> coreAuthCheckPassword sy (k_secret cred) (cc_current_password cmd) then throw ErrInvalidCredentials
          else
            tx_bind (coreAuthEnforcePasswordPolicy sy c (acc_project_id acc) (cc_new_password cmd)) (\<lambda>_.
            tx_bind (coreAuthHashPassword sy (cc_new_password cmd)) (\<lambda>hash.
            tx_bind (coreAuthUpsertPasswordCredential sy c (acc_project_id acc) (acc_id acc) hash) (\<lambda>_.
            tx_bind (if cc_revoke_other_sessions cmd
                     then tx_bind (coreAuthSignOutAll sy c (acc_project_id acc) (acc_id acc) (cc_session_id cmd)) (\<lambda>_. ret ())
                     else ret ()) (\<lambda>_.
              Emit sy c ''password.changed'' (acc_project_id acc) coreAuthDefaultEnv (acc_id acc) (PAccount acc)))))))))))"

record CoreAuthPasswordVerifyResult =
  pv_ok :: bool
  pv_aal :: int
  pv_amr :: "string list"

definition VerifyPassword :: "sys \<Rightarrow> ctx \<Rightarrow> CoreAuthPasswordChangeCmd \<Rightarrow> CoreAuthPasswordVerifyResult tx" where
  "VerifyPassword sy c cmd =
     (if cc_account_id cmd = [] then throw ErrUnauthorized
      else
        tx_bind (FindIamUser ErrUserNotFound (cc_account_id cmd)) (\<lambda>userRow.
        tx_bind (coreAuthFindPasswordCredential sy c (u_project_id userRow) (cc_account_id cmd)) (\<lambda>cred.
        let out = \<lparr>pv_ok = coreAuthCheckPassword sy (k_secret cred) (cc_current_password cmd), pv_aal = 1, pv_amr = [''pwd'']\<rparr> in
        if cc_session_id cmd = [] then ret out
        else tx_bind (query (\<lambda>d. find (\<lambda>r. s_id r = cc_session_id cmd) (db_sessions d))) (\<lambda>found.
          case found of
            Some sessRow \<Rightarrow>
              if s_project_id sessRow \<noteq> u_project_id userRow then ret out
              else ret (out\<lparr>pv_aal := s_aal sessRow,
                 pv_amr := (case s_data sessRow of Some sess \<Rightarrow> if se_amr sess = [] then [''pwd''] else se_amr sess | None \<Rightarrow> [''pwd''])\<rparr>)
          | None \<Rightarrow> ret out))))"

section \<open>Step-up\<close>

record CoreAuthStepUpCmd =
  su_account_id :: string
  su_session_id :: string
  su_purpose :: string
  su_required_aal :: int
  su_max_age_seconds :: int
  su_has_max_age :: bool

record CoreAuthStepUpResult =
  sr_satisfied :: bool
  sr_challenge :: "Challenge option"

definition StepUp :: "sys \<Rightarrow> ctx \<Rightarrow> CoreAuthStepUpCmd \<Rightarrow> CoreAuthStepUpResult tx" where
  "StepUp sy c cmd =
     (if su_session_id cmd = [] then throw ErrUnauthorized
      else withTx (
        tx_bind (FindIamSession ErrSessionNotFound (su_session_id cmd)) (\<lambda>sessRow.
        let required = (if su_required_aal cmd \<le> 0 then 2 else su_required_aal cmd);
            fresh = (su_has_max_age cmd \<longrightarrow> time_sub (cx_now c) (s_created_at sessRow) \<le> seconds (su_max_age_seconds cmd)) in
        if s_aal sessRow \<ge> required \<and> fresh then ret \<lparr>sr_satisfied = True, sr_challenge = None\<rparr>
        else
          tx_bind (coreAuthRandomCode sy) (\<lambda>code.
          tx_bind (newUUID sy) (\<lambda>i.
          let ch = \<lparr>cg_id = i, cg_project_id = s_project_id sessRow, cg_environment = [], cg_type = ''step_up'',
                    cg_purpose = su_purpose cmd, cg_account_id = su_account_id cmd, cg_subject = su_session_id cmd,
                    cg_code_hash = coreAuthSHA256 sy code, cg_token_hash = [], cg_redirect_to = [], cg_locale = [],
                    cg_channel = [], cg_expires_at = cx_now c + coreAuthChallengeTTL, cg_created_at = cx_now c\<rparr> in
          tx_bind (coreAuthInsertChallenge sy c ch) (\<lambda>out.
          tx_bind (Emit sy c ''step_up.requested'' (cg_project_id ch) coreAuthDefaultEnv (cg_account_id ch) (PChallenge ch)) (\<lambda>_.
            ret \<lparr>sr_satisfied = False, sr_challenge = Some out\<rparr>)))))))"

lemma tx_bindE:
  assumes "tx_bind m f s = (Inr y, s'')"
  obtains x s' where "m s = (Inr x, s')" and "f x s' = (Inr y, s'')"
  using assms by (auto simp: tx_bind_eq_Inr)

section \<open>Consumption\<close>

text \<open>What the validation of a row has checked.\<close>

definition validated :: "sys \<Rightarrow> ctx \<Rightarrow> string \<Rightarrow> CoreAuthVerifyConsumeCmd \<Rightarrow> string \<Rightarrow> challenge_row \<Rightarrow> coreAuthChallengeData \<Rightarrow> bool" where
  "validated sy c pid cmd ty row data \<longleftrightarrow>
     ch_project_id row = pid \<and> core_data row = Some data \<and> \<not> ch_consumed row \<and> (ty = [] \<or> cg_type data = ty)
   \<and> (ch_expires_at row = zeroTime \<or> nowIn c \<le> ch_expires_at row)
   \<and> (if vc_code cmd \<noteq> [] then cg_code_hash data = coreAuthSHA256 sy (vc_code cmd)
      else vc_token cmd \<noteq> [] \<and> cg_token_hash data = coreAuthSHA256 sy (vc_token cmd))"

text \<open>What a successful consumption has checked: it validated the row the request names, by its id when the request
  carries one and otherwise by its link token.\<close>

definition consumable :: "sys \<Rightarrow> ctx \<Rightarrow> string \<Rightarrow> CoreAuthVerifyConsumeCmd \<Rightarrow> string \<Rightarrow> challenge_row \<Rightarrow> coreAuthChallengeData \<Rightarrow> bool" where
  "consumable sy c pid cmd ty row data \<longleftrightarrow> validated sy c pid cmd ty row data
   \<and> (if vc_challenge_id cmd \<noteq> [] then ch_id row = vc_challenge_id cmd
      else vc_token cmd \<noteq> [] \<and> cg_token_hash data = coreAuthSHA256 sy (vc_token cmd) \<and> ch_type row = ty)"

lemmas consumable_defs = consumable_def validated_def

lemma validateChallenge_Inr:
  "validateChallenge sy c row pid cmd ty s = (Inr data, s') \<longleftrightarrow> s' = s \<and> validated sy c pid cmd ty row data"
  unfolding validateChallenge_def validated_def
  by (cases "core_data row"; cases "ch_consumed row"; simp add: tx_bind_def unmarshal_def) auto

lemma coreAuthLookupChallengeRow_Inr:
  "coreAuthLookupChallengeRow sy pid cmd ty s = (Inr row, s') \<Longrightarrow> s' = s \<and> row \<in> set (db_challenges (tx_db s))
     \<and> (if vc_challenge_id cmd \<noteq> [] then find (\<lambda>r. ch_id r = vc_challenge_id cmd) (db_challenges (tx_db s)) = Some row
        else vc_token cmd \<noteq> [] \<and> token_matches (coreAuthSHA256 sy (vc_token cmd)) row \<and> ch_type row = ty)"
  by (auto simp: coreAuthLookupChallengeRow_def coreAuthFindChallengeByToken_def res_simps split: if_splits option.splits
      dest: find_set)

lemma keeps_challenges_emit: "t \<notin> set observed_types \<Longrightarrow> keeps db_challenges (Emit sy c t pid e a pl)"
  by (auto simp: Emit_unobserved)

lemma coreAuthConsumeChallenge_Inr:
  assumes "coreAuthConsumeChallenge sy c pid cmd ty s = (Inr data, s')"
  obtains row where "row \<in> set (db_challenges (tx_db s))" and "consumable sy c pid cmd ty row data"
    and "vc_challenge_id cmd \<noteq> [] \<Longrightarrow> find (\<lambda>r. ch_id r = vc_challenge_id cmd) (db_challenges (tx_db s)) = Some row"
    and "db_challenges (tx_db s') = update_where (\<lambda>r. ch_id r = ch_id row) (\<lambda>r. r\<lparr>ch_consumed := True\<rparr>) (db_challenges (tx_db s))"
proof -
  let ?em = "\<lambda>row. Emit sy c ''challenge.consumed'' pid coreAuthDefaultEnv (ch_id row) (PChallenge data)"
  let ?s1 = "\<lambda>row s0. s0\<lparr>tx_db := db_challenges_update (update_where (\<lambda>r. ch_id r = ch_id row) (\<lambda>r. r\<lparr>ch_consumed := True\<rparr>)) (tx_db s0)\<rparr>"
  obtain row s0 where row: "coreAuthLookupChallengeRow sy pid cmd ty s = (Inr row, s0)"
    and v: "validated sy c pid cmd ty row data" and em: "?em row (?s1 row s0) = (Inr (), s')"
    using assms by (auto simp: coreAuthConsumeChallenge_def res_simps validateChallenge_Inr mark_consumed_def)
  have "db_challenges (tx_db s') = db_challenges (tx_db (?s1 row s0))"
    by (rule keepsD [of db_challenges "?em row" "?s1 row s0", OF keeps_challenges_emit em])
       (simp add: observed_types_def session_events_def)
  moreover note l = coreAuthLookupChallengeRow_Inr [OF row]
  moreover have "consumable sy c pid cmd ty row data"
    using l v by (auto simp: consumable_def validated_def token_matches_def dest: find_set split: if_splits)
  ultimately show thesis using that [of row] by simp
qed

lemma quiet_consume [intro!]: "quiet (coreAuthConsumeChallenge sy c pid cmd ty)"
  by (auto simp: coreAuthConsumeChallenge_def coreAuthLookupChallengeRow_def coreAuthFindChallengeByToken_def validateChallenge_def
      mark_consumed_def split: option.split)

section \<open>Commits without pool writes\<close>

text \<open>A body that writes on the pool only when it fails commits what it returns.\<close>

definition settled :: "'a tx \<Rightarrow> bool" where
  "settled m \<longleftrightarrow> (\<forall>s x s'. m s = (Inr x, s') \<longrightarrow> tx_pool s' = tx_pool s)"

lemma settledD: "settled m \<Longrightarrow> m s = (Inr x, s') \<Longrightarrow> tx_pool s' = tx_pool s" by (simp add: settled_def)

lemma settled_quiet: "quiet m \<Longrightarrow> settled m" unfolding settled_def quiet_def by (metis snd_conv)

lemma settled_bind [intro!]: "settled m \<Longrightarrow> (\<And>x. settled (f x)) \<Longrightarrow> settled (tx_bind m f)"
  unfolding settled_def by (fastforce simp: res_simps)

lemma settled_basic [intro!]: "settled (ret x)" "settled (throw e)" "settled (query q)" "settled (exec f)"
  by (simp_all add: settled_def)

lemma settled_never: "(\<And>s x s'. m s \<noteq> (Inr x, s')) \<Longrightarrow> settled m" by (simp add: settled_def)

lemma settled_withTx:
  assumes "withTx m s = (Inr x, s')" and "settled m" and "tx_pool s = []"
  shows "m s = (Inr x, s')"
proof -
  obtain r s1 where m: "m s = (r, s1)" by (cases "m s")
  from assms(1,3) m obtain "r = Inr x" "s' = s1\<lparr>tx_db := apply_pool (tx_pool s1) (tx_db s1), tx_pool := []\<rparr>"
    by (cases r) (auto simp: withTx_idle)
  moreover from this m have "tx_pool s1 = []" using settledD [OF assms(2)] assms(3) by simp
  ultimately show ?thesis using m by (cases s1) (simp add: apply_pool_def)
qed

lemma settled_guardSignIn [intro!]: "settled (guardSignIn sy c acc aal)"
proof -
  have "settled (requireSignInProof sy c v)" for v
    by (rule settled_never) (auto simp: requireSignInProof_def Let_def res_simps)
  moreover have "quiet (consumeSignInProof sy c v a t)" for v a t
    by (auto simp: consumeSignInProof_def loadFlow_def saveFlow_def validateFlowAuthority_def Let_def split: option.split)
  ultimately show ?thesis
    unfolding guardSignIn_def Let_def
    by (intro settled_bind settled_quiet [OF quiet_sign(3)] settled_quiet [OF quiet_security(1)] settled_quiet [OF quiet_security(2)])
       (auto intro: settled_quiet)
qed

lemma settled_mint [intro!]: "settled (coreAuthMintSession sy c acc cl amr aal)"
  unfolding coreAuthMintSession_def Let_def
  by (intro settled_bind settled_guardSignIn)
     (auto intro!: settled_quiet simp: coreAuthInsertSessionRow_def coreAuthInsertRefreshToken_def)


section \<open>The password reset\<close>

definition reset_tables where "reset_tables d = (db_users d, db_sessions d, db_refresh d, db_credentials d, db_envs d)"

lemma reset_tables_side [simp, intro!]: "side_free reset_tables" by (simp add: side_free_def reset_tables_def)

lemma sessions_wf_tables:
  "db_users d' = db_users d \<Longrightarrow> db_sessions d' = db_sessions d \<Longrightarrow> db_refresh d' = db_refresh d \<Longrightarrow> sessions_wf d' = sessions_wf d"
  by (simp add: sessions_wf_def)

lemma keeps_reset_steps:
  "keeps reset_tables (coreAuthConsumeChallenge sy c pid cmd ty)"
  "keeps reset_tables (coreAuthLoadResetTargetAccount sy c pid a pw)" "keeps reset_tables (coreAuthHashPassword sy pw)"
  by (auto simp: coreAuthConsumeChallenge_def coreAuthLookupChallengeRow_def coreAuthFindChallengeByToken_def validateChallenge_def
      mark_consumed_def reset_tables_def coreAuthLoadResetTargetAccount_def coreAuthEnforcePasswordPolicy_def CheckPassword_def
      PasswordPolicy_def rawDoc_def coreAuthHashPassword_def split: option.split)

lemma user_sessions_linked: "linked_tables d' = linked_tables d \<Longrightarrow> user_sessions pid uid d' = user_sessions pid uid d"
proof -
  assume "linked_tables d' = linked_tables d"
  then have "unlink ` set (db_sessions d') = unlink ` set (db_sessions d)"
    by (simp add: linked_tables_def auth_tables_def) (metis list.set_map)
  moreover have "user_sessions pid uid x = s_id ` {r \<in> unlink ` set (db_sessions x). s_project_id r = pid \<and> s_user_id r = uid}" for x
    by (force simp: user_sessions_def image_iff)
  ultimately show ?thesis by simp
qed

lemma settled_reset:
  "settled (coreAuthLoadResetTargetAccount sy c pid a pw)" "settled (coreAuthHashPassword sy pw)"
  "settled (coreAuthUpsertPasswordCredential sy c pid u h)" "settled (coreAuthSignOutAll sy c pid u ex)"
  "settled (coreAuthConsumeChallenge sy c pid cmd ty)" "settled (Emit sy c t pid e a pl)"
  by (auto intro!: settled_quiet simp: coreAuthLoadResetTargetAccount_def coreAuthEnforcePasswordPolicy_def CheckPassword_def
      PasswordPolicy_def rawDoc_def coreAuthHashPassword_def coreAuthUpsertPasswordCredential_def coreAuthSignOutAll_def
      split: option.split)

text \<open>The stored credential after an upsert holds the new hash.\<close>

lemma upsert_Inr:
  assumes "coreAuthUpsertPasswordCredential sy c pid uid h s = (Inr (), s')"
  obtains e cred where "effectiveEnv sy c pid s = (Inr e, s)"
    and "find (password_credential pid e uid) (db_credentials (tx_db s')) = Some cred" and "k_secret cred = h"
    and "db_users (tx_db s') = db_users (tx_db s)" "db_sessions (tx_db s') = db_sessions (tx_db s)"
      "db_refresh (tx_db s') = db_refresh (tx_db s)"
proof -
  obtain e where e: "effectiveEnv sy c pid s = (Inr e, s)"
    using assms effectiveEnv_state [of sy c pid s]
    by (cases "effectiveEnv sy c pid s"; cases "fst (effectiveEnv sy c pid s)") (auto simp: coreAuthUpsertPasswordCredential_def)
  show thesis
  proof (cases "find (password_credential pid e uid) (db_credentials (tx_db s))")
    case None
    with assms e show thesis
      by (auto simp: coreAuthUpsertPasswordCredential_def tx_bind_def newUUID_def insert_row_def find_append password_credential_def
          intro!: that [OF e] split: if_splits)
  next
    case (Some row)
    have upd: "find (password_credential pid e uid) (update_where (\<lambda>r. k_id r = k_id row) (\<lambda>r. r\<lparr>k_secret := h, k_updated_at := t, k_data := v\<rparr>) ks)
        = map_option (\<lambda>r. if k_id r = k_id row then r\<lparr>k_secret := h, k_updated_at := t, k_data := v\<rparr> else r)
            (find (password_credential pid e uid) ks)" for t v ks
      by (induction ks) (auto simp: update_where_def password_credential_def)
    from assms e Some show thesis
      by (auto simp: coreAuthUpsertPasswordCredential_def tx_bind_def upd intro!: that [OF e])
  qed
qed


lemma revokes_user_sessions:
  assumes "revokes (user_sessions pid uid d) d d'"
  shows "user_sessions pid uid d' = {}" and "s_id ` set (db_sessions d') = s_id ` set (db_sessions d) - user_sessions pid uid d"
  using assms by (auto simp: revokes_def user_sessions_def)

lemma mint_user_sessions:
  assumes "coreAuthMintSession sy c acc cl amr aal s = (Inr sess, s')"
  shows "user_sessions (acc_project_id acc) (acc_id acc) (tx_db s')
       = insert (se_id sess) (user_sessions (acc_project_id acc) (acc_id acc) (tx_db s))"
    and "\<exists>r. db_refresh (tx_db s') = db_refresh (tx_db s) @ [r] \<and> rt_session_id r = se_id sess \<and> se_id sess \<notin> s_id ` set (db_sessions (tx_db s))"
    and "db_credentials (tx_db s') = db_credentials (tx_db s)" "db_users (tx_db s') = db_users (tx_db s)"
proof -
  let ?aal = "if aal \<le> 0 then 1 else aal"
  obtain sp e rid sid at plain where sess: "sess = newCoreAuthSession c sid acc cl amr ?aal at plain sp (cx_now c)"
    and sid: "sid \<notin> s_id ` set (db_sessions (tx_db s))" and rid: "rid \<notin> rt_id ` set (db_refresh (tx_db s))"
    and t: "linked_tables (tx_db s') = linked_tables
           ((tx_db s)\<lparr>db_sessions := db_sessions (tx_db s) @ [session_row_of sess e ?aal cl (cx_now c) sp],
                     db_refresh := db_refresh (tx_db s) @ [refresh_row_of
                       \<lparr>rd_id = rid, rd_project_id = acc_project_id acc, rd_environment = e, rd_user_id = acc_id acc,
                        rd_session_id = sid, rd_hash = coreAuthSHA256 sy plain, rd_revoked = False,
                        rd_expires_at = coreAuthRefreshHorizon (cx_now c) (cx_now c) sp, rd_created_at = cx_now c\<rparr>]\<rparr>)"
    by (rule coreAuthMintSession_Inr [OF assms])
  have i: "se_id sess = sid" "se_account_id sess = acc_id acc" "se_project_id sess = acc_project_id acc"
    by (simp_all add: sess newCoreAuthSession_def Let_def)
  define r where "r = session_row_of sess e ?aal cl (cx_now c) sp"
  have r: "s_id r = se_id sess" "s_project_id r = acc_project_id acc" "s_user_id r = acc_id acc"
    by (simp_all add: r_def session_row_of_def i)
  show "user_sessions (acc_project_id acc) (acc_id acc) (tx_db s')
      = insert (se_id sess) (user_sessions (acc_project_id acc) (acc_id acc) (tx_db s))"
    unfolding user_sessions_linked [OF t] r_def [symmetric] r(1) [symmetric] using r(2,3) by (auto simp: user_sessions_def)
  show "\<exists>r. db_refresh (tx_db s') = db_refresh (tx_db s) @ [r] \<and> rt_session_id r = se_id sess \<and> se_id sess \<notin> s_id ` set (db_sessions (tx_db s))"
    "db_credentials (tx_db s') = db_credentials (tx_db s)" "db_users (tx_db s') = db_users (tx_db s)"
    using t sid by (simp_all add: linked_tables_def auth_tables_def refresh_row_of_def i)
qed

text \<open>The steps of a reset.\<close>

definition reset_command :: "CoreAuthPasswordResetCmd \<Rightarrow> CoreAuthVerifyConsumeCmd" where
  "reset_command cmd = \<lparr>vc_project_id = rs_project_id cmd, vc_account_id = [], vc_challenge_id = rs_challenge_id cmd,
     vc_code = rs_code cmd, vc_token = rs_token cmd\<rparr>"

lemma ResetPassword_steps:
  assumes "ResetPassword sy c cmd s = (Inr (acc, sess), s')" and "tx_pool s = []"
  obtains data h n u w s1 s2 s3 s4 s5 s6 where
    "coreAuthConsumeChallenge sy c (rs_project_id cmd) (reset_command cmd) ''password_reset'' s = (Inr data, s1)"
    and "coreAuthLoadResetTargetAccount sy c (rs_project_id cmd) (cg_account_id data) (rs_new_password cmd) s1 = (Inr acc, s2)"
    and "coreAuthHashPassword sy (rs_new_password cmd) s2 = (Inr h, s3)"
    and "coreAuthUpsertPasswordCredential sy c (acc_project_id acc) (acc_id acc) h s3 = (Inr u, s4)"
    and "coreAuthSignOutAll sy c (acc_project_id acc) (acc_id acc) [] s4 = (Inr n, s5)"
    and "coreAuthMintSession sy c acc [] [''pwd''] 1 s5 = (Inr sess, s6)"
    and "Emit sy c ''password.reset'' (acc_project_id acc) coreAuthDefaultEnv (acc_id acc) (PAccount acc) s6 = (Inr w, s')"
proof -
  let ?m = "tx_bind (coreAuthConsumeChallenge sy c (rs_project_id cmd) (reset_command cmd) ''password_reset'') (\<lambda>data.
        tx_bind (coreAuthLoadResetTargetAccount sy c (rs_project_id cmd) (cg_account_id data) (rs_new_password cmd)) (\<lambda>acc.
        tx_bind (coreAuthHashPassword sy (rs_new_password cmd)) (\<lambda>hash.
        tx_bind (coreAuthUpsertPasswordCredential sy c (acc_project_id acc) (acc_id acc) hash) (\<lambda>_.
        tx_bind (coreAuthSignOutAll sy c (acc_project_id acc) (acc_id acc) []) (\<lambda>_.
        tx_bind (coreAuthMintSession sy c acc [] [''pwd''] 1) (\<lambda>sess.
        tx_bind (Emit sy c ''password.reset'' (acc_project_id acc) coreAuthDefaultEnv (acc_id acc) (PAccount acc)) (\<lambda>_.
          ret (acc, sess))))))))"
  have st: "settled ?m" by (intro settled_bind settled_reset settled_mint settled_basic)
  have w: "withTx ?m s = (Inr (acc, sess), s')"
    using assms(1) by (simp add: ResetPassword_def reset_command_def split: if_splits)
  from settled_withTx [OF w st assms(2)] show thesis
    by (elim tx_bindE) (simp (no_asm_use) only: ret_apply prod.inject sum.inject, elim conjE, hypsubst, rule that)
qed


lemma reset_target_Inr:
  assumes "coreAuthLoadResetTargetAccount sy c pid a pw s = (Inr acc, s')" and "list_all user_ok (db_users (tx_db s))"
  shows "acc_id acc = a" and "acc_project_id acc = pid"
proof -
  obtain u where u: "find (\<lambda>r. u_id r = a) (db_users (tx_db s)) = Some u" "u_project_id u = pid" "u_data u = Some acc"
    using assms(1) by (auto simp: coreAuthLoadResetTargetAccount_def res_simps FindIamUser_def coreAuthLoadAccount_def
        split: option.splits if_splits)
  with assms(2) find_set [OF u(1)] show "acc_id acc = a" "acc_project_id acc = pid"
    by (auto simp: list_all_iff user_ok_def split: option.splits)
qed

lemma coreAuthHashPassword_Inr:
  "coreAuthHashPassword sy pw s = (Inr h, s') \<Longrightarrow> \<exists>n. sy_bcrypt_hash sy n pw = Inr h"
  by (auto simp: coreAuthHashPassword_def res_simps)

lemma effectiveEnv_of: "effectiveEnv sy c pid s = (Inr e, s) \<Longrightarrow> db_envs (tx_db s0) = db_envs (tx_db s) \<Longrightarrow> fst (effectiveEnv sy c pid s0) = Inr e"
  using effectiveEnv_cong [of s0 s sy c pid] by simp

text \<open>C23: a password reset that succeeds was authorised by an unexpired, unused reset challenge of the
  project, the one the request names by its id or by its link token, for the account it was issued to. It ends every earlier session of that account in the project and
  revokes their refresh tokens, the session it returns is the only one left, and the password credential
  of the request's environment now accepts the new password.\<close>

theorem password_reset_replaces_sessions:
  assumes "ResetPassword sy c cmd s = (Inr (acc, sess), s')" and "sessions_wf (tx_db s)" and "tx_pool s = []"
    and "\<And>n h. sy_bcrypt_hash sy n (rs_new_password cmd) = Inr h \<Longrightarrow> sy_bcrypt_ok sy h (rs_new_password cmd)"
    and "\<forall>x \<in> set (db_sessions (tx_db s)). s_id x \<noteq> []"
  shows "(\<exists>row data. row \<in> set (db_challenges (tx_db s)) \<and> cg_account_id data = acc_id acc
        \<and> consumable sy c (rs_project_id cmd) (reset_command cmd) ''password_reset'' row data)
    \<and> user_sessions (acc_project_id acc) (acc_id acc) (tx_db s') = {se_id sess}
    \<and> list_all (\<lambda>r. rt_session_id r \<in> user_sessions (acc_project_id acc) (acc_id acc) (tx_db s) - {se_id sess} \<longrightarrow> rt_revoked r) (db_refresh (tx_db s'))
    \<and> (\<exists>e cred. fst (effectiveEnv sy c (acc_project_id acc) s) = Inr e
        \<and> find (password_credential (acc_project_id acc) e (acc_id acc)) (db_credentials (tx_db s')) = Some cred
        \<and> coreAuthCheckPassword sy (k_secret cred) (rs_new_password cmd))"
proof -
  let ?p = "acc_project_id acc" and ?a = "acc_id acc"
  obtain data h n u w s1 s2 s3 s4 s5 s6 where
    con: "coreAuthConsumeChallenge sy c (rs_project_id cmd) (reset_command cmd) ''password_reset'' s = (Inr data, s1)"
    and tgt: "coreAuthLoadResetTargetAccount sy c (rs_project_id cmd) (cg_account_id data) (rs_new_password cmd) s1 = (Inr acc, s2)"
    and hsh: "coreAuthHashPassword sy (rs_new_password cmd) s2 = (Inr h, s3)"
    and ups: "coreAuthUpsertPasswordCredential sy c ?p ?a h s3 = (Inr u, s4)"
    and out: "coreAuthSignOutAll sy c ?p ?a [] s4 = (Inr n, s5)"
    and mnt: "coreAuthMintSession sy c acc [] [''pwd''] 1 s5 = (Inr sess, s6)"
    and em: "Emit sy c ''password.reset'' ?p coreAuthDefaultEnv ?a (PAccount acc) s6 = (Inr w, s')"
    by (rule ResetPassword_steps [OF assms(1,3)])
  have t1: "reset_tables (tx_db s1) = reset_tables (tx_db s)" by (rule keepsD [OF keeps_reset_steps(1) con])
  have t3: "reset_tables (tx_db s3) = reset_tables (tx_db s)"
    using t1 keepsD [OF keeps_reset_steps(2) tgt] keepsD [OF keeps_reset_steps(3) hsh] by simp
  have users: "list_all user_ok (db_users (tx_db s1))" using assms(2) t1 by (simp add: sessions_wf_def reset_tables_def)
  note acc = reset_target_Inr [OF tgt users]
  obtain row where row: "row \<in> set (db_challenges (tx_db s))"
    "consumable sy c (rs_project_id cmd) (reset_command cmd) ''password_reset'' row data"
    by (rule coreAuthConsumeChallenge_Inr [OF con])
  obtain e cred where e: "effectiveEnv sy c ?p s3 = (Inr e, s3)"
    and cred: "find (password_credential ?p e ?a) (db_credentials (tx_db s4)) = Some cred" "k_secret cred = h"
    and t4: "db_users (tx_db s4) = db_users (tx_db s3)" "db_sessions (tx_db s4) = db_sessions (tx_db s3)"
      "db_refresh (tx_db s4) = db_refresh (tx_db s3)"
    using ups by (cases u) (auto elim: upsert_Inr)
  have same: "user_sessions ?p ?a (tx_db s4) = user_sessions ?p ?a (tx_db s)"
    using t3 t4 by (simp add: user_sessions_def reset_tables_def)
  have "sessions_wf (tx_db s4)" using assms(2) t3 t4 sessions_wf_tables [of "tx_db s4" "tx_db s"] by (simp add: reset_tables_def)
  from coreAuthSignOutAll_revokes [OF this, of sy c ?p ?a "[]"] out
  have rev: "revokes (user_sessions ?p ?a (tx_db s4) - {[]}) (tx_db s4) (tx_db s5)" by simp
  have "user_sessions ?p ?a (tx_db s4) - {[]} = user_sessions ?p ?a (tx_db s4)"
    unfolding same using assms(5) by (auto simp: user_sessions_def)
  with rev have rev: "revokes (user_sessions ?p ?a (tx_db s4)) (tx_db s4) (tx_db s5)" by simp
  have t': "auth_tables (tx_db s') = auth_tables (tx_db s6)"
    by (rule keepsD [OF keeps_Emit [OF auth_tables_side_free] em]) simp
  have us: "user_sessions ?p ?a (tx_db s') = {se_id sess}"
    using user_sessions_linked [OF linked_tables_auth [OF t']] mint_user_sessions(1) [OF mnt] revokes_user_sessions(1) [OF rev] by simp
  obtain r where r: "db_refresh (tx_db s') = db_refresh (tx_db s5) @ [r]" "rt_session_id r = se_id sess"
    using mint_user_sessions(2) [OF mnt] t' by (auto simp: auth_tables_def)
  have "list_all (\<lambda>r. rt_session_id r \<in> user_sessions ?p ?a (tx_db s) - {se_id sess} \<longrightarrow> rt_revoked r) (db_refresh (tx_db s'))"
    using rev r same by (auto simp: revokes_def list_all_iff)
  moreover have "db_credentials (tx_db s') = db_credentials (tx_db s4)"
    using t' mint_user_sessions(3) [OF mnt] rev by (simp add: auth_tables_def revokes_def other_tables_def)
  moreover have "coreAuthCheckPassword sy (k_secret cred) (rs_new_password cmd)"
    using coreAuthHashPassword_Inr [OF hsh] assms(4) cred(2) by (auto simp: coreAuthCheckPassword_def)
  moreover have "fst (effectiveEnv sy c ?p s) = Inr e" by (rule effectiveEnv_of [OF e]) (use t3 in \<open>simp add: reset_tables_def\<close>)
  ultimately show ?thesis using row acc(1) us cred(1) by (intro conjI exI [of _ row] exI [of _ data] exI [of _ e] exI [of _ cred]) simp_all
qed


definition sample_challenge :: "string \<Rightarrow> string \<Rightarrow> string \<Rightarrow> coreAuthChallengeData" where
  "sample_challenge i ty env =
     \<lparr>cg_id = i, cg_project_id = ''p'', cg_environment = env, cg_type = ty, cg_purpose = ''reset'', cg_account_id = ''alice'',
      cg_subject = ''a@x'', cg_code_hash = ''h:123456'', cg_token_hash = ''h:link'', cg_redirect_to = [], cg_locale = [],
      cg_channel = [], cg_expires_at = 900 * Second, cg_created_at = 0\<rparr>"

definition challenge_db :: db where
  "challenge_db = password_db\<lparr>db_challenges :=
     [challenge_row_of (sample_challenge ''c1'' ''password_reset'' ''live'') ''live'',
      challenge_row_of (sample_challenge ''c2'' ''email'' ''sandbox'') ''sandbox'']\<rparr>"

definition sample_reset :: CoreAuthPasswordResetCmd where
  "sample_reset = \<lparr>rs_project_id = ''p'', rs_token = [], rs_challenge_id = ''c1'', rs_code = ''123456'',
     rs_new_password = ''Correct-horse-7''\<rparr>"

theorem password_reset_replaces_sessions_witness:
  "\<exists>acc sess s'. ResetPassword sample_sys (sample_ctx 5) sample_reset (sample_state challenge_db) = (Inr (acc, sess), s')
     \<and> user_sessions (acc_project_id acc) (acc_id acc) (tx_db s') = {se_id sess} \<and> se_id sess \<noteq> ''s''"
proof -
  have "case fst (ResetPassword sample_sys (sample_ctx 5) sample_reset (sample_state challenge_db)) of
      Inr (acc, sess) \<Rightarrow> se_id sess \<noteq> ''s'' | Inl _ \<Rightarrow> False" by code_simp
  then obtain acc sess s' where run: "ResetPassword sample_sys (sample_ctx 5) sample_reset (sample_state challenge_db) = (Inr (acc, sess), s')"
    and new: "se_id sess \<noteq> ''s''"
    by (cases "ResetPassword sample_sys (sample_ctx 5) sample_reset (sample_state challenge_db)") (auto split: sum.splits prod.splits)
  have "sessions_wf challenge_db" "\<forall>x \<in> set (db_sessions challenge_db). s_id x \<noteq> []" by code_simp+
  moreover have "sy_bcrypt_ok sample_sys h (rs_new_password sample_reset)"
    if "sy_bcrypt_hash sample_sys n (rs_new_password sample_reset) = Inr h" for n h
    using that by (simp add: sample_sys_def)
  ultimately show ?thesis using password_reset_replaces_sessions [OF run] run new by fastforce
qed

text \<open>A challenge is not bound to its environment: one issued in the sandbox for an address signs in the
  live account that has the same address.\<close>

lemma challenge_crosses_environments:
  "case fst (VerifyEmail sample_sys (sample_ctx 5)
       \<lparr>vc_project_id = ''p'', vc_account_id = [], vc_challenge_id = ''c2'', vc_code = ''123456'', vc_token = []\<rparr>
       (sample_state challenge_db)) of
     Inr (acc, sess) \<Rightarrow> acc_id acc = ''alice'' \<and> se_account_id sess = ''alice'' | Inl _ \<Rightarrow> False"
  by code_simp

section \<open>The redirect of the link callback\<close>

text \<open>The link callback redirects only to a path of its own origin, as the code tests it, or to a URL of the
  same scheme and host as the project's configured application; anything else yields no redirect.\<close>

theorem safe_redirect_sound:
  assumes "coreAuthSafeRedirect sy c pid candidate s = (r, s')"
  shows "r = Inr [] \<or> r = Inr (trim_space candidate) \<and>
     ((\<exists>rest. trim_space candidate = CHR ''/'' # rest \<and> \<not> has_prefix rest ''/'')
      \<or> (\<exists>auth s0. AuthConfig sy c pid s = (Inr auth, s0) \<and> coreAuthSameOrigin sy (trim_space candidate) (ea_app_base_url auth)))"
proof -
  consider "trim_space candidate = []" | rest where "trim_space candidate = CHR ''/'' # rest" "\<not> has_prefix rest ''/''"
    | "trim_space candidate \<noteq> []" "\<not> (has_prefix (trim_space candidate) ''/'' \<and> \<not> has_prefix (trim_space candidate) ''//'')"
    by (cases "trim_space candidate") (auto simp: has_prefix_iff)
  then show ?thesis
  proof cases
    case 3
    then show ?thesis using assms
      by (cases "AuthConfig sy c pid s"; cases "fst (AuthConfig sy c pid s)")
        (auto simp: coreAuthSafeRedirect_def tx_handle_def Let_def split: if_splits)
  qed (use assms in \<open>auto simp: coreAuthSafeRedirect_def has_prefix_iff Let_def split: if_splits\<close>)
qed

text \<open>A path that starts with a slash and a backslash passes, although browsers read it as the URL of another host.\<close>

lemma backslash_redirect_allowed:
  "fst (coreAuthSafeRedirect sample_sys (sample_ctx 0) ''p'' (CHR ''/'' # CHR 0x5C # ''evil.example'') (sample_state sample_db))
     = Inr (CHR ''/'' # CHR 0x5C # ''evil.example'')"
  by code_simp

end
