(* ===== verification/Mfa.thy ===== *)
theory Mfa
  imports Challenges
begin

text \<open>
  Second factors (\<open>src/internal/infrastructure/postgres/mfa_pg.go\<close>, \<open>src/pkg/api/core_auth.go\<close>): enrolment of
  authenticator, e-mail and SMS factors, the challenge of a factor, its verification with a bounded
  number of codes, recovery codes, and the password sign-in that continues with a factor. The WebAuthn
  ceremony is not modelled.
\<close>

section \<open>Contacts\<close>

text \<open>The whitespace class of a Go regular expression.\<close>

definition re_space :: "char \<Rightarrow> bool" where
  "re_space ch \<longleftrightarrow> ch \<in> {CHR 0x09, CHR 0x0A, CHR 0x0C, CHR 0x0D, CHR '' ''}"

text \<open>The two sides of the last \<open>@\<close>; a domain has a dot that is neither its first nor its last character.\<close>

definition ValidateEmail :: "string \<Rightarrow> unit res" where
  "ValidateEmail email =
     (case split_on CHR ''@'' email of
        [name, host] \<Rightarrow>
          if name \<noteq> [] \<and> \<not> list_ex re_space email \<and> CHR ''.'' \<in> set (butlast (tl host)) then Inr ()
          else Inl (WithMessage ''email format is invalid'' ErrValidation)
      | _ \<Rightarrow> Inl (WithMessage ''email format is invalid'' ErrValidation))"

definition re_digit :: "char \<Rightarrow> bool" where "re_digit ch \<longleftrightarrow> ch \<in> set ''0123456789''"

definition ValidatePhone :: "string \<Rightarrow> unit res" where
  "ValidatePhone phone =
     (if (case phone of
            sign # lead # rest \<Rightarrow> sign = CHR ''+'' \<and> re_digit lead \<and> lead \<noteq> CHR ''0'' \<and> list_all re_digit rest
                                 \<and> 6 \<le> length rest \<and> length rest \<le> 14
          | _ \<Rightarrow> False)
      then Inr () else Inl (WithMessage ''phone must be in E.164 format (+<country><number>, 7-15 digits)'' ErrValidation))"

section \<open>Accounts and factors\<close>

definition mfaChallengeTTL :: duration where "mfaChallengeTTL = 5 * Minute"
definition mfaRecoveryCodeCount :: nat where "mfaRecoveryCodeCount = 10"
definition mfaDeliveredCodeBytes :: nat where "mfaDeliveredCodeBytes = 4"
definition mfaRecoveryCodeBytes :: nat where "mfaRecoveryCodeBytes = 16"
definition mfaMaxFactorsPerAccount :: nat where "mfaMaxFactorsPerAccount = 10"
definition mfaMaxVerifyAttempts :: int where "mfaMaxVerifyAttempts = 5"
definition channelSMS :: string where "channelSMS = ''sms''"
definition mfaDefaultEnv :: string where "mfaDefaultEnv = ''live''"

definition mfaSha256Hex :: "sys \<Rightarrow> string \<Rightarrow> string" where "mfaSha256Hex sy t = sy_sha256 sy t"

definition mfaNewOpaqueToken :: "sys \<Rightarrow> nat \<Rightarrow> string tx" where "mfaNewOpaqueToken sy n = draw (sy_hex_token sy n)"

definition mfaGenerateTOTPKey :: "sys \<Rightarrow> string \<Rightarrow> (string \<times> string) tx" where
  "mfaGenerateTOTPKey sy accountName =
     tx_bind (draw (\<lambda>n. sy_totp_key sy n (if accountName = [] then ''user'' else accountName))) lift_res"

definition mfaLoadAccount :: "string \<Rightarrow> string \<Rightarrow> Account tx" where
  "mfaLoadAccount projectID accountID =
     tx_bind (FindIamUser ErrNotFound accountID) (\<lambda>row.
       if u_project_id row \<noteq> projectID then throw ErrUserNotFound else unmarshal (u_data row))"

definition mfaFindFactor :: "string \<Rightarrow> string \<Rightarrow> factor_row tx" where
  "mfaFindFactor accountID factorID =
     tx_bind (query (\<lambda>d. find (\<lambda>r. f_id r = factorID) (db_factors d))) (\<lambda>found.
       case found of
         None \<Rightarrow> throw ErrNotFound
       | Some row \<Rightarrow> if f_user_id row \<noteq> accountID then throw ErrNotFound else ret row)"

definition mfaCountFactors :: "string \<Rightarrow> nat tx" where
  "mfaCountFactors accountID = query (\<lambda>d. length (filter (\<lambda>r. f_user_id r = accountID) (db_factors d)))"

fun list_factors :: "factor_row list \<Rightarrow> Factor list tx" where
  "list_factors [] = ret []"
| "list_factors (row # rows) =
     tx_bind (mfaFactorFromRow row) (\<lambda>f. tx_bind (list_factors rows) (\<lambda>fs. ret (f # fs)))"

definition ListFactors :: "string \<Rightarrow> Factor list tx" where
  "ListFactors accountID =
     tx_bind (query (\<lambda>d. filter (\<lambda>r. f_user_id r = accountID) (db_factors d))) list_factors"

definition mfaResolveProject :: "string \<Rightarrow> string tx" where
  "mfaResolveProject accountID = tx_bind (FindIamUser ErrNotFound accountID) (\<lambda>row. ret (u_project_id row))"

definition mfaResolveAccount :: "string \<Rightarrow> Account tx" where
  "mfaResolveAccount accountID =
     tx_bind (FindIamUser ErrNotFound accountID) (\<lambda>row.
     tx_bind (unmarshal (u_data row)) (\<lambda>acc.
       ret (acc\<lparr>acc_id := u_id row, acc_project_id := u_project_id row\<rparr>)))"

definition mfaInsertFactorFor :: "sys \<Rightarrow> ctx \<Rightarrow> string \<Rightarrow> string \<Rightarrow> Factor \<Rightarrow> string \<Rightarrow> unit tx" where
  "mfaInsertFactorFor sy c projectID accountID f secret =
     tx_bind (effectiveEnv sy c projectID) (\<lambda>env.
       insert_unique db_factors db_factors_update (\<lambda>a b. f_id a = f_id b)
         \<lparr>f_id = fa_id f, f_project_id = projectID, f_environment = env, f_user_id = accountID, f_type = fa_type f,
          f_status = fa_status f, f_secret = Some secret, f_created_at = cx_now c, f_data = Some f\<rparr> ErrConflict)"

section \<open>Challenges\<close>

definition mfaInsertChallenge :: "sys \<Rightarrow> ctx \<Rightarrow> string \<Rightarrow> string \<Rightarrow> Challenge \<Rightarrow> mfaChallengeData \<Rightarrow> unit tx" where
  "mfaInsertChallenge sy c projectID accountID ch data =
     tx_bind (effectiveEnv sy c projectID) (\<lambda>env.
       insert_row db_challenges db_challenges_update ch_id
         \<lparr>ch_id = cl_id ch, ch_project_id = projectID, ch_environment = env, ch_type = cl_type ch,
          ch_subject = Some accountID, ch_code_hash = nullIfEmpty (md_flow_token_hash data),
          ch_expires_at = cl_expires_at ch, ch_consumed = False, ch_created_at = cx_now c,
          ch_data = Some (mfa_doc data)\<rparr>)"

definition mfaConsumeChallenge :: "challenge_row \<Rightarrow> unit tx" where "mfaConsumeChallenge row = mark_consumed row"

definition delivered :: "string \<Rightarrow> bool" where
  "delivered ty \<longleftrightarrow> ty = coreAuthChallengeEmail \<or> ty = channelSMS"

definition mfa_Challenge :: "sys \<Rightarrow> ctx \<Rightarrow> string \<Rightarrow> string \<Rightarrow> Challenge tx" where
  "mfa_Challenge sy c accountID factorID = withTx (
     tx_bind (mfaResolveProject accountID) (\<lambda>projectID.
     tx_bind (mfaFindFactor accountID factorID) (\<lambda>factorRow.
     tx_bind (mfaFactorFromRow factorRow) (\<lambda>factor.
     tx_bind (newUUID sy) (\<lambda>i.
     let ch = \<lparr>cl_id = i, cl_type = fa_type factor, cl_expires_at = cx_now c + mfaChallengeTTL, cl_code = [], cl_token = []\<rparr>;
         deliver = delivered (fa_type factor) in
     tx_bind (if deliver then mfaNewOpaqueToken sy mfaDeliveredCodeBytes else ret []) (\<lambda>code.
     let data = empty_mfa_challenge\<lparr>md_factor_id := fa_id factor,
                  md_flow_token_hash := (if deliver then mfaSha256Hex sy code else [])\<rparr> in
     tx_bind (mfaInsertChallenge sy c projectID accountID ch data) (\<lambda>_.
     tx_bind (Emit sy c ''mfa.challenge.created'' projectID [] (cl_id ch)
                (PFields ([(''channel'', DStr (fa_type factor)), (''factor_id'', DStr (fa_id factor)),
                           (''challenge_id'', DStr (cl_id ch))]
                          @ (if deliver then [(''code'', DStr code), (''to'', DStr (fa_hint factor))] else [])))) (\<lambda>_.
       ret ch))))))))"

definition mfaAccountFromFlow :: "ctx \<Rightarrow> string \<Rightarrow> string \<Rightarrow> string tx" where
  "mfaAccountFromFlow c projectID flowToken =
     (if flowToken = [] then throw ErrChallengeInvalid
      else tx_bind (query (\<lambda>d. find (\<lambda>r. ch_id r = flowToken) (db_challenges d))) (\<lambda>found.
        case found of
          None \<Rightarrow> throw ErrChallengeInvalid
        | Some row \<Rightarrow>
            if ch_project_id row \<noteq> projectID \<or> ch_consumed row then throw ErrChallengeInvalid
            else if nowIn c > ch_expires_at row then throw ErrChallengeExpired
            else if str_or_empty (ch_subject row) = [] then throw ErrChallengeInvalid
            else ret (str_or_empty (ch_subject row))))"

definition mfaPrimaryFactorID :: "Factor list \<Rightarrow> string" where
  "mfaPrimaryFactorID factors =
     (case find (\<lambda>f. fa_status f = coreAuthStatusActive \<and> (fa_type f = ''totp'' \<or> fa_type f = ''webauthn'')) factors of
        Some f \<Rightarrow> fa_id f
      | None \<Rightarrow> (case find (\<lambda>f. fa_status f = coreAuthStatusActive) factors of Some f \<Rightarrow> fa_id f | None \<Rightarrow> []))"

definition ChallengeWithFlow :: "sys \<Rightarrow> ctx \<Rightarrow> string \<Rightarrow> string \<Rightarrow> string \<Rightarrow> Challenge tx" where
  "ChallengeWithFlow sy c projectID flowToken factorID =
     tx_bind (mfaAccountFromFlow c projectID flowToken) (\<lambda>accountID.
     tx_bind (if factorID = []
              then tx_bind (ListFactors accountID) (\<lambda>factors.
                     if mfaPrimaryFactorID factors = [] then throw ErrMFAInvalid else ret (mfaPrimaryFactorID factors))
              else ret factorID) (\<lambda>factorID.
       mfa_Challenge sy c accountID factorID))"

section \<open>Verification\<close>

text \<open>Written on the pool, so that the count survives the rollback of the failed verification.\<close>

definition mfaBumpChallengeAttempts :: "string \<Rightarrow> mfaChallengeData \<Rightarrow> unit tx" where
  "mfaBumpChallengeAttempts challengeID data =
     (let data = data\<lparr>md_attempts := md_attempts data + 1\<rparr>
      in pool_exec (PoolChallenge challengeID data (md_attempts data \<ge> mfaMaxVerifyAttempts)))"

definition mfaCheckChallengeCode :: "sys \<Rightarrow> ctx \<Rightarrow> challenge_row \<Rightarrow> string \<Rightarrow> mfaChallengeData \<Rightarrow> string \<Rightarrow> bool tx" where
  "mfaCheckChallengeCode sy c row accountID data code =
     (if delivered (ch_type row)
      then ret (md_flow_token_hash data \<noteq> [] \<and> mfaSha256Hex sy code = md_flow_token_hash data)
      else if md_factor_id data = [] then throw ErrMFAInvalid
      else tx_bind (mfaFindFactor accountID (md_factor_id data)) (\<lambda>factor.
        if f_status factor \<noteq> coreAuthStatusActive then throw ErrMFAInvalid
        else case f_secret factor of
               None \<Rightarrow> throw ErrMFAInvalid
             | Some secret \<Rightarrow> ret (sy_totp_ok sy (cx_now c) code secret)))"

definition mfaVerifyChallengeCode :: "sys \<Rightarrow> ctx \<Rightarrow> string \<Rightarrow> string \<Rightarrow> (challenge_row \<times> string) tx" where
  "mfaVerifyChallengeCode sy c challengeID code =
     tx_bind (query (\<lambda>d. find (\<lambda>r. ch_id r = challengeID) (db_challenges d))) (\<lambda>found.
       case found of
         None \<Rightarrow> throw ErrNotFound
       | Some row \<Rightarrow>
           if ch_consumed row then throw ErrChallengeInvalid
           else if nowIn c > ch_expires_at row then throw ErrChallengeExpired
           else
             let accountID = str_or_empty (ch_subject row) in
             tx_bind (unmarshal (mfa_data row)) (\<lambda>data.
               if md_attempts data \<ge> mfaMaxVerifyAttempts then throw ErrChallengeInvalid
               else
                 tx_bind (mfaCheckChallengeCode sy c row accountID data code) (\<lambda>codeOK.
                   if \<not> codeOK
                   then tx_bind (mfaBumpChallengeAttempts (ch_id row) data) (\<lambda>_.
                        tx_bind (recordFailure sy c (ch_project_id row) accountID ''mfa_failures'') (\<lambda>_.
                          throw ErrMFAInvalid))
                   else ret (row, accountID))))"

definition mfaMintSession :: "sys \<Rightarrow> ctx \<Rightarrow> Account \<Rightarrow> Session tx" where
  "mfaMintSession sy c acc = coreAuthMintSession sy c acc [] [''mfa''] 2"

definition mfa_Verify :: "sys \<Rightarrow> ctx \<Rightarrow> string \<Rightarrow> string \<Rightarrow> (Account \<times> Session) tx" where
  "mfa_Verify sy c challengeID code = withTx (
     tx_bind (mfaVerifyChallengeCode sy c challengeID code) (\<lambda>(row, accountID).
     tx_bind (mfaConsumeChallenge row) (\<lambda>_.
     tx_bind (mfaLoadAccount (ch_project_id row) accountID) (\<lambda>acc.
     tx_bind (mfaMintSession sy c acc) (\<lambda>sess.
     tx_bind (Emit sy c ''mfa.challenge.verified'' (ch_project_id row) mfaDefaultEnv challengeID (PSession sess)) (\<lambda>_.
       ret (acc, sess)))))))"

section \<open>Enrolment\<close>

text \<open>The factor as the caller receives it carries the provisioning URL beside the persisted envelope.\<close>

definition EnrollTOTP :: "sys \<Rightarrow> ctx \<Rightarrow> string \<Rightarrow> (Factor \<times> string) tx" where
  "EnrollTOTP sy c accountID = withTx (
     tx_bind (mfaResolveAccount accountID) (\<lambda>acc.
     tx_bind (mfaGateEnroll sy c (acc_project_id acc) ''totp'') (\<lambda>_.
     tx_bind (mfaCountFactors accountID) (\<lambda>count.
       if count \<ge> mfaMaxFactorsPerAccount then throw (WithMessage ''maximum number of MFA factors reached'' ErrConflict)
       else
         tx_bind (mfaGenerateTOTPKey sy (acc_primary_email acc)) (\<lambda>(secret, url).
         tx_bind (newUUID sy) (\<lambda>i.
         let f = \<lparr>fa_id = i, fa_type = ''totp'', fa_status = ''pending'', fa_hint = ''authenticator app''\<rparr> in
         tx_bind (mfaInsertFactorFor sy c (acc_project_id acc) accountID f secret) (\<lambda>_.
         tx_bind (Emit sy c ''mfa.factor.enrolled'' (acc_project_id acc) [] (fa_id f) (PFactor f)) (\<lambda>_.
           ret (f, url)))))))))"

definition emitMFAEnrollEvents :: "sys \<Rightarrow> ctx \<Rightarrow> string \<Rightarrow> Factor \<Rightarrow> Challenge \<Rightarrow> string \<Rightarrow> string \<Rightarrow> string \<Rightarrow> unit tx" where
  "emitMFAEnrollEvents sy c projectID f ch code factorType hint =
     tx_bind (Emit sy c ''mfa.factor.enrolled'' projectID [] (fa_id f) (PFactor f)) (\<lambda>_.
       Emit sy c ''mfa.challenge.created'' projectID [] (cl_id ch)
         (PFields [(''code'', DStr code), (''channel'', DStr factorType), (''factor_id'', DStr (fa_id f)),
                   (''challenge_id'', DStr (cl_id ch)), (''to'', DStr hint), (''contact'', DStr hint)]))"

definition mfaEnrollDelivery :: "sys \<Rightarrow> ctx \<Rightarrow> string \<Rightarrow> string \<Rightarrow> string \<Rightarrow> (Factor \<times> Challenge) tx" where
  "mfaEnrollDelivery sy c accountID factorType hint = withTx (
     tx_bind (mfaResolveProject accountID) (\<lambda>projectID.
     tx_bind (mfaGateEnroll sy c projectID factorType) (\<lambda>_.
     tx_bind (mfaCountFactors accountID) (\<lambda>count.
       if count \<ge> mfaMaxFactorsPerAccount then throw (WithMessage ''maximum number of MFA factors reached'' ErrConflict)
       else
         tx_bind (newUUID sy) (\<lambda>i.
         let f = \<lparr>fa_id = i, fa_type = factorType, fa_status = ''pending'', fa_hint = hint\<rparr> in
         tx_bind (mfaInsertFactorFor sy c projectID accountID f []) (\<lambda>_.
         tx_bind (mfaNewOpaqueToken sy mfaDeliveredCodeBytes) (\<lambda>code.
         tx_bind (newUUID sy) (\<lambda>j.
         let ch = \<lparr>cl_id = j, cl_type = factorType, cl_expires_at = cx_now c + mfaChallengeTTL, cl_code = [], cl_token = []\<rparr> in
         tx_bind (mfaInsertChallenge sy c projectID accountID ch
                    (empty_mfa_challenge\<lparr>md_factor_id := fa_id f, md_flow_token_hash := mfaSha256Hex sy code\<rparr>)) (\<lambda>_.
         tx_bind (emitMFAEnrollEvents sy c projectID f ch code factorType hint) (\<lambda>_.
           ret (f, ch)))))))))))"

definition EnrollEmail :: "sys \<Rightarrow> ctx \<Rightarrow> string \<Rightarrow> string \<Rightarrow> (Factor \<times> Challenge) tx" where
  "EnrollEmail sy c accountID email =
     tx_bind (lift_res (ValidateEmail email)) (\<lambda>_. mfaEnrollDelivery sy c accountID coreAuthChallengeEmail email)"

definition EnrollSMS :: "sys \<Rightarrow> ctx \<Rightarrow> string \<Rightarrow> string \<Rightarrow> (Factor \<times> Challenge) tx" where
  "EnrollSMS sy c accountID phone =
     tx_bind (lift_res (ValidatePhone phone)) (\<lambda>_. mfaEnrollDelivery sy c accountID ''sms'' phone)"

definition VerifyTOTP :: "sys \<Rightarrow> ctx \<Rightarrow> string \<Rightarrow> string \<Rightarrow> string \<Rightarrow> Factor tx" where
  "VerifyTOTP sy c accountID factorID code = withTx (
     tx_bind (mfaFindFactor accountID factorID) (\<lambda>row.
       case f_secret row of
         None \<Rightarrow> throw ErrMFAInvalid
       | Some secret \<Rightarrow>
           if \<not> sy_totp_ok sy (cx_now c) code secret then throw ErrMFAInvalid
           else
             tx_bind (mfaFactorFromRow row) (\<lambda>f.
             let f = f\<lparr>fa_status := coreAuthStatusActive\<rparr> in
             tx_bind (exec (db_factors_update (update_where (\<lambda>r. f_id r = f_id row)
                       (\<lambda>r. r\<lparr>f_status := coreAuthStatusActive, f_data := Some f\<rparr>)))) (\<lambda>_.
             tx_bind (Emit sy c ''mfa.factor.activated'' (f_project_id row) [] (fa_id f) (PFactor f)) (\<lambda>_.
               ret f)))))"

definition RemoveFactor :: "sys \<Rightarrow> ctx \<Rightarrow> string \<Rightarrow> string \<Rightarrow> unit tx" where
  "RemoveFactor sy c accountID factorID = withTx (
     tx_bind (mfaFindFactor accountID factorID) (\<lambda>row.
     tx_bind (exec (db_factors_update (delete_where (\<lambda>r. f_id r = f_id row)))) (\<lambda>_.
       Emit sy c ''mfa.factor.removed'' (f_project_id row) [] (f_id row)
         (PFields [(''id'', DStr (f_id row)), (''project_id'', DStr (f_project_id row)), (''account_id'', DStr (f_user_id row))]))))"

section \<open>Recovery codes\<close>

fun mint_recovery_codes :: "sys \<Rightarrow> ctx \<Rightarrow> string \<Rightarrow> string \<Rightarrow> nat \<Rightarrow> string list tx" where
  "mint_recovery_codes sy c projectID accountID 0 = ret []"
| "mint_recovery_codes sy c projectID accountID (Suc n) =
     tx_bind (mfaNewOpaqueToken sy mfaRecoveryCodeBytes) (\<lambda>code.
     tx_bind (newUUID sy) (\<lambda>i.
     tx_bind (insert_row db_recovery db_recovery_update rc_id
                \<lparr>rc_id = i, rc_project_id = projectID, rc_environment = ''live'', rc_user_id = accountID,
                 rc_hash = mfaSha256Hex sy code, rc_used = False, rc_created_at = cx_now c\<rparr>) (\<lambda>_.
     tx_bind (mint_recovery_codes sy c projectID accountID n) (\<lambda>codes. ret (code # codes)))))"

definition GenerateRecoveryCodes :: "sys \<Rightarrow> ctx \<Rightarrow> string \<Rightarrow> string list tx" where
  "GenerateRecoveryCodes sy c accountID = withTx (
     tx_bind (mfaResolveProject accountID) (\<lambda>projectID.
     tx_bind (mfaGateEnroll sy c projectID ''recovery'') (\<lambda>_.
     tx_bind (exec (db_recovery_update (delete_where (\<lambda>r. rc_user_id r = accountID \<and> rc_project_id r = projectID)))) (\<lambda>_.
     tx_bind (mint_recovery_codes sy c projectID accountID mfaRecoveryCodeCount) (\<lambda>codes.
     tx_bind (Emit sy c ''mfa.recovery_codes.generated'' projectID [] accountID
                (PFields [(''account_id'', DStr accountID), (''project_id'', DStr projectID), (''count'', DInt (int (length codes)))])) (\<lambda>_.
       ret codes))))))"

record MFARecoveryVerifyCmd =
  rv_project_id :: string
  rv_flow_token :: string
  rv_code :: string

definition VerifyRecoveryCode :: "sys \<Rightarrow> ctx \<Rightarrow> MFARecoveryVerifyCmd \<Rightarrow> (Account \<times> Session) tx" where
  "VerifyRecoveryCode sy c cmd = withTx (
     tx_bind (mfaAccountFromFlow c (rv_project_id cmd) (rv_flow_token cmd)) (\<lambda>accountID.
     tx_bind (query (\<lambda>d. find (\<lambda>r. rc_project_id r = rv_project_id cmd \<and> rc_user_id r = accountID
                \<and> rc_hash r = mfaSha256Hex sy (rv_code cmd) \<and> \<not> rc_used r) (db_recovery d))) (\<lambda>found.
       case found of
         None \<Rightarrow> throw ErrInvalidCredentials
       | Some row \<Rightarrow>
           tx_bind (exec (db_recovery_update (update_where (\<lambda>r. rc_id r = rc_id row) (\<lambda>r. r\<lparr>rc_used := True\<rparr>)))) (\<lambda>_.
           tx_bind (mfaLoadAccount (rv_project_id cmd) (rc_user_id row)) (\<lambda>acc.
           tx_bind (mfaMintSession sy c acc) (\<lambda>sess.
           tx_bind (Emit sy c ''mfa.recovery_code.consumed'' (rv_project_id cmd) mfaDefaultEnv (rc_user_id row) (PSession sess)) (\<lambda>_.
             ret (acc, sess))))))))"

section \<open>Sign-in with a password, then a factor\<close>

definition primaryFactorID :: "Factor list \<Rightarrow> string" where
  "primaryFactorID factors =
     (case find (\<lambda>f. fa_type f = ''totp'' \<or> fa_type f = ''webauthn'') factors of
        Some f \<Rightarrow> fa_id f
      | None \<Rightarrow> (case factors of f # _ \<Rightarrow> fa_id f | [] \<Rightarrow> []))"

datatype AuthResultOrNextStep = AuthResult Account "Session option" | AuthNextStep string "Factor list"

definition PostV1AuthSignInPassword :: "sys \<Rightarrow> ctx \<Rightarrow> string \<Rightarrow> string \<Rightarrow> string \<Rightarrow> AuthResultOrNextStep tx" where
  "PostV1AuthSignInPassword sy c clientID email password =
     tx_bind (AuthenticatePassword sy c clientID email password) (\<lambda>res.
       if pw_mfa_required res
       then tx_bind (mfa_Challenge sy c (acc_id (pw_account res)) (primaryFactorID (pw_factors res))) (\<lambda>ch.
              ret (AuthNextStep (cl_id ch) (pw_factors res)))
       else ret (AuthResult (pw_account res) (pw_session res)))"


section \<open>Steps\<close>

lemma keeps_mfa_reads [intro!]:
  "keeps p (mfaFindFactor a i)" "keeps p (mfaLoadAccount pid a)" "keeps p (mfaResolveProject a)" "keeps p (mfaResolveAccount a)"
  "keeps p (mfaCountFactors a)" "keeps p (mfaNewOpaqueToken sy n)" "keeps p (mfaGenerateTOTPKey sy l)" "keeps p (mfaGateEnroll sy c pid ty)"
  "keeps p (mfaFactorFromRow row)" "keeps p (mfaAccountFromFlow c pid t)" "keeps p (mfaCheckChallengeCode sy c crow a data code)"
  by (auto simp: mfaFindFactor_def mfaLoadAccount_def mfaResolveProject_def mfaResolveAccount_def mfaCountFactors_def mfaNewOpaqueToken_def
      mfaGenerateTOTPKey_def mfaGateEnroll_def mfaLoadPolicy_def mfaFactorFromRow_def mfaAccountFromFlow_def mfaCheckChallengeCode_def
      split: option.split)

lemma quiet_mfa_reads [intro!]:
  "quiet (mfaFindFactor a i)" "quiet (mfaLoadAccount pid a)" "quiet (mfaResolveProject a)" "quiet (mfaResolveAccount a)"
  "quiet (mfaCountFactors a)" "quiet (mfaNewOpaqueToken sy n)" "quiet (mfaGenerateTOTPKey sy l)" "quiet (mfaGateEnroll sy c pid ty)"
  "quiet (mfaFactorFromRow row)" "quiet (mfaAccountFromFlow c pid t)" "quiet (mfaCheckChallengeCode sy c crow a data code)"
  "quiet (mfaConsumeChallenge crow)"
  by (auto simp: mfaFindFactor_def mfaLoadAccount_def mfaResolveProject_def mfaResolveAccount_def mfaCountFactors_def mfaNewOpaqueToken_def
      mfaGenerateTOTPKey_def mfaGateEnroll_def mfaLoadPolicy_def mfaFactorFromRow_def mfaAccountFromFlow_def mfaCheckChallengeCode_def
      mfaConsumeChallenge_def mark_consumed_def split: option.split)

text \<open>The code a challenge accepts: the delivered one, or one of the authenticator of an active factor.\<close>

definition code_accepted :: "sys \<Rightarrow> ctx \<Rightarrow> db \<Rightarrow> challenge_row \<Rightarrow> mfaChallengeData \<Rightarrow> string \<Rightarrow> bool" where
  "code_accepted sy c d row data code \<longleftrightarrow>
     (if delivered (ch_type row) then md_flow_token_hash data \<noteq> [] \<and> mfaSha256Hex sy code = md_flow_token_hash data
      else list_ex (\<lambda>f. f_id f = md_factor_id data \<and> f_user_id f = str_or_empty (ch_subject row) \<and> f_status f = coreAuthStatusActive
             \<and> (case f_secret f of Some secret \<Rightarrow> sy_totp_ok sy (cx_now c) code secret | None \<Rightarrow> False)) (db_factors d))"

lemma mfaCheckChallengeCode_state: "mfaCheckChallengeCode sy c row a data code s = (r, s') \<Longrightarrow> s' = s"
  by (auto simp: mfaCheckChallengeCode_def mfaFindFactor_def tx_bind_def split: if_splits option.splits)

lemma mfaCheckChallengeCode_True:
  "mfaCheckChallengeCode sy c row (str_or_empty (ch_subject row)) data code s = (Inr True, s') \<Longrightarrow> code_accepted sy c (tx_db s) row data code"
  by (auto simp: mfaCheckChallengeCode_def mfaFindFactor_def code_accepted_def list_ex_iff res_simps split: if_splits option.splits dest!: find_set)

text \<open>A guess is wrong when it reaches the comparison and fails it.\<close>

definition wrong_code :: "sys \<Rightarrow> ctx \<Rightarrow> string \<Rightarrow> string \<Rightarrow> txs \<Rightarrow> bool" where
  "wrong_code sy c i code s \<longleftrightarrow>
     (case find (\<lambda>r. ch_id r = i) (db_challenges (tx_db s)) of
        Some row \<Rightarrow>
          \<not> ch_consumed row \<and> nowIn c \<le> ch_expires_at row
        \<and> (case mfa_data row of
             Some data \<Rightarrow> md_attempts data < mfaMaxVerifyAttempts
                \<and> fst (mfaCheckChallengeCode sy c row (str_or_empty (ch_subject row)) data code s) = Inr False
           | None \<Rightarrow> False)
      | None \<Rightarrow> False)"

text \<open>The three outcomes of a verification: accepted, refused without a trace, or counted.\<close>

lemma mfaVerifyChallengeCode_cases:
  assumes "mfaVerifyChallengeCode sy c i code s = (r, s')" and "side_free p" and "\<And>f d. p (db_attempts_update f d) = p d"
  obtains (accepted) row data where "r = Inr (row, str_or_empty (ch_subject row))" and "s' = s"
      and "find (\<lambda>r. ch_id r = i) (db_challenges (tx_db s)) = Some row" and "\<not> ch_consumed row" and "nowIn c \<le> ch_expires_at row"
      and "mfa_data row = Some data" and "md_attempts data < mfaMaxVerifyAttempts" and "code_accepted sy c (tx_db s) row data code"
      and "\<not> wrong_code sy c i code s"
    | (refused) e where "r = Inl e" and "tx_pool s' = tx_pool s" and "\<not> wrong_code sy c i code s"
    | (counted) e row data ws where "r = Inl e"
      and "find (\<lambda>r. ch_id r = i) (db_challenges (tx_db s)) = Some row" and "\<not> ch_consumed row"
      and "mfa_data row = Some data" and "md_attempts data < mfaMaxVerifyAttempts" and "wrong_code sy c i code s"
      and "tx_pool s' = tx_pool s @ PoolChallenge i (data\<lparr>md_attempts := md_attempts data + 1\<rparr>)
                          (md_attempts data + 1 \<ge> mfaMaxVerifyAttempts) # ws"
      and "\<And>d. p (apply_pool ws d) = p d"
proof -
  show thesis
  proof (cases "find (\<lambda>r. ch_id r = i) (db_challenges (tx_db s))")
    case None
    then show thesis using refused assms(1) by (auto simp: mfaVerifyChallengeCode_def tx_bind_def wrong_code_def)
  next
    case (Some row)
    then have i: "ch_id row = i" by (auto dest: find_set)
    show thesis
    proof (cases "ch_consumed row \<or> nowIn c > ch_expires_at row \<or> mfa_data row = None")
      case True
      then show thesis using refused assms(1) Some
        by (auto simp: mfaVerifyChallengeCode_def tx_bind_def wrong_code_def unmarshal_def Let_def split: if_splits)
    next
      case False
      then obtain data where data: "mfa_data row = Some data" by auto
      let ?a = "str_or_empty (ch_subject row)"
      obtain q s1 where chk: "mfaCheckChallengeCode sy c row ?a data code s = (q, s1)"
        by (cases "mfaCheckChallengeCode sy c row ?a data code s")
      have s1: "s1 = s" by (rule mfaCheckChallengeCode_state [OF chk])
      have run: "(r, s') = (if md_attempts data \<ge> mfaMaxVerifyAttempts then (Inl ErrChallengeInvalid, s)
          else case q of Inl e \<Rightarrow> (Inl e, s) | Inr True \<Rightarrow> (Inr (row, ?a), s)
               | Inr False \<Rightarrow> tx_bind (mfaBumpChallengeAttempts i data) (\<lambda>_.
                        tx_bind (recordFailure sy c (ch_project_id row) ?a ''mfa_failures'') (\<lambda>_.
                          throw ErrMFAInvalid)) s)"
        using assms(1) Some False data chk s1 i
        by (auto simp: mfaVerifyChallengeCode_def unmarshal_def Let_def tx_bind_def split: sum.splits bool.splits)
      consider "md_attempts data \<ge> mfaMaxVerifyAttempts" | e where "md_attempts data < mfaMaxVerifyAttempts" "q = Inl e"
        | "md_attempts data < mfaMaxVerifyAttempts" "q = Inr True" | "md_attempts data < mfaMaxVerifyAttempts" "q = Inr False"
        by (cases q) force+
      then show thesis
      proof cases
        case 1
        then show thesis using refused run Some data by (auto simp: wrong_code_def)
      next
        case 2
        then show thesis using refused run Some data chk by (auto simp: wrong_code_def)
      next
        case 3
        then show thesis using accepted [of row data] run Some False data chk s1 mfaCheckChallengeCode_True [of sy c row data code s s1]
          by (auto simp: wrong_code_def)
      next
        case 4
        let ?w = "PoolChallenge i (data\<lparr>md_attempts := md_attempts data + 1\<rparr>) (md_attempts data + 1 \<ge> mfaMaxVerifyAttempts)"
        let ?s = "s\<lparr>tx_pool := tx_pool s @ [?w]\<rparr>"
        obtain o' s2 where rf: "recordFailure sy c (ch_project_id row) ?a ''mfa_failures'' ?s = (o', s2)"
          by (cases "recordFailure sy c (ch_project_id row) ?a ''mfa_failures'' ?s")
        obtain ws where ws: "tx_pool s2 = tx_pool ?s @ ws" "\<And>d. p (apply_pool ws d) = p d"
          by (rule pooledD [OF pooled_recordFailure [OF assms(2,3)] rf]) auto
        have res: "s' = s2 \<and> (\<exists>e. r = Inl e)"
          using run 4 rf by (cases o') (auto simp: mfaBumpChallengeAttempts_def Let_def tx_bind_def)
        have wrong: "wrong_code sy c i code s" using Some False data chk 4 by (simp add: wrong_code_def)
        show thesis using counted [of _ row data ws] res ws Some False data 4 wrong by auto
      qed
    qed
  qed
qed


text \<open>A projection that ignores what a refused sign-in leaves behind: the flow it opened, the attempts it
  counted and the events.\<close>

definition aside :: "(db \<Rightarrow> 'p) \<Rightarrow> bool" where
  "aside p \<longleftrightarrow> side_free p \<and> (\<forall>f d. p (db_attempts_update f d) = p d) \<and> (\<forall>f d. p (db_flows_update f d) = p d)"

lemma asideD: "aside p \<Longrightarrow> side_free p" "aside p \<Longrightarrow> p (db_attempts_update f d) = p d" "aside p \<Longrightarrow> p (db_flows_update g d) = p d"
  by (simp_all add: aside_def)

lemma keeps_flow_steps [intro!]:
  assumes "aside p"
  shows "keeps p (throttle sy c v sb k l w)" "keeps p (newFlow sy c v k)" "keeps p (saveFlow sy f t)" "keeps p (startReview sy c v f inp)"
proof -
  note a = asideD [OF assms]
  show "keeps p (throttle sy c v sb k l w)" using a by (auto simp: throttle_def Let_def split: option.split)
  show "keeps p (newFlow sy c v k)" by (auto simp: newFlow_def Let_def)
  show "keeps p (saveFlow sy f t)" using a by (auto simp: saveFlow_def Let_def)
  have "keeps p (issueCode sy c f)" for f using a by (auto simp: issueCode_def coreAuthRandomCode_def Let_def)
  then show "keeps p (startReview sy c v f inp)"
    using a by (auto simp: startReview_def review_target_def priorMFARequired_def load_incident_def load_device_def Let_def
        split: option.split prod.split)
qed

lemma pooled_guardSignIn: "aside p \<Longrightarrow> pooled p (guardSignIn sy c acc aal)"
proof -
  assume a: "aside p"
  have "pooled p (requireSignInProof sy c v)" for v
    unfolding requireSignInProof_def Let_def using a asideD [OF a] by (auto split: prod.split)
  moreover have "pooled p (consumeSignInProof sy c v a t)" for v a t
    by (rule pooled_quiet) (auto simp: consumeSignInProof_def loadFlow_def saveFlow_def validateFlowAuthority_def Let_def split: option.split)
  ultimately show ?thesis unfolding guardSignIn_def Let_def by (auto intro: pooled_quiet)
qed

lemma pooled_mint: "aside p \<Longrightarrow> pooled p (coreAuthMintSession sy c acc cl amr aal)"
  unfolding coreAuthMintSession_def Let_def
  by (auto intro: pooled_quiet pooled_guardSignIn simp: coreAuthInsertSessionRow_def coreAuthInsertRefreshToken_def)

lemma keeps_mint:
  assumes "aside p" and "\<And>f d. p (db_devices_update f d) = p d" and "\<And>f d. p (db_keys_update f d) = p d"
    and "\<And>f d. p (db_sessions_update f d) = p d" and "\<And>f d. p (db_refresh_update f d) = p d"
  shows "keeps p (coreAuthMintSession sy c acc cl amr aal)"
proof -
  have em: "keeps p (Emit sy c t pid e a pl)" for t pid e a pl using assms asideD [OF assms(1)] by (intro keeps_Emit_created) auto
  show ?thesis unfolding coreAuthMintSession_def Let_def using assms asideD [OF assms(1)]
    by (auto simp: coreAuthInsertSessionRow_def coreAuthInsertRefreshToken_def intro!: em del: keeps_Emit)
qed

section \<open>What a verified factor proves\<close>

lemma mint_challenges:
  assumes "coreAuthMintSession sy c acc cl amr aal s = (Inr sess, s')"
  shows "db_challenges (tx_db s') = db_challenges (tx_db s)" and "0 < aal \<Longrightarrow> se_aal sess = aal"
    and "se_account_id sess = acc_id acc" and "se_amr sess = amr" and "se_id sess \<notin> s_id ` set (db_sessions (tx_db s))"
  by (rule coreAuthMintSession_Inr [OF assms]; simp add: linked_tables_def auth_tables_def newCoreAuthSession_def Let_def)+

lemma settled_verify_code [intro!]: "settled (mfaVerifyChallengeCode sy c i code)"
  unfolding settled_def
proof (intro allI impI)
  fix s x s' assume run: "mfaVerifyChallengeCode sy c i code s = (Inr x, s')"
  show "tx_pool s' = tx_pool s"
    by (rule mfaVerifyChallengeCode_cases [OF run, of auth_tables]) (auto simp: auth_tables_def)
qed

lemma settled_mfa_mint [intro!]: "settled (mfaMintSession sy c acc)"
  unfolding mfaMintSession_def by auto

lemma mfa_Verify_Inr:
  assumes "mfa_Verify sy c i code s = (Inr (acc, sess), s')" and "tx_pool s = []"
  obtains row data s1 where "find (\<lambda>r. ch_id r = i) (db_challenges (tx_db s)) = Some row"
    and "\<not> ch_consumed row" and "nowIn c \<le> ch_expires_at row" and "mfa_data row = Some data" and "md_attempts data < mfaMaxVerifyAttempts"
    and "code_accepted sy c (tx_db s) row data code"
    and "mfaLoadAccount (ch_project_id row) (str_or_empty (ch_subject row)) s = (Inr acc, s)"
    and "mfaMintSession sy c acc (s\<lparr>tx_db := db_challenges_update (update_where (\<lambda>r. ch_id r = i) (\<lambda>r. r\<lparr>ch_consumed := True\<rparr>)) (tx_db s)\<rparr>)
           = (Inr sess, s1)"
    and "Emit sy c ''mfa.challenge.verified'' (ch_project_id row) mfaDefaultEnv i (PSession sess) s1 = (Inr (), s')"
proof -
  have "settled (tx_bind (mfaVerifyChallengeCode sy c i code) (\<lambda>(row, accountID).
     tx_bind (mfaConsumeChallenge row) (\<lambda>_.
     tx_bind (mfaLoadAccount (ch_project_id row) accountID) (\<lambda>acc.
     tx_bind (mfaMintSession sy c acc) (\<lambda>sess.
     tx_bind (Emit sy c ''mfa.challenge.verified'' (ch_project_id row) mfaDefaultEnv i (PSession sess)) (\<lambda>_.
       ret (acc, sess))))))) "
    by (auto intro: settled_quiet)
  from settled_withTx [OF assms(1) [unfolded mfa_Verify_def] this assms(2)]
  obtain row a s0 s2 s1 where v: "mfaVerifyChallengeCode sy c i code s = (Inr (row, a), s0)"
    and ld: "mfaLoadAccount (ch_project_id row) a
        (s0\<lparr>tx_db := db_challenges_update (update_where (\<lambda>r. ch_id r = ch_id row) (\<lambda>r. r\<lparr>ch_consumed := True\<rparr>)) (tx_db s0)\<rparr>) = (Inr acc, s2)"
    and m: "mfaMintSession sy c acc s2 = (Inr sess, s1)"
    and em: "Emit sy c ''mfa.challenge.verified'' (ch_project_id row) mfaDefaultEnv i (PSession sess) s1 = (Inr (), s')"
    by (auto simp: res_simps mfaConsumeChallenge_def mark_consumed_def)
  show thesis
  proof (rule mfaVerifyChallengeCode_cases [OF v, of auth_tables])
    fix row' data assume r: "Inr (row, a) = (Inr (row', str_or_empty (ch_subject row')) :: (challenge_row \<times> string) res)" "s0 = s"
      and c: "find (\<lambda>r. ch_id r = i) (db_challenges (tx_db s)) = Some row'" "\<not> ch_consumed row'" "nowIn c \<le> ch_expires_at row'"
        "mfa_data row' = Some data" "md_attempts data < mfaMaxVerifyAttempts" "code_accepted sy c (tx_db s) row' data code"
    have i: "ch_id row' = i" using c(1) by (auto dest: find_set)
    have "s2 = s\<lparr>tx_db := db_challenges_update (update_where (\<lambda>r. ch_id r = i) (\<lambda>r. r\<lparr>ch_consumed := True\<rparr>)) (tx_db s)\<rparr>"
      "mfaLoadAccount (ch_project_id row') (str_or_empty (ch_subject row')) s = (Inr acc, s)"
      using ld r i by (auto simp: mfaLoadAccount_def FindIamUser_def unmarshal_def res_simps split: option.splits if_splits)
    then show thesis using that [OF c] m em r by auto
  qed (auto simp: auth_tables_def)
qed

lemma find_marked:
  "find (\<lambda>r. ch_id r = i) rs = Some row \<Longrightarrow>
     find (\<lambda>r. ch_id r = i) (update_where (\<lambda>r. ch_id r = i) (\<lambda>r. r\<lparr>ch_consumed := True\<rparr>) rs) = Some (row\<lparr>ch_consumed := True\<rparr>)"
  by (induction rs) (auto simp: update_where_def)

lemma spent_challenge_refused:
  assumes "find (\<lambda>r. ch_id r = i) (db_challenges (tx_db s)) = Some row" and "ch_consumed row"
  shows "fst (mfa_Verify sy c i code s) = Inl ErrChallengeInvalid"
  using assms by (simp add: mfa_Verify_def withTx_def mfaVerifyChallengeCode_def tx_bind_def)

text \<open>C8: a second factor that verifies proves what it should. The challenge existed, was neither spent nor
  expired, had seen fewer than five wrong codes, and the code was the one delivered for it or one its
  authenticator, an active factor of the same account, accepts at that instant. The session belongs to
  the account the challenge was issued to, is new, and has assurance level 2. The challenge is spent:
  no later request, with whatever code, verifies it again.\<close>

theorem second_factor_sound:
  assumes "mfa_Verify sy c i code s = (Inr (acc, sess), s')" and "tx_pool s = []"
  shows "\<exists>row data. row \<in> set (db_challenges (tx_db s)) \<and> ch_id row = i \<and> \<not> ch_consumed row \<and> nowIn c \<le> ch_expires_at row
     \<and> mfa_data row = Some data \<and> md_attempts data < 5 \<and> code_accepted sy c (tx_db s) row data code
     \<and> (\<exists>u \<in> set (db_users (tx_db s)). u_id u = str_or_empty (ch_subject row) \<and> u_data u = Some acc \<and> u_project_id u = ch_project_id row)
     \<and> se_account_id sess = acc_id acc \<and> se_aal sess = 2 \<and> se_id sess \<notin> s_id ` set (db_sessions (tx_db s))
     \<and> (\<forall>sy' c' code'. fst (mfa_Verify sy' c' i code' s') = Inl ErrChallengeInvalid)"
proof -
  let ?s = "s\<lparr>tx_db := db_challenges_update (update_where (\<lambda>r. ch_id r = i) (\<lambda>r. r\<lparr>ch_consumed := True\<rparr>)) (tx_db s)\<rparr>"
  obtain row data s1 where c: "find (\<lambda>r. ch_id r = i) (db_challenges (tx_db s)) = Some row" "\<not> ch_consumed row" "nowIn c \<le> ch_expires_at row"
      "mfa_data row = Some data" "md_attempts data < mfaMaxVerifyAttempts" "code_accepted sy c (tx_db s) row data code"
    and ld: "mfaLoadAccount (ch_project_id row) (str_or_empty (ch_subject row)) s = (Inr acc, s)"
    and m: "mfaMintSession sy c acc ?s = (Inr sess, s1)"
    and em: "Emit sy c ''mfa.challenge.verified'' (ch_project_id row) mfaDefaultEnv i (PSession sess) s1 = (Inr (), s')"
    by (rule mfa_Verify_Inr [OF assms])
  note mint = mint_challenges [OF m [unfolded mfaMintSession_def]]
  have "db_challenges (tx_db s') = db_challenges (tx_db s1)"
    using keepsD [of db_challenges, OF keeps_Emit em] by (simp add: side_free_def)
  then have "find (\<lambda>r. ch_id r = i) (db_challenges (tx_db s')) = Some (row\<lparr>ch_consumed := True\<rparr>)"
    using mint(1) find_marked [OF c(1)] by simp
  from spent_challenge_refused [OF this]
  have spent: "\<forall>sy' c' code'. fst (mfa_Verify sy' c' i code' s') = Inl ErrChallengeInvalid" by simp
  have "\<exists>u \<in> set (db_users (tx_db s)). u_id u = str_or_empty (ch_subject row) \<and> u_data u = Some acc \<and> u_project_id u = ch_project_id row"
    using ld by (fastforce simp: mfaLoadAccount_def FindIamUser_def unmarshal_def res_simps split: option.splits if_splits dest!: find_set)
  then show ?thesis using c mint(2,3,5) spent by (auto simp: mfaMaxVerifyAttempts_def dest!: find_set)
qed


definition totp_challenge :: challenge_row where
  "totp_challenge =
     \<lparr>ch_id = ''flow'', ch_project_id = ''p'', ch_environment = ''live'', ch_type = ''totp'', ch_subject = Some ''alice'',
      ch_code_hash = None, ch_expires_at = 300 * Second, ch_consumed = False, ch_created_at = 0, ch_data = Some (mfa_doc (empty_mfa_challenge\<lparr>md_factor_id := ''f'', md_attempts := 2\<rparr>))\<rparr>"

definition factor_db :: db where
  "factor_db = mfa_db\<lparr>db_challenges := [totp_challenge],
     db_recovery := [\<lparr>rc_id = ''r1'', rc_project_id = ''p'', rc_environment = ''live'', rc_user_id = ''alice'', rc_hash = ''h:one'',
                       rc_used = False, rc_created_at = 0\<rparr>,
                     \<lparr>rc_id = ''r2'', rc_project_id = ''p'', rc_environment = ''live'', rc_user_id = ''alice'', rc_hash = ''h:two'',
                       rc_used = True, rc_created_at = 0\<rparr>]\<rparr>"

theorem second_factor_sound_witness:
  "\<exists>acc sess s'. mfa_Verify sample_sys (sample_ctx 5) ''flow'' ''k'' (sample_state factor_db) = (Inr (acc, sess), s')
     \<and> se_aal sess = 2 \<and> fst (mfa_Verify sample_sys (sample_ctx 6) ''flow'' ''k'' s') = Inl ErrChallengeInvalid"
proof -
  have "case fst (mfa_Verify sample_sys (sample_ctx 5) ''flow'' ''k'' (sample_state factor_db)) of Inr r \<Rightarrow> True | Inl _ \<Rightarrow> False"
    by code_simp
  then obtain acc sess s' where run: "mfa_Verify sample_sys (sample_ctx 5) ''flow'' ''k'' (sample_state factor_db) = (Inr (acc, sess), s')"
    by (cases "mfa_Verify sample_sys (sample_ctx 5) ''flow'' ''k'' (sample_state factor_db)") (auto split: sum.splits)
  from second_factor_sound [OF run sample_state_idle(1)] run show ?thesis by auto
qed

section \<open>Recovery codes are burnt\<close>

text \<open>A series of recovery requests, and how many of them signed in.\<close>

fun recoveries :: "sys \<Rightarrow> (ctx \<times> MFARecoveryVerifyCmd) list \<Rightarrow> txs \<Rightarrow> nat" where
  "recoveries sy [] s = 0"
| "recoveries sy ((c, cmd) # rest) s =
     (let (r, s') = VerifyRecoveryCode sy c cmd s in
      (case r of Inr _ \<Rightarrow> 1 | Inl _ \<Rightarrow> 0) + recoveries sy rest s')"

definition unused :: "db \<Rightarrow> recovery_row list" where
  "unused d = filter (\<lambda>r. \<not> rc_used r) (db_recovery d)"

lemma burn_unused:
  assumes "find P rs = Some row" and "\<And>r. P r \<Longrightarrow> \<not> rc_used r"
  shows "length (filter (\<lambda>r. \<not> rc_used r) (update_where (\<lambda>r. rc_id r = rc_id row) (\<lambda>r. r\<lparr>rc_used := True\<rparr>) rs))
       < length (filter (\<lambda>r. \<not> rc_used r) rs)"
proof -
  have le: "length (filter (\<lambda>r. \<not> rc_used r) (update_where q (\<lambda>r. r\<lparr>rc_used := True\<rparr>) xs)) \<le> length (filter (\<lambda>r. \<not> rc_used r) xs)" for q xs
    by (induction xs) (auto simp: update_where_def)
  show ?thesis using assms(1)
  proof (induction rs)
    case (Cons x xs)
    show ?case
    proof (cases "P x")
      case True
      then have "row = x" "\<not> rc_used x" using Cons.prems assms(2) by auto
      then show ?thesis using le [of "\<lambda>r. rc_id r = rc_id x" xs] by (simp add: update_where_def)
    next
      case False
      then show ?thesis using Cons by (auto simp: update_where_def)
    qed
  qed simp
qed

lemma aside_recovery [simp]: "aside db_recovery" by (simp add: aside_def side_free_def)

lemma VerifyRecoveryCode_burns:
  assumes run: "VerifyRecoveryCode sy c cmd s = (r, s')" and idle: "tx_pool s = []"
  shows "tx_pool s' = []" and "(case r of Inr _ \<Rightarrow> 1 | Inl _ \<Rightarrow> 0) + length (unused (tx_db s')) \<le> length (unused (tx_db s))"
proof -
  let ?P = "\<lambda>a rr. rc_project_id rr = rv_project_id cmd \<and> rc_user_id rr = a \<and> rc_hash rr = mfaSha256Hex sy (rv_code cmd) \<and> \<not> rc_used rr"
  let ?K = "\<lambda>row :: recovery_row. tx_bind (mfaLoadAccount (rv_project_id cmd) (rc_user_id row)) (\<lambda>acc.
           tx_bind (mfaMintSession sy c acc) (\<lambda>sess.
           tx_bind (Emit sy c ''mfa.recovery_code.consumed'' (rv_project_id cmd) mfaDefaultEnv (rc_user_id row) (PSession sess)) (\<lambda>_.
             ret (acc, sess))))"
  let ?burn = "\<lambda>row. db_recovery_update (update_where (\<lambda>rr. rc_id rr = rc_id row) (\<lambda>rr. rr\<lparr>rc_used := True\<rparr>))"
  let ?m = "tx_bind (mfaAccountFromFlow c (rv_project_id cmd) (rv_flow_token cmd)) (\<lambda>a.
     tx_bind (query (\<lambda>d. find (?P a) (db_recovery d))) (\<lambda>found.
       case found of None \<Rightarrow> throw ErrInvalidCredentials | Some row \<Rightarrow> tx_bind (exec (?burn row)) (\<lambda>_. ?K row)))"
  have v: "VerifyRecoveryCode sy c cmd = withTx ?m" by (simp add: VerifyRecoveryCode_def)
  have K: "keeps db_recovery (?K row)" for row
    unfolding mfaMintSession_def by (auto intro!: keeps_mint simp: side_free_def)
  have pool: "pooled db_recovery ?m"
    unfolding mfaMintSession_def by (auto intro!: pooled_mint intro: pooled_quiet split: option.split)
  have settled: "settled ?m" by (auto intro: settled_quiet split: option.split)
  show "tx_pool s' = []" using run idle by (auto simp: v withTx_idle split: prod.splits sum.splits)
  show "(case r of Inr _ \<Rightarrow> 1 | Inl _ \<Rightarrow> 0) + length (unused (tx_db s')) \<le> length (unused (tx_db s))"
  proof (cases r)
    case (Inl e)
    obtain q s1 where m: "?m s = (q, s1)" by (cases "?m s")
    obtain ws where "tx_pool s1 = ws" "\<And>d. db_recovery (apply_pool ws d) = db_recovery d"
      using pooledD [OF pool m] idle by auto
    then have "db_recovery (tx_db s') = db_recovery (tx_db s)"
      using run m Inl idle by (cases q) (auto simp: v withTx_idle)
    then show ?thesis by (simp add: Inl unused_def)
  next
    case (Inr x)
    have "?m s = (Inr x, s')" using settled_withTx [OF _ settled idle] run Inr by (simp add: v)
    then obtain a s1 row where fl: "mfaAccountFromFlow c (rv_project_id cmd) (rv_flow_token cmd) s = (Inr a, s1)"
      and row: "find (?P a) (db_recovery (tx_db s1)) = Some row"
      and k: "?K row (s1\<lparr>tx_db := ?burn row (tx_db s1)\<rparr>) = (Inr x, s')"
      by (auto simp: tx_bind_eq_Inr split: option.splits)
    have "tx_db s1 = tx_db s" using keepsD [of "\<lambda>d. d", OF keeps_mfa_reads(10) fl] by simp
    moreover have "db_recovery (tx_db s') = db_recovery (?burn row (tx_db s1))" using keepsD [OF K k] by simp
    ultimately show ?thesis using burn_unused [OF row] Inr by (simp add: unused_def Suc_le_eq)
  qed
qed

text \<open>C10: recovery codes are single use. Over any series of requests, whatever the codes, the flow tokens and the
  instants, no more of them sign in than there were unused recovery codes at the start.\<close>

theorem recovery_codes_single_use:
  assumes "tx_pool s = []"
  shows "recoveries sy reqs s \<le> length (unused (tx_db s))"
  using assms
proof (induction reqs arbitrary: s)
  case (Cons a rest)
  obtain c cmd where a: "a = (c, cmd)" by (cases a)
  obtain r s' where run: "VerifyRecoveryCode sy c cmd s = (r, s')" by (cases "VerifyRecoveryCode sy c cmd s")
  note b = VerifyRecoveryCode_burns [OF run Cons.prems]
  from Cons.IH [OF b(1)] b(2) show ?case by (simp add: a run)
qed simp

theorem recovery_codes_single_use_witness:
  "recoveries sample_sys (replicate 3 (sample_ctx 5, \<lparr>rv_project_id = ''p'', rv_flow_token = ''flow'', rv_code = ''one''\<rparr>)) (sample_state factor_db) \<le> 1"
proof -
  have "length (unused factor_db) = 1" by code_simp
  then show ?thesis using recovery_codes_single_use [OF sample_state_idle(1)] by (metis sample_state_idle(2))
qed


lemma mint_recovery_codes_Inr:
  "mint_recovery_codes sy c pid a n s = (Inr codes, s') \<Longrightarrow>
     \<exists>rows. db_recovery (tx_db s') = db_recovery (tx_db s) @ rows \<and> length codes = n \<and> map rc_hash rows = map (mfaSha256Hex sy) codes
       \<and> list_all (\<lambda>r. rc_project_id r = pid \<and> rc_user_id r = a \<and> \<not> rc_used r) rows"
proof (induction n arbitrary: s codes s')
  case (Suc n)
  obtain code i rest s1 where r: "mint_recovery_codes sy c pid a n (s1\<lparr>tx_db := db_recovery_update (\<lambda>rs. rs @
        [\<lparr>rc_id = i, rc_project_id = pid, rc_environment = ''live'', rc_user_id = a, rc_hash = mfaSha256Hex sy code, rc_used = False,
          rc_created_at = cx_now c\<rparr>]) (tx_db s1)\<rparr>) = (Inr rest, s')" and codes: "codes = code # rest" and s1: "tx_db s1 = tx_db s"
    using Suc.prems by (auto simp: res_simps insert_row_Inr mfaNewOpaqueToken_def newUUID_def draw_def)
  from Suc.IH [OF r] codes s1 show ?case by force
qed (simp add: ret_apply)

text \<open>C22: generating recovery codes replaces the whole batch: ten codes are returned, and the codes the account
  can use afterwards are exactly these, stored as hashes; the codes of other accounts are untouched.\<close>

theorem recovery_codes_replaced:
  assumes "GenerateRecoveryCodes sy c a s = (Inr codes, s')" and "tx_pool s = []"
  shows "\<exists>u \<in> set (db_users (tx_db s)). u_id u = a \<and> length codes = 10
     \<and> map rc_hash (filter (\<lambda>r. rc_user_id r = a \<and> rc_project_id r = u_project_id u) (db_recovery (tx_db s'))) = map (mfaSha256Hex sy) codes
     \<and> list_all (\<lambda>r. \<not> rc_used r) (filter (\<lambda>r. rc_user_id r = a \<and> rc_project_id r = u_project_id u) (db_recovery (tx_db s')))
     \<and> filter (\<lambda>r. rc_user_id r \<noteq> a) (db_recovery (tx_db s')) = filter (\<lambda>r. rc_user_id r \<noteq> a) (db_recovery (tx_db s))"
proof -
  let ?del = "\<lambda>pid. db_recovery_update (delete_where (\<lambda>r. rc_user_id r = a \<and> rc_project_id r = pid))"
  have q: "quiet (mint_recovery_codes sy c pid a n)" for pid n by (induction n) auto
  have "settled (tx_bind (mfaResolveProject a) (\<lambda>projectID.
     tx_bind (mfaGateEnroll sy c projectID ''recovery'') (\<lambda>_.
     tx_bind (exec (?del projectID)) (\<lambda>_.
     tx_bind (mint_recovery_codes sy c projectID a mfaRecoveryCodeCount) (\<lambda>codes.
     tx_bind (Emit sy c ''mfa.recovery_codes.generated'' projectID [] a
                (PFields [(''account_id'', DStr a), (''project_id'', DStr projectID), (''count'', DInt (int (length codes)))])) (\<lambda>_.
       ret codes))))))" using q by (auto intro: settled_quiet)
  from settled_withTx [OF assms(1) [unfolded GenerateRecoveryCodes_def] this assms(2)]
  obtain pid s1 s2 s3 where p: "mfaResolveProject a s = (Inr pid, s1)" and g: "mfaGateEnroll sy c pid ''recovery'' s1 = (Inr (), s2)"
    and m: "mint_recovery_codes sy c pid a mfaRecoveryCodeCount (s2\<lparr>tx_db := ?del pid (tx_db s2)\<rparr>) = (Inr codes, s3)"
    and e: "Emit sy c ''mfa.recovery_codes.generated'' pid [] a
       (PFields [(''account_id'', DStr a), (''project_id'', DStr pid), (''count'', DInt (int (length codes)))]) s3 = (Inr (), s')"
    by (auto simp: tx_bind_eq_Inr ret_apply)
  obtain u where u: "u \<in> set (db_users (tx_db s))" "u_id u = a" "u_project_id u = pid"
    using p by (auto simp: mfaResolveProject_def FindIamUser_def res_simps split: option.splits dest!: find_set)
  have d: "db_recovery (tx_db s2) = db_recovery (tx_db s)"
    using keepsD [of db_recovery, OF keeps_mfa_reads(3) p] keepsD [of db_recovery, OF keeps_mfa_reads(8) g] by simp
  have k: "db_recovery (tx_db s') = db_recovery (tx_db s3)" using keepsD [of db_recovery, OF keeps_Emit e] by (simp add: side_free_def)
  obtain rows where r: "db_recovery (tx_db s3) = delete_where (\<lambda>r. rc_user_id r = a \<and> rc_project_id r = pid) (db_recovery (tx_db s)) @ rows"
      "length codes = mfaRecoveryCodeCount" "map rc_hash rows = map (mfaSha256Hex sy) codes"
      "list_all (\<lambda>r. rc_project_id r = pid \<and> rc_user_id r = a \<and> \<not> rc_used r) rows"
    using mint_recovery_codes_Inr [OF m] d by auto
  have own: "filter (\<lambda>r. rc_user_id r = a \<and> rc_project_id r = pid) rows = rows" "filter (\<lambda>r. rc_user_id r \<noteq> a) rows = []"
    using r(4) by (auto simp: filter_id_conv filter_empty_conv list_all_iff)
  have gone: "filter (\<lambda>r. rc_user_id r = a \<and> rc_project_id r = pid) (delete_where (\<lambda>r. rc_user_id r = a \<and> rc_project_id r = pid) rs) = []"
    "filter (\<lambda>r. rc_user_id r \<noteq> a) (delete_where (\<lambda>r. rc_user_id r = a \<and> rc_project_id r = pid) rs) = filter (\<lambda>r. rc_user_id r \<noteq> a) rs" for rs
    by (induction rs) (auto simp: delete_where_def)
  show ?thesis
    using u(1,2) r(2-4) by (intro bexI [of _ u]) (simp_all add: u(3) k r(1) own gone mfaRecoveryCodeCount_def list_all_iff)
qed

theorem recovery_codes_replaced_witness:
  "\<exists>codes s'. GenerateRecoveryCodes sample_sys (sample_ctx 5) ''alice'' (sample_state factor_db) = (Inr codes, s') \<and> length codes = 10"
proof -
  have "case fst (GenerateRecoveryCodes sample_sys (sample_ctx 5) ''alice'' (sample_state factor_db)) of Inr r \<Rightarrow> True | Inl _ \<Rightarrow> False"
    by code_simp
  then obtain codes s' where run: "GenerateRecoveryCodes sample_sys (sample_ctx 5) ''alice'' (sample_state factor_db) = (Inr codes, s')"
    by (cases "GenerateRecoveryCodes sample_sys (sample_ctx 5) ''alice'' (sample_state factor_db)") (auto split: sum.splits)
  from recovery_codes_replaced [OF run sample_state_idle(1)] run show ?thesis by auto
qed

section \<open>A pending factor\<close>

text \<open>Alice has an authenticator and an e-mail factor she never confirmed.\<close>

definition pending_db :: db where
  "pending_db = mfa_db\<lparr>db_factors := db_factors mfa_db @
     [\<lparr>f_id = ''g'', f_project_id = ''p'', f_environment = ''live'', f_user_id = ''alice'', f_type = ''email'', f_status = ''pending'',
       f_secret = Some [], f_created_at = 0, f_data = Some \<lparr>fa_id = ''g'', fa_type = ''email'', fa_status = ''pending'', fa_hint = ''m@y''\<rparr>\<rparr>]\<rparr>"

definition last_code :: "db \<Rightarrow> string" where
  "last_code d = (case rev (db_outbox d) of
     e # _ \<Rightarrow> (case ev_payload e of PFields fs \<Rightarrow> (case map_of fs ''code'' of Some (DStr code) \<Rightarrow> code | _ \<Rightarrow> []) | _ \<Rightarrow> [])
   | [] \<Rightarrow> [])"

text \<open>The code sent to the unconfirmed address completes the sign-in at assurance level 2: the challenge of a
  delivered factor looks at no status.\<close>

lemma pending_factor_completes_sign_in:
  "case PostV1AuthSignInPassword sample_sys (sample_ctx 5) ''p'' ''a@x'' ''pw'' (sample_state pending_db) of
     (Inr (AuthNextStep flow _), s1) \<Rightarrow>
       (case ChallengeWithFlow sample_sys (sample_ctx 5) ''p'' flow ''g'' s1 of
          (Inr ch, s2) \<Rightarrow>
            (case mfa_Verify sample_sys (sample_ctx 6) (cl_id ch) (last_code (tx_db s2)) s2 of
               (Inr (acc, sess), _) \<Rightarrow> se_aal sess = 2 \<and> acc_id acc = ''alice'' | _ \<Rightarrow> False)
        | _ \<Rightarrow> False)
   | _ \<Rightarrow> False"
  by code_simp

end
