(* ===== verification/Passwordless.thy ===== *)
theory Passwordless
  imports Mfa
begin

text \<open>
  Sign-in without a password (passwordless_pg.go): one-time codes sent by e-mail or SMS and magic
  links. A challenge stores the hash of the code or token; verifying it spends the challenge, resolves
  the account behind the contact, or creates it where registration is open, and mints a session.
\<close>

section \<open>Challenges\<close>

definition otpTTL :: duration where "otpTTL = 10 * Minute"
definition magicLinkTTL :: duration where "magicLinkTTL = 30 * Minute"
definition otpCodeLen :: nat where "otpCodeLen = 6"
definition magicBytes :: nat where "magicBytes = 32"
definition maxOTPAttempts :: int where "maxOTPAttempts = 5"

text \<open>The phone shape of the OTP channels; shorter numbers pass than in \<open>ValidatePhone\<close>.\<close>

definition e164 :: "string \<Rightarrow> bool" where
  "e164 phone = (case phone of
     sign # lead # rest \<Rightarrow> sign = CHR ''+'' \<and> re_digit lead \<and> lead \<noteq> CHR ''0'' \<and> list_all re_digit rest
                          \<and> 1 \<le> length rest \<and> length rest \<le> 14
   | _ \<Rightarrow> False)"

definition isPhoneChannel :: "string \<Rightarrow> bool" where
  "isPhoneChannel channel \<longleftrightarrow> channel = channelSMS \<or> channel = ''whatsapp''"

definition hashToken :: "sys \<Rightarrow> string \<Rightarrow> string" where "hashToken sy t = sy_sha256 sy t"

fun randomNumericCode :: "sys \<Rightarrow> nat \<Rightarrow> string tx" where
  "randomNumericCode sy 0 = ret []"
| "randomNumericCode sy (Suc n) =
     tx_bind (draw (sy_digit sy)) (\<lambda>i. tx_bind (randomNumericCode sy n) (\<lambda>rest. ret (''0123456789'' ! i # rest)))"

definition randomOpaqueToken :: "sys \<Rightarrow> nat \<Rightarrow> string tx" where "randomOpaqueToken sy n = draw (sy_hex_token sy n)"

definition providerEnabled :: "string \<Rightarrow> string \<Rightarrow> bool tx" where
  "providerEnabled projectID kind =
     query (\<lambda>d. list_ex (\<lambda>r. prov_project_id r = projectID \<and> prov_kind r = kind \<and> prov_enabled r) (db_providers d))"

definition envScope :: "challengeEnvelope \<Rightarrow> string" where
  "envScope e = (if ce_environment e = [] then runtimeDefaultEnv else ce_environment e)"

definition insertChallenge :: "challengeEnvelope \<Rightarrow> unit tx" where
  "insertChallenge e =
     insert_row db_challenges db_challenges_update ch_id
       \<lparr>ch_id = ce_id e, ch_project_id = ce_project_id e, ch_environment = envScope e, ch_type = ce_type e,
        ch_subject = Some (ce_subject e), ch_code_hash = Some (ce_code_hash e), ch_expires_at = ce_expires_at e,
        ch_consumed = False, ch_created_at = ce_created_at e, ch_data = Some (env_doc e)\<rparr>"

definition challengeFromEnvelope :: "challengeEnvelope \<Rightarrow> Challenge" where
  "challengeFromEnvelope e =
     \<lparr>cl_id = ce_id e, cl_type = ce_type e, cl_expires_at = ce_expires_at e, cl_code = [], cl_token = []\<rparr>"

definition StartOTP :: "sys \<Rightarrow> ctx \<Rightarrow> string \<Rightarrow> string \<Rightarrow> string \<Rightarrow> string \<Rightarrow> string \<Rightarrow> Challenge tx" where
  "StartOTP sy c projectID identifier channel purpose locale =
     (if projectID = [] \<or> identifier = [] then throw ErrBadRequest
      else if channel \<notin> {[], coreAuthChallengeEmail, channelSMS}
      then throw (WithMessage ''unsupported otp channel'' ErrBadRequest)
      else if isPhoneChannel channel \<and> \<not> e164 identifier
      then throw (WithMessage ''identifier must be a valid E.164 phone number for sms'' ErrBadRequest)
      else
        tx_bind (if channel = channelSMS then providerEnabled projectID channelSMS else ret True) (\<lambda>ok.
          if \<not> ok then throw (WithMessage ''an enabled sms provider is required to send sms otp'' ErrValidation)
          else
            tx_bind (effectiveEnv sy c projectID) (\<lambda>reqEnv.
            tx_bind (randomNumericCode sy otpCodeLen) (\<lambda>code.
            tx_bind (newUUID sy) (\<lambda>i.
            let e = \<lparr>ce_id = i, ce_project_id = projectID, ce_environment = reqEnv, ce_type = ''otp'', ce_channel = channel,
                     ce_purpose = purpose, ce_subject = identifier, ce_redirect_to = [], ce_locale = locale,
                     ce_code_hash = hashToken sy code, ce_expires_at = cx_now c + otpTTL, ce_consumed = False, ce_attempts = 0,
                     ce_created_at = cx_now c\<rparr> in
            tx_bind (withTx (tx_bind (insertChallenge e) (\<lambda>_.
              Emit sy c ''auth.otp.started'' projectID reqEnv i
                (PFields [(''code'', DStr code), (''channel'', DStr channel), (''purpose'', DStr purpose),
                   (''account_id'', DStr identifier), (''contact'', DStr identifier), (''to'', DStr identifier),
                   (''locale'', DStr locale), (''challenge_id'', DStr i)])))) (\<lambda>_.
              ret (challengeFromEnvelope e)))))))"

definition StartMagicLink :: "sys \<Rightarrow> ctx \<Rightarrow> string \<Rightarrow> string \<Rightarrow> string \<Rightarrow> string \<Rightarrow> (Challenge \<times> string) tx" where
  "StartMagicLink sy c projectID email redirectTo locale =
     (if projectID = [] \<or> email = [] then throw ErrBadRequest
      else
        tx_bind (effectiveEnv sy c projectID) (\<lambda>reqEnv.
        tx_bind (randomOpaqueToken sy magicBytes) (\<lambda>token.
        tx_bind (newUUID sy) (\<lambda>i.
        let e = \<lparr>ce_id = i, ce_project_id = projectID, ce_environment = reqEnv, ce_type = coreAuthChallengeEmail,
                 ce_channel = coreAuthChallengeEmail, ce_purpose = ''login'', ce_subject = email, ce_redirect_to = redirectTo,
                 ce_locale = locale, ce_code_hash = hashToken sy token, ce_expires_at = cx_now c + magicLinkTTL,
                 ce_consumed = False, ce_attempts = 0, ce_created_at = cx_now c\<rparr> in
        tx_bind (withTx (tx_bind (insertChallenge e) (\<lambda>_.
          Emit sy c ''auth.magiclink.started'' projectID reqEnv i
            (PFields [(''token'', DStr token), (''account_id'', DStr email), (''contact'', DStr email), (''to'', DStr email),
               (''redirect_to'', DStr redirectTo), (''locale'', DStr locale), (''purpose'', DStr ''login''),
               (''challenge_id'', DStr i)])))) (\<lambda>_.
          ret (challengeFromEnvelope e, token))))))"

section \<open>Lookup and consumption\<close>

definition loadChallengeForVerify :: "ctx \<Rightarrow> string \<Rightarrow> string \<Rightarrow> (challengeEnvelope \<times> challenge_row) tx" where
  "loadChallengeForVerify c challengeID typ =
     tx_bind (query (\<lambda>d. find (\<lambda>r. ch_id r = challengeID) (db_challenges d))) (\<lambda>found.
       case found of
         None \<Rightarrow> throw ErrChallengeInvalid
       | Some row \<Rightarrow>
           if ch_type row \<noteq> typ then throw ErrChallengeInvalid
           else tx_bind (unmarshal (env_data row)) (\<lambda>e.
             if ce_consumed e \<or> ch_consumed row then throw ErrTokenUsed
             else if nowIn c > ce_expires_at e then throw ErrChallengeExpired
             else ret (e, row)))"

definition findUnconsumedByHash :: "string \<Rightarrow> string \<Rightarrow> challenge_row tx" where
  "findUnconsumedByHash typ codeHash =
     tx_bind (query (\<lambda>d. find (\<lambda>r. ch_type r = typ \<and> ch_code_hash r = Some codeHash \<and> \<not> ch_consumed r) (db_challenges d))) (\<lambda>found.
       case found of Some r \<Rightarrow> ret r | None \<Rightarrow> throw ErrInvalidToken)"

definition write_envelope_row :: "challenge_row \<Rightarrow> challengeEnvelope \<Rightarrow> bool \<Rightarrow> unit tx" where
  "write_envelope_row row e spent =
     exec (db_challenges_update (update_where (\<lambda>r. ch_id r = ch_id row)
       (\<lambda>r. r\<lparr>ch_data := Some (env_doc e), ch_consumed := spent \<or> ch_consumed r\<rparr>)))"

definition consume :: "challenge_row \<Rightarrow> unit tx" where
  "consume row = tx_bind (unmarshal (env_data row)) (\<lambda>e. write_envelope_row row (e\<lparr>ce_consumed := True\<rparr>) True)"

definition bumpAttempts :: "challenge_row \<Rightarrow> unit tx" where
  "bumpAttempts row = withTx (
     tx_bind (unmarshal (env_data row)) (\<lambda>e.
     let e = e\<lparr>ce_attempts := ce_attempts e + 1\<rparr> in
       write_envelope_row row e (ce_attempts e \<ge> maxOTPAttempts)))"

section \<open>The account behind the subject\<close>

definition allowsSignup :: "string \<Rightarrow> bool" where "allowsSignup purpose \<longleftrightarrow> purpose \<noteq> ''verify''"

definition passwordlessSignupAllowed :: "sys \<Rightarrow> ctx \<Rightarrow> string \<Rightarrow> bool tx" where
  "passwordlessSignupAllowed sy c projectID =
     tx_bind (AuthConfig sy c projectID) (\<lambda>auth.
       if ea_registration_mode auth \<noteq> [] \<and> ea_registration_mode auth \<noteq> ''open'' then ret False
       else tx_bind (ConsentConfig sy c projectID) (\<lambda>consents. ret (\<not> list_ex (\<lambda>v. cd_required v = Some True) consents)))"

definition persistAccount :: "sys \<Rightarrow> ctx \<Rightarrow> Account \<Rightarrow> unit tx" where
  "persistAccount sy c acc =
     tx_bind (FindIamUser ErrNotFound (acc_id acc)) (\<lambda>row.
     tx_bind (exec (db_users_update (update_where (\<lambda>r. u_id r = u_id row) (\<lambda>r. r\<lparr>u_data := Some acc, u_updated_at := cx_now c\<rparr>)))) (\<lambda>_.
       Emit sy c ''user.updated'' (acc_project_id acc) (u_environment row) (acc_id acc) (PAccount acc)))"

text \<open>A unique violation, of the key or of a contact, surfaces as the given conflict.\<close>

definition insertUser :: "sys \<Rightarrow> ctx \<Rightarrow> Account \<Rightarrow> string \<Rightarrow> string option \<Rightarrow> string option \<Rightarrow> error \<Rightarrow> unit tx" where
  "insertUser sy c acc environment email phone conflict =
     tx_bind (insert_unique db_users db_users_update (\<lambda>a b. u_id a = u_id b \<or> contact_clash a b)
       \<lparr>u_id = acc_id acc, u_project_id = acc_project_id acc, u_environment = environment, u_kind = acc_kind acc,
        u_status = acc_status acc, u_primary_email = email, u_primary_phone = phone, u_created_at = cx_now c, u_updated_at = cx_now c,
        u_security_recovered_at = None, u_data = Some acc\<rparr> conflict) (\<lambda>_.
       Emit sy c ''user.created'' (acc_project_id acc) environment (acc_id acc) (PAccount acc))"

definition fresh_account :: "ctx \<Rightarrow> string \<Rightarrow> challengeEnvelope \<Rightarrow> Account" where
  "fresh_account c i e =
     \<lparr>acc_deletion = None, acc_id = i, acc_project_id = ce_project_id e, acc_kind = ''human'', acc_status = coreAuthStatusActive,
      acc_primary_email = [], acc_email_verified = False, acc_primary_phone = [], acc_phone_verified = False, acc_name = [],
      acc_locale = ce_locale e, acc_invite_cap = None, acc_created_at = cx_now c, acc_updated_at = cx_now c\<rparr>"

definition resolveOrCreateByEmail :: "sys \<Rightarrow> ctx \<Rightarrow> challengeEnvelope \<Rightarrow> Account tx" where
  "resolveOrCreateByEmail sy c e =
     tx_bind (query (\<lambda>d. find (\<lambda>r. u_project_id r = ce_project_id e \<and> u_environment r = envScope e
                \<and> u_primary_email r = Some (ce_subject e)) (db_users d))) (\<lambda>found.
       case found of
         Some row \<Rightarrow>
           tx_bind (unmarshal (u_data row)) (\<lambda>acc.
             if \<not> acc_email_verified acc
             then let acc = acc\<lparr>acc_email_verified := True\<rparr> in tx_bind (persistAccount sy c acc) (\<lambda>_. ret acc)
             else ret acc)
       | None \<Rightarrow>
           if \<not> allowsSignup (ce_purpose e) then throw ErrUserNotFound
           else tx_bind (passwordlessSignupAllowed sy c (ce_project_id e)) (\<lambda>ok.
             if \<not> ok then throw ErrUserNotFound
             else tx_bind (newUUID sy) (\<lambda>i.
               let acc = (fresh_account c i e)\<lparr>acc_primary_email := ce_subject e, acc_email_verified := True\<rparr> in
               tx_bind (insertUser sy c acc (envScope e) (Some (ce_subject e)) None ErrEmailExists) (\<lambda>_. ret acc))))"

definition resolveOrCreateByPhone :: "sys \<Rightarrow> ctx \<Rightarrow> challengeEnvelope \<Rightarrow> Account tx" where
  "resolveOrCreateByPhone sy c e =
     tx_bind (query (\<lambda>d. find (\<lambda>r. u_project_id r = ce_project_id e \<and> u_environment r = envScope e
                \<and> u_primary_phone r = Some (ce_subject e)) (db_users d))) (\<lambda>found.
       case found of
         Some row \<Rightarrow>
           tx_bind (unmarshal (u_data row)) (\<lambda>acc.
             if \<not> acc_phone_verified acc
             then let acc = acc\<lparr>acc_phone_verified := True\<rparr> in tx_bind (persistAccount sy c acc) (\<lambda>_. ret acc)
             else ret acc)
       | None \<Rightarrow>
           if \<not> allowsSignup (ce_purpose e) then throw ErrUserNotFound
           else tx_bind (passwordlessSignupAllowed sy c (ce_project_id e)) (\<lambda>ok.
             if \<not> ok then throw ErrUserNotFound
             else tx_bind (newUUID sy) (\<lambda>i.
               let acc = (fresh_account c i e)\<lparr>acc_primary_phone := ce_subject e, acc_phone_verified := True\<rparr> in
               tx_bind (insertUser sy c acc (envScope e) None (Some (ce_subject e)) ErrPhoneExists) (\<lambda>_. ret acc))))"

definition resolveOrCreateUser :: "sys \<Rightarrow> ctx \<Rightarrow> challengeEnvelope \<Rightarrow> Account tx" where
  "resolveOrCreateUser sy c e =
     (if isPhoneChannel (ce_channel e) then resolveOrCreateByPhone sy c e else resolveOrCreateByEmail sy c e)"

section \<open>Sign-in\<close>

definition createSession :: "sys \<Rightarrow> ctx \<Rightarrow> Account \<Rightarrow> string \<Rightarrow> string \<Rightarrow> Session tx" where
  "createSession sy c acc channel env =
     (let amr = ''otp'' # (if isPhoneChannel channel then [channelSMS] else []);
          c = (if env \<noteq> [] then c\<lparr>cx_env := env\<rparr> else c)
      in coreAuthMintSession sy c acc [] amr 1)"

definition resolveAndSession :: "sys \<Rightarrow> ctx \<Rightarrow> challengeEnvelope \<Rightarrow> (Account \<times> Session) tx" where
  "resolveAndSession sy c e =
     tx_bind (resolveOrCreateUser sy c e) (\<lambda>acc.
       if acc_status acc = ''suspended'' then throw ErrAccountSuspended
       else if acc_status acc = ''banned'' then throw ErrAccountBanned
       else tx_bind (createSession sy c acc (ce_channel e) (envScope e)) (\<lambda>sess. ret (acc, sess)))"

definition VerifyOTP :: "sys \<Rightarrow> ctx \<Rightarrow> string \<Rightarrow> string \<Rightarrow> (Account \<times> Session) tx" where
  "VerifyOTP sy c challengeID code =
     tx_bind (loadChallengeForVerify c challengeID ''otp'') (\<lambda>(e, row).
       if ce_attempts e \<ge> maxOTPAttempts
       then tx_handle (consume row) (\<lambda>_. throw ErrRateLimited) (\<lambda>_. throw ErrRateLimited)
       else if ce_code_hash e \<noteq> hashToken sy code
       then tx_bind (bumpAttempts row) (\<lambda>_. throw ErrInvalidOTP)
       else withTx (
         tx_bind (loadChallengeForVerify c challengeID ''otp'') (\<lambda>(e, row).
           if ce_code_hash e \<noteq> hashToken sy code then throw ErrInvalidOTP
           else
             tx_bind (consume row) (\<lambda>_.
             tx_bind (resolveAndSession sy c e) (\<lambda>(acc, sess).
             tx_bind (Emit sy c ''auth.otp.verified'' (acc_project_id acc) (envScope e) (acc_id acc)
                        (PFields [(''account_id'', DStr (acc_id acc)), (''session_id'', DStr (se_id sess))])) (\<lambda>_.
               ret (acc, sess)))))))"

definition VerifyMagicLink :: "sys \<Rightarrow> ctx \<Rightarrow> string \<Rightarrow> (Account \<times> Session) tx" where
  "VerifyMagicLink sy c token =
     (if token = [] then throw ErrInvalidToken
      else withTx (
        tx_bind (findUnconsumedByHash coreAuthChallengeEmail (hashToken sy token)) (\<lambda>row.
        tx_bind (unmarshal (env_data row)) (\<lambda>e.
          if ce_consumed e then throw ErrTokenUsed
          else if nowIn c > ce_expires_at e then throw ErrChallengeExpired
          else
            tx_bind (consume row) (\<lambda>_.
            tx_bind (resolveAndSession sy c e) (\<lambda>(acc, sess).
            tx_bind (Emit sy c ''auth.magiclink.verified'' (acc_project_id acc) (envScope e) (acc_id acc)
                       (PFields [(''account_id'', DStr (acc_id acc)), (''session_id'', DStr (se_id sess))])) (\<lambda>_.
              ret (acc, sess))))))))"

definition VerifyMagicLinkCallback :: "sys \<Rightarrow> ctx \<Rightarrow> string \<Rightarrow> string \<Rightarrow> (Account \<times> Session \<times> string) tx" where
  "VerifyMagicLinkCallback sy c token redirectTo =
     tx_bind (VerifyMagicLink sy c token) (\<lambda>(acc, sess).
     tx_bind (coreAuthSafeRedirect sy c (se_project_id sess) redirectTo) (\<lambda>safe.
       ret (acc, sess, safe)))"

section \<open>Steps\<close>

lemma loadChallengeForVerify_state: "loadChallengeForVerify c i ty s = (r, s') \<Longrightarrow> s' = s"
  by (auto simp: loadChallengeForVerify_def tx_bind_def unmarshal_def split: option.splits if_splits)

lemma loadChallengeForVerify_Inr:
  "loadChallengeForVerify c i ty s = (Inr (e, row), s') \<longleftrightarrow>
     s' = s \<and> find (\<lambda>r. ch_id r = i) (db_challenges (tx_db s)) = Some row \<and> ch_type row = ty \<and> env_data row = Some e
   \<and> \<not> ce_consumed e \<and> \<not> ch_consumed row \<and> nowIn c \<le> ce_expires_at e"
  by (auto simp: loadChallengeForVerify_def res_simps split: option.splits)

lemma quiet_passwordless [intro!]:
  "quiet (loadChallengeForVerify c i ty)" "quiet (findUnconsumedByHash ty h)" "quiet (write_envelope_row row e b)" "quiet (consume row)"
  "quiet (insertChallenge e)" "quiet (passwordlessSignupAllowed sy c pid)" "quiet (persistAccount sy c acc)"
  "quiet (insertUser sy c acc env email ph er)" "quiet (resolveOrCreateUser sy c e)" "quiet (providerEnabled pid k)"
proof -
  have a: "quiet (passwordlessSignupAllowed sy c pid)" for pid
    by (auto simp: passwordlessSignupAllowed_def AuthConfig_def ConsentConfig_def rawDoc_def rawDocStrict_def)
  have p: "quiet (persistAccount sy c acc)" for acc by (auto simp: persistAccount_def)
  have i: "quiet (insertUser sy c acc env email ph er)" for acc env email ph er by (auto simp: insertUser_def)
  show "quiet (passwordlessSignupAllowed sy c pid)" "quiet (persistAccount sy c acc)" "quiet (insertUser sy c acc env email ph er)"
    by (rule a p i)+
  show "quiet (resolveOrCreateUser sy c e)"
    by (auto simp: resolveOrCreateUser_def resolveOrCreateByEmail_def resolveOrCreateByPhone_def Let_def a p i split: option.split)
qed (auto simp: loadChallengeForVerify_def findUnconsumedByHash_def write_envelope_row_def consume_def insertChallenge_def providerEnabled_def
  split: option.split)

lemma keeps_signup_gate [intro!]: "keeps p (passwordlessSignupAllowed sy c pid)"
  by (auto simp: passwordlessSignupAllowed_def AuthConfig_def ConsentConfig_def rawDoc_def rawDocStrict_def)

lemma keeps_resolve:
  assumes "side_free p" and "\<And>f d. p (db_users_update f d) = p d"
  shows "keeps p (resolveOrCreateUser sy c e)"
proof -
  have "keeps p (persistAccount sy c acc)" for acc using assms by (auto simp: persistAccount_def)
  moreover have "keeps p (insertUser sy c acc env email ph er)" for acc env email ph er using assms by (auto simp: insertUser_def insert_unique_def)
  ultimately show ?thesis
    by (auto simp: resolveOrCreateUser_def resolveOrCreateByEmail_def resolveOrCreateByPhone_def Let_def split: option.split)
qed

section \<open>What a one-time code proves\<close>

text \<open>The contact a challenge was sent to, and the account behind it: the one that holds it in the challenge's project and
  environment, or a fresh one where the purpose and the registration mode admit it.\<close>

definition contact :: "challengeEnvelope \<Rightarrow> user_row \<Rightarrow> string option" where
  "contact e u = (if isPhoneChannel (ce_channel e) then u_primary_phone u else u_primary_email u)"

definition contact_verified :: "challengeEnvelope \<Rightarrow> Account \<Rightarrow> Account" where
  "contact_verified e a = (if isPhoneChannel (ce_channel e) then a\<lparr>acc_phone_verified := True\<rparr> else a\<lparr>acc_email_verified := True\<rparr>)"

definition account_behind :: "sys \<Rightarrow> ctx \<Rightarrow> txs \<Rightarrow> challengeEnvelope \<Rightarrow> Account \<Rightarrow> bool" where
  "account_behind sy c s e acc \<longleftrightarrow>
     (case find (\<lambda>r. u_project_id r = ce_project_id e \<and> u_environment r = envScope e \<and> contact e r = Some (ce_subject e)) (db_users (tx_db s)) of
        Some u \<Rightarrow> (\<exists>a. u_data u = Some a \<and> acc = contact_verified e a)
      | None \<Rightarrow> ce_purpose e \<noteq> ''verify'' \<and> fst (passwordlessSignupAllowed sy c (ce_project_id e) s) = Inr True
              \<and> acc_id acc \<notin> u_id ` set (db_users (tx_db s)) \<and> acc_project_id acc = ce_project_id e)"

lemma contact_verified_done:
  "acc_phone_verified a \<Longrightarrow> a\<lparr>acc_phone_verified := True\<rparr> = a" "acc_email_verified a \<Longrightarrow> a\<lparr>acc_email_verified := True\<rparr> = a"
  by (cases a; simp)+

lemma signup_gate_Inr:
  assumes "passwordlessSignupAllowed sy c pid s = (Inr b, s')"
  shows "fst (passwordlessSignupAllowed sy c pid s) = Inr b \<and> db_users (tx_db s') = db_users (tx_db s)"
  using assms keepsD [of db_users, OF keeps_signup_gate assms] by simp

lemma newUUID_users: "newUUID sy s = (Inr i, s') \<Longrightarrow> db_users (tx_db s') = db_users (tx_db s)"
  by (rule keepsD [of db_users, OF keeps_newUUID])

lemma resolveOrCreateUser_Inr:
  assumes "resolveOrCreateUser sy c e s = (Inr acc, s')"
  shows "account_behind sy c s e acc"
  using assms
  by (auto simp: resolveOrCreateUser_def resolveOrCreateByEmail_def resolveOrCreateByPhone_def account_behind_def contact_def
      contact_verified_def allowsSignup_def res_simps Let_def fresh_account_def insertUser_def insert_unique_Inr list_ex_iff
      contact_verified_done split: option.splits if_splits dest!: signup_gate_Inr newUUID_users)

text \<open>Spending a challenge moves none of the gates.\<close>

definition moved :: "(challenge_row list \<Rightarrow> challenge_row list) \<Rightarrow> txs \<Rightarrow> txs" where
  "moved f s = s\<lparr>tx_db := db_challenges_update f (tx_db s)\<rparr>"

definition oblivious :: "'a tx \<Rightarrow> bool" where
  "oblivious m \<longleftrightarrow> (\<forall>f s. m (moved f s) = map_prod id (moved f) (m s))"

lemma oblivious_bind [intro!]: "oblivious m \<Longrightarrow> (\<And>x. oblivious (g x)) \<Longrightarrow> oblivious (tx_bind m g)"
  by (simp add: oblivious_def tx_bind_def map_prod_def split: prod.split sum.split)

lemma oblivious_steps [intro!]:
  "oblivious (ret x)" "oblivious (throw er)" "oblivious (rawDocForEnv c fc pid env k)" "oblivious (effectiveEnv sy c pid)"
proof -
  show r: "oblivious (ret x)" "oblivious (throw er)" for x :: 'z and er by (simp_all add: oblivious_def)
  show "oblivious (rawDocForEnv c fc pid env k)" by (simp add: oblivious_def moved_def rawDocForEnv_def Let_def split: prod.split)
  have "oblivious (query db_envs)" by (simp add: oblivious_def moved_def)
  then show "oblivious (effectiveEnv sy c pid)" by (auto simp: effectiveEnv_def requested_env_def Let_def oblivious_def split: option.split)
qed

lemma oblivious_signup_gate: "oblivious (passwordlessSignupAllowed sy c pid)"
  by (auto simp: passwordlessSignupAllowed_def AuthConfig_def ConsentConfig_def rawDoc_def rawDocStrict_def)

lemma account_behind_moved: "account_behind sy c (moved f s) e acc = account_behind sy c s e acc"
proof -
  have "fst (passwordlessSignupAllowed sy c pid (moved f s)) = fst (passwordlessSignupAllowed sy c pid s)" for pid
    using oblivious_signup_gate [of sy c pid] by (simp add: oblivious_def)
  moreover have "db_users (tx_db (moved f s)) = db_users (tx_db s)" by (simp add: moved_def)
  ultimately show ?thesis by (simp add: account_behind_def split: option.split)
qed

text \<open>What spending a challenge does to its rows.\<close>

definition spend :: "challengeEnvelope \<Rightarrow> string \<Rightarrow> challenge_row list \<Rightarrow> challenge_row list" where
  "spend e i = update_where (\<lambda>r. ch_id r = i) (\<lambda>r. r\<lparr>ch_data := Some (env_doc (e\<lparr>ce_consumed := True\<rparr>)), ch_consumed := True\<rparr>)"

lemma consume_Inr: "consume row s = (Inr u, s') \<longleftrightarrow> (\<exists>e. env_data row = Some e \<and> s' = moved (spend e (ch_id row)) s)"
  by (auto simp: consume_def write_envelope_row_def res_simps spend_def moved_def)

lemma resolveAndSession_Inr:
  assumes "resolveAndSession sy c e s = (Inr (acc, sess), s')"
  shows "account_behind sy c s e acc" and "acc_status acc \<noteq> ''suspended''" and "acc_status acc \<noteq> ''banned''"
    and "se_account_id sess = acc_id acc" and "se_aal sess = 1" and "se_id sess \<notin> s_id ` set (db_sessions (tx_db s))"
    and "db_challenges (tx_db s') = db_challenges (tx_db s)"
proof -
  obtain s1 where r: "resolveOrCreateUser sy c e s = (Inr acc, s1)" and c: "createSession sy c acc (ce_channel e) (envScope e) s1 = (Inr sess, s')"
    and st: "acc_status acc \<noteq> ''suspended''" "acc_status acc \<noteq> ''banned''"
    using assms by (auto simp: resolveAndSession_def res_simps split: if_splits)
  note mint = mint_challenges [OF c [unfolded createSession_def Let_def]]
  show "acc_status acc \<noteq> ''suspended''" "acc_status acc \<noteq> ''banned''" by fact+
  show "account_behind sy c s e acc" by (rule resolveOrCreateUser_Inr [OF r])
  show "se_account_id sess = acc_id acc" "se_aal sess = 1" using mint(2,3) by simp_all
  show "se_id sess \<notin> s_id ` set (db_sessions (tx_db s))"
    using mint(5) keepsD [of db_sessions, OF keeps_resolve r] by (simp add: side_free_def)
  show "db_challenges (tx_db s') = db_challenges (tx_db s)"
    using mint(1) keepsD [of db_challenges, OF keeps_resolve r] by (simp add: side_free_def)
qed

lemma settled_resolve [intro!]: "settled (resolveAndSession sy c e)"
  by (auto simp: resolveAndSession_def createSession_def intro: settled_quiet)

lemma VerifyOTP_Inr:
  assumes "VerifyOTP sy c i code s = (Inr (acc, sess), s')" and "tx_pool s = []"
  obtains row e s1 where "find (\<lambda>r. ch_id r = i) (db_challenges (tx_db s)) = Some row" and "ch_type row = ''otp''" and "env_data row = Some e"
    and "\<not> ce_consumed e" and "\<not> ch_consumed row" and "nowIn c \<le> ce_expires_at e" and "ce_attempts e < maxOTPAttempts"
    and "ce_code_hash e = hashToken sy code" and "resolveAndSession sy c e (moved (spend e i) s) = (Inr (acc, sess), s1)"
    and "db_challenges (tx_db s') = spend e i (db_challenges (tx_db s))"
proof -
  let ?K = "tx_bind (loadChallengeForVerify c i ''otp'') (\<lambda>(e, row).
           if ce_code_hash e \<noteq> hashToken sy code then throw ErrInvalidOTP
           else
             tx_bind (consume row) (\<lambda>_.
             tx_bind (resolveAndSession sy c e) (\<lambda>(acc, sess).
             tx_bind (Emit sy c ''auth.otp.verified'' (acc_project_id acc) (envScope e) (acc_id acc)
                        (PFields [(''account_id'', DStr (acc_id acc)), (''session_id'', DStr (se_id sess))])) (\<lambda>_.
               ret (acc, sess)))))"
  obtain e row where l: "loadChallengeForVerify c i ''otp'' s = (Inr (e, row), s)" and a: "ce_attempts e < maxOTPAttempts"
    and w: "withTx ?K s = (Inr (acc, sess), s')"
    using assms(1) unfolding VerifyOTP_def
    by (auto simp: res_simps tx_handle_def loadChallengeForVerify_Inr split: if_splits prod.splits sum.splits)
  have "settled ?K" by (auto intro: settled_quiet)
  from settled_withTx [OF w this assms(2)] l obtain s1 where c: "ce_code_hash e = hashToken sy code"
    and rs: "resolveAndSession sy c e (moved (spend e i) s) = (Inr (acc, sess), s1)"
    and em: "Emit sy c ''auth.otp.verified'' (acc_project_id acc) (envScope e) (acc_id acc)
           (PFields [(''account_id'', DStr (acc_id acc)), (''session_id'', DStr (se_id sess))]) s1 = (Inr (), s')"
    by (auto simp: res_simps loadChallengeForVerify_Inr consume_Inr split: if_splits dest: find_set)
  have "db_challenges (tx_db s') = spend e i (db_challenges (tx_db s))"
    using keepsD [of db_challenges, OF keeps_Emit em] resolveAndSession_Inr(7) [OF rs] by (simp add: side_free_def moved_def)
  with that l a c rs show thesis by (auto simp: loadChallengeForVerify_Inr)
qed

lemma find_spent: "find (\<lambda>r. ch_id r = i) rs = Some row \<Longrightarrow> \<exists>r. find (\<lambda>r. ch_id r = i) (spend e i rs) = Some r \<and> ch_consumed r \<and> ch_type r = ch_type row
    \<and> env_data r = Some (e\<lparr>ce_consumed := True\<rparr>)"
  unfolding spend_def by (induction rs) (auto simp: update_where_def env_data_def)

lemma spent_code_refused:
  assumes "find (\<lambda>r. ch_id r = i) (db_challenges (tx_db s)) = Some row" and "ch_consumed row"
  shows "fst (VerifyOTP sy c i code s) \<noteq> Inr x"
  using assms by (auto simp: VerifyOTP_def loadChallengeForVerify_def tx_bind_def unmarshal_def split: option.split)

text \<open>C11: signing in with a one-time code proves control of the contact it was sent to. The challenge existed,
  was neither spent nor expired, had seen fewer than five wrong codes and holds the hash of the code.
  The session has assurance level 1 and belongs to the account that holds the contact in the challenge's
  project and environment, which is neither suspended nor banned, or to a fresh account, and then the
  purpose and the registration gate of the project admitted it. The challenge is spent: no later request
  verifies it as a one-time code or as a second factor.\<close>

theorem one_time_code_sound:
  assumes "VerifyOTP sy c i code s = (Inr (acc, sess), s')" and "tx_pool s = []"
  shows "\<exists>row e. find (\<lambda>r. ch_id r = i) (db_challenges (tx_db s)) = Some row \<and> ch_type row = ''otp'' \<and> \<not> ch_consumed row
     \<and> env_data row = Some e \<and> nowIn c \<le> ce_expires_at e \<and> ce_attempts e < 5 \<and> ce_code_hash e = hashToken sy code
     \<and> account_behind sy c s e acc \<and> acc_status acc \<noteq> ''suspended'' \<and> acc_status acc \<noteq> ''banned''
     \<and> se_account_id sess = acc_id acc \<and> se_aal sess = 1 \<and> se_id sess \<notin> s_id ` set (db_sessions (tx_db s))
     \<and> (\<forall>sy' c' code'. fst (VerifyOTP sy' c' i code' s') = Inl ErrTokenUsed \<and> fst (mfa_Verify sy' c' i code' s') = Inl ErrChallengeInvalid)"
proof -
  from assms obtain row e s1 where c: "find (\<lambda>r. ch_id r = i) (db_challenges (tx_db s)) = Some row" "ch_type row = ''otp''" "env_data row = Some e"
      "\<not> ce_consumed e" "\<not> ch_consumed row" "nowIn c \<le> ce_expires_at e" "ce_attempts e < maxOTPAttempts" "ce_code_hash e = hashToken sy code"
    and r: "resolveAndSession sy c e (moved (spend e i) s) = (Inr (acc, sess), s1)"
    and spent: "db_challenges (tx_db s') = spend e i (db_challenges (tx_db s))"
    by (rule VerifyOTP_Inr)
  note session = resolveAndSession_Inr [OF r]
  from spent obtain r where r: "find (\<lambda>r. ch_id r = i) (db_challenges (tx_db s')) = Some r" "ch_consumed r" "ch_type r = ''otp''"
      "env_data r = Some (e\<lparr>ce_consumed := True\<rparr>)"
    using find_spent [OF c(1), of e] c(2) by auto
  then have "fst (VerifyOTP sy' c' i code' s') = Inl ErrTokenUsed" for sy' c' code'
    by (simp add: VerifyOTP_def loadChallengeForVerify_def tx_bind_def unmarshal_def)
  with spent_challenge_refused [OF r(1,2)] c session(1-6) show ?thesis
    by (simp add: account_behind_moved maxOTPAttempts_def) (simp add: moved_def)
qed

text \<open>A one-time code sent to the sample account.\<close>

definition otp_db :: db where
  "otp_db = mfa_db\<lparr>db_challenges := [\<lparr>ch_id = ''o'', ch_project_id = ''p'', ch_environment = ''live'', ch_type = ''otp'', ch_subject = Some ''a@x'',
     ch_code_hash = Some ''h:123456'', ch_expires_at = 900 * Second, ch_consumed = False, ch_created_at = 0, ch_data = Some (env_doc
       \<lparr>ce_id = ''o'', ce_project_id = ''p'', ce_environment = ''live'', ce_type = ''otp'', ce_channel = ''email'', ce_purpose = ''login'',
        ce_subject = ''a@x'', ce_redirect_to = [], ce_locale = [], ce_code_hash = ''h:123456'', ce_expires_at = 900 * Second,
        ce_consumed = False, ce_attempts = 0, ce_created_at = 0\<rparr>)\<rparr>]\<rparr>"

theorem one_time_code_sound_witness:
  "\<exists>acc sess s'. VerifyOTP sample_sys (sample_ctx 5) ''o'' ''123456'' (sample_state otp_db) = (Inr (acc, sess), s')
     \<and> se_aal sess = 1 \<and> fst (VerifyOTP sample_sys (sample_ctx 6) ''o'' ''123456'' s') = Inl ErrTokenUsed"
proof -
  have "case fst (VerifyOTP sample_sys (sample_ctx 5) ''o'' ''123456'' (sample_state otp_db)) of Inr r \<Rightarrow> True | Inl _ \<Rightarrow> False"
    by code_simp
  then obtain acc sess s' where run: "VerifyOTP sample_sys (sample_ctx 5) ''o'' ''123456'' (sample_state otp_db) = (Inr (acc, sess), s')"
    by (cases "VerifyOTP sample_sys (sample_ctx 5) ''o'' ''123456'' (sample_state otp_db)") (auto split: sum.splits)
  from one_time_code_sound [OF run sample_state_idle(1)] run show ?thesis by auto
qed

text \<open>A magic link signs in the account behind the address it was sent to, and its challenge is spent.\<close>

lemma magic_link_sound:
  assumes "VerifyMagicLink sy c tok s = (Inr (acc, sess), s')" and "tx_pool s = []"
  obtains row e where "row \<in> set (db_challenges (tx_db s))" and "ch_type row = ''email''" and "\<not> ch_consumed row"
    and "ch_code_hash row = Some (hashToken sy tok)" and "env_data row = Some e" and "nowIn c \<le> ce_expires_at e"
    and "account_behind sy c s e acc" and "se_account_id sess = acc_id acc" and "se_aal sess = 1"
    and "db_challenges (tx_db s') = spend e (ch_id row) (db_challenges (tx_db s))"
proof -
  let ?K = "tx_bind (findUnconsumedByHash coreAuthChallengeEmail (hashToken sy tok)) (\<lambda>row.
        tx_bind (unmarshal (env_data row)) (\<lambda>e.
          if ce_consumed e then throw ErrTokenUsed
          else if nowIn c > ce_expires_at e then throw ErrChallengeExpired
          else
            tx_bind (consume row) (\<lambda>_.
            tx_bind (resolveAndSession sy c e) (\<lambda>(acc, sess).
            tx_bind (Emit sy c ''auth.magiclink.verified'' (acc_project_id acc) (envScope e) (acc_id acc)
                       (PFields [(''account_id'', DStr (acc_id acc)), (''session_id'', DStr (se_id sess))])) (\<lambda>_.
              ret (acc, sess))))))"
  have w: "withTx ?K s = (Inr (acc, sess), s')" using assms(1) by (simp add: VerifyMagicLink_def split: if_splits)
  have "settled ?K" by (auto intro: settled_quiet)
  from settled_withTx [OF w this assms(2)] obtain row e s1 where
      f: "find (\<lambda>r. ch_type r = coreAuthChallengeEmail \<and> ch_code_hash r = Some (hashToken sy tok) \<and> \<not> ch_consumed r) (db_challenges (tx_db s)) = Some row"
    and e: "env_data row = Some e" "nowIn c \<le> ce_expires_at e" and r: "resolveAndSession sy c e (moved (spend e (ch_id row)) s) = (Inr (acc, sess), s1)"
    and em: "Emit sy c ''auth.magiclink.verified'' (acc_project_id acc) (envScope e) (acc_id acc)
           (PFields [(''account_id'', DStr (acc_id acc)), (''session_id'', DStr (se_id sess))]) s1 = (Inr (), s')"
    by (auto simp: res_simps findUnconsumedByHash_def consume_Inr split: if_splits option.splits)
  note session = resolveAndSession_Inr [OF r]
  have "db_challenges (tx_db s') = spend e (ch_id row) (db_challenges (tx_db s))"
    using keepsD [of db_challenges, OF keeps_Emit em] session(7) by (simp add: side_free_def moved_def)
  with f e session(1,4,5) show thesis
    by (intro that [of row e]) (auto simp: account_behind_moved coreAuthChallengeEmail_def dest!: find_set)
qed

section \<open>Codes and links confused\<close>

text \<open>The magic link is looked up by type and hash alone, and an e-mail verification stores the hash of its six-digit
  code under the same type: the code, presented as a link token, signs its owner in. No guess at it is counted.\<close>

definition verification_db :: db where
  "verification_db = mfa_db\<lparr>db_challenges :=
     [challenge_row_of (sample_challenge ''c2'' ''email'' ''live'') ''live'']\<rparr>"

lemma verification_code_is_a_magic_link:
  "case fst (VerifyMagicLink sample_sys (sample_ctx 5) ''123456'' (sample_state verification_db)) of
     Inr (acc, sess) \<Rightarrow> acc_id acc = ''alice'' \<and> se_account_id sess = ''alice'' | Inl _ \<Rightarrow> False"
  by code_simp

end
