(* ===== verification/Runtime.thy ===== *)
theory Runtime
  imports Devices Passwordless
begin

text \<open>
  The runs of the server: the requests of the modelled operations, in any order, with any context
  and at any instant. An interface states the writes the operations make on refresh tokens and on
  challenges; whatever relation between databases admits these writes holds along every run. Its
  instances show that a refresh token that was rotated or revoked is never accepted again, that
  the wrong codes a challenge answers are bounded and that a challenge is accepted once. The session
  tables keep their invariant.
\<close>

section \<open>Requests\<close>

datatype request =
    RefreshReq ctx string
  | SignOutReq ctx string bool
  | SignOutAllReq ctx string string
  | ExchangeCodeReq ctx string string
  | CreateGuestReq ctx string
  | PasswordReq ctx string string string
  | StartChallengeReq ctx CoreAuthVerifyStartCmd string string
  | VerifyEmailReq ctx CoreAuthVerifyConsumeCmd
  | VerifyEmailLinkReq ctx string string
  | VerifyPhoneReq ctx CoreAuthVerifyConsumeCmd
  | EmailChangeReq ctx CoreAuthVerifyConsumeCmd
  | PhoneChangeReq ctx CoreAuthVerifyConsumeCmd
  | CancelEmailChangeReq ctx string
  | ForgotPasswordReq ctx CoreAuthPasswordForgotCmd
  | ResetPasswordReq ctx CoreAuthPasswordResetCmd
  | ChangePasswordReq ctx CoreAuthPasswordChangeCmd
  | StepUpReq ctx CoreAuthStepUpCmd
  | RegisterDeviceReq ctx SecurityScope string
  | UpdateDeviceReq ctx SecurityScope string string string string
  | SignInPasswordReq ctx string string string
  | FactorChallengeReq ctx string string
  | FlowChallengeReq ctx string string string
  | FactorVerifyReq ctx string string
  | EnrollTOTPReq ctx string
  | EnrollEmailReq ctx string string
  | EnrollSMSReq ctx string string
  | VerifyTOTPReq ctx string string string
  | RemoveFactorReq ctx string string
  | RecoveryCodesReq ctx string
  | RecoveryVerifyReq ctx MFARecoveryVerifyCmd
  | StartOTPReq ctx string string string string string
  | VerifyOTPReq ctx string string
  | StartMagicLinkReq ctx string string string string
  | MagicLinkReq ctx string
  | MagicLinkCallbackReq ctx string string

fun serve :: "sys \<Rightarrow> request \<Rightarrow> txs \<Rightarrow> txs" where
  "serve sy (RefreshReq c t) s = snd (Refresh sy c t s)"
| "serve sy (SignOutReq c i everywhere) s = snd (SignOut sy c i everywhere s)"
| "serve sy (SignOutAllReq c a ex) s = snd (SignOutAll sy c a ex s)"
| "serve sy (ExchangeCodeReq c code v) s = snd (ExchangeCode sy c code v s)"
| "serve sy (CreateGuestReq c pid) s = snd (CreateGuest sy c pid s)"
| "serve sy (PasswordReq c pid email pw) s = snd (AuthenticatePassword sy c pid email pw s)"
| "serve sy (StartChallengeReq c cmd ty p) s = snd (coreAuthStartChallenge sy c cmd ty p s)"
| "serve sy (VerifyEmailReq c cmd) s = snd (VerifyEmail sy c cmd s)"
| "serve sy (VerifyEmailLinkReq c t to) s = snd (VerifyEmailCallback sy c t to s)"
| "serve sy (VerifyPhoneReq c cmd) s = snd (VerifyPhone sy c cmd s)"
| "serve sy (EmailChangeReq c cmd) s = snd (VerifyEmailChange sy c cmd s)"
| "serve sy (PhoneChangeReq c cmd) s = snd (VerifyPhoneChange sy c cmd s)"
| "serve sy (CancelEmailChangeReq c t) s = snd (CancelEmailChange sy c t s)"
| "serve sy (ForgotPasswordReq c cmd) s = snd (ForgotPassword sy c cmd s)"
| "serve sy (ResetPasswordReq c cmd) s = snd (ResetPassword sy c cmd s)"
| "serve sy (ChangePasswordReq c cmd) s = snd (ChangePassword sy c cmd s)"
| "serve sy (StepUpReq c cmd) s = snd (StepUp sy c cmd s)"
| "serve sy (RegisterDeviceReq c v name) s = snd (RegisterDevice sy c v name s)"
| "serve sy (UpdateDeviceReq c v i act name tok) s = snd (UpdateDevice sy c v i act name tok s)"
| "serve sy (SignInPasswordReq c pid email pw) s = snd (PostV1AuthSignInPassword sy c pid email pw s)"
| "serve sy (FactorChallengeReq c a i) s = snd (mfa_Challenge sy c a i s)"
| "serve sy (FlowChallengeReq c pid t i) s = snd (ChallengeWithFlow sy c pid t i s)"
| "serve sy (FactorVerifyReq c i code) s = snd (mfa_Verify sy c i code s)"
| "serve sy (EnrollTOTPReq c a) s = snd (EnrollTOTP sy c a s)"
| "serve sy (EnrollEmailReq c a email) s = snd (EnrollEmail sy c a email s)"
| "serve sy (EnrollSMSReq c a phone) s = snd (EnrollSMS sy c a phone s)"
| "serve sy (VerifyTOTPReq c a i code) s = snd (VerifyTOTP sy c a i code s)"
| "serve sy (RemoveFactorReq c a i) s = snd (RemoveFactor sy c a i s)"
| "serve sy (RecoveryCodesReq c a) s = snd (GenerateRecoveryCodes sy c a s)"
| "serve sy (RecoveryVerifyReq c cmd) s = snd (VerifyRecoveryCode sy c cmd s)"
| "serve sy (StartOTPReq c pid ident ch purpose loc) s = snd (StartOTP sy c pid ident ch purpose loc s)"
| "serve sy (VerifyOTPReq c i code) s = snd (VerifyOTP sy c i code s)"
| "serve sy (StartMagicLinkReq c pid email to loc) s = snd (StartMagicLink sy c pid email to loc s)"
| "serve sy (MagicLinkReq c tok) s = snd (VerifyMagicLink sy c tok s)"
| "serve sy (MagicLinkCallbackReq c tok to) s = snd (VerifyMagicLinkCallback sy c tok to s)"

text \<open>The runs of the server: any of these requests, with any contexts and at any instants, one after another.\<close>

inductive reach :: "sys \<Rightarrow> txs \<Rightarrow> txs \<Rightarrow> bool" for sy where
  start: "reach sy s s"
| step: "reach sy s s' \<Longrightarrow> reach sy s (serve sy rq s')"

section \<open>Pool writes of the operations\<close>

text \<open>The tables most operations never write on the pool.\<close>

definition core_tables where "core_tables d = (db_users d, db_sessions d, db_refresh d, db_challenges d)"
definition wf_tables where "wf_tables d = (db_users d, db_sessions d, db_refresh d)"
definition guarded_tables where "guarded_tables d = (db_refresh d, db_challenges d)"

lemma tables_aside [simp, intro!]: "aside core_tables" "aside wf_tables" "aside guarded_tables"
  by (simp_all add: aside_def side_free_def core_tables_def wf_tables_def guarded_tables_def)

lemma tables_side [simp, intro!]: "side_free core_tables" "side_free wf_tables" "side_free guarded_tables"
  using asideD(1) by auto

lemma pooled_parts: "pooled core_tables m \<Longrightarrow> pooled wf_tables m" "pooled core_tables m \<Longrightarrow> pooled guarded_tables m"
  unfolding pooled_def core_tables_def wf_tables_def guarded_tables_def by (metis prod.inject)+

lemma pooled_core_mint [intro!]: "pooled core_tables (coreAuthMintSession sy c acc cl amr aal)"
  by (simp add: pooled_mint)

lemma pooled_password [intro!]: "pooled core_tables (password_sign_in sy c pid email pw)"
proof -
  have "pooled core_tables (recordFailure sy c p a k)" for p a k by (rule pooled_recordFailure) (auto simp: core_tables_def)
  moreover have "pooled core_tables (coreAuthPersistCredentialLock c cred v)" for cred v
    by (auto simp: pooled_def coreAuthPersistCredentialLock_def core_tables_def)
  moreover have "pooled core_tables (recordRiskEvent sy p e a v)" for p e a v
    by (auto simp: pooled_def recordRiskEvent_def core_tables_def newUUID_def tx_bind_def)
  moreover have "quiet (active_factors rows)" for rows by (induction rows) (auto simp: mfaFactorFromRow_def)
  moreover have "quiet (coreAuthLoadPasswordCredential sy c pid email)"
    by (auto simp: coreAuthLoadPasswordCredential_def coreAuthFindUserByEmail_def coreAuthFindPasswordCredential_def split: option.split)
  ultimately show ?thesis
    unfolding password_sign_in_def coreAuthVerifyPassword_def coreAuthRecordLoginFailure_def coreAuthClearLoginFailures_def
      coreAuthCompletePasswordSignIn_def coreAuthActiveFactors_def evaluateSignInRisk_def ListRules_def signInSignals_def sessionSeen_def Let_def
    by (auto intro: pooled_quiet split: sum.split prod.split)
qed

lemmas challenge_defs = coreAuthConsumeChallenge_def coreAuthLookupChallengeRow_def coreAuthFindChallengeByToken_def
  coreAuthFindChallengeByTokenAnyProject_def validateChallenge_def mark_consumed_def coreAuthInsertChallenge_def issue_reset_def
  coreAuthFindUserByEmail_def coreAuthFindUserByPhone_def coreAuthUpdateAccount_def coreAuthRandomCode_def verified_by_link_def
  coreAuthSafeRedirect_def AuthConfig_def rawDoc_def coreAuthLoadResetTargetAccount_def coreAuthEnforcePasswordPolicy_def
  CheckPassword_def PasswordPolicy_def coreAuthHashPassword_def coreAuthUpsertPasswordCredential_def coreAuthFindPasswordCredential_def
  newCoreAuthChallenge_def

lemma quiet_challenge_steps [intro!]:
  "quiet (coreAuthFindUserByEmail sy c pid email)" "quiet (coreAuthFindUserByPhone sy c pid ph)" "quiet (coreAuthUpdateAccount sy c acc)"
  "quiet (coreAuthInsertChallenge sy c ch)" "quiet (coreAuthRandomCode sy)" "quiet (verified_by_link sy c data)"
  "quiet (coreAuthSafeRedirect sy c pid to)" "quiet (coreAuthFindChallengeByTokenAnyProject sy ty t)" "quiet (mark_consumed row)"
  "quiet (coreAuthEnforcePasswordPolicy sy c pid pw)" "quiet (coreAuthHashPassword sy pw)"
  "quiet (coreAuthUpsertPasswordCredential sy c pid u h)" "quiet (coreAuthFindPasswordCredential sy c pid u)"
  "quiet (coreAuthLoadResetTargetAccount sy c pid a pw)" "quiet (coreAuthSignOutAll sy c pid u ex)"
  "quiet (newCoreAuthChallenge sy c cmd ty p)" "quiet (issue_reset sy c fcmd acc)"
  unfolding challenge_defs coreAuthSignOutAll_def Let_def by (auto split: option.split)


lemma pooled_steps [intro!]:
  "pooled core_tables (unmarshal v)" "pooled core_tables (FindIamUser er i)" "pooled core_tables (coreAuthLoadAccount ur pid)"
  "pooled core_tables (newUUID sy)" "pooled core_tables (exec f)" "pooled core_tables (insert_row get upd key r)"
  "pooled core_tables (Emit sy c t pid e a pl)" "pooled core_tables (coreAuthConsumeChallenge sy c pid cmd ty)"
  "pooled core_tables (coreAuthFindUserByEmail sy c pid email)" "pooled core_tables (coreAuthFindUserByPhone sy c pid ph)"
  "pooled core_tables (coreAuthUpdateAccount sy c acc)" "pooled core_tables (coreAuthLoadResetTargetAccount sy c pid a pw)"
  "pooled core_tables (coreAuthHashPassword sy pw)" "pooled core_tables (coreAuthUpsertPasswordCredential sy c pid u hs)"
  "pooled core_tables (coreAuthSignOutAll sy c pid u ex)"
  "pooled core_tables (mfaLoadAccount pid a)" "pooled core_tables (mfaConsumeChallenge crow)" "pooled core_tables (mfaAccountFromFlow c pid t)"
  by (rule pooled_quiet; auto)+

section \<open>An interface for facts that hold along every run\<close>

lemma keeps_pool_exec: "keeps p (pool_exec w)" by (simp add: keeps_def within_def)

lemma keeps_guarded_Emit: "keeps guarded_tables (Emit sy c t pid e a pl)"
  by (rule keeps_Emit_created) (auto simp: guarded_tables_def)

lemma keeps_guarded_exec: "(\<And>d. guarded_tables (f d) = guarded_tables d) \<Longrightarrow> keeps guarded_tables (exec f)"
  by (simp add: keeps_def within_def)

lemma numeric_code: "keeps p (randomNumericCode sy n)" "quiet (randomNumericCode sy n)"
proof -
  show "keeps p (randomNumericCode sy n)"
  proof (induction n)
    case (Suc n)
    then show ?case unfolding randomNumericCode.simps by (intro keeps_bind keeps_draw keeps_ret)
  qed auto
  show "quiet (randomNumericCode sy n)"
  proof (induction n)
    case (Suc n)
    have "quiet (draw (sy_digit sy))" by (simp add: quiet_def)
    with Suc show ?case unfolding randomNumericCode.simps by (intro quiet_bind quiet_basic)
  qed auto
qed

text \<open>What a wrong one-time code does to the rows of its challenge.\<close>

definition count_otp :: "challengeEnvelope \<Rightarrow> string \<Rightarrow> challenge_row list \<Rightarrow> challenge_row list" where
  "count_otp e i = update_where (\<lambda>r. ch_id r = i) (\<lambda>r. r\<lparr>ch_data := Some (env_doc (e\<lparr>ce_attempts := ce_attempts e + 1\<rparr>)),
     ch_consumed := ce_attempts e + 1 \<ge> maxOTPAttempts \<or> ch_consumed r\<rparr>)"

lemma bumpAttempts_run:
  assumes "env_data row = Some e"
  shows "bumpAttempts row s = (Inr (), s\<lparr>tx_db := db_challenges_update (count_otp e (ch_id row)) (tx_db s)\<rparr>)"
  using assms by (simp add: bumpAttempts_def write_envelope_row_def withTx_def tx_bind_def unmarshal_def apply_pool_def count_otp_def)

text \<open>The writes on refresh tokens and challenges that the operations make: a token or a challenge with a
  fresh key is added, tokens are revoked, a challenge is spent, and a wrong code is counted.\<close>

locale guarded_run = tx_relation +
  assumes frame: "guarded_tables d' = guarded_tables d \<Longrightarrow> R d d'"
    and token_added: "R d (db_refresh_update (\<lambda>rs. rs @ [tok]) d)"
    and tokens_revoked: "R d (db_refresh_update (update_where q (mark_revoked v)) d)"
    and challenge_added: "ch_id row \<notin> ch_id ` set (db_challenges d) \<Longrightarrow> ch_data row = Some doc \<Longrightarrow> do_attempts doc = 0 \<Longrightarrow>
      R d (db_challenges_update (\<lambda>rs. rs @ [row]) d)"
    and challenges_spent: "R d (db_challenges_update (update_where q' (\<lambda>r. r\<lparr>ch_consumed := True\<rparr>)) d)"
    and wrong_code_counted: "find (\<lambda>r. ch_id r = i) (db_challenges d) = Some row \<Longrightarrow> \<not> ch_consumed row \<Longrightarrow> mfa_data row = Some m \<Longrightarrow>
      md_attempts m < mfaMaxVerifyAttempts \<Longrightarrow>
      R d (apply_pool_write (PoolChallenge i (m\<lparr>md_attempts := md_attempts m + 1\<rparr>) (md_attempts m + 1 \<ge> mfaMaxVerifyAttempts)) d)"
    and envelope_spent: "R d (db_challenges_update (update_where (\<lambda>r. ch_id r = i) (\<lambda>r. r\<lparr>ch_data := Some (env_doc e), ch_consumed := True\<rparr>)) d)"
    and wrong_otp_counted: "find (\<lambda>r. ch_id r = i) (db_challenges d) = Some row \<Longrightarrow> \<not> ch_consumed row \<Longrightarrow> env_data row = Some e \<Longrightarrow>
      ce_attempts e < maxOTPAttempts \<Longrightarrow> R d (db_challenges_update (count_otp e i) d)"
begin

lemma related_keeps: "keeps guarded_tables m \<Longrightarrow> within R m"
  by (simp add: keeps_def within_def frame)

lemmas related_rules [intro!] = within_bind within_handle within_ret within_throw within_query

lemma related_pair [intro!]: "within R (Pair r)" by (simp add: within_def R_refl)

lemma related_exec: "(\<And>d. guarded_tables (f d) = guarded_tables d) \<Longrightarrow> within R (exec f)"
  by (rule related_keeps) (rule keeps_guarded_exec)

lemma related_withTx [intro!]:
  assumes "within R m" and "pooled guarded_tables m"
  shows "within R (withTx m)"
proof (rule within_withTx [OF assms(1)])
  fix s w d assume w: "w \<in> set (tx_pool (snd (m (s\<lparr>tx_pool := []\<rparr>))))"
  then have "guarded_tables (apply_pool_write w d) = guarded_tables d"
    using assms(2) unfolding pooled_def by (metis append_Nil txs.select_convs(2) txs.surjective txs.update_convs(2))
  then show "R d (apply_pool_write w d)" by (rule frame)
qed

lemma related_insert_challenge:
  assumes "ch_data row = Some doc" and "do_attempts doc = 0"
  shows "within R (insert_row db_challenges db_challenges_update ch_id row)"
  unfolding within_def
proof
  fix s
  show "R (tx_db s) (tx_db (snd (insert_row db_challenges db_challenges_update ch_id row s)))"
    using challenge_added [OF _ assms, of "tx_db s"] R_refl by (simp add: insert_row_def tx_bind_def)
qed

lemma related_tokens [intro!]:
  "within R (coreAuthInsertRefreshToken rt)" "within R (coreAuthMarkRefreshRevoked row)" "within R (revoke_refresh_rows rs)"
proof -
  have ex: "within R (exec (db_refresh_update (update_where q (mark_revoked v))))" for q v
    by (rule within_exec) (rule tokens_revoked)
  show "within R (coreAuthInsertRefreshToken rt)"
    unfolding coreAuthInsertRefreshToken_def by (rule within_insert_row) (rule token_added)
  show "within R (coreAuthMarkRefreshRevoked row)" using ex by (auto simp: coreAuthMarkRefreshRevoked_def Let_def)
  show "within R (revoke_refresh_rows rs)" using ex by (induction rs) (auto intro!: related_keeps [of "unmarshal v" for v])
qed

lemma related_steps [intro!]:
  "within R (Emit sy c t pid e a pl)" "within R (newUUID sy)" "within R (coreAuthRandomToken sy)"
  "within R (effectiveEnv sy c pid)" "within R (resolveSignEnv c pid fb)" "within R (SessionPolicy sy c pid)"
  "within R (SessionPolicyForEnv c pid e)" "within R (coreAuthSignAccessToken sy c acc sid cl e amr aal ttl ir)"
  "within R (guardSignIn sy c acc aal)" "within R (FindIamUser er i)" "within R (FindIamSession er i)"
  "within R (coreAuthLoadAccount ur pid)" "within R (coreAuthLoadSession sr pid)" "within R (unmarshal v)"
  "within R (lift_res r)" "within R (draw g)" "within R (rawDocForEnv c fc pid env k)"
  "within R (securityAccountGuard sy c pid a)" "within R (security_scope sy c w)" "within R (security_Policy sy c w)"
  "within R (accountRandomToken sy)" "within R (independent m)" "within R (pool_exec pw)"
  by (rule related_keeps, rule keeps_guarded_Emit) (rule related_keeps; auto simp: guarded_tables_def keeps_pool_exec)+

lemma related_session_rows [intro!]:
  "within R (coreAuthInsertSessionRow sess e aal cl now sp)" "within R (coreAuthUpdateRotatedSession row sess sp now)"
  by (rule related_keeps; auto simp: guarded_tables_def coreAuthInsertSessionRow_def coreAuthUpdateRotatedSession_def Let_def)+

lemma related_revoke [intro!]:
  "within R (revokeSessionRecord sy c row)" "within R (coreAuthRevokeSession sy c pid i)"
  by (auto simp: revokeSessionRecord_def coreAuthRevokeSession_def guarded_tables_def intro!: related_exec)

lemma related_loops [intro!]:
  "within R (sign_out_each sy c pid ex rs n)" "within R (revoke_logged sy c pid rs)" "within R (revoke_sessions sy c w is)"
proof -
  have "sign_out_each sy c pid ex (r # rs) n = (if s_id r = ex then sign_out_each sy c pid ex rs n
      else tx_handle (coreAuthRevokeSession sy c pid (s_id r))
        (\<lambda>e. if \<not> err_is e ErrSessionNotFound then throw e else sign_out_each sy c pid ex rs (n + 1))
        (\<lambda>_. sign_out_each sy c pid ex rs (n + 1)))" for r rs n
    by (auto simp: fun_eq_iff tx_handle_def split: prod.split sum.split)
  then show "within R (sign_out_each sy c pid ex rs n)"
    by (induction rs arbitrary: n) (auto simp del: sign_out_each.simps(2))
  have "revoke_logged sy c pid (r # rs) =
      tx_handle (coreAuthRevokeSession sy c pid (s_id r)) (\<lambda>_. revoke_logged sy c pid rs) (\<lambda>_. revoke_logged sy c pid rs)" for r rs
    by (auto simp: fun_eq_iff tx_handle_def split: prod.split sum.split)
  then show "within R (revoke_logged sy c pid rs)"
    by (induction rs) (auto simp del: revoke_logged.simps(2))
  show "within R (revoke_sessions sy c w is)" by (induction "is") (auto simp: revokeSession_def)
qed

lemma related_sign_out [intro!]: "within R (coreAuthSignOutAll sy c pid u ex)" "within R (coreAuthRevokeAllForUser sy c pid u)"
  by (auto simp: coreAuthSignOutAll_def coreAuthRevokeAllForUser_def)

lemma related_mint [intro!]: "within R (coreAuthMintSession sy c acc cl amr aal)"
  unfolding coreAuthMintSession_def Let_def by auto

lemma related_rotate [intro!]: "within R (coreAuthRotateSession sy c acc row)"
  unfolding coreAuthRotateSession_def Let_def by (auto split: prod.split)

lemma related_refresh: "within R (Refresh sy c t)"
proof -
  have "within R (revoke_presented sy c row sr)" for row sr by (auto simp: revoke_presented_def)
  then have "within R (coreAuthRefreshInTx sy c g)" for g
    by (auto simp: coreAuthRefreshInTx_def coreAuthLoadRefreshRow_def coreAuthHandleReusedRefresh_def
        coreAuthLoadRefreshAccountSession_def coreAuthCheckDeviceMismatch_def coreAuthCheckSessionTimeout_def coreAuthRotateRefresh_def Let_def
        split: option.split prod.split)
  then show ?thesis by (auto simp: Refresh_def intro: pooled_quiet)
qed


lemma related_challenge_reads [intro!]:
  "within R (coreAuthFindUserByEmail sy c pid email)"
  "within R (coreAuthFindUserByPhone sy c pid ph)" "within R (coreAuthUpdateAccount sy c acc)"
  "within R (coreAuthRandomCode sy)" "within R (verified_by_link sy c data)"
  "within R (coreAuthSafeRedirect sy c pid to)" "within R (coreAuthFindChallengeByTokenAnyProject sy ty t)"
  "within R (coreAuthEnforcePasswordPolicy sy c pid pw)" "within R (coreAuthHashPassword sy pw)"
  "within R (coreAuthUpsertPasswordCredential sy c pid u hs)" "within R (coreAuthFindPasswordCredential sy c pid u)"
  "within R (coreAuthLoadResetTargetAccount sy c pid a pw)" "within R (newCoreAuthChallenge sy c scmd ty p)"
  by (rule related_keeps; unfold challenge_defs Let_def; auto simp: guarded_tables_def intro!: keeps_guarded_Emit split: option.split)+

lemma related_challenge_writes [intro!]:
  "within R (mark_consumed row)" "within R (coreAuthInsertChallenge sy c ch)" "within R (coreAuthConsumeChallenge sy c pid cmd ty)"
  "within R (issue_reset sy c fcmd acc)"
proof -
  show m: "within R (mark_consumed row)" for row unfolding mark_consumed_def by (rule within_exec) (rule challenges_spent)
  show i: "within R (coreAuthInsertChallenge sy c ch)" for ch unfolding coreAuthInsertChallenge_def Let_def
    by (intro within_bind related_insert_challenge) (auto simp: challenge_row_of_def empty_mfa_challenge_def)
  have "within R (validateChallenge sy c row pid cmd ty)" for row by (rule related_keeps) (auto simp: validateChallenge_def)
  moreover have "within R (coreAuthLookupChallengeRow sy pid cmd ty)"
    by (rule related_keeps) (auto simp: coreAuthLookupChallengeRow_def coreAuthFindChallengeByToken_def split: option.split)
  ultimately show "within R (coreAuthConsumeChallenge sy c pid cmd ty)" using m by (auto simp: coreAuthConsumeChallenge_def)
  show "within R (issue_reset sy c fcmd acc)" using i by (auto simp: issue_reset_def Let_def)
qed

lemma related_device_steps [intro!]:
  "within R (load_device w i)" "within R (save_device w i v)" "within R (security_emit sy c w t a pl)"
  "within R (trustDevice sy c w v tok)" "within R (deviceSessionIDs w i)" "within R (throttle sy c w sb k l dur)"
  "within R (insert_unique db_devices db_devices_update cl r e)"
  by (rule related_keeps;
      auto simp: guarded_tables_def load_device_def save_device_def security_emit_def trustDevice_def loadFlow_def saveFlow_def deviceSessionIDs_def
        throttle_def insert_unique_def Let_def split: option.split)+

lemma related_password [intro!]: "within R (password_sign_in sy c pid email pw)"
proof -
  have "within R (recordFailure sy c p a k)" for p a k unfolding recordFailure_def Let_def by auto
  moreover have "within R (active_factors rows)" for rows by (induction rows) (auto simp: mfaFactorFromRow_def)
  ultimately show ?thesis
    unfolding password_sign_in_def coreAuthVerifyPassword_def coreAuthRecordLoginFailure_def coreAuthClearLoginFailures_def
      coreAuthPersistCredentialLock_def coreAuthCompletePasswordSignIn_def coreAuthActiveFactors_def evaluateSignInRisk_def
      ListRules_def signInSignals_def sessionSeen_def recordRiskEvent_def coreAuthLoadPasswordCredential_def Let_def
    by (auto split: sum.split prod.split)
qed

lemma related_requests:
  "within R (SignOut sy c i ev)" "within R (SignOutAll sy c a ex)" "within R (ExchangeCode sy c code vf)"
  "within R (CreateGuest sy c pid)" "within R (AuthenticatePassword sy c pid email pw)"
  "within R (coreAuthStartChallenge sy c scmd ty p)" "within R (VerifyEmail sy c cmd)"
  "within R (VerifyEmailCallback sy c t to)" "within R (VerifyPhone sy c cmd)"
proof -
  show "within R (SignOut sy c i ev)" by (auto simp: SignOut_def intro!: pooled_quiet)
  show "within R (SignOutAll sy c a ex)" by (auto simp: SignOutAll_def intro!: pooled_quiet)
  show "within R (ExchangeCode sy c code vf)"
    by (auto simp: ExchangeCode_def coreAuthLoadValidAuthCode_def guarded_tables_def intro!: related_exec pooled_parts(2) split: option.split)
  show "within R (CreateGuest sy c pid)"
    by (auto simp: CreateGuest_def Let_def guarded_tables_def intro!: pooled_parts(2) related_keeps [of "insert_row g u k r" for g u k r])
  show "within R (AuthenticatePassword sy c pid email pw)" by (auto simp: AuthenticatePassword_def intro!: pooled_parts(2))
  show "within R (coreAuthStartChallenge sy c scmd ty p)"
    by (auto simp: coreAuthStartChallenge_def Let_def intro!: pooled_quiet)
  show "within R (VerifyEmail sy c cmd)" by (auto simp: VerifyEmail_def intro!: pooled_parts(2))
  show "within R (VerifyEmailCallback sy c t to)" by (auto simp: VerifyEmailCallback_def intro!: pooled_quiet)
  show "within R (VerifyPhone sy c cmd)" by (auto simp: VerifyPhone_def intro!: pooled_parts(2))
qed

lemma related_account_requests:
  "within R (VerifyEmailChange sy c cmd)" "within R (VerifyPhoneChange sy c cmd)" "within R (CancelEmailChange sy c t)"
  "within R (ForgotPassword sy c fcmd)" "within R (ResetPassword sy c rcmd)" "within R (ChangePassword sy c ccmd)"
  "within R (StepUp sy c ucmd)" "within R (RegisterDevice sy c v name)" "within R (UpdateDevice sy c v i act name tok)"
proof -
  show "within R (VerifyEmailChange sy c cmd)" by (auto simp: VerifyEmailChange_def Let_def intro!: pooled_quiet)
  show "within R (VerifyPhoneChange sy c cmd)" by (auto simp: VerifyPhoneChange_def Let_def intro!: pooled_quiet)
  show "within R (CancelEmailChange sy c t)" by (auto simp: CancelEmailChange_def intro!: pooled_quiet)
  show "within R (ForgotPassword sy c fcmd)" by (auto simp: ForgotPassword_def intro!: pooled_quiet)
  show "within R (ResetPassword sy c rcmd)" by (auto simp: ResetPassword_def intro!: pooled_parts(2))
  show "within R (ChangePassword sy c ccmd)" by (auto simp: ChangePassword_def intro!: pooled_quiet)
  show "within R (StepUp sy c ucmd)" by (auto simp: StepUp_def Let_def intro!: pooled_quiet)
  have "quiet (throttle sy c w sb k l d)" "quiet (insert_unique gt up cl r e)" for w sb k l d and gt :: "db \<Rightarrow> device_row list" and up cl r e
    by (auto simp: throttle_def insert_unique_def Let_def split: option.split)
  then show "within R (RegisterDevice sy c v name)"
    by (auto simp: RegisterDevice_def guarded_tables_def Let_def intro!: pooled_quiet related_exec)
  have "quiet (trustDevice sy c w dv tk)" for w dv tk
    by (auto simp: trustDevice_def loadFlow_def saveFlow_def Let_def split: option.split)
  then show "within R (UpdateDevice sy c v i act name tok)"
    by (auto simp: UpdateDevice_def device_action_def Let_def case_prod_beta intro!: pooled_quiet)
qed

lemma related_mfa_reads [intro!]:
  "within R (mfaFindFactor a i)" "within R (mfaLoadAccount pid a)" "within R (mfaResolveProject a)" "within R (mfaResolveAccount a)"
  "within R (mfaCountFactors a)" "within R (mfaNewOpaqueToken sy n)" "within R (mfaGenerateTOTPKey sy l)" "within R (mfaGateEnroll sy c pid ty)"
  "within R (mfaFactorFromRow frow)" "within R (mfaAccountFromFlow c pid t)" "within R (mfaInsertFactorFor sy c pid a f secret)"
  "within R (mint_recovery_codes sy c pid a k)" "within R (list_factors frows)" "within R (mfaConsumeChallenge row)" "within R (mfaMintSession sy c acc)"
proof -
  show "within R (mfaInsertFactorFor sy c pid a f secret)"
    by (rule related_keeps) (auto simp: mfaInsertFactorFor_def insert_unique_def guarded_tables_def)
  have "keeps guarded_tables (mint_recovery_codes sy c pid a k)" by (induction k) (auto simp: guarded_tables_def)
  then show "within R (mint_recovery_codes sy c pid a k)" by (rule related_keeps)
  have "keeps guarded_tables (list_factors frows)" by (induction frows) auto
  then show "within R (list_factors frows)" by (rule related_keeps)
  show "within R (mfaConsumeChallenge row)" by (auto simp: mfaConsumeChallenge_def)
  show "within R (mfaMintSession sy c acc)" by (auto simp: mfaMintSession_def)
qed (rule related_keeps; auto)+

lemma related_insert_mfa [intro!]:
  "md_attempts data = 0 \<Longrightarrow> within R (mfaInsertChallenge sy c pid a ch data)"
  unfolding mfaInsertChallenge_def by (intro within_bind related_insert_challenge) auto

lemma related_mfa_Challenge [intro!]: "within R (mfa_Challenge sy c a i)"
  unfolding mfa_Challenge_def Let_def
  by (auto simp: mfaInsertChallenge_def empty_mfa_challenge_def intro!: pooled_quiet related_insert_challenge)

lemma related_mfa_Verify: "within R (mfa_Verify sy c i code)"
  unfolding within_def
proof
  fix s :: txs
  let ?s = "s\<lparr>tx_pool := []\<rparr>"
  let ?K = "\<lambda>(row, a). tx_bind (mfaConsumeChallenge row) (\<lambda>_. tx_bind (mfaLoadAccount (ch_project_id row) a) (\<lambda>acc.
     tx_bind (mfaMintSession sy c acc) (\<lambda>sess.
     tx_bind (Emit sy c ''mfa.challenge.verified'' (ch_project_id row) mfaDefaultEnv i (PSession sess)) (\<lambda>_. ret (acc, sess)))))"
  obtain r s1 where v: "mfaVerifyChallengeCode sy c i code ?s = (r, s1)" by (cases "mfaVerifyChallengeCode sy c i code ?s")
  have V: "mfa_Verify sy c i code = withTx (tx_bind (mfaVerifyChallengeCode sy c i code) ?K)" by (simp add: mfa_Verify_def)
  show "R (tx_db s) (tx_db (snd (mfa_Verify sy c i code s)))"
  proof (rule mfaVerifyChallengeCode_cases [OF v, of guarded_tables])
    fix row data assume ok: "r = Inr (row, str_or_empty (ch_subject row))" "s1 = ?s"
    have "within R (withTx (?K (row, str_or_empty (ch_subject row))))"
      by (auto simp: mfaMintSession_def intro!: pooled_parts(2))
    then have "R (tx_db s) (tx_db (snd (withTx (?K (row, str_or_empty (ch_subject row))) s)))" by (simp add: within_def)
    moreover have "mfa_Verify sy c i code s = withTx (?K (row, str_or_empty (ch_subject row))) s"
      using v ok by (simp add: V withTx_def tx_bind_def)
    ultimately show ?thesis by simp
  next
    fix e assume "r = Inl e" "tx_pool s1 = tx_pool ?s"
    then show ?thesis using v by (simp add: V withTx_def tx_bind_def apply_pool_def R_refl)
  next
    fix e row data ws
    let ?w = "PoolChallenge i (data\<lparr>md_attempts := md_attempts data + 1\<rparr>) (md_attempts data + 1 \<ge> mfaMaxVerifyAttempts)"
    assume r: "r = Inl e" "find (\<lambda>r. ch_id r = i) (db_challenges (tx_db ?s)) = Some row" "\<not> ch_consumed row" "mfa_data row = Some data"
        "md_attempts data < mfaMaxVerifyAttempts" "tx_pool s1 = tx_pool ?s @ ?w # ws" "\<And>d. guarded_tables (apply_pool ws d) = guarded_tables d"
    have "tx_db (snd (mfa_Verify sy c i code s)) = apply_pool ws (apply_pool_write ?w (tx_db s))"
      using v r(1,6) by (simp add: V withTx_def tx_bind_def apply_pool_def)
    moreover have "R (tx_db s) (apply_pool_write ?w (tx_db s))" using wrong_code_counted [OF _ r(3-5), of i] r(2) by simp
    moreover have "R d (apply_pool ws d)" for d by (rule frame) (rule r(7))
    ultimately show ?thesis using R_trans by metis
  qed (auto simp: guarded_tables_def)
qed

lemma related_mfa_requests:
  "within R (PostV1AuthSignInPassword sy c pid email pw)" "within R (ChallengeWithFlow sy c pid t i)" "within R (EnrollTOTP sy c a)"
  "within R (EnrollEmail sy c a email)" "within R (EnrollSMS sy c a phone)" "within R (VerifyTOTP sy c a i code)"
  "within R (RemoveFactor sy c a i)" "within R (GenerateRecoveryCodes sy c a)" "within R (VerifyRecoveryCode sy c cmd)"
proof -
  have q: "quiet (mfaInsertFactorFor sy c pid a f secret)" "quiet (mint_recovery_codes sy c pid a k)" for pid a f secret k
  proof -
    show "quiet (mfaInsertFactorFor sy c pid a f secret)" by (auto simp: mfaInsertFactorFor_def insert_unique_def)
    show "quiet (mint_recovery_codes sy c pid a k)" by (induction k) auto
  qed
  show "within R (PostV1AuthSignInPassword sy c pid email pw)"
    by (auto simp: PostV1AuthSignInPassword_def related_requests)
  show "within R (ChallengeWithFlow sy c pid t i)" by (auto simp: ChallengeWithFlow_def ListFactors_def)
  show "within R (EnrollTOTP sy c a)" using q
    by (auto simp: EnrollTOTP_def Let_def intro!: pooled_quiet)
  have "within R (mfaEnrollDelivery sy c a ty hint)" for ty hint using q
    by (auto simp: mfaEnrollDelivery_def emitMFAEnrollEvents_def mfaInsertChallenge_def empty_mfa_challenge_def Let_def
        intro!: pooled_quiet related_insert_challenge)
  then show "within R (EnrollEmail sy c a email)" "within R (EnrollSMS sy c a phone)" by (auto simp: EnrollEmail_def EnrollSMS_def)
  show "within R (VerifyTOTP sy c a i code)"
    by (auto simp: VerifyTOTP_def Let_def guarded_tables_def intro!: pooled_quiet related_exec split: option.split)
  show "within R (RemoveFactor sy c a i)"
    by (auto simp: RemoveFactor_def guarded_tables_def intro!: pooled_quiet related_exec)
  show "within R (GenerateRecoveryCodes sy c a)" using q
    by (auto simp: GenerateRecoveryCodes_def guarded_tables_def intro!: pooled_quiet related_exec)
  show "within R (VerifyRecoveryCode sy c cmd)"
    by (auto simp: VerifyRecoveryCode_def mfaMintSession_def guarded_tables_def intro!: related_exec pooled_parts(2) split: option.split)
qed

lemma related_read:
  assumes "\<And>s r s'. m s = (r, s') \<Longrightarrow> s' = s" and "\<And>s x. m s = (Inr x, s) \<Longrightarrow> R (tx_db s) (tx_db (snd (f x s)))"
  shows "within R (tx_bind m f)"
  unfolding within_def
proof
  fix s
  obtain r where "m s = (r, s)" using assms(1) by (cases "m s") auto
  then show "R (tx_db s) (tx_db (snd (tx_bind m f s)))" using assms(2) R_refl by (cases r) (simp_all add: tx_bind_def)
qed

lemma related_passwordless [intro!]:
  "within R (consume row)" "within R (resolveAndSession sy c e)" "ce_attempts e = 0 \<Longrightarrow> within R (insertChallenge e)"
  "within R (randomNumericCode sy n)" "within R (loadChallengeForVerify c i ty)" "within R (findUnconsumedByHash ty h)"
proof -
  show "within R (consume row)"
    unfolding consume_def write_envelope_row_def by (intro within_bind related_steps within_exec) (simp add: envelope_spent)
  have "within R (resolveOrCreateUser sy c e)" by (rule related_keeps, rule keeps_resolve) (auto simp: guarded_tables_def)
  then show "within R (resolveAndSession sy c e)" by (auto simp: resolveAndSession_def createSession_def Let_def)
  show "within R (insertChallenge e)" if "ce_attempts e = 0"
    unfolding insertChallenge_def using that by (intro related_insert_challenge) auto
  show "within R (randomNumericCode sy n)" by (rule related_keeps) (rule numeric_code)
qed (rule related_keeps; auto simp: loadChallengeForVerify_def findUnconsumedByHash_def split: option.split)+

lemma related_passwordless_requests:
  "within R (StartOTP sy c pid ident ch purpose loc)" "within R (VerifyOTP sy c i code)"
  "within R (StartMagicLink sy c pid email to loc)" "within R (VerifyMagicLink sy c tok)" "within R (VerifyMagicLinkCallback sy c tok to)"
proof -
  have pooled: "pooled guarded_tables (resolveAndSession sy c e)" for e
    unfolding resolveAndSession_def createSession_def Let_def by (auto intro: pooled_mint intro!: pooled_quiet [of "resolveOrCreateUser sy c e"])
  have calm: "pooled guarded_tables (loadChallengeForVerify c i ty)" "pooled guarded_tables (consume row)"
    "pooled guarded_tables (Emit sy c t pid e a pl)" "pooled guarded_tables (findUnconsumedByHash ty h)" "pooled guarded_tables (unmarshal x)"
    for ty row t pid e a pl h and x :: "challengeEnvelope option" by (rule pooled_quiet; auto)+
  show "within R (StartOTP sy c pid ident ch purpose loc)"
    by (auto simp: StartOTP_def providerEnabled_def Let_def intro!: pooled_quiet)
  show "within R (StartMagicLink sy c pid email to loc)"
    by (auto simp: StartMagicLink_def randomOpaqueToken_def Let_def intro!: pooled_quiet)
  show link: "within R (VerifyMagicLink sy c tok)" using pooled calm
    by (auto simp: VerifyMagicLink_def)
  show "within R (VerifyMagicLinkCallback sy c tok to)" using link by (auto simp: VerifyMagicLinkCallback_def)
  show "within R (VerifyOTP sy c i code)"
    unfolding VerifyOTP_def
  proof (rule related_read)
    show "s' = s" if "loadChallengeForVerify c i ''otp'' s = (r, s')" for s r s' using loadChallengeForVerify_state [OF that] .
  next
    fix s x assume l: "loadChallengeForVerify c i ''otp'' s = (Inr x, s)"
    obtain e row where x: "x = (e, row)" by (cases x)
    note l = l [unfolded x loadChallengeForVerify_Inr]
    have i: "ch_id row = i" using l by (auto dest: find_set)
    have over: "within R (tx_handle (consume row) (\<lambda>_. throw ErrRateLimited) (\<lambda>_. throw ErrRateLimited :: (Account \<times> Session) tx))" by auto
    have body: "within R (withTx (
         tx_bind (loadChallengeForVerify c i ''otp'') (\<lambda>(e, row).
           if ce_code_hash e \<noteq> hashToken sy code then throw ErrInvalidOTP
           else
             tx_bind (consume row) (\<lambda>_.
             tx_bind (resolveAndSession sy c e) (\<lambda>(acc, sess).
             tx_bind (Emit sy c ''auth.otp.verified'' (acc_project_id acc) (envScope e) (acc_id acc)
                        (PFields [(''account_id'', DStr (acc_id acc)), (''session_id'', DStr (se_id sess))])) (\<lambda>_.
               ret (acc, sess)))))))" using pooled calm by auto
    have wrong: "R (tx_db s) (tx_db (snd (tx_bind (bumpAttempts row) (\<lambda>_. throw ErrInvalidOTP :: (Account \<times> Session) tx) s)))"
      if "ce_attempts e < maxOTPAttempts"
      using wrong_otp_counted [of i "tx_db s" row e] l i that by (simp add: tx_bind_def bumpAttempts_run)
    from over body wrong show "R (tx_db s) (tx_db (snd ((case x of (e, row) \<Rightarrow>
       if maxOTPAttempts \<le> ce_attempts e then tx_handle (consume row) (\<lambda>_. throw ErrRateLimited) (\<lambda>_. throw ErrRateLimited)
       else if ce_code_hash e \<noteq> hashToken sy code then tx_bind (bumpAttempts row) (\<lambda>_. throw ErrInvalidOTP)
       else withTx (
         tx_bind (loadChallengeForVerify c i ''otp'') (\<lambda>(e, row).
           if ce_code_hash e \<noteq> hashToken sy code then throw ErrInvalidOTP
           else
             tx_bind (consume row) (\<lambda>_.
             tx_bind (resolveAndSession sy c e) (\<lambda>(acc, sess).
             tx_bind (Emit sy c ''auth.otp.verified'' (acc_project_id acc) (envScope e) (acc_id acc)
                        (PFields [(''account_id'', DStr (acc_id acc)), (''session_id'', DStr (se_id sess))])) (\<lambda>_.
               ret (acc, sess))))))) s)))"
      by (simp add: x within_def)
  qed
qed

lemma relatedD: "within R m \<Longrightarrow> R (tx_db s) (tx_db (snd (m s)))"
  by (simp add: within_def)

lemma serve_related: "R (tx_db s) (tx_db (serve sy rq s))"
  by (cases rq) (simp_all add: relatedD related_refresh related_requests related_account_requests related_mfa_requests related_mfa_Challenge
      related_mfa_Verify related_passwordless_requests)

lemma reach_related: "reach sy s s' \<Longrightarrow> R (tx_db s) (tx_db s')"
  by (induction rule: reach.induct) (auto intro: R_refl R_trans serve_related)

end

section \<open>A dead token stays dead\<close>

definition dead :: "string \<Rightarrow> db \<Rightarrow> bool" where
  "dead h d = (case find (\<lambda>r. rt_hash r = h) (db_refresh d) of Some r \<Rightarrow> rt_revoked r | None \<Rightarrow> False)"

lemma dead_append: "dead h d \<Longrightarrow> dead h (db_refresh_update (\<lambda>rs. rs @ [r]) d)"
  by (auto simp: dead_def find_append split: option.splits)

lemma dead_mark: "dead h d \<Longrightarrow> dead h (db_refresh_update (update_where q (mark_revoked v)) d)"
proof -
  have "find (\<lambda>r. rt_hash r = h) (update_where q (mark_revoked v) rs)
      = map_option (\<lambda>r. if q r then mark_revoked v r else r) (find (\<lambda>r. rt_hash r = h) rs)" for rs
    by (induction rs) (auto simp: update_where_def)
  then show "dead h d \<Longrightarrow> dead h (db_refresh_update (update_where q (mark_revoked v)) d)"
    by (auto simp: dead_def split: option.splits)
qed

interpretation dying: guarded_run "\<lambda>d d'. dead h d \<longrightarrow> dead h d'" for h
  by unfold_locales (auto simp: dead_append dead_mark, auto simp: dead_def guarded_tables_def)

section \<open>A challenge answers boundedly many wrong codes\<close>

text \<open>The wrong codes a challenge may still count; one that does not exist yet may count five.\<close>

definition codes_left :: "string \<Rightarrow> db \<Rightarrow> nat" where
  "codes_left i d =
     (case find (\<lambda>r. ch_id r = i) (db_challenges d) of
        Some row \<Rightarrow> if ch_consumed row then 0
                   else (case ch_data row of Some doc \<Rightarrow> nat (mfaMaxVerifyAttempts - do_attempts doc) | None \<Rightarrow> 0)
      | None \<Rightarrow> nat mfaMaxVerifyAttempts)"

lemma find_updated:
  "(\<And>r. ch_id (f r) = ch_id r) \<Longrightarrow> find (\<lambda>r. ch_id r = i) (update_where q f rs)
     = map_option (\<lambda>r. if q r then f r else r) (find (\<lambda>r. ch_id r = i) rs)"
  by (induction rs) (auto simp: update_where_def)

lemma codes_left_counted:
  assumes "find (\<lambda>r. ch_id r = i) (db_challenges d) = Some row" and "\<not> ch_consumed row" and "mfa_data row = Some m"
    and "md_attempts m < mfaMaxVerifyAttempts"
  defines "d' \<equiv> apply_pool_write (PoolChallenge i (m\<lparr>md_attempts := md_attempts m + 1\<rparr>) (md_attempts m + 1 \<ge> mfaMaxVerifyAttempts)) d"
  shows "codes_left i d' < codes_left i d" and "j \<noteq> i \<Longrightarrow> codes_left j d' = codes_left j d"
proof -
  have "ch_id row = i" using assms(1) by (auto dest: find_set)
  then show "codes_left i d' < codes_left i d"
    using assms(1-4) by (auto simp: d'_def codes_left_def find_updated mfa_data_def)
  show "codes_left j d' = codes_left j d" if "j \<noteq> i"
    using that by (auto simp: d'_def codes_left_def find_updated split: option.split dest: find_set)
qed

lemma codes_left_consumed:
  "codes_left i (db_challenges_update (update_where q (\<lambda>r. r\<lparr>ch_consumed := True\<rparr>)) d) \<le> codes_left i d"
  by (auto simp: codes_left_def find_updated split: option.splits)

lemma codes_left_added:
  assumes "ch_id row \<notin> ch_id ` set (db_challenges d)" and "ch_data row = Some doc" and "do_attempts doc = 0"
  shows "codes_left i (db_challenges_update (\<lambda>rs. rs @ [row]) d) \<le> codes_left i d"
  using assms by (auto simp: codes_left_def find_append split: option.splits)

lemma codes_left_otp:
  assumes "find (\<lambda>r. ch_id r = i) (db_challenges d) = Some row" and "\<not> ch_consumed row" and "env_data row = Some e"
    and "ce_attempts e < maxOTPAttempts"
  shows "codes_left i (db_challenges_update (count_otp e i) d) < codes_left i d"
    and "j \<noteq> i \<Longrightarrow> codes_left j (db_challenges_update (count_otp e i) d) = codes_left j d"
proof -
  have "ch_id row = i" using assms(1) by (auto dest: find_set)
  then show "codes_left i (db_challenges_update (count_otp e i) d) < codes_left i d"
    using assms(1-4) by (auto simp: count_otp_def codes_left_def find_updated env_data_def maxOTPAttempts_def mfaMaxVerifyAttempts_def)
  show "codes_left j (db_challenges_update (count_otp e i) d) = codes_left j d" if "j \<noteq> i"
    using that by (auto simp: count_otp_def codes_left_def find_updated split: option.split dest: find_set)
qed

lemma codes_left_spent:
  "codes_left i (db_challenges_update (update_where (\<lambda>r. ch_id r = j) (\<lambda>r. r\<lparr>ch_data := w, ch_consumed := True\<rparr>)) d) \<le> codes_left i d"
  by (auto simp: codes_left_def find_updated split: option.splits)

interpretation spending: guarded_run "\<lambda>d d'. codes_left i d' \<le> codes_left i d" for i
proof (unfold_locales)
  fix d :: db and j row m
  assume r: "find (\<lambda>r. ch_id r = j) (db_challenges d) = Some row" "\<not> ch_consumed row" "mfa_data row = Some m"
    "md_attempts m < mfaMaxVerifyAttempts"
  show "codes_left i (apply_pool_write (PoolChallenge j (m\<lparr>md_attempts := md_attempts m + 1\<rparr>)
      (md_attempts m + 1 \<ge> mfaMaxVerifyAttempts)) d) \<le> codes_left i d"
    using codes_left_counted [OF r] by (cases "i = j") (auto intro: less_imp_le)
next
  fix d :: db and j row e
  assume r: "find (\<lambda>r. ch_id r = j) (db_challenges d) = Some row" "\<not> ch_consumed row" "env_data row = Some e" "ce_attempts e < maxOTPAttempts"
  show "codes_left i (db_challenges_update (count_otp e j) d) \<le> codes_left i d"
    using codes_left_otp [OF r] by (cases "i = j") (auto intro: less_imp_le)
qed (auto simp: codes_left_consumed codes_left_added codes_left_spent, auto simp: codes_left_def guarded_tables_def)

section \<open>A spent challenge stays spent\<close>

definition spent :: "string \<Rightarrow> db \<Rightarrow> bool" where
  "spent i d = (case find (\<lambda>r. ch_id r = i) (db_challenges d) of Some row \<Rightarrow> ch_consumed row | None \<Rightarrow> False)"

interpretation closing: guarded_run "\<lambda>d d'. spent i d \<longrightarrow> spent i d'" for i
  by unfold_locales (auto simp: spent_def guarded_tables_def find_updated find_append count_otp_def split: option.splits)

text \<open>A one-time code that is compared with its challenge and found wrong.\<close>

definition wrong_otp :: "sys \<Rightarrow> ctx \<Rightarrow> string \<Rightarrow> string \<Rightarrow> txs \<Rightarrow> bool" where
  "wrong_otp sy c i code s \<longleftrightarrow>
     (case fst (loadChallengeForVerify c i ''otp'' s) of
        Inr (e, row) \<Rightarrow> ce_attempts e < maxOTPAttempts \<and> ce_code_hash e \<noteq> hashToken sy code
      | Inl _ \<Rightarrow> False)"

lemma wrong_otp_spends:
  assumes "wrong_otp sy c i code s"
  shows "codes_left i (tx_db (snd (VerifyOTP sy c i code s))) < codes_left i (tx_db s)"
proof -
  obtain e row where l: "loadChallengeForVerify c i ''otp'' s = (Inr (e, row), s)"
    and w: "ce_attempts e < maxOTPAttempts" "ce_code_hash e \<noteq> hashToken sy code"
    using assms loadChallengeForVerify_state [of c i "''otp''" s]
    by (cases "loadChallengeForVerify c i ''otp'' s") (auto simp: wrong_otp_def split: sum.splits)
  have row: "find (\<lambda>r. ch_id r = i) (db_challenges (tx_db s)) = Some row" "env_data row = Some e" "\<not> ch_consumed row"
    using l by (auto simp: loadChallengeForVerify_Inr)
  then have "ch_id row = i" by (auto dest: find_set)
  with l w row have "tx_db (snd (VerifyOTP sy c i code s)) = db_challenges_update (count_otp e i) (tx_db s)"
    by (simp add: VerifyOTP_def tx_bind_def bumpAttempts_run)
  then show ?thesis using codes_left_otp(1) [OF row(1,3,2) w(1)] by simp
qed

text \<open>How many wrong codes a series of requests presents to a challenge.\<close>

fun presents_wrong :: "sys \<Rightarrow> string \<Rightarrow> request \<Rightarrow> txs \<Rightarrow> bool" where
  "presents_wrong sy i (FactorVerifyReq c j code) s = (j = i \<and> wrong_code sy c i code s)"
| "presents_wrong sy i (VerifyOTPReq c j code) s = (j = i \<and> wrong_otp sy c i code s)"
| "presents_wrong sy i _ s = False"

fun wrong_codes :: "sys \<Rightarrow> string \<Rightarrow> request list \<Rightarrow> txs \<Rightarrow> nat" where
  "wrong_codes sy i [] s = 0"
| "wrong_codes sy i (rq # rqs) s = (if presents_wrong sy i rq s then 1 else 0) + wrong_codes sy i rqs (serve sy rq s)"

lemma wrong_code_spends:
  assumes "wrong_code sy c i code s" and "tx_pool s = []"
  shows "codes_left i (tx_db (snd (mfa_Verify sy c i code s))) < codes_left i (tx_db s)"
proof -
  obtain r s1 where v: "mfaVerifyChallengeCode sy c i code s = (r, s1)" by (cases "mfaVerifyChallengeCode sy c i code s")
  show ?thesis
  proof (rule mfaVerifyChallengeCode_cases [OF v, of guarded_tables])
    fix e row data ws
    let ?w = "PoolChallenge i (data\<lparr>md_attempts := md_attempts data + 1\<rparr>) (md_attempts data + 1 \<ge> mfaMaxVerifyAttempts)"
    assume r: "r = Inl e" "find (\<lambda>r. ch_id r = i) (db_challenges (tx_db s)) = Some row" "\<not> ch_consumed row" "mfa_data row = Some data"
        "md_attempts data < mfaMaxVerifyAttempts" "tx_pool s1 = tx_pool s @ ?w # ws" "\<And>d. guarded_tables (apply_pool ws d) = guarded_tables d"
    have "tx_db (snd (mfa_Verify sy c i code s)) = apply_pool ws (apply_pool_write ?w (tx_db s))"
      using v r(1,6) assms(2) by (simp add: mfa_Verify_def withTx_idle tx_bind_def apply_pool_def)
    moreover have "codes_left i (apply_pool ws d) = codes_left i d" for d
      using r(7) [of d] by (simp add: codes_left_def guarded_tables_def)
    ultimately show ?thesis using codes_left_counted(1) [OF r(2-5)] by simp
  qed (use assms(1) in \<open>auto simp: guarded_tables_def\<close>)
qed

lemma quiet_withTx [intro!]: "quiet (withTx m)"
  by (auto simp: quiet_def withTx_def split: prod.split sum.split)

lemma quiet_list_factors [intro!]: "quiet (list_factors rows)" by (induction rows) auto

lemma quiet_requests:
  "quiet (Refresh sy c t)" "quiet (SignOut sy c i ev)" "quiet (SignOutAll sy c a ex)" "quiet (ExchangeCode sy c code vf)"
  "quiet (CreateGuest sy c pid)" "quiet (AuthenticatePassword sy c pid email pw)" "quiet (coreAuthStartChallenge sy c scmd ty p)"
  "quiet (VerifyEmail sy c cmd)" "quiet (VerifyEmailCallback sy c t to)" "quiet (VerifyPhone sy c cmd)"
  "quiet (VerifyEmailChange sy c cmd)" "quiet (VerifyPhoneChange sy c cmd)" "quiet (CancelEmailChange sy c t)"
  "quiet (PostV1AuthSignInPassword sy c pid email pw)" "quiet (mfa_Challenge sy c a i)" "quiet (ChallengeWithFlow sy c pid t i)"
  "quiet (mfa_Verify sy c i code)" "quiet (EnrollTOTP sy c a)" "quiet (EnrollEmail sy c a email)" "quiet (EnrollSMS sy c a ph)"
  "quiet (VerifyTOTP sy c a i code)" "quiet (RemoveFactor sy c a i)" "quiet (GenerateRecoveryCodes sy c a)" "quiet (VerifyRecoveryCode sy c vcmd)"
  "quiet (ForgotPassword sy c fcmd)" "quiet (ResetPassword sy c rcmd)" "quiet (ChangePassword sy c ccmd)"
  "quiet (StepUp sy c ucmd)" "quiet (RegisterDevice sy c v name)" "quiet (UpdateDevice sy c v i act name tok)"
  "quiet (StartOTP sy c pid ident ch purpose loc)" "quiet (VerifyOTP sy c i code)" "quiet (StartMagicLink sy c pid email to loc)"
  "quiet (VerifyMagicLink sy c tok)" "quiet (VerifyMagicLinkCallback sy c tok to)"
  by (auto simp: StartOTP_def VerifyOTP_def bumpAttempts_def StartMagicLink_def randomOpaqueToken_def VerifyMagicLink_def VerifyMagicLinkCallback_def
      numeric_code Refresh_def SignOut_def SignOutAll_def ExchangeCode_def CreateGuest_def AuthenticatePassword_def coreAuthStartChallenge_def
      VerifyEmail_def VerifyEmailCallback_def VerifyPhone_def VerifyEmailChange_def VerifyPhoneChange_def CancelEmailChange_def PostV1AuthSignInPassword_def mfa_Challenge_def ChallengeWithFlow_def ListFactors_def mfa_Verify_def EnrollTOTP_def EnrollEmail_def
      EnrollSMS_def mfaEnrollDelivery_def VerifyTOTP_def RemoveFactor_def GenerateRecoveryCodes_def VerifyRecoveryCode_def
      ForgotPassword_def ResetPassword_def ChangePassword_def StepUp_def RegisterDevice_def UpdateDevice_def Let_def)

lemma serve_idle: "tx_pool (serve sy rq s) = tx_pool s"
  using quiet_requests unfolding quiet_def by (cases rq) simp_all

lemma reach_idle: "reach sy s s' \<Longrightarrow> tx_pool s' = tx_pool s"
  by (induction rule: reach.induct) (simp_all add: serve_idle)

lemma dead_refused:
  assumes "dead (coreAuthSHA256 sy t) (tx_db s)" and "tx_pool s = []"
  shows "Refresh sy c t s \<noteq> (Inr (acc, sess), s')"
proof
  assume "Refresh sy c t s = (Inr (acc, sess), s')"
  from Refresh_Inr [OF this assms(2)] show False
    by (rule coreAuthRefreshInTx_Rotated) (use assms(1) in \<open>simp add: dead_def\<close>)
qed

lemma rotated_dead:
  assumes "Refresh sy c t s = (Inr (acc, sess), s')" and "tx_pool s = []"
  shows "dead (coreAuthSHA256 sy t) (tx_db s')"
  using Refresh_Inr [OF assms]
proof (rule coreAuthRefreshInTx_Rotated)
  fix row :: refresh_row and sr s1 s2
  let ?h = "coreAuthSHA256 sy t"
  let ?v = "Some ((case rt_data row of Some v \<Rightarrow> v | None \<Rightarrow> empty_refresh_token)\<lparr>rd_revoked := True\<rparr>)"
  assume row: "find (\<lambda>r. rt_hash r = ?h) (db_refresh (tx_db s)) = Some row"
    and s1: "auth_tables (tx_db s1) = auth_tables ((tx_db s)\<lparr>db_refresh := update_where (\<lambda>r. rt_id r = rt_id row)
           (mark_revoked ?v) (db_refresh (tx_db s))\<rparr>)"
    and rot: "coreAuthRotateSession sy c acc sr s1 = (Inr sess, s2)" and t: "auth_tables (tx_db s') = auth_tables (tx_db s2)"
  have "find (\<lambda>r. rt_hash r = ?h) (update_where (\<lambda>r. rt_id r = rt_id row) (mark_revoked ?v) rs)
      = map_option (\<lambda>r. if rt_id r = rt_id row then mark_revoked ?v r else r) (find (\<lambda>r. rt_hash r = ?h) rs)" for rs
    by (induction rs) (auto simp: update_where_def)
  then have "dead ?h (tx_db s1)" using row s1 by (simp add: dead_def auth_tables_def)
  then have "dead ?h (tx_db s2)" using dying.relatedD [OF dying.related_rotate, of ?h s1 sy c acc sr] rot by simp
  then show ?thesis using t by (simp add: dead_def auth_tables_def)
qed

text \<open>C5: a refresh token is accepted at most once. After a refresh has succeeded with a token, no later
  refresh with it succeeds, whatever requests of a run the server has handled in between, at whatever times
  and with whatever contexts, including failed ones. (A run is made of the thirty-five kinds of requests of
  this theory; registration, flows, machine identities, OIDC and administration are not among them.)\<close>

theorem refresh_token_single_use:
  assumes "Refresh sy c t s = (Inr (acc, sess), s1)" and "tx_pool s = []" and "reach sy s1 s2"
  shows "Refresh sy c' t s2 \<noteq> (Inr (acc', sess'), s3)"
proof (rule dead_refused)
  show "dead (coreAuthSHA256 sy t) (tx_db s2)" using dying.reach_related [OF assms(3)] rotated_dead [OF assms(1,2)] by blast
  show "tx_pool s2 = []"
    using reach_idle [OF assms(3)] quiet_requests(1) [of sy c t] assms(1,2) unfolding quiet_def by (metis snd_conv)
qed

theorem refresh_token_single_use_witness:
  "\<exists>acc sess s1. Refresh sample_sys (sample_ctx 5) ''rt'' (sample_state sample_db) = (Inr (acc, sess), s1)
     \<and> (\<forall>acc' sess' s3. Refresh sample_sys (sample_ctx 9) ''rt'' (serve sample_sys (SignOutReq (sample_ctx 7) ''s'' False) s1) \<noteq> (Inr (acc', sess'), s3))"
proof -
  obtain acc sess s1 where run: "Refresh sample_sys (sample_ctx 5) ''rt'' (sample_state sample_db) = (Inr (acc, sess), s1)"
    using sample_refresh_ok by (auto split: sum.splits prod.splits) (metis prod.collapse)
  have "reach sample_sys s1 (serve sample_sys (SignOutReq (sample_ctx 7) ''s'' False) s1)" by (rule reach.step [OF reach.start])
  from refresh_token_single_use [OF run sample_state_idle(1) this] run show ?thesis by blast
qed



text \<open>C12: a challenge signs in once. After a one-time code has been accepted, no later request verifies its
  challenge, as a one-time code or as a second factor, whatever requests of a run, of whichever of the
  thirty-five kinds, the server has handled in between.\<close>

theorem one_time_code_single_use:
  assumes "VerifyOTP sy c i code s = (Inr (acc, sess), s1)" and "tx_pool s = []" and "reach sy s1 s2"
  shows "fst (VerifyOTP sy' c' i code' s2) \<noteq> Inr x \<and> fst (mfa_Verify sy' c' i code' s2) = Inl ErrChallengeInvalid"
proof -
  obtain row e where "find (\<lambda>r. ch_id r = i) (db_challenges (tx_db s)) = Some row" "db_challenges (tx_db s1) = spend e i (db_challenges (tx_db s))"
    by (rule VerifyOTP_Inr [OF assms(1,2)])
  then have "spent i (tx_db s1)" using find_spent [of i "db_challenges (tx_db s)" row e] by (auto simp: spent_def)
  then have "spent i (tx_db s2)" using closing.reach_related [OF assms(3)] by blast
  then obtain r where r: "find (\<lambda>r. ch_id r = i) (db_challenges (tx_db s2)) = Some r" "ch_consumed r" by (auto simp: spent_def split: option.splits)
  show ?thesis using spent_code_refused [OF r] spent_challenge_refused [OF r] by blast
qed

theorem one_time_code_single_use_witness:
  "\<exists>acc sess s1. VerifyOTP sample_sys (sample_ctx 5) ''o'' ''123456'' (sample_state otp_db) = (Inr (acc, sess), s1)
     \<and> fst (VerifyOTP sample_sys (sample_ctx 9) ''o'' ''123456'' (serve sample_sys (VerifyOTPReq (sample_ctx 7) ''o'' ''654321'') s1)) \<noteq> Inr (acc, sess)"
proof -
  have "case fst (VerifyOTP sample_sys (sample_ctx 5) ''o'' ''123456'' (sample_state otp_db)) of Inr r \<Rightarrow> True | Inl _ \<Rightarrow> False"
    by code_simp
  then obtain acc sess s1 where run: "VerifyOTP sample_sys (sample_ctx 5) ''o'' ''123456'' (sample_state otp_db) = (Inr (acc, sess), s1)"
    by (cases "VerifyOTP sample_sys (sample_ctx 5) ''o'' ''123456'' (sample_state otp_db)") (auto split: sum.splits)
  have "reach sample_sys s1 (serve sample_sys (VerifyOTPReq (sample_ctx 7) ''o'' ''654321'') s1)" by (rule reach.step [OF reach.start])
  from one_time_code_single_use [OF run sample_state_idle(1) this] run show ?thesis by blast
qed

section \<open>A challenge is accepted once\<close>

text \<open>The requests that name a challenge by its id and succeed with it.\<close>

fun accepts :: "sys \<Rightarrow> string \<Rightarrow> request \<Rightarrow> txs \<Rightarrow> bool" where
  "accepts sy i (VerifyEmailReq c cmd) s = (vc_challenge_id cmd = i \<and> \<not> isl (fst (VerifyEmail sy c cmd s)))"
| "accepts sy i (VerifyPhoneReq c cmd) s = (vc_challenge_id cmd = i \<and> \<not> isl (fst (VerifyPhone sy c cmd s)))"
| "accepts sy i (EmailChangeReq c cmd) s = (vc_challenge_id cmd = i \<and> \<not> isl (fst (VerifyEmailChange sy c cmd s)))"
| "accepts sy i (PhoneChangeReq c cmd) s = (vc_challenge_id cmd = i \<and> \<not> isl (fst (VerifyPhoneChange sy c cmd s)))"
| "accepts sy i (ResetPasswordReq c cmd) s = (rs_challenge_id cmd = i \<and> \<not> isl (fst (ResetPassword sy c cmd s)))"
| "accepts sy i (FactorVerifyReq c j code) s = (j = i \<and> \<not> isl (fst (mfa_Verify sy c j code s)))"
| "accepts sy i (VerifyOTPReq c j code) s = (j = i \<and> \<not> isl (fst (VerifyOTP sy c j code s)))"
| "accepts sy i _ s = False"

fun acceptances :: "sys \<Rightarrow> string \<Rightarrow> request list \<Rightarrow> txs \<Rightarrow> nat" where
  "acceptances sy i [] s = 0"
| "acceptances sy i (rq # rqs) s = (if accepts sy i rq s then 1 else 0) + acceptances sy i rqs (serve sy rq s)"

lemma consumed_spent:
  assumes "withTx (tx_bind (coreAuthConsumeChallenge sy c pid cmd ty) f) s = (Inr x, s')" and "tx_pool s = []"
    and "vc_challenge_id cmd = i" and "i \<noteq> []"
    and "\<And>data. within (\<lambda>d d'. spent i d \<longrightarrow> spent i d') (f data)"
    and "pooled guarded_tables (tx_bind (coreAuthConsumeChallenge sy c pid cmd ty) f)"
  shows "\<not> spent i (tx_db s) \<and> spent i (tx_db s')"
proof -
  let ?m = "tx_bind (coreAuthConsumeChallenge sy c pid cmd ty) f"
  obtain s1 where m: "?m s = (Inr x, s1)" and s': "tx_db s' = apply_pool (tx_pool s1) (tx_db s1)"
    using assms(1,2) by (cases "?m s"; cases "fst (?m s)") (auto simp: withTx_idle)
  obtain data s2 where con: "coreAuthConsumeChallenge sy c pid cmd ty s = (Inr data, s2)" and f: "f data s2 = (Inr x, s1)"
    using m by (rule tx_bindE)
  from con obtain row where row: "consumable sy c pid cmd ty row data" "find (\<lambda>r. ch_id r = i) (db_challenges (tx_db s)) = Some row"
    and tab: "db_challenges (tx_db s2) = update_where (\<lambda>r. ch_id r = ch_id row) (\<lambda>r. r\<lparr>ch_consumed := True\<rparr>) (db_challenges (tx_db s))"
    by (rule coreAuthConsumeChallenge_Inr) (use assms(3,4) in blast)
  have "ch_id row = i" using find_set [OF row(2)] by simp
  then have "spent i (tx_db s2)" using row(2) tab by (simp add: spent_def find_updated)
  then have "spent i (tx_db s1)" using closing.relatedD [OF assms(5) [of data], of s2] f by simp
  moreover have "guarded_tables (apply_pool (tx_pool s1) d) = guarded_tables d" for d
    using pooledD [OF assms(6) m] assms(2) by (metis append_Nil)
  ultimately have "spent i (tx_db s')" using s' by (simp add: spent_def guarded_tables_def)
  moreover have "\<not> spent i (tx_db s)" using row by (simp add: spent_def consumable_defs)
  ultimately show ?thesis by blast
qed

lemma consumption_spends:
  assumes "tx_pool s = []" and "i \<noteq> []"
  shows "VerifyEmail sy c cmd s = (Inr x, s') \<Longrightarrow> vc_challenge_id cmd = i \<Longrightarrow> \<not> spent i (tx_db s) \<and> spent i (tx_db s')"
    and "VerifyPhone sy c cmd s = (Inr x, s') \<Longrightarrow> vc_challenge_id cmd = i \<Longrightarrow> \<not> spent i (tx_db s) \<and> spent i (tx_db s')"
    and "VerifyEmailChange sy c cmd s = (Inr a, s') \<Longrightarrow> vc_challenge_id cmd = i \<Longrightarrow> \<not> spent i (tx_db s) \<and> spent i (tx_db s')"
    and "VerifyPhoneChange sy c cmd s = (Inr a, s') \<Longrightarrow> vc_challenge_id cmd = i \<Longrightarrow> \<not> spent i (tx_db s) \<and> spent i (tx_db s')"
    and "ResetPassword sy c rcmd s = (Inr x, s') \<Longrightarrow> rs_challenge_id rcmd = i \<Longrightarrow> \<not> spent i (tx_db s) \<and> spent i (tx_db s')"
proof -
  show "\<not> spent i (tx_db s) \<and> spent i (tx_db s')" if "VerifyEmail sy c cmd s = (Inr x, s')" "vc_challenge_id cmd = i"
    by (rule consumed_spent [OF that(1) [unfolded VerifyEmail_def] assms(1) that(2) assms(2)]) (auto intro!: pooled_parts(2))
  show "\<not> spent i (tx_db s) \<and> spent i (tx_db s')" if "VerifyPhone sy c cmd s = (Inr x, s')" "vc_challenge_id cmd = i"
    by (rule consumed_spent [OF that(1) [unfolded VerifyPhone_def] assms(1) that(2) assms(2)]) (auto intro!: pooled_parts(2))
  show "\<not> spent i (tx_db s) \<and> spent i (tx_db s')" if "VerifyEmailChange sy c cmd s = (Inr a, s')" "vc_challenge_id cmd = i"
    by (rule consumed_spent [OF that(1) [unfolded VerifyEmailChange_def Let_def] assms(1) that(2) assms(2)]) (auto intro!: pooled_quiet)
  show "\<not> spent i (tx_db s) \<and> spent i (tx_db s')" if "VerifyPhoneChange sy c cmd s = (Inr a, s')" "vc_challenge_id cmd = i"
    by (rule consumed_spent [OF that(1) [unfolded VerifyPhoneChange_def Let_def] assms(1) that(2) assms(2)]) (auto intro!: pooled_quiet)
  assume reset: "ResetPassword sy c rcmd s = (Inr x, s')" "rs_challenge_id rcmd = i"
  then have "trim_space (rs_new_password rcmd) \<noteq> []" by (auto simp: ResetPassword_def)
  with reset show "\<not> spent i (tx_db s) \<and> spent i (tx_db s')"
    by (intro consumed_spent [OF reset(1) [unfolded ResetPassword_def if_not_P [OF \<open>trim_space (rs_new_password rcmd) \<noteq> []\<close>]] assms(1) _ assms(2)])
       (auto intro!: pooled_parts(2))
qed

lemma spentE:
  assumes "spent i d"
  obtains row where "find (\<lambda>r. ch_id r = i) (db_challenges d) = Some row" and "ch_consumed row"
  using assms by (auto simp: spent_def split: option.splits)

lemma factor_spends:
  assumes "mfa_Verify sy c i code s = (Inr x, s')" and "tx_pool s = []"
  shows "\<not> spent i (tx_db s) \<and> spent i (tx_db s')"
proof -
  obtain acc sess where x: "x = (acc, sess)" by (cases x)
  obtain row data s1 where row: "find (\<lambda>r. ch_id r = i) (db_challenges (tx_db s)) = Some row" "\<not> ch_consumed row"
    and m: "mfaMintSession sy c acc (s\<lparr>tx_db := db_challenges_update (update_where (\<lambda>r. ch_id r = i) (\<lambda>r. r\<lparr>ch_consumed := True\<rparr>)) (tx_db s)\<rparr>)
           = (Inr sess, s1)"
    and em: "Emit sy c ''mfa.challenge.verified'' (ch_project_id row) mfaDefaultEnv i (PSession sess) s1 = (Inr (), s')"
    using assms by (auto simp: x elim: mfa_Verify_Inr)
  have "spent i (db_challenges_update (update_where (\<lambda>r. ch_id r = i) (\<lambda>r. r\<lparr>ch_consumed := True\<rparr>)) (tx_db s))"
    using row(1) find_set [OF row(1)] by (simp add: spent_def find_updated)
  then have "spent i (tx_db s1)" using closing.relatedD [OF closing.related_mfa_reads(15), of i] m by (metis snd_conv txs.select_convs(1) txs.surjective txs.update_convs(1))
  then have "spent i (tx_db s')" using closing.relatedD [OF closing.related_steps(1), of i s1] em by (metis snd_conv)
  then show ?thesis using row by (simp add: spent_def)
qed

lemma code_spends:
  assumes "VerifyOTP sy c i code s = (Inr x, s')" and "tx_pool s = []"
  shows "\<not> spent i (tx_db s) \<and> spent i (tx_db s')"
proof -
  obtain acc sess where x: "x = (acc, sess)" by (cases x)
  obtain row e where row: "find (\<lambda>r. ch_id r = i) (db_challenges (tx_db s)) = Some row" "db_challenges (tx_db s') = spend e i (db_challenges (tx_db s))"
    by (rule VerifyOTP_Inr [OF assms [unfolded x]])
  have "\<not> spent i (tx_db s)" using assms(1) spent_code_refused by (metis fst_conv spentE)
  moreover have "spent i (tx_db s')" using find_spent [OF row(1), of e] row(2) by (auto simp: spent_def)
  ultimately show ?thesis by blast
qed

lemma not_isl_run: "\<not> isl (fst (m s)) \<longleftrightarrow> (\<exists>x. m s = (Inr x, snd (m s)))" for m :: "'a tx"
  by (cases "m s"; cases "fst (m s)") auto

lemma accepted_spends:
  assumes "accepts sy i rq s" and "tx_pool s = []" and "i \<noteq> []"
  shows "\<not> spent i (tx_db s) \<and> spent i (tx_db (serve sy rq s))"
proof (cases rq)
  case (VerifyEmailReq c cmd)
  then show ?thesis using assms(1) consumption_spends(1) [OF assms(2,3), of sy c cmd] by (auto simp: not_isl_run)
next
  case (VerifyPhoneReq c cmd)
  then show ?thesis using assms(1) consumption_spends(2) [OF assms(2,3), of sy c cmd] by (auto simp: not_isl_run)
next
  case (EmailChangeReq c cmd)
  then show ?thesis using assms(1) consumption_spends(3) [OF assms(2,3), of sy c cmd] by (auto simp: not_isl_run)
next
  case (PhoneChangeReq c cmd)
  then show ?thesis using assms(1) consumption_spends(4) [OF assms(2,3), of sy c cmd] by (auto simp: not_isl_run)
next
  case (ResetPasswordReq c cmd)
  then show ?thesis using assms(1) consumption_spends(5) [OF assms(2,3), of sy c cmd] by (auto simp: not_isl_run)
next
  case (FactorVerifyReq c j code)
  then show ?thesis using assms(1) factor_spends [OF _ assms(2), of sy c i code] by (auto simp: not_isl_run)
next
  case (VerifyOTPReq c j code)
  then show ?thesis using assms(1) code_spends [OF _ assms(2), of sy c i code] by (auto simp: not_isl_run)
qed (use assms(1) in simp_all)

text \<open>C13: a challenge is accepted at most once. In any series of the thirty-five kinds of requests of a run, at whatever
  instants and with whatever contexts, at most one of those that name a given challenge by its (nonempty) id
  succeeds: an e-mail or phone verification, a change of e-mail or phone, a password reset, a second factor or a
  one-time code; none does if the challenge was spent before. (A recovery code presents a flow token, which it does
  not spend, and is not one of them.)\<close>

theorem challenge_single_use:
  assumes "tx_pool s = []" and "i \<noteq> []"
  shows "acceptances sy i rqs s \<le> (if spent i (tx_db s) then 0 else 1)"
  using assms(1)
proof (induction rqs arbitrary: s)
  case (Cons rq rqs)
  have "spent i (tx_db s) \<longrightarrow> spent i (tx_db (serve sy rq s))" by (rule closing.serve_related)
  with accepted_spends [OF _ Cons.prems assms(2), of sy rq] Cons.IH [of "serve sy rq s"] Cons.prems
  show ?case by (auto simp: serve_idle split: if_splits)
qed simp

definition reset_requests :: "request list" where
  "reset_requests = [ResetPasswordReq (sample_ctx 5) sample_reset, SignOutAllReq (sample_ctx 7) ''alice'' [],
     ResetPasswordReq (sample_ctx 8) sample_reset]"

theorem challenge_single_use_witness: "acceptances sample_sys ''c1'' reset_requests (sample_state challenge_db) = 1"
proof -
  have "\<not> isl (fst (ResetPassword sample_sys (sample_ctx 5) sample_reset (sample_state challenge_db)))" by code_simp
  then have "accepts sample_sys ''c1'' (ResetPasswordReq (sample_ctx 5) sample_reset) (sample_state challenge_db)"
    by (simp add: sample_reset_def)
  then have "1 \<le> acceptances sample_sys ''c1'' reset_requests (sample_state challenge_db)" by (simp add: reset_requests_def del: accepts.simps serve.simps)
  moreover have "acceptances sample_sys ''c1'' reset_requests (sample_state challenge_db) \<le> 1"
    using challenge_single_use [OF sample_state_idle(1), of "''c1''" sample_sys reset_requests challenge_db]
    by (cases "spent ''c1'' (tx_db (sample_state challenge_db))") (simp_all del: sample_state_idle)
  ultimately show ?thesis by simp
qed

section \<open>The invariant of every run\<close>

text \<open>\<open>preserves m\<close>: when \<open>m\<close> returns a value it keeps the invariant of the session tables.\<close>

definition preserves :: "'a tx \<Rightarrow> bool" where
  "preserves m \<longleftrightarrow> (\<forall>s x s'. m s = (Inr x, s') \<longrightarrow> sessions_wf (tx_db s) \<longrightarrow> sessions_wf (tx_db s'))"

lemma preservesD: "preserves m \<Longrightarrow> m s = (Inr x, s') \<Longrightarrow> sessions_wf (tx_db s) \<Longrightarrow> sessions_wf (tx_db s')"
  by (simp add: preserves_def)

lemma preserves_bind [intro!]: "preserves m \<Longrightarrow> (\<And>x. preserves (f x)) \<Longrightarrow> preserves (tx_bind m f)"
  unfolding preserves_def by (fastforce simp: res_simps)

lemma preserves_basic [intro!]: "preserves (ret x)" "preserves (throw e)" "preserves (query q)" "preserves (Pair r)"
  by (auto simp: preserves_def)

lemma preserves_keeps: "keeps wf_tables m \<Longrightarrow> preserves m"
  unfolding preserves_def
proof (intro allI impI)
  fix s x s' assume k: "keeps wf_tables m" "m s = (Inr x, s')" "sessions_wf (tx_db s)"
  from keepsD [OF k(1,2)] have "wf_tables (tx_db s') = wf_tables (tx_db s)" .
  with k(3) show "sessions_wf (tx_db s')" using sessions_wf_tables [of "tx_db s'" "tx_db s"] by (simp add: wf_tables_def)
qed

text \<open>A request is sound when it keeps the invariant whatever it answers.\<close>

definition sound :: "'a tx \<Rightarrow> bool" where
  "sound m \<longleftrightarrow> (\<forall>s. tx_pool s = [] \<longrightarrow> sessions_wf (tx_db s) \<longrightarrow> sessions_wf (tx_db (snd (m s))))"

lemma sound_withTx [intro!]:
  assumes "preserves m" and "pooled wf_tables m"
  shows "sound (withTx m)"
  unfolding sound_def
proof (intro allI impI)
  fix s :: txs assume s: "tx_pool s = []" "sessions_wf (tx_db s)"
  obtain r s' where m: "m s = (r, s')" by (cases "m s")
  obtain ws where ws: "tx_pool s' = ws" "\<And>d. wf_tables (apply_pool ws d) = wf_tables d"
    using pooledD [OF assms(2) m] s(1) by auto
  have pool: "sessions_wf (apply_pool ws d) = sessions_wf d" for d
    using ws(2) [of d] sessions_wf_tables [of "apply_pool ws d" d] by (simp add: wf_tables_def)
  show "sessions_wf (tx_db (snd (withTx m s)))"
    using m s ws(1) pool preservesD [OF assms(1), of s _ s'] by (cases r) (simp_all add: withTx_idle)
qed

lemma sound_keeps: "keeps wf_tables m \<Longrightarrow> sound m"
  unfolding sound_def
proof (intro allI impI)
  fix s :: txs assume "keeps wf_tables m" and s: "tx_pool s = []" "sessions_wf (tx_db s)"
  then have "wf_tables (tx_db (snd (m s))) = wf_tables (tx_db s)" by (simp add: keeps_def within_def)
  then show "sessions_wf (tx_db (snd (m s)))"
    using s(2) sessions_wf_tables [of "tx_db (snd (m s))" "tx_db s"] by (simp add: wf_tables_def)
qed

lemma sound_bind:
  assumes "sound m" and "quiet m" and "\<And>x. sound (f x)"
  shows "sound (tx_bind m f)"
  unfolding sound_def
proof (intro allI impI)
  fix s :: txs assume s: "tx_pool s = []" "sessions_wf (tx_db s)"
  obtain r s' where m: "m s = (r, s')" by (cases "m s")
  have "tx_pool s' = []" using assms(2) m s(1) unfolding quiet_def by (metis snd_conv)
  moreover have "sessions_wf (tx_db s')" using assms(1) m s unfolding sound_def by (metis snd_conv)
  ultimately show "sessions_wf (tx_db (snd (tx_bind m f s)))"
    using m assms(3) by (cases r) (simp_all add: sound_def tx_bind_def)
qed

lemma sound_basic [intro!]: "sound (ret x)" "sound (throw e)" by (simp_all add: sound_def)

lemma preserves_handle:
  assumes "keeps wf_tables m" and "\<And>e. preserves (g e)" and "\<And>x. preserves (f x)"
  shows "preserves (tx_handle m g f)"
  unfolding preserves_def
proof (intro allI impI)
  fix s y s' assume run: "tx_handle m g f s = (Inr y, s')" and wf: "sessions_wf (tx_db s)"
  obtain r s1 where m: "m s = (r, s1)" by (cases "m s")
  have "sessions_wf (tx_db s1)"
    using keepsD [OF assms(1) m] wf sessions_wf_tables [of "tx_db s1" "tx_db s"] by (simp add: wf_tables_def)
  then show "sessions_wf (tx_db s')"
    using run m preservesD [OF assms(2)] preservesD [OF assms(3)] by (cases r) (auto simp: tx_handle_def)
qed

lemma preserves_Emit [intro!]: "preserves (Emit sy c t pid e a pl)"
  unfolding preserves_def
proof (intro allI impI)
  fix s x s' assume "Emit sy c t pid e a pl s = (Inr x, s')" and wf: "sessions_wf (tx_db s)"
  from keepsD [OF keeps_Emit_created [OF linked_tables_frame] this(1)] wf show "sessions_wf (tx_db s')"
    using sessions_wf_linked by blast
qed

lemma preserves_mint [intro!]: "preserves (coreAuthMintSession sy c acc cl amr aal)"
  by (auto simp: preserves_def intro: coreAuthMintSession_wf)

lemma preserves_refresh: "preserves (coreAuthRefreshInTx sy c h)"
  by (auto simp: preserves_def intro: coreAuthRefreshInTx_wf)

lemma preserves_sign_out [intro!]: "preserves (coreAuthSignOutAll sy c pid u ex)"
  unfolding preserves_def
proof (intro allI impI)
  fix s x s' assume "coreAuthSignOutAll sy c pid u ex s = (Inr x, s')" and wf: "sessions_wf (tx_db s)"
  then show "sessions_wf (tx_db s')" using coreAuthSignOutAll_revokes [OF wf, of sy c pid u ex] by auto
qed

lemma preserves_revoke [intro!]: "preserves (coreAuthRevokeSession sy c pid i)"
  unfolding preserves_def
proof (intro allI impI)
  fix s x s' assume run: "coreAuthRevokeSession sy c pid i s = (Inr x, s')" and wf: "sessions_wf (tx_db s)"
  obtain row where "row \<in> set (db_sessions (tx_db s))" "revokeSessionRecord sy c row s = (Inr (), s')"
    using run by (auto simp: coreAuthRevokeSession_def FindIamSession_def res_simps split: option.splits if_splits dest!: find_set)
  then show "sessions_wf (tx_db s')" using revokeSessionRecord_revokes [OF wf, of row sy c] by auto
qed

lemma preserves_update_account [intro!]: "preserves (coreAuthUpdateAccount sy c acc)"
proof -
  have ex: "preserves (exec (db_users_update (update_where (\<lambda>r. u_id r = u_id row) (\<lambda>_. row'))))"
    if "user_ok row'" "u_id row' = u_id row" for row row'
    using that by (auto simp: preserves_def sessions_wf_def list_all_iff set_update_where map_key_update_where)
  have ok: "user_ok (sync_user a row)" "u_id (sync_user a row) = u_id row" if "u_id row = acc_id a" "u_project_id row = acc_project_id a" for a row
    using that by (simp_all add: sync_user_def user_ok_def)
  show ?thesis unfolding preserves_def
  proof (intro allI impI)
    fix s x s' assume run: "coreAuthUpdateAccount sy c acc s = (Inr x, s')" and wf: "sessions_wf (tx_db s)"
    obtain row s0 s1 where row: "FindIamUser ErrNotFound (acc_id acc) s = (Inr row, s0)"
      and p: "u_project_id row = acc_project_id acc"
      and e: "exec (db_users_update (update_where (\<lambda>r. u_id r = u_id row) (\<lambda>_. sync_user (acc\<lparr>acc_updated_at := cx_now c\<rparr>) row))) s0 = (Inr (), s1)"
      and em: "Emit sy c ''user.updated'' (acc_project_id acc) coreAuthDefaultEnv (acc_id acc) (PAccount (acc\<lparr>acc_updated_at := cx_now c\<rparr>)) s1 = (Inr (), s')"
      using run unfolding coreAuthUpdateAccount_def Let_def by (auto simp: res_simps split: if_splits)
    have "s0 = s" "u_id row = acc_id acc" using row by (auto simp: FindIamUser_def res_simps split: option.splits dest!: find_set)
    then have "sessions_wf (tx_db s1)" using preservesD [OF ex [OF ok] e] ok p wf by simp
    then show "sessions_wf (tx_db s')" using preservesD [OF preserves_Emit em] by simp
  qed
qed

lemma preserves_steps [intro!]:
  "preserves (newUUID sy)" "preserves (effectiveEnv sy c pid)" "preserves (FindIamUser er i)"
  "preserves (FindIamSession er i)" "preserves (coreAuthLoadAccount ur pid)" "preserves (unmarshal v)" "preserves (lift_res r)"
  "preserves (coreAuthConsumeChallenge sy c pid cmd ty)" "preserves (coreAuthFindUserByEmail sy c pid email)"
  "preserves (coreAuthFindUserByPhone sy c pid ph)" "preserves (coreAuthInsertChallenge sy c ch)" "preserves (coreAuthRandomCode sy)"
  "preserves (coreAuthSafeRedirect sy c pid to)" "preserves (coreAuthFindChallengeByTokenAnyProject sy ty tk)" "preserves (mark_consumed row)"
  "preserves (coreAuthEnforcePasswordPolicy sy c pid pw)" "preserves (coreAuthHashPassword sy pw)"
  "preserves (coreAuthUpsertPasswordCredential sy c pid u hs)" "preserves (coreAuthFindPasswordCredential sy c pid u)"
  "preserves (coreAuthLoadResetTargetAccount sy c pid a pw)" "preserves (issue_reset sy c fcmd acc)"
  "preserves (securityAccountGuard sy c pid a)" "preserves (coreAuthLoadValidAuthCode sy c hs vf)"
  by (rule preserves_keeps; (unfold challenge_defs coreAuthLoadValidAuthCode_def Let_def)?; auto simp: wf_tables_def split: option.split)+


lemma preserves_link [intro!]: "preserves (verified_by_link sy c data)"
  unfolding verified_by_link_def by (rule preserves_handle) (auto simp: coreAuthFindUserByEmail_def split: option.split)

lemma preserves_code_exec [intro!]: "preserves (exec (db_codes_update g))"
  by (rule preserves_keeps) (auto simp: wf_tables_def)

lemma preserves_guest [intro!]:
  "user_ok u \<Longrightarrow> preserves (insert_row db_users db_users_update u_id u)"
  by (auto simp: preserves_def insert_row_Inr sessions_wf_def)

lemma preserves_relink [intro!]: "preserves (exec (db_sessions_update (update_where q (\<lambda>r. r\<lparr>s_device_id := g\<rparr>))))"
  unfolding preserves_def using sessions_wf_linked [OF linked_tables_frame(3)] by simp

lemma preserves_revoke_sessions [intro!]: "preserves (revoke_sessions sy c w is)"
  by (induction "is") (auto simp: revokeSession_def)

lemma preserves_device_steps [intro!]:
  "preserves (load_device w i)" "preserves (save_device w i v)" "preserves (security_emit sy c w t a pl)"
  "preserves (trustDevice sy c w v tok)" "preserves (deviceSessionIDs w i)" "preserves (throttle sy c w sb k l dur)"
  "preserves (insert_unique db_devices db_devices_update cl r e)" "preserves (accountRandomToken sy)"
  by (rule preserves_keeps;
      auto simp: load_device_def save_device_def security_emit_def trustDevice_def loadFlow_def saveFlow_def deviceSessionIDs_def
        insert_unique_def wf_tables_def Let_def split: option.split)+

lemma preserves_password [intro!]: "preserves (password_sign_in sy c pid email pw)"
proof -
  have fl: "keeps wf_tables (recordFailure sy c p a k)" for p a k unfolding recordFailure_def Let_def by (auto simp: keeps_pool_exec)
  have fa: "keeps wf_tables (active_factors rows)" for rows by (induction rows) (auto simp: mfaFactorFromRow_def)
  have
    "preserves (coreAuthLoadPasswordCredential sy c pid email)" "preserves (coreAuthVerifyPassword sy c cred v pw)"
    "preserves (evaluateSignInRisk sy c p e a n)" "preserves (coreAuthActiveFactors a)" for cred v p e a n
    unfolding coreAuthVerifyPassword_def coreAuthRecordLoginFailure_def coreAuthClearLoginFailures_def
      coreAuthPersistCredentialLock_def coreAuthActiveFactors_def evaluateSignInRisk_def
      ListRules_def signInSignals_def sessionSeen_def recordRiskEvent_def coreAuthLoadPasswordCredential_def Let_def
    by (rule preserves_keeps; auto simp: fl fa keeps_pool_exec challenge_defs split: sum.split prod.split option.split)+
  then show ?thesis unfolding password_sign_in_def coreAuthCompletePasswordSignIn_def Let_def by (auto split: sum.split prod.split)
qed


lemma sound_steps [intro!]:
  "sound (lift_res r)" "sound (query q)" "sound (effectiveEnv sy c pid)" "sound (security_scope sy c v)"
  "sound (newCoreAuthChallenge sy c scmd ty p)" "sound (mfaAccountFromFlow c pid t)" "sound (list_factors rows)"
proof -
  show "sound (newCoreAuthChallenge sy c scmd ty p)"
    by (rule sound_keeps) (auto simp: newCoreAuthChallenge_def coreAuthRandomCode_def)
  have "keeps wf_tables (list_factors rows)" by (induction rows) auto
  then show "sound (list_factors rows)" by (rule sound_keeps)
qed (rule sound_keeps; auto)+

lemma soundD: "sound m \<Longrightarrow> tx_pool s = [] \<Longrightarrow> sessions_wf (tx_db s) \<Longrightarrow> sessions_wf (tx_db (snd (m s)))"
  by (simp add: sound_def)

lemma sound_requests:
  "sound (Refresh sy c t)" "sound (SignOut sy c i ev)" "sound (SignOutAll sy c a ex)" "sound (ExchangeCode sy c code vf)"
  "sound (CreateGuest sy c pid)" "sound (AuthenticatePassword sy c pid email pw)"
  "sound (coreAuthStartChallenge sy c scmd ty p)" "sound (VerifyEmail sy c cmd)"
  "sound (VerifyEmailCallback sy c t to)" "sound (VerifyPhone sy c cmd)"
proof -
  show "sound (Refresh sy c t)"
    by (auto simp: Refresh_def intro!: sound_bind preserves_refresh pooled_quiet)
  show "sound (SignOut sy c i ev)" by (auto simp: SignOut_def intro!: pooled_quiet)
  show "sound (SignOutAll sy c a ex)" by (auto simp: SignOutAll_def intro!: pooled_quiet)
  show "sound (ExchangeCode sy c code vf)"
    by (auto simp: ExchangeCode_def coreAuthLoadValidAuthCode_def intro!: preserves_code_exec pooled_parts(1) split: option.split)
  show "sound (CreateGuest sy c pid)"
    by (auto simp: CreateGuest_def Let_def user_ok_def intro!: sound_bind pooled_parts(1))
  show "sound (AuthenticatePassword sy c pid email pw)" by (auto simp: AuthenticatePassword_def intro!: pooled_parts(1))
  show "sound (coreAuthStartChallenge sy c scmd ty p)"
    by (auto simp: coreAuthStartChallenge_def Let_def intro!: pooled_quiet sound_bind)
  show "sound (VerifyEmail sy c cmd)" by (auto simp: VerifyEmail_def intro!: pooled_parts(1))
  show "sound (VerifyEmailCallback sy c t to)" by (auto simp: VerifyEmailCallback_def intro!: pooled_quiet)
  show "sound (VerifyPhone sy c cmd)" by (auto simp: VerifyPhone_def intro!: pooled_parts(1))
qed

lemma sound_account_requests:
  "sound (VerifyEmailChange sy c cmd)" "sound (VerifyPhoneChange sy c cmd)" "sound (CancelEmailChange sy c t)"
  "sound (ForgotPassword sy c fcmd)" "sound (ResetPassword sy c rcmd)" "sound (ChangePassword sy c ccmd)"
  "sound (StepUp sy c ucmd)" "sound (RegisterDevice sy c v name)" "sound (UpdateDevice sy c v i act name tok)"
proof -
  show "sound (VerifyEmailChange sy c cmd)" by (auto simp: VerifyEmailChange_def Let_def intro!: pooled_quiet)
  show "sound (VerifyPhoneChange sy c cmd)" by (auto simp: VerifyPhoneChange_def Let_def intro!: pooled_quiet)
  show "sound (CancelEmailChange sy c t)" by (auto simp: CancelEmailChange_def intro!: pooled_quiet)
  have "preserves (tx_handle (coreAuthFindUserByEmail sy c p em) g f)" if "\<And>e. preserves (g e)" "\<And>x. preserves (f x)"
    for p em and g :: "error \<Rightarrow> unit tx" and f
    using that by (intro preserves_handle) (auto simp: coreAuthFindUserByEmail_def split: option.split)
  note found = this
  show "sound (ForgotPassword sy c fcmd)" by (auto simp: ForgotPassword_def intro!: pooled_quiet found)
  show "sound (ResetPassword sy c rcmd)" by (auto simp: ResetPassword_def intro!: pooled_parts(1))
  show "sound (ChangePassword sy c ccmd)" by (auto simp: ChangePassword_def intro!: pooled_quiet)
  show "sound (StepUp sy c ucmd)" by (auto simp: StepUp_def Let_def intro!: pooled_quiet)
  have "quiet (throttle sy c w sb k l d)" "quiet (insert_unique gt up cl r e)" for w sb k l d and gt :: "db \<Rightarrow> device_row list" and up cl r e
    by (auto simp: throttle_def insert_unique_def Let_def split: option.split)
  then show "sound (RegisterDevice sy c v name)"
    by (auto simp: RegisterDevice_def Let_def intro!: sound_bind pooled_quiet)
  have "quiet (trustDevice sy c w dv tk)" for w dv tk
    by (auto simp: trustDevice_def loadFlow_def saveFlow_def Let_def split: option.split)
  then show "sound (UpdateDevice sy c v i act name tok)"
    by (auto simp: UpdateDevice_def device_action_def Let_def case_prod_beta intro!: sound_bind pooled_quiet)
qed

lemma preserves_mfa [intro!]:
  "preserves (mfaLoadAccount pid a)" "preserves (mfaMintSession sy c acc)" "preserves (mfaConsumeChallenge row)"
  "preserves (mfaVerifyChallengeCode sy c i code)" "preserves (mfaAccountFromFlow c pid t)" "preserves (exec (db_recovery_update g))"
proof -
  show "preserves (mfaMintSession sy c acc)" by (auto simp: mfaMintSession_def)
  show "preserves (mfaConsumeChallenge row)" by (auto simp: mfaConsumeChallenge_def)
  show "preserves (mfaVerifyChallengeCode sy c i code)" unfolding preserves_def
  proof (intro allI impI)
    fix s x s' assume run: "mfaVerifyChallengeCode sy c i code s = (Inr x, s')" and wf: "sessions_wf (tx_db s)"
    show "sessions_wf (tx_db s')" by (rule mfaVerifyChallengeCode_cases [OF run, of wf_tables]) (use wf in \<open>auto simp: wf_tables_def\<close>)
  qed
qed (rule preserves_keeps; auto simp: wf_tables_def)+

lemma keeps_wf_mfa [intro!]:
  "keeps wf_tables (mfaInsertFactorFor sy c pid a f secret)" "keeps wf_tables (mfaInsertChallenge sy c pid a ch data)"
  "keeps wf_tables (mint_recovery_codes sy c pid a n)" "keeps wf_tables (list_factors rows)" "keeps wf_tables (exec (db_factors_update g))"
  "keeps wf_tables (exec (db_recovery_update k))"
proof -
  show "keeps wf_tables (mint_recovery_codes sy c pid a n)" by (induction n) (auto simp: wf_tables_def)
  show "keeps wf_tables (list_factors rows)" by (induction rows) auto
qed (auto simp: mfaInsertFactorFor_def insert_unique_def mfaInsertChallenge_def wf_tables_def)

lemma quiet_mfa_writes [intro!]:
  "quiet (mfaInsertFactorFor sy c pid a f secret)" "quiet (mfaInsertChallenge sy c pid a ch data)" "quiet (mint_recovery_codes sy c pid a n)"
proof -
  show "quiet (mint_recovery_codes sy c pid a n)" by (induction n) auto
qed (auto simp: mfaInsertFactorFor_def insert_unique_def mfaInsertChallenge_def)

lemma sound_mfa_requests:
  "sound (mfa_Challenge sy c a i)" "sound (PostV1AuthSignInPassword sy c pid email pw)" "sound (ChallengeWithFlow sy c pid t i)"
  "sound (mfa_Verify sy c i code)" "sound (EnrollTOTP sy c a)" "sound (EnrollEmail sy c a email)" "sound (EnrollSMS sy c a ph)"
  "sound (VerifyTOTP sy c a i code)" "sound (RemoveFactor sy c a i)" "sound (GenerateRecoveryCodes sy c a)" "sound (VerifyRecoveryCode sy c vcmd)"
proof -
  show ch: "sound (mfa_Challenge sy c a i)" for a i
    unfolding mfa_Challenge_def Let_def by (intro sound_withTx preserves_keeps pooled_quiet) auto
  show "sound (PostV1AuthSignInPassword sy c pid email pw)"
    using ch by (auto simp: PostV1AuthSignInPassword_def intro!: sound_bind sound_requests quiet_requests)
  show "sound (ChallengeWithFlow sy c pid t i)"
    using ch by (auto simp: ChallengeWithFlow_def ListFactors_def intro!: sound_bind)
  have "pooled wf_tables (mfaVerifyChallengeCode sy c i code)"
  proof -
    have "pooled wf_tables (mfaBumpChallengeAttempts j data)" for j data
      by (auto simp: pooled_def mfaBumpChallengeAttempts_def wf_tables_def Let_def)
    moreover have "pooled wf_tables (recordFailure sy c p a k)" for p a k by (rule pooled_recordFailure) (auto simp: wf_tables_def)
    moreover have "pooled wf_tables (unmarshal v)" for v :: "mfaChallengeData option" by (rule pooled_quiet) auto
    moreover have "pooled wf_tables (mfaCheckChallengeCode sy c row a data code)" for row a data by (rule pooled_quiet) auto
    ultimately show ?thesis unfolding mfaVerifyChallengeCode_def Let_def by (auto split: option.split)
  qed
  moreover have "pooled wf_tables (mfaMintSession sy c acc)" for acc unfolding mfaMintSession_def by (simp add: pooled_mint)
  moreover have "pooled wf_tables (mfaConsumeChallenge row)" "pooled wf_tables (mfaLoadAccount p a)" "pooled wf_tables (Emit sy c t p e a pl)"
    for row t p e a pl by (rule pooled_quiet; auto)+
  ultimately show "sound (mfa_Verify sy c i code)" unfolding mfa_Verify_def by auto
  show "sound (EnrollTOTP sy c a)" unfolding EnrollTOTP_def Let_def by (intro sound_withTx preserves_keeps pooled_quiet) (auto split: prod.split)
  have "sound (mfaEnrollDelivery sy c a ty hint)" for ty hint
    unfolding mfaEnrollDelivery_def emitMFAEnrollEvents_def Let_def by (intro sound_withTx preserves_keeps pooled_quiet) auto
  then show "sound (EnrollEmail sy c a email)" "sound (EnrollSMS sy c a ph)"
    by (auto simp: EnrollEmail_def EnrollSMS_def intro!: sound_bind)
  show "sound (VerifyTOTP sy c a i code)"
    unfolding VerifyTOTP_def Let_def by (intro sound_withTx preserves_keeps pooled_quiet) (auto split: option.split)
  show "sound (RemoveFactor sy c a i)" unfolding RemoveFactor_def by (intro sound_withTx preserves_keeps pooled_quiet) auto
  show "sound (GenerateRecoveryCodes sy c a)" unfolding GenerateRecoveryCodes_def by (intro sound_withTx preserves_keeps pooled_quiet) auto
  show "sound (VerifyRecoveryCode sy c vcmd)"
    unfolding VerifyRecoveryCode_def by (auto simp: mfaMintSession_def intro!: pooled_mint intro: pooled_quiet split: option.split)
qed

lemma persist_wf:
  assumes "sessions_wf d" and "u \<in> set (db_users d)" and "u_data u = Some a" and "acc_id b = acc_id a" and "acc_project_id b = acc_project_id a"
  shows "sessions_wf (db_users_update (update_where (\<lambda>r. u_id r = acc_id b) (\<lambda>r. r\<lparr>u_data := Some b, u_updated_at := t\<rparr>)) d)"
proof -
  have u: "acc_id a = u_id u" "acc_project_id a = u_project_id u" and d: "distinct (map u_id (db_users d))"
    using assms(1-3) by (auto simp: sessions_wf_def list_all_iff user_ok_def)
  have "r = u" if "r \<in> set (db_users d)" "u_id r = acc_id b" for r
    using that assms(2,4) u(1) d by (auto simp: distinct_map dest: inj_onD)
  then have "\<forall>r \<in> set (db_users d). u_id r = acc_id b \<longrightarrow> u_project_id r = acc_project_id b" using assms(5) u(2) by simp
  then show ?thesis using assms(1)
    by (auto simp: sessions_wf_def list_all_iff set_update_where map_key_update_where user_ok_def)
qed

lemma persistAccount_wf:
  assumes "persistAccount sy c b s = (Inr x, s')" and wf: "sessions_wf (tx_db s)" and u: "u \<in> set (db_users (tx_db s))" "u_data u = Some a"
    and b: "acc_id b = acc_id a" "acc_project_id b = acc_project_id a"
  shows "sessions_wf (tx_db s')"
proof -
  obtain row s1 where row: "find (\<lambda>r. u_id r = acc_id b) (db_users (tx_db s)) = Some row"
    and s1: "s1 = s\<lparr>tx_db := db_users_update (update_where (\<lambda>r. u_id r = u_id row) (\<lambda>r. r\<lparr>u_data := Some b, u_updated_at := cx_now c\<rparr>)) (tx_db s)\<rparr>"
    and em: "Emit sy c ''user.updated'' (acc_project_id b) (u_environment row) (acc_id b) (PAccount b) s1 = (Inr (), s')"
    using assms(1) by (auto simp: persistAccount_def FindIamUser_def res_simps split: option.splits)
  have "u_id row = acc_id b" using row by (auto dest: find_set)
  then have "sessions_wf (tx_db s1)" using persist_wf [OF wf u b] s1 by simp
  then show ?thesis using preservesD [OF preserves_Emit em] by simp
qed

lemma preserves_insertUser [intro!]: "preserves (insertUser sy c acc env em ph er)"
proof -
  have "preserves (insert_unique db_users db_users_update (\<lambda>a b. u_id a = u_id b \<or> contact_clash a b) row er)" if "user_ok row" for row
    using that by (auto simp: preserves_def insert_unique_Inr sessions_wf_def list_ex_iff)
  then show ?thesis by (auto simp: insertUser_def user_ok_def)
qed

lemma created_wf:
  assumes "passwordlessSignupAllowed sy c pid s = (Inr ok, s1)" and "newUUID sy s1 = (Inr i, s2)"
    and "insertUser sy c acc env em ph er s2 = (Inr x, s')" and "sessions_wf (tx_db s)"
  shows "sessions_wf (tx_db s')"
proof -
  have "sessions_wf (tx_db s1)" using preservesD [OF preserves_keeps [OF keeps_signup_gate] assms(1,4)] .
  then have "sessions_wf (tx_db s2)" using preservesD [OF preserves_keeps [OF keeps_newUUID] assms(2)] by simp
  then show ?thesis using preservesD [OF preserves_insertUser assms(3)] by simp
qed

lemma preserves_resolve [intro!]: "preserves (resolveAndSession sy c e)"
proof -
  have known: "sessions_wf (tx_db s')" if "persistAccount sy c b s = (Inr x, s')" "find q (db_users (tx_db s)) = Some u" "u_data u = Some a"
      "sessions_wf (tx_db s)" "acc_id b = acc_id a" "acc_project_id b = acc_project_id a" for a b s x s' q u
    using persistAccount_wf [OF that(1,4) _ that(3,5,6)] that(2) by (auto dest: find_set)
  have "preserves (resolveOrCreateByEmail sy c e)" unfolding preserves_def resolveOrCreateByEmail_def
    by (auto simp: res_simps Let_def split: option.splits if_splits elim!: created_wf, (erule known, assumption, assumption, assumption, simp, simp)+)
  moreover have "preserves (resolveOrCreateByPhone sy c e)" unfolding preserves_def resolveOrCreateByPhone_def
    by (auto simp: res_simps Let_def split: option.splits if_splits elim!: created_wf, (erule known, assumption, assumption, assumption, simp, simp)+)
  ultimately have "preserves (resolveOrCreateUser sy c e)" by (simp add: resolveOrCreateUser_def)
  then show ?thesis unfolding resolveAndSession_def createSession_def Let_def by auto
qed

lemma sound_passwordless_requests:
  "sound (StartOTP sy c pid ident ch purpose loc)" "sound (VerifyOTP sy c i code)" "sound (StartMagicLink sy c pid email to loc)"
  "sound (VerifyMagicLink sy c tok)" "sound (VerifyMagicLinkCallback sy c tok to)"
proof -
  have keep: "keeps wf_tables (insertChallenge e)" "keeps wf_tables (loadChallengeForVerify c j ty)" "keeps wf_tables (findUnconsumedByHash ty h)"
    "keeps wf_tables (consume row)" "keeps wf_tables (write_envelope_row row e b)" for e j ty h row b
    by (auto simp: insertChallenge_def loadChallengeForVerify_def findUnconsumedByHash_def consume_def write_envelope_row_def wf_tables_def
        split: option.split)
  note held = keep [THEN preserves_keeps]
  have calm: "pooled wf_tables (loadChallengeForVerify c i ty)" "pooled wf_tables (consume row)" "pooled wf_tables (findUnconsumedByHash ty h)"
    "pooled wf_tables (Emit sy c t pid e a pl)" "pooled wf_tables (unmarshal x)" for ty row h t pid e a pl and x :: "challengeEnvelope option"
    by (rule pooled_quiet; auto)+
  have pooled: "pooled wf_tables (resolveAndSession sy c e)" for e
    unfolding resolveAndSession_def createSession_def Let_def by (auto intro: pooled_mint intro!: pooled_quiet [of "resolveOrCreateUser sy c e"])
  have bump: "sound (bumpAttempts row)" "quiet (bumpAttempts row)" for row
    unfolding bumpAttempts_def Let_def by (intro sound_withTx preserves_keeps pooled_quiet) (auto intro: keep)
  have start: "sound (randomNumericCode sy n)" "sound (newUUID sy)" "sound (randomOpaqueToken sy n)" "preserves (insertChallenge e)"
    "quiet (randomOpaqueToken sy n)" for n e
    by (rule sound_keeps, rule numeric_code) (auto simp: randomOpaqueToken_def quiet_def intro: sound_keeps preserves_keeps keep)
  show "sound (StartOTP sy c pid ident ch purpose loc)"
    unfolding StartOTP_def providerEnabled_def Let_def by (auto simp: start numeric_code intro!: sound_bind pooled_quiet)
  show "sound (StartMagicLink sy c pid email to loc)"
    unfolding StartMagicLink_def Let_def by (auto simp: start intro!: sound_bind pooled_quiet)
  show link: "sound (VerifyMagicLink sy c tok)"
    using pooled calm held by (auto simp: VerifyMagicLink_def)
  have "sound (coreAuthSafeRedirect sy c p to)" for p
    by (rule sound_keeps) (auto simp: coreAuthSafeRedirect_def AuthConfig_def rawDoc_def Let_def)
  then show "sound (VerifyMagicLinkCallback sy c tok to)" using link quiet_requests
    by (auto simp: VerifyMagicLinkCallback_def intro!: sound_bind)
  have over: "sound (tx_handle (consume row) (\<lambda>_. throw ErrRateLimited) (\<lambda>_. throw ErrRateLimited))" for row
    by (rule sound_keeps) (auto intro: keep)
  show "sound (VerifyOTP sy c i code)" unfolding VerifyOTP_def using pooled calm bump over held sound_keeps [OF keep(2)]
    by (auto intro!: sound_bind)
qed

lemma serve_wf: "tx_pool s = [] \<Longrightarrow> sessions_wf (tx_db s) \<Longrightarrow> sessions_wf (tx_db (serve sy rq s))"
  by (cases rq) (simp_all add: soundD sound_requests sound_account_requests sound_mfa_requests sound_passwordless_requests)

text \<open>C21: the type invariant of the session tables (unique keys, envelopes that decode and agree with
  their columns, every live refresh token anchored in an existing session of the same project and
  user) holds after every run of the thirty-five kinds of requests of this theory that starts in a state with
  the invariant, and no transaction is left open. Requests outside the run need not keep it: the OIDC device
  grant inserts a live refresh token that has no session.\<close>

theorem reachable_sessions_wf:
  assumes "reach sy s s'" and "tx_pool s = []" and "sessions_wf (tx_db s)"
  shows "tx_pool s' = [] \<and> sessions_wf (tx_db s')"
  using assms by (induction rule: reach.induct) (simp_all add: serve_wf serve_idle)

theorem reachable_sessions_wf_witness:
  "sessions_wf (tx_db (serve sample_sys (RefreshReq (sample_ctx 0) ''rt'')
     (serve sample_sys (CreateGuestReq (sample_ctx 0) ''p1'') (sample_state sample_db))))"
proof -
  have "reach sample_sys (sample_state sample_db) (serve sample_sys (RefreshReq (sample_ctx 0) ''rt'')
     (serve sample_sys (CreateGuestReq (sample_ctx 0) ''p1'') (sample_state sample_db)))"
    by (intro reach.intros)
  from reachable_sessions_wf [OF this] show ?thesis by (simp add: sample_state_def sample_db_wf)
qed

end
