(* ===== verification/Registration.thy ===== *)
theory Registration
  imports Passwordless MachineIdentity
begin

text \<open>
  Registration (the sign-up operation of coreauth_pg.go), with the gates in front of it: the captcha, the
  required consents (consent_gate_pg.go) and the administrator's blocks (risk_pg.go).
\<close>

section \<open>What the operations call and do not define\<close>

record RegisterCmd =
  rg_project_id :: string
  rg_email :: string
  rg_phone :: string
  rg_password :: string
  rg_name :: string
  rg_locale :: string
  rg_consents :: "FlowConsentRef list"
  rg_skip_consent_gate :: bool

text \<open>\<open>cap_min_score\<close> is the literal of the number.\<close>

record coreAuthCaptchaConfig =
  cap_provider :: string
  cap_secret :: string
  cap_verify_url :: string
  cap_min_score :: string

text \<open>The verb \<open>%q\<close>, the captcha provider's verdict and the registration hooks (both HTTP), the two readings of a JSON text,
  and the adapters for passkeys and social sign-in.\<close>

record ports =
  po_quote :: "string \<Rightarrow> string"
  po_siteverify :: "coreAuthCaptchaConfig \<Rightarrow> string \<Rightarrow> bool"
  po_hooks :: "ctx \<Rightarrow> db \<Rightarrow> RegisterCmd \<Rightarrow> bool res"
  po_json_refs :: "string \<Rightarrow> FlowConsentRef list option"
  po_json_string :: "string \<Rightarrow> string option"
  po_json_object :: "string \<Rightarrow> json option"
  po_begin_passkey :: "ctx \<Rightarrow> string \<Rightarrow> string \<Rightarrow> (Challenge \<times> json option) tx"
  po_finish_passkey :: "ctx \<Rightarrow> string \<Rightarrow> json \<Rightarrow> Session tx"
  po_start_oauth :: "ctx \<Rightarrow> string \<Rightarrow> string \<Rightarrow> string \<Rightarrow> string \<Rightarrow> string tx"
  po_complete_oauth :: "ctx \<Rightarrow> string \<Rightarrow> string \<Rightarrow> string \<Rightarrow> Session tx"

section \<open>Captcha\<close>

definition captcha_fields :: "coreAuthCaptchaConfig setters" where
  "captcha_fields =
     [(''provider'', set_via as_string_elem (\<lambda>v r. r\<lparr>cap_provider := v\<rparr>)),
      (''secret'', set_via as_string_elem (\<lambda>v r. r\<lparr>cap_secret := v\<rparr>)),
      (''verify_url'', set_via as_string_elem (\<lambda>v r. r\<lparr>cap_verify_url := v\<rparr>)),
      (''min_score'', (\<lambda>j r. case j of JNull \<Rightarrow> Some r | JNum l \<Rightarrow> Some (r\<lparr>cap_min_score := l\<rparr>) | _ \<Rightarrow> None))]"

definition empty_captcha :: coreAuthCaptchaConfig where
  "empty_captcha = \<lparr>cap_provider = [], cap_secret = [], cap_verify_url = [], cap_min_score = ''0''\<rparr>"

definition coreAuthLoadCaptchaConfig :: "sys \<Rightarrow> ctx \<Rightarrow> string \<Rightarrow> string \<Rightarrow> (coreAuthCaptchaConfig \<times> bool) tx" where
  "coreAuthLoadCaptchaConfig sy c projectID provider =
     tx_bind (effectiveEnv sy c projectID) (\<lambda>env.
     tx_bind (query (\<lambda>d. db_config d (projectID, env, ''captcha''))) (\<lambda>row.
       case row of
         None \<Rightarrow> ret (empty_captcha, False)
       | Some j \<Rightarrow>
           tx_bind (unmarshal (decode_lax captcha_fields j empty_captcha)) (\<lambda>cfg.
             let cfg = (if cap_provider cfg = [] then cfg\<lparr>cap_provider := provider\<rparr> else cfg) in
             ret (cfg, cap_secret cfg \<noteq> []))))"

definition coreAuthCaptchaConfigured :: "sys \<Rightarrow> ctx \<Rightarrow> string \<Rightarrow> bool tx" where
  "coreAuthCaptchaConfigured sy c projectID =
     tx_bind (effectiveEnv sy c projectID) (\<lambda>env.
     tx_bind (query (\<lambda>d. db_config d (projectID, env, ''captcha''))) (\<lambda>row.
       case row of
         None \<Rightarrow> ret False
       | Some j \<Rightarrow>
           tx_bind (unmarshal (decode_lax captcha_fields j empty_captcha)) (\<lambda>cfg. ret (cap_secret cfg \<noteq> []))))"

definition VerifyCaptcha :: "sys \<Rightarrow> ports \<Rightarrow> ctx \<Rightarrow> string \<Rightarrow> string \<Rightarrow> string \<Rightarrow> bool tx" where
  "VerifyCaptcha sy po c projectID provider token =
     (if trim_space token = [] then ret False
      else tx_bind (coreAuthLoadCaptchaConfig sy c projectID provider) (\<lambda>(cfg, ok).
        if \<not> ok then ret False else ret (po_siteverify po cfg token)))"

definition EnforceCaptcha :: "sys \<Rightarrow> ports \<Rightarrow> ctx \<Rightarrow> string \<Rightarrow> string \<Rightarrow> unit tx" where
  "EnforceCaptcha sy po c projectID token =
     tx_bind (coreAuthCaptchaConfigured sy c projectID) (\<lambda>required.
       if \<not> required then ret ()
       else if trim_space token = [] then throw ErrCaptchaRequired
       else tx_bind (VerifyCaptcha sy po c projectID [] token) (\<lambda>valid.
         if \<not> valid then throw ErrCaptchaInvalid else ret ()))"

section \<open>Blocks\<close>

definition IsBlocked :: "ctx \<Rightarrow> string \<Rightarrow> string list \<Rightarrow> bool tx" where
  "IsBlocked c projectID subjects =
     query (\<lambda>d. list_ex (\<lambda>r. bl_project_id r = projectID \<and> bl_subject r \<in> set (filter (\<lambda>s. s \<noteq> []) subjects)
       \<and> (case bl_expires_at r of None \<Rightarrow> True | Some t \<Rightarrow> t > cx_now c)) (db_blocks d))"

section \<open>Required consents\<close>

definition parseConsentAccept :: "ports \<Rightarrow> string \<Rightarrow> FlowConsentRef list res" where
  "parseConsentAccept po raw =
     (let raw = trim_space raw in
      if raw = [] then Inr []
      else case po_json_refs po raw of
             Some accepted \<Rightarrow> Inr accepted
           | None \<Rightarrow>
               (case Option.bind (po_json_string po raw) (po_json_refs po) of
                  Some accepted \<Rightarrow> Inr accepted
                | None \<Rightarrow> Inl (WithMessage ''accept must be a JSON array of {key,version}'' ErrBadRequest)))"

record consentDocCandidate =
  cc_version :: string
  cc_locale :: string

record consentRequiredDoc =
  rd_key :: string
  rd_version :: string
  rd_locale :: string

text \<open>The map \<open>byKey\<close> with its keys in first-seen order.\<close>

fun add_candidate :: "string \<Rightarrow> consentDocCandidate \<Rightarrow> (string \<times> consentDocCandidate list) list \<Rightarrow> (string \<times> consentDocCandidate list) list" where
  "add_candidate key cand [] = [(key, [cand])]"
| "add_candidate key cand ((k, cs) # rest) = (if k = key then (k, cs @ [cand]) # rest else (k, cs) # add_candidate key cand rest)"

definition groupRequiredConsentDocs :: "ConsentDocumentSpec list \<Rightarrow> (string \<times> consentDocCandidate list) list" where
  "groupRequiredConsentDocs docs =
     foldl (\<lambda>byKey doc. add_candidate (cd_key doc) \<lparr>cc_version = cd_version doc, cc_locale = str_or_empty (cd_locale doc)\<rparr> byKey) []
       (filter (\<lambda>doc. cd_required doc = Some True \<and> cd_key doc \<noteq> [] \<and> cd_version doc \<noteq> []) docs)"

definition pickConsentCandidate :: "consentDocCandidate list \<Rightarrow> string \<Rightarrow> string \<Rightarrow> consentDocCandidate" where
  "pickConsentCandidate cands requestedLocale defaultLocale =
     (case (if requestedLocale \<noteq> [] then find (\<lambda>k. cc_locale k = requestedLocale) cands else None) of
        Some k \<Rightarrow> k
      | None \<Rightarrow>
          (case (if defaultLocale \<noteq> [] then find (\<lambda>k. cc_locale k = defaultLocale) cands else None) of
             Some k \<Rightarrow> k
           | None \<Rightarrow>
               (case find (\<lambda>k. cc_locale k = []) cands of Some k \<Rightarrow> k | None \<Rightarrow> hd cands)))"

definition resolveRequiredConsents :: "ConsentDocumentSpec list \<Rightarrow> string \<Rightarrow> string \<Rightarrow> consentRequiredDoc list" where
  "resolveRequiredConsents docs requestedLocale defaultLocale =
     map (\<lambda>(key, cands). let k = pickConsentCandidate cands requestedLocale defaultLocale in
            \<lparr>rd_key = key, rd_version = cc_version k, rd_locale = cc_locale k\<rparr>) (groupRequiredConsentDocs docs)"

definition missingRequiredConsents :: "consentRequiredDoc list \<Rightarrow> FlowConsentRef list \<Rightarrow> consentRequiredDoc list" where
  "missingRequiredConsents required accepted = filter (\<lambda>r. (rd_key r, rd_version r) \<notin> set accepted) required"

text \<open>The details list key and version of each missing document in turn.\<close>

definition consentRefDetails :: "consentRequiredDoc list \<Rightarrow> (string \<times> detail) list" where
  "consentRefDetails missing = [(''missing'', DStrs (concat (map (\<lambda>m. [rd_key m, rd_version m]) missing)))]"

definition default_locale :: "sys \<Rightarrow> ctx \<Rightarrow> string \<Rightarrow> string tx" where
  "default_locale sy c projectID = tx_handle (AuthConfig sy c projectID) (\<lambda>_. ret []) (\<lambda>auth. ret (ea_default_locale auth))"

definition coreAuthCheckRequiredConsents :: "sys \<Rightarrow> ctx \<Rightarrow> string \<Rightarrow> string \<Rightarrow> FlowConsentRef list \<Rightarrow> unit tx" where
  "coreAuthCheckRequiredConsents sy c projectID requestedLocale accepted =
     tx_bind (ConsentConfig sy c projectID) (\<lambda>docs.
     tx_bind (default_locale sy c projectID) (\<lambda>defLocale.
       let missing = missingRequiredConsents (resolveRequiredConsents docs requestedLocale defLocale) accepted in
       if missing \<noteq> [] then throw (WithDetails (consentRefDetails missing) ErrConsentRequired) else ret ()))"

definition resolveConsentLocales :: "ConsentDocumentSpec list \<Rightarrow> string \<Rightarrow> string \<Rightarrow> consentRequiredDoc list" where
  "resolveConsentLocales docs requestedLocale defaultLocale =
     resolveRequiredConsents (map (\<lambda>d. d\<lparr>cd_required := Some True\<rparr>) docs) requestedLocale defaultLocale"

definition coreAuthConsentLocales :: "sys \<Rightarrow> ctx \<Rightarrow> string \<Rightarrow> string \<Rightarrow> (string \<rightharpoonup> string) tx" where
  "coreAuthConsentLocales sy c projectID requestedLocale =
     tx_handle (ConsentConfig sy c projectID) (\<lambda>_. ret Map.empty) (\<lambda>docs.
       if docs = [] then ret Map.empty
       else tx_bind (default_locale sy c projectID) (\<lambda>defLocale.
         ret (map_of (rev (map (\<lambda>r. (rd_key r, rd_locale r))
                (filter (\<lambda>r. rd_locale r \<noteq> []) (resolveConsentLocales docs requestedLocale defLocale)))))))"

section \<open>Registration\<close>

definition RegisterCmd_Validate :: "RegisterCmd \<Rightarrow> unit res" where
  "RegisterCmd_Validate cmd =
     (let email = trim_space (rg_email cmd); phone = trim_space (rg_phone cmd) in
      if email = [] \<and> phone = [] then Inl (WithMessage ''email or phone is required'' ErrValidation)
      else res_bind (if email \<noteq> [] then ValidateEmail email else Inr ()) (\<lambda>_.
             if phone \<noteq> [] then ValidatePhone phone else Inr ()))"

definition coreAuthInvokeUserCreateHooks :: "ports \<Rightarrow> ctx \<Rightarrow> RegisterCmd \<Rightarrow> unit tx" where
  "coreAuthInvokeUserCreateHooks po c cmd =
     tx_bind (query (\<lambda>d. po_hooks po c d cmd)) (\<lambda>r.
     tx_bind (lift_res r) (\<lambda>allowed.
       if \<not> allowed then throw (WithMessage ''registration blocked by a before_user_create hook'' ErrForbidden) else ret ()))"

definition coreAuthInsertRegisterUser :: "sys \<Rightarrow> ctx \<Rightarrow> RegisterCmd \<Rightarrow> string \<Rightarrow> Account tx" where
  "coreAuthInsertRegisterUser sy c cmd env =
     tx_bind (newUUID sy) (\<lambda>i.
     let acc = \<lparr>acc_deletion = None, acc_id = i, acc_project_id = rg_project_id cmd, acc_kind = ''human'',
                acc_status = coreAuthStatusActive, acc_primary_email = rg_email cmd, acc_email_verified = False,
                acc_primary_phone = rg_phone cmd, acc_phone_verified = False, acc_name = rg_name cmd, acc_locale = rg_locale cmd,
                acc_invite_cap = None, acc_created_at = cx_now c, acc_updated_at = cx_now c\<rparr> in
     tx_bind (insert_unique db_users db_users_update (\<lambda>a b. u_id a = u_id b \<or> contact_clash a b)
                \<lparr>u_id = i, u_project_id = acc_project_id acc, u_environment = env, u_kind = acc_kind acc, u_status = acc_status acc,
                 u_primary_email = nullIfEmpty (acc_primary_email acc), u_primary_phone = nullIfEmpty (acc_primary_phone acc),
                 u_created_at = cx_now c, u_updated_at = cx_now c, u_security_recovered_at = None, u_data = Some acc\<rparr>
                (if acc_primary_email acc \<noteq> [] then ErrEmailExists else ErrPhoneExists)) (\<lambda>_.
       ret acc))"

text \<open>The documents a project configures, as the code keys them.\<close>

definition consent_key :: "string \<Rightarrow> string \<Rightarrow> string" where "consent_key key version = key @ [CHR 0x00] @ version"

definition allowed_consents :: "ConsentDocumentSpec list \<Rightarrow> string set" where
  "allowed_consents configured = set (map (\<lambda>d. consent_key (cd_key d) (cd_version d)) configured)"

definition consent_row_of :: "ctx \<Rightarrow> string \<Rightarrow> string \<Rightarrow> string \<Rightarrow> (string \<rightharpoonup> string) \<Rightarrow> string \<Rightarrow> FlowConsentRef \<Rightarrow> consent_row" where
  "consent_row_of c projectID env userID locales i a =
     \<lparr>ct_id = i, ct_project_id = projectID, ct_environment = env, ct_user_id = userID, ct_doc_key = fst a, ct_version = snd a,
      ct_locale = locales (fst a), ct_accepted_at = cx_now c\<rparr>"

fun coreAuthInsertRegisterConsents ::
  "sys \<Rightarrow> ctx \<Rightarrow> Account \<Rightarrow> string \<Rightarrow> string set \<Rightarrow> (string \<rightharpoonup> string) \<Rightarrow> FlowConsentRef list \<Rightarrow> unit tx" where
  "coreAuthInsertRegisterConsents sy c acc env allowed locales [] = ret ()"
| "coreAuthInsertRegisterConsents sy c acc env allowed locales (a # consents) =
     (if consent_key (fst a) (snd a) \<notin> allowed then coreAuthInsertRegisterConsents sy c acc env allowed locales consents
      else tx_bind (newUUID sy) (\<lambda>i.
           tx_bind (insert_row db_consents db_consents_update ct_id (consent_row_of c (acc_project_id acc) env (acc_id acc) locales i a)) (\<lambda>_.
             coreAuthInsertRegisterConsents sy c acc env allowed locales consents)))"

definition coreAuthInsertRegisterPassword :: "sys \<Rightarrow> ctx \<Rightarrow> Account \<Rightarrow> string \<Rightarrow> string \<Rightarrow> unit tx" where
  "coreAuthInsertRegisterPassword sy c acc env password =
     tx_bind (coreAuthEnforcePasswordPolicy sy c (acc_project_id acc) password) (\<lambda>_.
     tx_bind (coreAuthHashPassword sy password) (\<lambda>hash.
     tx_bind (newUUID sy) (\<lambda>i.
       insert_row db_credentials db_credentials_update k_id
         \<lparr>k_id = i, k_project_id = acc_project_id acc, k_environment = env, k_user_id = acc_id acc, k_type = coreAuthCredentialPassword,
          k_secret = hash, k_updated_at = cx_now c,
          k_data = Some \<lparr>pc_id = i, pc_project_id = acc_project_id acc, pc_user_id = acc_id acc, pc_type = coreAuthCredentialPassword,
            pc_hash = hash, pc_created_at = cx_now c, pc_updated_at = cx_now c, pc_failed_attempts = 0, pc_locked_until = zeroTime\<rparr>\<rparr>)))"

definition Register :: "sys \<Rightarrow> ports \<Rightarrow> ctx \<Rightarrow> RegisterCmd \<Rightarrow> (Account \<times> Session) tx" where
  "Register sy po c cmd =
     (if rg_project_id cmd = [] then throw (WithMessage ''project is required'' ErrValidation)
      else
        tx_bind (lift_res (RegisterCmd_Validate cmd)) (\<lambda>_.
        tx_bind (if \<not> rg_skip_consent_gate cmd
                 then coreAuthCheckRequiredConsents sy c (rg_project_id cmd) (rg_locale cmd) (rg_consents cmd) else ret ()) (\<lambda>_.
        tx_bind (coreAuthInvokeUserCreateHooks po c cmd) (\<lambda>_.
        tx_bind (effectiveEnv sy c (rg_project_id cmd)) (\<lambda>env.
        tx_bind (coreAuthConsentLocales sy c (rg_project_id cmd) (rg_locale cmd)) (\<lambda>locales.
        tx_bind (tx_handle (ConsentConfig sy c (rg_project_id cmd)) (\<lambda>_. ret []) ret) (\<lambda>configured.
        withTx (
          tx_bind (coreAuthInsertRegisterUser sy c cmd env) (\<lambda>acc.
          tx_bind (coreAuthInsertRegisterConsents sy c acc env (allowed_consents configured) locales (rg_consents cmd)) (\<lambda>_.
          tx_bind (if rg_password cmd \<noteq> [] then coreAuthInsertRegisterPassword sy c acc env (rg_password cmd) else ret ()) (\<lambda>_.
          tx_bind (coreAuthMintSession sy c acc [] [''pwd''] 1) (\<lambda>sess.
          tx_bind (Emit sy c ''user.registered'' (acc_project_id acc) coreAuthDefaultEnv (acc_id acc) (PAccount acc)) (\<lambda>_.
            ret (acc, sess))))))))))))))"

text \<open>The direct sign-up endpoint (pkg/api/core_auth.go).\<close>

definition PostV1AuthSignUp :: "sys \<Rightarrow> ports \<Rightarrow> ctx \<Rightarrow> RegisterCmd \<Rightarrow> string \<Rightarrow> (Account \<times> Session) tx" where
  "PostV1AuthSignUp sy po c cmd captchaToken =
     tx_bind (EnforceCaptcha sy po c (rg_project_id cmd) captchaToken) (\<lambda>_.
     let cmd = cmd\<lparr>rg_skip_consent_gate := False\<rparr> in
     tx_bind (lift_res (RegisterCmd_Validate cmd)) (\<lambda>_.
       Register sy po c cmd))"

end
