(* ===== verification/Flows.thy ===== *)
theory Flows
  imports Registration
begin

text \<open>
  The resumable sign-up, sign-in and recovery flows (coreauth_flows_pg.go, coreauth_flows_signin_pg.go,
  coreauth_flows_recovery_pg.go): a client holds an opaque token, the server the state of the flow. Each step
  calls the operations of the other adapters in transactions of their own.
\<close>

section \<open>Flows and their rows\<close>

definition flowTTL :: duration where "flowTTL = 30 * Minute"
definition flowTokenPrefix :: string where "flowTokenPrefix = ''ftk_''"
definition flowResendCooloff :: duration where "flowResendCooloff = 60 * Second"
definition flowMaxAttempts :: int where "flowMaxAttempts = 5"
definition flowActionVerifyEmail :: string where "flowActionVerifyEmail = ''verify_email''"

text \<open>The stored fields are those of \<open>flowData\<close>. The instants of creation and update, which no operation reads, are left out.\<close>

record Flow = flowData +
  fo_id :: string
  fo_project_id :: string
  fo_environment :: string
  fo_kind :: string
  fo_status :: string
  fo_step :: string
  fo_user_id :: string
  fo_expires_at :: instant

record FlowState =
  sta_token :: string
  sta_flow :: Flow
  sta_session :: "Session option"

record FlowCreateCmd =
  fc_project_id :: string
  fc_kind :: string
  fc_email :: string
  fc_password :: string
  fc_name :: string
  fc_captcha_token :: string
  fc_method :: string
  fc_phone :: string
  fc_provider :: string
  fc_redirect_to :: string
  fc_locale :: string
  fc_invite_token :: string
  fc_consents :: "FlowConsentRef list"
  fc_cookie_mode :: bool

record FlowSubmitCmd =
  fb_project_id :: string
  fb_flow_token :: string
  fb_action :: string
  fb_payload :: "string \<rightharpoonup> string"

definition payload_at :: "FlowSubmitCmd \<Rightarrow> string \<Rightarrow> string" where
  "payload_at cmd key = str_or_empty (fb_payload cmd key)"

definition bad_request :: "string \<Rightarrow> error" where "bad_request msg = WithMessage msg ErrBadRequest"

definition flowHashToken :: "sys \<Rightarrow> string \<Rightarrow> string" where "flowHashToken sy token = sy_sha256 sy token"

definition flowMintToken :: "sys \<Rightarrow> string tx" where
  "flowMintToken sy = tx_bind (draw (sy_hex_token sy randomTokenBytes)) (\<lambda>b. ret (flowTokenPrefix @ b))"

text \<open>\<open>flowDataRM\<close>: the transient code and token are not marshalled.\<close>

definition flowDataRM :: "flowData \<Rightarrow> flowData" where
  "flowDataRM d = d\<lparr>fd_active := map_option (\<lambda>a. a\<lparr>ac_code := [], ac_token := []\<rparr>) (fd_active d)\<rparr>"

definition flowRowEnv :: "flow_row \<Rightarrow> string" where
  "flowRowEnv row = (if fl_environment row = [] then coreAuthDefaultEnv else fl_environment row)"

definition flowUnmarshalRow :: "flow_row \<Rightarrow> Flow tx" where
  "flowUnmarshalRow row =
     tx_bind (unmarshal (fl_auth row)) (\<lambda>data.
       ret (flowData.extend data \<lparr>fo_id = fl_id row, fo_project_id = fl_project_id row, fo_environment = flowRowEnv row, fo_kind = fl_kind row,
              fo_status = fl_status row, fo_step = fl_step row, fo_user_id = fl_user_id row, fo_expires_at = fl_expires_at row\<rparr>))"

definition flowLoad :: "sys \<Rightarrow> ctx \<Rightarrow> string \<Rightarrow> string \<Rightarrow> (flow_row \<times> Flow) tx" where
  "flowLoad sy c projectID token =
     tx_bind (query (\<lambda>d. find (\<lambda>r. fl_token_hash r = flowHashToken sy token) (db_flows d))) (\<lambda>found.
       case found of
         None \<Rightarrow> throw ErrFlowNotFound
       | Some row \<Rightarrow>
           if fl_project_id row \<noteq> projectID then throw ErrFlowNotFound
           else tx_bind (effectiveEnv sy c projectID) (\<lambda>env.
             if flowRowEnv row \<noteq> env then throw ErrFlowNotFound
             else if fl_status row \<noteq> ''pending'' then throw ErrFlowNotFound
             else if nowIn c > fl_expires_at row then throw ErrFlowExpired
             else tx_bind (flowUnmarshalRow row) (\<lambda>f. ret (row, f))))"

text \<open>The columns an update of the row writes; the column \<open>data\<close> holds no key of the security flows.\<close>

definition flow_written :: "Flow \<Rightarrow> flow_row \<Rightarrow> flow_row" where
  "flow_written f r =
     r\<lparr>fl_status := fo_status f, fl_step := fo_step f,
       fl_auth := Some (flowDataRM (flowData.truncate f)), fl_payload := Some empty_security_flow, fl_previous_token_hash := [],
       fl_user_id := (if fo_user_id f \<noteq> [] then fo_user_id f else fl_user_id r)\<rparr>"

definition flowSave :: "flow_row \<Rightarrow> Flow \<Rightarrow> unit tx" where
  "flowSave row f = exec (db_flows_update (update_where (\<lambda>r. fl_id r = fl_id row) (flow_written f)))"

definition flowRotate :: "sys \<Rightarrow> flow_row \<Rightarrow> Flow \<Rightarrow> string tx" where
  "flowRotate sy row f =
     tx_bind (flowMintToken sy) (\<lambda>newToken.
     let h = flowHashToken sy newToken in
     tx_bind (query db_flows) (\<lambda>rows.
       if list_ex (\<lambda>r. fl_token_hash r = h \<and> fl_id r \<noteq> fl_id row) rows then throw (WithMessage ''duplicate key'' ErrInternal)
       else tx_bind (exec (db_flows_update (update_where (\<lambda>r. fl_id r = fl_id row) (\<lambda>r. (flow_written f r)\<lparr>fl_token_hash := h\<rparr>)))) (\<lambda>_.
         ret newToken)))"

definition flowInsert :: "sys \<Rightarrow> Flow \<Rightarrow> string \<Rightarrow> flowData \<Rightarrow> unit tx" where
  "flowInsert sy f token data =
     (let data = data\<lparr>fd_locale := (if fd_locale data = [] then fd_locale f else fd_locale data),
                      fd_redirect_to := (if fd_redirect_to data = [] then fd_redirect_to f else fd_redirect_to data)\<rparr>
      in insert_unique db_flows db_flows_update (\<lambda>a b. fl_id a = fl_id b \<or> fl_token_hash a = fl_token_hash b)
           \<lparr>fl_id = fo_id f, fl_project_id = fo_project_id f,
            fl_environment = (if fo_environment f = [] then coreAuthDefaultEnv else fo_environment f),
            fl_token_hash = flowHashToken sy token, fl_kind = fo_kind f, fl_status = fo_status f, fl_step = fo_step f,
            fl_user_id = fo_user_id f, fl_expires_at = fo_expires_at f, fl_previous_token_hash = [],
            fl_payload = Some empty_security_flow, fl_auth = Some (flowDataRM data)\<rparr>
           (WithMessage ''duplicate key'' ErrInternal))"

text \<open>The fields of \<open>flowData\<close> that a freshly created flow takes from the request.\<close>

definition contact_data :: "Flow \<Rightarrow> flowData" where
  "contact_data f =
     \<lparr>fd_locale = [], fd_redirect_to = [], fd_email = fd_email f, fd_phone = fd_phone f, fd_name = fd_name f, fd_has_password = fd_has_password f,
      fd_active = None, fd_consents_required = [], fd_consents_accepted = [], fd_registration_mode = [], fd_password_strategy = [], fd_error = None,
      fd_method = [], fd_available_methods = [], fd_cookie_mode = False\<rparr>"

definition flow_state :: "string \<Rightarrow> Flow \<Rightarrow> FlowState" where
  "flow_state token f = \<lparr>sta_token = token, sta_flow = f, sta_session = None\<rparr>"

text \<open>Mint a token and insert the row with the given data.\<close>

definition persist_new :: "sys \<Rightarrow> Flow \<Rightarrow> flowData \<Rightarrow> FlowState tx" where
  "persist_new sy f data =
     tx_bind (flowMintToken sy) (\<lambda>token.
     tx_bind (flowInsert sy f token data) (\<lambda>_. ret (flow_state token f)))"

definition active_challenge :: "ctx \<Rightarrow> Challenge \<Rightarrow> string \<Rightarrow> FlowActiveChallenge" where
  "active_challenge c ch channel =
     \<lparr>ac_challenge_id = cl_id ch, ac_channel = channel, ac_expires_at = cl_expires_at ch, ac_resend_at = cx_now c + flowResendCooloff,
      ac_attempts_left = flowMaxAttempts, ac_code = [], ac_token = [], ac_public_key = None, ac_redirect_url = [], ac_provider = []\<rparr>"

text \<open>With the code and token of a mailed challenge.\<close>

definition mailed_challenge :: "ctx \<Rightarrow> Challenge \<Rightarrow> string \<Rightarrow> FlowActiveChallenge" where
  "mailed_challenge c ch channel = (active_challenge c ch channel)\<lparr>ac_code := cl_code ch, ac_token := cl_token ch\<rparr>"

definition save_state :: "FlowSubmitCmd \<Rightarrow> flow_row \<Rightarrow> Flow \<Rightarrow> FlowState tx" where
  "save_state cmd row f = tx_bind (withTx (flowSave row f)) (\<lambda>_. ret (flow_state (fb_flow_token cmd) f))"

text \<open>A wrong secret: one attempt less and an embedded error; the save is best effort.\<close>

definition signinWrongCode :: "FlowSubmitCmd \<Rightarrow> flow_row \<Rightarrow> Flow \<Rightarrow> string \<Rightarrow> FlowState tx" where
  "signinWrongCode cmd row f msg =
     (let f = f\<lparr>fd_active := map_option (\<lambda>a. a\<lparr>ac_attempts_left := ac_attempts_left a - 1\<rparr>) (fd_active f),
                fd_error := Some (''invalid_code'', msg)\<rparr>
      in tx_handle (withTx (flowSave row f)) (\<lambda>_. ret (flow_state (fb_flow_token cmd) f)) (\<lambda>_. ret (flow_state (fb_flow_token cmd) f)))"

definition incorrect_code :: string where "incorrect_code = ''The verification code is incorrect.''"

definition exhausted :: error where "exhausted = WithMessage ''challenge exhausted; please resend'' ErrChallengeInvalid"

section \<open>Sign-up: creation\<close>

definition flowAuthConfig :: "sys \<Rightarrow> ctx \<Rightarrow> string \<Rightarrow> (string \<times> string) tx" where
  "flowAuthConfig sy c projectID =
     tx_handle (AuthConfig sy c projectID) (\<lambda>_. ret ([], [])) (\<lambda>cfg. ret (ea_registration_mode cfg, ea_password_strategy cfg))"

definition signup_data :: "Flow \<Rightarrow> flowData" where
  "signup_data f = (contact_data f)\<lparr>fd_consents_accepted := fd_consents_accepted f, fd_registration_mode := fd_registration_mode f,
     fd_password_strategy := fd_password_strategy f\<rparr>"

definition flowPersistAtStep :: "sys \<Rightarrow> Flow \<Rightarrow> string \<Rightarrow> (string \<times> string) option \<Rightarrow> FlowState tx" where
  "flowPersistAtStep sy f step ferr =
     (let f = f\<lparr>fo_step := step, fd_error := ferr\<rparr> in persist_new sy f ((signup_data f)\<lparr>fd_error := ferr\<rparr>))"

definition flowRequiredConsents :: "sys \<Rightarrow> ctx \<Rightarrow> string \<Rightarrow> string \<Rightarrow> FlowConsentRef list tx" where
  "flowRequiredConsents sy c projectID locale =
     tx_handle (ConsentConfig sy c projectID) (\<lambda>_. ret []) (\<lambda>docs.
       if docs = [] then ret []
       else tx_bind (default_locale sy c projectID) (\<lambda>defLocale.
         ret (map (\<lambda>r. (rd_key r, rd_version r)) (resolveRequiredConsents docs locale defLocale))))"

definition flowSignupRegisterAndPersist :: "sys \<Rightarrow> ports \<Rightarrow> ctx \<Rightarrow> Flow \<Rightarrow> FlowCreateCmd \<Rightarrow> string \<Rightarrow> FlowState tx" where
  "flowSignupRegisterAndPersist sy po c f cmd pwStrategy =
     (let password = (if pwStrategy = ''after_verify'' then [] else fc_password cmd) in
      tx_bind (Register sy po c \<lparr>rg_project_id = fo_project_id f, rg_email = fc_email cmd, rg_phone = [], rg_password = password,
                 rg_name = fc_name cmd, rg_locale = fc_locale cmd, rg_consents = [], rg_skip_consent_gate = True\<rparr>) (\<lambda>(acct, _).
      let f = f\<lparr>fo_user_id := acc_id acct, fo_step := ''verify_email''\<rparr> in
      tx_bind (flowRequiredConsents sy c (fo_project_id f) (fc_locale cmd)) (\<lambda>required.
      let f = f\<lparr>fd_consents_required := required\<rparr> in
      tx_bind (StartEmailVerification sy c \<lparr>vs_project_id = fo_project_id f, vs_account_id = acc_id acct,
                 vs_contact = acc_primary_email acct, vs_redirect_to = [], vs_locale = fc_locale cmd, vs_channel = [],
                 vs_suppress_email = True\<rparr>) (\<lambda>ch.
      let f = f\<lparr>fd_active := Some (mailed_challenge c ch coreAuthChallengeEmail)\<rparr> in
        persist_new sy f ((signup_data f)\<lparr>fd_active := fd_active f, fd_consents_required := fd_consents_required f\<rparr>)))))"

definition inviteHashToken :: "sys \<Rightarrow> string \<Rightarrow> string" where "inviteHashToken sy token = sy_sha256 sy token"

definition redeemable :: "ctx \<Rightarrow> string \<Rightarrow> string \<Rightarrow> string \<Rightarrow> invite_row \<Rightarrow> bool" where
  "redeemable c projectID env email row \<longleftrightarrow>
     iv_project_id row = projectID \<and> iv_environment row = env \<and> iv_status row = ''pending''
   \<and> (case iv_expires_at row of Some t \<Rightarrow> \<not> nowIn c > t | None \<Rightarrow> True)
   \<and> (case iv_email row of Some bound \<Rightarrow> bound = [] \<or> bound = email | None \<Rightarrow> True)"

definition flowFindRedeemableInvite :: "sys \<Rightarrow> ctx \<Rightarrow> string \<Rightarrow> string \<Rightarrow> string \<Rightarrow> invite_row option tx" where
  "flowFindRedeemableInvite sy c projectID rawToken email =
     tx_bind (effectiveEnv sy c projectID) (\<lambda>env.
     tx_bind (query (\<lambda>d. find (\<lambda>r. iv_token_hash r = inviteHashToken sy rawToken) (db_invites d))) (\<lambda>found.
       ret (case found of Some row \<Rightarrow> if redeemable c projectID env email row then Some row else None | None \<Rightarrow> None)))"

text \<open>The conditional update and the number of rows it changed.\<close>

definition flowMarkInviteAccepted :: "ctx \<Rightarrow> invite_row \<Rightarrow> bool tx" where
  "flowMarkInviteAccepted c row =
     (let hit = (\<lambda>r. iv_id r = iv_id row \<and> iv_status r = ''pending'') in
      tx_bind (query (\<lambda>d. list_ex hit (db_invites d))) (\<lambda>claimed.
      tx_bind (exec (db_invites_update (update_where hit (\<lambda>r. r\<lparr>iv_status := ''accepted'', iv_accepted_at := Some (cx_now c)\<rparr>)))) (\<lambda>_.
        ret claimed)))"

definition invite_invalid :: "string \<times> string" where
  "invite_invalid = (''invite_invalid'', ''The invitation is invalid or expired.'')"

definition advanceSignupCreateAccepted :: "sys \<Rightarrow> ports \<Rightarrow> ctx \<Rightarrow> Flow \<Rightarrow> FlowCreateCmd \<Rightarrow> invite_row \<Rightarrow> FlowState tx" where
  "advanceSignupCreateAccepted sy po c f cmd inviteRow =
     tx_bind (flowMarkInviteAccepted c inviteRow) (\<lambda>claimed.
       if \<not> claimed then flowPersistAtStep sy f ''blocked'' (Some invite_invalid)
       else flowSignupRegisterAndPersist sy po c f cmd (fd_password_strategy f))"

definition flowAccessRequestApproved :: "string \<Rightarrow> string \<Rightarrow> string \<Rightarrow> bool tx" where
  "flowAccessRequestApproved projectID env email =
     query (\<lambda>d. list_ex (\<lambda>r. ar_project_id r = projectID \<and> ar_environment r = env \<and> ar_email r = email \<and> ar_status r = ''approved'')
       (db_access_requests d))"

definition advanceSignupCreate :: "sys \<Rightarrow> ports \<Rightarrow> ctx \<Rightarrow> Flow \<Rightarrow> FlowCreateCmd \<Rightarrow> FlowState tx" where
  "advanceSignupCreate sy po c f cmd =
     tx_bind (flowAuthConfig sy c (fo_project_id f)) (\<lambda>(mode, pwStrategy).
     let f = f\<lparr>fd_registration_mode := mode, fd_password_strategy := pwStrategy\<rparr> in
     if mode = ''closed''
     then flowPersistAtStep sy f ''blocked'' (Some (''registration_closed'', ''Registration is closed.''))
     else if mode = ''invite_only''
     then (if fc_invite_token cmd = []
           then flowPersistAtStep sy f ''blocked'' (Some (''invite_required'', ''An invitation is required to sign up.''))
           else tx_bind (flowFindRedeemableInvite sy c (fo_project_id f) (fc_invite_token cmd) (fc_email cmd)) (\<lambda>found.
             case found of
               None \<Rightarrow> flowPersistAtStep sy f ''blocked'' (Some invite_invalid)
             | Some inviteRow \<Rightarrow> advanceSignupCreateAccepted sy po c f cmd inviteRow))
     else if mode = ''request_access''
     then tx_bind (flowAccessRequestApproved (fo_project_id f) (fo_environment f) (fc_email cmd)) (\<lambda>approved.
            if approved then flowSignupRegisterAndPersist sy po c f cmd pwStrategy
            else flowPersistAtStep sy f ''request_access'' None)
     else flowSignupRegisterAndPersist sy po c f cmd pwStrategy)"

section \<open>Sign-up: steps\<close>

definition flowVerificationSecret :: "FlowSubmitCmd \<Rightarrow> string \<times> string" where
  "flowVerificationSecret cmd = (trim_space (payload_at cmd ''code''), trim_space (payload_at cmd ''token''))"

definition flowVerifyConsumeCmd :: "string \<Rightarrow> string \<Rightarrow> string \<Rightarrow> string \<Rightarrow> string \<Rightarrow> CoreAuthVerifyConsumeCmd" where
  "flowVerifyConsumeCmd projectID accountID challengeID code token =
     \<lparr>vc_project_id = projectID, vc_account_id = accountID, vc_challenge_id = challengeID, vc_code = code,
      vc_token = (if code \<noteq> [] then [] else token)\<rparr>"

definition flowRequiredConsentDocs :: "Flow \<Rightarrow> consentRequiredDoc list" where
  "flowRequiredConsentDocs f = map (\<lambda>(k, v). \<lparr>rd_key = k, rd_version = v, rd_locale = []\<rparr>) (fd_consents_required f)"

fun merge_consents :: "FlowConsentRef list \<Rightarrow> FlowConsentRef list \<Rightarrow> FlowConsentRef list" where
  "merge_consents out [] = out"
| "merge_consents out (a # rest) = merge_consents (if a \<in> set out then out else out @ [a]) rest"

definition mergeConsentAcceptances :: "FlowConsentRef list list \<Rightarrow> FlowConsentRef list" where
  "mergeConsentAcceptances acceptances = merge_consents [] (concat acceptances)"

definition signupRevokeProvisionalSession :: "sys \<Rightarrow> ctx \<Rightarrow> Flow \<Rightarrow> Session option \<Rightarrow> unit tx" where
  "signupRevokeProvisionalSession sy c f sess =
     (case sess of
        None \<Rightarrow> ret ()
      | Some v \<Rightarrow> tx_handle (coreAuthRevokeSession sy c (fo_project_id f) (se_id v))
                   (\<lambda>e. if err_is e ErrSessionNotFound then ret () else throw e) (\<lambda>_. ret ()))"

fun record_consents ::
  "sys \<Rightarrow> ctx \<Rightarrow> Flow \<Rightarrow> string \<Rightarrow> string set \<Rightarrow> (string \<rightharpoonup> string) \<Rightarrow> FlowConsentRef list \<Rightarrow> bool \<Rightarrow> bool tx" where
  "record_consents sy c f env allowed locales [] recorded = ret recorded"
| "record_consents sy c f env allowed locales (a # accepted) recorded =
     (if consent_key (fst a) (snd a) \<notin> allowed then record_consents sy c f env allowed locales accepted recorded
      else tx_bind (newUUID sy) (\<lambda>i.
           tx_bind (insert_row db_consents db_consents_update ct_id (consent_row_of c (fo_project_id f) env (fo_user_id f) locales i a)) (\<lambda>_.
             record_consents sy c f env allowed locales accepted True)))"

definition signupRecordAcceptedConsents :: "sys \<Rightarrow> ctx \<Rightarrow> Flow \<Rightarrow> FlowConsentRef list \<Rightarrow> unit tx" where
  "signupRecordAcceptedConsents sy c f accepted =
     (let accepted = mergeConsentAcceptances [accepted] in
      if accepted = [] then ret ()
      else
        tx_bind (coreAuthConsentLocales sy c (fo_project_id f) []) (\<lambda>locales.
        let env = (if fo_environment f = [] then coreAuthDefaultEnv else fo_environment f) in
        tx_bind (tx_handle (ConsentConfig sy c (fo_project_id f)) (\<lambda>_. ret []) ret) (\<lambda>configured.
        tx_bind (record_consents sy c f env (allowed_consents configured) locales accepted False) (\<lambda>recorded.
          if \<not> recorded then ret ()
          else Emit sy c ''account.consents_accepted'' (fo_project_id f) env (fo_user_id f)
                 (PFields [(''account_id'', DStr (fo_user_id f)), (''project_id'', DStr (fo_project_id f)),
                    (''accepted'', DStrs (concat (map (\<lambda>(k, v). [k, v]) accepted)))])))))"

definition completed_flow :: "Flow \<Rightarrow> Flow" where
  "completed_flow f = f\<lparr>fo_status := ''completed'', fo_step := ''completed'', fd_error := None\<rparr>"

definition signup_completed :: "Flow \<Rightarrow> Flow" where
  "signup_completed f = completed_flow (f\<lparr>fd_consents_required := [], fd_consents_accepted := []\<rparr>)"

definition signupCompleteWithExistingSession ::
  "sys \<Rightarrow> ctx \<Rightarrow> flow_row \<Rightarrow> Flow \<Rightarrow> FlowConsentRef list \<Rightarrow> Session option \<Rightarrow> FlowState tx" where
  "signupCompleteWithExistingSession sy c row f accepted sess =
     (let f = signup_completed f in
      tx_bind (withTx (
        tx_bind (signupRecordAcceptedConsents sy c f accepted) (\<lambda>_. flowRotate sy row f))) (\<lambda>newToken.
        ret \<lparr>sta_token = newToken, sta_flow = f, sta_session = sess\<rparr>))"

definition signupCompleteWithFreshSession :: "sys \<Rightarrow> ctx \<Rightarrow> flow_row \<Rightarrow> Flow \<Rightarrow> FlowConsentRef list \<Rightarrow> FlowState tx" where
  "signupCompleteWithFreshSession sy c row f accepted =
     (let f = signup_completed f in
      tx_bind (withTx (
        tx_bind (signupRecordAcceptedConsents sy c f accepted) (\<lambda>_.
        tx_bind (FindIamUser ErrNotFound (fo_user_id f)) (\<lambda>userRow.
        tx_bind (coreAuthLoadAccount userRow (fo_project_id f)) (\<lambda>acc.
        tx_bind (coreAuthMintSession sy c acc [] [''pwd''] 1) (\<lambda>sess.
        tx_bind (flowRotate sy row f) (\<lambda>token. ret (token, sess)))))))) (\<lambda>(token, sess).
        ret \<lparr>sta_token = token, sta_flow = f, sta_session = Some sess\<rparr>))"

definition flowCompleteOrGateConsents :: "sys \<Rightarrow> ctx \<Rightarrow> flow_row \<Rightarrow> Flow \<Rightarrow> FlowSubmitCmd \<Rightarrow> Session option \<Rightarrow> FlowState tx" where
  "flowCompleteOrGateConsents sy c row f cmd sess =
     (let required = flowRequiredConsentDocs f in
      if required = [] then signupCompleteWithExistingSession sy c row f (fd_consents_accepted f) sess
      else if missingRequiredConsents required (fd_consents_accepted f) = []
      then tx_bind (signupRevokeProvisionalSession sy c f sess) (\<lambda>_.
             signupCompleteWithFreshSession sy c row f (fd_consents_accepted f))
      else tx_bind (signupRevokeProvisionalSession sy c f sess) (\<lambda>_.
             save_state cmd row (f\<lparr>fo_step := ''accept_consents'', fd_error := None\<rparr>)))"

definition signupVerifyEmail :: "sys \<Rightarrow> ctx \<Rightarrow> flow_row \<Rightarrow> Flow \<Rightarrow> FlowSubmitCmd \<Rightarrow> FlowState tx" where
  "signupVerifyEmail sy c row f cmd =
     (case fd_active f of
        None \<Rightarrow> throw (bad_request ''no active email challenge'')
      | Some challenge \<Rightarrow>
          let (code, token) = flowVerificationSecret cmd in
          if code = [] \<and> token = [] then throw (bad_request ''code or token is required'')
          else if ac_attempts_left challenge \<le> 0 then throw exhausted
          else tx_handle (VerifyEmail sy c (flowVerifyConsumeCmd (fo_project_id f) (fo_user_id f) (ac_challenge_id challenge) code token))
                 (\<lambda>_. signinWrongCode cmd row f incorrect_code) (\<lambda>(acct, sess).
            let f = f\<lparr>fd_active := None, fd_error := None, fo_user_id := acc_id acct\<rparr> in
            if fd_password_strategy f = ''after_verify'' then save_state cmd row (f\<lparr>fo_step := ''set_password''\<rparr>)
            else flowCompleteOrGateConsents sy c row f cmd (Some sess)))"

definition signupSetPassword :: "sys \<Rightarrow> ctx \<Rightarrow> flow_row \<Rightarrow> Flow \<Rightarrow> FlowSubmitCmd \<Rightarrow> FlowState tx" where
  "signupSetPassword sy c row f cmd =
     (if fo_user_id f = [] then throw (bad_request ''no verified user for signup'')
      else
        let password = payload_at cmd ''password'' in
        if password = [] then throw (bad_request ''password is required'')
        else
          tx_bind (withTx (
            tx_bind (FindIamUser ErrNotFound (fo_user_id f)) (\<lambda>userRow.
            tx_bind (coreAuthLoadAccount userRow (fo_project_id f)) (\<lambda>acc.
            tx_bind (coreAuthEnforcePasswordPolicy sy c (acc_project_id acc) password) (\<lambda>_.
            tx_bind (coreAuthHashPassword sy password) (\<lambda>hash.
            tx_bind (coreAuthUpsertPasswordCredential sy c (acc_project_id acc) (acc_id acc) hash) (\<lambda>_.
              coreAuthMintSession sy c acc [] [''pwd''] 1))))))) (\<lambda>sess.
            flowCompleteOrGateConsents sy c row f cmd (Some sess)))"

definition signupAcceptConsents :: "sys \<Rightarrow> ports \<Rightarrow> ctx \<Rightarrow> flow_row \<Rightarrow> Flow \<Rightarrow> FlowSubmitCmd \<Rightarrow> FlowState tx" where
  "signupAcceptConsents sy po c row f cmd =
     (if fo_user_id f = [] then throw (bad_request ''no verified user for signup'')
      else
        let rawAccept = (if payload_at cmd ''accept'' = [] then payload_at cmd ''consents'' else payload_at cmd ''accept'') in
        tx_bind (lift_res (parseConsentAccept po rawAccept)) (\<lambda>submitted.
        let accepted = mergeConsentAcceptances [fd_consents_accepted f, submitted];
            missing = missingRequiredConsents (flowRequiredConsentDocs f) accepted in
        if missing \<noteq> [] then throw (WithDetails (consentRefDetails missing) ErrConsentRequired)
        else signupCompleteWithFreshSession sy c row f accepted))"

definition advanceSignup :: "sys \<Rightarrow> ports \<Rightarrow> ctx \<Rightarrow> flow_row \<Rightarrow> Flow \<Rightarrow> FlowSubmitCmd \<Rightarrow> FlowState tx" where
  "advanceSignup sy po c row f cmd =
     (if fo_step f = ''verify_email''
      then (if fb_action cmd \<noteq> flowActionVerifyEmail then throw (bad_request ''expected action verify_email'')
            else signupVerifyEmail sy c row f cmd)
      else if fo_step f = ''set_password''
      then (if fb_action cmd \<noteq> ''set_password'' then throw (bad_request ''expected action set_password'')
            else signupSetPassword sy c row f cmd)
      else if fo_step f = ''accept_consents''
      then (if fb_action cmd \<noteq> ''accept_consents'' then throw (bad_request ''expected action accept_consents'')
            else signupAcceptConsents sy po c row f cmd)
      else throw (bad_request (''unexpected step '' @ po_quote po (fo_step f) @ '' for signup'')))"

section \<open>Sign-in\<close>

definition signin_data :: "Flow \<Rightarrow> flowData" where
  "signin_data f = (contact_data f)\<lparr>fd_active := fd_active f, fd_method := fd_method f, fd_available_methods := fd_available_methods f\<rparr>"

definition signinAvailableMethods :: "Account \<Rightarrow> string list" where
  "signinAvailableMethods acc =
     (if acc_primary_email acc \<noteq> [] then [''magic_link''] else []) @ (if acc_primary_phone acc \<noteq> [] then [''phone_otp''] else [])"

definition createSigninPassword :: "sys \<Rightarrow> ctx \<Rightarrow> Flow \<Rightarrow> FlowCreateCmd \<Rightarrow> FlowState tx" where
  "createSigninPassword sy c f cmd =
     tx_bind (AuthenticatePassword sy c (fo_project_id f) (fc_email cmd) (fc_password cmd)) (\<lambda>res.
       if \<not> pw_mfa_required res
       then let f = f\<lparr>fo_user_id := acc_id (pw_account res), fo_status := ''completed'', fo_step := ''completed'',
                      fd_available_methods := signinAvailableMethods (pw_account res)\<rparr> in
            tx_bind (persist_new sy f ((signin_data f)\<lparr>fd_active := None\<rparr>)) (\<lambda>st. ret (st\<lparr>sta_session := pw_session res\<rparr>))
       else if mfaPrimaryFactorID (pw_factors res) = [] then throw ErrMFAInvalid
       else tx_bind (mfa_Challenge sy c (acc_id (pw_account res)) (mfaPrimaryFactorID (pw_factors res))) (\<lambda>ch.
         let f = f\<lparr>fo_user_id := acc_id (pw_account res), fo_step := ''mfa_required'', fd_available_methods := [],
                   fd_active := Some (active_challenge c ch (cl_type ch))\<rparr> in
         persist_new sy f (signin_data f)))"

definition signinPersistChallenge :: "sys \<Rightarrow> ctx \<Rightarrow> Flow \<Rightarrow> string \<Rightarrow> string \<Rightarrow> Challenge \<Rightarrow> FlowState tx" where
  "signinPersistChallenge sy c f step channel ch =
     (let f = f\<lparr>fo_step := step, fd_active := Some (active_challenge c ch channel)\<rparr> in persist_new sy f (signin_data f))"

definition createSigninPhoneOTP :: "sys \<Rightarrow> ctx \<Rightarrow> Flow \<Rightarrow> FlowCreateCmd \<Rightarrow> FlowState tx" where
  "createSigninPhoneOTP sy c f cmd =
     (if fc_phone cmd = [] then throw (bad_request ''phone is required for phone_otp signin'')
      else tx_bind (StartOTP sy c (fo_project_id f) (fc_phone cmd) channelSMS ''signin'' (fc_locale cmd)) (\<lambda>ch.
             signinPersistChallenge sy c f ''verify_phone'' channelSMS ch))"

definition createSigninMagicLink :: "sys \<Rightarrow> ctx \<Rightarrow> Flow \<Rightarrow> FlowCreateCmd \<Rightarrow> FlowState tx" where
  "createSigninMagicLink sy c f cmd =
     (if fc_email cmd = [] then throw (bad_request ''email is required for magic_link signin'')
      else tx_bind (StartMagicLink sy c (fo_project_id f) (fc_email cmd) (fc_redirect_to cmd) (fc_locale cmd)) (\<lambda>(ch, _).
             signinPersistChallenge sy c f ''verify_email'' coreAuthChallengeEmail ch))"

definition createSigninPasskey :: "sys \<Rightarrow> ports \<Rightarrow> ctx \<Rightarrow> Flow \<Rightarrow> FlowCreateCmd \<Rightarrow> FlowState tx" where
  "createSigninPasskey sy po c f cmd =
     (if fc_email cmd = [] then throw (bad_request ''email is required for passkey signin'')
      else tx_bind (po_begin_passkey po c (fo_project_id f) (fc_email cmd)) (\<lambda>(ch, publicKey).
        let f = f\<lparr>fo_step := ''collect_credentials'', fd_active := Some ((active_challenge c ch ''passkey'')\<lparr>ac_public_key := publicKey\<rparr>)\<rparr> in
        persist_new sy f (signin_data f)))"

definition createSigninOAuth :: "sys \<Rightarrow> ports \<Rightarrow> ctx \<Rightarrow> Flow \<Rightarrow> FlowCreateCmd \<Rightarrow> FlowState tx" where
  "createSigninOAuth sy po c f cmd =
     (if fc_provider cmd = [] then throw (bad_request ''provider is required for oauth signin'')
      else
        tx_bind (coreAuthRandomToken sy) (\<lambda>state.
        tx_bind (po_start_oauth po c (fo_project_id f) (fc_provider cmd) state (fc_redirect_to cmd)) (\<lambda>url.
        let f = f\<lparr>fo_step := ''collect_credentials'',
                  fd_active := Some \<lparr>ac_challenge_id = state, ac_channel = ''oauth'', ac_expires_at = cx_now c + flowTTL,
                    ac_resend_at = cx_now c + flowResendCooloff, ac_attempts_left = flowMaxAttempts, ac_code = [], ac_token = [],
                    ac_public_key = None, ac_redirect_url = url, ac_provider = fc_provider cmd\<rparr>\<rparr> in
        persist_new sy f (signin_data f))))"

definition createSignin :: "sys \<Rightarrow> ports \<Rightarrow> ctx \<Rightarrow> Flow \<Rightarrow> FlowCreateCmd \<Rightarrow> FlowState tx" where
  "createSignin sy po c f cmd =
     (let m = (if fc_method cmd = [] then ''password'' else fc_method cmd); f = f\<lparr>fd_method := m\<rparr> in
      if m = ''password'' then createSigninPassword sy c f cmd
      else if m = ''phone_otp'' then createSigninPhoneOTP sy c f cmd
      else if m = ''magic_link'' then createSigninMagicLink sy c f cmd
      else if m = ''passkey'' then createSigninPasskey sy po c f cmd
      else if m = ''oauth'' then createSigninOAuth sy po c f cmd
      else throw (bad_request (''unsupported signin method '' @ po_quote po m)))"

definition signinCompleteWithSession :: "sys \<Rightarrow> flow_row \<Rightarrow> Flow \<Rightarrow> Session \<Rightarrow> FlowState tx" where
  "signinCompleteWithSession sy row f sess =
     (let f = (completed_flow f)\<lparr>fd_active := None\<rparr> in
      tx_bind (withTx (flowRotate sy row f)) (\<lambda>newToken.
        ret \<lparr>sta_token = newToken, sta_flow = f, sta_session = Some sess\<rparr>))"

definition signinVerifyMFA :: "sys \<Rightarrow> ctx \<Rightarrow> flow_row \<Rightarrow> Flow \<Rightarrow> FlowSubmitCmd \<Rightarrow> FlowState tx" where
  "signinVerifyMFA sy c row f cmd =
     (case fd_active f of
        None \<Rightarrow> throw (bad_request ''no active MFA challenge'')
      | Some challenge \<Rightarrow>
          if payload_at cmd ''code'' = [] then throw (bad_request ''code is required'')
          else if ac_attempts_left challenge \<le> 0 then throw exhausted
          else tx_handle (mfa_Verify sy c (ac_challenge_id challenge) (payload_at cmd ''code''))
                 (\<lambda>_. signinWrongCode cmd row f ''The MFA code is incorrect.'')
                 (\<lambda>(_, sess). signinCompleteWithSession sy row f sess))"

definition signinVerifyOTP :: "sys \<Rightarrow> ctx \<Rightarrow> flow_row \<Rightarrow> Flow \<Rightarrow> FlowSubmitCmd \<Rightarrow> FlowState tx" where
  "signinVerifyOTP sy c row f cmd =
     (case fd_active f of
        None \<Rightarrow> throw (bad_request ''no active otp challenge'')
      | Some challenge \<Rightarrow>
          if payload_at cmd ''code'' = [] then throw (bad_request ''code is required'')
          else if ac_attempts_left challenge \<le> 0 then throw exhausted
          else tx_handle (VerifyOTP sy c (ac_challenge_id challenge) (payload_at cmd ''code''))
                 (\<lambda>e. if err_is e ErrRateLimited then throw e else signinWrongCode cmd row f incorrect_code)
                 (\<lambda>(_, sess). signinCompleteWithSession sy row f sess))"

definition signinVerifyMagicLink :: "sys \<Rightarrow> ctx \<Rightarrow> flow_row \<Rightarrow> Flow \<Rightarrow> FlowSubmitCmd \<Rightarrow> FlowState tx" where
  "signinVerifyMagicLink sy c row f cmd =
     (if payload_at cmd ''token'' = [] then throw (bad_request ''token is required'')
      else tx_handle (VerifyMagicLink sy c (payload_at cmd ''token''))
             (\<lambda>_. signinWrongCode cmd row f ''The magic link is invalid or expired.'')
             (\<lambda>(_, sess). signinCompleteWithSession sy row f sess))"

definition signinVerifyPasskey :: "sys \<Rightarrow> ports \<Rightarrow> ctx \<Rightarrow> flow_row \<Rightarrow> Flow \<Rightarrow> FlowSubmitCmd \<Rightarrow> FlowState tx" where
  "signinVerifyPasskey sy po c row f cmd =
     (case fd_active f of
        None \<Rightarrow> throw (bad_request ''no active passkey challenge'')
      | Some challenge \<Rightarrow>
          if payload_at cmd ''credential'' = [] then throw (bad_request ''credential is required'')
          else case po_json_object po (payload_at cmd ''credential'') of
                 None \<Rightarrow> throw (bad_request ''credential must be a JSON object'')
               | Some cred \<Rightarrow>
                   tx_handle (po_finish_passkey po c (ac_challenge_id challenge) cred)
                     (\<lambda>_. signinWrongCode cmd row f ''Passkey verification failed.'') (\<lambda>sess. signinCompleteWithSession sy row f sess))"

definition signinOAuthCallback :: "sys \<Rightarrow> ports \<Rightarrow> ctx \<Rightarrow> flow_row \<Rightarrow> Flow \<Rightarrow> FlowSubmitCmd \<Rightarrow> FlowState tx" where
  "signinOAuthCallback sy po c row f cmd =
     (case fd_active f of
        None \<Rightarrow> throw (bad_request ''no active oauth challenge'')
      | Some challenge \<Rightarrow>
          if payload_at cmd ''code'' = [] then throw (bad_request ''code is required'')
          else tx_handle (po_complete_oauth po c (fo_project_id f) (ac_provider challenge) (payload_at cmd ''code''))
                 (\<lambda>_. signinWrongCode cmd row f ''OAuth sign-in failed.'') (\<lambda>sess. signinCompleteWithSession sy row f sess))"

definition signinSwitchPersist :: "ctx \<Rightarrow> flow_row \<Rightarrow> Flow \<Rightarrow> FlowSubmitCmd \<Rightarrow> string \<Rightarrow> string \<Rightarrow> string \<Rightarrow> Challenge \<Rightarrow> FlowState tx" where
  "signinSwitchPersist c row f cmd m step channel ch =
     save_state cmd row (f\<lparr>fd_method := m, fo_step := step, fd_error := None, fd_active := Some (active_challenge c ch channel)\<rparr>)"

definition signinSwitchMethod :: "sys \<Rightarrow> ports \<Rightarrow> ctx \<Rightarrow> flow_row \<Rightarrow> Flow \<Rightarrow> FlowSubmitCmd \<Rightarrow> FlowState tx" where
  "signinSwitchMethod sy po c row f cmd =
     (let m = payload_at cmd ''method'' in
      if m = [] then throw (bad_request ''method is required for switch_method'')
      else if m = fd_method f then throw (bad_request ''already using that method'')
      else if m = ''phone_otp''
      then (let phone = (if payload_at cmd ''phone'' = [] then fd_phone f else payload_at cmd ''phone'') in
            if phone = [] then throw (bad_request ''phone is required to switch to phone_otp'')
            else tx_bind (StartOTP sy c (fo_project_id f) phone channelSMS ''signin'' (fd_locale f)) (\<lambda>ch.
              signinSwitchPersist c row (f\<lparr>fd_phone := phone\<rparr>) cmd m ''verify_phone'' channelSMS ch))
      else if m = ''magic_link''
      then (if fd_email f = [] then throw (bad_request ''email is required to switch to magic_link'')
            else tx_bind (StartMagicLink sy c (fo_project_id f) (fd_email f) (payload_at cmd ''redirect_to'') (fd_locale f)) (\<lambda>(ch, _).
              signinSwitchPersist c row f cmd m ''verify_email'' coreAuthChallengeEmail ch))
      else throw (bad_request (''cannot switch to method '' @ po_quote po m)))"

definition advanceSignin :: "sys \<Rightarrow> ports \<Rightarrow> ctx \<Rightarrow> flow_row \<Rightarrow> Flow \<Rightarrow> FlowSubmitCmd \<Rightarrow> FlowState tx" where
  "advanceSignin sy po c row f cmd =
     (if fb_action cmd = ''switch_method''
      then (if fo_step f = ''mfa_required''
            then throw (bad_request ''cannot switch method at mfa_required: complete an enrolled second factor'')
            else signinSwitchMethod sy po c row f cmd)
      else if fo_step f = ''mfa_required''
      then (if fb_action cmd \<noteq> ''mfa'' then throw (bad_request ''expected action \"mfa\" at step mfa_required'')
            else signinVerifyMFA sy c row f cmd)
      else if fo_step f = ''verify_phone''
      then (if fb_action cmd \<noteq> ''verify_otp'' then throw (bad_request ''expected action \"verify_otp\" at step verify_phone'')
            else signinVerifyOTP sy c row f cmd)
      else if fo_step f = ''verify_email''
      then (if fb_action cmd \<noteq> flowActionVerifyEmail then throw (bad_request ''expected action \"verify_email\" at step verify_email'')
            else signinVerifyMagicLink sy c row f cmd)
      else if fo_step f = ''collect_credentials''
      then (if fb_action cmd = ''verify_passkey'' then signinVerifyPasskey sy po c row f cmd
            else if fb_action cmd = ''oauth_callback'' then signinOAuthCallback sy po c row f cmd
            else throw (bad_request ''expected action \"verify_passkey\" or \"oauth_callback\" at step collect_credentials''))
      else throw (bad_request (''unexpected step '' @ po_quote po (fo_step f) @ '' for signin'')))"


section \<open>Recovery\<close>

definition reset_challenge :: "sys \<Rightarrow> ctx \<Rightarrow> string \<Rightarrow> string \<Rightarrow> string \<Rightarrow> string \<Rightarrow> string \<Rightarrow> string \<Rightarrow> string \<Rightarrow> (coreAuthChallengeData \<times> string \<times> string) tx" where
  "reset_challenge sy c projectID env chType accountID subject redirectTo locale =
     tx_bind (coreAuthRandomCode sy) (\<lambda>code.
     tx_bind (coreAuthRandomToken sy) (\<lambda>token.
     tx_bind (newUUID sy) (\<lambda>i.
       ret (\<lparr>cg_id = i, cg_project_id = projectID, cg_environment = env, cg_type = chType, cg_purpose = ''reset'',
             cg_account_id = accountID, cg_subject = subject, cg_code_hash = coreAuthSHA256 sy code, cg_token_hash = coreAuthSHA256 sy token,
             cg_redirect_to = redirectTo, cg_locale = locale, cg_channel = [], cg_expires_at = cx_now c + coreAuthChallengeTTL,
             cg_created_at = cx_now c\<rparr>, code, token))))"

text \<open>The descriptor of a challenge with no row behind it, for an address with no account.\<close>

definition dangling_challenge :: "ctx \<Rightarrow> string \<Rightarrow> string \<Rightarrow> FlowActiveChallenge" where
  "dangling_challenge c i channel = active_challenge c \<lparr>cl_id = i, cl_type = [], cl_expires_at = cx_now c + coreAuthChallengeTTL, cl_code = [], cl_token = []\<rparr> channel"

definition recoveryEmailChallenge :: "sys \<Rightarrow> ctx \<Rightarrow> Flow \<Rightarrow> FlowCreateCmd \<Rightarrow> (Flow \<times> FlowActiveChallenge) tx" where
  "recoveryEmailChallenge sy c f cmd =
     tx_handle (coreAuthFindUserByEmail sy c (fc_project_id cmd) (fc_email cmd))
       (\<lambda>e. if \<not> err_is e ErrUserNotFound then throw e
             else tx_bind (newUUID sy) (\<lambda>i. ret (f, dangling_challenge c i coreAuthChallengeEmail)))
       (\<lambda>userRow.
          tx_bind (coreAuthLoadAccount userRow (fc_project_id cmd)) (\<lambda>acc.
          tx_bind (reset_challenge sy c (fc_project_id cmd) (fo_environment f) ''password_reset'' (acc_id acc) (fc_email cmd)
                     (fc_redirect_to cmd) (fc_locale cmd)) (\<lambda>(ch, code, token).
          tx_bind (withTx (coreAuthInsertChallenge sy c ch)) (\<lambda>issued.
            ret (f\<lparr>fo_user_id := acc_id acc\<rparr>, (active_challenge c issued coreAuthChallengeEmail)\<lparr>ac_code := code, ac_token := token\<rparr>)))))"

definition finalizeRecoveryFlow :: "sys \<Rightarrow> Flow \<Rightarrow> FlowActiveChallenge \<Rightarrow> flowData \<Rightarrow> FlowState tx" where
  "finalizeRecoveryFlow sy f ac flowRecord =
     persist_new sy (f\<lparr>fd_active := Some ac\<rparr>) (flowRecord\<lparr>fd_active := Some ac\<rparr>)"

definition issuePhoneResetChallenge :: "sys \<Rightarrow> ctx \<Rightarrow> coreAuthChallengeData \<Rightarrow> string \<Rightarrow> string \<Rightarrow> string \<Rightarrow> string \<Rightarrow> string \<Rightarrow> unit tx" where
  "issuePhoneResetChallenge sy c ch environment accountID phone locale code =
     withTx (tx_bind (coreAuthInsertChallenge sy c ch) (\<lambda>_.
       Emit sy c ''phone.verification.requested'' (cg_project_id ch) environment accountID
         (PFields [(''code'', DStr code), (''channel'', DStr channelSMS), (''purpose'', DStr ''reset''), (''account_id'', DStr accountID),
            (''challenge_id'', DStr (cg_id ch)), (''contact'', DStr phone), (''to'', DStr phone), (''locale'', DStr locale)])))"

definition recoveryPhoneChallenge :: "sys \<Rightarrow> ctx \<Rightarrow> Flow \<Rightarrow> FlowCreateCmd \<Rightarrow> string \<Rightarrow> (Flow \<times> FlowActiveChallenge) tx" where
  "recoveryPhoneChallenge sy c f cmd phone =
     tx_handle (coreAuthFindUserByPhone sy c (fc_project_id cmd) phone)
       (\<lambda>e. if \<not> err_is e ErrUserNotFound then throw e
             else tx_bind (newUUID sy) (\<lambda>i. ret (f, dangling_challenge c i channelSMS)))
       (\<lambda>userRow.
          tx_bind (coreAuthLoadAccount userRow (fc_project_id cmd)) (\<lambda>acc.
          tx_bind (reset_challenge sy c (fc_project_id cmd) (fo_environment f) coreAuthChallengePhone (acc_id acc) phone [] (fc_locale cmd))
            (\<lambda>(ch, code, token).
          tx_bind (issuePhoneResetChallenge sy c ch (fo_environment f) (acc_id acc) phone (fc_locale cmd) code) (\<lambda>_.
            ret (f\<lparr>fo_user_id := acc_id acc\<rparr>, dangling_challenge c (cg_id ch) channelSMS)))))"

definition createRecoveryPhone :: "sys \<Rightarrow> ctx \<Rightarrow> Flow \<Rightarrow> FlowCreateCmd \<Rightarrow> FlowState tx" where
  "createRecoveryPhone sy c f cmd =
     (let f = f\<lparr>fd_method := ''phone_otp'', fo_step := ''verify_phone''\<rparr>; phone = trim_space (fc_phone cmd) in
      if \<not> e164 phone then throw (bad_request ''phone must be a valid E.164 number'')
      else tx_bind (providerEnabled (fc_project_id cmd) channelSMS) (\<lambda>ok.
        if \<not> ok then throw (WithMessage ''an enabled sms provider is required for phone recovery'' ErrValidation)
        else tx_bind (recoveryPhoneChallenge sy c f cmd phone) (\<lambda>(f, ac).
          finalizeRecoveryFlow sy f ac ((contact_data f)\<lparr>fd_method := fd_method f\<rparr>))))"

definition createRecovery :: "sys \<Rightarrow> ctx \<Rightarrow> Flow \<Rightarrow> FlowCreateCmd \<Rightarrow> FlowState tx" where
  "createRecovery sy c f cmd =
     (if fc_method cmd = ''phone_otp'' then createRecoveryPhone sy c f cmd
      else
        let f = f\<lparr>fd_method := coreAuthChallengeEmail, fo_step := ''verify_email''\<rparr> in
        tx_bind (recoveryEmailChallenge sy c f cmd) (\<lambda>(f, ac).
          finalizeRecoveryFlow sy f ac (contact_data f)))"

text \<open>The common tail of the two verification steps: a wrong secret costs an attempt, the right one leads to the new password.\<close>

definition recovery_verified :: "flow_row \<Rightarrow> Flow \<Rightarrow> FlowSubmitCmd \<Rightarrow> coreAuthChallengeData tx \<Rightarrow> FlowState tx" where
  "recovery_verified row f cmd consume_it =
     tx_handle (withTx consume_it) (\<lambda>_. signinWrongCode cmd row f incorrect_code) (\<lambda>data.
       save_state cmd row (f\<lparr>fo_user_id := cg_account_id data, fo_step := ''set_password'', fd_active := None, fd_error := None\<rparr>))"

definition recoveryVerifyEmail :: "sys \<Rightarrow> ctx \<Rightarrow> flow_row \<Rightarrow> Flow \<Rightarrow> FlowSubmitCmd \<Rightarrow> FlowState tx" where
  "recoveryVerifyEmail sy c row f cmd =
     (case fd_active f of
        None \<Rightarrow> throw (bad_request ''no active email challenge'')
      | Some activeChallenge \<Rightarrow>
          let (code, token) = flowVerificationSecret cmd in
          if code = [] \<and> token = [] then throw (bad_request ''code or token is required'')
          else if ac_attempts_left activeChallenge \<le> 0 then throw exhausted
          else recovery_verified row f cmd
                 (coreAuthConsumeChallenge sy c (fo_project_id f)
                    (flowVerifyConsumeCmd (fo_project_id f) [] (ac_challenge_id activeChallenge) code token) ''password_reset''))"

definition recoveryVerifyPhone :: "sys \<Rightarrow> ctx \<Rightarrow> flow_row \<Rightarrow> Flow \<Rightarrow> FlowSubmitCmd \<Rightarrow> FlowState tx" where
  "recoveryVerifyPhone sy c row f cmd =
     (case fd_active f of
        None \<Rightarrow> throw (bad_request ''no active phone challenge'')
      | Some activeChallenge \<Rightarrow>
          if payload_at cmd ''code'' = [] then throw (bad_request ''code is required'')
          else if ac_attempts_left activeChallenge \<le> 0 then throw exhausted
          else recovery_verified row f cmd
                 (coreAuthConsumeChallenge sy c (fo_project_id f)
                    \<lparr>vc_project_id = fo_project_id f, vc_account_id = [], vc_challenge_id = ac_challenge_id activeChallenge,
                     vc_code = payload_at cmd ''code'', vc_token = []\<rparr> coreAuthChallengePhone))"

definition recoveryResetPassword :: "sys \<Rightarrow> ctx \<Rightarrow> Flow \<Rightarrow> string \<Rightarrow> Session tx" where
  "recoveryResetPassword sy c f password =
     withTx (
       tx_bind (FindIamUser ErrNotFound (fo_user_id f)) (\<lambda>userRow.
       tx_bind (coreAuthLoadAccount userRow (fo_project_id f)) (\<lambda>acc.
       tx_bind (coreAuthEnforcePasswordPolicy sy c (acc_project_id acc) password) (\<lambda>_.
       tx_bind (coreAuthHashPassword sy password) (\<lambda>hash.
       tx_bind (coreAuthUpsertPasswordCredential sy c (acc_project_id acc) (acc_id acc) hash) (\<lambda>_.
       tx_bind (coreAuthSignOutAll sy c (acc_project_id acc) (acc_id acc) []) (\<lambda>_.
       tx_bind (coreAuthMintSession sy c acc [] [''pwd''] 1) (\<lambda>sess.
       tx_bind (Emit sy c ''password.reset'' (acc_project_id acc) (fo_environment f) (acc_id acc) (PAccount acc)) (\<lambda>_.
         ret sess)))))))))"

definition recoverySetPassword :: "sys \<Rightarrow> ctx \<Rightarrow> flow_row \<Rightarrow> Flow \<Rightarrow> FlowSubmitCmd \<Rightarrow> FlowState tx" where
  "recoverySetPassword sy c row f cmd =
     (if fo_user_id f = [] then throw (bad_request ''no verified user for recovery'')
      else
        let password = payload_at cmd ''password'' in
        if password = [] then throw (bad_request ''password is required'')
        else
          tx_bind (recoveryResetPassword sy c f password) (\<lambda>sess.
          let f = (completed_flow f)\<lparr>fd_active := None\<rparr> in
          tx_bind (withTx (flowRotate sy row f)) (\<lambda>newToken.
            ret \<lparr>sta_token = newToken, sta_flow = f\<lparr>fd_has_password := True\<rparr>, sta_session = Some sess\<rparr>)))"

definition advanceRecovery :: "sys \<Rightarrow> ports \<Rightarrow> ctx \<Rightarrow> flow_row \<Rightarrow> Flow \<Rightarrow> FlowSubmitCmd \<Rightarrow> FlowState tx" where
  "advanceRecovery sy po c row f cmd =
     (if fo_step f = ''verify_email''
      then (if fb_action cmd \<noteq> flowActionVerifyEmail then throw (bad_request ''expected action verify_email'')
            else recoveryVerifyEmail sy c row f cmd)
      else if fo_step f = ''verify_phone''
      then (if fb_action cmd \<noteq> ''verify_phone'' then throw (bad_request ''expected action verify_phone'')
            else recoveryVerifyPhone sy c row f cmd)
      else if fo_step f = ''set_password''
      then (if fb_action cmd \<noteq> ''set_password'' then throw (bad_request ''expected action set_password'')
            else recoverySetPassword sy c row f cmd)
      else throw (bad_request (''unexpected step '' @ po_quote po (fo_step f) @ '' for recovery'')))"

section \<open>The engine\<close>

definition emitFlowContinue :: "sys \<Rightarrow> ctx \<Rightarrow> FlowState \<Rightarrow> string \<Rightarrow> string \<Rightarrow> unit tx" where
  "emitFlowContinue sy c state redirectTo locale =
     (let f = sta_flow state in
      if fo_status f \<noteq> ''pending'' \<or> fd_email f = [] then ret ()
      else if fo_kind f \<noteq> ''signup'' \<and> fo_kind f \<noteq> ''recovery'' then ret ()
      else case fd_active f of
             None \<Rightarrow> ret ()
           | Some challenge \<Rightarrow>
               if ac_channel challenge \<noteq> coreAuthChallengeEmail \<or> ac_code challenge = [] \<or> ac_token challenge = [] then ret ()
               else
                 let redirectTo = (if redirectTo = [] then fd_redirect_to f else redirectTo) in
                 tx_handle (Emit sy c ''auth.flow.continue'' (fo_project_id f) (fo_environment f) (fo_id f)
                   (PFields ([(''flow_token'', DStr (sta_token state)), (''token'', DStr (ac_token challenge)), (''code'', DStr (ac_code challenge)),
                       (''challenge_id'', DStr (ac_challenge_id challenge)), (''kind'', DStr (fo_kind f)), (''purpose'', DStr (fo_kind f)),
                       (''to'', DStr (fd_email f)), (''contact'', DStr (fd_email f))]
                     @ (if redirectTo \<noteq> [] then [(''redirect_to'', DStr redirectTo)] else [])
                     @ (if locale \<noteq> [] then [(''locale'', DStr locale)] else [])))) (\<lambda>_. ret ()) ret)"

definition flowCreateCollect :: "sys \<Rightarrow> Flow \<Rightarrow> FlowState tx" where
  "flowCreateCollect sy f = persist_new sy f (contact_data f)"

definition new_flow :: "ctx \<Rightarrow> string \<Rightarrow> FlowCreateCmd \<Rightarrow> string \<Rightarrow> Flow" where
  "new_flow c i cmd env =
     \<lparr>fd_locale = fc_locale cmd, fd_redirect_to = fc_redirect_to cmd, fd_email = fc_email cmd, fd_phone = fc_phone cmd, fd_name = fc_name cmd,
      fd_has_password = (fc_password cmd \<noteq> []), fd_active = None, fd_consents_required = [], fd_consents_accepted = fc_consents cmd,
      fd_registration_mode = [], fd_password_strategy = [], fd_error = None, fd_method = fc_method cmd, fd_available_methods = [],
      fd_cookie_mode = fc_cookie_mode cmd, fo_id = i, fo_project_id = fc_project_id cmd, fo_environment = env, fo_kind = fc_kind cmd,
      fo_status = ''pending'', fo_step = ''collect_credentials'', fo_user_id = [], fo_expires_at = cx_now c + flowTTL\<rparr>"

text \<open>The table of the kinds, as the three files register them.\<close>

definition flowCreators :: "sys \<Rightarrow> ports \<Rightarrow> ctx \<Rightarrow> Flow \<Rightarrow> FlowCreateCmd \<Rightarrow> FlowState tx" where
  "flowCreators sy po c f cmd =
     (if fc_kind cmd = ''signup'' then advanceSignupCreate sy po c f cmd
      else if fc_kind cmd = ''signin'' then createSignin sy po c f cmd
      else if fc_kind cmd = ''recovery'' then createRecovery sy c f cmd
      else flowCreateCollect sy f)"

definition Create :: "sys \<Rightarrow> ports \<Rightarrow> ctx \<Rightarrow> FlowCreateCmd \<Rightarrow> FlowState tx" where
  "Create sy po c cmd =
     (if fc_kind cmd = ''email_change''
      then throw (bad_request ''email_change is not a resumable-flow kind; use the /v1/auth/email/change endpoints'')
      else
        tx_bind (effectiveEnv sy c (fc_project_id cmd)) (\<lambda>env.
        tx_bind (EnforceCaptcha sy po c (fc_project_id cmd) (fc_captcha_token cmd)) (\<lambda>_.
        tx_bind (IsBlocked c (fc_project_id cmd) [rm_ip (cx_meta c), fc_email cmd, fc_phone cmd]) (\<lambda>blocked.
          if blocked then throw (WithMessage ''blocked'' ErrForbidden)
          else
            tx_bind (newUUID sy) (\<lambda>i.
            tx_bind (flowCreators sy po c (new_flow c i cmd env) cmd) (\<lambda>state.
            tx_bind (emitFlowContinue sy c state (fc_redirect_to cmd) (fc_locale cmd)) (\<lambda>_.
              ret state)))))))"

definition Get :: "sys \<Rightarrow> ctx \<Rightarrow> string \<Rightarrow> string \<Rightarrow> FlowState tx" where
  "Get sy c projectID flowToken = tx_bind (flowLoad sy c projectID flowToken) (\<lambda>(_, f). ret (flow_state flowToken f))"

definition flowAdvancers :: "sys \<Rightarrow> ports \<Rightarrow> ctx \<Rightarrow> flow_row \<Rightarrow> Flow \<Rightarrow> FlowSubmitCmd \<Rightarrow> FlowState tx" where
  "flowAdvancers sy po c row f cmd =
     (if fo_kind f = ''signup'' then advanceSignup sy po c row f cmd
      else if fo_kind f = ''signin'' then advanceSignin sy po c row f cmd
      else if fo_kind f = ''recovery'' then advanceRecovery sy po c row f cmd
      else throw ErrNotImplemented)"

definition Submit :: "sys \<Rightarrow> ports \<Rightarrow> ctx \<Rightarrow> FlowSubmitCmd \<Rightarrow> FlowState tx" where
  "Submit sy po c cmd =
     tx_bind (flowLoad sy c (fb_project_id cmd) (fb_flow_token cmd)) (\<lambda>(row, f). flowAdvancers sy po c row f cmd)"

definition flowIssueRecoveryEmailChallenge :: "sys \<Rightarrow> ctx \<Rightarrow> Flow \<Rightarrow> Challenge tx" where
  "flowIssueRecoveryEmailChallenge sy c f =
     (if fo_user_id f = []
      then tx_bind (newUUID sy) (\<lambda>i.
             ret \<lparr>cl_id = i, cl_type = ''password_reset'', cl_expires_at = cx_now c + coreAuthChallengeTTL, cl_code = [], cl_token = []\<rparr>)
      else
        tx_bind (reset_challenge sy c (fo_project_id f) (fo_environment f) ''password_reset'' (fo_user_id f) (fd_email f) (fd_redirect_to f) (fd_locale f))
          (\<lambda>(data, code, token).
        tx_bind (withTx (coreAuthInsertChallenge sy c data)) (\<lambda>ch.
          ret (ch\<lparr>cl_code := code, cl_token := token\<rparr>))))"

definition flowReissueChallenge :: "sys \<Rightarrow> ctx \<Rightarrow> Flow \<Rightarrow> FlowActiveChallenge \<Rightarrow> (Challenge \<times> string) tx" where
  "flowReissueChallenge sy c f ac =
     (if ac_channel ac = channelSMS \<or> fd_method f = ''phone_otp''
      then tx_bind (StartOTP sy c (fo_project_id f) (fd_phone f) channelSMS (if fo_kind f = ''recovery'' then ''recovery'' else ''signin'') (fd_locale f)) (\<lambda>ch.
             ret (ch, channelSMS))
      else if fd_method f = ''magic_link''
      then tx_bind (StartMagicLink sy c (fo_project_id f) (fd_email f) [] (fd_locale f)) (\<lambda>(ch, _). ret (ch, coreAuthChallengeEmail))
      else if fo_kind f = ''recovery''
      then tx_bind (flowIssueRecoveryEmailChallenge sy c f) (\<lambda>ch. ret (ch, coreAuthChallengeEmail))
      else tx_bind (StartEmailVerification sy c \<lparr>vs_project_id = fo_project_id f, vs_account_id = fo_user_id f, vs_contact = fd_email f,
                      vs_redirect_to = [], vs_locale = fd_locale f, vs_channel = [], vs_suppress_email = True\<rparr>) (\<lambda>ch.
             ret (ch, coreAuthChallengeEmail)))"

definition Resend :: "sys \<Rightarrow> ctx \<Rightarrow> string \<Rightarrow> string \<Rightarrow> FlowState tx" where
  "Resend sy c projectID flowToken =
     tx_bind (flowLoad sy c projectID flowToken) (\<lambda>(row, f).
       case fd_active f of
         None \<Rightarrow> throw (bad_request ''no active challenge to resend'')
       | Some challenge \<Rightarrow>
           if nowIn c < ac_resend_at challenge
           then throw (WithDetails [(''resend_at'', DInt (ac_resend_at challenge div Second))] ErrFlowResendTooSoon)
           else
             tx_bind (flowReissueChallenge sy c f challenge) (\<lambda>(ch, channel).
             let f = f\<lparr>fd_active := Some (mailed_challenge c ch channel), fd_error := None\<rparr> in
             tx_bind (withTx (flowSave row f)) (\<lambda>_.
             let state = flow_state flowToken f in
             tx_bind (emitFlowContinue sy c state (fd_redirect_to f) (fd_locale f)) (\<lambda>_.
               ret state))))"

definition Abandon :: "sys \<Rightarrow> ctx \<Rightarrow> string \<Rightarrow> string \<Rightarrow> unit tx" where
  "Abandon sy c projectID flowToken =
     tx_handle (flowLoad sy c projectID flowToken) (\<lambda>_. ret ()) (\<lambda>(row, f).
       withTx (flowSave row (f\<lparr>fo_status := ''aborted''\<rparr>)))"

section \<open>What the API answers (pkg/api/core_auth_flows.go)\<close>

definition flowNextActions :: "Flow \<Rightarrow> string list" where
  "flowNextActions f =
     (if fo_status f \<noteq> ''pending'' then []
      else
        (if fo_step f = ''collect_credentials'' then [''submit'']
         else if fo_step f = ''verify_email'' then [''verify_email''] @ (if fd_active f \<noteq> None then [''resend''] else [])
         else if fo_step f = ''verify_phone''
         then [if fo_kind f = ''signin'' then ''verify_otp'' else ''verify_email''] @ (if fd_active f \<noteq> None then [''resend''] else [])
         else if fo_step f = ''set_password'' then [''set_password'']
         else if fo_step f = ''mfa_required'' then [''verify_mfa'']
         else if fo_step f = ''accept_consents'' then [''accept_consents'']
         else if fo_step f = ''request_access'' then [''submit_access_request'']
         else [])
        @ (if fd_available_methods f \<noteq> [] then [''switch_method''] else []))"

definition maskEmail :: "string \<Rightarrow> string" where
  "maskEmail email =
     (let local = takeWhile (\<lambda>ch. ch \<noteq> CHR ''@'') email; host = dropWhile (\<lambda>ch. ch \<noteq> CHR ''@'') email in
      if host = [] then ''***''
      else if length local \<le> 1 then ''*'' @ host
      else [hd local] @ ''***'' @ host)"

definition maskPhoneVisibleDigits :: nat where "maskPhoneVisibleDigits = 2"

definition maskPhone :: "string \<Rightarrow> string" where
  "maskPhone phone =
     (if length phone \<le> maskPhoneVisibleDigits then ''***'' else ''***'' @ drop (length phone - maskPhoneVisibleDigits) phone)"

text \<open>Empty strings and lists stand for fields left out of the answer.\<close>

record FlowChallenge =
  wc_channel :: string
  wc_expires_at :: instant
  wc_resend_at :: instant
  wc_attempts_left :: int
  wc_public_key :: "json option"
  wc_redirect_url :: string

record SessionTokens =
  wt_access_token :: string
  wt_expires_in :: int
  wt_token_type :: string
  wt_refresh_token :: string

record oas_FlowState =
  wf_flow_token :: string
  wf_kind :: string
  wf_status :: string
  wf_step :: string
  wf_next_actions :: "string list"
  wf_expires_at :: instant
  wf_email_masked :: string
  wf_phone_masked :: string
  wf_challenge :: "FlowChallenge option"
  wf_consents_required :: "FlowConsentRef list"
  wf_error :: "(string \<times> string) option"
  wf_session :: "SessionTokens option"

definition oasSessionTokens :: "Session \<Rightarrow> SessionTokens" where
  "oasSessionTokens s =
     \<lparr>wt_access_token = se_access_token s, wt_expires_in = se_expires_in s, wt_token_type = ''Bearer'', wt_refresh_token = se_refresh_token s\<rparr>"

definition oas_challenge :: "FlowActiveChallenge \<Rightarrow> FlowChallenge" where
  "oas_challenge a =
     \<lparr>wc_channel = ac_channel a, wc_expires_at = ac_expires_at a, wc_resend_at = ac_resend_at a, wc_attempts_left = ac_attempts_left a,
      wc_public_key = ac_public_key a, wc_redirect_url = ac_redirect_url a\<rparr>"

definition oasFlowState :: "FlowState \<Rightarrow> oas_FlowState" where
  "oasFlowState st =
     (let f = sta_flow st in
      \<lparr>wf_flow_token = sta_token st, wf_kind = fo_kind f, wf_status = fo_status f, wf_step = fo_step f, wf_next_actions = flowNextActions f,
       wf_expires_at = fo_expires_at f,
       wf_email_masked = (if fd_email f \<noteq> [] then maskEmail (fd_email f) else []),
       wf_phone_masked = (if fd_phone f \<noteq> [] then maskPhone (fd_phone f) else []),
       wf_challenge = map_option oas_challenge (fd_active f), wf_consents_required = fd_consents_required f, wf_error = fd_error f,
       wf_session = map_option oasSessionTokens (sta_session st)\<rparr>)"

text \<open>The values of a submitted payload: a JSON string loses its quotes, its escapes are left as they are.\<close>

definition payload_value :: "string \<Rightarrow> string" where
  "payload_value raw =
     (if 2 \<le> length raw \<and> hd raw = CHR 0x22 \<and> last raw = CHR 0x22 then butlast (tl raw) else raw)"

end
