(* ===== verification/FlowFacts.thy ===== *)
theory FlowFacts
  imports Flows
begin

text \<open>
  What the flows guarantee: the registration policy and the required consents are enforced, a flow resumes where it was left
  and ends when it completes, a recovery tells nothing about the accounts and needs the secret it sent; and where the answers
  and the engine disagree.
\<close>

section \<open>What the steps of a flow leave alone\<close>

lemma keeps_withTx:
  assumes "keeps p m" and "pooled p m"
  shows "keeps p (withTx m)"
  unfolding keeps_def within_def
proof
  fix s
  obtain r s' where m: "m (s\<lparr>tx_pool := []\<rparr>) = (r, s')" by (cases "m (s\<lparr>tx_pool := []\<rparr>)")
  have "p (tx_db s') = p (tx_db s)" using keepsD [OF assms(1) m] by simp
  moreover obtain ws where "tx_pool s' = ws" "\<And>d. p (apply_pool ws d) = p d" by (rule pooledD [OF assms(2) m]) simp
  ultimately show "p (tx_db (snd (withTx m s))) = p (tx_db s)" using m by (cases r) (simp_all add: withTx_def)
qed

lemma keeps_config [intro!]: "keeps p (AuthConfig sy c pid)" "keeps p (ConsentConfig sy c pid)" "keeps p (default_locale sy c pid)"
  by (auto simp: AuthConfig_def ConsentConfig_def default_locale_def rawDoc_def rawDocStrict_def)

lemma keeps_flow_reads [intro!]:
  "keeps p (flowMintToken sy)" "keeps p (flowUnmarshalRow row)" "keeps p (flowLoad sy c pid t)" "keeps p (flowAuthConfig sy c pid)"
  "keeps p (flowRequiredConsents sy c pid l)" "keeps p (flowFindRedeemableInvite sy c pid t e)" "keeps p (flowAccessRequestApproved pid env e)"
proof -
  show "keeps p (flowMintToken sy)" by (auto simp: flowMintToken_def)
  show u: "keeps p (flowUnmarshalRow row)" for row by (auto simp: flowUnmarshalRow_def)
  show "keeps p (flowLoad sy c pid t)" by (auto simp: flowLoad_def u split: option.split)
  show "keeps p (flowAuthConfig sy c pid)" by (auto simp: flowAuthConfig_def)
  show "keeps p (flowRequiredConsents sy c pid l)" by (auto simp: flowRequiredConsents_def)
  show "keeps p (flowFindRedeemableInvite sy c pid t e)" by (auto simp: flowFindRedeemableInvite_def)
  show "keeps p (flowAccessRequestApproved pid env e)" by (auto simp: flowAccessRequestApproved_def)
qed

lemma keeps_flow_writes:
  assumes "\<And>f d. p (db_flows_update f d) = p d"
  shows "keeps p (flowSave row f)" "keeps p (flowRotate sy row f)" "keeps p (flowInsert sy f t data)" "keeps p (persist_new sy f data)"
    "keeps p (flowPersistAtStep sy f st fe)"
proof -
  show "keeps p (flowSave row f)" using assms by (auto simp: flowSave_def)
  show "keeps p (flowRotate sy row f)" using assms by (auto simp: flowRotate_def Let_def)
  show i: "keeps p (flowInsert sy f t data)" for f t data using assms by (auto simp: flowInsert_def insert_unique_def Let_def)
  show n: "keeps p (persist_new sy f data)" for f data by (auto simp: persist_new_def i)
  show "keeps p (flowPersistAtStep sy f st fe)" by (simp add: flowPersistAtStep_def Let_def n)
qed

section \<open>The registration gate\<close>


lemma quiet_consents: "quiet (coreAuthInsertRegisterConsents sy c acc env al lo cs)"
  by (induction cs) (auto simp: coreAuthInsertRegisterConsents.simps)

lemma keeps_consents:
  "(\<And>f d. p (db_consents_update f d) = p d) \<Longrightarrow> keeps p (coreAuthInsertRegisterConsents sy c acc env al lo cs)"
  by (induction cs) (auto simp: coreAuthInsertRegisterConsents.simps)

text \<open>Registration and the e-mail challenge leave the invitations alone.\<close>

lemma db_invites_aside: "aside db_invites" by (simp add: aside_def side_free_def)

lemma keeps_policy [intro!]:
  "keeps p (coreAuthEnforcePasswordPolicy sy c pid pw)" "keeps p (coreAuthHashPassword sy pw)" "keeps p (coreAuthRandomCode sy)"
  by (auto simp: coreAuthEnforcePasswordPolicy_def CheckPassword_def PasswordPolicy_def rawDoc_def coreAuthHashPassword_def
      coreAuthRandomCode_def split: option.split)

lemma keeps_invites_Register: "keeps db_invites (Register sy po c cmd)"
proof -
  note as = db_invites_aside asideD(1) [OF db_invites_aside]
  have mint: "keeps db_invites (coreAuthMintSession sy c acc cl amr aal)" for acc cl amr aal
    by (rule keeps_mint) (use as in auto)
  have k: "keeps db_invites (coreAuthInsertRegisterUser sy c cmd env)" "keeps db_invites (coreAuthInsertRegisterPassword sy c acc env pw)" for env acc pw
    by (auto simp: coreAuthInsertRegisterUser_def coreAuthInsertRegisterPassword_def insert_unique_def Let_def)
  have q: "quiet (coreAuthInsertRegisterUser sy c cmd env)" "quiet (coreAuthInsertRegisterPassword sy c acc env pw)" for env acc pw
    by (auto simp: coreAuthInsertRegisterUser_def coreAuthInsertRegisterPassword_def coreAuthEnforcePasswordPolicy_def CheckPassword_def
      PasswordPolicy_def rawDoc_def coreAuthHashPassword_def Let_def split: option.split)
  have l: "keeps db_invites (coreAuthConsentLocales sy c pid l)" for pid l by (auto simp: coreAuthConsentLocales_def)
  have g: "keeps db_invites (coreAuthCheckRequiredConsents sy c pid l ac)" for pid l ac
    by (auto simp: coreAuthCheckRequiredConsents_def Let_def)
  have h: "keeps db_invites (coreAuthInvokeUserCreateHooks po c cmd)" by (auto simp: coreAuthInvokeUserCreateHooks_def)
  show ?thesis
    unfolding Register_def
    by (auto intro!: keeps_withTx mint k l g h keeps_consents pooled_mint [OF as(1)] pooled_quiet [OF q(1)] pooled_quiet [OF q(2)]
        pooled_quiet [OF quiet_consents] pooled_quiet [OF quiet_Emit] simp: as)
qed

lemma keeps_invites_signup: "keeps db_invites (flowSignupRegisterAndPersist sy po c f cmd pw)"
proof -
  have "keeps db_invites (coreAuthInsertChallenge sy c ch)" for ch
    by (auto simp: coreAuthInsertChallenge_def Let_def asideD(1) [OF db_invites_aside])
  moreover have "quiet (coreAuthInsertChallenge sy c ch)" for ch by (auto simp: coreAuthInsertChallenge_def Let_def)
  ultimately have "keeps db_invites (StartEmailVerification sy c v)" if "vs_suppress_email v" for v
    using that by (auto simp: StartEmailVerification_def coreAuthStartChallenge_def newCoreAuthChallenge_def Let_def
        intro!: keeps_withTx pooled_quiet)
  then show ?thesis
    unfolding flowSignupRegisterAndPersist_def Let_def
    by (auto intro!: keeps_invites_Register keeps_flow_writes)
qed


lemma flowFindRedeemableInvite_Inr:
  assumes "flowFindRedeemableInvite sy c pid t em s = (Inr (Some iv), s')"
  shows "iv \<in> set (db_invites (tx_db s))" and "iv_token_hash iv = inviteHashToken sy t" and "\<exists>env. fst (effectiveEnv sy c pid s) = Inr env \<and> redeemable c pid env em iv"
    and "tx_db s' = tx_db s"
proof -
  show "tx_db s' = tx_db s" by (rule keepsD [of "\<lambda>d. d", OF keeps_flow_reads(6) assms])
  from assms obtain env s1 where env: "effectiveEnv sy c pid s = (Inr env, s1)"
    and f: "find (\<lambda>r. iv_token_hash r = inviteHashToken sy t) (db_invites (tx_db s1)) = Some iv" "redeemable c pid env em iv"
    by (auto simp: flowFindRedeemableInvite_def res_simps split: option.splits if_splits)
  have "tx_db s1 = tx_db s" by (rule keepsD [of "\<lambda>d. d", OF keeps_effectiveEnv env])
  with f env show "iv \<in> set (db_invites (tx_db s))" "iv_token_hash iv = inviteHashToken sy t"
    "\<exists>env. fst (effectiveEnv sy c pid s) = Inr env \<and> redeemable c pid env em iv"
    by (auto simp: find_Some_iff)
qed

lemma flowMarkInviteAccepted_claimed:
  assumes "flowMarkInviteAccepted c iv s = (Inr b, s')"
  shows "db_users (tx_db s') = db_users (tx_db s)" and "r \<in> set (db_invites (tx_db s')) \<Longrightarrow> iv_id r = iv_id iv \<Longrightarrow> iv_status r \<noteq> ''pending''"
  using assms by (auto simp: flowMarkInviteAccepted_def Let_def res_simps update_where_def split: if_splits)

lemma invite_spent:
  assumes "advanceSignupCreateAccepted sy po c f cmd iv s = (r, s')" and "db_users (tx_db s') \<noteq> db_users (tx_db s)"
  shows "\<forall>r \<in> set (db_invites (tx_db s')). iv_id r = iv_id iv \<longrightarrow> iv_status r \<noteq> ''pending''"
proof -
  obtain b s1 where b: "flowMarkInviteAccepted c iv s = (b, s1)" by (cases "flowMarkInviteAccepted c iv s")
  note stay = keepsD [OF keeps_flow_writes(5) [of db_users]]
  from b obtain ok where ok: "b = Inr ok" by (auto simp: flowMarkInviteAccepted_def tx_bind_def Let_def)
  note mark = flowMarkInviteAccepted_claimed [OF b [unfolded ok]]
  from assms b ok mark(1) stay have "flowSignupRegisterAndPersist sy po c f cmd (fd_password_strategy f) s1 = (r, s')"
    by (auto simp: advanceSignupCreateAccepted_def tx_bind_def split: if_splits)
  then have "db_invites (tx_db s') = db_invites (tx_db s1)" by (rule keepsD [OF keeps_invites_signup])
  with mark(2) show ?thesis by simp
qed

text \<open>What admits a new account in each registration mode.\<close>

definition admitted :: "sys \<Rightarrow> ctx \<Rightarrow> string \<Rightarrow> Flow \<Rightarrow> FlowCreateCmd \<Rightarrow> db \<Rightarrow> db \<Rightarrow> bool" where
  "admitted sy c mode f cmd d d' \<longleftrightarrow>
     mode \<noteq> ''closed''
   \<and> (mode = ''invite_only'' \<longrightarrow>
        (\<exists>iv \<in> set (db_invites d). iv_token_hash iv = inviteHashToken sy (fc_invite_token cmd)
           \<and> (\<exists>env t. tx_db t = d \<and> fst (effectiveEnv sy c (fo_project_id f) t) = Inr env
                \<and> redeemable c (fo_project_id f) env (fc_email cmd) iv)
           \<and> (\<forall>r \<in> set (db_invites d'). iv_id r = iv_id iv \<longrightarrow> iv_status r \<noteq> ''pending'')))
   \<and> (mode = ''request_access'' \<longrightarrow>
        (\<exists>r \<in> set (db_access_requests d). ar_project_id r = fo_project_id f \<and> ar_environment r = fo_environment f
           \<and> ar_email r = fc_email cmd \<and> ar_status r = ''approved''))"

text \<open>C14: the registration policy is enforced by the sign-up flow. Starting a sign-up changes the accounts only if the project's
  registration mode admits it: never when registration is closed; in an invite-only project only with a pending invitation of
  this project and of the request's environment that has not expired and is not bound to another address, and that invitation is spent afterwards; in a project
  with access requests only when a request for the same address was approved.
\<close>

theorem registration_gate_enforced:
  assumes "AuthConfig sy c (fo_project_id f) s = (Inr cfg, s1)"
    and "advanceSignupCreate sy po c f cmd s = (r, s')"
    and "db_users (tx_db s') \<noteq> db_users (tx_db s)"
  shows "admitted sy c (ea_registration_mode cfg) f cmd (tx_db s) (tx_db s')"
proof -
  define mode where "mode = ea_registration_mode cfg"
  define g where "g = f\<lparr>fd_registration_mode := mode, fd_password_strategy := ea_password_strategy cfg\<rparr>"
  have s1: "tx_db s1 = tx_db s" by (rule keepsD [of "\<lambda>d. d", OF keeps_config(1) assms(1)])
  have g_id: "fo_project_id g = fo_project_id f" "fo_environment g = fo_environment f" by (simp_all add: g_def)
  have stay: "db_users (tx_db s') = db_users (tx_db t)" if "flowPersistAtStep sy g st fe t = (r, s')" for st fe t
    by (rule keepsD [OF keeps_flow_writes(5) that]) simp
  have ac: "flowAuthConfig sy c (fo_project_id f) s = (Inr (mode, ea_password_strategy cfg), s1)"
    using assms(1) by (simp add: flowAuthConfig_def tx_handle_def mode_def)
  have run: "(if mode = ''closed'' then flowPersistAtStep sy g ''blocked'' (Some (''registration_closed'', ''Registration is closed.''))
     else if mode = ''invite_only''
     then (if fc_invite_token cmd = []
           then flowPersistAtStep sy g ''blocked'' (Some (''invite_required'', ''An invitation is required to sign up.''))
           else tx_bind (flowFindRedeemableInvite sy c (fo_project_id g) (fc_invite_token cmd) (fc_email cmd)) (\<lambda>found.
             case found of None \<Rightarrow> flowPersistAtStep sy g ''blocked'' (Some invite_invalid)
             | Some iv \<Rightarrow> advanceSignupCreateAccepted sy po c g cmd iv))
     else if mode = ''request_access''
     then tx_bind (flowAccessRequestApproved (fo_project_id g) (fo_environment g) (fc_email cmd)) (\<lambda>approved.
            if approved then flowSignupRegisterAndPersist sy po c g cmd (ea_password_strategy cfg)
            else flowPersistAtStep sy g ''request_access'' None)
     else flowSignupRegisterAndPersist sy po c g cmd (ea_password_strategy cfg)) s1 = (r, s')"
    unfolding assms(2) [symmetric]
    by (simp only: advanceSignupCreate_def tx_bind_def [of "flowAuthConfig sy c (fo_project_id f)"] ac Let_def prod.case sum.case g_def)
  consider "mode = ''closed''" | "mode = ''invite_only''" | "mode = ''request_access''"
    | "mode \<noteq> ''closed''" "mode \<noteq> ''invite_only''" "mode \<noteq> ''request_access''" by blast
  then show ?thesis
  proof cases
    case 1
    with run stay s1 assms(3) show ?thesis by auto
  next
    case 2
    with run stay s1 assms(3) have no: "fc_invite_token cmd \<noteq> []" by auto
    obtain found s2 where f: "flowFindRedeemableInvite sy c (fo_project_id g) (fc_invite_token cmd) (fc_email cmd) s1 = (found, s2)"
      by (cases "flowFindRedeemableInvite sy c (fo_project_id g) (fc_invite_token cmd) (fc_email cmd) s1")
    have s2: "tx_db s2 = tx_db s" using keepsD [of "\<lambda>d. d", OF keeps_flow_reads(6) f] s1 by simp
    from run 2 no f stay s2 assms(3) obtain iv where iv: "found = Inr (Some iv)"
      and acc: "advanceSignupCreateAccepted sy po c g cmd iv s2 = (r, s')"
      by (cases found) (auto simp: tx_bind_def split: option.splits)
    note inv = flowFindRedeemableInvite_Inr [OF f [unfolded iv]]
    have "\<forall>r \<in> set (db_invites (tx_db s')). iv_id r = iv_id iv \<longrightarrow> iv_status r \<noteq> ''pending''"
      using invite_spent [OF acc] assms(3) s2 by auto
    with 2 inv(1,2,3) s1 show ?thesis unfolding admitted_def mode_def [symmetric] g_id by auto
  next
    case 3
    with run stay s1 assms(3) show ?thesis
      by (auto simp: admitted_def flowAccessRequestApproved_def tx_bind_def g_id list_ex_iff mode_def [symmetric] split: if_splits)
  qed (simp add: admitted_def mode_def [symmetric])
qed

section \<open>The consent gate\<close>

lemma set_merge_consents: "set (merge_consents out xs) = set out \<union> set xs"
  by (induction out xs rule: merge_consents.induct) auto

lemma set_mergeConsentAcceptances: "set (mergeConsentAcceptances ls) = \<Union> (set ` set ls)"
  by (simp add: mergeConsentAcceptances_def set_merge_consents)

lemma no_missing_consents:
  "missingRequiredConsents (flowRequiredConsentDocs f) accepted = [] \<longleftrightarrow> set (fd_consents_required f) \<subseteq> set accepted"
  by (auto simp: missingRequiredConsents_def flowRequiredConsentDocs_def filter_empty_conv)

lemma save_state_session: "save_state cmd row f s = (Inr st, s') \<Longrightarrow> sta_session st = None"
  by (auto simp: save_state_def flow_state_def res_simps)

lemma wrong_code_session: "signinWrongCode cmd row f msg s = (Inr st, s') \<Longrightarrow> sta_session st = None"
  by (auto simp: signinWrongCode_def flow_state_def Let_def tx_handle_def split: prod.splits sum.splits)

lemma gate_session:
  assumes "flowCompleteOrGateConsents sy c row f cmd sess s = (Inr st, s')" and "sta_session st \<noteq> None"
  shows "set (fd_consents_required f) \<subseteq> set (fd_consents_accepted f)"
proof (cases "missingRequiredConsents (flowRequiredConsentDocs f) (fd_consents_accepted f) = []")
  case True
  then show ?thesis by (simp add: no_missing_consents)
next
  case False
  then have "flowRequiredConsentDocs f \<noteq> []" by (auto simp: missingRequiredConsents_def)
  with False assms show ?thesis
    by (auto simp: flowCompleteOrGateConsents_def Let_def res_simps dest: save_state_session)
qed

definition submitted_consents :: "ports \<Rightarrow> FlowSubmitCmd \<Rightarrow> FlowConsentRef set" where
  "submitted_consents po cmd =
     (if fb_action cmd = ''accept_consents''
      then (case parseConsentAccept po (if payload_at cmd ''accept'' = [] then payload_at cmd ''consents'' else payload_at cmd ''accept'') of
              Inl _ \<Rightarrow> {} | Inr refs \<Rightarrow> set refs)
      else {})"

lemma advanceSignup_session:
  assumes "advanceSignup sy po c row f cmd s = (Inr st, s')" and "sta_session st \<noteq> None"
  shows "set (fd_consents_required f) \<subseteq> set (fd_consents_accepted f) \<union> submitted_consents po cmd"
proof -
  consider (verify) "signupVerifyEmail sy c row f cmd s = (Inr st, s')" | (pw) "signupSetPassword sy c row f cmd s = (Inr st, s')"
    | (accept) "signupAcceptConsents sy po c row f cmd s = (Inr st, s')" "fb_action cmd = ''accept_consents''"
    using assms(1) by (auto simp: advanceSignup_def res_simps split: if_splits)
  then show ?thesis
  proof cases
    case verify
    then obtain acct :: Account and sess t where
      "flowCompleteOrGateConsents sy c row (f\<lparr>fd_active := None, fd_error := None, fo_user_id := acc_id acct\<rparr>) cmd (Some sess) t = (Inr st, s')"
      using assms(2)
      by (auto simp: signupVerifyEmail_def Let_def res_simps tx_handle_def split: option.splits prod.splits if_splits sum.splits
          dest: save_state_session wrong_code_session)
    from gate_session [OF this assms(2)] show ?thesis by auto
  next
    case pw
    then obtain sess t where "flowCompleteOrGateConsents sy c row f cmd (Some sess) t = (Inr st, s')"
      by (auto simp: signupSetPassword_def Let_def res_simps split: if_splits)
    from gate_session [OF this assms(2)] show ?thesis by blast
  next
    case accept
    then show ?thesis
      by (auto simp: signupAcceptConsents_def Let_def res_simps submitted_consents_def no_missing_consents set_mergeConsentAcceptances
          split: if_splits sum.splits)
  qed
qed

text \<open>C15: a sign-up flow hands out a session only when every consent document it requires was accepted, when the flow was created or
  in the submitted acceptance; at the other steps nothing a client submits can stand in for a missing acceptance.
\<close>

theorem signup_session_needs_consents:
  assumes "flowLoad sy c (fb_project_id cmd) (fb_flow_token cmd) s = (Inr (row, f), s1)" and "fo_kind f = ''signup''"
    and "Submit sy po c cmd s = (Inr st, s')" and "sta_session st \<noteq> None"
  shows "set (fd_consents_required f) \<subseteq> set (fd_consents_accepted f) \<union> submitted_consents po cmd"
  using assms(1-3) advanceSignup_session [OF _ assms(4)] by (auto simp: Submit_def flowAdvancers_def tx_bind_def)

section \<open>Resuming a flow\<close>

definition flow_of :: "flow_row \<Rightarrow> flowData \<Rightarrow> Flow" where
  "flow_of row data =
     flowData.extend data \<lparr>fo_id = fl_id row, fo_project_id = fl_project_id row, fo_environment = flowRowEnv row, fo_kind = fl_kind row,
       fo_status = fl_status row, fo_step = fl_step row, fo_user_id = fl_user_id row, fo_expires_at = fl_expires_at row\<rparr>"

lemma flowUnmarshalRow_run: "fl_auth row = Some data \<Longrightarrow> flowUnmarshalRow row s = (Inr (flow_of row data), s)"
  by (simp add: flowUnmarshalRow_def flow_of_def unmarshal_def)

text \<open>The stored row shows the client what the answer \<open>st\<close> showed.\<close>

definition resumes :: "sys \<Rightarrow> FlowState \<Rightarrow> db \<Rightarrow> bool" where
  "resumes sy st d \<longleftrightarrow>
     (\<exists>row data. find (\<lambda>r. fl_token_hash r = flowHashToken sy (sta_token st)) (db_flows d) = Some row \<and> fl_auth row = Some data
        \<and> fl_project_id row = fo_project_id (sta_flow st) \<and> fl_status row = fo_status (sta_flow st)
        \<and> fl_expires_at row = fo_expires_at (sta_flow st)
        \<and> (fo_environment (sta_flow st) \<noteq> [] \<longrightarrow> fl_environment row = fo_environment (sta_flow st))
        \<and> (fo_status (sta_flow st) = ''pending'' \<longrightarrow> oasFlowState (flow_state (sta_token st) (flow_of row data)) = oasFlowState st))"

definition resumable :: "sys \<Rightarrow> FlowState tx \<Rightarrow> bool" where
  "resumable sy m \<longleftrightarrow> (\<forall>s st s'. m s = (Inr st, s') \<longrightarrow> resumes sy st (tx_db s'))"

lemma resumable_intros [intro!]:
  "resumable sy (throw e)" "(\<And>x. resumable sy (f x)) \<Longrightarrow> resumable sy (tx_bind m f)"
  "(\<And>x. resumable sy (f x)) \<Longrightarrow> (\<And>e. resumable sy (h e)) \<Longrightarrow> resumable sy (tx_handle m h f)"
  by (auto simp: resumable_def res_simps tx_handle_def split: prod.splits sum.splits)

text \<open>The visible part of what is stored.\<close>

definition shows_as :: "flowData \<Rightarrow> Flow \<Rightarrow> bool" where
  "shows_as data f \<longleftrightarrow>
     fd_email data = fd_email f \<and> fd_phone data = fd_phone f \<and> fd_active data = fd_active f
   \<and> fd_consents_required data = fd_consents_required f \<and> fd_error data = fd_error f \<and> fd_available_methods data = fd_available_methods f"

lemma oas_challenge_stored [simp]: "oas_challenge (a\<lparr>ac_code := x, ac_token := y\<rparr>) = oas_challenge a" by (simp add: oas_challenge_def)

lemma insert_unique_find:
  assumes "insert_unique get upd clash r e s = (Inr u, s')" and "\<And>q. P q \<Longrightarrow> clash r q" and "P r"
    and "\<And>f d. get (upd f d) = f (get d)"
  shows "find P (get (tx_db s')) = Some r"
proof -
  have no: "\<not> list_ex (clash r) (get (tx_db s))" and s': "tx_db s' = upd (\<lambda>rs. rs @ [r]) (tx_db s)"
    using assms(1) by (auto simp: insert_unique_Inr)
  have "find P rs = None" if "\<not> list_ex (clash r) rs" for rs using that assms(2) by (induction rs) auto
  with no have "find P (get (tx_db s)) = None" by blast
  then show ?thesis using assms(3,4) s' by (simp add: find_append)
qed

lemma resumable_persist [intro!]:
  assumes "fo_status f = ''pending'' \<Longrightarrow> shows_as data f"
  shows "resumable sy (persist_new sy f data)"
  unfolding resumable_def
proof (intro allI impI)
  fix s st s' assume run: "persist_new sy f data s = (Inr st, s')"
  then obtain tok s1 where ins: "flowInsert sy f tok data s1 = (Inr (), s')" and st: "st = flow_state tok f"
    by (auto simp: persist_new_def res_simps flow_state_def)
  let ?row = "\<lambda>data'. \<lparr>fl_id = fo_id f, fl_project_id = fo_project_id f,
            fl_environment = (if fo_environment f = [] then coreAuthDefaultEnv else fo_environment f),
            fl_token_hash = flowHashToken sy tok, fl_kind = fo_kind f, fl_status = fo_status f, fl_step = fo_step f,
            fl_user_id = fo_user_id f, fl_expires_at = fo_expires_at f, fl_previous_token_hash = [],
            fl_payload = Some empty_security_flow, fl_auth = Some (flowDataRM data')\<rparr>"
  define data' where "data' = data\<lparr>fd_locale := (if fd_locale data = [] then fd_locale f else fd_locale data),
                      fd_redirect_to := (if fd_redirect_to data = [] then fd_redirect_to f else fd_redirect_to data)\<rparr>"
  have "find (\<lambda>r. fl_token_hash r = flowHashToken sy tok) (db_flows (tx_db s')) = Some (?row data')"
    by (rule insert_unique_find [OF ins [unfolded flowInsert_def Let_def, folded data'_def]]) auto
  moreover have "oasFlowState (flow_state tok (flow_of (?row data') (flowDataRM data'))) = oasFlowState (flow_state tok f)" if "fo_status f = ''pending''"
    using assms [OF that]
    by (cases "fd_active f") (auto simp: oasFlowState_def flow_state_def flow_of_def flowData.defs flowDataRM_def shows_as_def data'_def flowNextActions_def)
  ultimately show "resumes sy st (tx_db s')"
    unfolding resumes_def st by (auto simp: flow_state_def)
qed


text \<open>A flow as \<open>Create\<close> makes it, before its kind takes it over.\<close>

definition fresh_flow :: "Flow \<Rightarrow> bool" where
  "fresh_flow f \<longleftrightarrow> fd_active f = None \<and> fd_consents_required f = [] \<and> fd_available_methods f = [] \<and> fd_error f = None"

lemma resumable_signup: "fresh_flow f \<Longrightarrow> resumable sy (advanceSignupCreate sy po c f cmd)"
proof -
  assume f: "fresh_flow f"
  have at: "resumable sy (flowPersistAtStep sy g st fe)" if "fresh_flow g" for g st fe
    using that by (auto simp: flowPersistAtStep_def Let_def shows_as_def signup_data_def contact_data_def empty_flow_data_def fresh_flow_def)
  have reg: "resumable sy (flowSignupRegisterAndPersist sy po c g cmd pw)" if "fresh_flow g" for g pw
    using that by (auto simp: flowSignupRegisterAndPersist_def Let_def shows_as_def signup_data_def contact_data_def empty_flow_data_def fresh_flow_def)
  have fr: "fresh_flow (f\<lparr>fd_registration_mode := m, fd_password_strategy := w\<rparr>)" for m w using f by (simp add: fresh_flow_def)
  show ?thesis
    unfolding advanceSignupCreate_def advanceSignupCreateAccepted_def Let_def
    by (simp add: at reg fr resumable_intros split: prod.split option.split)
qed

lemma resumable_signin: "fresh_flow f \<Longrightarrow> resumable sy (createSignin sy po c f cmd)"
proof -
  assume f: "fresh_flow f"
  have pc: "resumable sy (signinPersistChallenge sy c g st ch x)" if "fresh_flow g" for g st ch x
    using that by (auto simp: signinPersistChallenge_def Let_def shows_as_def signin_data_def contact_data_def empty_flow_data_def fresh_flow_def)
  have over: "resumable sy (tx_bind (persist_new sy g d) (\<lambda>st. ret (st\<lparr>sta_session := x\<rparr>)))" if "fo_status g = ''completed''" for g d x
  proof -
    have persist: "resumable sy (persist_new sy g d)" using that by (intro resumable_persist) simp
    show ?thesis
      unfolding resumable_def
    proof (intro allI impI)
      fix s st s' assume "tx_bind (persist_new sy g d) (\<lambda>st. ret (st\<lparr>sta_session := x\<rparr>)) s = (Inr st, s')"
      then obtain st0 where st0: "persist_new sy g d s = (Inr st0, s')" "st = st0\<lparr>sta_session := x\<rparr>" by (auto simp: res_simps)
      then have "fo_status (sta_flow st0) = ''completed''" using that by (auto simp: persist_new_def flow_state_def res_simps)
      moreover have "resumes sy st0 (tx_db s')" using persist st0(1) unfolding resumable_def by blast
      ultimately show "resumes sy st (tx_db s')" unfolding resumes_def by (auto simp: st0(2))
    qed
  qed
  have pw: "resumable sy (createSigninPassword sy c g cmd)" if "fresh_flow g" for g
  proof -
    have "resumable sy (persist_new sy (g\<lparr>fo_user_id := u, fo_step := t, fd_available_methods := [], fd_active := a\<rparr>)
      (signin_data (g\<lparr>fo_user_id := u, fo_step := t, fd_available_methods := [], fd_active := a\<rparr>)))" for u t a
      using that by (auto simp: shows_as_def signin_data_def contact_data_def empty_flow_data_def fresh_flow_def)
    then show ?thesis
      unfolding createSigninPassword_def Let_def by (intro resumable_intros(2)) (simp add: over resumable_intros)
  qed
  have pk: "resumable sy (createSigninPasskey sy po c g cmd)" "resumable sy (createSigninOAuth sy po c g cmd)" if "fresh_flow g" for g
    using that by (auto simp: createSigninPasskey_def createSigninOAuth_def Let_def shows_as_def signin_data_def contact_data_def
      empty_flow_data_def fresh_flow_def)
  have fr: "fresh_flow (f\<lparr>fd_method := m\<rparr>)" for m using f by (simp add: fresh_flow_def)
  show ?thesis
    unfolding createSignin_def createSigninPhoneOTP_def createSigninMagicLink_def Let_def by (auto intro!: pc pw pk fr)
qed

lemma resumable_recovery: "fresh_flow f \<Longrightarrow> resumable sy (createRecovery sy c f cmd)"
proof -
  assume f: "fresh_flow f"
  have fin: "resumable sy (finalizeRecoveryFlow sy g ac ((contact_data g)\<lparr>fd_method := m\<rparr>))"
    "resumable sy (finalizeRecoveryFlow sy g ac (contact_data g))" if "fresh_flow g" for g ac m
    using that by (auto simp: finalizeRecoveryFlow_def shows_as_def contact_data_def empty_flow_data_def fresh_flow_def)
  have em: "fresh_flow g'" if "fresh_flow g" "recoveryEmailChallenge sy c g cmd s = (Inr (g', ac), s')" for g g' ac s s'
    using that by (auto simp: recoveryEmailChallenge_def tx_handle_def res_simps fresh_flow_def split: prod.splits sum.splits if_splits)
  have ph: "fresh_flow g'" if "fresh_flow g" "recoveryPhoneChallenge sy c g cmd ph s = (Inr (g', ac), s')" for g g' ac s s' ph
    using that by (auto simp: recoveryPhoneChallenge_def tx_handle_def res_simps fresh_flow_def split: prod.splits sum.splits if_splits)
  have fr: "fresh_flow (f\<lparr>fd_method := m, fo_step := st\<rparr>)" for st m using f by (simp add: fresh_flow_def)
  show ?thesis
    unfolding resumable_def
    by (auto simp: createRecovery_def createRecoveryPhone_def Let_def res_simps dest!: ph [OF fr] em [OF fr]
        dest: fin(1) [unfolded resumable_def, rule_format, rotated 1] fin(2) [unfolded resumable_def, rule_format, rotated 1])
qed


lemma fresh_new_flow: "fresh_flow (new_flow c i cmd env)"
  by (simp add: fresh_flow_def new_flow_def empty_flow_data_def flowData.defs)

lemma resumable_creators: "fresh_flow f \<Longrightarrow> resumable sy (flowCreators sy po c f cmd)"
  using resumable_signup resumable_signin resumable_recovery
  by (auto simp: flowCreators_def flowCreateCollect_def shows_as_def contact_data_def empty_flow_data_def fresh_flow_def)

lemma keeps_emitFlowContinue: "side_free p \<Longrightarrow> keeps p (emitFlowContinue sy c st r l)"
  by (auto simp: emitFlowContinue_def Let_def split: option.split)

lemma Create_resumes:
  assumes "Create sy po c cmd s = (Inr st, s')"
  shows "resumes sy st (tx_db s')"
proof -
  from assms obtain i env s1 s2 where cr: "flowCreators sy po c (new_flow c i cmd env) cmd s1 = (Inr st, s2)"
    and em: "emitFlowContinue sy c st (fc_redirect_to cmd) (fc_locale cmd) s2 = (Inr (), s')"
    by (auto simp: Create_def res_simps split: if_splits)
  have "resumes sy st (tx_db s2)"
    using resumable_creators [OF fresh_new_flow] cr unfolding resumable_def by blast
  moreover have "db_flows (tx_db s') = db_flows (tx_db s2)"
    by (rule keepsD [OF keeps_emitFlowContinue em]) (simp add: side_free_def)
  ultimately show ?thesis by (simp add: resumes_def)
qed

text \<open>C19: a flow can be resumed exactly as it was created. If the creation answered a pending flow, then until it expires
  \<open>Get\<close> with its token, in the same project and (nonempty) environment, answers exactly what the creation answered -- the step, the actions
  offered, the masked contact, the challenge, the required consents and the error -- for every kind of flow and every way to sign
  in, although what is stored leaves out the one-time code and link. If the creation itself completed the flow, as a password
  sign-in without a second factor does, \<open>Get\<close> answers that there is no such flow.
\<close>

theorem created_flow_resumes:
  assumes "Create sy po c cmd s = (Inr st, s')"
    and "effectiveEnv sy c' (fo_project_id (sta_flow st)) s' = (Inr (fo_environment (sta_flow st)), t)" and "fo_environment (sta_flow st) \<noteq> []"
    and "nowIn c' \<le> fo_expires_at (sta_flow st)"
  shows "if fo_status (sta_flow st) = ''pending''
     then \<exists>st'. fst (Get sy c' (fo_project_id (sta_flow st)) (sta_token st) s') = Inr st' \<and> oasFlowState st' = oasFlowState st
     else fst (Get sy c' (fo_project_id (sta_flow st)) (sta_token st) s') = Inl ErrFlowNotFound"
proof -
  obtain row data where row: "find (\<lambda>r. fl_token_hash r = flowHashToken sy (sta_token st)) (db_flows (tx_db s')) = Some row" "fl_auth row = Some data"
    "fl_project_id row = fo_project_id (sta_flow st)" "fl_status row = fo_status (sta_flow st)" "fl_expires_at row = fo_expires_at (sta_flow st)"
    "flowRowEnv row = fo_environment (sta_flow st)"
    and same: "fo_status (sta_flow st) = ''pending'' \<Longrightarrow> oasFlowState (flow_state (sta_token st) (flow_of row data)) = oasFlowState st"
    using Create_resumes [OF assms(1)] assms(3) unfolding resumes_def flowRowEnv_def by auto
  show ?thesis
  proof (cases "fo_status (sta_flow st) = ''pending''")
    case True
    with row assms(2,4) have "flowLoad sy c' (fo_project_id (sta_flow st)) (sta_token st) s' = (Inr (row, flow_of row data), t)"
      by (simp add: flowLoad_def tx_bind_def flowUnmarshalRow_run)
    then show ?thesis using same True by (simp add: Get_def tx_bind_def)
  next
    case False
    with row assms(2) show ?thesis by (simp add: Get_def flowLoad_def tx_bind_def)
  qed
qed

section \<open>Rotation and the end of a flow\<close>

definition flows_wf :: "db \<Rightarrow> bool" where
  "flows_wf d \<longleftrightarrow> distinct (map fl_id (db_flows d)) \<and> distinct (map fl_token_hash (db_flows d))"

lemma flowLoad_dead:
  assumes "\<And>r. r \<in> set (db_flows (tx_db s)) \<Longrightarrow> fl_token_hash r = flowHashToken sy token \<Longrightarrow> fl_status r \<noteq> ''pending''"
  shows "\<exists>e. fst (flowLoad sy c pid token s) = Inl e"
proof (cases "find (\<lambda>r. fl_token_hash r = flowHashToken sy token) (db_flows (tx_db s))")
  case (Some row)
  then have "fl_status row \<noteq> ''pending''" using assms by (auto simp: find_Some_iff)
  with Some show ?thesis
    by (cases "effectiveEnv sy c pid s") (auto simp: flowLoad_def tx_bind_def split: sum.split)
qed (auto simp: flowLoad_def tx_bind_def)

lemma flowRotate_Inr:
  assumes "flowRotate sy row f s = (Inr new, s')"
  shows "db_flows (tx_db s') = update_where (\<lambda>r. fl_id r = fl_id row) (\<lambda>r. (flow_written f r)\<lparr>fl_token_hash := flowHashToken sy new\<rparr>) (db_flows (tx_db s))"
    and "r \<in> set (db_flows (tx_db s)) \<Longrightarrow> fl_id r \<noteq> fl_id row \<Longrightarrow> fl_token_hash r \<noteq> flowHashToken sy new"
proof -
  obtain s1 where "flowMintToken sy s = (Inr new, s1)" and s': "tx_db s' = db_flows_update (update_where (\<lambda>r. fl_id r = fl_id row) (\<lambda>r. (flow_written f r)\<lparr>fl_token_hash := flowHashToken sy new\<rparr>)) (tx_db s1)"
    and no: "\<not> list_ex (\<lambda>r. fl_token_hash r = flowHashToken sy new \<and> fl_id r \<noteq> fl_id row) (db_flows (tx_db s1))"
    using assms by (auto simp: flowRotate_def Let_def res_simps split: if_splits)
  moreover from this(1) have "tx_db s1 = tx_db s" by (auto simp: flowMintToken_def res_simps)
  ultimately show "db_flows (tx_db s') = update_where (\<lambda>r. fl_id r = fl_id row) (\<lambda>r. (flow_written f r)\<lparr>fl_token_hash := flowHashToken sy new\<rparr>) (db_flows (tx_db s))"
    and "r \<in> set (db_flows (tx_db s)) \<Longrightarrow> fl_id r \<noteq> fl_id row \<Longrightarrow> fl_token_hash r \<noteq> flowHashToken sy new"
    by (auto simp: list_ex_iff)
qed

lemma distinct_rotated:
  assumes "distinct (map g xs)" and "distinct (map k xs)" and "\<And>x. x \<in> set xs \<Longrightarrow> k x \<noteq> i \<Longrightarrow> g x \<noteq> h"
    and "\<And>x. g (u x) = h"
  shows "distinct (map g (update_where (\<lambda>x. k x = i) u xs))"
  using assms(1-3)
proof (induction xs)
  case (Cons a xs)
  have rest: "map g (update_where (\<lambda>x. k x = i) u xs) = map g xs" if "i \<notin> k ` set xs"
    using that by (auto simp: update_where_def)
  show ?case
  proof (cases "k a = i")
    case True
    with Cons.prems(2) have "i \<notin> k ` set xs" by auto
    moreover have "h \<notin> g ` set xs" using Cons.prems(3) \<open>i \<notin> k ` set xs\<close> by force
    moreover have "update_where (\<lambda>x. k x = i) u (a # xs) = u a # update_where (\<lambda>x. k x = i) u xs" using True by (simp add: update_where_def)
    ultimately have "map g (update_where (\<lambda>x. k x = i) u (a # xs)) = h # map g xs" using rest assms(4) by simp
    with \<open>h \<notin> g ` set xs\<close> Cons.prems(1) show ?thesis by simp
  next
    case False
    with Cons.prems assms(4) have "g a \<notin> g ` set (update_where (\<lambda>x. k x = i) u xs)" by (auto simp: update_where_def)
    with Cons False show ?thesis by (auto simp: update_where_def)
  qed
qed (simp add: update_where_def)

lemma flow_written_id [simp]: "fl_id (flow_written f r) = fl_id r" "fl_status (flow_written f r) = fo_status f"
  by (simp_all add: flow_written_def)

lemma flowRotate_wf:
  assumes "flows_wf (tx_db s)" and "flowRotate sy row f s = (Inr new, s')"
  shows "flows_wf (tx_db s')"
proof -
  note rot = flowRotate_Inr [OF assms(2)]
  have "map fl_id (db_flows (tx_db s')) = map fl_id (db_flows (tx_db s))" unfolding rot(1) by (simp add: update_where_def)
  moreover have "distinct (map fl_token_hash (db_flows (tx_db s')))" unfolding rot(1)
    by (rule distinct_rotated) (use assms(1) rot(2) in \<open>auto simp: flows_wf_def\<close>)
  ultimately show ?thesis using assms(1) by (simp add: flows_wf_def)
qed

text \<open>C18: the step that completes a flow retires it. When the row of a flow is rotated to the status completed, neither the token the
  client used so far nor the new one opens the flow again, in any project, environment or at any time; the rows of all other
  flows stay as they are, and no two rows share an id or a token.
\<close>

theorem completion_retires_the_flow:
  assumes "flows_wf (tx_db s)" and "row \<in> set (db_flows (tx_db s))" and "fl_token_hash row = flowHashToken sy old"
    and "fo_status f = ''completed''" and "flowRotate sy row f s = (Inr new, s')"
  shows "flows_wf (tx_db s')
    \<and> {r \<in> set (db_flows (tx_db s')). fl_id r \<noteq> fl_id row} = {r \<in> set (db_flows (tx_db s)). fl_id r \<noteq> fl_id row}
    \<and> (\<exists>e. fst (flowLoad sy c pid old s') = Inl e) \<and> (\<exists>e. fst (flowLoad sy c pid new s') = Inl e)"
proof -
  note rot = flowRotate_Inr [OF assms(5)]
  have own: "fl_id r = fl_id row" if "r \<in> set (db_flows (tx_db s))" "fl_token_hash r = fl_token_hash row" for r
    using that assms(1,2) by (auto simp: flows_wf_def distinct_map dest: inj_onD)
  have "fl_status r \<noteq> ''pending''" if "r \<in> set (db_flows (tx_db s'))" "fl_token_hash r \<in> {flowHashToken sy old, flowHashToken sy new}" for r
    using that rot own assms(3,4) by (auto simp: update_where_def split: if_splits)
  then have "\<exists>e. fst (flowLoad sy c pid old s') = Inl e" "\<exists>e. fst (flowLoad sy c pid new s') = Inl e"
    by (blast intro: flowLoad_dead)+
  moreover have "{r \<in> set (db_flows (tx_db s')). fl_id r \<noteq> fl_id row} = {r \<in> set (db_flows (tx_db s)). fl_id r \<noteq> fl_id row}"
    unfolding rot(1) by (auto simp: update_where_def)
  ultimately show ?thesis using flowRotate_wf [OF assms(1,5)] by blast
qed

section \<open>Recovery\<close>

definition anonymous :: "oas_FlowState \<Rightarrow> oas_FlowState" where "anonymous v = v\<lparr>wf_flow_token := []\<rparr>"

text \<open>What of a flow its answer depends on.\<close>

definition looks where
  "looks f = (fo_kind f, fo_status f, fo_step f, fo_expires_at f, fd_email f, fd_phone f, map_option oas_challenge (fd_active f),
     fd_consents_required f, fd_error f, fd_available_methods f)"

lemma anonymous_looks:
  assumes "looks f = looks g"
  shows "anonymous (oasFlowState (flow_state t f)) = anonymous (oasFlowState (flow_state t' g))"
proof -
  have "fd_active f = None \<longleftrightarrow> fd_active g = None" using assms by (auto simp: looks_def map_option_case split: option.splits)
  with assms show ?thesis
    by (simp add: looks_def anonymous_def oasFlowState_def flow_state_def Let_def flowNextActions_def)
qed

lemma withTx_Inr: "withTx m s = (Inr x, s') \<Longrightarrow> \<exists>t t'. m t = (Inr x, t')"
  by (auto simp: withTx_def split: prod.splits sum.splits)

lemma issued_challenge: "withTx (coreAuthInsertChallenge sy c ch) s = (Inr x, s') \<Longrightarrow> cl_expires_at x = cg_expires_at ch"
  by (auto dest!: withTx_Inr simp: coreAuthInsertChallenge_def res_simps Let_def)

lemma reset_challenge_expiry: "reset_challenge sy c pid env ty a sub r l s = (Inr (ch, code, t), s') \<Longrightarrow> cg_expires_at ch = cx_now c + coreAuthChallengeTTL"
  by (auto simp: reset_challenge_def res_simps)

lemma recoveryEmail_looks:
  assumes "recoveryEmailChallenge sy c f cmd s = (Inr (g, ac), s')"
  shows "looks (g\<lparr>fd_active := Some ac\<rparr>) = looks (f\<lparr>fd_active := Some (dangling_challenge c [] coreAuthChallengeEmail)\<rparr>)"
proof -
  consider i where "g = f" "ac = dangling_challenge c i coreAuthChallengeEmail"
    | acc ch code t x s1 s2 s3 where "g = f\<lparr>fo_user_id := acc_id (acc :: Account)\<rparr>"
        "ac = (active_challenge c x coreAuthChallengeEmail)\<lparr>ac_code := code, ac_token := t\<rparr>" "cl_expires_at x = cx_now c + coreAuthChallengeTTL"
    using assms by (auto simp: recoveryEmailChallenge_def tx_handle_def res_simps dest!: issued_challenge reset_challenge_expiry
      split: prod.splits sum.splits if_splits)
  then show ?thesis by cases (simp_all add: looks_def oas_challenge_def dangling_challenge_def active_challenge_def)
qed

lemma recoveryPhone_looks:
  assumes "recoveryPhoneChallenge sy c f cmd ph s = (Inr (g, ac), s')"
  shows "looks (g\<lparr>fd_active := Some ac\<rparr>) = looks (f\<lparr>fd_active := Some (dangling_challenge c [] channelSMS)\<rparr>)"
proof -
  consider i where "g = f" "ac = dangling_challenge c i channelSMS"
    | acc i where "g = f\<lparr>fo_user_id := acc_id (acc :: Account)\<rparr>" "ac = dangling_challenge c i channelSMS"
    using assms by (auto simp: recoveryPhoneChallenge_def tx_handle_def res_simps split: prod.splits sum.splits if_splits)
  then show ?thesis by cases (simp_all add: looks_def oas_challenge_def dangling_challenge_def active_challenge_def)
qed

text \<open>The flow a recovery shows, as a function of the request alone.\<close>

definition recovery_shown :: "ctx \<Rightarrow> FlowCreateCmd \<Rightarrow> Flow" where
  "recovery_shown c cmd =
     (if fc_method cmd = ''phone_otp''
      then (new_flow c [] cmd [])\<lparr>fo_step := ''verify_phone'', fd_active := Some (dangling_challenge c [] channelSMS)\<rparr>
      else (new_flow c [] cmd [])\<lparr>fo_step := ''verify_email'', fd_active := Some (dangling_challenge c [] coreAuthChallengeEmail)\<rparr>)"

lemma finalize_state: "finalizeRecoveryFlow sy f ac d s = (Inr st, s') \<Longrightarrow> \<exists>t. st = flow_state t (f\<lparr>fd_active := Some ac\<rparr>)"
  by (auto simp: finalizeRecoveryFlow_def persist_new_def res_simps)

lemma createRecovery_shown:
  assumes "createRecovery sy c (new_flow c i cmd env) cmd s = (Inr st, s')"
  shows "\<exists>t f. st = flow_state t f \<and> looks f = looks (recovery_shown c cmd)"
proof (cases "fc_method cmd = ''phone_otp''")
  case True
  then obtain g ac s1 s2 t where
    r: "recoveryPhoneChallenge sy c ((new_flow c i cmd env)\<lparr>fd_method := ''phone_otp'', fo_step := ''verify_phone''\<rparr>) cmd (trim_space (fc_phone cmd)) s1
      = (Inr (g, ac), s2)" and st: "st = flow_state t (g\<lparr>fd_active := Some ac\<rparr>)"
    using assms by (auto simp: createRecovery_def createRecoveryPhone_def Let_def res_simps dest!: finalize_state split: if_splits)
  show ?thesis using recoveryPhone_looks [OF r] st True
    by (auto simp: recovery_shown_def looks_def new_flow_def flowData.defs intro!: exI [of _ "g\<lparr>fd_active := Some ac\<rparr>"])
next
  case False
  then obtain g ac s2 t where
    r: "recoveryEmailChallenge sy c ((new_flow c i cmd env)\<lparr>fd_method := coreAuthChallengeEmail, fo_step := ''verify_email''\<rparr>) cmd s
      = (Inr (g, ac), s2)" and st: "st = flow_state t (g\<lparr>fd_active := Some ac\<rparr>)"
    using assms by (auto simp: createRecovery_def Let_def res_simps dest!: finalize_state)
  show ?thesis using recoveryEmail_looks [OF r] st False
    by (auto simp: recovery_shown_def looks_def new_flow_def flowData.defs intro!: exI [of _ "g\<lparr>fd_active := Some ac\<rparr>"])
qed

text \<open>C17: recovery does not tell whether an account exists. Whatever the two databases hold, a recovery flow that is created answers the
  same for the same request -- step, actions, masked contact, challenge, expiry, no error -- apart from the random token.
\<close>

theorem recovery_reveals_nothing:
  assumes "fc_kind cmd = ''recovery''"
    and "Create sy po c cmd s1 = (Inr st1, s1')" and "Create sy po c cmd s2 = (Inr st2, s2')"
  shows "anonymous (oasFlowState st1) = anonymous (oasFlowState st2)"
proof -
  have shown: "\<exists>t f. st = flow_state t f \<and> looks f = looks (recovery_shown c cmd)" if "Create sy po c cmd s = (Inr st, s')" for s s' st
    using that assms(1) by (auto simp: Create_def flowCreators_def res_simps intro: createRecovery_shown split: if_splits)
  from shown [OF assms(2)] shown [OF assms(3)] show ?thesis by (metis anonymous_looks)
qed


lemma save_state_flow: "save_state cmd row f s = (Inr st, s') \<Longrightarrow> sta_flow st = f"
  by (auto simp: save_state_def flow_state_def res_simps)

lemma wrong_code_step: "signinWrongCode cmd row f msg s = (Inr st, s') \<Longrightarrow> fo_step (sta_flow st) = fo_step f"
  by (auto simp: signinWrongCode_def flow_state_def Let_def tx_handle_def split: prod.splits sum.splits)

text \<open>The secret a step of a recovery is answered with, and the kind of challenge it must open.\<close>

definition recovery_secret :: "Flow \<Rightarrow> FlowActiveChallenge \<Rightarrow> FlowSubmitCmd \<Rightarrow> CoreAuthVerifyConsumeCmd \<times> string" where
  "recovery_secret f a cmd =
     (if fo_step f = ''verify_email''
      then (flowVerifyConsumeCmd (fo_project_id f) [] (ac_challenge_id a) (fst (flowVerificationSecret cmd)) (snd (flowVerificationSecret cmd)),
            ''password_reset'')
      else (\<lparr>vc_project_id = fo_project_id f, vc_account_id = [], vc_challenge_id = ac_challenge_id a, vc_code = payload_at cmd ''code'', vc_token = []\<rparr>,
            coreAuthChallengePhone))"

lemma recovery_step_secret:
  assumes "advanceRecovery sy po c row f cmd s = (Inr st, s')" and "fo_step f \<noteq> ''set_password''" and "fo_step (sta_flow st) = ''set_password''"
  obtains a data t t' where "fd_active f = Some a" and "0 < ac_attempts_left a" and "fo_user_id (sta_flow st) = cg_account_id data"
    and "coreAuthConsumeChallenge sy c (fo_project_id f) (fst (recovery_secret f a cmd)) (snd (recovery_secret f a cmd)) t = (Inr data, t')"
    and "tx_db t = tx_db s"
proof -
  obtain a where a: "fd_active f = Some a" "0 < ac_attempts_left a"
    and run: "recovery_verified row f cmd (coreAuthConsumeChallenge sy c (fo_project_id f) (fst (recovery_secret f a cmd)) (snd (recovery_secret f a cmd))) s = (Inr st, s')"
    using assms by (auto simp: advanceRecovery_def recoveryVerifyEmail_def recoveryVerifyPhone_def recovery_secret_def res_simps not_le
        split: if_splits option.splits prod.splits)
  let ?m = "coreAuthConsumeChallenge sy c (fo_project_id f) (fst (recovery_secret f a cmd)) (snd (recovery_secret f a cmd))"
  from run assms(2,3) obtain data s1 where data: "withTx ?m s = (Inr data, s1)" and st: "fo_user_id (sta_flow st) = cg_account_id data"
    by (auto simp: recovery_verified_def tx_handle_def dest: wrong_code_step dest!: save_state_flow split: prod.splits sum.splits)
  then obtain t' where "?m (s\<lparr>tx_pool := []\<rparr>) = (Inr data, t')" by (auto simp: withTx_def split: prod.splits sum.splits)
  from that [OF a st this] show thesis by simp
qed

text \<open>C16: a recovery flow reaches the new password only through the secret that was sent: the challenge whose id the flow holds (or, for
  a flow that holds an empty id, the one whose link token was submitted) is a row of the database that is unconsumed, unexpired, of this project and of the kind the step asks for (a password reset, or a phone code),
  the submitted code or link has its hash, attempts were left, and the flow then speaks for the account the challenge was issued to.
\<close>

theorem recovery_needs_the_secret:
  assumes "flowLoad sy c (fb_project_id cmd) (fb_flow_token cmd) s = (Inr (row, f), s1)" and "fo_kind f = ''recovery''"
    and "Submit sy po c cmd s = (Inr st, s')" and "fo_step f \<noteq> ''set_password''" and "fo_step (sta_flow st) = ''set_password''"
  shows "\<exists>a ch data. fd_active f = Some a \<and> 0 < ac_attempts_left a \<and> ch \<in> set (db_challenges (tx_db s))
    \<and> (ac_challenge_id a \<noteq> [] \<longrightarrow> ch_id ch = ac_challenge_id a)
    \<and> consumable sy c (fo_project_id f) (fst (recovery_secret f a cmd)) (snd (recovery_secret f a cmd)) ch data
    \<and> fo_user_id (sta_flow st) = cg_account_id data"
proof -
  have s1: "tx_db s1 = tx_db s" by (rule keepsD [of "\<lambda>d. d", OF keeps_flow_reads(3) assms(1)])
  have "advanceRecovery sy po c row f cmd s1 = (Inr st, s')" using assms(1-3) by (simp add: Submit_def tx_bind_def flowAdvancers_def)
  then obtain a data t t' where a: "fd_active f = Some a" "0 < ac_attempts_left a" "fo_user_id (sta_flow st) = cg_account_id data"
    and con: "coreAuthConsumeChallenge sy c (fo_project_id f) (fst (recovery_secret f a cmd)) (snd (recovery_secret f a cmd)) t = (Inr data, t')"
    and t: "tx_db t = tx_db s1" by (rule recovery_step_secret [OF _ assms(4,5)])
  from con obtain ch where "ch \<in> set (db_challenges (tx_db t))"
    "consumable sy c (fo_project_id f) (fst (recovery_secret f a cmd)) (snd (recovery_secret f a cmd)) ch data"
    by (rule coreAuthConsumeChallenge_Inr)
  moreover from this(2) have "ac_challenge_id a \<noteq> [] \<longrightarrow> ch_id ch = ac_challenge_id a"
    by (auto simp: consumable_def recovery_secret_def flowVerifyConsumeCmd_def split: if_splits)
  ultimately show ?thesis using a t s1 by auto
qed

section \<open>Actions offered and accepted\<close>

lemma flowLoad_pending: "flowLoad sy c pid tok s = (Inr (row, f), s') \<Longrightarrow> fo_status f = ''pending''"
  by (auto simp: flowLoad_def flowUnmarshalRow_def res_simps flowData.defs split: option.splits if_splits)

text \<open>C20: three steps offer an action the engine refuses and none it needs. At the second factor of a sign-in the answer offers
  \<open>verify_mfa\<close> and the engine accepts only \<open>mfa\<close>; at the phone step of a recovery it offers \<open>verify_email\<close> and accepts only
  \<open>verify_phone\<close>; a passkey or social sign-in offers \<open>submit\<close> and accepts only \<open>verify_passkey\<close>, \<open>oauth_callback\<close> and a switch of
  the method. Of the accepted actions at most the switch is offered, and every submitted action that is not accepted is a bad
  request. (The \<open>resend\<close> that may be offered at the phone step is an endpoint of its own.)
\<close>

theorem offered_action_refused:
  assumes "flowLoad sy c (fb_project_id cmd) (fb_flow_token cmd) s = (Inr (row, f), s1)"
    and "(fo_kind f, fo_step f, offered, accepted) \<in>
      {(''signin'', ''mfa_required'', ''verify_mfa'', {''mfa''}), (''recovery'', ''verify_phone'', ''verify_email'', {''verify_phone''}),
       (''signin'', ''collect_credentials'', ''submit'', {''verify_passkey'', ''oauth_callback'', ''switch_method''})}"
  shows "offered \<in> set (flowNextActions f) \<and> offered \<notin> accepted \<and> set (flowNextActions f) \<inter> accepted \<subseteq> {''switch_method''}
     \<and> (fb_action cmd \<notin> accepted \<longrightarrow> (\<exists>msg. fst (Submit sy po c cmd s) = Inl (bad_request msg)))"
proof -
  have pend: "fo_status f = ''pending''" using assms(1) by (rule flowLoad_pending)
  have sub: "Submit sy po c cmd s = flowAdvancers sy po c row f cmd s1" using assms(1) by (simp add: Submit_def tx_bind_def)
  show ?thesis
    using assms(2)
  proof (elim insertE emptyE Pair_inject)
    assume mfa: "fo_kind f = ''signin''" "fo_step f = ''mfa_required''" "offered = ''verify_mfa''" "accepted = {''mfa''}"
    then have "\<exists>msg. fst (Submit sy po c cmd s) = Inl (bad_request msg)" if "fb_action cmd \<noteq> ''mfa''"
      using that by (cases "fb_action cmd = ''switch_method''") (auto simp: sub flowAdvancers_def advanceSignin_def)
    then show ?thesis using mfa pend by (simp add: flowNextActions_def)
  next
    assume phone: "fo_kind f = ''recovery''" "fo_step f = ''verify_phone''" "offered = ''verify_email''" "accepted = {''verify_phone''}"
    then have "\<exists>msg. fst (Submit sy po c cmd s) = Inl (bad_request msg)" if "fb_action cmd \<noteq> ''verify_phone''"
      using that by (auto simp: sub flowAdvancers_def advanceRecovery_def)
    then show ?thesis using phone pend by (simp add: flowNextActions_def)
  next
    assume collect: "fo_kind f = ''signin''" "fo_step f = ''collect_credentials''" "offered = ''submit''"
      "accepted = {''verify_passkey'', ''oauth_callback'', ''switch_method''}"
    then have "\<exists>msg. fst (Submit sy po c cmd s) = Inl (bad_request msg)" if "fb_action cmd \<notin> accepted"
      using that by (auto simp: sub flowAdvancers_def advanceSignin_def)
    then show ?thesis using collect pend by (simp add: flowNextActions_def)
  qed
qed

section \<open>Sample runs\<close>

definition flow_ports :: ports where
  "flow_ports =
     \<lparr>po_quote = (\<lambda>x. x), po_siteverify = (\<lambda>_ _. False), po_hooks = (\<lambda>_ _ _. Inr True),
      po_json_refs = (\<lambda>t. if t = ''[tos]'' then Some [(''tos'', ''1'')] else None), po_json_string = (\<lambda>_. None), po_json_object = (\<lambda>_. None),
      po_begin_passkey = (\<lambda>_ _ _. throw ErrNotFound), po_finish_passkey = (\<lambda>_ _ _. throw ErrNotFound),
      po_start_oauth = (\<lambda>_ _ _ _ _. throw ErrNotFound), po_complete_oauth = (\<lambda>_ _ _ _. throw ErrNotFound)\<rparr>"

definition policy_db :: "string \<Rightarrow> db" where
  "policy_db mode = sample_db
     \<lparr>db_config := (\<lambda>k. if k = (''p'', ''live'', ''auth'') then Some (JObj [(''registration'', JObj [(''mode'', JStr mode)])]) else None),
      db_invites := [\<lparr>iv_id = ''i'', iv_project_id = ''p'', iv_environment = ''live'', iv_email = None, iv_token_hash = ''h:inv'',
                     iv_status = ''pending'', iv_expires_at = None, iv_accepted_at = None\<rparr>],
      db_access_requests := [\<lparr>ar_id = ''a'', ar_project_id = ''p'', ar_environment = ''live'', ar_email = ''b@x.com'', ar_status = ''approved''\<rparr>]\<rparr>"

definition flow_request :: "string \<Rightarrow> string \<Rightarrow> FlowCreateCmd" where
  "flow_request kind email =
     \<lparr>fc_project_id = ''p'', fc_kind = kind, fc_email = email, fc_password = [], fc_name = [], fc_captcha_token = [], fc_method = [], fc_phone = [],
      fc_provider = [], fc_redirect_to = [], fc_locale = [], fc_invite_token = ''inv'', fc_consents = [], fc_cookie_mode = False\<rparr>"

definition signup_flow :: Flow where "signup_flow = new_flow (sample_ctx 0) ''f'' (flow_request ''signup'' ''b@x.com'') ''live''"

lemma bind_frame:
  assumes "m s = (Inr x, s')" and "\<And>x. keeps p (f x)"
  shows "p (tx_db (snd (tx_bind m f s))) = p (tx_db s')"
  using keepsD [OF assms(2), of x s'] assms(1) by (cases "f x s'") (simp add: tx_bind_def)

text \<open>After the registration itself a sign-up leaves the accounts alone.\<close>

lemma signup_users:
  assumes "Register sy po c \<lparr>rg_project_id = fo_project_id f, rg_email = fc_email cmd, rg_phone = [], rg_password = (if pw = ''after_verify'' then [] else fc_password cmd),
      rg_name = fc_name cmd, rg_locale = fc_locale cmd, rg_consents = [], rg_skip_consent_gate = True\<rparr> s = (Inr x, s')"
  shows "db_users (tx_db (snd (flowSignupRegisterAndPersist sy po c f cmd pw s))) = db_users (tx_db s')"
proof -
  have "keeps db_users (coreAuthInsertChallenge sy c ch)" "quiet (coreAuthInsertChallenge sy c ch)" for ch
    by (auto simp: coreAuthInsertChallenge_def Let_def side_free_def)
  then have ver: "keeps db_users (StartEmailVerification sy c v)" if "vs_suppress_email v" for v
    using that by (auto simp: StartEmailVerification_def coreAuthStartChallenge_def newCoreAuthChallenge_def Let_def intro!: keeps_withTx pooled_quiet)
  show ?thesis
    unfolding flowSignupRegisterAndPersist_def Let_def
    by (rule bind_frame [where p = db_users], rule assms) (auto intro!: ver keeps_flow_writes)
qed

definition approved_run :: "(error + FlowState) \<times> txs" where
  "approved_run = advanceSignupCreate sample_sys flow_ports (sample_ctx 0) signup_flow (flow_request ''signup'' ''b@x.com'') (sample_state (policy_db ''request_access''))"

lemma approved_run_registers: "length (db_users (tx_db (snd approved_run))) = 2"
proof -
  let ?s = "sample_state (policy_db ''request_access'')"
  let ?reg = "Register sample_sys flow_ports (sample_ctx 0) \<lparr>rg_project_id = ''p'', rg_email = ''b@x.com'', rg_phone = [], rg_password = [],
      rg_name = [], rg_locale = [], rg_consents = [], rg_skip_consent_gate = True\<rparr> (snd (flowAuthConfig sample_sys (sample_ctx 0) ''p'' ?s))"
  have "fst (flowAuthConfig sample_sys (sample_ctx 0) ''p'' ?s) = Inr (''request_access'', [])" by code_simp
  then obtain t where cfg: "flowAuthConfig sample_sys (sample_ctx 0) ''p'' ?s = (Inr (''request_access'', []), t)"
    by (cases "flowAuthConfig sample_sys (sample_ctx 0) ''p'' ?s") simp
  have t: "tx_db t = policy_db ''request_access''"
    using keepsD [of "\<lambda>d. d", OF keeps_flow_reads(4) cfg] by (simp add: sample_state_def)
  have "case ?reg of (Inr _, s') \<Rightarrow> length (db_users (tx_db s')) = 2 | (Inl _, _) \<Rightarrow> False" by code_simp
  then obtain x s' where reg: "?reg = (Inr x, s')" "length (db_users (tx_db s')) = 2" by (cases "?reg") (auto split: sum.splits)
  define g where "g = signup_flow\<lparr>fd_registration_mode := ''request_access'', fd_password_strategy := []\<rparr>"
  have ids: "fo_project_id signup_flow = ''p''" "fo_project_id g = ''p''" "fo_environment g = ''live''" "fo_environment signup_flow = ''live''"
    by (simp_all add: g_def signup_flow_def new_flow_def flow_request_def flowData.defs)
  have "list_ex (\<lambda>r. ar_project_id r = ''p'' \<and> ar_environment r = ''live'' \<and> ar_email r = ''b@x.com'' \<and> ar_status r = ''approved'') (db_access_requests (tx_db t))"
    by (simp add: t policy_db_def)
  then have "approved_run = flowSignupRegisterAndPersist sample_sys flow_ports (sample_ctx 0) g (flow_request ''signup'' ''b@x.com'') [] t"
    unfolding approved_run_def advanceSignupCreate_def ids(1) tx_bind_def [of "flowAuthConfig sample_sys (sample_ctx 0) ''p''"] cfg
    by (simp add: Let_def flowAccessRequestApproved_def tx_bind_def flip: g_def) (simp add: ids flow_request_def)
  moreover have "db_users (tx_db (snd (flowSignupRegisterAndPersist sample_sys flow_ports (sample_ctx 0) g (flow_request ''signup'' ''b@x.com'') [] t))) = db_users (tx_db s')"
    by (rule signup_users) (use reg(1) in \<open>simp add: cfg ids flow_request_def\<close>)
  ultimately show ?thesis using reg(2) by simp
qed

theorem registration_gate_enforced_witness:
  "length (db_users (tx_db (snd approved_run))) = 2
   \<and> admitted sample_sys (sample_ctx 0) ''request_access'' signup_flow (flow_request ''signup'' ''b@x.com'') (policy_db ''request_access'') (tx_db (snd approved_run))"
proof -
  let ?s = "sample_state (policy_db ''request_access'')"
  have "length (db_users (tx_db ?s)) = 1" by code_simp
  with approved_run_registers have grown: "db_users (tx_db (snd approved_run)) \<noteq> db_users (tx_db ?s)" by force
  have "case fst (AuthConfig sample_sys (sample_ctx 0) (fo_project_id signup_flow) ?s) of
          Inr cfg \<Rightarrow> ea_registration_mode cfg = ''request_access'' | Inl _ \<Rightarrow> False" by code_simp
  then obtain cfg s1 where cfg: "AuthConfig sample_sys (sample_ctx 0) (fo_project_id signup_flow) ?s = (Inr cfg, s1)"
    "ea_registration_mode cfg = ''request_access''"
    by (cases "AuthConfig sample_sys (sample_ctx 0) (fo_project_id signup_flow) ?s") (auto split: sum.splits)
  have run: "advanceSignupCreate sample_sys flow_ports (sample_ctx 0) signup_flow (flow_request ''signup'' ''b@x.com'') ?s
      = (fst approved_run, snd approved_run)" by (simp add: approved_run_def)
  from registration_gate_enforced [OF cfg(1) run grown] approved_run_registers cfg(2) show ?thesis by (simp add: sample_state_def)
qed

text \<open>A database with one flow, at the given step.\<close>

definition flow_db :: "string \<Rightarrow> string \<Rightarrow> flowData \<Rightarrow> db" where
  "flow_db kind step data = sample_db
     \<lparr>db_flows := [\<lparr>fl_id = ''f'', fl_project_id = ''p'', fl_environment = ''live'', fl_token_hash = ''h:ftk'', fl_kind = kind, fl_status = ''pending'',
        fl_step = step, fl_user_id = ''alice'', fl_expires_at = 1800 * Second, fl_previous_token_hash = [], fl_payload = Some empty_security_flow,
        fl_auth = Some data\<rparr>]\<rparr>"

definition flow_submit :: "string \<Rightarrow> string \<Rightarrow> string \<Rightarrow> FlowSubmitCmd" where
  "flow_submit action key val = \<lparr>fb_project_id = ''p'', fb_flow_token = ''ftk'', fb_action = action, fb_payload = [key \<mapsto> val]\<rparr>"

definition consent_state :: txs where
  "consent_state = sample_state (flow_db ''signup'' ''accept_consents'' (empty_flow_data\<lparr>fd_consents_required := [(''tos'', ''1'')]\<rparr>))"

theorem signup_session_needs_consents_witness:
  "(case fst (Submit sample_sys flow_ports (sample_ctx 0) (flow_submit ''accept_consents'' ''accept'' ''[tos]'') consent_state) of
      Inr st \<Rightarrow> sta_session st \<noteq> None | Inl _ \<Rightarrow> False)
   \<and> (''tos'', ''1'') \<in> submitted_consents flow_ports (flow_submit ''accept_consents'' ''accept'' ''[tos]'')"
proof -
  let ?cmd = "flow_submit ''accept_consents'' ''accept'' ''[tos]''"
  have ok: "case fst (Submit sample_sys flow_ports (sample_ctx 0) ?cmd consent_state) of Inr st \<Rightarrow> sta_session st \<noteq> None | Inl _ \<Rightarrow> False"
    by code_simp
  then obtain st s' where st: "Submit sample_sys flow_ports (sample_ctx 0) ?cmd consent_state = (Inr st, s')" "sta_session st \<noteq> None"
    by (cases "Submit sample_sys flow_ports (sample_ctx 0) ?cmd consent_state") (auto split: sum.splits)
  have "case fst (flowLoad sample_sys (sample_ctx 0) ''p'' ''ftk'' consent_state) of
     Inr (row, f) \<Rightarrow> fo_kind f = ''signup'' \<and> fd_consents_required f = [(''tos'', ''1'')] \<and> fd_consents_accepted f = [] | Inl _ \<Rightarrow> False"
    by code_simp
  then obtain row f s1 where f: "flowLoad sample_sys (sample_ctx 0) (fb_project_id ?cmd) (fb_flow_token ?cmd) consent_state = (Inr (row, f), s1)"
    "fo_kind f = ''signup''" "fd_consents_required f = [(''tos'', ''1'')]" "fd_consents_accepted f = []"
    by (cases "flowLoad sample_sys (sample_ctx 0) ''p'' ''ftk'' consent_state") (auto simp: flow_submit_def split: sum.splits)
  from signup_session_needs_consents [OF f(1,2) st] f(3,4) ok show ?thesis by simp
qed

definition recovery_run :: "db \<Rightarrow> (error + FlowState) \<times> txs" where
  "recovery_run d = Create sample_sys flow_ports (sample_ctx 0) (flow_request ''recovery'' ''a@x'') (sample_state d)"

lemmas create_eval = Create_def flowCreators_def effectiveEnv_def requested_env_def EnforceCaptcha_def coreAuthCaptchaConfigured_def IsBlocked_def
  newUUID_def persist_new_def flowMintToken_def flowInsert_def insert_unique_def emitFlowContinue_def tx_bind_def tx_handle_def Let_def
  sample_state_def sample_ctx_def flow_request_def no_meta_def new_flow_def empty_db_def flow_state_def runtimeDefaultEnv_def

lemmas recovery_eval = recovery_run_def createRecovery_def recoveryEmailChallenge_def coreAuthFindUserByEmail_def finalizeRecoveryFlow_def
  contact_data_def dangling_challenge_def active_challenge_def

lemma recovery_of_alice: "\<exists>st s'. recovery_run sample_db = (Inr st, s') \<and> fo_user_id (sta_flow st) = ''alice''"
  by (simp add: create_eval recovery_eval sample_db_def reset_challenge_def coreAuthRandomCode_def coreAuthRandomToken_def coreAuthLoadAccount_def
      coreAuthInsertChallenge_def insert_row_def Emit_unobserved observed_types_def session_events_def audit_Emit_def outbox_Emit_def withTx_def
      apply_pool_def sample_account_def unmarshal_def)

lemma recovery_of_nobody:
  "\<exists>st s'. recovery_run empty_db = (Inr st, s') \<and> fo_user_id (sta_flow st) = [] \<and> fo_status (sta_flow st) = ''pending''
     \<and> fo_environment (sta_flow st) = ''live'' \<and> fo_project_id (sta_flow st) = ''p'' \<and> fo_expires_at (sta_flow st) = flowTTL"
  by (simp add: create_eval recovery_eval err_is_def ErrUserNotFound_def)

theorem recovery_reveals_nothing_witness:
  "\<exists>st1 s1 st2 s2. recovery_run sample_db = (Inr st1, s1) \<and> recovery_run empty_db = (Inr st2, s2)
     \<and> fo_user_id (sta_flow st1) \<noteq> fo_user_id (sta_flow st2) \<and> anonymous (oasFlowState st1) = anonymous (oasFlowState st2)"
proof -
  obtain st1 s1 where 1: "recovery_run sample_db = (Inr st1, s1)" "fo_user_id (sta_flow st1) = ''alice''"
    using recovery_of_alice by blast
  obtain st2 s2 where 2: "recovery_run empty_db = (Inr st2, s2)" "fo_user_id (sta_flow st2) = []"
    using recovery_of_nobody by blast
  have "fc_kind (flow_request ''recovery'' ''a@x'') = ''recovery''" by (simp add: flow_request_def)
  from recovery_reveals_nothing [OF this 1(1) [unfolded recovery_run_def] 2(1) [unfolded recovery_run_def]] 1 2 show ?thesis by auto
qed

theorem created_flow_resumes_witness:
  "\<exists>st s' st'. recovery_run empty_db = (Inr st, s') \<and> fst (Get sample_sys (sample_ctx 5) ''p'' (sta_token st) s') = Inr st'
     \<and> oasFlowState st' = oasFlowState st"
proof -
  obtain st s' where st: "recovery_run empty_db = (Inr st, s')" "fo_status (sta_flow st) = ''pending''" "fo_environment (sta_flow st) = ''live''"
    "fo_project_id (sta_flow st) = ''p''" "fo_expires_at (sta_flow st) = flowTTL"
    using recovery_of_nobody by blast
  have env: "effectiveEnv sample_sys (sample_ctx 5) (fo_project_id (sta_flow st)) s' = (Inr (fo_environment (sta_flow st)), s')"
    by (simp add: st(3) effectiveEnv_def requested_env_def sample_ctx_def runtimeDefaultEnv_def)
  have "fo_environment (sta_flow st) \<noteq> []" "nowIn (sample_ctx 5) \<le> fo_expires_at (sta_flow st)"
    by (simp_all add: st nowIn_def sample_ctx_def flowTTL_def Minute_def Second_def)
  from created_flow_resumes [OF st(1) [unfolded recovery_run_def] env this] st(1,2,4) show ?thesis by auto
qed

definition retired_flow :: Flow where "retired_flow = (sta_flow (flow_state [] (new_flow (sample_ctx 0) ''f'' (flow_request ''signup'' ''b@x.com'') ''live'')))\<lparr>fo_status := ''completed''\<rparr>"

theorem completion_retires_the_flow_witness:
  "\<exists>new s'. flowRotate sample_sys (hd (db_flows (tx_db consent_state))) retired_flow consent_state = (Inr new, s')
     \<and> flows_wf (tx_db s') \<and> (\<exists>e. fst (flowLoad sample_sys (sample_ctx 1) ''p'' ''ftk'' s') = Inl e)
     \<and> (\<exists>e. fst (flowLoad sample_sys (sample_ctx 1) ''p'' new s') = Inl e)"
proof -
  let ?row = "hd (db_flows (tx_db consent_state))"
  have rows: "db_flows (tx_db consent_state) = [?row]" "fl_token_hash ?row = flowHashToken sample_sys ''ftk''"
    by (simp_all add: consent_state_def sample_state_def flow_db_def flowHashToken_def sample_sys_def)
  have "case fst (flowRotate sample_sys ?row retired_flow consent_state) of Inr _ \<Rightarrow> True | Inl _ \<Rightarrow> False" by code_simp
  then obtain new s' where run: "flowRotate sample_sys ?row retired_flow consent_state = (Inr new, s')"
    by (cases "flowRotate sample_sys ?row retired_flow consent_state") (auto split: sum.splits)
  have "flows_wf (tx_db consent_state)" unfolding flows_wf_def by (subst (1 2) rows(1)) simp
  moreover have "?row \<in> set (db_flows (tx_db consent_state))" by (subst (2) rows(1)) simp
  moreover have "fo_status retired_flow = ''completed''" by (simp add: retired_flow_def)
  ultimately show ?thesis using completion_retires_the_flow [OF _ _ rows(2) _ run] run by blast
qed

definition reset_state :: txs where
  "reset_state = sample_state ((flow_db ''recovery'' ''verify_email''
       (empty_flow_data\<lparr>fd_active := Some (dangling_challenge (sample_ctx 0) ''c1'' ''email'')\<rparr>))\<lparr>db_challenges := db_challenges challenge_db\<rparr>)"

theorem recovery_needs_the_secret_witness:
  "\<exists>ch data. ch \<in> set (db_challenges challenge_db) \<and> cg_type data = ''password_reset'' \<and> core_data ch = Some data \<and> \<not> ch_consumed ch
     \<and> cg_code_hash data = coreAuthSHA256 sample_sys ''123456''"
proof -
  let ?cmd = "flow_submit ''verify_email'' ''code'' ''123456''"
  have "case fst (Submit sample_sys flow_ports (sample_ctx 5) ?cmd reset_state) of Inr st \<Rightarrow> fo_step (sta_flow st) = ''set_password'' | Inl _ \<Rightarrow> False"
    by code_simp
  then obtain st s' where st: "Submit sample_sys flow_ports (sample_ctx 5) ?cmd reset_state = (Inr st, s')" "fo_step (sta_flow st) = ''set_password''"
    by (cases "Submit sample_sys flow_ports (sample_ctx 5) ?cmd reset_state") (auto split: sum.splits)
  have "case fst (flowLoad sample_sys (sample_ctx 5) ''p'' ''ftk'' reset_state) of
     Inr (row, f) \<Rightarrow> fo_kind f = ''recovery'' \<and> fo_step f = ''verify_email'' | Inl _ \<Rightarrow> False" by code_simp
  then obtain row f s1 where f: "flowLoad sample_sys (sample_ctx 5) (fb_project_id ?cmd) (fb_flow_token ?cmd) reset_state = (Inr (row, f), s1)"
    "fo_kind f = ''recovery''" "fo_step f = ''verify_email''"
    by (cases "flowLoad sample_sys (sample_ctx 5) ''p'' ''ftk'' reset_state") (auto simp: flow_submit_def split: sum.splits)
  from f(3) have "fo_step f \<noteq> ''set_password''" by simp
  from recovery_needs_the_secret [OF f(1,2) st(1) this st(2)] obtain a ch data where
    ch: "ch \<in> set (db_challenges (tx_db reset_state))"
    and ok: "consumable sample_sys (sample_ctx 5) (fo_project_id f) (fst (recovery_secret f a ?cmd)) (snd (recovery_secret f a ?cmd)) ch data"
    by blast
  have "flowVerificationSecret ?cmd = (''123456'', [])" by code_simp
  with ok f(3) have "cg_type data = ''password_reset''" "core_data ch = Some data" "\<not> ch_consumed ch" "cg_code_hash data = coreAuthSHA256 sample_sys ''123456''"
    by (simp_all add: consumable_defs recovery_secret_def flowVerifyConsumeCmd_def)
  moreover from ch have "ch \<in> set (db_challenges challenge_db)" by (simp add: reset_state_def sample_state_def)
  ultimately show ?thesis by blast
qed

theorem offered_action_refused_witness:
  "\<exists>msg. fst (Submit sample_sys flow_ports (sample_ctx 5) (flow_submit ''verify_mfa'' ''code'' ''1'')
     (sample_state (flow_db ''signin'' ''mfa_required'' empty_flow_data))) = Inl (bad_request msg)"
proof -
  let ?cmd = "flow_submit ''verify_mfa'' ''code'' ''1''" and ?s = "sample_state (flow_db ''signin'' ''mfa_required'' empty_flow_data)"
  have "case fst (flowLoad sample_sys (sample_ctx 5) ''p'' ''ftk'' ?s) of
     Inr (row, f) \<Rightarrow> fo_kind f = ''signin'' \<and> fo_step f = ''mfa_required'' | Inl _ \<Rightarrow> False" by code_simp
  then obtain row f s1 where f: "flowLoad sample_sys (sample_ctx 5) (fb_project_id ?cmd) (fb_flow_token ?cmd) ?s = (Inr (row, f), s1)"
    "fo_kind f = ''signin''" "fo_step f = ''mfa_required''"
    by (cases "flowLoad sample_sys (sample_ctx 5) ''p'' ''ftk'' ?s") (auto simp: flow_submit_def split: sum.splits)
  show ?thesis using offered_action_refused [OF f(1), of "''verify_mfa''" "{''mfa''}" flow_ports] f(2,3) by (simp add: flow_submit_def)
qed

section \<open>The direct endpoint\<close>

definition direct_request :: RegisterCmd where
  "direct_request = \<lparr>rg_project_id = ''p'', rg_email = ''b@x.com'', rg_phone = [], rg_password = [], rg_name = [], rg_locale = [], rg_consents = [],
     rg_skip_consent_gate = False\<rparr>"

text \<open>The registration mode does not bind the direct sign-up endpoint: in a sample project whose registration is closed the sign-up flow is
  blocked and creates no account, while the same request to the direct endpoint registers one and signs it in.
\<close>

lemma direct_sign_up_ignores_the_mode:
  "(case Create sample_sys flow_ports (sample_ctx 0) (flow_request ''signup'' ''b@x.com'') (sample_state (policy_db ''closed'')) of
      (Inr st, s') \<Rightarrow> fo_step (sta_flow st) = ''blocked'' \<and> map u_id (db_users (tx_db s')) = [''alice''] | (Inl _, _) \<Rightarrow> False)
   \<and> (case PostV1AuthSignUp sample_sys flow_ports (sample_ctx 0) direct_request [] (sample_state (policy_db ''closed'')) of
      (Inr (acc, sess), s') \<Rightarrow> se_account_id sess = acc_id acc \<and> map u_id (db_users (tx_db s')) = [''alice'', acc_id acc] | (Inl _, _) \<Rightarrow> False)"
proof
  let ?s = "(sample_state (policy_db ''closed''))\<lparr>tx_draws := 1\<rparr>"
  have "fst (flowAuthConfig sample_sys (sample_ctx 0) ''p'' ?s) = Inr (''closed'', [])" by code_simp
  then obtain t where cfg: "flowAuthConfig sample_sys (sample_ctx 0) ''p'' ?s = (Inr (''closed'', []), t)"
    by (cases "flowAuthConfig sample_sys (sample_ctx 0) ''p'' ?s") simp
  have t: "tx_db t = policy_db ''closed''" using keepsD [of "\<lambda>d. d", OF keeps_flow_reads(4) cfg] by (simp add: sample_state_def)
  show "case Create sample_sys flow_ports (sample_ctx 0) (flow_request ''signup'' ''b@x.com'') (sample_state (policy_db ''closed'')) of
      (Inr st, s') \<Rightarrow> fo_step (sta_flow st) = ''blocked'' \<and> map u_id (db_users (tx_db s')) = [''alice''] | (Inl _, _) \<Rightarrow> False"
    using cfg t by (simp add: create_eval advanceSignupCreate_def flowPersistAtStep_def policy_db_def sample_db_def)
qed code_simp

end
